(* ===== verification/Prelude.thy ===== *)
theory Prelude
  imports Main
begin

text \<open>
  Shared vocabulary of the development: Python exceptions as values, results that are either an
  exception or a value, checks that stop at the first failing condition, association lists that
  keep the insertion order of a Python dictionary, and the lemma collections the component
  theories extend (\<open>kernel_simps\<close> for the market simulator, \<open>wp_simps\<close> for the interactive
  programs, \<open>exactness\<close> for the decimal arithmetic).
\<close>

section \<open>Lemma collections\<close>

named_theorems kernel_simps \<open>unfolding rules of the simulator kernel\<close>
named_theorems wp_simps \<open>weakest-precondition rules of interactive programs\<close>
named_theorems exactness \<open>decimal operations that do not round\<close>

section \<open>Exceptions and results\<close>

datatype exn_class =
    ValueError
  | ValidationError
  | TypeError
  | KeyError
  | RuntimeError
  | PermissionError
  | OverflowError
  | SimulationIdentityConflict
  | SimulationControllerIntegrityError
  | PaperExecutionSafetyError
  | LiveMutationAuthorizationError
  | OtherError string

datatype exn = Exn (exn_kind: exn_class) (exn_text: string)

type_synonym 'a res = "exn + 'a"

abbreviation raise :: "exn_class \<Rightarrow> string \<Rightarrow> 'a res" where
  "raise c m \<equiv> Inl (Exn c m)"

definition is_ok :: "'a res \<Rightarrow> bool" where
  "is_ok r = (case r of Inl _ \<Rightarrow> False | Inr _ \<Rightarrow> True)"

definition rbind :: "'a res \<Rightarrow> ('a \<Rightarrow> 'b res) \<Rightarrow> 'b res" where
  "rbind r f = (case r of Inl e \<Rightarrow> Inl e | Inr a \<Rightarrow> f a)"

text \<open>A list of conditions, each with the exception it raises when it does not hold; they are
  tried in order, as consecutive \<^verbatim>\<open>if not c: raise e\<close> statements are.\<close>

fun ensure :: "(bool \<times> exn) list \<Rightarrow> unit res" where
  "ensure [] = Inr ()"
| "ensure ((c, e) # cs) = (if c then ensure cs else Inl e)"

text \<open>Python's list comprehension over a function that may raise.\<close>

fun rtraverse :: "('a \<Rightarrow> 'b res) \<Rightarrow> 'a list \<Rightarrow> 'b list res" where
  "rtraverse f [] = Inr []"
| "rtraverse f (x # xs) =
     rbind (f x) (\<lambda>y. rbind (rtraverse f xs) (\<lambda>ys. Inr (y # ys)))"

lemma is_ok_simps [simp]: "is_ok (Inr a)" "\<not> is_ok (Inl e)"
  by (simp_all add: is_ok_def)

lemma is_ok_iff: "is_ok r \<longleftrightarrow> (\<exists>a. r = Inr a)"
  by (cases r) auto

lemma rbind_simps [simp]: "rbind (Inl e) f = Inl e" "rbind (Inr a) f = f a"
  by (simp_all add: rbind_def)

lemma rbind_eq_Inr: "rbind r f = Inr b \<longleftrightarrow> (\<exists>a. r = Inr a \<and> f a = Inr b)"
  by (cases r) auto

lemma rbind_eq_Inl: "rbind r f = Inl e \<longleftrightarrow> r = Inl e \<or> (\<exists>a. r = Inr a \<and> f a = Inl e)"
  by (cases r) auto

lemma rbind_InrE [elim]:
  assumes "rbind r f = Inr b"
  obtains a where "r = Inr a" and "f a = Inr b"
  using assms by (auto simp: rbind_eq_Inr)

lemma ensure_ok_iff: "ensure cs = Inr u \<longleftrightarrow> (\<forall>p \<in> set cs. fst p)"
  by (induction cs rule: ensure.induct) auto

declare ensure.simps [simp del]

lemma ensure_append:
  "ensure (cs @ ds) = (case ensure cs of Inl e \<Rightarrow> Inl e | Inr _ \<Rightarrow> ensure ds)"
  by (induction cs rule: ensure.induct) (auto simp: ensure.simps)

lemma rtraverse_length: "rtraverse f xs = Inr ys \<Longrightarrow> length ys = length xs"
  by (induction xs arbitrary: ys) (auto simp: rbind_eq_Inr)

lemma rtraverse_nth:
  "rtraverse f xs = Inr ys \<Longrightarrow> i < length xs \<Longrightarrow> f (xs ! i) = Inr (ys ! i)"
proof (induction xs arbitrary: ys i)
  case Nil
  then show ?case by simp
next
  case (Cons x xs)
  then show ?case by (cases i) (auto simp: rbind_eq_Inr)
qed

section \<open>Ordered dictionaries\<close>

text \<open>
  A Python \<^verbatim>\<open>dict\<close> keeps its insertion order and replaces the value of a key that is already
  there in place. \<open>dict_get\<close> is \<^verbatim>\<open>d.get(k)\<close>, \<open>dict_set\<close> is \<^verbatim>\<open>d[k] = v\<close>,
  \<open>dict_pop\<close> is \<^verbatim>\<open>d.pop(k, None)\<close>.
\<close>

abbreviation dict_get :: "('k \<times> 'v) list \<Rightarrow> 'k \<Rightarrow> 'v option" where
  "dict_get \<equiv> map_of"

fun dict_set :: "'k \<Rightarrow> 'v \<Rightarrow> ('k \<times> 'v) list \<Rightarrow> ('k \<times> 'v) list" where
  "dict_set k v [] = [(k, v)]"
| "dict_set k v ((k', v') # d) = (if k = k' then (k, v) # d else (k', v') # dict_set k v d)"

definition dict_pop :: "'k \<Rightarrow> ('k \<times> 'v) list \<Rightarrow> ('k \<times> 'v) list" where
  "dict_pop k d = filter (\<lambda>p. fst p \<noteq> k) d"

lemma dict_get_set [simp]:
  "dict_get (dict_set k v d) k' = (if k' = k then Some v else dict_get d k')"
  by (induction d rule: dict_set.induct) auto

lemma dict_get_pop [simp]:
  "dict_get (dict_pop k d) k' = (if k' = k then None else dict_get d k')"
  by (induction d) (auto simp: dict_pop_def)

lemma keys_dict_set: "fst ` set (dict_set k v d) = insert k (fst ` set d)"
  by (induction d rule: dict_set.induct) auto

lemma distinct_dict_set:
  "distinct (map fst d) \<Longrightarrow> distinct (map fst (dict_set k v d))"
proof (induction d rule: dict_set.induct)
  case (1 k v)
  then show ?case by simp
next
  case (2 k v k' v' d)
  then show ?case
    using keys_dict_set [of k v d] by auto
qed

section \<open>Sums over lists\<close>

lemma sum_list_map_mono:
  fixes f g :: "'a \<Rightarrow> 'b::ordered_comm_monoid_add"
  shows "(\<And>x. x \<in> set xs \<Longrightarrow> f x \<le> g x) \<Longrightarrow> sum_list (map f xs) \<le> sum_list (map g xs)"
  by (rule sum_list_mono)

lemma sum_list_map_nonneg:
  fixes f :: "'a \<Rightarrow> 'b::ordered_comm_monoid_add"
  shows "(\<And>x. x \<in> set xs \<Longrightarrow> 0 \<le> f x) \<Longrightarrow> 0 \<le> sum_list (map f xs)"
  by (induction xs) (auto intro: add_nonneg_nonneg)

end
