(* ===== verification/Rounding.thy ===== *)
theory Rounding
  imports Prelude Complex_Main
begin

text \<open>
  Rounded arithmetic. Both number types of the program, \<^verbatim>\<open>decimal.Decimal\<close> under a context and
  the binary64 \<^verbatim>\<open>float\<close>, compute the exact rational result and round it to nearest (ties to the
  even significand) on a grid of \<open>p\<close> digits in base \<open>b\<close> whose finest step is \<open>b\<close> to the power
  \<open>emin\<close>. \<open>rnd b p emin\<close> is that function; the locale \<open>rounding\<close> states what its clients rely
  on, and the theories of the two number types interpret it.
\<close>

section \<open>Integer rounding\<close>

definition rhe :: "rat \<Rightarrow> int" where
  "rhe q = (let f = \<lfloor>q\<rfloor>; r = q - of_int f in
     if r < 1 / 2 then f else if 1 / 2 < r then f + 1 else if even f then f else f + 1)"

lemma rhe_of_int [simp]: "rhe (of_int n) = n"
  by (simp add: rhe_def)

lemma rhe_floor_bounds: "\<lfloor>q\<rfloor> \<le> rhe q" "rhe q \<le> \<lfloor>q\<rfloor> + 1"
  by (auto simp: rhe_def Let_def)

lemma rhe_mono:
  assumes "x \<le> y"
  shows "rhe x \<le> rhe y"
proof (cases "\<lfloor>x\<rfloor> = \<lfloor>y\<rfloor>")
  case True
  then show ?thesis using assms by (auto simp: rhe_def Let_def)
next
  case False
  with floor_mono [OF assms] have "\<lfloor>x\<rfloor> + 1 \<le> \<lfloor>y\<rfloor>" by linarith
  then show ?thesis using rhe_floor_bounds(2) [of x] rhe_floor_bounds(1) [of y] by linarith
qed

lemma rhe_error: "\<bar>of_int (rhe q) - q\<bar> \<le> 1 / 2"
proof -
  define f where "f = \<lfloor>q\<rfloor>"
  then have f: "\<lfloor>q\<rfloor> = f" "of_int f \<le> q" "q < of_int f + 1"
    using floor_correct [of q] by simp_all
  have "rhe q = f \<and> q - of_int f \<le> 1 / 2 \<or> rhe q = f + 1 \<and> 1 / 2 \<le> q - of_int f"
    unfolding rhe_def Let_def f(1) by auto
  then show ?thesis
  proof
    assume "rhe q = f \<and> q - of_int f \<le> 1 / 2"
    with f(2) show ?thesis by simp
  next
    assume "rhe q = f + 1 \<and> 1 / 2 \<le> q - of_int f"
    with f(3) have "of_int (rhe q) - q \<le> 1 / 2" "0 \<le> of_int (rhe q) - q" by simp_all
    then show ?thesis by simp
  qed
qed

lemma rhe_nonneg: "0 \<le> q \<Longrightarrow> 0 \<le> rhe q"
  using rhe_mono [of 0 q] rhe_of_int [of 0] by simp

section \<open>Powers with an integer exponent\<close>

definition pw :: "nat \<Rightarrow> int \<Rightarrow> rat" where
  "pw b k = (if 0 \<le> k then of_nat b ^ nat k else 1 / of_nat b ^ nat (- k))"

lemma pw_pos [simp]: "0 < b \<Longrightarrow> 0 < pw b k"
  by (simp add: pw_def)

lemma pw_nonzero [simp]: "0 < b \<Longrightarrow> pw b k \<noteq> 0"
  using pw_pos [of b k] by linarith

lemma pw_0 [simp]: "pw b 0 = 1"
  by (simp add: pw_def)

lemma pw_powi: "pw b k = power_int (of_nat b) k"
  by (simp add: pw_def power_int_def field_simps)

lemma pw_add: "0 < b \<Longrightarrow> pw b (j + k) = pw b j * pw b k"
  by (simp add: pw_powi power_int_add)

lemma pw_diff: "0 < b \<Longrightarrow> pw b (j - k) = pw b j / pw b k"
  by (simp add: pw_powi power_int_diff)

lemma pw_minus: "0 < b \<Longrightarrow> pw b (- k) = 1 / pw b k"
  by (simp add: pw_powi power_int_minus field_simps)

lemma pw_nat: "0 \<le> k \<Longrightarrow> pw b k = of_int (int b ^ nat k)"
  by (simp add: pw_def)

lemma pw_mono:
  assumes "1 < b" "j \<le> k"
  shows "pw b j \<le> pw b k"
  using assms by (simp add: pw_powi power_int_increasing)

lemma pw_strict_mono:
  assumes "1 < b" "j < k"
  shows "pw b j < pw b k"
  using assms by (simp add: pw_powi power_int_strict_increasing)

lemma pw_le_iff: "1 < b \<Longrightarrow> pw b j < pw b k \<longleftrightarrow> j < k"
  using pw_mono [of b k j] pw_strict_mono [of b j k] by (cases "j < k") auto

section \<open>The exponent of a positive rational\<close>

function ndigits :: "nat \<Rightarrow> int \<Rightarrow> nat" where
  "ndigits b n = (if b \<le> 1 \<or> n < int b then 1 else Suc (ndigits b (n div int b)))"
  by pat_completeness auto
termination
proof (relation "measure (\<lambda>(b, n). nat n)")
  fix b :: nat and n :: int
  assume "\<not> (b \<le> 1 \<or> n < int b)"
  then have "0 < n" "1 < int b" by auto
  then show "((b, n div int b), b, n) \<in> measure (\<lambda>(b, n). nat n)"
    by (simp add: int_div_less_self)
qed simp

declare ndigits.simps [simp del]

lemma ndigits_bounds:
  assumes "1 < b" "0 < n"
  shows "int b ^ (ndigits b n - 1) \<le> n \<and> n < int b ^ ndigits b n \<and> 0 < ndigits b n"
  using assms
proof (induction b n rule: ndigits.induct)
  case (1 b n)
  show ?case
  proof (cases "n < int b")
    case True
    with "1.prems" show ?thesis by (simp add: ndigits.simps)
  next
    case False
    let ?m = "n div int b" and ?d = "ndigits b (n div int b)"
    from False "1.prems" have m: "0 < ?m"
      by (simp add: pos_imp_zdiv_pos_iff)
    with "1.IH" False "1.prems" have IH: "int b ^ (?d - 1) \<le> ?m" "?m < int b ^ ?d" "0 < ?d"
      by auto
    have d: "ndigits b n = Suc ?d"
      using False "1.prems" by (simp add: ndigits.simps [of b n])
    have "int b ^ ?d = int b * int b ^ (?d - 1)"
      using IH(3) by (cases ?d) auto
    also have "\<dots> \<le> int b * ?m" using IH(1) by (intro mult_left_mono) auto
    also have "\<dots> \<le> n"
      using "1.prems" mult_div_mod_eq [of "int b" n] pos_mod_sign [of "int b" n] by linarith
    finally have lo: "int b ^ ?d \<le> n" .
    have "n < int b * (?m + 1)"
    proof -
      have "n mod int b < int b" using "1.prems" by simp
      moreover have "int b * ?m + n mod int b = n" by (rule mult_div_mod_eq)
      moreover have "int b * (?m + 1) = int b * ?m + int b" by (simp add: distrib_left)
      ultimately show ?thesis by linarith
    qed
    also have "\<dots> \<le> int b * int b ^ ?d" using IH(2) by (intro mult_left_mono) auto
    finally have "n < int b ^ Suc ?d" by simp
    with lo d show ?thesis by simp
  qed
qed

definition rat_exp :: "nat \<Rightarrow> rat \<Rightarrow> int" where
  "rat_exp b x = (let (n, d) = quotient_of x;
                      k = int (ndigits b n) - int (ndigits b d)
                  in if pw b k \<le> x then k else k - 1)"

lemma rat_exp_bounds:
  assumes "1 < b" "0 < x"
  shows "pw b (rat_exp b x) \<le> x" and "x < pw b (rat_exp b x + 1)"
proof -
  obtain n d where q: "quotient_of x = (n, d)" by (cases "quotient_of x") auto
  have d: "0 < d" using quotient_of_denom_pos [OF q] .
  have x: "x = of_int n / of_int d" using quotient_of_div [OF q] .
  have n: "0 < n" using assms(2) x d by (simp add: zero_less_divide_iff)
  let ?k = "int (ndigits b n) - int (ndigits b d)"
  have bounds: "pw b (int (ndigits b m) - 1) \<le> of_int m \<and> of_int m < pw b (int (ndigits b m))"
    if "0 < m" for m
  proof -
    have N: "int b ^ (ndigits b m - 1) \<le> m" "m < int b ^ ndigits b m" "0 < ndigits b m"
      using ndigits_bounds [of b m] assms(1) that by auto
    have P: "pw b (int j) = of_int (int b ^ j)" for j
      by (simp add: pw_def)
    have "int (ndigits b m) - 1 = int (ndigits b m - 1)" using N(3) by simp
    then show ?thesis using N(1,2) P [of "ndigits b m - 1"] P [of "ndigits b m"]
      by (metis of_int_le_iff of_int_less_iff)
  qed
  have n_lo: "pw b (int (ndigits b n) - 1) \<le> of_int n" and n_hi: "of_int n < pw b (int (ndigits b n))"
    using bounds [OF n] by auto
  have d_lo: "pw b (int (ndigits b d) - 1) \<le> of_int d" and d_hi: "of_int d < pw b (int (ndigits b d))"
    using bounds [OF d] by auto
  have b0: "0 < b" using assms(1) by simp
  have lo: "pw b (?k - 1) \<le> x"
  proof -
    have "pw b (?k - 1) = pw b (int (ndigits b n) - 1) / pw b (int (ndigits b d))"
      using b0 by (simp add: pw_diff [symmetric] algebra_simps)
    also have "\<dots> \<le> of_int n / of_int d"
      using n_lo d_hi d n b0 by (intro frac_le) (auto intro: less_imp_le)
    finally show ?thesis using x by simp
  qed
  have hi: "x < pw b (?k + 1)"
  proof -
    have "of_int n / of_int d <
        pw b (int (ndigits b n)) / pw b (int (ndigits b d) - 1)"
      using n_hi d_lo n d b0 by (intro frac_less) (auto intro: less_imp_le)
    also have "\<dots> = pw b (?k + 1)"
      using b0 by (simp add: pw_diff [symmetric] algebra_simps)
    finally show ?thesis using x by simp
  qed
  show "pw b (rat_exp b x) \<le> x" and "x < pw b (rat_exp b x + 1)"
    using lo hi by (auto simp: rat_exp_def q Let_def)
qed

section \<open>Rounding to nearest on a grid\<close>

definition grid_exp :: "nat \<Rightarrow> nat \<Rightarrow> int \<Rightarrow> rat \<Rightarrow> int" where
  "grid_exp b p emin x = max (rat_exp b x - (int p - 1)) emin"

definition rnd_pos :: "nat \<Rightarrow> nat \<Rightarrow> int \<Rightarrow> rat \<Rightarrow> rat" where
  "rnd_pos b p emin x =
     (let s = grid_exp b p emin x in of_int (rhe (x / pw b s)) * pw b s)"

definition rnd :: "nat \<Rightarrow> nat \<Rightarrow> int \<Rightarrow> rat \<Rightarrow> rat" where
  "rnd b p emin x =
     (if x = 0 then 0 else if 0 < x then rnd_pos b p emin x else - rnd_pos b p emin (- x))"

text \<open>A value is on the grid of step \<open>pw b k\<close> when it is an integer multiple of it.\<close>

definition on_grid :: "nat \<Rightarrow> int \<Rightarrow> rat \<Rightarrow> bool" where
  "on_grid b k x \<longleftrightarrow> x / pw b k = of_int \<lfloor>x / pw b k\<rfloor>"

lemma on_grid_iff: "0 < b \<Longrightarrow> on_grid b k x \<longleftrightarrow> (\<exists>m. x = of_int m * pw b k)"
proof
  assume b: "0 < b" and "on_grid b k x"
  then have "x / pw b k = of_int \<lfloor>x / pw b k\<rfloor>" by (simp add: on_grid_def)
  with b have "x = of_int \<lfloor>x / pw b k\<rfloor> * pw b k" by (metis nonzero_eq_divide_eq pw_nonzero)
  then show "\<exists>m. x = of_int m * pw b k" by blast
next
  assume b: "0 < b" and "\<exists>m. x = of_int m * pw b k"
  then obtain m where "x = of_int m * pw b k" by blast
  with b show "on_grid b k x" by (simp add: on_grid_def)
qed

lemma on_grid_coarser:
  assumes "0 < b" "j \<le> k" "on_grid b k x"
  shows "on_grid b j x"
proof -
  obtain m where m: "x = of_int m * pw b k" using assms on_grid_iff by blast
  have "pw b k = pw b (k - j) * pw b j" using assms(1) pw_add [of b "k - j" j] by simp
  moreover have "pw b (k - j) = of_int (int b ^ nat (k - j))" using assms(2) by (simp add: pw_nat)
  ultimately have "x = of_int (m * int b ^ nat (k - j)) * pw b j" using m by simp
  then show ?thesis using assms(1) on_grid_iff by blast
qed

lemma rnd_pos_exact:
  assumes "0 < b" "on_grid b (grid_exp b p emin x) x"
  shows "rnd_pos b p emin x = x"
proof -
  obtain m where m: "x = of_int m * pw b (grid_exp b p emin x)"
    using assms on_grid_iff by blast
  then have "x / pw b (grid_exp b p emin x) = of_int m"
    using assms(1) by (metis nonzero_eq_divide_eq pw_nonzero)
  then have "rnd_pos b p emin x = of_int m * pw b (grid_exp b p emin x)"
    by (simp add: rnd_pos_def)
  then show ?thesis using m by simp
qed

lemma rnd_pos_upper:
  assumes "0 < b" "x \<le> z" "on_grid b (grid_exp b p emin x) z"
  shows "rnd_pos b p emin x \<le> z"
proof -
  let ?s = "grid_exp b p emin x"
  obtain m where m: "z = of_int m * pw b ?s" using assms on_grid_iff by blast
  have "x / pw b ?s \<le> of_int m"
    using assms(1,2) m by (simp add: pos_divide_le_eq)
  then have "rhe (x / pw b ?s) \<le> m" using rhe_mono [of "x / pw b ?s" "of_int m"] by simp
  then show ?thesis
    using assms(1) m by (simp add: rnd_pos_def Let_def mult_right_mono)
qed

lemma rnd_pos_lower:
  assumes "0 < b" "z \<le> x" "on_grid b (grid_exp b p emin x) z"
  shows "z \<le> rnd_pos b p emin x"
proof -
  let ?s = "grid_exp b p emin x"
  obtain m where m: "z = of_int m * pw b ?s" using assms on_grid_iff by blast
  have "of_int m \<le> x / pw b ?s"
    using assms(1,2) m by (simp add: pos_le_divide_eq)
  then have "m \<le> rhe (x / pw b ?s)" using rhe_mono [of "of_int m" "x / pw b ?s"] by simp
  then show ?thesis
    using assms(1) m by (simp add: rnd_pos_def Let_def mult_right_mono)
qed

lemma rnd_pos_nonneg: "0 < b \<Longrightarrow> 0 < x \<Longrightarrow> 0 \<le> rnd_pos b p emin x"
  by (simp add: rnd_pos_def Let_def rhe_nonneg less_imp_le)

lemma on_grid_pw: "0 < b \<Longrightarrow> j \<le> k \<Longrightarrow> on_grid b j (pw b k)"
  by (rule on_grid_coarser [of b j k]) (auto simp: on_grid_def)

lemma rnd_pos_mono:
  assumes b: "1 < b" and x: "0 < x" and xy: "x \<le> y" and p: "0 < p"
  shows "rnd_pos b p emin x \<le> rnd_pos b p emin y"
proof -
  let ?sx = "grid_exp b p emin x" and ?sy = "grid_exp b p emin y"
  have y: "0 < y" using x xy by simp
  have ex: "pw b (rat_exp b x) \<le> x" "x < pw b (rat_exp b x + 1)"
    using rat_exp_bounds [OF b x] by auto
  have ey: "pw b (rat_exp b y) \<le> y" "y < pw b (rat_exp b y + 1)"
    using rat_exp_bounds [OF b y] by auto
  have "pw b (rat_exp b x) < pw b (rat_exp b y + 1)" using ex(1) ey(2) xy by linarith
  then have le: "rat_exp b x \<le> rat_exp b y" using b by (simp add: pw_le_iff)
  then have sxy: "?sx \<le> ?sy" by (auto simp: grid_exp_def)
  show ?thesis
  proof (cases "?sx = ?sy")
    case True
    then have "rhe (x / pw b ?sx) \<le> rhe (y / pw b ?sy)"
      using xy b by (intro rhe_mono) (simp add: divide_right_mono less_imp_le)
    then show ?thesis using True b by (simp add: rnd_pos_def Let_def mult_right_mono)
  next
    case False
    with sxy have lt: "?sx < ?sy" by simp
    then have sy: "?sy = rat_exp b y - (int p - 1)" and ltx: "rat_exp b x + 1 \<le> rat_exp b y"
      by (auto simp: grid_exp_def max_def split: if_splits)
    let ?z = "pw b (rat_exp b y)"
    have gy: "on_grid b ?sy ?z" using b p sy by (intro on_grid_pw) auto
    have gx: "on_grid b ?sx ?z"
      using b lt gy on_grid_coarser [of b ?sx ?sy ?z] by simp
    have "x \<le> ?z" using ex(2) ltx b pw_mono [of b "rat_exp b x + 1" "rat_exp b y"] by simp
    then have "rnd_pos b p emin x \<le> ?z" using b gx by (intro rnd_pos_upper) auto
    also have "?z \<le> rnd_pos b p emin y" using b gy ey(1) by (intro rnd_pos_lower) auto
    finally show ?thesis .
  qed
qed

lemma rnd_0 [simp]: "rnd b p emin 0 = 0"
  by (simp add: rnd_def)

lemma rnd_minus: "rnd b p emin (- x) = - rnd b p emin x"
  by (auto simp: rnd_def)

lemma rnd_nonneg: "0 < b \<Longrightarrow> 0 \<le> x \<Longrightarrow> 0 \<le> rnd b p emin x"
  by (auto simp: rnd_def rnd_pos_nonneg)

lemma rnd_mono:
  assumes b: "1 < b" and p: "0 < p" and xy: "x \<le> y"
  shows "rnd b p emin x \<le> rnd b p emin y"
proof -
  consider "0 < x" | "x \<le> 0" "0 \<le> y" | "y < 0" by linarith
  then show ?thesis
  proof cases
    case 1
    with xy show ?thesis using rnd_pos_mono [OF b 1 xy p] by (simp add: rnd_def)
  next
    case 2
    have "0 \<le> rnd b p emin (- x)" "0 \<le> rnd b p emin y"
      using 2 b by (auto intro: rnd_nonneg)
    then show ?thesis by (simp add: rnd_minus)
  next
    case 3
    then have "0 < - y" "- y \<le> - x" using xy by auto
    from rnd_pos_mono [OF b this p, of emin] 3 xy show ?thesis by (simp add: rnd_def)
  qed
qed

text \<open>A value with at most \<open>p\<close> digits above the grid step is not changed.\<close>

lemma rnd_exact:
  assumes b: "1 < b" and k: "on_grid b k x" and mag: "\<bar>x\<bar> < pw b (k + int p)" and e: "emin \<le> k"
  shows "rnd b p emin x = x"
proof -
  have pos: "rnd_pos b p emin z = z" if z: "0 < z" "on_grid b k z" "z < pw b (k + int p)" for z
  proof -
    have "pw b (rat_exp b z) < pw b (k + int p)"
      using rat_exp_bounds(1) [OF b z(1)] z(3) by linarith
    then have "rat_exp b z - (int p - 1) \<le> k" using b by (simp add: pw_le_iff)
    then have "grid_exp b p emin z \<le> k" using e by (simp add: grid_exp_def)
    then have "on_grid b (grid_exp b p emin z) z"
      using b z(2) on_grid_coarser [of b "grid_exp b p emin z" k z] by simp
    then show ?thesis using b by (intro rnd_pos_exact) auto
  qed
  have neg: "on_grid b k (- x)"
    using k b on_grid_iff [of b k x] on_grid_iff [of b k "- x"]
    by (metis gr_zeroI less_numeral_extra(1) minus_mult_left not_less_zero of_int_minus)
  consider "x = 0" | "0 < x" | "x < 0" by linarith
  then show ?thesis
    by cases (use pos [of x] pos [of "- x"] k neg mag in \<open>auto simp: rnd_def\<close>)
qed

text \<open>The relative error is at most half a unit of the last digit, away from the finest step.\<close>

lemma rnd_error:
  assumes b: "1 < b" and x: "0 < x" "x < pw b j" and e: "emin \<le> j - int p"
  shows "\<bar>rnd b p emin x - x\<bar> \<le> pw b (j - int p) / 2"
proof -
  let ?s = "grid_exp b p emin x"
  have s: "?s \<le> j - int p"
  proof -
    have "pw b (rat_exp b x) < pw b j" using rat_exp_bounds(1) [OF b x(1)] x(2) by linarith
    then have "rat_exp b x < j" using b by (simp add: pw_le_iff)
    then show ?thesis using e by (simp add: grid_exp_def)
  qed
  have ps: "0 < pw b ?s" using b by simp
  have "\<bar>of_int (rhe (x / pw b ?s)) - x / pw b ?s\<bar> * pw b ?s \<le> 1 / 2 * pw b ?s"
    using ps by (intro mult_right_mono rhe_error) auto
  moreover have "\<bar>of_int (rhe (x / pw b ?s)) - x / pw b ?s\<bar> * pw b ?s =
      \<bar>of_int (rhe (x / pw b ?s)) * pw b ?s - x\<bar>"
  proof -
    have "x = x / pw b ?s * pw b ?s" using ps by simp
    then have "of_int (rhe (x / pw b ?s)) * pw b ?s - x =
        (of_int (rhe (x / pw b ?s)) - x / pw b ?s) * pw b ?s"
      by (metis left_diff_distrib)
    then show ?thesis using ps by (simp add: abs_mult)
  qed
  ultimately have "\<bar>rnd_pos b p emin x - x\<bar> \<le> pw b ?s / 2"
    by (simp add: rnd_pos_def Let_def)
  moreover have "pw b ?s \<le> pw b (j - int p)" using b s by (intro pw_mono)
  ultimately show ?thesis using x by (simp add: rnd_def)
qed

section \<open>The interface of a rounding function\<close>

text \<open>
  What the program relies on, whichever number type it uses: rounding is monotone, odd, and keeps
  the values of a set \<open>rep\<close> of representable numbers that holds zero. Everything else the clients
  need (signs are kept, bounds by representable numbers survive rounding) follows.
\<close>

locale rounding =
  fixes round :: "rat \<Rightarrow> rat" and rep :: "rat \<Rightarrow> bool"
  assumes mono: "x \<le> y \<Longrightarrow> round x \<le> round y"
    and odd: "round (- x) = - round x"
    and keeps: "rep x \<Longrightarrow> round x = x"
    and rep_0: "rep 0"
begin

lemma zero: "round 0 = 0"
  using keeps rep_0 by simp

lemma nonneg: "0 \<le> x \<Longrightarrow> 0 \<le> round x"
  using mono [of 0 x] zero by simp

lemma nonpos: "x \<le> 0 \<Longrightarrow> round x \<le> 0"
  using mono [of x 0] zero by simp

lemma le_rep: "x \<le> y \<Longrightarrow> rep y \<Longrightarrow> round x \<le> y"
  using mono [of x y] keeps by simp

lemma ge_rep: "y \<le> x \<Longrightarrow> rep y \<Longrightarrow> y \<le> round x"
  using mono [of y x] keeps by simp

lemma between: "rep a \<Longrightarrow> rep b \<Longrightarrow> a \<le> x \<Longrightarrow> x \<le> b \<Longrightarrow> a \<le> round x \<and> round x \<le> b"
  using le_rep ge_rep by blast

lemma add_mono: "x \<le> x' \<Longrightarrow> y \<le> y' \<Longrightarrow> round (x + y) \<le> round (x' + y')"
  by (rule mono) simp

lemma mult_left_mono: "x \<le> y \<Longrightarrow> 0 \<le> c \<Longrightarrow> round (c * x) \<le> round (c * y)"
  by (rule mono) (rule mult_left_mono)

lemma mult_right_mono: "x \<le> y \<Longrightarrow> 0 \<le> c \<Longrightarrow> round (x * c) \<le> round (y * c)"
  by (rule mono) (rule mult_right_mono)

end

end
