(* ===== verification/Decimal.thy ===== *)
theory Decimal
  imports Rounding
begin

text \<open>
  \<^verbatim>\<open>decimal.Decimal\<close>. A finite decimal is represented by its value, a rational: the program
  never observes an exponent (\<open>_canonical_value\<close> of \<^verbatim>\<open>simulation/models.py\<close> strips trailing
  zeros). An operation computes the exact result and rounds it half-even to the context's
  precision; \<open>prec\<close> is 96 inside \<^verbatim>\<open>localcontext(Context(prec=96))\<close> and 28 in Python's default
  context. Overflow (exponents beyond 999999) is out of reach of the bounded amounts and is not
  represented.
\<close>

section \<open>Contexts\<close>

definition dround :: "nat \<Rightarrow> rat \<Rightarrow> rat" where
  "dround prec x = rnd 10 prec (- 999999 - int prec + 1) x"

definition dadd :: "nat \<Rightarrow> rat \<Rightarrow> rat \<Rightarrow> rat" where
  "dadd prec a b = dround prec (a + b)"

definition dsub :: "nat \<Rightarrow> rat \<Rightarrow> rat \<Rightarrow> rat" where
  "dsub prec a b = dround prec (a - b)"

definition dmul :: "nat \<Rightarrow> rat \<Rightarrow> rat \<Rightarrow> rat" where
  "dmul prec a b = dround prec (a * b)"

text \<open>Division; callers divide by a value they know to be nonzero, or use \<open>ddiv_res\<close>.\<close>

definition ddiv :: "nat \<Rightarrow> rat \<Rightarrow> rat \<Rightarrow> rat" where
  "ddiv prec a b = dround prec (a / b)"

definition ddiv_res :: "nat \<Rightarrow> rat \<Rightarrow> rat \<Rightarrow> rat res" where
  "ddiv_res prec a b =
     (if b = 0 then raise (OtherError ''DivisionByZero'') ''division by zero''
      else Inr (ddiv prec a b))"

text \<open>\<^verbatim>\<open>sum(xs, Decimal(0))\<close> and \<^verbatim>\<open>to_integral_value\<close> with the two rounding modes in use.\<close>

definition dsum :: "nat \<Rightarrow> rat list \<Rightarrow> rat" where
  "dsum prec xs = foldl (dadd prec) 0 xs"

definition to_integral_ceiling :: "rat \<Rightarrow> rat" where
  "to_integral_ceiling x = of_int \<lceil>x\<rceil>"

definition to_integral_floor :: "rat \<Rightarrow> rat" where
  "to_integral_floor x = of_int \<lfloor>x\<rfloor>"

text \<open>\<^verbatim>\<open>a % b\<close>: the remainder of the truncated quotient, with the sign of the dividend.\<close>

definition drem :: "rat \<Rightarrow> rat \<Rightarrow> rat" where
  "drem a b = a - b * (if 0 \<le> a / b then of_int \<lfloor>a / b\<rfloor> else of_int \<lceil>a / b\<rceil>)"

section \<open>Decimal places\<close>

text \<open>\<open>places k x\<close>: at most \<open>k\<close> digits after the decimal point.\<close>

definition places :: "nat \<Rightarrow> rat \<Rightarrow> bool" where
  "places k x \<longleftrightarrow> x * 10 ^ k = of_int \<lfloor>x * 10 ^ k\<rfloor>"

lemma places_iff: "places k x \<longleftrightarrow> (\<exists>m. x * 10 ^ k = of_int m)"
  unfolding places_def by (metis floor_of_int)

lemma placesI: "x * 10 ^ k = of_int m \<Longrightarrow> places k x"
  using places_iff by blast

lemma placesE:
  assumes "places k x"
  obtains m where "x * 10 ^ k = of_int m"
  using assms places_iff by blast

lemma places_grid: "places k x \<longleftrightarrow> on_grid 10 (- int k) x"
proof -
  have "x / pw 10 (- int k) = x * 10 ^ k" by (simp add: pw_def)
  then show ?thesis by (simp add: places_def on_grid_def)
qed

lemma places_of_int [simp, exactness]: "places k (of_int n)"
  by (rule placesI [of _ _ "n * 10 ^ k"]) simp

lemma places_numeral [simp, exactness]: "places k 0" "places k 1" "places k (numeral n)"
  using places_of_int [of k 0] places_of_int [of k 1] places_of_int [of k "numeral n"] by simp_all

lemma places_mono: "places j x \<Longrightarrow> j \<le> k \<Longrightarrow> places k x"
proof (elim placesE)
  fix m assume "x * 10 ^ j = of_int m" and "j \<le> k"
  moreover from \<open>j \<le> k\<close> have "(10::rat) ^ k = 10 ^ j * 10 ^ (k - j)"
    by (simp flip: power_add)
  ultimately have "x * 10 ^ k = of_int (m * 10 ^ (k - j))" by simp
  then show ?thesis by (rule placesI)
qed

lemma places_add [exactness]: "places k x \<Longrightarrow> places k y \<Longrightarrow> places k (x + y)"
  by (elim placesE) (rule placesI, simp add: distrib_right flip: of_int_add)

lemma places_minus [exactness]: "places k x \<Longrightarrow> places k (- x)"
  by (elim placesE) (rule placesI, simp flip: of_int_minus)

lemma places_diff [exactness]: "places k x \<Longrightarrow> places k y \<Longrightarrow> places k (x - y)"
  using places_add [of k x "- y"] places_minus [of k y] by simp

lemma places_mult: "places j x \<Longrightarrow> places k y \<Longrightarrow> places (j + k) (x * y)"
proof (elim placesE)
  fix m n assume "x * 10 ^ j = of_int m" "y * 10 ^ k = of_int n"
  then have "(x * 10 ^ j) * (y * 10 ^ k) = of_int (m * n)" by simp
  then have "x * y * 10 ^ (j + k) = of_int (m * n)"
    by (simp add: power_add ac_simps)
  then show ?thesis by (rule placesI)
qed

lemma places_mult_int: "places k y \<Longrightarrow> places k (of_int n * y)"
  using places_mult [of 0 "of_int n" k y] by simp

lemma places_sum_list: "(\<And>x. x \<in> set xs \<Longrightarrow> places k x) \<Longrightarrow> places k (sum_list xs)"
  by (induction xs) (auto intro: places_add)

lemma places_div_10000: "places k x \<Longrightarrow> places (k + 4) (x / 10000)"
proof (elim placesE)
  fix m assume "x * 10 ^ k = of_int m"
  then have "x / 10000 * 10 ^ (k + 4) = of_int m" by (simp add: power_add)
  then show ?thesis by (rule placesI)
qed

lemma places_half: "places k x \<Longrightarrow> places (k + 1) (x / 2)"
proof (elim placesE)
  fix m assume "x * 10 ^ k = of_int m"
  then have "x / 2 * 10 ^ (k + 1) = of_int (5 * m)" by (simp add: power_add)
  then show ?thesis by (rule placesI)
qed

section \<open>Operations that do not round\<close>

lemma dround_exact:
  assumes "places k x" "\<bar>x\<bar> < 10 ^ (prec - k)" "k \<le> prec" "k \<le> 999999"
  shows "dround prec x = x"
proof -
  have "pw 10 (- int k + int prec) = 10 ^ (prec - k)"
    using assms(3) by (simp add: pw_def nat_diff_distrib)
  then show ?thesis
    unfolding dround_def using assms
    by (intro rnd_exact [where k = "- int k"]) (auto simp: places_grid)
qed

lemma dround_0 [simp]: "dround prec 0 = 0"
  by (simp add: dround_def)

lemma dround_mono: "0 < prec \<Longrightarrow> x \<le> y \<Longrightarrow> dround prec x \<le> dround prec y"
  unfolding dround_def by (rule rnd_mono) auto

text \<open>Each context is a rounding function in the sense of the interface, whose representable
  numbers are those with at most \<open>prec\<close> digits.\<close>

definition fits :: "nat \<Rightarrow> rat \<Rightarrow> bool" where
  "fits prec x \<longleftrightarrow> (\<exists>k \<le> prec. places k x \<and> \<bar>x\<bar> < 10 ^ (prec - k))"

lemma fitsI: "places k x \<Longrightarrow> \<bar>x\<bar> < 10 ^ (prec - k) \<Longrightarrow> k \<le> prec \<Longrightarrow> fits prec x"
  unfolding fits_def by blast

interpretation d96: rounding "dround 96" "fits 96"
proof
  show "dround 96 x \<le> dround 96 y" if "x \<le> y" for x y
    using that by (intro dround_mono) auto
  show "dround 96 (- x) = - dround 96 x" for x
    by (simp add: dround_def rnd_minus)
  show "dround 96 x = x" if "fits 96 x" for x
    using that unfolding fits_def by (auto intro: dround_exact)
  show "fits 96 0" by (rule fitsI [of 0]) auto
qed

interpretation d28: rounding "dround 28" "fits 28"
proof
  show "dround 28 x \<le> dround 28 y" if "x \<le> y" for x y
    using that by (intro dround_mono) auto
  show "dround 28 (- x) = - dround 28 x" for x
    by (simp add: dround_def rnd_minus)
  show "dround 28 x = x" if "fits 28 x" for x
    using that unfolding fits_def by (auto intro: dround_exact)
  show "fits 28 0" by (rule fitsI [of 0]) auto
qed

text \<open>The integer part of a quotient is not disturbed by the rounding of the quotient when its
  distance to the next integer is larger than the rounding error.\<close>

lemma floor_dround:
  assumes q: "0 < q" "q < 10 ^ j" and den: "q * of_int d = of_int n" "0 < d" "d \<le> 10 ^ i"
    and prec: "i + j < prec"
  shows "\<lfloor>dround prec q\<rfloor> = \<lfloor>q\<rfloor>" and "\<lceil>dround prec q\<rceil> = \<lceil>q\<rceil>"
proof -
  have err: "\<bar>dround prec q - q\<bar> \<le> pw 10 (int j - int prec) / 2"
    unfolding dround_def using q prec by (intro rnd_error) (auto simp: pw_def)
  have pwv: "pw 10 (int j - int prec) = 1 / 10 ^ (prec - j)"
    using prec by (simp add: pw_def nat_diff_distrib)
  have "(10::rat) ^ i < 10 ^ (prec - j)" using prec by (intro power_strict_increasing) auto
  then have "pw 10 (int j - int prec) < 1 / 10 ^ i"
    unfolding pwv by (intro divide_strict_left_mono) auto
  moreover have "of_int d \<le> (10::rat) ^ i"
    using den(3) by (metis of_int_le_iff of_int_numeral of_int_power)
  then have "(1::rat) / 10 ^ i \<le> 1 / of_int d"
    using den(2) by (intro divide_left_mono) auto
  ultimately have small: "\<bar>dround prec q - q\<bar> < 1 / of_int d"
    using err pw_pos [of 10 "int j - int prec"] by linarith
  have fix_int: "dround prec q = q" if "q = of_int m" for m
  proof (rule dround_exact [where k = 0])
    show "places 0 q" using that by simp
    have "(10::rat) ^ j \<le> 10 ^ prec" using prec by (intro power_increasing) auto
    from less_le_trans [OF q(2) this] have "q < 10 ^ prec" .
    then show "\<bar>q\<bar> < 10 ^ (prec - 0)" using q(1) by simp
  qed auto
  define eps :: rat where "eps = 1 / of_int d"
  have near: "dround prec q < q + eps" "q < dround prec q + eps"
    using small [folded eps_def] by linarith+
  have gap: "eps \<le> \<bar>of_int m - q\<bar>" if "q \<noteq> of_int m" for m
  proof -
    have eq: "of_int (m * d - n) = (of_int m - q) * of_int d"
      using den(1) by (simp add: algebra_simps)
    have "m * d - n \<noteq> 0" using eq that den(2) by auto
    then have "1 \<le> \<bar>m * d - n\<bar>" by linarith
    then have "(1::rat) \<le> \<bar>of_int (m * d - n)\<bar>" by linarith
    then have "1 \<le> \<bar>of_int m - q\<bar> * of_int d" using eq den(2) by (simp add: abs_mult)
    then show ?thesis using den(2) by (simp add: eps_def pos_divide_le_eq)
  qed
  have lo: "of_int m \<le> dround prec q" if "of_int m \<le> q" for m
  proof (cases "q = of_int m")
    case False
    then have "eps \<le> q - of_int m" using gap [of m] that by simp
    with near show ?thesis by linarith
  next
    case True
    with fix_int [OF True] show ?thesis by simp
  qed
  have hi: "dround prec q \<le> of_int m" if "q \<le> of_int m" for m
  proof (cases "q = of_int m")
    case False
    then have "eps \<le> of_int m - q" using gap [of m] that by simp
    with near show ?thesis by linarith
  next
    case True
    with fix_int [OF True] show ?thesis by simp
  qed
  have int_iff: "dround prec q = of_int m \<longleftrightarrow> q = of_int m" for m
  proof
    assume a: "dround prec q = of_int m"
    show "q = of_int m"
    proof (rule ccontr)
      assume "q \<noteq> of_int m"
      from gap [OF this] near a show False by linarith
    qed
  qed (use fix_int in simp)
  show "\<lfloor>dround prec q\<rfloor> = \<lfloor>q\<rfloor>"
  proof (rule floor_unique)
    show "of_int \<lfloor>q\<rfloor> \<le> dround prec q" by (rule lo) simp
    have "dround prec q \<le> of_int (\<lfloor>q\<rfloor> + 1)" by (rule hi) linarith
    moreover have "dround prec q \<noteq> of_int (\<lfloor>q\<rfloor> + 1)" unfolding int_iff by linarith
    ultimately show "dround prec q < of_int \<lfloor>q\<rfloor> + 1" by simp
  qed
  show "\<lceil>dround prec q\<rceil> = \<lceil>q\<rceil>"
  proof (rule ceiling_unique)
    show "dround prec q \<le> of_int \<lceil>q\<rceil>" by (rule hi) simp
    have "of_int (\<lceil>q\<rceil> - 1) \<le> dround prec q" by (rule lo) linarith
    moreover have "dround prec q \<noteq> of_int (\<lceil>q\<rceil> - 1)" unfolding int_iff by linarith
    ultimately show "of_int \<lceil>q\<rceil> - 1 < dround prec q" by simp
  qed
qed

end
