(* ===== verification/Float64.thy ===== *)
theory Float64
  imports Decimal
begin

text \<open>
  Python's \<^verbatim>\<open>float\<close>: binary64 values as rationals on a 53-digit binary grid, plus infinities and
  a not-a-number value. Signed zeros are identified: the code compares, and never divides by, a
  zero without raising first. \<open>frepr\<close> is the decimal that \<^verbatim>\<open>str\<close> prints: the shortest one that
  reads back as the same float, and among those the closest.
\<close>

section \<open>Values\<close>

datatype f64 = Fin rat | FInf bool | FNaN

definition rnd64 :: "rat \<Rightarrow> rat" where
  "rnd64 x = rnd 2 53 (- 1074) x"

definition rep64 :: "rat \<Rightarrow> bool" where
  "rep64 x \<longleftrightarrow> rnd64 x = x"

definition fround :: "rat \<Rightarrow> f64" where
  "fround x = (let r = rnd64 x in if 2 ^ 1024 \<le> \<bar>r\<bar> then FInf (x < 0) else Fin r)"

fun isfinite :: "f64 \<Rightarrow> bool" where
  "isfinite (Fin x) = True"
| "isfinite _ = False"

text \<open>The exact value of a finite float.\<close>

fun fval :: "f64 \<Rightarrow> rat" where
  "fval (Fin x) = x"
| "fval _ = 0"

text \<open>A float of the program: finite values are representable.\<close>

fun wf64 :: "f64 \<Rightarrow> bool" where
  "wf64 (Fin x) = (rep64 x \<and> \<bar>x\<bar> < 2 ^ 1024)"
| "wf64 _ = True"

section \<open>Arithmetic and comparison\<close>

fun fneg :: "f64 \<Rightarrow> f64" where
  "fneg (Fin x) = Fin (- x)"
| "fneg (FInf s) = FInf (\<not> s)"
| "fneg FNaN = FNaN"

fun fadd :: "f64 \<Rightarrow> f64 \<Rightarrow> f64" where
  "fadd FNaN _ = FNaN"
| "fadd _ FNaN = FNaN"
| "fadd (FInf s) (FInf t) = (if s = t then FInf s else FNaN)"
| "fadd (FInf s) _ = FInf s"
| "fadd _ (FInf t) = FInf t"
| "fadd (Fin x) (Fin y) = fround (x + y)"

definition fsub :: "f64 \<Rightarrow> f64 \<Rightarrow> f64" where
  "fsub x y = fadd x (fneg y)"

fun fmul :: "f64 \<Rightarrow> f64 \<Rightarrow> f64" where
  "fmul FNaN _ = FNaN"
| "fmul _ FNaN = FNaN"
| "fmul (FInf s) (FInf t) = FInf (s \<noteq> t)"
| "fmul (FInf s) (Fin y) = (if y = 0 then FNaN else FInf (s \<noteq> (y < 0)))"
| "fmul (Fin x) (FInf t) = (if x = 0 then FNaN else FInf ((x < 0) \<noteq> t))"
| "fmul (Fin x) (Fin y) = fround (x * y)"

text \<open>Python raises on a zero divisor.\<close>

fun fdiv :: "f64 \<Rightarrow> f64 \<Rightarrow> f64 res" where
  "fdiv x (Fin y) = (if y = 0 then raise (OtherError ''ZeroDivisionError'') ''float division by zero''
     else case x of FNaN \<Rightarrow> Inr FNaN | FInf s \<Rightarrow> Inr (FInf (s \<noteq> (y < 0))) | Fin v \<Rightarrow> Inr (fround (v / y)))"
| "fdiv x FNaN = Inr FNaN"
| "fdiv x (FInf t) = (case x of Fin v \<Rightarrow> Inr (Fin 0) | _ \<Rightarrow> Inr FNaN)"

fun fle :: "f64 \<Rightarrow> f64 \<Rightarrow> bool" where
  "fle FNaN _ = False"
| "fle _ FNaN = False"
| "fle (FInf s) (FInf t) = (s \<or> \<not> t)"
| "fle (FInf s) (Fin y) = s"
| "fle (Fin x) (FInf t) = (\<not> t)"
| "fle (Fin x) (Fin y) = (x \<le> y)"

definition feq :: "f64 \<Rightarrow> f64 \<Rightarrow> bool" where
  "feq x y \<longleftrightarrow> fle x y \<and> fle y x"

definition flt :: "f64 \<Rightarrow> f64 \<Rightarrow> bool" where
  "flt x y \<longleftrightarrow> fle x y \<and> \<not> fle y x"

fun fabs :: "f64 \<Rightarrow> f64" where
  "fabs (Fin x) = Fin \<bar>x\<bar>"
| "fabs (FInf s) = FInf False"
| "fabs FNaN = FNaN"

text \<open>Python's \<^verbatim>\<open>max(a, b)\<close> and \<^verbatim>\<open>min(a, b)\<close> keep the first argument unless the second is strictly
  better.\<close>

definition fmax :: "f64 \<Rightarrow> f64 \<Rightarrow> f64" where
  "fmax a b = (if flt a b then b else a)"

definition fmin :: "f64 \<Rightarrow> f64 \<Rightarrow> f64" where
  "fmin a b = (if flt b a then b else a)"

text \<open>\<^verbatim>\<open>math.isclose(a, b, rel_tol=r, abs_tol=t)\<close>.\<close>

definition isclose :: "f64 \<Rightarrow> f64 \<Rightarrow> f64 \<Rightarrow> f64 \<Rightarrow> bool" where
  "isclose r t a b =
     (if feq a b then True
      else if a \<in> {FInf True, FInf False} \<or> b \<in> {FInf True, FInf False} then False
      else let diff = fabs (fsub b a)
           in fle diff (fabs (fmul r b)) \<or> fle diff (fabs (fmul r a)) \<or> fle diff t)"

definition fzero :: f64 where "fzero = Fin 0"

definition fone :: f64 where "fone = Fin 1"

text \<open>\<^verbatim>\<open>float(n)\<close> of an integer.\<close>

definition float_of_int :: "int \<Rightarrow> f64" where
  "float_of_int n = fround (of_int n)"

section \<open>Rounding is a rounding\<close>

interpretation r64: rounding rnd64 rep64
proof
  show "rnd64 x \<le> rnd64 y" if "x \<le> y" for x y
    unfolding rnd64_def using that by (intro rnd_mono) auto
  show "rnd64 (- x) = - rnd64 x" for x
    by (simp add: rnd64_def rnd_minus)
  show "rnd64 x = x" if "rep64 x" for x
    using that by (simp add: rep64_def)
  show "rep64 0" by (simp add: rep64_def rnd64_def)
qed

lemma rep64_grid:
  assumes "on_grid 2 k x" "\<bar>x\<bar> < pw 2 (k + 53)" "- 1074 \<le> k"
  shows "rep64 x"
  unfolding rep64_def rnd64_def using assms by (intro rnd_exact [where k = k]) auto

lemma rep64_int: "\<bar>n\<bar> < 2 ^ 53 \<Longrightarrow> rep64 (of_int n)"
proof -
  assume "\<bar>n\<bar> < 2 ^ 53"
  then have "of_int \<bar>n\<bar> < (2::rat) ^ 53"
    by (metis of_int_less_iff of_int_numeral of_int_power)
  then show ?thesis
    using rep64_grid [of 0 "of_int n"] by (simp add: on_grid_def pw_def)
qed

lemma fround_Fin: "fround x = Fin r \<Longrightarrow> r = rnd64 x"
  by (auto simp: fround_def Let_def split: if_splits)

lemma isfinite_iff: "isfinite x \<longleftrightarrow> (\<exists>r. x = Fin r)"
  by (cases x) auto

lemma feq_Fin [simp]: "feq (Fin x) (Fin y) \<longleftrightarrow> x = y"
  by (auto simp: feq_def)

lemma flt_Fin [simp]: "flt (Fin x) (Fin y) \<longleftrightarrow> x < y"
  by (auto simp: flt_def)

lemma fmax_Fin [simp]: "fmax (Fin x) (Fin y) = Fin (max x y)"
  by (auto simp: fmax_def max_def)

lemma fmin_Fin [simp]: "fmin (Fin x) (Fin y) = Fin (min x y)"
  by (auto simp: fmin_def min_def)

lemma rep64_1: "rep64 1"
  using rep64_int [of 1] by simp

lemma float_of_int_exact: "\<bar>n\<bar> < 2 ^ 53 \<Longrightarrow> float_of_int n = Fin (of_int n)"
proof -
  assume n: "\<bar>n\<bar> < 2 ^ 53"
  then have "of_int \<bar>n\<bar> < (2::rat) ^ 53" by (metis of_int_less_iff of_int_numeral of_int_power)
  also have "\<dots> \<le> 2 ^ 1024" by (intro power_increasing) auto
  finally show ?thesis using rep64_int [OF n] by (simp add: float_of_int_def fround_def Let_def rep64_def)
qed

lemma fround_rep: "rep64 x \<Longrightarrow> \<bar>x\<bar> < 2 ^ 1024 \<Longrightarrow> fround x = Fin x"
  by (simp add: fround_def Let_def rep64_def)

lemma fround_cases:
  obtains "fround x = Fin (rnd64 x)" | "fround x = FInf (x < 0)"
  by (cases "2 ^ 1024 \<le> \<bar>rnd64 x\<bar>") (unfold fround_def Let_def, (metis (full_types))+)

lemma rep64_minus: "rep64 x \<Longrightarrow> rep64 (- x)"
  by (simp add: rep64_def rnd64_def rnd_minus)

lemma rep64_rnd64: "rep64 (rnd64 x)"
proof -
  have pos: "rep64 (rnd64 x)" if x: "0 < x" for x
  proof -
    let ?s = "grid_exp 2 53 (- 1074) x" and ?e = "rat_exp 2 x"
    have s: "?e - 52 \<le> ?s" "- 1074 \<le> ?s" by (simp_all add: grid_exp_def)
    have r: "rnd64 x = of_int (rhe (x / pw 2 ?s)) * pw 2 ?s"
      using x by (simp add: rnd64_def rnd_def rnd_pos_def Let_def)
    have "on_grid 2 ?s (rnd64 x)" unfolding r using on_grid_iff [of 2] by (metis pos2)
    have n: "0 \<le> rnd64 x" using x by (simp add: r64.nonneg)
    show ?thesis
    proof (cases "rnd64 x < pw 2 (?s + 53)")
      case True
      with n \<open>on_grid 2 ?s (rnd64 x)\<close> s(2) show ?thesis by (intro rep64_grid [of ?s]) auto
    next
      case False
      have "x \<le> pw 2 (?s + 53)"
        using rat_exp_bounds(2) [of 2 x] x pw_mono [of 2 "?e + 1" "?s + 53"] s(1) by simp
      then have "rnd64 x \<le> pw 2 (?s + 53)"
        using rnd_pos_upper [of 2 x "pw 2 (?s + 53)" 53 "- 1074"] on_grid_pw [of 2 ?s "?s + 53"] x
        by (simp add: rnd64_def rnd_def)
      with False have "rnd64 x = pw 2 (?s + 53)" by simp
      moreover have "on_grid 2 (?s + 1) (pw 2 (?s + 53))" by (intro on_grid_pw) auto
      moreover have "pw 2 (?s + 53) < pw 2 (?s + 1 + 53)" by (intro pw_strict_mono) auto
      ultimately show ?thesis using s(2) pw_pos [of 2 "?s + 53"]
        by (intro rep64_grid [of "?s + 1"]) (auto simp: abs_of_pos algebra_simps)
    qed
  qed
  consider "0 < x" | "x = 0" | "0 < - x" by linarith
  then show ?thesis
  proof cases
    case 3
    from rep64_minus [OF pos [OF 3]] show ?thesis by (simp add: r64.odd)
  qed (use pos r64.rep_0 r64.zero in auto)
qed

section \<open>The decimal a float prints\<close>

text \<open>The two \<open>n\<close>-digit decimals around a positive value, and the closest of those that read back
  as the value (the even one on a tie).\<close>

definition sig_cands :: "nat \<Rightarrow> rat \<Rightarrow> rat list" where
  "sig_cands n x = (let s = pw 10 (rat_exp 10 x - (int n - 1)); m = \<lfloor>x / s\<rfloor>
     in [of_int m * s, of_int (m + 1) * s])"

definition pick_cand :: "nat \<Rightarrow> rat \<Rightarrow> rat option" where
  "pick_cand n x = (case sig_cands n x of
       [lo, hi] \<Rightarrow>
         if rnd64 lo = x \<and> rnd64 hi = x then
           (if x - lo < hi - x \<or> x - lo = hi - x \<and> even \<lfloor>lo / (hi - lo)\<rfloor> then Some lo else Some hi)
         else if rnd64 lo = x then Some lo
         else if rnd64 hi = x then Some hi
         else None
     | _ \<Rightarrow> None)"

fun shortest :: "nat \<Rightarrow> nat \<Rightarrow> rat \<Rightarrow> rat option" where
  "shortest 0 n x = None"
| "shortest (Suc fuel) n x = (case pick_cand n x of Some d \<Rightarrow> Some d | None \<Rightarrow> shortest fuel (n + 1) x)"

text \<open>Seventeen digits are enough for every float (lemma \<open>shortest_total\<close>), so the fuel does not
  run out.\<close>

definition frepr :: "rat \<Rightarrow> rat option" where
  "frepr x = (if x = 0 then Some 0
     else if 0 < x then shortest 17 1 x else map_option uminus (shortest 17 1 (- x)))"

lemma pick_cand_reads_back: "pick_cand n x = Some d \<Longrightarrow> rnd64 d = x"
  by (auto simp: pick_cand_def sig_cands_def Let_def split: if_splits)

lemma shortest_reads_back: "shortest fuel n x = Some d \<Longrightarrow> rnd64 d = x"
  by (induction fuel n x rule: shortest.induct)
    (auto split: option.splits dest: pick_cand_reads_back)

lemma frepr_reads_back: "frepr x = Some d \<Longrightarrow> rnd64 d = x"
proof -
  assume "frepr x = Some d"
  then consider "x = 0" "d = 0" | "0 < x" "shortest 17 1 x = Some d"
    | c where "x < 0" "shortest 17 1 (- x) = Some c" "d = - c"
    unfolding frepr_def by (auto split: if_splits)
  then show ?thesis
    by cases (auto simp: r64.zero r64.odd dest: shortest_reads_back)
qed

section \<open>Seventeen digits are enough\<close>

lemma rat_exp_eqI: "pw 2 e \<le> x \<Longrightarrow> x < pw 2 (e + 1) \<Longrightarrow> rat_exp 2 x = e"
proof -
  assume a: "pw 2 e \<le> x" "x < pw 2 (e + 1)"
  then have "0 < x" using pw_pos [of 2 e] by linarith
  note B = rat_exp_bounds [of 2 x, OF _ this]
  have "pw 2 e < pw 2 (rat_exp 2 x + 1)" "pw 2 (rat_exp 2 x) < pw 2 (e + 1)" using a B by auto
  then show ?thesis by (simp add: pw_le_iff)
qed

lemma rhe_near: "\<bar>q - of_int m\<bar> < 1 / 2 \<Longrightarrow> rhe q = m"
proof -
  assume "\<bar>q - of_int m\<bar> < 1 / 2"
  with rhe_error [of q] have "\<bar>of_int (rhe q) - (of_int m :: rat)\<bar> < 1" by linarith
  then have "\<bar>rhe q - m\<bar> < 1" by linarith
  then show ?thesis by linarith
qed

lemma rnd64_near:
  assumes y: "0 < y" and g: "max (rat_exp 2 y - 52) (- 1074) = g"
    and x: "x = of_int m * pw 2 g" and near: "\<bar>y - x\<bar> < pw 2 g / 2"
  shows "rnd64 y = x"
proof -
  have "y / pw 2 g - of_int m = (y - x) / pw 2 g" unfolding x by (simp add: field_simps)
  then have "\<bar>y / pw 2 g - of_int m\<bar> < 1 / 2"
    using near by (simp add: abs_divide field_simps)
  then have "rhe (y / pw 2 g) = m" by (rule rhe_near)
  then show ?thesis using y g x by (simp add: rnd64_def rnd_def rnd_pos_def grid_exp_def Let_def)
qed

lemma multiple_between:
  assumes "0 < (u::rat)" "of_int j * u < of_int m * u + u" "of_int m * u < of_int j * u + u"
  shows "j = m"
proof -
  have "of_int j * u < (of_int m + 1) * u" "of_int m * u < (of_int j + 1) * u"
    using assms(2,3) by (simp_all add: distrib_right)
  then have "rat_of_int j < of_int m + 1" "rat_of_int m < of_int j + 1"
    using assms(1) by (simp_all add: mult_less_cancel_right_disj)
  then show ?thesis by linarith
qed

lemma candidates_read_back:
  assumes x: "0 < x" "rep64 x" and lo: "0 < lo" "lo \<le> x" and hi: "x \<le> lo + s" and s: "s \<le> x / 10 ^ 16"
  shows "rnd64 lo = x \<or> rnd64 (lo + s) = x"
proof -
  define e where "e = rat_exp 2 x"
  define g where "g = max (e - 52) (- 1074)"
  define u where "u = pw 2 g"
  have u: "0 < u" by (simp add: u_def)
  have E: "pw 2 e \<le> x" "x < pw 2 (e + 1)"
    using rat_exp_bounds [of 2 x] x(1) by (simp_all add: e_def)
  obtain m where m: "x = of_int m * u"
  proof -
    have "rnd_pos 2 53 (- 1074) x = x" using x by (simp add: rep64_def rnd64_def rnd_def)
    then show ?thesis using that unfolding rnd_pos_def grid_exp_def Let_def u_def g_def e_def
      by (metis (no_types, lifting) int_ops(3) of_nat_numeral diff_numeral_special(11) numeral_One
          add_diff_cancel_right' numeral_plus_one semiring_norm(5) semiring_norm(2))
  qed
  have m1: "1 \<le> m" using x(1) u m by (metis zero_less_mult_pos2 of_int_0_less_iff int_one_le_iff_zero_less)
  have grid: "\<exists>j. pw 2 k = of_int j * u" if "g \<le> k" for k
    using on_grid_pw [of 2 g k] on_grid_iff [of 2 g "pw 2 k"] that by (auto simp: u_def)
  have ge: "g \<le> e + 1"
  proof (rule ccontr)
    assume "\<not> g \<le> e + 1"
    then have "pw 2 (e + 1) < u" by (simp add: u_def pw_strict_mono)
    moreover have "u \<le> x" using m m1 u by (simp add: mult_le_cancel_right1)
    ultimately show False using E by linarith
  qed
  obtain j where j: "pw 2 (e + 1) = of_int j * u" using grid [OF ge] by blast
  have below: "x \<le> pw 2 (e + 1) - u"
  proof -
    have "m < j" using E(2) u unfolding m j by (simp add: mult_less_cancel_right_disj)
    then have "of_int m + 1 \<le> rat_of_int j" by linarith
    then have "(of_int m + 1) * u \<le> of_int j * u" using u by (intro mult_right_mono) auto
    then show ?thesis unfolding m j by (simp add: distrib_right)
  qed
  show ?thesis
  proof (cases "lo + s - x < u / 2")
    case True
    have r: "rat_exp 2 (lo + s) = e"
      by (rule rat_exp_eqI) (use E hi True below u in auto)
    have "rnd64 (lo + s) = x"
    proof (rule rnd64_near [where g = g and m = m])
      show "0 < lo + s" using hi x(1) by linarith
      show "max (rat_exp 2 (lo + s) - 52) (- 1074) = g" by (simp add: r g_def)
      show "x = of_int m * pw 2 g" using m by (simp add: u_def)
      show "\<bar>lo + s - x\<bar> < pw 2 g / 2" using hi True by (simp add: u_def [symmetric])
    qed
    then show ?thesis ..
  next
    case False
    then have su: "u / 2 \<le> s" using lo by linarith
    have normal: "g = e - 52"
    proof (rule ccontr)
      assume "g \<noteq> e - 52"
      then have "e + 1 \<le> g + 52" by (auto simp: g_def)
      then have "pw 2 (e + 1) \<le> pw 2 (g + 52)" by (simp add: pw_mono)
      also have "\<dots> = u * 2 ^ 52" by (simp add: pw_add u_def) (simp add: pw_def)
      finally have "s * 10 ^ 16 < u * 2 ^ 52" using s E(2) by simp
      then have "s < u / 2" using u by simp
      with su show False by simp
    qed
    have top: "pw 2 e = u * 2 ^ 52"
    proof -
      have "pw 2 e = pw 2 (g + 52)" using normal by simp
      then show ?thesis by (simp add: pw_add u_def) (simp add: pw_def)
    qed
    have "pw 2 (e + 1) = 2 * pw 2 e" by (simp add: pw_add) (simp add: pw_def)
    then have "s * 10 ^ 16 < u * 2 ^ 53" using s E(2) top by simp
    then have near: "x - lo < u / 2" using False u by simp
    have lo_top: "pw 2 e \<le> lo"
    proof (rule ccontr)
      assume "\<not> pw 2 e \<le> lo"
      then have "x - pw 2 e < u / 2" using near by linarith
      moreover obtain i where i: "pw 2 e = of_int i * u" using grid [of e] normal by auto
      moreover have "of_int i * u \<le> of_int m * u" using E(1) m i by simp
      ultimately have "of_int m * u < of_int i * u + u" "of_int i * u < of_int m * u + u"
        using u unfolding m by linarith+
      then have "m = i" by (rule multiple_between [OF u])
      then have "x = u * 2 ^ 52" using m i top by simp
      then have "s * 10 ^ 16 \<le> u * 2 ^ 52" using s by simp
      then have "s < u / 2" using u by simp
      with su show False by simp
    qed
    have r: "rat_exp 2 lo = e" by (rule rat_exp_eqI) (use E lo lo_top in auto)
    have "rnd64 lo = x"
    proof (rule rnd64_near [where g = g and m = m])
      show "0 < lo" by (rule lo(1))
      show "max (rat_exp 2 lo - 52) (- 1074) = g" by (simp add: r g_def)
      show "x = of_int m * pw 2 g" using m by (simp add: u_def)
      show "\<bar>lo - x\<bar> < pw 2 g / 2" using lo near by (simp add: u_def [symmetric])
    qed
    then show ?thesis ..
  qed
qed

lemma pick_cand_17:
  assumes x: "0 < x" "rep64 x"
  shows "pick_cand 17 x \<noteq> None"
proof -
  define E where "E = rat_exp 10 x"
  define s where "s = pw 10 (E - 16)"
  have s0: "0 < s" by (simp add: s_def)
  have E: "pw 10 E \<le> x" using rat_exp_bounds(1) [of 10 x] x(1) by (simp add: E_def)
  have s: "s = pw 10 E / 10 ^ 16" by (simp add: s_def pw_diff) (simp add: pw_def)
  then have sx: "s \<le> x / 10 ^ 16" using E by simp
  define f where "f = \<lfloor>x / s\<rfloor>"
  have fl: "of_int f \<le> x / s" "x / s < of_int f + 1" unfolding f_def by linarith+
  have "1 \<le> x / s" using sx s0 x(1) by (simp add: field_simps)
  then have f1: "1 \<le> f" unfolding f_def by linarith
  have lo: "0 < of_int f * s" "of_int f * s \<le> x" "x \<le> of_int f * s + s"
    using f1 s0 fl by (simp_all add: field_simps)
  have C: "sig_cands 17 x = [of_int f * s, of_int f * s + s]"
    unfolding sig_cands_def Let_def s_def f_def E_def by (simp add: distrib_right)
  show ?thesis using candidates_read_back [OF x lo sx] by (auto simp: pick_cand_def C)
qed

lemma shortest_None: "shortest fuel n x = None \<Longrightarrow> k < fuel \<Longrightarrow> pick_cand (n + k) x = None"
proof (induction fuel n x arbitrary: k rule: shortest.induct)
  case (2 fuel n x)
  then show ?case by (cases k) (auto split: option.splits)
qed simp

lemma shortest_total: "0 < x \<Longrightarrow> rep64 x \<Longrightarrow> \<exists>d. shortest 17 1 x = Some d"
  using shortest_None [of 17 1 x 16] pick_cand_17 [of x] by auto

lemma frepr_total:
  assumes "rep64 x"
  shows "\<exists>d. frepr x = Some d \<and> rnd64 d = x"
proof -
  have "rep64 (- x)" using assms by (simp add: rep64_def r64.odd)
  with assms have "\<exists>d. frepr x = Some d"
    using shortest_total [of x] shortest_total [of "- x"] by (auto simp: frepr_def)
  then show ?thesis using frepr_reads_back by blast
qed

text \<open>The decimal a float prints has at most 17 digits, so the contexts of the program keep it.\<close>

lemma rep64_ge:
  assumes "0 < x" "rep64 x"
  shows "pw 2 (- 1074) \<le> x"
proof -
  define g where "g = grid_exp 2 53 (- 1074) x"
  have x: "x = of_int (rhe (x / pw 2 g)) * pw 2 g"
    using assms by (simp add: rep64_def rnd64_def rnd_def rnd_pos_def g_def Let_def)
  have "0 < rhe (x / pw 2 g)"
    using assms(1) x by (metis pw_pos zero_less_mult_pos2 of_int_0_less_iff zero_less_numeral)
  then have "(1::rat) \<le> of_int (rhe (x / pw 2 g))" by linarith
  then have "1 * pw 2 g \<le> of_int (rhe (x / pw 2 g)) * pw 2 g" by (intro mult_right_mono) (simp_all add: less_imp_le)
  then have "pw 2 g \<le> x" using x by simp
  moreover have "pw 2 (- 1074) \<le> pw 2 g" by (rule pw_mono) (simp_all add: g_def grid_exp_def)
  ultimately show ?thesis by linarith
qed

lemma pw_base_minus: "pw 10 (- int k) \<le> pw 2 (- int k)" "pw 10 (- numeral n) \<le> pw 2 (- numeral n)"
proof -
  have *: "pw 10 (- int k) \<le> pw 2 (- int k)" for k
  proof -
    have "(2::rat) ^ k \<le> 10 ^ k" by (intro power_mono) auto
    then have "1 / (10::rat) ^ k \<le> 1 / 2 ^ k" by (intro divide_left_mono) auto
    then show ?thesis unfolding pw_minus [OF zero_less_numeral] by (simp add: pw_def)
  qed
  show "pw 10 (- int k) \<le> pw 2 (- int k)" by (rule *)
  show "pw 10 (- numeral n) \<le> pw 2 (- numeral n)" using * [of "numeral n"] by simp
qed

lemma shortest_digits:
  assumes "shortest fuel n x = Some d" "0 < x" "rep64 x" "1 \<le> n" "n + fuel \<le> 18"
  shows "\<exists>m k. d = of_int m * pw 10 k \<and> 0 \<le> m \<and> m \<le> 10 ^ 17 \<and> - 1100 \<le> k"
  using assms
proof (induction fuel n x rule: shortest.induct)
  case (2 fuel n x)
  show ?case
  proof (cases "pick_cand n x")
    case (Some c)
    define E where "E = rat_exp 10 x"
    define s where "s = pw 10 (E - (int n - 1))"
    define m where "m = \<lfloor>x / s\<rfloor>"
    have B: "pw 10 E \<le> x" "x < pw 10 (E + 1)" using rat_exp_bounds [of 10 x] 2(3) by (simp_all add: E_def)
    have "pw 10 (- 1074) \<le> pw 2 (- 1074)"
      by (rule pw_base_minus)
    then have "pw 10 (- 1074) < pw 10 (E + 1)" using rep64_ge [OF 2(3,4)] B by linarith
    then have E: "- 1074 \<le> E" by (simp add: pw_le_iff)
    have s0: "0 < s" by (simp add: s_def)
    have "pw 10 (E + 1) = pw 10 (int n) * s"
      unfolding s_def by (subst pw_add [symmetric]) auto
    then have "x / s < pw 10 (int n)" using B(2) s0 by (simp add: pos_divide_less_eq)
    then have "x / s < 10 ^ n" by (simp add: pw_def)
    then have m1: "m + 1 \<le> 10 ^ n" unfolding m_def
      by (metis add1_zle_eq floor_less_iff of_int_numeral of_int_power)
    have m0: "0 \<le> m" using 2(3) s0 by (simp add: m_def)
    have n17: "(10::int) ^ n \<le> 10 ^ 17" using 2(6) by (intro power_increasing) auto
    have "d = of_int m * s \<or> d = of_int (m + 1) * s"
      using 2(2) Some by (auto simp: pick_cand_def sig_cands_def Let_def m_def s_def E_def split: if_splits)
    moreover have "- 1100 \<le> E - (int n - 1)" using E 2(6) by simp
    ultimately show ?thesis using m0 m1 n17 unfolding s_def
      by (smt (verit, best) of_int_eq_iff)
  next
    case None
    then show ?thesis using 2 by simp
  qed
qed simp

lemma frepr_digits:
  assumes "frepr x = Some d" "rep64 x"
  obtains m k where "d = of_int m * pw 10 k" "\<bar>m\<bar> \<le> 10 ^ 17" "- 1100 \<le> k"
proof -
  consider "d = of_int 0 * pw 10 0" | "0 < x" "shortest 17 1 x = Some d"
    | c where "x < 0" "shortest 17 1 (- x) = Some c" "d = - c"
    using assms(1) unfolding frepr_def by (auto split: if_splits)
  then show thesis
  proof cases
    case 1
    then show thesis using that by fastforce
  next
    case 2
    then show thesis using that shortest_digits [of 17 1 x d] assms(2) by auto
  next
    case 3
    moreover have "rep64 (- x)" using assms(2) by (simp add: rep64_def r64.odd)
    ultimately obtain m k where "c = of_int m * pw 10 k" "0 \<le> m" "m \<le> 10 ^ 17" "- 1100 \<le> k"
      using shortest_digits [of 17 1 "- x" c] by auto
    then show thesis using that [of "- m" k] 3(3) by simp
  qed
qed

lemma dround_short:
  assumes "\<bar>m\<bar> \<le> 10 ^ 17" "- 1100 \<le> k"
  shows "dround 28 (of_int m * pw 10 k) = of_int m * pw 10 k"
  unfolding dround_def
proof (rule rnd_exact [where k = k])
  show "on_grid 10 k (of_int m * pw 10 k)" using on_grid_iff [of 10 k] by auto
  have "\<bar>of_int m\<bar> \<le> (10::rat) ^ 17" using assms(1) by (metis of_int_abs of_int_le_iff of_int_numeral of_int_power)
  also have "\<dots> < pw 10 28" by (simp add: pw_def)
  finally have "\<bar>of_int m\<bar> * pw 10 k < pw 10 28 * pw 10 k" by (intro mult_strict_right_mono) auto
  then show "\<bar>of_int m * pw 10 k\<bar> < pw 10 (k + int 28)"
    by (simp add: pw_add mult.commute abs_mult abs_of_pos)
qed (use assms in auto)

lemma dround_frepr: "frepr x = Some d \<Longrightarrow> rep64 x \<Longrightarrow> dround 28 d = d"
  using frepr_digits dround_short by metis

end
