(* ===== verification/Json.thy ===== *)
theory Json
  imports Float64 "HOL-Library.List_Lexorder" "HOL-Library.Char_ord"
begin

text \<open>
  JSON values and the canonical text of \<^verbatim>\<open>json.dumps(..., sort_keys=True, separators=(",", ":"))\<close>,
  with the rendering of integers and of finite decimals. A string is the list of its bytes; the
  program's identifiers are ASCII by their validation patterns.
\<close>

section \<open>Values\<close>

datatype json =
    JNull
  | JBool bool
  | JInt int
  | JFloat f64
  | JStr string
  | JArr "json list"
  | JObj "(string \<times> json) list"

definition jget :: "json \<Rightarrow> string \<Rightarrow> json" where
  "jget j k = (case j of JObj kvs \<Rightarrow> (case map_of kvs k of Some v \<Rightarrow> v | None \<Rightarrow> JNull) | _ \<Rightarrow> JNull)"

section \<open>Digits\<close>

definition digit_char :: "nat \<Rightarrow> char" where
  "digit_char d = char_of (48 + d)"

definition char_digit :: "char \<Rightarrow> nat" where
  "char_digit c = of_char c - 48"

fun nat_digits :: "nat \<Rightarrow> string" where
  "nat_digits n = (if n < 10 then [digit_char n] else nat_digits (n div 10) @ [digit_char (n mod 10)])"

declare nat_digits.simps [simp del]

definition digits_nat :: "string \<Rightarrow> nat" where
  "digits_nat cs = foldl (\<lambda>acc c. 10 * acc + char_digit c) 0 cs"

definition int_text :: "int \<Rightarrow> string" where
  "int_text i = (if i < 0 then CHR ''-'' # nat_digits (nat (- i)) else nat_digits (nat i))"

lemma char_digit_char [simp]: "d < 10 \<Longrightarrow> char_digit (digit_char d) = d"
  by (simp add: char_digit_def digit_char_def of_char_of take_bit_eq_mod)

lemma digits_nat_digits: "digits_nat (nat_digits n) = n"
proof (induction n rule: nat_digits.induct)
  case (1 n)
  show ?case
  proof (cases "n < 10")
    case True
    then show ?thesis by (simp add: nat_digits.simps digits_nat_def)
  next
    case False
    with 1 have "digits_nat (nat_digits (n div 10)) = n div 10" by simp
    with False show ?thesis
      by (simp add: nat_digits.simps [of n] digits_nat_def)
  qed
qed

text \<open>The digits of a fraction in \<open>[0, 1)\<close>, until nothing is left: no trailing zeros.\<close>

fun frac_digits :: "nat \<Rightarrow> rat \<Rightarrow> string" where
  "frac_digits 0 r = []"
| "frac_digits (Suc fuel) r =
     (if r = 0 then []
      else digit_char (nat \<lfloor>r * 10\<rfloor>) # frac_digits fuel (r * 10 - of_int \<lfloor>r * 10\<rfloor>))"

fun digits_frac :: "string \<Rightarrow> rat" where
  "digits_frac [] = 0"
| "digits_frac (c # cs) = (of_nat (char_digit c) + digits_frac cs) / 10"

lemma digits_frac_digits:
  assumes "places k r" "0 \<le> r" "r < 1"
  shows "digits_frac (frac_digits k r) = r"
  using assms
proof (induction k arbitrary: r)
  case 0
  then have "r = of_int \<lfloor>r\<rfloor>" by (simp add: places_def)
  moreover have "\<lfloor>r\<rfloor> = 0" using 0 by (simp add: floor_eq_iff)
  ultimately have "r = 0" by simp
  then show ?case by simp
next
  case (Suc k)
  let ?m = "\<lfloor>r * 10\<rfloor>" and ?r = "r * 10 - of_int \<lfloor>r * 10\<rfloor>"
  have m: "0 \<le> ?m" "?m < 10" using Suc.prems(2,3) by (auto simp: floor_less_iff)
  have "places k (r * 10)"
    using Suc.prems(1) by (simp add: places_def mult.assoc)
  then have "places k ?r" by (intro places_diff) auto
  moreover have "0 \<le> ?r" "?r < 1" by linarith+
  ultimately have IH: "digits_frac (frac_digits k ?r) = ?r" by (rule Suc.IH)
  show ?case
  proof (cases "r = 0")
    case False
    have "rat_of_nat (nat ?m) = of_int ?m" using m by simp
    moreover have "nat ?m < 10" using m by linarith
    ultimately have "rat_of_nat (char_digit (digit_char (nat ?m))) = of_int ?m" by simp
    then show ?thesis using False IH by simp
  qed simp
qed

text \<open>
  \<^verbatim>\<open>_canonical_value\<close> on a Decimal: \<^verbatim>\<open>format(value, "f")\<close> with trailing zeros and a bare point
  removed, and \<^verbatim>\<open>"0"\<close> for zero. The amounts of the models have at most 120 decimal places
  (\<^verbatim>\<open>CalculatedNonnegative\<close>), so 120 steps suffice.
\<close>

definition decimal_text :: "rat \<Rightarrow> string" where
  "decimal_text x =
     (let a = \<bar>x\<bar>; i = \<lfloor>a\<rfloor>; f = frac_digits 120 (a - of_int i);
          body = nat_digits (nat i) @ (if f = [] then [] else CHR ''.'' # f)
      in if x < 0 then CHR ''-'' # body else body)"

definition read_unsigned :: "string \<Rightarrow> rat" where
  "read_unsigned cs = (let i = takeWhile (\<lambda>c. c \<noteq> CHR ''.'') cs; f = drop (length i + 1) cs
     in of_nat (digits_nat i) + digits_frac f)"

definition read_decimal :: "string \<Rightarrow> rat" where
  "read_decimal cs = (case cs of [] \<Rightarrow> 0
     | c # cs' \<Rightarrow> if c = CHR ''-'' then - read_unsigned cs' else read_unsigned cs)"

lemma digit_char_not_special: "d < 10 \<Longrightarrow> digit_char d \<noteq> CHR ''.'' \<and> digit_char d \<noteq> CHR ''-''"
proof -
  assume d: "d < 10"
  have "(of_char (digit_char d) :: nat) = 48 + d"
    using d by (simp add: digit_char_def of_char_of take_bit_eq_mod)
  then show ?thesis using d by (auto dest: arg_cong [where f = "of_char :: char \<Rightarrow> nat"])
qed

lemma nat_digits_not_special:
  "c \<in> set (nat_digits n) \<Longrightarrow> c \<noteq> CHR ''.'' \<and> c \<noteq> CHR ''-''"
proof (induction n rule: nat_digits.induct)
  case (1 n)
  show ?case
  proof (cases "n < 10")
    case True
    with "1.prems" show ?thesis using digit_char_not_special by (simp add: nat_digits.simps)
  next
    case False
    with "1.prems" "1.IH" show ?thesis
      using digit_char_not_special [of "n mod 10"] by (auto simp: nat_digits.simps [of n])
  qed
qed

lemma nat_digits_nonempty: "nat_digits n \<noteq> []"
  by (subst nat_digits.simps) simp

lemma read_unsigned_text:
  "read_unsigned (nat_digits n @ (if f = [] then [] else CHR ''.'' # f)) =
     of_nat n + digits_frac f"
proof -
  have tw: "takeWhile (\<lambda>c. c \<noteq> CHR ''.'') (nat_digits n @ (if f = [] then [] else CHR ''.'' # f))
      = nat_digits n"
    using nat_digits_not_special [of _ n] by (auto simp: takeWhile_append)
  show ?thesis
    unfolding read_unsigned_def Let_def tw by (simp add: digits_nat_digits)
qed

lemma read_decimal_text:
  assumes "places 120 x"
  shows "read_decimal (decimal_text x) = x"
proof -
  let ?i = "\<lfloor>\<bar>x\<bar>\<rfloor>" and ?f = "frac_digits 120 (\<bar>x\<bar> - of_int \<lfloor>\<bar>x\<bar>\<rfloor>)"
  let ?body = "nat_digits (nat ?i) @ (if ?f = [] then [] else CHR ''.'' # ?f)"
  have pl: "places 120 \<bar>x\<bar>" using assms places_minus by (auto simp: abs_if)
  have "digits_frac ?f = \<bar>x\<bar> - of_int ?i"
    by (rule digits_frac_digits) (use pl in \<open>auto intro: places_diff, linarith\<close>)
  then have body: "read_unsigned ?body = \<bar>x\<bar>"
    by (simp only: read_unsigned_text) simp
  obtain c cs where c: "?body = c # cs" using nat_digits_nonempty by (cases ?body) auto
  then have "c \<in> set (nat_digits (nat ?i))"
    using nat_digits_nonempty [of "nat ?i"] by (cases "nat_digits (nat ?i)") auto
  then have "c \<noteq> CHR ''-''" using nat_digits_not_special by blast
  then have pos: "read_decimal ?body = \<bar>x\<bar>"
    using body c by (simp add: read_decimal_def)
  show ?thesis
  proof (cases "x < 0")
    case True
    then have "decimal_text x = CHR ''-'' # ?body" by (simp add: decimal_text_def Let_def)
    then have "read_decimal (decimal_text x) = - read_unsigned ?body" by (simp add: read_decimal_def)
    with body True show ?thesis by simp
  next
    case False
    then have "decimal_text x = ?body" by (simp add: decimal_text_def Let_def)
    with pos False show ?thesis by simp
  qed
qed

section \<open>Canonical text\<close>

definition hex_char :: "nat \<Rightarrow> char" where
  "hex_char d = (if d < 10 then digit_char d else char_of (87 + d))"

definition escape_char :: "char \<Rightarrow> string" where
  "escape_char c =
     (if c = CHR ''\"'' then [CHR 0x5C, CHR ''\"'']
      else if c = CHR 0x5C then [CHR 0x5C, CHR 0x5C]
      else if c = CHR 0x0A then [CHR 0x5C, CHR ''n'']
      else if c = CHR 0x0D then [CHR 0x5C, CHR ''r'']
      else if c = CHR 0x09 then [CHR 0x5C, CHR ''t'']
      else if c = CHR 0x08 then [CHR 0x5C, CHR ''b'']
      else if c = CHR 0x0C then [CHR 0x5C, CHR ''f'']
      else if (of_char c :: nat) < 32 then
        [CHR 0x5C, CHR ''u'', CHR ''0'', CHR ''0'', hex_char (of_char c div 16), hex_char (of_char c mod 16)]
      else [c])"

definition json_string :: "string \<Rightarrow> string" where
  "json_string s = CHR ''\"'' # concat (map escape_char s) @ [CHR ''\"'']"

fun commas :: "string list \<Rightarrow> string" where
  "commas [] = []"
| "commas [x] = x"
| "commas (x # xs) = x @ CHR '','' # commas xs"

primrec sort_keys :: "json \<Rightarrow> json" where
  "sort_keys JNull = JNull"
| "sort_keys (JBool b) = JBool b"
| "sort_keys (JInt i) = JInt i"
| "sort_keys (JFloat x) = JFloat x"
| "sort_keys (JStr s) = JStr s"
| "sort_keys (JArr xs) = JArr (map sort_keys xs)"
| "sort_keys (JObj kvs) = JObj (sort_key fst (map (map_prod id sort_keys) kvs))"

text \<open>The text of a value with sorted keys; \<open>float_text\<close> is \<^verbatim>\<open>float.__repr__\<close>.\<close>

primrec json_text :: "(f64 \<Rightarrow> string) \<Rightarrow> json \<Rightarrow> string" where
  "json_text ft JNull = ''null''"
| "json_text ft (JBool b) = (if b then ''true'' else ''false'')"
| "json_text ft (JInt i) = int_text i"
| "json_text ft (JFloat x) = ft x"
| "json_text ft (JStr s) = json_string s"
| "json_text ft (JArr xs) = CHR ''['' # commas (map (json_text ft) xs) @ '']''"
| "json_text ft (JObj kvs) = CHR ''{'' # commas (map (\<lambda>(k, v). json_string k @ CHR '':'' # v)
     (map (map_prod id (json_text ft)) kvs)) @ ''}''"

end
