(* ===== verification/Sha256.thy ===== *)
theory Sha256
  imports Json "HOL-Library.Word"
begin

text \<open>
  SHA-256 (\<^verbatim>\<open>hashlib.sha256(...).hexdigest()\<close>), which the program uses for content fingerprints and
  deterministic order identifiers. Messages are byte strings; the digest is 64 lowercase hexadecimal
  characters.
\<close>

unbundle bit_operations_syntax

type_synonym u32 = "32 word"

definition rotr :: "nat \<Rightarrow> u32 \<Rightarrow> u32" where
  "rotr n x = drop_bit n x OR push_bit (32 - n) x"

definition sha_k :: "u32 list" where
  "sha_k =
    [1116352408, 1899447441, 3049323471, 3921009573, 961987163, 1508970993,
     2453635748, 2870763221, 3624381080, 310598401, 607225278, 1426881987,
     1925078388, 2162078206, 2614888103, 3248222580, 3835390401, 4022224774,
     264347078, 604807628, 770255983, 1249150122, 1555081692, 1996064986,
     2554220882, 2821834349, 2952996808, 3210313671, 3336571891, 3584528711,
     113926993, 338241895, 666307205, 773529912, 1294757372, 1396182291,
     1695183700, 1986661051, 2177026350, 2456956037, 2730485921, 2820302411,
     3259730800, 3345764771, 3516065817, 3600352804, 4094571909, 275423344,
     430227734, 506948616, 659060556, 883997877, 958139571, 1322822218,
     1537002063, 1747873779, 1955562222, 2024104815, 2227730452, 2361852424,
     2428436474, 2756734187, 3204031479, 3329325298]"

definition sha_init :: "u32 list" where
  "sha_init =
    [1779033703, 3144134277, 1013904242, 2773480762, 1359893119, 2600822924,
     528734635, 1541459225]"

definition word_of_bytes :: "nat list \<Rightarrow> u32" where
  "word_of_bytes bs = foldl (\<lambda>acc b. push_bit 8 acc OR of_nat b) 0 bs"

fun chunks :: "nat \<Rightarrow> 'a list \<Rightarrow> 'a list list" where
  "chunks n xs = (if n = 0 \<or> xs = [] then [] else take n xs # chunks n (drop n xs))"

declare chunks.simps [simp del]

definition nat_bytes8 :: "nat \<Rightarrow> nat list" where
  "nat_bytes8 n = map (\<lambda>i. n div 256 ^ i mod 256) [7, 6, 5, 4, 3, 2, 1, 0]"

definition sha_pad :: "nat list \<Rightarrow> nat list" where
  "sha_pad bs = (let l = length bs; z = (119 - l mod 64) mod 64
     in bs @ 128 # replicate z 0 @ nat_bytes8 (8 * l))"

text \<open>The message schedule, most recent word first.\<close>

definition sched_word :: "u32 list \<Rightarrow> u32" where
  "sched_word w = (let a = w ! 1; b = w ! 14;
       s1 = rotr 17 a XOR rotr 19 a XOR drop_bit 10 a;
       s0 = rotr 7 b XOR rotr 18 b XOR drop_bit 3 b
     in s1 + w ! 6 + s0 + w ! 15)"

fun schedule :: "nat \<Rightarrow> u32 list \<Rightarrow> u32 list" where
  "schedule 0 w = w"
| "schedule (Suc n) w = schedule n (sched_word w # w)"

type_synonym sha_regs = "u32 \<times> u32 \<times> u32 \<times> u32 \<times> u32 \<times> u32 \<times> u32 \<times> u32"

fun sha_round :: "sha_regs \<Rightarrow> u32 \<times> u32 \<Rightarrow> sha_regs" where
  "sha_round (a, b, c, d, e, f, g, h) (k, w) =
     (let t1 = h + (rotr 6 e XOR rotr 11 e XOR rotr 25 e) + ((e AND f) XOR (NOT e AND g)) + k + w;
          t2 = (rotr 2 a XOR rotr 13 a XOR rotr 22 a) + ((a AND b) XOR (a AND c) XOR (b AND c))
      in (t1 + t2, a, b, c, d + t1, e, f, g))"

fun regs_list :: "sha_regs \<Rightarrow> u32 list" where
  "regs_list (a, b, c, d, e, f, g, h) = [a, b, c, d, e, f, g, h]"

fun list_regs :: "u32 list \<Rightarrow> sha_regs" where
  "list_regs [a, b, c, d, e, f, g, h] = (a, b, c, d, e, f, g, h)"
| "list_regs _ = (0, 0, 0, 0, 0, 0, 0, 0)"

definition sha_block :: "u32 list \<Rightarrow> nat list \<Rightarrow> u32 list" where
  "sha_block st blk = (let w = rev (schedule 48 (rev (map word_of_bytes (chunks 4 blk))))
     in map2 (+) st (regs_list (foldl sha_round (list_regs st) (zip sha_k w))))"

definition hex_word :: "u32 \<Rightarrow> string" where
  "hex_word w = map (\<lambda>i. hex_char (unat (drop_bit (4 * i) w AND 15))) [7, 6, 5, 4, 3, 2, 1, 0]"

definition sha256_hex :: "string \<Rightarrow> string" where
  "sha256_hex msg =
     concat (map hex_word (foldl sha_block sha_init (chunks 64 (sha_pad (map of_char msg)))))"

lemma length_map2_add [simp]: "length (map2 (+) xs ys) = min (length xs) (length ys)"
  by simp

lemma length_regs_list [simp]: "length (regs_list r) = 8"
  by (cases r rule: regs_list.cases) simp

lemma length_sha_block: "length st = 8 \<Longrightarrow> length (sha_block st blk) = 8"
  by (simp add: sha_block_def Let_def)

lemma length_sha_fold: "length st = 8 \<Longrightarrow> length (foldl sha_block st bs) = 8"
  by (induction bs arbitrary: st) (auto simp: length_sha_block)

lemma length_concat_hex: "length (concat (map hex_word ws)) = 8 * length ws"
  by (induction ws) (auto simp: hex_word_def)

lemma length_sha256_hex [simp]: "length (sha256_hex msg) = 64"
  by (simp add: sha256_hex_def length_concat_hex length_sha_fold sha_init_def)

end
