(* ===== verification/Sim_Models.thy ===== *)
theory Sim_Models
  imports Sha256 "HOL-Library.Product_Lexorder"
begin

text \<open>
  \<^verbatim>\<open>kairos_execution/simulation/models.py\<close>: the immutable inputs and outputs of the fill model.
  Each pydantic class is a record; its field constraints and its \<^verbatim>\<open>model_validator\<close> are a
  \<open>validate_\<dots>\<close> definition that is tried whenever the code builds or revalidates an instance.
  Fields with a single literal value (contract versions and the like) are constants of the JSON
  rendering. A failed constraint is a \<open>ValidationError\<close>; pydantic reports all failing fields at
  once, the model the first.
\<close>

section \<open>Enumerations and constrained scalars\<close>

datatype sim_symbol = BTCUSDT | ETHUSDT | SOLUSDT | BNBUSDT | XRPUSDT

datatype order_side = BUY | SELL

datatype book_side = BID | ASK

datatype continuity = ADMITTED | GAP | RECONNECT | UNKNOWN | UNAVAILABLE | CLOCK_SKEW

datatype fill_status = WAIT | FILLED | PARTIAL | NO_FILL | BLOCKED

text \<open>Python orders the keys of the depth debit as strings: \<open>ASK\<close> before \<open>BID\<close>.\<close>

instantiation book_side :: linorder
begin

definition less_eq_book_side :: "book_side \<Rightarrow> book_side \<Rightarrow> bool" where
  "less_eq_book_side a b \<longleftrightarrow> a = ASK \<or> b = BID"

definition less_book_side :: "book_side \<Rightarrow> book_side \<Rightarrow> bool" where
  "less_book_side a b \<longleftrightarrow> a = ASK \<and> b = BID"

instance
proof
  fix x y z :: book_side
  show "(x < y) = (x \<le> y \<and> \<not> y \<le> x)"
    by (cases x; cases y) (auto simp: less_eq_book_side_def less_book_side_def)
  show "x \<le> x"
    by (cases x) (auto simp: less_eq_book_side_def)
  show "x \<le> y \<Longrightarrow> y \<le> z \<Longrightarrow> x \<le> z"
    by (cases x; cases y; cases z) (auto simp: less_eq_book_side_def)
  show "x \<le> y \<Longrightarrow> y \<le> x \<Longrightarrow> x = y"
    by (cases x; cases y) (auto simp: less_eq_book_side_def)
  show "x \<le> y \<or> y \<le> x"
    by (cases x; cases y) (auto simp: less_eq_book_side_def)
qed

end

definition symbol_text :: "sim_symbol \<Rightarrow> string" where
  "symbol_text s = (case s of BTCUSDT \<Rightarrow> ''BTCUSDT'' | ETHUSDT \<Rightarrow> ''ETHUSDT'' | SOLUSDT \<Rightarrow> ''SOLUSDT''
     | BNBUSDT \<Rightarrow> ''BNBUSDT'' | XRPUSDT \<Rightarrow> ''XRPUSDT'')"

definition side_text :: "order_side \<Rightarrow> string" where
  "side_text s = (case s of BUY \<Rightarrow> ''BUY'' | SELL \<Rightarrow> ''SELL'')"

definition book_side_text :: "book_side \<Rightarrow> string" where
  "book_side_text s = (case s of BID \<Rightarrow> ''BID'' | ASK \<Rightarrow> ''ASK'')"

definition continuity_text :: "continuity \<Rightarrow> string" where
  "continuity_text c = (case c of ADMITTED \<Rightarrow> ''ADMITTED'' | GAP \<Rightarrow> ''GAP'' | RECONNECT \<Rightarrow> ''RECONNECT''
     | UNKNOWN \<Rightarrow> ''UNKNOWN'' | UNAVAILABLE \<Rightarrow> ''UNAVAILABLE'' | CLOCK_SKEW \<Rightarrow> ''CLOCK_SKEW'')"

definition status_text :: "fill_status \<Rightarrow> string" where
  "status_text s = (case s of WAIT \<Rightarrow> ''WAIT'' | FILLED \<Rightarrow> ''FILLED'' | PARTIAL \<Rightarrow> ''PARTIAL''
     | NO_FILL \<Rightarrow> ''NO_FILL'' | BLOCKED \<Rightarrow> ''BLOCKED'')"

definition is_alnum :: "char \<Rightarrow> bool" where
  "is_alnum c = (let n = (of_char c :: nat) in
     48 \<le> n \<and> n \<le> 57 \<or> 65 \<le> n \<and> n \<le> 90 \<or> 97 \<le> n \<and> n \<le> 122)"

definition valid_identifier :: "string \<Rightarrow> bool" where
  "valid_identifier s = (case s of [] \<Rightarrow> False
     | c # cs \<Rightarrow> length s \<le> 128 \<and> is_alnum c \<and>
         list_all (\<lambda>d. is_alnum d \<or> List.member ''_.:/-'' d) cs)"

definition is_hex_lower :: "char \<Rightarrow> bool" where
  "is_hex_lower c = (let n = (of_char c :: nat) in 48 \<le> n \<and> n \<le> 57 \<or> 97 \<le> n \<and> n \<le> 102)"

definition valid_sha256 :: "string \<Rightarrow> bool" where
  "valid_sha256 s = (length s = 64 \<and> list_all is_hex_lower s)"

definition valid_timestamp :: "int \<Rightarrow> bool" where
  "valid_timestamp t = (0 \<le> t \<and> t \<le> 9223372036854775807)"

text \<open>\<^verbatim>\<open>PositiveAmount\<close> and \<^verbatim>\<open>NonnegativeAmount\<close>: at most 18 decimal places and 38 digits, up to
  \<open>10 ^ 18\<close>; the calculated amounts: at most 120 places and 160 digits, up to \<open>10 ^ 40\<close>. Given the
  bound, the limit on the places is the one that can fail.\<close>

definition positive_amount :: "rat \<Rightarrow> bool" where
  "positive_amount x = (0 < x \<and> x \<le> 10 ^ 18 \<and> places 18 x)"

definition nonnegative_amount :: "rat \<Rightarrow> bool" where
  "nonnegative_amount x = (0 \<le> x \<and> x \<le> 10 ^ 18 \<and> places 18 x)"

definition calculated_nonnegative :: "rat \<Rightarrow> bool" where
  "calculated_nonnegative x = (0 \<le> x \<and> x \<le> 10 ^ 40 \<and> places 120 x)"

definition calculated_positive :: "rat \<Rightarrow> bool" where
  "calculated_positive x = (0 < x \<and> x \<le> 10 ^ 40 \<and> places 120 x)"

definition invalid :: "string \<Rightarrow> exn" where
  "invalid msg = Exn ValidationError msg"

section \<open>Inputs\<close>

record book_level =
  bl_price :: rat
  bl_quantity :: rat

record accepted_book_frame =
  fr_tape_id :: string
  fr_stream_epoch :: string
  fr_symbol :: sim_symbol
  fr_sequence :: int
  fr_exchange_update_id :: int
  fr_exchange_at_ms :: int
  fr_received_at_ms :: int
  fr_persisted_at_ms :: int
  fr_raw_payload_sha256 :: string
  fr_continuity :: continuity
  fr_bids :: "book_level list"
  fr_asks :: "book_level list"

record ioc_command =
  cmd_session_id :: string
  cmd_command_id :: string
  cmd_symbol :: sim_symbol
  cmd_side :: order_side
  cmd_quantity :: rat
  cmd_price_cap :: rat
  cmd_submitted_at_ms :: int
  cmd_persisted_at_ms :: int
  cmd_eligible_at_ms :: int
  cmd_expires_at_ms :: int

record fill_assumptions =
  as_latency_ms :: int
  as_maximum_book_age_ms :: int
  as_maximum_frame_latency_ms :: int
  as_depth_participation_fraction :: rat
  as_adverse_slippage_bps :: rat
  as_taker_fee_bps :: rat
  as_price_tick :: rat
  as_quantity_step :: rat

text \<open>\<^verbatim>\<open>tuple(sorted(set(prices)))\<close> equals the tuple itself exactly when it is strictly sorted.\<close>

definition strictly_ascending :: "rat list \<Rightarrow> bool" where
  "strictly_ascending ps = (ps = sorted_list_of_set (set ps))"

definition strictly_descending :: "rat list \<Rightarrow> bool" where
  "strictly_descending ps = (ps = rev (sorted_list_of_set (set ps)))"

definition validate_book_level :: "book_level \<Rightarrow> unit res" where
  "validate_book_level l = ensure
     [(positive_amount (bl_price l), invalid ''price''),
      (positive_amount (bl_quantity l), invalid ''quantity'')]"

definition validate_frame :: "accepted_book_frame \<Rightarrow> unit res" where
  "validate_frame f = rbind (ensure
     [(valid_identifier (fr_tape_id f), invalid ''tape_id''),
      (valid_identifier (fr_stream_epoch f), invalid ''stream_epoch''),
      (0 < fr_sequence f, invalid ''sequence''),
      (0 < fr_exchange_update_id f, invalid ''exchange_update_id''),
      (valid_timestamp (fr_exchange_at_ms f), invalid ''exchange_at_ms''),
      (valid_timestamp (fr_received_at_ms f), invalid ''received_at_ms''),
      (valid_timestamp (fr_persisted_at_ms f), invalid ''persisted_at_ms''),
      (valid_sha256 (fr_raw_payload_sha256 f), invalid ''raw_payload_sha256''),
      (length (fr_bids f) \<le> 100, invalid ''bids''),
      (length (fr_asks f) \<le> 100, invalid ''asks'')])
     (\<lambda>_. rbind (rtraverse validate_book_level (fr_bids f))
     (\<lambda>_. rbind (rtraverse validate_book_level (fr_asks f))
     (\<lambda>_. let bid_prices = map bl_price (fr_bids f); ask_prices = map bl_price (fr_asks f) in ensure
     [(fr_exchange_at_ms f \<le> fr_received_at_ms f \<and> fr_received_at_ms f \<le> fr_persisted_at_ms f,
         invalid ''frame requires exchange <= received <= persisted timestamps''),
      (\<not> (fr_continuity f = ADMITTED \<and> (fr_bids f = [] \<or> fr_asks f = [])),
         invalid ''admitted book must contain both sides''),
      (strictly_descending bid_prices, invalid ''bids must be unique and strictly descending''),
      (strictly_ascending ask_prices, invalid ''asks must be unique and strictly ascending''),
      (\<not> (fr_bids f \<noteq> [] \<and> fr_asks f \<noteq> [] \<and> hd ask_prices \<le> hd bid_prices),
         invalid ''book must not be locked or crossed'')])))"

definition validate_command :: "ioc_command \<Rightarrow> unit res" where
  "validate_command c = ensure
     [(valid_identifier (cmd_session_id c), invalid ''session_id''),
      (valid_identifier (cmd_command_id c), invalid ''command_id''),
      (positive_amount (cmd_quantity c), invalid ''quantity''),
      (positive_amount (cmd_price_cap c), invalid ''price_cap''),
      (valid_timestamp (cmd_submitted_at_ms c), invalid ''submitted_at_ms''),
      (valid_timestamp (cmd_persisted_at_ms c), invalid ''persisted_at_ms''),
      (valid_timestamp (cmd_eligible_at_ms c), invalid ''eligible_at_ms''),
      (valid_timestamp (cmd_expires_at_ms c), invalid ''expires_at_ms''),
      (\<not> cmd_persisted_at_ms c < cmd_submitted_at_ms c,
         invalid ''command persistence cannot predate submission''),
      (\<not> cmd_expires_at_ms c < cmd_eligible_at_ms c,
         invalid ''command expiry cannot predate eligibility'')]"

definition validate_assumptions :: "fill_assumptions \<Rightarrow> unit res" where
  "validate_assumptions a = ensure
     [(0 \<le> as_latency_ms a \<and> as_latency_ms a \<le> 60000, invalid ''latency_ms''),
      (0 < as_maximum_book_age_ms a \<and> as_maximum_book_age_ms a \<le> 60000,
         invalid ''maximum_book_age_ms''),
      (0 < as_maximum_frame_latency_ms a \<and> as_maximum_frame_latency_ms a \<le> 60000,
         invalid ''maximum_frame_latency_ms''),
      (0 < as_depth_participation_fraction a \<and> as_depth_participation_fraction a \<le> 1
         \<and> places 18 (as_depth_participation_fraction a), invalid ''depth_participation_fraction''),
      (nonnegative_amount (as_adverse_slippage_bps a), invalid ''adverse_slippage_bps''),
      (nonnegative_amount (as_taker_fee_bps a), invalid ''taker_fee_bps''),
      (positive_amount (as_price_tick a), invalid ''price_tick''),
      (positive_amount (as_quantity_step a), invalid ''quantity_step''),
      (\<not> (10000 \<le> as_adverse_slippage_bps a \<or> 10000 < as_taker_fee_bps a),
         invalid ''model slippage must be below 100%, fees at most 100%'')]"

section \<open>Outputs and the liquidity state\<close>

record consumed_depth =
  cd_side :: book_side
  cd_price :: rat
  cd_quantity :: rat

record level_fill =
  lf_book_price :: rat
  lf_execution_price :: rat
  lf_quantity :: rat
  lf_fee_quote :: rat

record fill_outcome =
  fo_command_id :: string
  fo_command_sha256 :: string
  fo_assumptions_sha256 :: string
  fo_frame_sha256 :: "string option"
  fo_status :: fill_status
  fo_reason :: string
  fo_arrival_at_ms :: int
  fo_requested_quantity :: rat
  fo_filled_quantity :: rat
  fo_cancelled_quantity :: rat
  fo_average_price :: "rat option"
  fo_notional_quote :: rat
  fo_fee_quote :: rat
  fo_arrival_mid_price :: "rat option"
  fo_implementation_shortfall_quote :: rat
  fo_level_fills :: "level_fill list"

record command_receipt =
  rc_command_id :: string
  rc_command_sha256 :: string
  rc_assumptions_sha256 :: string
  rc_outcome :: fill_outcome

record liquidity_state =
  ls_session_id :: string
  ls_tape_id :: string
  ls_stream_epoch :: string
  ls_symbol :: sim_symbol
  ls_assumptions_sha256 :: "string option"
  ls_last_as_of_ms :: int
  ls_last_arrival_at_ms :: int
  ls_last_frame_sequence :: int
  ls_last_exchange_update_id :: int
  ls_last_exchange_at_ms :: int
  ls_last_received_at_ms :: int
  ls_last_frame_sha256 :: "string option"
  ls_barrier_reason :: "string option"
  ls_consumed_depth :: "consumed_depth list"
  ls_receipts :: "command_receipt list"

record model_step =
  ms_outcome :: fill_outcome
  ms_state :: liquidity_state
  ms_replayed :: bool

definition max_commands :: nat where "max_commands = 1024"

definition initial_liquidity :: "string \<Rightarrow> string \<Rightarrow> string \<Rightarrow> sim_symbol \<Rightarrow> liquidity_state" where
  "initial_liquidity session tape epoch symbol =
     \<lparr> ls_session_id = session, ls_tape_id = tape, ls_stream_epoch = epoch, ls_symbol = symbol,
       ls_assumptions_sha256 = None, ls_last_as_of_ms = 0, ls_last_arrival_at_ms = 0,
       ls_last_frame_sequence = 0, ls_last_exchange_update_id = 0, ls_last_exchange_at_ms = 0,
       ls_last_received_at_ms = 0, ls_last_frame_sha256 = None, ls_barrier_reason = None,
       ls_consumed_depth = [], ls_receipts = [] \<rparr>"

definition validate_consumed_depth :: "consumed_depth \<Rightarrow> unit res" where
  "validate_consumed_depth d = ensure
     [(positive_amount (cd_price d), invalid ''price''),
      (calculated_positive (cd_quantity d), invalid ''quantity'')]"

definition validate_level_fill :: "level_fill \<Rightarrow> unit res" where
  "validate_level_fill f = ensure
     [(positive_amount (lf_book_price f), invalid ''book_price''),
      (calculated_positive (lf_execution_price f), invalid ''execution_price''),
      (positive_amount (lf_quantity f), invalid ''quantity''),
      (calculated_nonnegative (lf_fee_quote f), invalid ''fee_quote'')]"

definition coherent_outcome :: "fill_outcome \<Rightarrow> unit res" where
  "coherent_outcome out =
     (let quantity = dsum 96 (map lf_quantity (fo_level_fills out));
          notional = dsum 96 (map (\<lambda>f. dmul 96 (lf_quantity f) (lf_execution_price f)) (fo_level_fills out));
          fees = dsum 96 (map lf_fee_quote (fo_level_fills out))
      in ensure
       [((quantity, notional, fees) = (fo_filled_quantity out, fo_notional_quote out, fo_fee_quote out),
           invalid ''fill totals must match their immutable level fills''),
        (if fo_status out = WAIT then quantity = 0 \<and> fo_cancelled_quantity out = 0
         else dadd 96 quantity (fo_cancelled_quantity out) = fo_requested_quantity out,
           invalid (if fo_status out = WAIT then ''WAIT cannot consume or cancel quantity''
             else ''terminal quantity must be filled or cancelled exactly once'')),
        (\<not> (fo_status out = FILLED \<and> quantity \<noteq> fo_requested_quantity out),
           invalid ''FILLED requires the entire requested quantity''),
        (\<not> (fo_status out = PARTIAL \<and> \<not> (0 < quantity \<and> quantity < fo_requested_quantity out)),
           invalid ''PARTIAL requires strictly partial quantity''),
        (\<not> (fo_status out \<in> {WAIT, NO_FILL, BLOCKED} \<and> quantity \<noteq> 0),
           invalid ''non-fill statuses cannot contain fills''),
        (\<not> (quantity \<noteq> 0 \<and> fo_frame_sha256 out = None),
           invalid ''a model fill requires its exact accepted book frame''),
        (fo_average_price out = (if quantity \<noteq> 0 then Some (ddiv 96 notional quantity) else None),
           invalid ''average price must match filled notional and quantity''),
        (\<not> (quantity \<noteq> 0 \<and> fo_arrival_mid_price out = None),
           invalid ''a model fill requires its arrival book reference''),
        (\<not> (quantity = 0 \<and> fo_implementation_shortfall_quote out \<noteq> 0),
           invalid ''no quantity means no execution shortfall'')])"

definition validate_outcome :: "fill_outcome \<Rightarrow> unit res" where
  "validate_outcome out = rbind (ensure
     [(valid_identifier (fo_command_id out), invalid ''command_id''),
      (valid_sha256 (fo_command_sha256 out), invalid ''command_sha256''),
      (valid_sha256 (fo_assumptions_sha256 out), invalid ''assumptions_sha256''),
      (pred_option valid_sha256 (fo_frame_sha256 out), invalid ''frame_sha256''),
      (1 \<le> length (fo_reason out) \<and> length (fo_reason out) \<le> 100, invalid ''reason''),
      (valid_timestamp (fo_arrival_at_ms out), invalid ''arrival_at_ms''),
      (positive_amount (fo_requested_quantity out), invalid ''requested_quantity''),
      (nonnegative_amount (fo_filled_quantity out), invalid ''filled_quantity''),
      (nonnegative_amount (fo_cancelled_quantity out), invalid ''cancelled_quantity''),
      (pred_option calculated_positive (fo_average_price out), invalid ''average_price''),
      (calculated_nonnegative (fo_notional_quote out), invalid ''notional_quote''),
      (calculated_nonnegative (fo_fee_quote out), invalid ''fee_quote''),
      (pred_option calculated_positive (fo_arrival_mid_price out), invalid ''arrival_mid_price''),
      (calculated_nonnegative (fo_implementation_shortfall_quote out),
         invalid ''implementation_shortfall_quote''),
      (length (fo_level_fills out) \<le> 100, invalid ''level_fills'')])
     (\<lambda>_. rbind (rtraverse validate_level_fill (fo_level_fills out))
     (\<lambda>_. coherent_outcome out))"

definition validate_receipt :: "command_receipt \<Rightarrow> unit res" where
  "validate_receipt r = rbind (ensure
     [(valid_identifier (rc_command_id r), invalid ''command_id''),
      (valid_sha256 (rc_command_sha256 r), invalid ''command_sha256''),
      (valid_sha256 (rc_assumptions_sha256 r), invalid ''assumptions_sha256'')])
     (\<lambda>_. validate_outcome (rc_outcome r))"

definition receipt_lineage :: "liquidity_state \<Rightarrow> command_receipt \<Rightarrow> bool" where
  "receipt_lineage st r =
     (\<not> (rc_command_id r \<noteq> fo_command_id (rc_outcome r)
       \<or> rc_command_sha256 r \<noteq> fo_command_sha256 (rc_outcome r)
       \<or> rc_assumptions_sha256 r \<noteq> fo_assumptions_sha256 (rc_outcome r)
       \<or> Some (rc_assumptions_sha256 r) \<noteq> ls_assumptions_sha256 st
       \<or> fo_status (rc_outcome r) = WAIT))"

definition coherent_state :: "liquidity_state \<Rightarrow> unit res" where
  "coherent_state st =
     (let keys = map (\<lambda>d. (cd_side d, cd_price d)) (ls_consumed_depth st);
          commands = map rc_command_id (ls_receipts st);
          arrivals = map (fo_arrival_at_ms \<circ> rc_outcome) (ls_receipts st)
      in ensure
       [(distinct keys, invalid ''depth consumption keys must be unique''),
        (distinct commands, invalid ''command receipts must be unique''),
        ((ls_last_frame_sequence st = 0) = (ls_last_frame_sha256 st = None),
           invalid ''frame cursor requires its immutable hash''),
        ((ls_last_frame_sequence st = 0) = (ls_last_exchange_update_id st = 0),
           invalid ''frame cursor requires its exchange update ID''),
        (\<not> ((ls_receipts st \<noteq> [] \<or> ls_consumed_depth st \<noteq> []) \<and> ls_assumptions_sha256 st = None),
           invalid ''used liquidity state requires its immutable model fingerprint''),
        (\<not> ls_last_as_of_ms st < ls_last_arrival_at_ms st,
           invalid ''terminal arrivals cannot follow their evaluation clock''),
        (sorted arrivals \<and> \<not> (arrivals \<noteq> [] \<and> last arrivals \<noteq> ls_last_arrival_at_ms st),
           invalid ''terminal receipt arrival order must match the causal cursor''),
        (list_all (receipt_lineage st) (ls_receipts st),
           invalid ''receipt lineage or terminality is inconsistent'')])"

definition validate_state :: "liquidity_state \<Rightarrow> unit res" where
  "validate_state st = rbind (ensure
     [(valid_identifier (ls_session_id st), invalid ''session_id''),
      (valid_identifier (ls_tape_id st), invalid ''tape_id''),
      (valid_identifier (ls_stream_epoch st), invalid ''stream_epoch''),
      (pred_option valid_sha256 (ls_assumptions_sha256 st), invalid ''assumptions_sha256''),
      (valid_timestamp (ls_last_as_of_ms st), invalid ''last_as_of_ms''),
      (valid_timestamp (ls_last_arrival_at_ms st), invalid ''last_arrival_at_ms''),
      (0 \<le> ls_last_frame_sequence st, invalid ''last_frame_sequence''),
      (0 \<le> ls_last_exchange_update_id st, invalid ''last_exchange_update_id''),
      (valid_timestamp (ls_last_exchange_at_ms st), invalid ''last_exchange_at_ms''),
      (valid_timestamp (ls_last_received_at_ms st), invalid ''last_received_at_ms''),
      (pred_option valid_sha256 (ls_last_frame_sha256 st), invalid ''last_frame_sha256''),
      (pred_option (\<lambda>b. 1 \<le> length b \<and> length b \<le> 100) (ls_barrier_reason st), invalid ''barrier_reason''),
      (length (ls_consumed_depth st) \<le> 102400, invalid ''consumed_depth''),
      (length (ls_receipts st) \<le> max_commands, invalid ''receipts'')])
     (\<lambda>_. rbind (rtraverse validate_consumed_depth (ls_consumed_depth st))
     (\<lambda>_. rbind (rtraverse validate_receipt (ls_receipts st))
     (\<lambda>_. coherent_state st)))"

section \<open>Canonical bytes and fingerprints\<close>

text \<open>\<^verbatim>\<open>_canonical_value\<close>: a Decimal becomes its text, a model the dictionary of its fields, a tuple
  a list.\<close>

definition jdec :: "rat \<Rightarrow> json" where
  "jdec x = JStr (decimal_text x)"

definition jlevel :: "book_level \<Rightarrow> json" where
  "jlevel l = JObj [(''price'', jdec (bl_price l)), (''quantity'', jdec (bl_quantity l))]"

definition frame_json :: "accepted_book_frame \<Rightarrow> json" where
  "frame_json f = JObj
     [(''contract_version'', JStr ''simulated-book-input.v1''),
      (''market_data_venue'', JStr ''BINANCE_UM''),
      (''stream_kind'', JStr ''TOP_N_SNAPSHOT''),
      (''tape_id'', JStr (fr_tape_id f)),
      (''stream_epoch'', JStr (fr_stream_epoch f)),
      (''symbol'', JStr (symbol_text (fr_symbol f))),
      (''sequence'', JInt (fr_sequence f)),
      (''exchange_update_id'', JInt (fr_exchange_update_id f)),
      (''exchange_at_ms'', JInt (fr_exchange_at_ms f)),
      (''received_at_ms'', JInt (fr_received_at_ms f)),
      (''persisted_at_ms'', JInt (fr_persisted_at_ms f)),
      (''raw_payload_sha256'', JStr (fr_raw_payload_sha256 f)),
      (''continuity'', JStr (continuity_text (fr_continuity f))),
      (''bids'', JArr (map jlevel (fr_bids f))),
      (''asks'', JArr (map jlevel (fr_asks f)))]"

definition command_json :: "ioc_command \<Rightarrow> json" where
  "command_json c = JObj
     [(''contract_version'', JStr ''simulated-ioc-command.v1''),
      (''execution_environment'', JStr ''SIMULATED''),
      (''order_type'', JStr ''IOC_LIMIT''),
      (''session_id'', JStr (cmd_session_id c)),
      (''command_id'', JStr (cmd_command_id c)),
      (''symbol'', JStr (symbol_text (cmd_symbol c))),
      (''side'', JStr (side_text (cmd_side c))),
      (''quantity'', jdec (cmd_quantity c)),
      (''price_cap'', jdec (cmd_price_cap c)),
      (''submitted_at_ms'', JInt (cmd_submitted_at_ms c)),
      (''persisted_at_ms'', JInt (cmd_persisted_at_ms c)),
      (''eligible_at_ms'', JInt (cmd_eligible_at_ms c)),
      (''expires_at_ms'', JInt (cmd_expires_at_ms c))]"

definition assumptions_json :: "fill_assumptions \<Rightarrow> json" where
  "assumptions_json a = JObj
     [(''model_version'', JStr ''causal-taker-ioc.model-v1''),
      (''liquidity_policy'', JStr ''SESSION_PRICE_DEBIT_NO_REPLENISHMENT''),
      (''latency_ms'', JInt (as_latency_ms a)),
      (''maximum_book_age_ms'', JInt (as_maximum_book_age_ms a)),
      (''maximum_frame_latency_ms'', JInt (as_maximum_frame_latency_ms a)),
      (''depth_participation_fraction'', jdec (as_depth_participation_fraction a)),
      (''adverse_slippage_bps'', jdec (as_adverse_slippage_bps a)),
      (''taker_fee_bps'', jdec (as_taker_fee_bps a)),
      (''price_tick'', jdec (as_price_tick a)),
      (''quantity_step'', jdec (as_quantity_step a))]"

definition canonical_bytes :: "json \<Rightarrow> string" where
  "canonical_bytes j = json_text (\<lambda>_. []) (sort_keys j)"

definition fingerprint :: "json \<Rightarrow> string" where
  "fingerprint j = sha256_hex (canonical_bytes j)"

lemma hex_char_lower: "d < 16 \<Longrightarrow> is_hex_lower (hex_char d)"
  by (auto simp: is_hex_lower_def hex_char_def digit_char_def of_char_of take_bit_eq_mod Let_def)

lemma valid_sha256_fingerprint [simp]: "valid_sha256 (fingerprint j)"
proof -
  have "unat (x AND 15 :: u32) < 16" for x
    using word_and_le1 [of x 15] by (simp add: word_le_nat_alt)
  then have "list_all is_hex_lower (hex_word w)" for w
    by (simp add: hex_word_def hex_char_lower)
  then have "list_all is_hex_lower (concat (map hex_word ws))" for ws
    by (induction ws) auto
  then show ?thesis
    by (simp add: valid_sha256_def fingerprint_def) (simp add: sha256_hex_def)
qed

end
