(* ===== verification/Sim_Kernel.thy ===== *)
theory Sim_Kernel
  imports Sim_Models
begin

text \<open>
  \<^verbatim>\<open>kairos_execution/simulation/fill_model.py\<close>: the causal immediate-or-cancel depth walk. Every
  operation is a function of the command, the book frame, the assumptions and the liquidity state;
  the next state is returned. Arithmetic runs in the 96-digit decimal context, as in the code;
  \<open>Sim_Kernel_Exact\<close> shows that on validated inputs it never rounds.
\<close>

section \<open>Issues of a frame\<close>

definition frame_levels :: "accepted_book_frame \<Rightarrow> book_level list" where
  "frame_levels f = fr_bids f @ fr_asks f"

definition frame_issue ::
  "accepted_book_frame \<Rightarrow> liquidity_state \<Rightarrow> int \<Rightarrow> fill_assumptions \<Rightarrow> string option" where
  "frame_issue f st arrival pol =
     (if ls_barrier_reason st \<noteq> None then ls_barrier_reason st
      else if fr_stream_epoch f \<noteq> ls_stream_epoch st then Some ''STREAM_EPOCH_CHANGED''
      else if fr_continuity f \<noteq> ADMITTED then Some (''SOURCE_'' @ continuity_text (fr_continuity f))
      else if fr_persisted_at_ms f > arrival then Some ''FRAME_NOT_DURABLE_AT_ARRIVAL''
      else if arrival - fr_exchange_at_ms f > as_maximum_book_age_ms pol then Some ''STALE_BOOK''
      else if fr_received_at_ms f - fr_exchange_at_ms f > as_maximum_frame_latency_ms pol
        then Some ''EXCESSIVE_FRAME_LATENCY''
      else if fr_sequence f < ls_last_frame_sequence st then Some ''FRAME_SEQUENCE_REGRESSION''
      else if fr_sequence f = ls_last_frame_sequence st
          \<and> Some (fingerprint (frame_json f)) \<noteq> ls_last_frame_sha256 st
        then Some ''FRAME_IDENTITY_CONFLICT''
      else if fr_sequence f \<noteq> ls_last_frame_sequence st
          \<and> (fr_exchange_update_id f \<le> ls_last_exchange_update_id st
             \<or> fr_exchange_at_ms f < ls_last_exchange_at_ms st
             \<or> fr_received_at_ms f < ls_last_received_at_ms st)
        then Some ''EXCHANGE_ORDER_REGRESSION''
      else if list_ex (\<lambda>l. drem (bl_price l) (as_price_tick pol) \<noteq> 0) (frame_levels f)
        then Some ''BOOK_PRICE_RULE_MISMATCH''
      else if list_ex (\<lambda>l. drem (bl_quantity l) (as_quantity_step pol) \<noteq> 0) (frame_levels f)
        then Some ''BOOK_QUANTITY_RULE_MISMATCH''
      else None)"

section \<open>The depth walk\<close>

type_synonym depth = "((book_side \<times> rat) \<times> rat) list"

definition buying :: "ioc_command \<Rightarrow> bool" where
  "buying c = (cmd_side c = BUY)"

definition book_side_of :: "ioc_command \<Rightarrow> book_side" where
  "book_side_of c = (if buying c then ASK else BID)"

definition direction :: "ioc_command \<Rightarrow> rat" where
  "direction c = (if buying c then 1 else - 1)"

text \<open>The execution price of a level: the displayed price moved against the taker by the slippage
  and rounded to the tick on the adverse side.\<close>

definition walk_price :: "ioc_command \<Rightarrow> fill_assumptions \<Rightarrow> book_level \<Rightarrow> rat" where
  "walk_price c pol l =
     (let raw_price = dmul 96 (bl_price l)
            (dadd 96 1 (ddiv 96 (dmul 96 (direction c) (as_adverse_slippage_bps pol)) 10000));
          ticks = ddiv 96 raw_price (as_price_tick pol)
      in dmul 96 (if buying c then to_integral_ceiling ticks else to_integral_floor ticks)
           (as_price_tick pol))"

definition walk_stops :: "ioc_command \<Rightarrow> rat \<Rightarrow> bool" where
  "walk_stops c price = (price \<le> 0 \<or> buying c \<and> price > cmd_price_cap c
     \<or> \<not> buying c \<and> price < cmd_price_cap c)"

text \<open>What a level can still give: its displayed quantity times the participation fraction, less
  what this session has taken there before, rounded down to the quantity step.\<close>

definition walk_capacity :: "fill_assumptions \<Rightarrow> book_level \<Rightarrow> rat \<Rightarrow> rat" where
  "walk_capacity pol l debit =
     (let available = max 0 (dsub 96 (dmul 96 (bl_quantity l) (as_depth_participation_fraction pol)) debit)
      in dmul 96 (to_integral_floor (ddiv 96 available (as_quantity_step pol))) (as_quantity_step pol))"

definition make_level_fill :: "rat \<Rightarrow> rat \<Rightarrow> rat \<Rightarrow> rat \<Rightarrow> level_fill res" where
  "make_level_fill book price quantity fee =
     (let f = \<lparr> lf_book_price = book, lf_execution_price = price, lf_quantity = quantity,
                lf_fee_quote = fee \<rparr>
      in rbind (validate_level_fill f) (\<lambda>_. Inr f))"

fun walk_levels ::
  "ioc_command \<Rightarrow> fill_assumptions \<Rightarrow> book_level list \<Rightarrow> depth \<Rightarrow> rat \<Rightarrow> (level_fill list \<times> depth) res" where
  "walk_levels c pol [] consumed remaining = Inr ([], consumed)"
| "walk_levels c pol (l # ls) consumed remaining =
     (let price = walk_price c pol l in
      if walk_stops c price then Inr ([], consumed)
      else let key = (book_side_of c, bl_price l);
               debit = (case dict_get consumed key of Some q \<Rightarrow> q | None \<Rightarrow> 0);
               quantity = min remaining (walk_capacity pol l debit)
           in if quantity = 0 then walk_levels c pol ls consumed remaining
              else rbind (make_level_fill (bl_price l) price quantity
                     (ddiv 96 (dmul 96 (dmul 96 quantity price) (as_taker_fee_bps pol)) 10000))
                   (\<lambda>fill. let consumed' = dict_set key (dadd 96 debit quantity) consumed;
                               remaining' = dsub 96 remaining quantity
                           in if remaining' = 0 then Inr ([fill], consumed')
                              else rbind (walk_levels c pol ls consumed' remaining')
                                     (\<lambda>(fills, consumed''). Inr (fill # fills, consumed''))))"

definition depth_of :: "liquidity_state \<Rightarrow> depth" where
  "depth_of st = map (\<lambda>d. ((cd_side d, cd_price d), cd_quantity d)) (ls_consumed_depth st)"

definition consumption_of :: "depth \<Rightarrow> consumed_depth list" where
  "consumption_of d = map (\<lambda>((side, price), quantity).
     \<lparr> cd_side = side, cd_price = price, cd_quantity = quantity \<rparr>) (sort_key fst d)"

definition walk ::
  "ioc_command \<Rightarrow> accepted_book_frame \<Rightarrow> fill_assumptions \<Rightarrow> liquidity_state
   \<Rightarrow> (level_fill list \<times> consumed_depth list) res" where
  "walk c f pol st =
     rbind (walk_levels c pol (if buying c then fr_asks f else fr_bids f) (depth_of st) (cmd_quantity c))
       (\<lambda>(fills, consumed). let consumption = consumption_of consumed in
          rbind (rtraverse validate_consumed_depth consumption) (\<lambda>_. Inr (fills, consumption)))"

section \<open>Evaluation of an arrived command\<close>

definition command_refusal :: "ioc_command \<Rightarrow> fill_assumptions \<Rightarrow> int \<Rightarrow> string option" where
  "command_refusal c pol arrival =
     (if cmd_persisted_at_ms c > arrival then Some ''COMMAND_NOT_DURABLE_AT_ARRIVAL''
      else if arrival < cmd_eligible_at_ms c \<or> cmd_submitted_at_ms c < cmd_eligible_at_ms c
        then Some ''NOT_YET_ELIGIBLE''
      else if arrival > cmd_expires_at_ms c then Some ''ENTRY_EXPIRED''
      else if drem (cmd_quantity c) (as_quantity_step pol) \<noteq> 0 then Some ''INVALID_QUANTITY_STEP''
      else if drem (cmd_price_cap c) (as_price_tick pol) \<noteq> 0 then Some ''INVALID_PRICE_CAP_STEP''
      else None)"

text \<open>\<^verbatim>\<open>outcome_fields\<close>: the fields every outcome of a command shares, with nothing filled.\<close>

definition base_outcome ::
  "ioc_command \<Rightarrow> accepted_book_frame \<Rightarrow> int \<Rightarrow> string \<Rightarrow> string \<Rightarrow> fill_status \<Rightarrow> string \<Rightarrow> fill_outcome" where
  "base_outcome c f arrival command_hash policy_hash status reason =
     \<lparr> fo_command_id = cmd_command_id c, fo_command_sha256 = command_hash,
       fo_assumptions_sha256 = policy_hash, fo_frame_sha256 = Some (fingerprint (frame_json f)),
       fo_status = status, fo_reason = reason, fo_arrival_at_ms = arrival,
       fo_requested_quantity = cmd_quantity c, fo_filled_quantity = 0,
       fo_cancelled_quantity = cmd_quantity c, fo_average_price = None, fo_notional_quote = 0,
       fo_fee_quote = 0, fo_arrival_mid_price = None, fo_implementation_shortfall_quote = 0,
       fo_level_fills = [] \<rparr>"

definition make_outcome :: "fill_outcome \<Rightarrow> fill_outcome res" where
  "make_outcome out = rbind (validate_outcome out) (\<lambda>_. Inr out)"

definition make_step :: "fill_outcome \<Rightarrow> liquidity_state \<Rightarrow> bool \<Rightarrow> model_step res" where
  "make_step out st replayed =
     rbind (validate_outcome out) (\<lambda>_. rbind (validate_state st) (\<lambda>_.
       Inr \<lparr> ms_outcome = out, ms_state = st, ms_replayed = replayed \<rparr>))"

definition frame_cursor :: "accepted_book_frame \<Rightarrow> liquidity_state \<Rightarrow> liquidity_state" where
  "frame_cursor f st = st \<lparr> ls_last_frame_sequence := fr_sequence f,
     ls_last_frame_sha256 := Some (fingerprint (frame_json f)),
     ls_last_exchange_update_id := fr_exchange_update_id f,
     ls_last_exchange_at_ms := fr_exchange_at_ms f,
     ls_last_received_at_ms := fr_received_at_ms f \<rparr>"

text \<open>The outcome of a walk: the totals of its level fills, the mid price at arrival and the
  implementation shortfall against it.\<close>

definition walked_outcome ::
  "ioc_command \<Rightarrow> accepted_book_frame \<Rightarrow> int \<Rightarrow> string \<Rightarrow> string \<Rightarrow> level_fill list \<Rightarrow> fill_outcome" where
  "walked_outcome c f arrival command_hash policy_hash fills =
     (let quantity = dsum 96 (map lf_quantity fills);
          notional = dsum 96 (map (\<lambda>x. dmul 96 (lf_execution_price x) (lf_quantity x)) fills);
          fees = dsum 96 (map lf_fee_quote fills);
          mid = ddiv 96 (dadd 96 (bl_price (hd (fr_bids f))) (bl_price (hd (fr_asks f)))) 2;
          shortfall = dmul 96 (dsub 96 notional (dmul 96 quantity mid)) (direction c);
          status = (if quantity = 0 then NO_FILL else if quantity = cmd_quantity c then FILLED else PARTIAL)
      in (base_outcome c f arrival command_hash policy_hash status
            (if quantity = 0 then ''NO_EXECUTABLE_DISPLAYED_CAPACITY'' else ''MODEL_IOC''))
         \<lparr> fo_filled_quantity := quantity,
           fo_cancelled_quantity := dsub 96 (cmd_quantity c) quantity,
           fo_notional_quote := notional,
           fo_fee_quote := fees,
           fo_average_price := (if quantity \<noteq> 0 then Some (ddiv 96 notional quantity) else None),
           fo_arrival_mid_price := Some mid,
           fo_implementation_shortfall_quote := shortfall,
           fo_level_fills := fills \<rparr>)"

definition evaluate ::
  "ioc_command \<Rightarrow> accepted_book_frame \<Rightarrow> fill_assumptions \<Rightarrow> liquidity_state \<Rightarrow> int \<Rightarrow> string \<Rightarrow> string
   \<Rightarrow> model_step res" where
  "evaluate c f pol st as_of command_hash policy_hash =
     (let arrival = cmd_submitted_at_ms c + as_latency_ms pol in
      if as_of < arrival then
        rbind (make_outcome ((base_outcome c f arrival command_hash policy_hash WAIT ''NOT_ARRIVED'')
                 \<lparr> fo_cancelled_quantity := 0 \<rparr>))
          (\<lambda>out. make_step out st False)
      else let st' = st \<lparr> ls_assumptions_sha256 := Some policy_hash, ls_last_as_of_ms := as_of,
                          ls_last_arrival_at_ms := arrival \<rparr> in
        rbind
          (case command_refusal c pol arrival of
             Some reason \<Rightarrow>
               rbind (make_outcome (base_outcome c f arrival command_hash policy_hash NO_FILL reason))
                 (\<lambda>out. Inr (out, st'))
           | None \<Rightarrow>
               (case frame_issue f st arrival pol of
                  Some issue \<Rightarrow>
                    rbind (make_outcome (base_outcome c f arrival command_hash policy_hash BLOCKED issue))
                      (\<lambda>out. Inr (out, st' \<lparr> ls_barrier_reason := Some issue \<rparr>))
                | None \<Rightarrow>
                    rbind (walk c f pol st) (\<lambda>(fills, consumption).
                      rbind (make_outcome (walked_outcome c f arrival command_hash policy_hash fills))
                        (\<lambda>out. Inr (out, (frame_cursor f st') \<lparr> ls_consumed_depth := consumption \<rparr>)))))
          (\<lambda>(out, st''). let receipt = \<lparr> rc_command_id = cmd_command_id c, rc_command_sha256 = command_hash,
                                         rc_assumptions_sha256 = policy_hash, rc_outcome = out \<rparr> in
             rbind (validate_receipt receipt) (\<lambda>_.
               make_step out (st'' \<lparr> ls_receipts := ls_receipts st @ [receipt] \<rparr>) False)))"

text \<open>The receipt of an already processed command, found by its identifier.\<close>

definition find_receipt :: "liquidity_state \<Rightarrow> string \<Rightarrow> command_receipt option" where
  "find_receipt st cid = find (\<lambda>r. rc_command_id r = cid) (ls_receipts st)"

definition simulate_ioc ::
  "ioc_command \<Rightarrow> accepted_book_frame \<Rightarrow> fill_assumptions \<Rightarrow> liquidity_state \<Rightarrow> int \<Rightarrow> model_step res" where
  "simulate_ioc c f pol st as_of =
     rbind (validate_command c) (\<lambda>_. rbind (validate_frame f) (\<lambda>_.
     rbind (validate_assumptions pol) (\<lambda>_. rbind (validate_state st) (\<lambda>_.
     rbind (ensure
       [(\<not> as_of < ls_last_as_of_ms st,
           Exn ValueError ''as_of_ms must be a non-negative non-regressing integer clock event''),
        (\<not> (cmd_session_id c \<noteq> ls_session_id st \<or> cmd_symbol c \<noteq> ls_symbol st),
           Exn SimulationIdentityConflict ''command belongs to a different simulation session/symbol''),
        (\<not> (fr_tape_id f \<noteq> ls_tape_id st \<or> fr_symbol f \<noteq> ls_symbol st),
           Exn SimulationIdentityConflict ''book belongs to a different tape/symbol''),
        (ls_assumptions_sha256 st \<in> {None, Some (fingerprint (assumptions_json pol))},
           Exn SimulationIdentityConflict ''simulation assumptions changed inside one session'')])
     (\<lambda>_. let policy_hash = fingerprint (assumptions_json pol);
              command_hash = fingerprint (command_json c)
          in case find_receipt st (cmd_command_id c) of
               Some r \<Rightarrow>
                 if rc_command_sha256 r \<noteq> command_hash \<or> rc_assumptions_sha256 r \<noteq> policy_hash
                 then raise SimulationIdentityConflict ''command ID was reused with different content''
                 else make_step (rc_outcome r) st True
             | None \<Rightarrow> rbind (ensure
                 [(length (ls_receipts st) < max_commands,
                     Exn ValueError ''bounded simulation receipt capacity exhausted; never evict idempotency evidence''),
                  (\<not> cmd_submitted_at_ms c + as_latency_ms pol < ls_last_arrival_at_ms st,
                     Exn SimulationIdentityConflict
                       ''new command arrival predates an already processed terminal command'')])
                 (\<lambda>_. evaluate c f pol st as_of command_hash policy_hash))))))"

end
