(* ===== verification/Sim_Kernel_Exact.thy ===== *)
theory Sim_Kernel_Exact
  imports Sim_Kernel
begin

text \<open>
  The reference walk over exact rationals, and the proof that the 96-digit arithmetic of
  \<open>walk_levels\<close> computes it: on validated inputs no operation of the kernel rounds. The bounds of
  \<^verbatim>\<open>PositiveAmount\<close> (18 places, at most \<open>10 ^ 18\<close>) are what makes 96 digits enough: the widest
  exact value is a fee, with 58 places below \<open>10 ^ 37\<close>, and the two quotients that are rounded
  before an integer part is taken stay closer to the exact quotient than any integer does.
\<close>

section \<open>The reference walk\<close>

definition exact_price :: "ioc_command \<Rightarrow> fill_assumptions \<Rightarrow> book_level \<Rightarrow> rat" where
  "exact_price c pol l =
     (let raw = bl_price l * (1 + direction c * as_adverse_slippage_bps pol / 10000)
      in of_int (if buying c then \<lceil>raw / as_price_tick pol\<rceil> else \<lfloor>raw / as_price_tick pol\<rfloor>)
           * as_price_tick pol)"

definition exact_capacity :: "fill_assumptions \<Rightarrow> book_level \<Rightarrow> rat \<Rightarrow> rat" where
  "exact_capacity pol l debit =
     of_int \<lfloor>max 0 (bl_quantity l * as_depth_participation_fraction pol - debit) / as_quantity_step pol\<rfloor>
       * as_quantity_step pol"

definition exact_fill :: "ioc_command \<Rightarrow> fill_assumptions \<Rightarrow> book_level \<Rightarrow> rat \<Rightarrow> level_fill" where
  "exact_fill c pol l quantity =
     \<lparr> lf_book_price = bl_price l, lf_execution_price = exact_price c pol l, lf_quantity = quantity,
       lf_fee_quote = quantity * exact_price c pol l * as_taker_fee_bps pol / 10000 \<rparr>"

definition debit_at :: "depth \<Rightarrow> book_side \<times> rat \<Rightarrow> rat" where
  "debit_at consumed key = (case dict_get consumed key of Some q \<Rightarrow> q | None \<Rightarrow> 0)"

fun exact_walk ::
  "ioc_command \<Rightarrow> fill_assumptions \<Rightarrow> book_level list \<Rightarrow> depth \<Rightarrow> rat \<Rightarrow> level_fill list \<times> depth" where
  "exact_walk c pol [] consumed remaining = ([], consumed)"
| "exact_walk c pol (l # ls) consumed remaining =
     (if walk_stops c (exact_price c pol l) then ([], consumed)
      else let key = (book_side_of c, bl_price l);
               quantity = min remaining (exact_capacity pol l (debit_at consumed key))
           in if quantity = 0 then exact_walk c pol ls consumed remaining
              else let consumed' = dict_set key (debit_at consumed key + quantity) consumed
                   in if remaining = quantity then ([exact_fill c pol l quantity], consumed')
                      else let (fills, consumed'') = exact_walk c pol ls consumed' (remaining - quantity)
                           in (exact_fill c pol l quantity # fills, consumed''))"

section \<open>What validation gives\<close>

lemma positive_amountD:
  "positive_amount x \<Longrightarrow> 0 < x" "positive_amount x \<Longrightarrow> x \<le> 10 ^ 18" "positive_amount x \<Longrightarrow> places 18 x"
  by (auto simp: positive_amount_def)

lemma positive_amount_ge: "positive_amount x \<Longrightarrow> 1 / 10 ^ 18 \<le> x"
proof -
  assume x: "positive_amount x"
  then obtain m where m: "x * 10 ^ 18 = of_int m"
    using placesE positive_amountD(3) by blast
  then have "0 < rat_of_int m" using positive_amountD(1) [OF x] by (metis mult_pos_pos zero_less_numeral zero_less_power)
  then have "1 \<le> m" by linarith
  then have "1 \<le> x * 10 ^ 18" using m by simp
  then show ?thesis by (simp add: field_simps)
qed

definition pol_ok :: "fill_assumptions \<Rightarrow> bool" where
  "pol_ok pol \<longleftrightarrow> validate_assumptions pol = Inr ()"

lemma pol_okD:
  assumes "pol_ok pol"
  shows "0 \<le> as_latency_ms pol" "as_latency_ms pol \<le> 60000"
    "0 < as_depth_participation_fraction pol" "as_depth_participation_fraction pol \<le> 1"
    "places 18 (as_depth_participation_fraction pol)"
    "0 \<le> as_adverse_slippage_bps pol" "as_adverse_slippage_bps pol < 10000"
    "places 18 (as_adverse_slippage_bps pol)"
    "0 \<le> as_taker_fee_bps pol" "as_taker_fee_bps pol \<le> 10000" "places 18 (as_taker_fee_bps pol)"
    "positive_amount (as_price_tick pol)" "positive_amount (as_quantity_step pol)"
  using assms
  by (auto simp: pol_ok_def validate_assumptions_def ensure_ok_iff nonnegative_amount_def)

definition level_ok :: "book_level \<Rightarrow> bool" where
  "level_ok l \<longleftrightarrow> positive_amount (bl_price l) \<and> positive_amount (bl_quantity l)"

lemma validate_book_level_ok: "validate_book_level l = Inr u \<longleftrightarrow> level_ok l"
  by (simp add: validate_book_level_def level_ok_def ensure_ok_iff)

lemma rtraverse_unit_ok:
  "rtraverse f xs = Inr ys \<Longrightarrow> x \<in> set xs \<Longrightarrow> \<exists>u. f x = Inr u"
  by (induction xs arbitrary: ys) (auto simp: rbind_eq_Inr)

lemma rtraverse_okI:
  "(\<And>x. x \<in> set xs \<Longrightarrow> f x = Inr ()) \<Longrightarrow> \<exists>ys. rtraverse f xs = Inr ys"
  by (induction xs) auto

section \<open>Sizes of the intermediate values\<close>

lemma pow_le_pow: "m \<le> n \<Longrightarrow> (10::rat) ^ m \<le> 10 ^ n"
  by (rule power_increasing) auto

text \<open>An exact value with \<open>k\<close> places and magnitude at most \<open>10 ^ j\<close> is not rounded when
  \<open>j + k < 96\<close>.\<close>

lemma d96_exact:
  assumes "places k x" "\<bar>x\<bar> \<le> 10 ^ j" "j + k < 96"
  shows "dround 96 x = x"
proof (rule dround_exact [OF assms(1)])
  have "(10::rat) ^ j < 10 ^ (96 - k)" using assms(3) by (intro power_strict_increasing) auto
  with assms(2) show "\<bar>x\<bar> < 10 ^ (96 - k)" by linarith
qed (use assms(3) in auto)

lemma slip_factor:
  fixes c :: ioc_command
  assumes "pol_ok pol"
  defines "s \<equiv> 1 + direction c * as_adverse_slippage_bps pol / 10000"
  shows "dadd 96 1 (ddiv 96 (dmul 96 (direction c) (as_adverse_slippage_bps pol)) 10000) = s"
    and "places 22 s" and "0 < s" and "s < 2"
proof -
  note p = pol_okD [OF assms(1)]
  let ?a = "direction c * as_adverse_slippage_bps pol"
  have a: "places 18 ?a" "\<bar>?a\<bar> \<le> 10000" "\<bar>?a\<bar> < 10000"
    using p(6,7,8) places_minus by (auto simp: direction_def)
  have A: "dmul 96 (direction c) (as_adverse_slippage_bps pol) = ?a"
    unfolding dmul_def by (rule d96_exact [where j = 4]) (use a in auto)
  have b: "places 22 (?a / 10000)" using places_div_10000 [OF a(1)] by simp
  have B: "ddiv 96 ?a 10000 = ?a / 10000"
    unfolding ddiv_def by (rule d96_exact [where j = 0 and k = 22]) (use b a in auto)
  show s: "places 22 s" unfolding s_def by (rule places_add [OF _ b]) simp
  have "\<bar>?a / 10000\<bar> < 1" using a(3) by simp
  then have "- 1 < ?a / 10000" "?a / 10000 < 1" by linarith+
  then show pos: "0 < s" "s < 2" unfolding s_def by linarith+
  show "dadd 96 1 (ddiv 96 (dmul 96 (direction c) (as_adverse_slippage_bps pol)) 10000) = s"
    unfolding A B dadd_def s_def [symmetric]
    by (rule d96_exact [where j = 1 and k = 22]) (use s pos in auto)
qed

text \<open>The two rounded quotients: dividing a value with \<open>k\<close> places by a positive amount.\<close>

lemma quotient_parts:
  assumes x: "places k x" "0 < x" "x < 10 ^ j" and t: "positive_amount t"
    and prec: "k + 36 + j < 96" and k: "18 \<le> k"
  shows "\<lfloor>ddiv 96 x t\<rfloor> = \<lfloor>x / t\<rfloor>" and "\<lceil>ddiv 96 x t\<rceil> = \<lceil>x / t\<rceil>"
proof -
  obtain m where m: "x * 10 ^ k = of_int m" using x(1) placesE by blast
  obtain n where n: "t * 10 ^ 18 = of_int n" using positive_amountD(3) [OF t] placesE by blast
  have t0: "0 < t" using positive_amountD(1) [OF t] .
  let ?d = "n * 10 ^ (k - 18)"
  have "rat_of_int n > 0" using n t0 by (metis mult_pos_pos zero_less_numeral zero_less_power)
  then have n0: "0 < n" by simp
  have "rat_of_int n \<le> 10 ^ 18 * 10 ^ 18"
    using n positive_amountD(2) [OF t] by (metis mult_right_mono zero_le_numeral zero_le_power)
  then have "rat_of_int n \<le> of_int (10 ^ 36)" by simp
  then have n1: "n \<le> 10 ^ 36" by (simp only: of_int_le_iff)
  have d: "0 < ?d" "?d \<le> 10 ^ (k + 18)"
  proof -
    show "0 < ?d" using n0 by simp
    have "?d \<le> 10 ^ 36 * 10 ^ (k - 18)" using n1 by (intro mult_right_mono) auto
    also have "\<dots> = 10 ^ (36 + (k - 18))" by (simp only: power_add)
    also have "36 + (k - 18) = k + 18" using k by simp
    finally show "?d \<le> 10 ^ (k + 18)" .
  qed
  have q: "x / t * of_int ?d = of_int m"
  proof -
    have "x / t * of_int ?d = x / t * (t * 10 ^ 18) * 10 ^ (k - 18)"
      using n by simp
    also have "\<dots> = x * (10 ^ 18 * 10 ^ (k - 18))" using t0 by simp
    also have "(10::rat) ^ 18 * 10 ^ (k - 18) = 10 ^ (18 + (k - 18))" by (simp only: power_add)
    also have "18 + (k - 18) = k" using k by simp
    finally show ?thesis using m by simp
  qed
  have q0: "0 < x / t" using x(2) t0 by simp
  have "x / t \<le> x * 10 ^ 18"
    using positive_amount_ge [OF t] t0 x(2) by (simp add: field_simps)
  also have "\<dots> < 10 ^ j * 10 ^ 18" using x(3) by simp
  also have "\<dots> = 10 ^ (j + 18)" by (simp add: power_add)
  finally have q1: "x / t < 10 ^ (j + 18)" .
  have pr: "k + 18 + (j + 18) < 96" using prec by simp
  show "\<lfloor>ddiv 96 x t\<rfloor> = \<lfloor>x / t\<rfloor>" "\<lceil>ddiv 96 x t\<rceil> = \<lceil>x / t\<rceil>"
    unfolding ddiv_def using floor_dround [OF q0 q1 q d pr] by auto
qed

lemma walk_price_exact:
  assumes pol: "pol_ok pol" and l: "level_ok l"
  shows "walk_price c pol l = exact_price c pol l"
proof -
  let ?s = "1 + direction c * as_adverse_slippage_bps pol / 10000"
  let ?raw = "bl_price l * ?s" and ?t = "as_price_tick pol"
  note s = slip_factor [OF pol, of c]
  have l': "positive_amount (bl_price l)" using l by (simp add: level_ok_def)
  have t: "positive_amount ?t" using pol_okD(12) [OF pol] .
  have raw: "places 40 ?raw" using places_mult [OF positive_amountD(3) [OF l'] s(2)] by simp
  have raw0: "0 < ?raw" using positive_amountD(1) [OF l'] s(3) by simp
  have "?raw < 10 ^ 18 * 2"
  proof -
    have "?raw \<le> 10 ^ 18 * ?s" using positive_amountD(2) [OF l'] s(3) by (intro mult_right_mono) auto
    also have "\<dots> < 10 ^ 18 * 2" using s(4) by simp
    finally show ?thesis .
  qed
  then have raw1: "?raw < 10 ^ 19" by simp
  have R: "dmul 96 (bl_price l) ?s = ?raw"
    unfolding dmul_def by (rule d96_exact [where j = 19, OF raw]) (use raw0 raw1 in auto)
  note Q = quotient_parts [OF raw raw0 raw1 t]
  let ?n = "if buying c then \<lceil>?raw / ?t\<rceil> else \<lfloor>?raw / ?t\<rfloor>"
  have P: "places 18 (of_int ?n * ?t)" by (rule places_mult_int [OF positive_amountD(3) [OF t]])
  have t0: "0 < ?t" using positive_amountD(1) [OF t] .
  have q0: "0 < ?raw / ?t" using raw0 t0 by simp
  then have "0 \<le> ?n" by (simp add: less_imp_le)
  moreover have "rat_of_int ?n \<le> ?raw / ?t + 1" by (simp; linarith)
  then have "rat_of_int ?n * ?t \<le> (?raw / ?t + 1) * ?t" using t0 by (intro mult_right_mono) auto
  then have "rat_of_int ?n * ?t \<le> ?raw + ?t" using t0 by (simp add: distrib_right)
  then have "rat_of_int ?n * ?t \<le> 10 ^ 20"
    using raw1 positive_amountD(2) [OF t] by simp
  ultimately have M: "dmul 96 (of_int ?n) ?t = of_int ?n * ?t"
    unfolding dmul_def using t0 by (intro d96_exact [where j = 20, OF P]) auto
  have "(if buying c then to_integral_ceiling (ddiv 96 ?raw ?t) else to_integral_floor (ddiv 96 ?raw ?t))
      = of_int ?n"
    using Q by (simp add: to_integral_ceiling_def to_integral_floor_def)
  then show ?thesis
    unfolding walk_price_def exact_price_def Let_def s(1) R by (simp only: M)
qed

lemma exact_price_tick: "\<exists>n. exact_price c pol l = of_int n * as_price_tick pol"
  by (auto simp: exact_price_def Let_def)

text \<open>Slippage and tick rounding are against the taker.\<close>

lemma exact_price_adverse:
  assumes pol: "pol_ok pol" and l: "level_ok l"
  shows "buying c \<Longrightarrow> bl_price l \<le> exact_price c pol l"
    and "\<not> buying c \<Longrightarrow> exact_price c pol l \<le> bl_price l"
proof -
  have t0: "0 < as_price_tick pol" using pol_okD(12) [OF pol] by (rule positive_amountD)
  have p0: "0 < bl_price l" using l by (simp add: level_ok_def positive_amount_def)
  have b0: "0 \<le> as_adverse_slippage_bps pol" using pol_okD(6) [OF pol] .
  let ?s = "1 + direction c * as_adverse_slippage_bps pol / 10000"
  let ?raw = "bl_price l * ?s"
  show "bl_price l \<le> exact_price c pol l" if "buying c"
  proof -
    have "1 \<le> ?s" using b0 that by (simp add: direction_def)
    then have "bl_price l \<le> ?raw" using p0 by simp
    also have "\<dots> = ?raw / as_price_tick pol * as_price_tick pol" using t0 by simp
    also have "\<dots> \<le> of_int \<lceil>?raw / as_price_tick pol\<rceil> * as_price_tick pol"
      using t0 by (intro mult_right_mono le_of_int_ceiling) auto
    also have "\<dots> = exact_price c pol l" using that by (simp add: exact_price_def Let_def)
    finally show ?thesis .
  qed
  show "exact_price c pol l \<le> bl_price l" if "\<not> buying c"
  proof -
    have "exact_price c pol l = of_int \<lfloor>?raw / as_price_tick pol\<rfloor> * as_price_tick pol"
      using that by (simp add: exact_price_def Let_def)
    also have "\<dots> \<le> ?raw / as_price_tick pol * as_price_tick pol"
      using t0 by (intro mult_right_mono of_int_floor_le) auto
    also have "\<dots> = ?raw" using t0 by simp
    also have "\<dots> \<le> bl_price l" using b0 p0 that by (simp add: direction_def)
    finally show ?thesis .
  qed
qed

text \<open>A price the walk does not stop at is again an amount.\<close>

lemma exact_price_amount:
  assumes pol: "pol_ok pol" and l: "level_ok l" and cap: "cmd_price_cap c \<le> 10 ^ 18"
    and go: "\<not> walk_stops c (exact_price c pol l)"
  shows "positive_amount (exact_price c pol l)"
proof -
  obtain n where n: "exact_price c pol l = of_int n * as_price_tick pol"
    using exact_price_tick by blast
  have "places 18 (exact_price c pol l)"
    unfolding n using pol_okD(12) [OF pol] by (intro places_mult_int positive_amountD)
  moreover have "exact_price c pol l \<le> 10 ^ 18"
  proof (cases "buying c")
    case True
    then show ?thesis using go cap by (auto simp: walk_stops_def)
  next
    case False
    have "bl_price l \<le> 10 ^ 18" using l by (simp add: level_ok_def positive_amount_def)
    then show ?thesis using exact_price_adverse(2) [OF pol l False] by simp
  qed
  ultimately show ?thesis using go by (auto simp: positive_amount_def walk_stops_def)
qed

section \<open>Capacity\<close>

definition debit_ok :: "rat \<Rightarrow> bool" where
  "debit_ok x \<longleftrightarrow> nonnegative_amount x"

lemma exact_capacity_bounds:
  assumes pol: "pol_ok pol" and l: "level_ok l" and d: "debit_ok debit"
  defines "cap \<equiv> exact_capacity pol l debit"
  shows "0 \<le> cap" and "places 18 cap"
    and "0 < cap \<Longrightarrow> debit + cap \<le> bl_quantity l * as_depth_participation_fraction pol"
    and "bl_quantity l * as_depth_participation_fraction pol \<le> 10 ^ 18"
    and "\<exists>n. cap = of_int n * as_quantity_step pol"
    and "walk_capacity pol l debit = cap"
proof -
  note p = pol_okD [OF pol]
  let ?q = "bl_quantity l * as_depth_participation_fraction pol" and ?s = "as_quantity_step pol"
  let ?av = "max 0 (?q - debit)"
  have s0: "0 < ?s" using p(13) by (rule positive_amountD)
  have lq: "0 < bl_quantity l" "bl_quantity l \<le> 10 ^ 18" "places 18 (bl_quantity l)"
    using l by (auto simp: level_ok_def positive_amount_def)
  have q: "places 36 ?q" using places_mult [OF lq(3) p(5)] by simp
  have q0: "0 \<le> ?q" using lq p(3) by simp
  have "?q \<le> bl_quantity l" using lq(1) p(4) by simp
  then show q1: "?q \<le> 10 ^ 18" using lq(2) by simp
  have dd: "0 \<le> debit" "debit \<le> 10 ^ 18" "places 18 debit"
    using d by (auto simp: debit_ok_def nonnegative_amount_def)
  have d36: "places 36 debit" using dd(3) by (rule places_mono) simp
  have QM: "dmul 96 (bl_quantity l) (as_depth_participation_fraction pol) = ?q"
    unfolding dmul_def by (rule d96_exact [where j = 18, OF q]) (use q0 q1 in auto)
  have SB: "dsub 96 ?q debit = ?q - debit"
    unfolding dsub_def
    by (rule d96_exact [where j = 18 and k = 36]) (use q d36 q0 q1 dd in \<open>auto intro: places_diff\<close>)
  have avp: "places 36 ?av" using places_diff [OF q d36] by (simp add: max_def)
  have av: "0 \<le> ?av" "?av \<le> 10 ^ 18" using q1 dd by auto
  have cap: "cap = of_int \<lfloor>?av / ?s\<rfloor> * ?s" by (simp add: cap_def exact_capacity_def)
  show n: "\<exists>n. cap = of_int n * ?s" using cap by blast
  show c18: "places 18 cap" unfolding cap using p(13) by (intro places_mult_int positive_amountD)
  have "0 \<le> \<lfloor>?av / ?s\<rfloor>" using av(1) s0 by simp
  then show c0: "0 \<le> cap" unfolding cap using s0 by simp
  have "of_int \<lfloor>?av / ?s\<rfloor> * ?s \<le> ?av / ?s * ?s" using s0 by (intro mult_right_mono) auto
  then have cav: "cap \<le> ?av" unfolding cap using s0 by simp
  then show "0 < cap \<Longrightarrow> debit + cap \<le> ?q" by (simp add: max_def split: if_splits)
  have FL: "\<lfloor>ddiv 96 ?av ?s\<rfloor> = \<lfloor>?av / ?s\<rfloor>"
  proof (cases "?av = 0")
    case True
    then show ?thesis by (simp add: ddiv_def)
  next
    case False
    then have "0 < ?av" using av(1) by simp
    have "?av < 10 ^ 19" using av(2) by simp
    from quotient_parts(1) [OF avp \<open>0 < ?av\<close> this p(13)] show ?thesis by simp
  qed
  have M: "dmul 96 (of_int \<lfloor>?av / ?s\<rfloor>) ?s = cap"
    unfolding dmul_def cap [symmetric]
    by (rule d96_exact [where j = 18, OF c18]) (use c0 cav av in auto)
  show "walk_capacity pol l debit = cap"
    unfolding walk_capacity_def Let_def QM SB to_integral_floor_def FL M ..
qed

section \<open>The walk\<close>

text \<open>Quantities already taken in a session are amounts: the part of the state invariant the walk
  needs and keeps.\<close>

definition depth_ok :: "depth \<Rightarrow> bool" where
  "depth_ok d \<longleftrightarrow> distinct (map fst d) \<and>
     (\<forall>((side, price), quantity) \<in> set d. positive_amount price \<and> positive_amount quantity)"

lemma depth_ok_debit: "depth_ok d \<Longrightarrow> debit_ok (debit_at d key)"
proof (cases "dict_get d key")
  case None
  then show ?thesis by (simp add: debit_at_def debit_ok_def nonnegative_amount_def)
next
  case (Some q)
  assume "depth_ok d"
  with map_of_SomeD [OF Some] have "positive_amount q" by (cases key) (auto simp: depth_ok_def)
  with Some show ?thesis
    by (simp add: debit_at_def debit_ok_def nonnegative_amount_def positive_amount_def)
qed

lemma set_dict_set: "set (dict_set k v d) \<subseteq> insert (k, v) (set d)"
  by (induction d rule: dict_set.induct) auto

lemma depth_ok_set:
  assumes "depth_ok d" "positive_amount (snd key)" "positive_amount q"
  shows "depth_ok (dict_set key q d)"
  using assms set_dict_set [of key q d] distinct_dict_set [of d key q]
  by (cases key) (auto simp: depth_ok_def)

text \<open>One level of the walk: the quantity taken there.\<close>

definition take_at :: "ioc_command \<Rightarrow> fill_assumptions \<Rightarrow> book_level \<Rightarrow> depth \<Rightarrow> rat \<Rightarrow> rat" where
  "take_at c pol l consumed remaining =
     min remaining (exact_capacity pol l (debit_at consumed (book_side_of c, bl_price l)))"

lemma take_at_props:
  fixes c :: ioc_command
  assumes pol: "pol_ok pol" and l: "level_ok l" and d: "depth_ok consumed"
    and r: "positive_amount remaining"
  defines "q \<equiv> take_at c pol l consumed remaining"
  defines "debit \<equiv> debit_at consumed (book_side_of c, bl_price l)"
  shows "0 \<le> q" "q \<le> remaining" "places 18 q"
    and "q \<noteq> 0 \<Longrightarrow> positive_amount q"
    and "q \<noteq> 0 \<Longrightarrow> debit + q \<le> bl_quantity l * as_depth_participation_fraction pol"
    and "q \<noteq> 0 \<Longrightarrow> positive_amount (debit + q)"
    and "remaining \<noteq> q \<Longrightarrow> positive_amount (remaining - q)"
proof -
  have db: "debit_ok debit" unfolding debit_def by (rule depth_ok_debit [OF d])
  note cap = exact_capacity_bounds [OF pol l db]
  have q: "q = min remaining (exact_capacity pol l debit)"
    by (simp add: q_def take_at_def debit_def)
  note rr = positive_amountD [OF r]
  show q0: "0 \<le> q" and q1: "q \<le> remaining" and q2: "places 18 q"
    using cap(1,2) rr by (auto simp: q min_def)
  show qp: "q \<noteq> 0 \<Longrightarrow> positive_amount q"
    using q0 q1 q2 rr by (simp add: positive_amount_def)
  show le: "q \<noteq> 0 \<Longrightarrow> debit + q \<le> bl_quantity l * as_depth_participation_fraction pol"
    using cap(1,3) q0 by (auto simp: q min_def split: if_splits)
  show "q \<noteq> 0 \<Longrightarrow> positive_amount (debit + q)"
    using le cap(4) db q0 q2 unfolding positive_amount_def debit_ok_def nonnegative_amount_def
    by (auto intro: places_add)
  show "remaining \<noteq> q \<Longrightarrow> positive_amount (remaining - q)"
    using q0 q1 q2 rr by (auto simp: positive_amount_def intro: places_diff)
qed

lemma fill_fee_exact:
  assumes pol: "pol_ok pol" and q: "positive_amount q" and p: "positive_amount p"
  shows "ddiv 96 (dmul 96 (dmul 96 q p) (as_taker_fee_bps pol)) 10000 =
      q * p * as_taker_fee_bps pol / 10000"
    and "places 58 (q * p * as_taker_fee_bps pol / 10000)"
    and "0 \<le> q * p * as_taker_fee_bps pol / 10000"
    and "q * p * as_taker_fee_bps pol / 10000 \<le> q * p"
proof -
  note f = pol_okD(9,10,11) [OF pol]
  note qq = positive_amountD [OF q] and pp = positive_amountD [OF p]
  have qp: "places 36 (q * p)" using places_mult [OF qq(3) pp(3)] by simp
  have qp0: "0 < q * p" using qq pp by simp
  have "q * p \<le> 10 ^ 18 * 10 ^ 18" using qq pp by (intro mult_mono) auto
  then have qp1: "q * p \<le> 10 ^ 36" by simp
  have A: "dmul 96 q p = q * p"
    unfolding dmul_def by (rule d96_exact [where j = 36, OF qp]) (use qp0 qp1 in auto)
  have qpf: "places 54 (q * p * as_taker_fee_bps pol)" using places_mult [OF qp f(3)] by simp
  have qpf0: "0 \<le> q * p * as_taker_fee_bps pol" using qp0 f(1) by simp
  have qpf2: "q * p * as_taker_fee_bps pol \<le> q * p * 10000"
    by (rule mult_left_mono [OF f(2)]) (use qp0 in simp)
  then have qpf1: "q * p * as_taker_fee_bps pol \<le> 10 ^ 40" using qp1 by simp
  have B: "dmul 96 (q * p) (as_taker_fee_bps pol) = q * p * as_taker_fee_bps pol"
    unfolding dmul_def by (rule d96_exact [where j = 40, OF qpf]) (use qpf0 qpf1 in auto)
  show fp: "places 58 (q * p * as_taker_fee_bps pol / 10000)" using places_div_10000 [OF qpf] by simp
  show f0: "0 \<le> q * p * as_taker_fee_bps pol / 10000" using qpf0 by simp
  show f1: "q * p * as_taker_fee_bps pol / 10000 \<le> q * p" using qpf2 by simp
  show "ddiv 96 (dmul 96 (dmul 96 q p) (as_taker_fee_bps pol)) 10000 =
      q * p * as_taker_fee_bps pol / 10000"
    unfolding A B ddiv_def by (rule d96_exact [where j = 36, OF fp]) (use f0 f1 qp1 in auto)
qed

definition fill_ok :: "level_fill \<Rightarrow> bool" where
  "fill_ok f \<longleftrightarrow> positive_amount (lf_book_price f) \<and> positive_amount (lf_execution_price f)
     \<and> positive_amount (lf_quantity f) \<and> places 58 (lf_fee_quote f) \<and> 0 \<le> lf_fee_quote f
     \<and> lf_fee_quote f \<le> lf_quantity f * lf_execution_price f"

lemma amount_le_40: "x \<le> 10 ^ 18 \<Longrightarrow> x \<le> (10::rat) ^ 40"
  using pow_le_pow [of 18 40] by linarith

lemma positive_calculated: "positive_amount x \<Longrightarrow> calculated_positive x"
  using places_mono [of 18 x 120] by (simp add: positive_amount_def calculated_positive_def amount_le_40)

lemma validate_level_fill_ok: "fill_ok f \<Longrightarrow> validate_level_fill f = Inr ()"
proof -
  assume f: "fill_ok f"
  have "lf_quantity f * lf_execution_price f \<le> 10 ^ 18 * 10 ^ 18"
    using f by (intro mult_mono) (auto simp: fill_ok_def positive_amount_def)
  then have "lf_fee_quote f \<le> 10 ^ 40" using f pow_le_pow [of 36 40] by (auto simp: fill_ok_def)
  then show ?thesis
    using f by (auto simp: fill_ok_def validate_level_fill_def ensure_ok_iff calculated_positive_def
        calculated_nonnegative_def positive_amount_def amount_le_40 intro: places_mono)
qed

lemma exact_fill_ok:
  assumes pol: "pol_ok pol" and l: "level_ok l" and q: "positive_amount q"
    and p: "positive_amount (exact_price c pol l)"
  shows "fill_ok (exact_fill c pol l q)"
  using fill_fee_exact [OF pol q p] l p q by (simp add: fill_ok_def exact_fill_def level_ok_def)

text \<open>The 96-digit walk is the exact walk, and it never fails a validation.\<close>

lemma walk_levels_exact:
  assumes "pol_ok pol" "cmd_price_cap c \<le> 10 ^ 18" "\<forall>l \<in> set ls. level_ok l"
    "depth_ok consumed" "positive_amount remaining"
  shows "walk_levels c pol ls consumed remaining = Inr (exact_walk c pol ls consumed remaining)"
  using assms(3-)
proof (induction ls arbitrary: consumed remaining)
  case Nil
  then show ?case by simp
next
  case (Cons l ls)
  have l: "level_ok l" and ls: "\<forall>l \<in> set ls. level_ok l" using Cons.prems by auto
  note pol = assms(1) and cap = assms(2)
  let ?p = "exact_price c pol l" and ?key = "(book_side_of c, bl_price l)"
  let ?debit = "debit_at consumed ?key" and ?q = "take_at c pol l consumed remaining"
  have P: "walk_price c pol l = ?p" by (rule walk_price_exact [OF pol l])
  have D: "(case dict_get consumed ?key of None \<Rightarrow> 0 | Some q \<Rightarrow> q) = ?debit"
    by (simp add: debit_at_def)
  have C: "walk_capacity pol l ?debit = exact_capacity pol l ?debit"
    using exact_capacity_bounds(6) [OF pol l depth_ok_debit [OF Cons.prems(2)]] .
  have Q: "min remaining (exact_capacity pol l ?debit) = ?q" by (simp add: take_at_def)
  note t = take_at_props [OF pol l Cons.prems(2,3), of c]
  show ?case
  proof (cases "walk_stops c ?p")
    case True
    then show ?thesis by (simp add: P Let_def)
  next
    case go: False
    have pa: "positive_amount ?p" by (rule exact_price_amount [OF pol l cap go])
    show ?thesis
    proof (cases "?q = 0")
      case True
      then show ?thesis
        using go Cons.IH [OF ls Cons.prems(2,3)] by (simp add: P D C Q Let_def)
    next
      case q: False
      have qa: "positive_amount ?q" using t(4) q by simp
      have F: "make_level_fill (bl_price l) ?p ?q
          (ddiv 96 (dmul 96 (dmul 96 ?q ?p) (as_taker_fee_bps pol)) 10000) = Inr (exact_fill c pol l ?q)"
        using validate_level_fill_ok [OF exact_fill_ok [OF pol l qa pa]]
        unfolding make_level_fill_def fill_fee_exact(1) [OF pol qa pa] exact_fill_def Let_def by simp
      have A: "dadd 96 ?debit ?q = ?debit + ?q"
      proof -
        note pos = t(6) [OF q]
        show ?thesis unfolding dadd_def
          by (rule d96_exact [where j = 18 and k = 18]) (use pos in \<open>auto simp: positive_amount_def\<close>)
      qed
      have S: "dsub 96 remaining ?q = remaining - ?q"
        unfolding dsub_def
        by (rule d96_exact [where j = 18 and k = 18])
          (use t(1,2,3) Cons.prems(3) in \<open>auto simp: positive_amount_def intro: places_diff\<close>)
      have bp: "positive_amount (bl_price l)" using l by (simp add: level_ok_def)
      have ok': "depth_ok (dict_set ?key (?debit + ?q) consumed)"
        using depth_ok_set [OF Cons.prems(2) _ t(6) [OF q], of ?key] bp by simp
      show ?thesis
      proof (cases "remaining = ?q")
        case True
        have S0: "dsub 96 remaining ?q = 0" unfolding S by (metis True diff_self)
        show ?thesis
          unfolding walk_levels.simps exact_walk.simps P D C Q Let_def if_not_P [OF go] if_not_P [OF q]
            F rbind_simps A S0 if_P [OF True] by simp
      next
        case False
        then have nz: "remaining - ?q \<noteq> 0" by simp
        show ?thesis
          unfolding walk_levels.simps exact_walk.simps P D C Q Let_def if_not_P [OF go] if_not_P [OF q]
            F rbind_simps A S if_not_P [OF nz] if_not_P [OF False] Cons.IH [OF ls ok' t(7) [OF False]]
          by (simp split: prod.splits)
      qed
    qed
  qed
qed

section \<open>What a walk does\<close>

text \<open>The debit of the session is the debit before plus the fills, level by level.\<close>

fun apply_fills :: "book_side \<Rightarrow> depth \<Rightarrow> level_fill list \<Rightarrow> depth" where
  "apply_fills side d [] = d"
| "apply_fills side d (f # fs) = apply_fills side
     (dict_set (side, lf_book_price f) (debit_at d (side, lf_book_price f) + lf_quantity f) d) fs"

definition step_multiple :: "rat \<Rightarrow> rat \<Rightarrow> bool" where
  "step_multiple s x \<longleftrightarrow> (\<exists>n. x = of_int n * s)"

lemma step_multiple_diff: "step_multiple s x \<Longrightarrow> step_multiple s y \<Longrightarrow> step_multiple s (x - y)"
  unfolding step_multiple_def by (metis left_diff_distrib of_int_diff)

text \<open>A fill of a walk over \<open>ls\<close> that started with the debits \<open>consumed\<close>.\<close>

definition good_fill ::
  "ioc_command \<Rightarrow> fill_assumptions \<Rightarrow> book_level list \<Rightarrow> depth \<Rightarrow> level_fill \<Rightarrow> bool" where
  "good_fill c pol ls consumed f \<longleftrightarrow>
     (\<exists>l \<in> set ls. f = exact_fill c pol l (lf_quantity f) \<and> \<not> walk_stops c (exact_price c pol l)
        \<and> positive_amount (lf_quantity f)
        \<and> debit_at consumed (book_side_of c, bl_price l) + lf_quantity f
            \<le> bl_quantity l * as_depth_participation_fraction pol)"

lemma good_fill_Cons: "good_fill c pol ls d f \<Longrightarrow> good_fill c pol (l # ls) d f"
  by (auto simp: good_fill_def)

lemma debit_at_set: "debit_at (dict_set k v d) k' = (if k' = k then v else debit_at d k')"
  by (simp add: debit_at_def)

lemma good_fill_set:
  assumes "good_fill c pol ls (dict_set (side, p) v d) f" "p \<notin> bl_price ` set ls"
  shows "good_fill c pol ls d f"
proof -
  obtain l where l: "l \<in> set ls" "f = exact_fill c pol l (lf_quantity f)"
      "\<not> walk_stops c (exact_price c pol l)" "positive_amount (lf_quantity f)"
      "debit_at (dict_set (side, p) v d) (book_side_of c, bl_price l) + lf_quantity f
         \<le> bl_quantity l * as_depth_participation_fraction pol"
    using assms(1) unfolding good_fill_def by blast
  have "bl_price l \<noteq> p" using assms(2) l(1) by blast
  then show ?thesis using l unfolding good_fill_def by (auto simp: debit_at_set intro!: bexI [of _ l])
qed

lemma exact_walk_props:
  assumes pol: "pol_ok pol" and "\<forall>l \<in> set ls. level_ok l" "depth_ok consumed"
    "positive_amount remaining" "distinct (map bl_price ls)"
    and w: "exact_walk c pol ls consumed remaining = (fills, consumed')"
  shows "(\<forall>f \<in> set fills. good_fill c pol ls consumed f)
    \<and> sum_list (map lf_quantity fills) \<le> remaining
    \<and> consumed' = apply_fills (book_side_of c) consumed fills
    \<and> length fills \<le> length ls
    \<and> distinct (map lf_book_price fills) \<and> lf_book_price ` set fills \<subseteq> bl_price ` set ls
    \<and> (step_multiple (as_quantity_step pol) remaining
         \<longrightarrow> (\<forall>f \<in> set fills. step_multiple (as_quantity_step pol) (lf_quantity f)))"
  using assms(2-)
proof (induction ls arbitrary: consumed remaining fills consumed')
  case Nil
  then show ?case by (auto dest: positive_amountD(1))
next
  case (Cons l ls)
  have l: "level_ok l" and ls: "\<forall>l \<in> set ls. level_ok l" and dist: "distinct (map bl_price ls)"
    and fresh: "bl_price l \<notin> bl_price ` set ls" using Cons.prems by auto
  let ?key = "(book_side_of c, bl_price l)" and ?q = "take_at c pol l consumed remaining"
  let ?debit = "debit_at consumed ?key"
  note t = take_at_props [OF pol l Cons.prems(2,3), of c]
  have Q: "min remaining (exact_capacity pol l ?debit) = ?q" by (simp add: take_at_def)
  show ?case
  proof (cases "walk_stops c (exact_price c pol l) \<or> ?q = 0")
    case True
    show ?thesis
    proof (cases "walk_stops c (exact_price c pol l)")
      case True
      with Cons.prems show ?thesis by (auto dest: positive_amountD(1))
    next
      case False
      with True Cons.prems(5) have "exact_walk c pol ls consumed remaining = (fills, consumed')"
        by (simp add: Let_def Q)
      from Cons.IH [OF ls Cons.prems(2,3) dist this] show ?thesis
        by (auto intro: good_fill_Cons)
    qed
  next
    case False
    then have go: "\<not> walk_stops c (exact_price c pol l)" and q: "?q \<noteq> 0" by auto
    let ?f = "exact_fill c pol l ?q" and ?d = "dict_set ?key (?debit + ?q) consumed"
    have fq: "lf_quantity ?f = ?q" "lf_book_price ?f = bl_price l" by (simp_all add: exact_fill_def)
    have gf: "good_fill c pol (l # ls) consumed ?f"
      unfolding good_fill_def using go t(4,5) [OF q] fq by auto
    have sm: "step_multiple (as_quantity_step pol) remaining \<Longrightarrow> step_multiple (as_quantity_step pol) ?q"
      using exact_capacity_bounds(5) [OF pol l depth_ok_debit [OF Cons.prems(2)], of ?key]
      by (auto simp: take_at_def min_def step_multiple_def)
    show ?thesis
    proof (cases "remaining = ?q")
      case True
      then have "fills = [?f]" "consumed' = ?d"
        using Cons.prems(5) go q by (auto simp: Let_def Q)
      with gf fq sm t(2) show ?thesis by auto
    next
      case False
      obtain fs where fs: "exact_walk c pol ls ?d (remaining - ?q) = (fs, consumed')" "fills = ?f # fs"
        using Cons.prems(5) go q False
        by (auto simp: Let_def Q split: prod.splits)
      have bp: "positive_amount (bl_price l)" using l by (simp add: level_ok_def)
      have ok': "depth_ok ?d" using depth_ok_set [OF Cons.prems(2) _ t(6) [OF q], of ?key] bp by simp
      note IH = Cons.IH [OF ls ok' t(7) [OF False] dist fs(1)]
      have gfs: "good_fill c pol (l # ls) consumed f" if "f \<in> set fs" for f
        using IH that fresh by (auto intro: good_fill_Cons good_fill_set)
      have sum: "?q + sum_list (map lf_quantity fs) \<le> remaining"
        using IH by (simp add: algebra_simps)
      have smr: "step_multiple (as_quantity_step pol) remaining \<Longrightarrow>
          step_multiple (as_quantity_step pol) (remaining - ?q)"
        using sm step_multiple_diff by blast
      have fr: "bl_price l \<notin> lf_book_price ` set fs" using IH fresh by auto
      show ?thesis
        unfolding fs(2) using IH gf gfs sum smr sm fr fq by auto
    qed
  qed
qed

lemma apply_fills_debit:
  "debit_at (apply_fills side d fills) (side', p) =
     debit_at d (side', p) +
     (if side' = side then sum_list (map lf_quantity (filter (\<lambda>f. lf_book_price f = p) fills)) else 0)"
  by (induction side d fills rule: apply_fills.induct) (auto simp: debit_at_set)

lemma keys_apply_fills:
  "fst ` set (apply_fills side d fills) = fst ` set d \<union> Pair side ` lf_book_price ` set fills"
  by (induction side d fills rule: apply_fills.induct) (auto simp: keys_dict_set)

lemma length_dict_set: "length (dict_set k v d) \<le> length d + 1"
  by (induction d rule: dict_set.induct) auto

lemma length_apply_fills: "length (apply_fills side d fills) \<le> length d + length fills"
proof (induction side d fills rule: apply_fills.induct)
  case (2 side d f fs)
  then show ?case
    using length_dict_set [of "(side, lf_book_price f)" "debit_at d (side, lf_book_price f) + lf_quantity f" d]
    by simp
qed simp

text \<open>The walk keeps the depth an amount at every price.\<close>

lemma exact_walk_depth_ok:
  assumes pol: "pol_ok pol" and "\<forall>l \<in> set ls. level_ok l" "depth_ok consumed" "positive_amount remaining"
  shows "depth_ok (snd (exact_walk c pol ls consumed remaining))"
  using assms(2-)
proof (induction ls arbitrary: consumed remaining)
  case Nil
  then show ?case by simp
next
  case (Cons l ls)
  have l: "level_ok l" and ls: "\<forall>l \<in> set ls. level_ok l" using Cons.prems by auto
  let ?key = "(book_side_of c, bl_price l)" and ?q = "take_at c pol l consumed remaining"
  let ?debit = "debit_at consumed ?key"
  note t = take_at_props [OF pol l Cons.prems(2,3), of c]
  have Q: "min remaining (exact_capacity pol l ?debit) = ?q" by (simp add: take_at_def)
  have bp: "positive_amount (bl_price l)" using l by (simp add: level_ok_def)
  have ok': "depth_ok (dict_set ?key (?debit + ?q) consumed)" if "?q \<noteq> 0"
    using depth_ok_set [OF Cons.prems(2) _ t(6) [OF that], of ?key] bp by simp
  show ?case
    using Cons.prems(2) Cons.IH [OF ls Cons.prems(2,3)] Cons.IH [OF ls ok' t(7)] ok'
    by (auto simp: Let_def Q split: prod.splits)
qed

section \<open>Totals\<close>

text \<open>A sum of nonnegative values with \<open>k\<close> places whose total is small is not rounded.\<close>

lemma foldl_dadd_exact:
  assumes "\<forall>x \<in> set xs. 0 \<le> x \<and> places k x" "0 \<le> a" "places k a"
    "a + sum_list xs \<le> 10 ^ j" "j + k < 96"
  shows "foldl (dadd 96) a xs = a + sum_list xs"
  using assms
proof (induction xs arbitrary: a)
  case Nil
  then show ?case by simp
next
  case (Cons x xs)
  have s: "0 \<le> sum_list xs" using Cons.prems(1) by (intro sum_list_nonneg) auto
  have ax: "places k (a + x)" "0 \<le> a + x" "a + x \<le> 10 ^ j"
    using Cons.prems s by (auto intro: places_add)
  have "dadd 96 a x = a + x"
    unfolding dadd_def by (rule d96_exact [OF ax(1)]) (use ax Cons.prems(5) in auto)
  then show ?case using Cons.IH [of "a + x"] Cons.prems ax by (simp add: add.assoc)
qed

lemma dsum_exact:
  assumes "\<forall>x \<in> set xs. 0 \<le> x \<and> places k x" "sum_list xs \<le> 10 ^ j" "j + k < 96"
  shows "dsum 96 xs = sum_list xs"
  unfolding dsum_def using foldl_dadd_exact [of xs k 0 j] assms by simp

definition fills_ok :: "ioc_command \<Rightarrow> level_fill list \<Rightarrow> bool" where
  "fills_ok c fills \<longleftrightarrow> (\<forall>f \<in> set fills. fill_ok f) \<and>
     sum_list (map lf_quantity fills) \<le> cmd_quantity c"

definition total_quantity :: "level_fill list \<Rightarrow> rat" where
  "total_quantity fills = sum_list (map lf_quantity fills)"

definition total_notional :: "level_fill list \<Rightarrow> rat" where
  "total_notional fills = sum_list (map (\<lambda>f. lf_execution_price f * lf_quantity f) fills)"

definition total_fees :: "level_fill list \<Rightarrow> rat" where
  "total_fees fills = sum_list (map lf_fee_quote fills)"

lemma fill_okD:
  assumes "fill_ok f"
  shows "0 < lf_quantity f" "places 18 (lf_quantity f)" "lf_quantity f \<le> 10 ^ 18"
    "0 < lf_execution_price f" "places 18 (lf_execution_price f)" "lf_execution_price f \<le> 10 ^ 18"
    "places 36 (lf_execution_price f * lf_quantity f)"
    "lf_execution_price f * lf_quantity f \<le> 10 ^ 18 * lf_quantity f"
    "lf_execution_price f * lf_quantity f \<le> 10 ^ 36"
proof -
  show f: "0 < lf_quantity f" "places 18 (lf_quantity f)" "lf_quantity f \<le> 10 ^ 18"
    "0 < lf_execution_price f" "places 18 (lf_execution_price f)" "lf_execution_price f \<le> 10 ^ 18"
    using assms by (auto simp: fill_ok_def positive_amount_def)
  show "places 36 (lf_execution_price f * lf_quantity f)"
    using places_mult [OF f(5) f(2)] by simp
  show m: "lf_execution_price f * lf_quantity f \<le> 10 ^ 18 * lf_quantity f"
    using f(1,6) by (intro mult_right_mono) auto
  have "10 ^ 18 * lf_quantity f \<le> 10 ^ 18 * 10 ^ 18" using f(3) by (intro mult_left_mono) auto
  with m show "lf_execution_price f * lf_quantity f \<le> 10 ^ 36" by simp
qed

lemma totals_exact:
  assumes ok: "fills_ok c fills" and c: "positive_amount (cmd_quantity c)"
  shows "dsum 96 (map lf_quantity fills) = total_quantity fills"
    and "dsum 96 (map (\<lambda>x. dmul 96 (lf_execution_price x) (lf_quantity x)) fills) = total_notional fills"
    and "dsum 96 (map lf_fee_quote fills) = total_fees fills"
    and "0 \<le> total_quantity fills" "total_quantity fills \<le> 10 ^ 18" "places 18 (total_quantity fills)"
    and "0 \<le> total_notional fills" "total_notional fills \<le> 10 ^ 18 * total_quantity fills"
    and "total_notional fills \<le> 10 ^ 36" "places 36 (total_notional fills)"
    and "0 \<le> total_fees fills" "total_fees fills \<le> total_notional fills" "places 58 (total_fees fills)"
proof -
  have f: "fill_ok f" if "f \<in> set fills" for f using ok that by (simp add: fills_ok_def)
  note D = fill_okD [OF f]
  show q0: "0 \<le> total_quantity fills"
    unfolding total_quantity_def using D(1) by (intro sum_list_nonneg) (auto intro: less_imp_le)
  have "total_quantity fills \<le> cmd_quantity c" using ok by (simp add: fills_ok_def total_quantity_def)
  then show q1: "total_quantity fills \<le> 10 ^ 18" using c by (simp add: positive_amount_def)
  show q2: "places 18 (total_quantity fills)"
    unfolding total_quantity_def using D(2) by (intro places_sum_list) auto
  show n0: "0 \<le> total_notional fills"
    unfolding total_notional_def using D(1,4) by (intro sum_list_nonneg) (auto intro: less_imp_le)
  have "total_notional fills \<le> sum_list (map (\<lambda>f. 10 ^ 18 * lf_quantity f) fills)"
    unfolding total_notional_def using D(8) by (intro sum_list_mono) auto
  also have "\<dots> = 10 ^ 18 * total_quantity fills"
    by (simp add: total_quantity_def sum_list_const_mult)
  finally show n1: "total_notional fills \<le> 10 ^ 18 * total_quantity fills" .
  then show n2: "total_notional fills \<le> 10 ^ 36" using q1 by simp
  show n3: "places 36 (total_notional fills)"
    unfolding total_notional_def using D(7) by (intro places_sum_list) auto
  show e0: "0 \<le> total_fees fills"
    unfolding total_fees_def using f by (intro sum_list_nonneg) (auto simp: fill_ok_def)
  show e1: "total_fees fills \<le> total_notional fills"
    unfolding total_fees_def total_notional_def using f
    by (intro sum_list_mono) (auto simp: fill_ok_def mult.commute)
  show e2: "places 58 (total_fees fills)"
    unfolding total_fees_def using f by (intro places_sum_list) (auto simp: fill_ok_def)
  show "dsum 96 (map lf_quantity fills) = total_quantity fills"
    unfolding total_quantity_def
    by (rule dsum_exact [where k = 18 and j = 18]) (use D(1,2) q1 in \<open>auto simp: total_quantity_def less_imp_le\<close>)
  have M: "dmul 96 (lf_execution_price x) (lf_quantity x) = lf_execution_price x * lf_quantity x"
    if "x \<in> set fills" for x
    unfolding dmul_def by (rule d96_exact [where j = 36, OF D(7)])
      (use D(1,4,9) that in \<open>auto simp: less_imp_le abs_of_pos\<close>)
  then have E: "map (\<lambda>x. dmul 96 (lf_execution_price x) (lf_quantity x)) fills =
      map (\<lambda>x. lf_execution_price x * lf_quantity x) fills" by simp
  show "dsum 96 (map (\<lambda>x. dmul 96 (lf_execution_price x) (lf_quantity x)) fills) = total_notional fills"
    unfolding total_notional_def E using dsum_exact [where k = 36 and j = 36,
        of "map (\<lambda>x. lf_execution_price x * lf_quantity x) fills"] D(1,4,7) n2
    by (auto simp: total_notional_def less_imp_le)
  show "dsum 96 (map lf_fee_quote fills) = total_fees fills"
    unfolding total_fees_def
    by (rule dsum_exact [where k = 58 and j = 36]) (use f e1 n2 in \<open>auto simp: total_fees_def fill_ok_def\<close>)
qed

text \<open>A rounded quotient between \<open>10 ^ -18\<close> and \<open>10 ^ 18\<close> has at most 120 places.\<close>

lemma dround_places:
  assumes "1 / 10 ^ 18 \<le> x"
  shows "places 120 (dround 96 x)"
proof -
  let ?e = "- 999999 - int 96 + 1" let ?s = "grid_exp 10 96 ?e x"
  have x0: "0 < x" using assms by (rule less_le_trans [rotated]) simp
  have "pw 10 (- 18) = 1 / 10 ^ 18" by (simp add: pw_def)
  also have "\<dots> < pw 10 (rat_exp 10 x + 1)" using assms rat_exp_bounds(2) [of 10 x] x0 by simp
  finally have "- 18 < rat_exp 10 x + 1" by (simp add: pw_le_iff)
  then have s: "- 120 \<le> ?s" by (simp add: grid_exp_def)
  have "dround 96 x = of_int (rhe (x / pw 10 ?s)) * pw 10 ?s"
    using x0 by (simp add: dround_def rnd_def rnd_pos_def Let_def)
  then have "on_grid 10 ?s (dround 96 x)" using on_grid_iff [of 10] by auto
  from on_grid_coarser [OF _ s this] show ?thesis by (simp add: places_grid)
qed

end
