(* ===== verification/Sim_Kernel_Total.thy ===== *)
theory Sim_Kernel_Total
  imports Sim_Kernel_Exact
begin

text \<open>
  The kernel never fails one of its own validations. \<open>evaluated\<close> is the evaluation of a command
  without validations and with exact totals; \<open>evaluate_exact\<close> shows that \<open>evaluate\<close>, which rounds
  every operation to 96 digits and validates every instance it builds, returns exactly that step
  whenever the state satisfies the invariant \<open>kernel_inv\<close>, and \<open>evaluated_inv\<close> that the invariant
  is kept.
\<close>

section \<open>The reference evaluation\<close>

definition exact_mid :: "accepted_book_frame \<Rightarrow> rat" where
  "exact_mid f = (bl_price (hd (fr_bids f)) + bl_price (hd (fr_asks f))) / 2"

definition exact_outcome ::
  "ioc_command \<Rightarrow> accepted_book_frame \<Rightarrow> int \<Rightarrow> string \<Rightarrow> string \<Rightarrow> level_fill list \<Rightarrow> fill_outcome" where
  "exact_outcome c f arrival ch ph fills =
     (let quantity = total_quantity fills; notional = total_notional fills
      in (base_outcome c f arrival ch ph
            (if quantity = 0 then NO_FILL else if quantity = cmd_quantity c then FILLED else PARTIAL)
            (if quantity = 0 then ''NO_EXECUTABLE_DISPLAYED_CAPACITY'' else ''MODEL_IOC''))
         \<lparr> fo_filled_quantity := quantity,
           fo_cancelled_quantity := cmd_quantity c - quantity,
           fo_notional_quote := notional,
           fo_fee_quote := total_fees fills,
           fo_average_price := (if quantity \<noteq> 0 then Some (dround 96 (notional / quantity)) else None),
           fo_arrival_mid_price := Some (exact_mid f),
           fo_implementation_shortfall_quote := (notional - quantity * exact_mid f) * direction c,
           fo_level_fills := fills \<rparr>)"

definition walk_side :: "ioc_command \<Rightarrow> accepted_book_frame \<Rightarrow> book_level list" where
  "walk_side c f = (if buying c then fr_asks f else fr_bids f)"

definition walked ::
  "ioc_command \<Rightarrow> accepted_book_frame \<Rightarrow> fill_assumptions \<Rightarrow> liquidity_state \<Rightarrow> level_fill list \<times> depth" where
  "walked c f pol st = exact_walk c pol (walk_side c f) (depth_of st) (cmd_quantity c)"

text \<open>The outcome and the changes to the state, before the receipt is appended.\<close>

definition decided ::
  "ioc_command \<Rightarrow> accepted_book_frame \<Rightarrow> fill_assumptions \<Rightarrow> liquidity_state \<Rightarrow> int \<Rightarrow> string \<Rightarrow> string
   \<Rightarrow> liquidity_state \<Rightarrow> fill_outcome \<times> liquidity_state" where
  "decided c f pol st arrival ch ph st' =
     (case command_refusal c pol arrival of
        Some reason \<Rightarrow> (base_outcome c f arrival ch ph NO_FILL reason, st')
      | None \<Rightarrow> (case frame_issue f st arrival pol of
          Some issue \<Rightarrow> (base_outcome c f arrival ch ph BLOCKED issue, st' \<lparr> ls_barrier_reason := Some issue \<rparr>)
        | None \<Rightarrow> (exact_outcome c f arrival ch ph (fst (walked c f pol st)),
                   (frame_cursor f st') \<lparr> ls_consumed_depth := consumption_of (snd (walked c f pol st)) \<rparr>)))"

definition receipt_for :: "ioc_command \<Rightarrow> string \<Rightarrow> string \<Rightarrow> fill_outcome \<Rightarrow> command_receipt" where
  "receipt_for c ch ph out = \<lparr> rc_command_id = cmd_command_id c, rc_command_sha256 = ch,
     rc_assumptions_sha256 = ph, rc_outcome = out \<rparr>"

definition evaluated ::
  "ioc_command \<Rightarrow> accepted_book_frame \<Rightarrow> fill_assumptions \<Rightarrow> liquidity_state \<Rightarrow> int \<Rightarrow> string \<Rightarrow> string
   \<Rightarrow> model_step" where
  "evaluated c f pol st as_of ch ph =
     (let arrival = cmd_submitted_at_ms c + as_latency_ms pol in
      if as_of < arrival then
        \<lparr> ms_outcome = (base_outcome c f arrival ch ph WAIT ''NOT_ARRIVED'') \<lparr> fo_cancelled_quantity := 0 \<rparr>,
          ms_state = st, ms_replayed = False \<rparr>
      else let d = decided c f pol st arrival ch ph
                     (st \<lparr> ls_assumptions_sha256 := Some ph, ls_last_as_of_ms := as_of,
                           ls_last_arrival_at_ms := arrival \<rparr>)
           in \<lparr> ms_outcome = fst d,
                ms_state = (snd d) \<lparr> ls_receipts := ls_receipts st @ [receipt_for c ch ph (fst d)] \<rparr>,
                ms_replayed = False \<rparr>)"

section \<open>What validated inputs give\<close>

lemma strictly_ascendingD: "strictly_ascending ps \<Longrightarrow> sorted ps \<and> distinct ps"
  unfolding strictly_ascending_def by (metis List.finite_set distinct_sorted_list_of_set sorted_sorted_list_of_set)

lemma strictly_descendingD: "strictly_descending ps \<Longrightarrow> sorted (rev ps) \<and> distinct ps"
  unfolding strictly_descending_def
  by (metis List.finite_set distinct_rev distinct_sorted_list_of_set rev_rev_ident sorted_sorted_list_of_set)

lemma frame_okD:
  assumes "validate_frame f = Inr u"
  shows "\<And>l. l \<in> set (frame_levels f) \<Longrightarrow> level_ok l"
    and "length (fr_bids f) \<le> 100" "length (fr_asks f) \<le> 100"
    and "0 < fr_sequence f" "0 < fr_exchange_update_id f"
    and "valid_timestamp (fr_exchange_at_ms f)" "valid_timestamp (fr_received_at_ms f)"
    and "fr_exchange_at_ms f \<le> fr_received_at_ms f" "fr_received_at_ms f \<le> fr_persisted_at_ms f"
    and "fr_continuity f = ADMITTED \<Longrightarrow> fr_bids f \<noteq> [] \<and> fr_asks f \<noteq> []"
    and "sorted (map bl_price (fr_asks f))" "distinct (map bl_price (fr_asks f))"
    and "sorted (rev (map bl_price (fr_bids f)))" "distinct (map bl_price (fr_bids f))"
    and "fr_bids f \<noteq> [] \<Longrightarrow> fr_asks f \<noteq> [] \<Longrightarrow> bl_price (hd (fr_bids f)) < bl_price (hd (fr_asks f))"
proof -
  from assms show "level_ok l" if "l \<in> set (frame_levels f)" for l
    using that unfolding validate_frame_def frame_levels_def
    by (auto simp: rbind_eq_Inr validate_book_level_ok dest!: rtraverse_unit_ok)
  show "length (fr_bids f) \<le> 100" "length (fr_asks f) \<le> 100"
    "0 < fr_sequence f" "0 < fr_exchange_update_id f"
    "valid_timestamp (fr_exchange_at_ms f)" "valid_timestamp (fr_received_at_ms f)"
    "fr_exchange_at_ms f \<le> fr_received_at_ms f" "fr_received_at_ms f \<le> fr_persisted_at_ms f"
    "fr_continuity f = ADMITTED \<Longrightarrow> fr_bids f \<noteq> [] \<and> fr_asks f \<noteq> []"
    "sorted (map bl_price (fr_asks f))" "distinct (map bl_price (fr_asks f))"
    "sorted (rev (map bl_price (fr_bids f)))" "distinct (map bl_price (fr_bids f))"
    "fr_bids f \<noteq> [] \<Longrightarrow> fr_asks f \<noteq> [] \<Longrightarrow> bl_price (hd (fr_bids f)) < bl_price (hd (fr_asks f))"
    using assms strictly_ascendingD [of "map bl_price (fr_asks f)"]
      strictly_descendingD [of "map bl_price (fr_bids f)"]
    by (auto simp: validate_frame_def rbind_eq_Inr ensure_ok_iff Let_def hd_map not_le)
qed

lemma command_okD:
  assumes "validate_command c = Inr u"
  shows "valid_identifier (cmd_session_id c)" "valid_identifier (cmd_command_id c)"
    "positive_amount (cmd_quantity c)" "positive_amount (cmd_price_cap c)"
    "valid_timestamp (cmd_submitted_at_ms c)" "cmd_submitted_at_ms c \<le> cmd_persisted_at_ms c"
    "cmd_eligible_at_ms c \<le> cmd_expires_at_ms c"
  using assms by (auto simp: validate_command_def ensure_ok_iff)

definition kernel_inv :: "liquidity_state \<Rightarrow> bool" where
  "kernel_inv st \<longleftrightarrow> validate_state st = Inr () \<and> depth_ok (depth_of st)
     \<and> length (ls_consumed_depth st) \<le> 100 * length (ls_receipts st)"

text \<open>The depth of a consumption is the walked depth, sorted by side and price.\<close>

lemma depth_of_consumption:
  "map (\<lambda>d. ((cd_side d, cd_price d), cd_quantity d)) (consumption_of d) = sort_key fst d"
  by (simp add: consumption_of_def o_def case_prod_unfold)

lemma map_of_sort_key:
  assumes "distinct (map fst d)"
  shows "map_of (sort_key fst d) = map_of d"
proof -
  have "distinct (map fst (sort_key fst d))" using assms by (simp add: distinct_map)
  then show ?thesis using assms by (subst map_of_inject_set) auto
qed

lemma depth_ok_sort: "depth_ok d \<Longrightarrow> depth_ok (sort_key fst d)"
  by (simp add: depth_ok_def distinct_map)

lemma walk_exact:
  assumes pol: "pol_ok pol" and c: "validate_command c = Inr ()" and f: "validate_frame f = Inr ()"
    and st: "kernel_inv st"
  shows "walk c f pol st = Inr (fst (walked c f pol st), consumption_of (snd (walked c f pol st)))"
    and "depth_ok (snd (walked c f pol st))"
proof -
  note C = command_okD [OF c]
  have ls: "\<forall>l \<in> set (walk_side c f). level_ok l"
    using frame_okD(1) [OF f] by (auto simp: walk_side_def frame_levels_def)
  have d: "depth_ok (depth_of st)" using st by (simp add: kernel_inv_def)
  have cap: "cmd_price_cap c \<le> 10 ^ 18" using C(4) by (simp add: positive_amount_def)
  have W: "walk_levels c pol (walk_side c f) (depth_of st) (cmd_quantity c) = Inr (walked c f pol st)"
    unfolding walked_def by (rule walk_levels_exact [OF pol cap ls d C(3)])
  show dk: "depth_ok (snd (walked c f pol st))"
    unfolding walked_def by (rule exact_walk_depth_ok [OF pol ls d C(3)])
  have "validate_consumed_depth x = Inr ()" if "x \<in> set (consumption_of (snd (walked c f pol st)))" for x
  proof -
    have "((cd_side x, cd_price x), cd_quantity x) \<in> set (snd (walked c f pol st))"
      using that by (auto simp: consumption_of_def)
    then have "positive_amount (cd_price x) \<and> positive_amount (cd_quantity x)"
      using dk by (auto simp: depth_ok_def)
    then show ?thesis
      by (simp add: validate_consumed_depth_def ensure_ok_iff positive_calculated)
  qed
  then obtain ys where "rtraverse validate_consumed_depth (consumption_of (snd (walked c f pol st))) = Inr ys"
    using rtraverse_okI by blast
  with W show "walk c f pol st = Inr (fst (walked c f pol st), consumption_of (snd (walked c f pol st)))"
    by (simp add: walk_def walk_side_def [symmetric] case_prod_unfold Let_def)
qed

text \<open>Every fill of a walk is against a displayed level, at a price at least as bad as displayed.\<close>

lemma walked_fills:
  assumes pol: "pol_ok pol" and c: "validate_command c = Inr ()" and f: "validate_frame f = Inr ()"
    and st: "kernel_inv st"
  defines "fills \<equiv> fst (walked c f pol st)"
  shows "fills_ok c fills"
    and "\<forall>x \<in> set fills. good_fill c pol (walk_side c f) (depth_of st) x"
    and "snd (walked c f pol st) = apply_fills (book_side_of c) (depth_of st) fills"
    and "length fills \<le> 100" and "distinct (map lf_book_price fills)"
    and "step_multiple (as_quantity_step pol) (cmd_quantity c) \<Longrightarrow>
           \<forall>x \<in> set fills. step_multiple (as_quantity_step pol) (lf_quantity x)"
proof -
  note C = command_okD [OF c]
  have ls: "\<forall>l \<in> set (walk_side c f). level_ok l"
    using frame_okD(1) [OF f] by (auto simp: walk_side_def frame_levels_def)
  have d: "depth_ok (depth_of st)" using st by (simp add: kernel_inv_def)
  have dist: "distinct (map bl_price (walk_side c f))"
    using frame_okD(12,14) [OF f] by (simp add: walk_side_def)
  have len: "length (walk_side c f) \<le> 100" using frame_okD(2,3) [OF f] by (simp add: walk_side_def)
  have cap: "cmd_price_cap c \<le> 10 ^ 18" using C(4) by (simp add: positive_amount_def)
  have "exact_walk c pol (walk_side c f) (depth_of st) (cmd_quantity c) = (fills, snd (walked c f pol st))"
    by (simp add: fills_def walked_def)
  note P = exact_walk_props [OF pol ls d C(3) dist this]
  show g: "\<forall>x \<in> set fills. good_fill c pol (walk_side c f) (depth_of st) x" using P by blast
  have "fill_ok x" if x: "x \<in> set fills" for x
  proof -
    obtain l where l: "l \<in> set (walk_side c f)" "x = exact_fill c pol l (lf_quantity x)"
        "\<not> walk_stops c (exact_price c pol l)" "positive_amount (lf_quantity x)"
      using g x unfolding good_fill_def by blast
    have "fill_ok (exact_fill c pol l (lf_quantity x))"
      by (rule exact_fill_ok [OF pol _ l(4) exact_price_amount [OF pol _ cap l(3)]]) (use ls l(1) in auto)
    with l(2) show ?thesis by simp
  qed
  then show "fills_ok c fills" using P by (simp add: fills_ok_def)
  show "snd (walked c f pol st) = apply_fills (book_side_of c) (depth_of st) fills" "length fills \<le> 100"
    "distinct (map lf_book_price fills)"
    "step_multiple (as_quantity_step pol) (cmd_quantity c) \<Longrightarrow>
       \<forall>x \<in> set fills. step_multiple (as_quantity_step pol) (lf_quantity x)"
    using P len by auto
qed

lemma good_fill_price:
  assumes pol: "pol_ok pol" and ls: "\<forall>l \<in> set ls. level_ok l" and g: "good_fill c pol ls d x"
  obtains l where "l \<in> set ls" "lf_book_price x = bl_price l"
    "lf_execution_price x = exact_price c pol l" "\<not> walk_stops c (lf_execution_price x)"
    "buying c \<Longrightarrow> bl_price l \<le> lf_execution_price x"
    "\<not> buying c \<Longrightarrow> lf_execution_price x \<le> bl_price l"
proof -
  obtain l where l: "l \<in> set ls" "x = exact_fill c pol l (lf_quantity x)"
      "\<not> walk_stops c (exact_price c pol l)"
    using g unfolding good_fill_def by blast
  have "lf_book_price x = bl_price l" "lf_execution_price x = exact_price c pol l"
    by (subst l(2), simp add: exact_fill_def)+
  with l ls exact_price_adverse [OF pol, of l c] that show ?thesis by auto
qed

section \<open>The outcome of a walk is valid\<close>

lemma exact_mid_props:
  assumes f: "validate_frame f = Inr ()" and ad: "fr_continuity f = ADMITTED"
  shows "ddiv 96 (dadd 96 (bl_price (hd (fr_bids f))) (bl_price (hd (fr_asks f)))) 2 = exact_mid f"
    and "places 19 (exact_mid f)" "0 < exact_mid f" "exact_mid f \<le> 10 ^ 18"
    and "l \<in> set (fr_asks f) \<Longrightarrow> exact_mid f \<le> bl_price l"
    and "l \<in> set (fr_bids f) \<Longrightarrow> bl_price l \<le> exact_mid f"
proof -
  let ?b = "bl_price (hd (fr_bids f))" and ?a = "bl_price (hd (fr_asks f))"
  have ne: "fr_bids f \<noteq> []" "fr_asks f \<noteq> []" using frame_okD(10) [OF f ad] by auto
  have "hd (fr_bids f) \<in> set (frame_levels f)" "hd (fr_asks f) \<in> set (frame_levels f)"
    using ne by (auto simp: frame_levels_def)
  then have ba: "positive_amount ?b" "positive_amount ?a"
    using frame_okD(1) [OF f] by (auto simp: level_ok_def)
  note B = positive_amountD [OF ba(1)] and A = positive_amountD [OF ba(2)]
  have lt: "?b < ?a" using frame_okD(15) [OF f] ne by simp
  have s: "places 18 (?b + ?a)" using A B by (intro places_add)
  have "dadd 96 ?b ?a = ?b + ?a"
    unfolding dadd_def by (rule d96_exact [where j = 19, OF s]) (use A B in auto)
  moreover show m: "places 19 (exact_mid f)" unfolding exact_mid_def using places_half [OF s] by simp
  moreover show m0: "0 < exact_mid f" and m1: "exact_mid f \<le> 10 ^ 18"
    unfolding exact_mid_def using A B by auto
  moreover have "ddiv 96 (?b + ?a) 2 = exact_mid f"
    unfolding ddiv_def exact_mid_def [symmetric]
    by (rule d96_exact [where j = 18, OF m]) (use m0 m1 in auto)
  ultimately show "ddiv 96 (dadd 96 ?b ?a) 2 = exact_mid f" by simp
  show "exact_mid f \<le> bl_price l" if l: "l \<in> set (fr_asks f)"
  proof -
    have "?a \<le> bl_price l"
      using frame_okD(11) [OF f] ne l by (cases "fr_asks f") auto
    with lt show ?thesis by (simp add: exact_mid_def)
  qed
  show "bl_price l \<le> exact_mid f" if l: "l \<in> set (fr_bids f)"
  proof -
    have "bl_price l \<le> ?b"
      using frame_okD(13) [OF f] ne l by (cases "fr_bids f") (auto simp: sorted_append)
    with lt show ?thesis by (simp add: exact_mid_def)
  qed
qed

lemma average_props:
  assumes ok: "fills_ok c fills" and c: "positive_amount (cmd_quantity c)"
    and q: "total_quantity fills \<noteq> 0"
  shows "calculated_positive (dround 96 (total_notional fills / total_quantity fills))"
proof -
  note T = totals_exact [OF ok c]
  have q0: "0 < total_quantity fills" using T(4) q by simp
  have lo: "1 / 10 ^ 18 * total_quantity fills \<le> total_notional fills"
  proof -
    have "1 / 10 ^ 18 * lf_quantity f \<le> lf_execution_price f * lf_quantity f" if "f \<in> set fills" for f
      using ok that positive_amount_ge [of "lf_execution_price f"] fill_okD(1) [of f]
      by (intro mult_right_mono) (auto simp: fills_ok_def fill_ok_def)
    then have "sum_list (map (\<lambda>f. 1 / 10 ^ 18 * lf_quantity f) fills) \<le> total_notional fills"
      unfolding total_notional_def by (intro sum_list_mono) auto
    then show ?thesis by (simp only: total_quantity_def sum_list_const_mult)
  qed
  have a1: "1 / 10 ^ 18 \<le> total_notional fills / total_quantity fills"
    using lo q0 by (simp add: pos_le_divide_eq)
  have a2: "total_notional fills / total_quantity fills \<le> 10 ^ 18"
    using T(8) q0 by (simp add: pos_divide_le_eq)
  have "fits 96 (10 ^ 18)" by (rule fitsI [of 0]) auto
  then have "dround 96 (total_notional fills / total_quantity fills) \<le> 10 ^ 18"
    using a2 by (rule d96.le_rep [rotated])
  moreover have "fits 96 (1 / 10 ^ 18)"
    by (rule fitsI [of 18]) (auto simp: places_def)
  then have "1 / 10 ^ 18 \<le> dround 96 (total_notional fills / total_quantity fills)"
    using a1 by (rule d96.ge_rep [rotated])
  then have "0 < dround 96 (total_notional fills / total_quantity fills)"
    by (rule less_le_trans [rotated]) simp
  ultimately show ?thesis
    using dround_places [OF a1] amount_le_40 by (simp add: calculated_positive_def)
qed

text \<open>The shortfall of a walk against the mid price is never negative.\<close>

definition shortfall :: "ioc_command \<Rightarrow> accepted_book_frame \<Rightarrow> level_fill list \<Rightarrow> rat" where
  "shortfall c f fills = (total_notional fills - total_quantity fills * exact_mid f) * direction c"

lemma shortfall_props:
  assumes ok: "fills_ok c fills" and c: "positive_amount (cmd_quantity c)"
    and f: "validate_frame f = Inr ()" and ad: "fr_continuity f = ADMITTED"
    and adv: "\<forall>x \<in> set fills.
        (buying c \<longrightarrow> exact_mid f \<le> lf_execution_price x) \<and>
        (\<not> buying c \<longrightarrow> lf_execution_price x \<le> exact_mid f)"
  shows "dmul 96 (dsub 96 (total_notional fills) (dmul 96 (total_quantity fills) (exact_mid f))) (direction c)
      = shortfall c f fills"
    and "0 \<le> shortfall c f fills" "shortfall c f fills \<le> 10 ^ 36" "places 37 (shortfall c f fills)"
proof -
  note T = totals_exact [OF ok c]
  note M = exact_mid_props [OF f ad]
  let ?q = "total_quantity fills" and ?n = "total_notional fills" and ?m = "exact_mid f"
  have qm: "places 37 (?q * ?m)" using places_mult [OF T(6) M(2)] by simp
  have qm0: "0 \<le> ?q * ?m" using T(4) M(3) by simp
  have "?q * ?m \<le> 10 ^ 18 * 10 ^ 18" using T(4,5) M(3,4) by (intro mult_mono) auto
  then have qm1: "?q * ?m \<le> 10 ^ 36" by simp
  have A: "dmul 96 ?q ?m = ?q * ?m"
    unfolding dmul_def by (rule d96_exact [where j = 36, OF qm]) (use qm0 qm1 in auto)
  have n37: "places 37 ?n" using T(10) by (rule places_mono) simp
  have d: "places 37 (?n - ?q * ?m)" by (rule places_diff [OF n37 qm])
  have d1: "\<bar>?n - ?q * ?m\<bar> \<le> 10 ^ 36" using T(7,9) qm0 qm1 by (auto simp: abs_le_iff)
  have B: "dsub 96 ?n (?q * ?m) = ?n - ?q * ?m"
    unfolding dsub_def by (rule d96_exact [where j = 36, OF d]) (use d1 in auto)
  have s: "places 37 (shortfall c f fills)"
    using d places_minus [OF d] by (auto simp: shortfall_def direction_def)
  then show "places 37 (shortfall c f fills)" .
  have s1: "\<bar>shortfall c f fills\<bar> \<le> 10 ^ 36" using d1 by (auto simp: shortfall_def direction_def)
  show "dmul 96 (dsub 96 ?n (dmul 96 ?q ?m)) (direction c) = shortfall c f fills"
    unfolding A B unfolding dmul_def shortfall_def [symmetric] by (rule d96_exact [where j = 36, OF s]) (use s1 in auto)
  have q: "?q * ?m = sum_list (map (\<lambda>x. ?m * lf_quantity x) fills)"
    by (simp add: total_quantity_def sum_list_const_mult mult.commute)
  have pos: "0 \<le> lf_quantity x" if "x \<in> set fills" for x
    using ok that fill_okD(1) [of x] by (auto simp: fills_ok_def less_imp_le)
  show "0 \<le> shortfall c f fills"
  proof (cases "buying c")
    case True
    have "?q * ?m \<le> ?n" unfolding q total_notional_def
      using adv pos True by (intro sum_list_mono mult_right_mono) auto
    then show ?thesis using True by (simp add: shortfall_def direction_def)
  next
    case False
    have "?n \<le> ?q * ?m" unfolding q total_notional_def
      using adv pos False by (intro sum_list_mono mult_right_mono) auto
    then show ?thesis using False by (simp add: shortfall_def direction_def)
  qed
  show "shortfall c f fills \<le> 10 ^ 36" using s1 by simp
qed

lemma walked_adverse:
  assumes pol: "pol_ok pol" and c: "validate_command c = Inr ()" and f: "validate_frame f = Inr ()"
    and st: "kernel_inv st" and ad: "fr_continuity f = ADMITTED" and x: "x \<in> set (fst (walked c f pol st))"
  shows "(buying c \<longrightarrow> exact_mid f \<le> lf_execution_price x) \<and>
    (\<not> buying c \<longrightarrow> lf_execution_price x \<le> exact_mid f)"
proof -
  have ls: "\<forall>l \<in> set (walk_side c f). level_ok l"
    using frame_okD(1) [OF f] by (auto simp: walk_side_def frame_levels_def)
  have g: "good_fill c pol (walk_side c f) (depth_of st) x"
    using walked_fills(2) [OF pol c f st] x by blast
  obtain l where l: "l \<in> set (walk_side c f)"
      "buying c \<Longrightarrow> bl_price l \<le> lf_execution_price x"
      "\<not> buying c \<Longrightarrow> lf_execution_price x \<le> bl_price l"
    using good_fill_price [OF pol ls g] by metis
  show ?thesis
    using l exact_mid_props(5,6) [OF f ad, of l] by (fastforce simp: walk_side_def split: if_splits)
qed

lemma calculated_nonnegativeI:
  "0 \<le> x \<Longrightarrow> x \<le> 10 ^ 36 \<Longrightarrow> places k x \<Longrightarrow> k \<le> 120 \<Longrightarrow> calculated_nonnegative x"
  using pow_le_pow [of 36 40] places_mono [of k x 120] by (simp add: calculated_nonnegative_def)

lemma walked_outcome_exact:
  assumes pol: "pol_ok pol" and c: "validate_command c = Inr ()" and f: "validate_frame f = Inr ()"
    and st: "kernel_inv st" and ad: "fr_continuity f = ADMITTED"
  shows "walked_outcome c f arrival ch ph (fst (walked c f pol st)) =
    exact_outcome c f arrival ch ph (fst (walked c f pol st))"
proof -
  let ?fills = "fst (walked c f pol st)"
  have cq: "positive_amount (cmd_quantity c)" using command_okD [OF c] by simp
  have ok: "fills_ok c ?fills" by (rule walked_fills(1) [OF pol c f st])
  note T = totals_exact [OF ok cq]
  have adv: "\<forall>x \<in> set ?fills. (buying c \<longrightarrow> exact_mid f \<le> lf_execution_price x) \<and>
      (\<not> buying c \<longrightarrow> lf_execution_price x \<le> exact_mid f)"
    using walked_adverse [OF pol c f st ad] by blast
  note S = shortfall_props [OF ok cq f ad adv]
  have le: "total_quantity ?fills \<le> cmd_quantity c"
    using ok by (simp add: fills_ok_def total_quantity_def)
  have D: "dsub 96 (cmd_quantity c) (total_quantity ?fills) = cmd_quantity c - total_quantity ?fills"
    unfolding dsub_def
    by (rule d96_exact [where j = 18 and k = 18])
      (use T(4,6) le cq in \<open>auto simp: positive_amount_def intro: places_diff\<close>)
  show ?thesis
    unfolding walked_outcome_def exact_outcome_def Let_def T(1,2,3) exact_mid_props(1) [OF f ad] D
    unfolding S(1) unfolding shortfall_def ddiv_def ..
qed

lemma base_outcome_valid:
  assumes c: "validate_command c = Inr ()" and a: "valid_timestamp arrival"
    and h: "valid_sha256 ch" "valid_sha256 ph" and r: "1 \<le> length reason" "length reason \<le> 100"
  shows "status \<in> {NO_FILL, BLOCKED} \<Longrightarrow>
      validate_outcome (base_outcome c f arrival ch ph status reason) = Inr ()"
    and "validate_outcome ((base_outcome c f arrival ch ph WAIT reason) \<lparr> fo_cancelled_quantity := 0 \<rparr>) = Inr ()"
proof -
  note C = command_okD [OF c]
  have q: "positive_amount (cmd_quantity c)" "nonnegative_amount (cmd_quantity c)"
    using C(3) by (auto simp: nonnegative_amount_def positive_amount_def)
  have z: "nonnegative_amount 0" "calculated_nonnegative 0"
    by (auto simp: nonnegative_amount_def calculated_nonnegative_def)
  have "dadd 96 0 (cmd_quantity c) = cmd_quantity c"
    unfolding dadd_def by (simp, rule d96_exact [where k = 18 and j = 18])
      (use C(3) in \<open>auto simp: positive_amount_def\<close>)
  then show "status \<in> {NO_FILL, BLOCKED} \<Longrightarrow>
      validate_outcome (base_outcome c f arrival ch ph status reason) = Inr ()"
    and "validate_outcome ((base_outcome c f arrival ch ph WAIT reason) \<lparr> fo_cancelled_quantity := 0 \<rparr>) = Inr ()"
    using C(2) a h r q z
    by (auto simp: validate_outcome_def base_outcome_def rbind_eq_Inr ensure_ok_iff
        coherent_outcome_def Let_def dsum_def)
qed

lemma exact_outcome_valid:
  assumes pol: "pol_ok pol" and c: "validate_command c = Inr ()" and f: "validate_frame f = Inr ()"
    and st: "kernel_inv st" and ad: "fr_continuity f = ADMITTED" and a: "valid_timestamp arrival"
    and h: "valid_sha256 ch" "valid_sha256 ph"
  shows "validate_outcome (exact_outcome c f arrival ch ph (fst (walked c f pol st))) = Inr ()"
proof -
  let ?fills = "fst (walked c f pol st)"
  let ?q = "total_quantity ?fills" and ?n = "total_notional ?fills"
  note C = command_okD [OF c]
  note W = walked_fills [OF pol c f st]
  note T = totals_exact [OF W(1) C(3)]
  note M = exact_mid_props [OF f ad]
  have adv: "\<forall>x \<in> set ?fills. (buying c \<longrightarrow> exact_mid f \<le> lf_execution_price x) \<and>
      (\<not> buying c \<longrightarrow> lf_execution_price x \<le> exact_mid f)"
    using walked_adverse [OF pol c f st ad] by blast
  note S = shortfall_props [OF W(1) C(3) f ad adv]
  have le: "?q \<le> cmd_quantity c" using W(1) by (simp add: fills_ok_def total_quantity_def)
  have cq: "0 < cmd_quantity c" "cmd_quantity c \<le> 10 ^ 18" "places 18 (cmd_quantity c)"
    using C(3) by (auto simp: positive_amount_def)
  have canc: "nonnegative_amount (cmd_quantity c - ?q)"
    using le T(4,6) cq by (auto simp: nonnegative_amount_def intro: places_diff)
  have add: "dadd 96 ?q (cmd_quantity c - ?q) = cmd_quantity c"
    unfolding dadd_def by (simp, rule d96_exact [where k = 18 and j = 18]) (use cq in auto)
  have avg: "?q \<noteq> 0 \<Longrightarrow> calculated_positive (dround 96 (?n / ?q))"
    by (rule average_props [OF W(1) C(3)])
  have mid: "calculated_positive (exact_mid f)"
    using M(2,3,4) amount_le_40 places_mono [of 19 "exact_mid f" 120] by (simp add: calculated_positive_def)
  have nn: "calculated_nonnegative ?n" by (rule calculated_nonnegativeI [OF T(7,9,10)]) simp
  have fe: "calculated_nonnegative (total_fees ?fills)"
    by (rule calculated_nonnegativeI [OF T(11) _ T(13)]) (use T(9,12) in auto)
  have sf: "calculated_nonnegative (shortfall c f ?fills)"
    by (rule calculated_nonnegativeI [OF S(2,3,4)]) simp
  have sf0: "?q = 0 \<Longrightarrow> shortfall c f ?fills = 0"
  proof -
    assume "?q = 0"
    then have "?n = 0" using T(7,8) by simp
    with \<open>?q = 0\<close> show ?thesis by (simp add: shortfall_def)
  qed
  have qa: "nonnegative_amount ?q" using T(4,5,6) by (simp add: nonnegative_amount_def)
  have lv: "\<exists>ys. rtraverse validate_level_fill ?fills = Inr ys"
    using W(1) by (intro rtraverse_okI validate_level_fill_ok) (auto simp: fills_ok_def)
  let ?out = "exact_outcome c f arrival ch ph ?fills"
  have fields: "fo_command_id ?out = cmd_command_id c" "fo_command_sha256 ?out = ch"
    "fo_assumptions_sha256 ?out = ph" "fo_frame_sha256 ?out = Some (fingerprint (frame_json f))"
    "fo_status ?out = (if ?q = 0 then NO_FILL else if ?q = cmd_quantity c then FILLED else PARTIAL)"
    "fo_reason ?out = (if ?q = 0 then ''NO_EXECUTABLE_DISPLAYED_CAPACITY'' else ''MODEL_IOC'')"
    "fo_arrival_at_ms ?out = arrival" "fo_requested_quantity ?out = cmd_quantity c"
    "fo_filled_quantity ?out = ?q" "fo_cancelled_quantity ?out = cmd_quantity c - ?q"
    "fo_average_price ?out = (if ?q \<noteq> 0 then Some (dround 96 (?n / ?q)) else None)"
    "fo_notional_quote ?out = ?n" "fo_fee_quote ?out = total_fees ?fills"
    "fo_arrival_mid_price ?out = Some (exact_mid f)"
    "fo_implementation_shortfall_quote ?out = shortfall c f ?fills" "fo_level_fills ?out = ?fills"
    by (simp_all add: exact_outcome_def base_outcome_def Let_def shortfall_def)
  have comm: "dsum 96 (map (\<lambda>x. dmul 96 (lf_quantity x) (lf_execution_price x)) ?fills) = ?n"
    using T(2) by (simp add: dmul_def mult.commute)
  have coh: "coherent_outcome ?out = Inr ()"
    unfolding coherent_outcome_def fields Let_def T(1,3) comm
    using add le T(4) sf0 by (auto simp: ensure_ok_iff ddiv_def)
  show ?thesis
    unfolding validate_outcome_def fields
    using C(2,3) h a qa canc avg nn fe mid sf W(4) lv coh
    by (auto simp: rbind_eq_Inr ensure_ok_iff fields)
qed

section \<open>The next state is valid\<close>

lemma rtraverse_ok_iff:
  fixes f :: "'a \<Rightarrow> unit res"
  shows "(\<exists>ys. rtraverse f xs = Inr ys) \<longleftrightarrow> (\<forall>x \<in> set xs. f x = Inr ())"
  by (induction xs) (auto simp: rbind_eq_Inr)

definition state_fields_ok :: "liquidity_state \<Rightarrow> bool" where
  "state_fields_ok st \<longleftrightarrow> valid_identifier (ls_session_id st) \<and> valid_identifier (ls_tape_id st)
     \<and> valid_identifier (ls_stream_epoch st) \<and> pred_option valid_sha256 (ls_assumptions_sha256 st)
     \<and> valid_timestamp (ls_last_as_of_ms st) \<and> valid_timestamp (ls_last_arrival_at_ms st)
     \<and> 0 \<le> ls_last_frame_sequence st \<and> 0 \<le> ls_last_exchange_update_id st
     \<and> valid_timestamp (ls_last_exchange_at_ms st) \<and> valid_timestamp (ls_last_received_at_ms st)
     \<and> pred_option valid_sha256 (ls_last_frame_sha256 st)
     \<and> pred_option (\<lambda>b. 1 \<le> length b \<and> length b \<le> 100) (ls_barrier_reason st)"

definition state_coherent :: "liquidity_state \<Rightarrow> bool" where
  "state_coherent st \<longleftrightarrow> distinct (map fst (depth_of st)) \<and> distinct (map rc_command_id (ls_receipts st))
     \<and> (ls_last_frame_sequence st = 0) = (ls_last_frame_sha256 st = None)
     \<and> (ls_last_frame_sequence st = 0) = (ls_last_exchange_update_id st = 0)
     \<and> (ls_receipts st \<noteq> [] \<or> ls_consumed_depth st \<noteq> [] \<longrightarrow> ls_assumptions_sha256 st \<noteq> None)
     \<and> ls_last_arrival_at_ms st \<le> ls_last_as_of_ms st
     \<and> sorted (map (fo_arrival_at_ms \<circ> rc_outcome) (ls_receipts st))
     \<and> (ls_receipts st \<noteq> [] \<longrightarrow>
          last (map (fo_arrival_at_ms \<circ> rc_outcome) (ls_receipts st)) = ls_last_arrival_at_ms st)
     \<and> (\<forall>r \<in> set (ls_receipts st). receipt_lineage st r)"

lemma validate_state_iff:
  "validate_state st = Inr () \<longleftrightarrow> state_fields_ok st \<and> length (ls_consumed_depth st) \<le> 102400
     \<and> length (ls_receipts st) \<le> max_commands
     \<and> (\<forall>d \<in> set (ls_consumed_depth st). validate_consumed_depth d = Inr ())
     \<and> (\<forall>r \<in> set (ls_receipts st). validate_receipt r = Inr ()) \<and> state_coherent st"
proof -
  have coh: "coherent_state st = Inr () \<longleftrightarrow> state_coherent st"
    by (simp add: coherent_state_def state_coherent_def Let_def ensure_ok_iff depth_of_def o_def
        list_all_iff not_less) blast
  show ?thesis
    unfolding validate_state_def rbind_eq_Inr coh [symmetric] rtraverse_ok_iff [symmetric]
    by (auto simp: ensure_ok_iff state_fields_ok_def)
qed

lemma kernel_invD:
  assumes "kernel_inv st"
  shows "state_fields_ok st" "state_coherent st" "depth_ok (depth_of st)"
    "length (ls_receipts st) \<le> max_commands"
    "length (ls_consumed_depth st) \<le> 100 * length (ls_receipts st)"
    "\<forall>r \<in> set (ls_receipts st). validate_receipt r = Inr ()"
  using assms by (auto simp: kernel_inv_def validate_state_iff)

lemma depth_ok_validates:
  "depth_ok (depth_of st) \<Longrightarrow> \<forall>d \<in> set (ls_consumed_depth st). validate_consumed_depth d = Inr ()"
proof
  fix d assume d: "depth_ok (depth_of st)" "d \<in> set (ls_consumed_depth st)"
  then have "positive_amount (cd_price d) \<and> positive_amount (cd_quantity d)"
    by (auto simp: depth_ok_def depth_of_def)
  then show "validate_consumed_depth d = Inr ()"
    by (simp add: validate_consumed_depth_def ensure_ok_iff positive_calculated)
qed

lemma kernel_invI:
  assumes "state_fields_ok st" "state_coherent st" "depth_ok (depth_of st)"
    "length (ls_receipts st) \<le> max_commands"
    "length (ls_consumed_depth st) \<le> 100 * length (ls_receipts st)"
    "\<forall>r \<in> set (ls_receipts st). validate_receipt r = Inr ()"
  shows "kernel_inv st"
  using assms depth_ok_validates [OF assms(3)]
  by (auto simp: kernel_inv_def validate_state_iff max_commands_def)

text \<open>An arrived command: what \<open>simulate_ioc\<close> has checked before it evaluates.\<close>

definition ready ::
  "ioc_command \<Rightarrow> accepted_book_frame \<Rightarrow> fill_assumptions \<Rightarrow> liquidity_state \<Rightarrow> int \<Rightarrow> bool" where
  "ready c f pol st as_of \<longleftrightarrow>
     validate_command c = Inr () \<and> validate_frame f = Inr () \<and> pol_ok pol \<and> kernel_inv st
     \<and> valid_timestamp as_of \<and> valid_timestamp (cmd_submitted_at_ms c + as_latency_ms pol)
     \<and> ls_last_as_of_ms st \<le> as_of \<and> find_receipt st (cmd_command_id c) = None
     \<and> length (ls_receipts st) < max_commands
     \<and> ls_last_arrival_at_ms st \<le> cmd_submitted_at_ms c + as_latency_ms pol
     \<and> ls_assumptions_sha256 st \<in> {None, Some (fingerprint (assumptions_json pol))}"

lemma command_refusal_length: "command_refusal c pol arrival = Some r \<Longrightarrow> 1 \<le> length r \<and> length r \<le> 100"
  by (auto simp: command_refusal_def split: if_splits)

lemma frame_issue_length:
  assumes "kernel_inv st" "frame_issue f st arrival pol = Some r"
  shows "1 \<le> length r \<and> length r \<le> 100"
proof (cases "ls_barrier_reason st")
  case None
  then show ?thesis using assms(2)
    by (cases "fr_continuity f") (auto simp: frame_issue_def continuity_text_def split: if_splits)
next
  case (Some b)
  then show ?thesis using assms kernel_invD(1) [OF assms(1)]
    by (auto simp: frame_issue_def state_fields_ok_def)
qed

lemma frame_issue_None:
  assumes "frame_issue f st arrival pol = None"
  shows "ls_barrier_reason st = None" "fr_stream_epoch f = ls_stream_epoch st"
    "fr_continuity f = ADMITTED" "fr_persisted_at_ms f \<le> arrival"
    "arrival - fr_exchange_at_ms f \<le> as_maximum_book_age_ms pol"
    "fr_received_at_ms f - fr_exchange_at_ms f \<le> as_maximum_frame_latency_ms pol"
    "ls_last_frame_sequence st \<le> fr_sequence f"
    "fr_sequence f = ls_last_frame_sequence st \<Longrightarrow>
       Some (fingerprint (frame_json f)) = ls_last_frame_sha256 st"
    "fr_sequence f \<noteq> ls_last_frame_sequence st \<Longrightarrow>
       ls_last_exchange_update_id st < fr_exchange_update_id f"
  using assms by (auto simp: frame_issue_def split: if_splits)

lemma decided_outcome:
  assumes r: "ready c f pol st as_of"
  defines "arrival \<equiv> cmd_submitted_at_ms c + as_latency_ms pol"
  assumes h: "valid_sha256 ch" "valid_sha256 ph"
  shows "validate_outcome (fst (decided c f pol st arrival ch ph st')) = Inr ()"
    and "fo_status (fst (decided c f pol st arrival ch ph st')) \<noteq> WAIT"
    and "fo_command_id (fst (decided c f pol st arrival ch ph st')) = cmd_command_id c"
    and "fo_command_sha256 (fst (decided c f pol st arrival ch ph st')) = ch"
    and "fo_assumptions_sha256 (fst (decided c f pol st arrival ch ph st')) = ph"
    and "fo_arrival_at_ms (fst (decided c f pol st arrival ch ph st')) = arrival"
proof -
  have c: "validate_command c = Inr ()" and f: "validate_frame f = Inr ()" and pol: "pol_ok pol"
    and st: "kernel_inv st" and a: "valid_timestamp arrival"
    using r by (auto simp: ready_def arrival_def)
  show "validate_outcome (fst (decided c f pol st arrival ch ph st')) = Inr ()"
  proof (cases "command_refusal c pol arrival")
    case (Some reason)
    with base_outcome_valid(1) [OF c a h] command_refusal_length [OF Some] show ?thesis
      by (simp add: decided_def)
  next
    case None
    show ?thesis
    proof (cases "frame_issue f st arrival pol")
      case (Some issue)
      with None base_outcome_valid(1) [OF c a h] frame_issue_length [OF st Some] show ?thesis
        by (simp add: decided_def)
    next
      case no: None
      from exact_outcome_valid [OF pol c f st frame_issue_None(3) [OF no] a h] None no show ?thesis
        by (simp add: decided_def)
    qed
  qed
  show "fo_status (fst (decided c f pol st arrival ch ph st')) \<noteq> WAIT"
    "fo_command_id (fst (decided c f pol st arrival ch ph st')) = cmd_command_id c"
    "fo_command_sha256 (fst (decided c f pol st arrival ch ph st')) = ch"
    "fo_assumptions_sha256 (fst (decided c f pol st arrival ch ph st')) = ph"
    "fo_arrival_at_ms (fst (decided c f pol st arrival ch ph st')) = arrival"
    by (auto simp: decided_def base_outcome_def exact_outcome_def Let_def split: option.splits)
qed

text \<open>The part of the next state that the receipt does not touch.\<close>

definition arrived_state ::
  "ioc_command \<Rightarrow> accepted_book_frame \<Rightarrow> fill_assumptions \<Rightarrow> liquidity_state \<Rightarrow> int \<Rightarrow> string \<Rightarrow> string
   \<Rightarrow> fill_outcome \<times> liquidity_state" where
  "arrived_state c f pol st as_of ch ph =
     (let arrival = cmd_submitted_at_ms c + as_latency_ms pol
      in decided c f pol st arrival ch ph
           (st \<lparr> ls_assumptions_sha256 := Some ph, ls_last_as_of_ms := as_of,
                 ls_last_arrival_at_ms := arrival \<rparr>))"

lemma depth_of_walked [simp]:
  "depth_of ((frame_cursor f st') \<lparr> ls_consumed_depth := consumption_of d, ls_receipts := rs \<rparr>) = sort_key fst d"
  "depth_of ((frame_cursor f st') \<lparr> ls_consumed_depth := consumption_of d \<rparr>) = sort_key fst d"
  by (simp_all add: depth_of_def depth_of_consumption)

lemma arrived_state_cases:
  fixes ch ph :: string
  assumes r: "ready c f pol st as_of"
  defines "st' \<equiv> snd (arrived_state c f pol st as_of ch ph)"
  shows "ls_session_id st' = ls_session_id st" "ls_tape_id st' = ls_tape_id st"
    "ls_stream_epoch st' = ls_stream_epoch st" "ls_symbol st' = ls_symbol st"
    "ls_assumptions_sha256 st' = Some ph" "ls_last_as_of_ms st' = as_of"
    "ls_last_arrival_at_ms st' = cmd_submitted_at_ms c + as_latency_ms pol"
    "depth_ok (depth_of st')"
    "length (ls_consumed_depth st') \<le> length (ls_consumed_depth st) + 100"
    "state_fields_ok st \<Longrightarrow> valid_sha256 ph \<Longrightarrow> state_fields_ok st'"
    "(ls_last_frame_sequence st' = 0) = (ls_last_frame_sha256 st' = None)"
    "(ls_last_frame_sequence st' = 0) = (ls_last_exchange_update_id st' = 0)"
proof -
  have c: "validate_command c = Inr ()" and f: "validate_frame f = Inr ()" and pol: "pol_ok pol"
    and st: "kernel_inv st" and a: "valid_timestamp as_of"
    and ar: "valid_timestamp (cmd_submitted_at_ms c + as_latency_ms pol)"
    using r by (auto simp: ready_def)
  note K = kernel_invD [OF st] and F = frame_okD [OF f]
  show "ls_session_id st' = ls_session_id st" "ls_tape_id st' = ls_tape_id st"
    "ls_stream_epoch st' = ls_stream_epoch st" "ls_symbol st' = ls_symbol st"
    "ls_assumptions_sha256 st' = Some ph" "ls_last_as_of_ms st' = as_of"
    "ls_last_arrival_at_ms st' = cmd_submitted_at_ms c + as_latency_ms pol"
    by (auto simp: st'_def arrived_state_def decided_def frame_cursor_def Let_def split: option.splits)
  have same: "depth_of (st \<lparr> ls_assumptions_sha256 := x, ls_last_as_of_ms := y, ls_last_arrival_at_ms := z \<rparr>)
      = depth_of st" "depth_of (st \<lparr> ls_assumptions_sha256 := x, ls_last_as_of_ms := y,
      ls_last_arrival_at_ms := z, ls_barrier_reason := w \<rparr>) = depth_of st" for x y z w
    by (simp_all add: depth_of_def)
  show "depth_ok (depth_of st')"
    using walk_exact(2) [OF pol c f st] K(3)
    by (auto simp: st'_def arrived_state_def decided_def Let_def same depth_ok_sort split: option.splits)
  have "length (snd (walked c f pol st)) \<le> length (ls_consumed_depth st) + 100"
    using walked_fills(3,4) [OF pol c f st]
      length_apply_fills [of "book_side_of c" "depth_of st" "fst (walked c f pol st)"]
    by (simp add: depth_of_def)
  then show "length (ls_consumed_depth st') \<le> length (ls_consumed_depth st) + 100"
    by (auto simp: st'_def arrived_state_def decided_def Let_def consumption_of_def split: option.splits)
  show "(ls_last_frame_sequence st' = 0) = (ls_last_frame_sha256 st' = None)"
    "(ls_last_frame_sequence st' = 0) = (ls_last_exchange_update_id st' = 0)"
    using K(2) F(4,5)
    by (auto simp: st'_def arrived_state_def decided_def frame_cursor_def Let_def state_coherent_def
        split: option.splits)
  assume s: "state_fields_ok st" "valid_sha256 ph"
  show "state_fields_ok st'"
    unfolding st'_def arrived_state_def Let_def decided_def
    using s a ar F(4,5,6,7) frame_issue_length [OF st]
    by (auto simp: state_fields_ok_def frame_cursor_def split: option.splits)
qed

lemma find_receipt_None: "find_receipt st cid = None \<longleftrightarrow> cid \<notin> set (map rc_command_id (ls_receipts st))"
  by (auto simp: find_receipt_def find_None_iff)

lemma last_arrival:
  assumes "state_coherent st" "r \<in> set (ls_receipts st)"
  shows "fo_arrival_at_ms (rc_outcome r) \<le> ls_last_arrival_at_ms st"
proof -
  let ?as = "map (fo_arrival_at_ms \<circ> rc_outcome) (ls_receipts st)"
  have s: "sorted ?as" "ls_receipts st \<noteq> []" "last ?as = ls_last_arrival_at_ms st"
    using assms by (auto simp: state_coherent_def)
  have le: "x \<le> last xs" if "sorted xs" "x \<in> set xs" for x :: int and xs
    using that by (induction xs) (auto split: if_splits)
  show ?thesis using le [OF s(1), of "fo_arrival_at_ms (rc_outcome r)"] assms(2) s(3) by auto
qed

lemma evaluated_inv:
  assumes r: "ready c f pol st as_of" and ph: "ph = fingerprint (assumptions_json pol)" and ch: "valid_sha256 ch"
  shows "kernel_inv (ms_state (evaluated c f pol st as_of ch ph))"
proof (cases "as_of < cmd_submitted_at_ms c + as_latency_ms pol")
  case True
  then show ?thesis using r by (simp add: evaluated_def ready_def)
next
  case False
  let ?arr = "cmd_submitted_at_ms c + as_latency_ms pol"
  let ?out = "fst (arrived_state c f pol st as_of ch ph)"
  let ?st = "snd (arrived_state c f pol st as_of ch ph)"
  let ?rc = "receipt_for c ch ph ?out"
  let ?new = "?st \<lparr> ls_receipts := ls_receipts st @ [?rc] \<rparr>"
  have phv: "valid_sha256 ph" using ph by simp
  have st: "kernel_inv st" using r by (simp add: ready_def)
  have cid: "valid_identifier (cmd_command_id c)"
    using r command_okD(2) [of c] by (auto simp: ready_def)
  note K = kernel_invD [OF st]
  note S = arrived_state_cases [OF r, where ch = ch and ph = ph]
  have O: "validate_outcome ?out = Inr ()" "fo_status ?out \<noteq> WAIT" "fo_command_id ?out = cmd_command_id c"
    "fo_command_sha256 ?out = ch" "fo_assumptions_sha256 ?out = ph" "fo_arrival_at_ms ?out = ?arr"
    unfolding arrived_state_def Let_def using decided_outcome [OF r ch phv] by auto
  have E: "ms_state (evaluated c f pol st as_of ch ph) = ?new"
    using False by (simp add: evaluated_def arrived_state_def Let_def)
  have d: "depth_of ?new = depth_of ?st" by (simp add: depth_of_def)
  have ph_old: "rc_assumptions_sha256 x = ph" if "x \<in> set (ls_receipts st)" for x
    using K(2) that r ph by (auto simp: state_coherent_def receipt_lineage_def ready_def)
  have lin: "receipt_lineage ?new x" if "x \<in> set (ls_receipts st @ [?rc])" for x
    using that K(2) ph_old O S(5) by (auto simp: state_coherent_def receipt_lineage_def receipt_for_def)
  have arr_le: "\<forall>x \<in> set (ls_receipts st). fo_arrival_at_ms (rc_outcome x) \<le> ?arr"
    using last_arrival [OF K(2)] r by (auto simp: ready_def intro: order_trans)
  have coh: "state_coherent ?new"
    unfolding state_coherent_def d
    using K(2) S(5,6,7,8,11,12) lin arr_le O(6) False r
    by (auto simp: state_coherent_def depth_ok_def sorted_append receipt_for_def ready_def
        find_receipt_None o_def)
  have rcv: "validate_receipt ?rc = Inr ()"
    using O(1) ch phv cid by (simp add: validate_receipt_def rbind_eq_Inr ensure_ok_iff receipt_for_def)
  show ?thesis
    unfolding E
  proof (rule kernel_invI)
    show "state_fields_ok ?new" using S(10) [OF K(1) phv] by (simp add: state_fields_ok_def)
    show "state_coherent ?new" by (rule coh)
    show "depth_ok (depth_of ?new)" unfolding d by (rule S(8))
    show "length (ls_receipts ?new) \<le> max_commands" using r by (simp add: ready_def)
    show "length (ls_consumed_depth ?new) \<le> 100 * length (ls_receipts ?new)"
      using S(9) K(5) by simp
    show "\<forall>x \<in> set (ls_receipts ?new). validate_receipt x = Inr ()" using K(6) rcv by simp
  qed
qed

text \<open>The rounded, self-validating evaluation is the reference evaluation.\<close>

lemma evaluate_exact:
  assumes r: "ready c f pol st as_of" and ph: "ph = fingerprint (assumptions_json pol)" and ch: "valid_sha256 ch"
  shows "evaluate c f pol st as_of ch ph = Inr (evaluated c f pol st as_of ch ph)"
proof -
  let ?arr = "cmd_submitted_at_ms c + as_latency_ms pol"
  have c: "validate_command c = Inr ()" and f: "validate_frame f = Inr ()" and pol: "pol_ok pol"
    and st: "kernel_inv st" and a: "valid_timestamp ?arr"
    using r by (auto simp: ready_def)
  have phv: "valid_sha256 ph" using ph by simp
  have V: "validate_state (ms_state (evaluated c f pol st as_of ch ph)) = Inr ()"
    using evaluated_inv [OF r ph ch] by (simp add: kernel_inv_def)
  show ?thesis
  proof (cases "as_of < ?arr")
    case True
    then show ?thesis
      using V base_outcome_valid(2) [OF c a ch phv, of "''NOT_ARRIVED''"]
      by (simp add: evaluate_def evaluated_def make_outcome_def make_step_def Let_def)
  next
    case False
    let ?st' = "st \<lparr> ls_assumptions_sha256 := Some ph, ls_last_as_of_ms := as_of, ls_last_arrival_at_ms := ?arr \<rparr>"
    let ?d = "decided c f pol st ?arr ch ph ?st'"
    have O: "validate_outcome (fst ?d) = Inr ()" by (rule decided_outcome(1) [OF r ch phv])
    have B: "(case command_refusal c pol ?arr of
             Some reason \<Rightarrow>
               rbind (make_outcome (base_outcome c f ?arr ch ph NO_FILL reason)) (\<lambda>out. Inr (out, ?st'))
           | None \<Rightarrow>
               (case frame_issue f st ?arr pol of
                  Some issue \<Rightarrow>
                    rbind (make_outcome (base_outcome c f ?arr ch ph BLOCKED issue))
                      (\<lambda>out. Inr (out, ?st' \<lparr> ls_barrier_reason := Some issue \<rparr>))
                | None \<Rightarrow>
                    rbind (walk c f pol st) (\<lambda>(fills, consumption).
                      rbind (make_outcome (walked_outcome c f ?arr ch ph fills))
                        (\<lambda>out. Inr (out, (frame_cursor f ?st') \<lparr> ls_consumed_depth := consumption \<rparr>)))))
        = Inr ?d"
      using O walk_exact(1) [OF pol c f st] walked_outcome_exact [OF pol c f st, of ?arr ch ph]
        frame_issue_None(3) [of f st ?arr pol]
      by (auto simp: decided_def make_outcome_def split: option.splits)
    have rv: "validate_receipt (receipt_for c ch ph (fst ?d)) = Inr ()"
      using O ch phv command_okD(2) [OF c]
      by (simp add: validate_receipt_def rbind_eq_Inr ensure_ok_iff receipt_for_def)
    have E: "evaluated c f pol st as_of ch ph = \<lparr> ms_outcome = fst ?d,
        ms_state = (snd ?d) \<lparr> ls_receipts := ls_receipts st @ [receipt_for c ch ph (fst ?d)] \<rparr>,
        ms_replayed = False \<rparr>"
      using False by (simp add: evaluated_def Let_def)
    have S: "make_step (fst ?d) ((snd ?d) \<lparr> ls_receipts := ls_receipts st @ [receipt_for c ch ph (fst ?d)] \<rparr>) False
        = Inr (evaluated c f pol st as_of ch ph)"
      using V O unfolding E make_step_def by simp
    show ?thesis
      unfolding evaluate_def Let_def if_not_P [OF False]
      unfolding B
      unfolding rbind_simps
      using S rv by (simp only: case_prod_unfold receipt_for_def rbind_simps)
  qed
qed

end
