(* ===== verification/Sim_Kernel_Props.thy ===== *)
theory Sim_Kernel_Props
  imports Sim_Kernel_Total
begin

text \<open>
  What a caller of \<^verbatim>\<open>simulate_ioc\<close> may rely on. \<open>simulate_ioc_cases\<close> splits every successful call
  into a replay of a stored receipt and an evaluation that equals the exact reference; the
  properties follow by case analysis. \<open>session_steps\<close> is the relation of the states a session can
  reach, with the log of the fills it has granted.
\<close>

section \<open>A successful call is a replay or a reference evaluation\<close>

lemma make_step_eq:
  "make_step out st b = Inr step \<longleftrightarrow> validate_outcome out = Inr () \<and> validate_state st = Inr ()
     \<and> step = \<lparr> ms_outcome = out, ms_state = st, ms_replayed = b \<rparr>"
  by (auto simp: make_step_def rbind_eq_Inr)

lemma evaluate_timestamps:
  assumes e: "evaluate c f pol st as_of ch ph = Inr step"
    and st: "validate_state st = Inr ()" and mono: "ls_last_as_of_ms st \<le> as_of"
  shows "valid_timestamp as_of" "valid_timestamp (cmd_submitted_at_ms c + as_latency_ms pol)"
proof -
  let ?arr = "cmd_submitted_at_ms c + as_latency_ms pol"
  have out: "fo_arrival_at_ms out = ?arr" if "fo_arrival_at_ms out' = ?arr" "make_outcome out' = Inr out" for out out'
    using that by (auto simp: make_outcome_def rbind_eq_Inr)
  have v: "valid_timestamp (fo_arrival_at_ms out)" if "validate_outcome out = Inr ()" for out
    using that by (auto simp: validate_outcome_def rbind_eq_Inr ensure_ok_iff)
  have arr: "fo_arrival_at_ms (ms_outcome step) = ?arr" and vo: "validate_outcome (ms_outcome step) = Inr ()"
    and vs: "validate_state (ms_state step) = Inr ()"
    using e unfolding evaluate_def Let_def
    by (auto simp: make_step_eq make_outcome_def rbind_eq_Inr base_outcome_def walked_outcome_def Let_def
        split: if_splits option.splits)
  show a: "valid_timestamp ?arr" using v [OF vo] arr by simp
  show "valid_timestamp as_of"
  proof (cases "as_of < ?arr")
    case True
    have "0 \<le> ls_last_as_of_ms st" using st by (simp add: validate_state_iff state_fields_ok_def valid_timestamp_def)
    with True mono a show ?thesis by (simp add: valid_timestamp_def)
  next
    case False
    have "ls_last_as_of_ms (ms_state step) = as_of"
      using e False unfolding evaluate_def Let_def
      by (auto simp: make_step_eq rbind_eq_Inr frame_cursor_def split: if_splits option.splits)
    with vs show ?thesis by (simp add: validate_state_iff state_fields_ok_def)
  qed
qed

definition same_session :: "ioc_command \<Rightarrow> accepted_book_frame \<Rightarrow> liquidity_state \<Rightarrow> bool" where
  "same_session c f st \<longleftrightarrow> cmd_session_id c = ls_session_id st \<and> cmd_symbol c = ls_symbol st
     \<and> fr_tape_id f = ls_tape_id st \<and> fr_symbol f = ls_symbol st"

abbreviation command_hash :: "ioc_command \<Rightarrow> string" where
  "command_hash c \<equiv> fingerprint (command_json c)"

abbreviation policy_hash :: "fill_assumptions \<Rightarrow> string" where
  "policy_hash pol \<equiv> fingerprint (assumptions_json pol)"

definition replays :: "ioc_command \<Rightarrow> fill_assumptions \<Rightarrow> liquidity_state \<Rightarrow> command_receipt \<Rightarrow> bool" where
  "replays c pol st r \<longleftrightarrow> find_receipt st (cmd_command_id c) = Some r
     \<and> rc_command_sha256 r = command_hash c \<and> rc_assumptions_sha256 r = policy_hash pol"

lemma simulate_ioc_ready:
  assumes r: "ready c f pol st as_of" and s: "same_session c f st"
  shows "simulate_ioc c f pol st as_of =
    Inr (evaluated c f pol st as_of (command_hash c) (policy_hash pol))"
proof -
  have v: "validate_command c = Inr ()" "validate_frame f = Inr ()" "validate_assumptions pol = Inr ()"
    "validate_state st = Inr ()"
    using r by (auto simp: ready_def pol_ok_def kernel_inv_def)
  have guards: "\<not> as_of < ls_last_as_of_ms st" "\<not> (cmd_session_id c \<noteq> ls_session_id st \<or> cmd_symbol c \<noteq> ls_symbol st)"
    "\<not> (fr_tape_id f \<noteq> ls_tape_id st \<or> fr_symbol f \<noteq> ls_symbol st)"
    "ls_assumptions_sha256 st \<in> {None, Some (policy_hash pol)}"
    "find_receipt st (cmd_command_id c) = None" "length (ls_receipts st) < max_commands"
    "\<not> cmd_submitted_at_ms c + as_latency_ms pol < ls_last_arrival_at_ms st"
    using r s by (auto simp: ready_def same_session_def)
  show ?thesis
    unfolding simulate_ioc_def v rbind_simps Let_def
    using evaluate_exact [OF r refl, of "command_hash c"] guards
    by (simp add: ensure.simps)
qed

lemma simulate_ioc_cases:
  assumes e: "simulate_ioc c f pol st as_of = Inr step" and inv: "kernel_inv st"
  obtains (replay) r where "replays c pol st r" "same_session c f st"
      "step = \<lparr> ms_outcome = rc_outcome r, ms_state = st, ms_replayed = True \<rparr>"
  | (fresh) "ready c f pol st as_of" "same_session c f st"
      "step = evaluated c f pol st as_of (command_hash c) (policy_hash pol)"
proof -
  have v: "validate_command c = Inr ()" "validate_frame f = Inr ()" "pol_ok pol" "validate_state st = Inr ()"
    and m: "ls_last_as_of_ms st \<le> as_of" and s: "same_session c f st"
    and p: "ls_assumptions_sha256 st \<in> {None, Some (policy_hash pol)}"
    using e unfolding simulate_ioc_def Let_def
    by (auto simp: rbind_eq_Inr ensure_ok_iff same_session_def pol_ok_def)
  show ?thesis
  proof (cases "find_receipt st (cmd_command_id c)")
    case (Some r)
    then have "replays c pol st r" "step = \<lparr> ms_outcome = rc_outcome r, ms_state = st, ms_replayed = True \<rparr>"
      using e unfolding simulate_ioc_def Let_def
      by (auto simp: rbind_eq_Inr make_step_eq replays_def split: if_splits)
    with s show ?thesis by (intro that(1))
  next
    case None
    then have n: "length (ls_receipts st) < max_commands"
      "ls_last_arrival_at_ms st \<le> cmd_submitted_at_ms c + as_latency_ms pol"
      and ev: "evaluate c f pol st as_of (command_hash c) (policy_hash pol) = Inr step"
      using e unfolding simulate_ioc_def Let_def
      by (auto simp: rbind_eq_Inr ensure_ok_iff)
    have r: "ready c f pol st as_of"
      using v m p n None inv evaluate_timestamps [OF ev v(4) m] by (auto simp: ready_def)
    show ?thesis
      using that(2) [OF r s] ev evaluate_exact [OF r refl, of "command_hash c"] by simp
  qed
qed

section \<open>What the reference evaluation does\<close>

definition arrival_of :: "ioc_command \<Rightarrow> fill_assumptions \<Rightarrow> int" where
  "arrival_of c pol = cmd_submitted_at_ms c + as_latency_ms pol"

text \<open>The fills of an evaluation, and the condition under which there are any.\<close>

definition fills_of ::
  "ioc_command \<Rightarrow> accepted_book_frame \<Rightarrow> fill_assumptions \<Rightarrow> liquidity_state \<Rightarrow> int \<Rightarrow> level_fill list" where
  "fills_of c f pol st as_of =
     (if arrival_of c pol \<le> as_of \<and> command_refusal c pol (arrival_of c pol) = None
         \<and> frame_issue f st (arrival_of c pol) pol = None
      then fst (walked c f pol st) else [])"

lemma evaluated_fields:
  "ms_replayed (evaluated c f pol st as_of ch ph) = False"
  "fo_level_fills (ms_outcome (evaluated c f pol st as_of ch ph)) = fills_of c f pol st as_of"
  "fo_command_id (ms_outcome (evaluated c f pol st as_of ch ph)) = cmd_command_id c"
  "fo_requested_quantity (ms_outcome (evaluated c f pol st as_of ch ph)) = cmd_quantity c"
  by (auto simp: evaluated_def decided_def base_outcome_def exact_outcome_def fills_of_def arrival_of_def
      Let_def split: option.splits)

lemma evaluated_wait:
  "as_of < arrival_of c pol \<Longrightarrow> ms_state (evaluated c f pol st as_of ch ph) = st"
  by (simp add: evaluated_def arrival_of_def Let_def)

lemma evaluated_receipts:
  "arrival_of c pol \<le> as_of \<Longrightarrow> ls_receipts (ms_state (evaluated c f pol st as_of ch ph)) =
     ls_receipts st @ [receipt_for c ch ph (ms_outcome (evaluated c f pol st as_of ch ph))]"
  by (simp add: evaluated_def arrival_of_def Let_def)

lemma evaluated_barrier:
  "ls_barrier_reason st = Some b \<Longrightarrow> ls_barrier_reason (ms_state (evaluated c f pol st as_of ch ph)) = Some b"
  by (auto simp: evaluated_def decided_def frame_issue_def Let_def split: option.splits)

lemma evaluated_identity:
  "ls_session_id (ms_state (evaluated c f pol st as_of ch ph)) = ls_session_id st"
  "ls_tape_id (ms_state (evaluated c f pol st as_of ch ph)) = ls_tape_id st"
  "ls_stream_epoch (ms_state (evaluated c f pol st as_of ch ph)) = ls_stream_epoch st"
  "ls_symbol (ms_state (evaluated c f pol st as_of ch ph)) = ls_symbol st"
  by (auto simp: evaluated_def decided_def frame_cursor_def Let_def split: option.splits)

lemma depth_of_receipts [simp]: "depth_of (st \<lparr> ls_receipts := rs \<rparr>) = depth_of st"
  "depth_of (st \<lparr> ls_barrier_reason := b \<rparr>) = depth_of st"
  "depth_of (st \<lparr> ls_assumptions_sha256 := x, ls_last_as_of_ms := y, ls_last_arrival_at_ms := z \<rparr>) = depth_of st"
  by (simp_all add: depth_of_def)

text \<open>The debit a step adds is what it fills at that price.\<close>

definition filled_at :: "rat \<Rightarrow> level_fill list \<Rightarrow> rat" where
  "filled_at p fills = sum_list (map lf_quantity (filter (\<lambda>x. lf_book_price x = p) fills))"

lemma filled_at_simps [simp]:
  "filled_at p [] = 0" "filled_at p (xs @ ys) = filled_at p xs + filled_at p ys"
  by (simp_all add: filled_at_def)

lemma debit_at_sort:
  "distinct (map fst d) \<Longrightarrow> debit_at (sort_key fst d) key = debit_at d key"
  by (simp add: debit_at_def map_of_sort_key)

lemma evaluated_debit:
  assumes r: "ready c f pol st as_of"
  shows "debit_at (depth_of (ms_state (evaluated c f pol st as_of ch ph))) (side, p) =
    debit_at (depth_of st) (side, p)
    + (if side = book_side_of c then filled_at p (fills_of c f pol st as_of) else 0)"
proof -
  have c: "validate_command c = Inr ()" and f: "validate_frame f = Inr ()" and pol: "pol_ok pol"
    and st: "kernel_inv st"
    using r by (auto simp: ready_def)
  show ?thesis
  proof (cases "arrival_of c pol \<le> as_of \<and> command_refusal c pol (arrival_of c pol) = None
         \<and> frame_issue f st (arrival_of c pol) pol = None")
    case True
    have "distinct (map fst (snd (walked c f pol st)))"
      using walk_exact(2) [OF pol c f st] by (simp add: depth_ok_def)
    moreover have "depth_of (ms_state (evaluated c f pol st as_of ch ph)) = sort_key fst (snd (walked c f pol st))"
      using True by (simp add: evaluated_def decided_def arrival_of_def Let_def)
    ultimately show ?thesis
      using True walked_fills(3) [OF pol c f st]
      by (simp add: debit_at_sort apply_fills_debit fills_of_def filled_at_def)
  next
    case False
    then have "depth_of (ms_state (evaluated c f pol st as_of ch ph)) = depth_of st"
      by (auto simp: evaluated_def decided_def arrival_of_def Let_def split: option.splits)
    then show ?thesis using False by (auto simp: fills_of_def)
  qed
qed

text \<open>Every fill of an evaluation is a good fill of the taken side of the frame.\<close>

lemma fills_of_good:
  assumes r: "ready c f pol st as_of" and x: "x \<in> set (fills_of c f pol st as_of)"
  shows "good_fill c pol (walk_side c f) (depth_of st) x"
    and "command_refusal c pol (arrival_of c pol) = None" "frame_issue f st (arrival_of c pol) pol = None"
    and "arrival_of c pol \<le> as_of"
    and "distinct (map lf_book_price (fills_of c f pol st as_of))"
    and "\<forall>l \<in> set (walk_side c f). level_ok l"
  using r x walked_fills(2,5) [of pol c f st] frame_okD(1) [of f]
  by (auto simp: fills_of_def ready_def walk_side_def frame_levels_def split: if_splits)

lemma distinct_filled_at:
  assumes "distinct (map lf_book_price xs)" "x \<in> set xs"
  shows "filled_at (lf_book_price x) xs = lf_quantity x"
proof -
  have "filter (\<lambda>y. lf_book_price y = lf_book_price x) xs = [x]"
    using assms
  proof (induction xs)
    case (Cons y xs)
    then show ?case
      by (cases "x = y") (auto simp: filter_empty_conv image_iff)
  qed simp
  then show ?thesis by (simp add: filled_at_def)
qed

section \<open>Sessions\<close>

text \<open>The states a session reaches from its initial state by calls that succeed, with the fills
  granted so far. The assumptions, frames and clocks of the calls are arbitrary.\<close>

definition granted :: "ioc_command \<Rightarrow> model_step \<Rightarrow> (book_side \<times> level_fill) list" where
  "granted c step = (if ms_replayed step then [] else map (Pair (book_side_of c)) (fo_level_fills (ms_outcome step)))"

inductive session :: "liquidity_state \<Rightarrow> (book_side \<times> level_fill) list \<Rightarrow> bool" where
  start: "valid_identifier s \<Longrightarrow> valid_identifier t \<Longrightarrow> valid_identifier e \<Longrightarrow>
    session (initial_liquidity s t e u) []"
| step: "session st lg \<Longrightarrow> simulate_ioc c f pol st as_of = Inr ms \<Longrightarrow>
    session (ms_state ms) (lg @ granted c ms)"

inductive_cases sessionE: "session st lg"

text \<open>The quantity a lg holds at a price of a book side.\<close>

definition logged_at :: "book_side \<Rightarrow> rat \<Rightarrow> (book_side \<times> level_fill) list \<Rightarrow> rat" where
  "logged_at side p lg = filled_at p (map snd (filter (\<lambda>x. fst x = side) lg))"

lemma logged_at_simps [simp]:
  "logged_at side p [] = 0" "logged_at side p (xs @ ys) = logged_at side p xs + logged_at side p ys"
  "logged_at side p (map (Pair side') fills) = (if side = side' then filled_at p fills else 0)"
  by (auto simp: logged_at_def filter_map o_def)

lemma initial_inv:
  "valid_identifier s \<Longrightarrow> valid_identifier t \<Longrightarrow> valid_identifier e \<Longrightarrow>
     kernel_inv (initial_liquidity s t e u)"
  by (rule kernel_invI)
    (simp_all add: initial_liquidity_def state_fields_ok_def state_coherent_def depth_of_def depth_ok_def
      valid_timestamp_def)

lemma simulate_ioc_keeps_inv:
  assumes e: "simulate_ioc c f pol st as_of = Inr ms" and inv: "kernel_inv st"
  shows "kernel_inv (ms_state ms)"
  using e inv by (cases rule: simulate_ioc_cases) (use inv evaluated_inv in auto)

lemma simulate_ioc_debit:
  assumes e: "simulate_ioc c f pol st as_of = Inr ms" and inv: "kernel_inv st"
  shows "debit_at (depth_of (ms_state ms)) (side, p) = debit_at (depth_of st) (side, p) + logged_at side p (granted c ms)"
  using e inv
proof (cases rule: simulate_ioc_cases)
  case (replay r)
  then show ?thesis by (simp add: granted_def)
next
  case fresh
  then show ?thesis
    using evaluated_debit [OF fresh(1), of "command_hash c" "policy_hash pol" side p]
    by (simp add: granted_def evaluated_fields)
qed

lemma session_inv:
  "session st lg \<Longrightarrow> kernel_inv st \<and> (\<forall>side p. debit_at (depth_of st) (side, p) = logged_at side p lg)"
proof (induction rule: session.induct)
  case (start s t e u)
  then show ?case using initial_inv by (simp add: initial_liquidity_def depth_of_def debit_at_def)
next
  case (step st lg c f pol as_of ms)
  then show ?case
    using simulate_ioc_keeps_inv [OF step.hyps(2)] simulate_ioc_debit [OF step.hyps(2)] by simp
qed

end
