(* ===== verification/Sim_Kernel_Theorems.thy ===== *)
theory Sim_Kernel_Theorems
  imports Sim_Kernel_Props
begin

text \<open>
  The properties of \<^verbatim>\<open>simulate_ioc\<close>, each with a witness on one concrete order: a buy of 2 units
  capped at 101 against the asks 1 at 100 and 5 at 101, half of the displayed depth admitted.
  Fingerprints stay symbolic in the witnesses.
\<close>

section \<open>A concrete order\<close>

definition demo_command :: ioc_command where
  "demo_command = \<lparr> cmd_session_id = ''s1'', cmd_command_id = ''c1'', cmd_symbol = BTCUSDT, cmd_side = BUY,
     cmd_quantity = 2, cmd_price_cap = 101, cmd_submitted_at_ms = 1000, cmd_persisted_at_ms = 1001,
     cmd_eligible_at_ms = 1000, cmd_expires_at_ms = 2000 \<rparr>"

definition demo_frame :: accepted_book_frame where
  "demo_frame = \<lparr> fr_tape_id = ''t1'', fr_stream_epoch = ''e1'', fr_symbol = BTCUSDT, fr_sequence = 7,
     fr_exchange_update_id = 70, fr_exchange_at_ms = 1000, fr_received_at_ms = 1002,
     fr_persisted_at_ms = 1005, fr_raw_payload_sha256 = replicate 64 (CHR ''0''), fr_continuity = ADMITTED,
     fr_bids = [\<lparr> bl_price = 99, bl_quantity = 5 \<rparr>],
     fr_asks = [\<lparr> bl_price = 100, bl_quantity = 1 \<rparr>, \<lparr> bl_price = 101, bl_quantity = 5 \<rparr>] \<rparr>"

definition demo_policy :: fill_assumptions where
  "demo_policy = \<lparr> as_latency_ms = 10, as_maximum_book_age_ms = 1000, as_maximum_frame_latency_ms = 500,
     as_depth_participation_fraction = 1 / 2, as_adverse_slippage_bps = 0, as_taker_fee_bps = 5,
     as_price_tick = 1, as_quantity_step = 1 / 2 \<rparr>"

definition demo_state :: liquidity_state where
  "demo_state = initial_liquidity ''s1'' ''t1'' ''e1'' BTCUSDT"

lemma demo_identifiers [simp]: "valid_identifier ''s1''" "valid_identifier ''t1''" "valid_identifier ''e1''"
  "valid_identifier ''c1''"
  by (simp_all add: valid_identifier_def is_alnum_def of_char_of take_bit_eq_mod Let_def)

lemma demo_session: "session demo_state []"
  unfolding demo_state_def by (rule session.start) simp_all

lemma demo_inv: "kernel_inv demo_state"
  using session_inv [OF demo_session] by simp

lemma places_half_18 [simp]: "places 18 (1 / 2)"
  by (simp add: places_def)

lemma demo_valid: "validate_command demo_command = Inr ()" "pol_ok demo_policy"
  by (simp_all add: validate_command_def ensure.simps demo_command_def positive_amount_def valid_timestamp_def
      pol_ok_def validate_assumptions_def demo_policy_def nonnegative_amount_def)

lemma demo_frame_valid: "validate_frame demo_frame = Inr ()"
  by (simp add: validate_frame_def ensure.simps demo_frame_def valid_timestamp_def valid_sha256_def
      is_hex_lower_def validate_book_level_def positive_amount_def strictly_ascending_def
      strictly_descending_def list_all_iff of_char_of take_bit_eq_mod Let_def)

lemma demo_same: "same_session demo_command demo_frame demo_state"
  by (simp add: same_session_def demo_command_def demo_frame_def demo_state_def initial_liquidity_def)

lemma demo_ready: "ready demo_command demo_frame demo_policy demo_state 1020"
  using demo_valid demo_frame_valid demo_inv
  by (simp add: ready_def)
    (simp add: demo_command_def demo_policy_def demo_state_def initial_liquidity_def find_receipt_def
      valid_timestamp_def max_commands_def)

lemma demo_simulated: "simulate_ioc demo_command demo_frame demo_policy demo_state 1020 =
    Inr (evaluated demo_command demo_frame demo_policy demo_state 1020 (command_hash demo_command) (policy_hash demo_policy))"
  by (rule simulate_ioc_ready [OF demo_ready demo_same])

lemma demo_fills: "fills_of demo_command demo_frame demo_policy demo_state 1020 =
    [\<lparr> lf_book_price = 100, lf_execution_price = 100, lf_quantity = 1 / 2, lf_fee_quote = 1 / 40 \<rparr>,
     \<lparr> lf_book_price = 101, lf_execution_price = 101, lf_quantity = 3 / 2, lf_fee_quote = 303 / 4000 \<rparr>]"
  by (simp add: fills_of_def arrival_of_def command_refusal_def frame_issue_def frame_levels_def drem_def
      demo_command_def demo_frame_def demo_policy_def demo_state_def initial_liquidity_def
      walked_def walk_side_def buying_def walk_stops_def exact_price_def direction_def exact_capacity_def
      exact_fill_def depth_of_def debit_at_def Let_def)

section \<open>Totality and reachable states\<close>

text \<open>C10: on validated inputs of the same session, with a fresh command identifier, a clock that
  does not go back and receipt capacity left, \<^verbatim>\<open>simulate_ioc\<close> never raises: none of its own
  validations of the outcome, the receipt or the next state fails, no operation of the 96-digit
  context loses a digit of a quantity, a fill price, a fee or a total, and the step it returns is the one
  computed with exact rational arithmetic. Two quotients may round: the average price, which the reference
  rounds to 96 digits too, and the number of ticks in a price, where the whole number that the code takes
  of it is the exact one.\<close>

theorem simulate_ioc_total:
  assumes "validate_command c = Inr ()" "validate_frame f = Inr ()" "validate_assumptions pol = Inr ()"
    and "kernel_inv st" "same_session c f st"
    and "valid_timestamp as_of" "valid_timestamp (cmd_submitted_at_ms c + as_latency_ms pol)"
    and "ls_last_as_of_ms st \<le> as_of" "find_receipt st (cmd_command_id c) = None"
    and "length (ls_receipts st) < max_commands"
    and "ls_last_arrival_at_ms st \<le> cmd_submitted_at_ms c + as_latency_ms pol"
    and "ls_assumptions_sha256 st \<in> {None, Some (policy_hash pol)}"
  shows "simulate_ioc c f pol st as_of =
    Inr (evaluated c f pol st as_of (command_hash c) (policy_hash pol))"
  by (rule simulate_ioc_ready) (use assms in \<open>simp_all add: ready_def pol_ok_def\<close>)

theorem simulate_ioc_total_witness:
  "simulate_ioc demo_command demo_frame demo_policy demo_state 1020 =
    Inr (evaluated demo_command demo_frame demo_policy demo_state 1020
      (command_hash demo_command) (policy_hash demo_policy))"
  by (rule simulate_ioc_total) (use demo_ready demo_same in \<open>simp_all add: ready_def pol_ok_def\<close>)

definition demo_next :: liquidity_state where
  "demo_next = ms_state (evaluated demo_command demo_frame demo_policy demo_state 1020
     (command_hash demo_command) (policy_hash demo_policy))"

lemma demo_session_next: "\<exists>lg. session demo_next lg"
  unfolding demo_next_def using session.step [OF demo_session demo_simulated] by blast

section \<open>Liquidity\<close>

text \<open>C11: displayed depth is never replenished inside a session. Over all the fills the session has
  granted at a price of a book side, by any sequence of commands and frames, plus those of the step
  that takes from the level, the total is at most the displayed quantity of that level times the
  admitted participation fraction.\<close>

theorem no_replenishment:
  assumes s: "session st lg" and e: "simulate_ioc c f pol st as_of = Inr ms"
    and x: "(side, x) \<in> set (granted c ms)"
  shows "\<exists>l \<in> set (walk_side c f). bl_price l = lf_book_price x \<and>
    logged_at side (bl_price l) (lg @ granted c ms) \<le> bl_quantity l * as_depth_participation_fraction pol"
proof -
  have inv: "kernel_inv st" and deb: "debit_at (depth_of st) (side, p) = logged_at side p lg" for p
    using session_inv [OF s] by auto
  from e inv show ?thesis
  proof (cases rule: simulate_ioc_cases)
    case (replay r)
    then show ?thesis using x by (simp add: granted_def)
  next
    case fresh
    have g: "granted c ms = map (Pair (book_side_of c)) (fills_of c f pol st as_of)"
      using fresh(3) by (simp add: granted_def evaluated_fields)
    then have x': "x \<in> set (fills_of c f pol st as_of)" and side: "side = book_side_of c" using x by auto
    obtain l where l: "l \<in> set (walk_side c f)" "x = exact_fill c pol l (lf_quantity x)"
        "debit_at (depth_of st) (book_side_of c, bl_price l) + lf_quantity x
           \<le> bl_quantity l * as_depth_participation_fraction pol"
      using fills_of_good(1) [OF fresh(1) x'] unfolding good_fill_def by blast
    have p: "bl_price l = lf_book_price x" by (subst l(2), simp add: exact_fill_def)
    have "filled_at (bl_price l) (fills_of c f pol st as_of) = lf_quantity x"
      unfolding p by (rule distinct_filled_at [OF fills_of_good(5) [OF fresh(1) x'] x'])
    then show ?thesis using l(1,3) p deb side by (auto simp: g intro!: bexI [of _ l])
  qed
qed

lemma demo_granted: "granted demo_command (evaluated demo_command demo_frame demo_policy demo_state 1020 ch ph) =
  [(ASK, \<lparr> lf_book_price = 100, lf_execution_price = 100, lf_quantity = 1 / 2, lf_fee_quote = 1 / 40 \<rparr>),
   (ASK, \<lparr> lf_book_price = 101, lf_execution_price = 101, lf_quantity = 3 / 2, lf_fee_quote = 303 / 4000 \<rparr>)]"
  by (simp add: granted_def evaluated_fields demo_fills) (simp add: book_side_of_def buying_def demo_command_def)

theorem no_replenishment_witness:
  "\<exists>l \<in> set (fr_asks demo_frame). bl_price l = 101 \<and> 3 / 2 \<le> bl_quantity l * (1 / 2)"
  using no_replenishment [OF demo_session demo_simulated, of ASK
      "\<lparr> lf_book_price = 101, lf_execution_price = 101, lf_quantity = 3 / 2, lf_fee_quote = 303 / 4000 \<rparr>"]
  unfolding demo_granted
  by (simp add: logged_at_def filled_at_def walk_side_def buying_def demo_command_def demo_policy_def demo_frame_def)

section \<open>What a session records\<close>

text \<open>The state after a terminal command: one receipt more, with the content of the command, the policy and
  the outcome; the clocks at this evaluation; the issue of a blocked command as the barrier; and the frame
  cursor on the frame whose depth was walked, else where it was.\<close>

definition step_recorded :: "ioc_command \<Rightarrow> accepted_book_frame \<Rightarrow> fill_assumptions \<Rightarrow> int \<Rightarrow> fill_outcome
    \<Rightarrow> liquidity_state \<Rightarrow> liquidity_state \<Rightarrow> bool" where
  "step_recorded c f pol as_of out st st' \<longleftrightarrow>
     ls_receipts st' = ls_receipts st @ [\<lparr> rc_command_id = cmd_command_id c, rc_command_sha256 = command_hash c,
         rc_assumptions_sha256 = policy_hash pol, rc_outcome = out \<rparr>]
   \<and> ls_session_id st' = ls_session_id st \<and> ls_tape_id st' = ls_tape_id st
   \<and> ls_stream_epoch st' = ls_stream_epoch st \<and> ls_symbol st' = ls_symbol st
   \<and> ls_assumptions_sha256 st' = Some (policy_hash pol)
   \<and> ls_last_as_of_ms st' = as_of \<and> ls_last_arrival_at_ms st' = cmd_submitted_at_ms c + as_latency_ms pol
   \<and> ls_barrier_reason st' = (if fo_status out = BLOCKED then Some (fo_reason out) else ls_barrier_reason st)
   \<and> (if fo_arrival_mid_price out = None
      then ls_last_frame_sequence st' = ls_last_frame_sequence st \<and> ls_last_frame_sha256 st' = ls_last_frame_sha256 st
         \<and> ls_last_exchange_update_id st' = ls_last_exchange_update_id st
         \<and> ls_last_exchange_at_ms st' = ls_last_exchange_at_ms st \<and> ls_last_received_at_ms st' = ls_last_received_at_ms st
      else ls_last_frame_sequence st' = fr_sequence f \<and> ls_last_frame_sha256 st' = Some (fingerprint (frame_json f))
         \<and> ls_last_exchange_update_id st' = fr_exchange_update_id f
         \<and> ls_last_exchange_at_ms st' = fr_exchange_at_ms f \<and> ls_last_received_at_ms st' = fr_received_at_ms f)"

lemma evaluated_recorded:
  "arrival_of c pol \<le> as_of \<Longrightarrow> step_recorded c f pol as_of (ms_outcome (evaluated c f pol st as_of (command_hash c) (policy_hash pol)))
     st (ms_state (evaluated c f pol st as_of (command_hash c) (policy_hash pol)))"
  by (auto simp: step_recorded_def evaluated_def decided_def arrival_of_def receipt_for_def base_outcome_def exact_outcome_def
      frame_cursor_def Let_def split: option.splits)

text \<open>C30: a session forgets nothing. After any sequence of successful calls and one more, the state is valid
  again, and the quantity it holds as consumed at every price of a book side is exactly what the fills
  granted in the session, those of this call included, took there. A call for a stored or not yet arrived
  command leaves the state as it was; every other call appends exactly its own receipt and moves the clocks,
  the barrier and the frame cursor as its outcome says.\<close>

theorem session_states_recorded:
  assumes s: "session st lg" and e: "simulate_ioc c f pol st as_of = Inr ms"
  shows "kernel_inv (ms_state ms)
    \<and> debit_at (depth_of (ms_state ms)) (side, p) = logged_at side p lg + logged_at side p (granted c ms)
    \<and> (if find_receipt st (cmd_command_id c) \<noteq> None \<or> as_of < cmd_submitted_at_ms c + as_latency_ms pol
       then ms_state ms = st else step_recorded c f pol as_of (ms_outcome ms) st (ms_state ms))"
proof -
  have inv: "kernel_inv st" using session_inv [OF s] by simp
  have "ms_state ms = st" if "find_receipt st (cmd_command_id c) \<noteq> None \<or> as_of < arrival_of c pol"
    using e inv
  proof (cases rule: simulate_ioc_cases)
    case fresh
    then show ?thesis using that evaluated_wait by (auto simp: ready_def)
  qed simp
  moreover have "step_recorded c f pol as_of (ms_outcome ms) st (ms_state ms)"
    if "find_receipt st (cmd_command_id c) = None" "arrival_of c pol \<le> as_of"
    using e inv
  proof (cases rule: simulate_ioc_cases)
    case fresh
    then show ?thesis using evaluated_recorded [OF that(2)] by simp
  qed (use that in \<open>simp add: replays_def\<close>)
  ultimately show ?thesis
    using session_inv [OF session.step [OF s e]] by (simp add: arrival_of_def)
qed

theorem session_states_recorded_witness:
  "debit_at (depth_of demo_next) (ASK, 101) = 3 / 2 \<and> map rc_command_id (ls_receipts demo_next) = [''c1'']
   \<and> ls_last_frame_sequence demo_next = 7 \<and> ls_last_arrival_at_ms demo_next = 1010"
proof -
  let ?ms = "evaluated demo_command demo_frame demo_policy demo_state 1020 (command_hash demo_command) (policy_hash demo_policy)"
  have "find_receipt demo_state (cmd_command_id demo_command) = None"
    by (simp add: find_receipt_def demo_state_def initial_liquidity_def)
  moreover have "fo_arrival_mid_price (ms_outcome ?ms) \<noteq> None"
    by (simp add: evaluated_def decided_def command_refusal_def frame_issue_def frame_levels_def drem_def exact_outcome_def
        demo_command_def demo_frame_def demo_policy_def demo_state_def initial_liquidity_def Let_def)
  moreover have "cmd_submitted_at_ms demo_command + as_latency_ms demo_policy = 1010" "cmd_command_id demo_command = ''c1''"
      "fr_sequence demo_frame = 7" "ls_receipts demo_state = []"
    by (simp_all add: demo_command_def demo_policy_def demo_frame_def demo_state_def initial_liquidity_def)
  ultimately show ?thesis
    using session_states_recorded [OF demo_session demo_simulated, of ASK 101]
    by (simp add: demo_next_def step_recorded_def demo_granted logged_at_def filled_at_def)
qed

text \<open>C15: every fill of an evaluation names a displayed level of the opposite side, executes at a
  whole number of ticks that is at least as bad for the taker as the displayed price and not beyond
  the cap of the command, takes a positive quantity and pays the assumed fee on its notional.\<close>

theorem fill_prices:
  assumes inv: "kernel_inv st" and e: "simulate_ioc c f pol st as_of = Inr ms"
    and new: "\<not> ms_replayed ms" and x: "x \<in> set (fo_level_fills (ms_outcome ms))"
  shows "(\<exists>l \<in> set (walk_side c f). bl_price l = lf_book_price x)
    \<and> (\<exists>n. lf_execution_price x = of_int n * as_price_tick pol)
    \<and> 0 < lf_execution_price x \<and> 0 < lf_quantity x
    \<and> (if buying c then lf_book_price x \<le> lf_execution_price x \<and> lf_execution_price x \<le> cmd_price_cap c
       else lf_execution_price x \<le> lf_book_price x \<and> cmd_price_cap c \<le> lf_execution_price x)
    \<and> lf_fee_quote x = lf_quantity x * lf_execution_price x * as_taker_fee_bps pol / 10000"
  using e inv
proof (cases rule: simulate_ioc_cases)
  case (replay r)
  then show ?thesis using new by simp
next
  case fresh
  have x': "x \<in> set (fills_of c f pol st as_of)" using x fresh(3) by (simp add: evaluated_fields)
  have pol: "pol_ok pol" using fresh(1) by (simp add: ready_def)
  obtain l where l: "l \<in> set (walk_side c f)" "x = exact_fill c pol l (lf_quantity x)"
      "\<not> walk_stops c (exact_price c pol l)" "positive_amount (lf_quantity x)"
    using fills_of_good(1) [OF fresh(1) x'] unfolding good_fill_def by blast
  have lo: "level_ok l" using fills_of_good(6) [OF fresh(1) x'] l(1) by blast
  have p: "lf_book_price x = bl_price l" "lf_execution_price x = exact_price c pol l"
      "lf_fee_quote x = lf_quantity x * exact_price c pol l * as_taker_fee_bps pol / 10000"
    by (subst l(2), simp add: exact_fill_def)+
  have q: "0 < lf_quantity x" using l(4) by (simp add: positive_amount_def)
  have tick: "\<exists>n. lf_execution_price x = of_int n * as_price_tick pol"
    unfolding p by (rule exact_price_tick)
  show ?thesis
    using l(1,3) p q tick exact_price_adverse [OF pol lo, of c]
    by (auto simp: walk_stops_def not_le not_less)
qed

theorem fill_prices_witness:
  "\<exists>x \<in> set (fo_level_fills (ms_outcome (evaluated demo_command demo_frame demo_policy demo_state 1020
       (command_hash demo_command) (policy_hash demo_policy)))).
     lf_quantity x = 3 / 2 \<and> lf_execution_price x \<le> 101 \<and> lf_fee_quote x = 303 / 4000"
  using fill_prices [OF demo_inv demo_simulated, of
      "\<lparr> lf_book_price = 101, lf_execution_price = 101, lf_quantity = 3 / 2, lf_fee_quote = 303 / 4000 \<rparr>"]
  by (simp add: evaluated_fields demo_fills)

section \<open>Outcomes\<close>

text \<open>A sum of at most 100 amounts is exact in the 96-digit context.\<close>

lemma dsum_amounts:
  assumes "\<forall>x \<in> set xs. positive_amount x" "length xs \<le> 100"
  shows "dsum 96 xs = sum_list xs"
proof -
  have "sum_list xs \<le> sum_list (map (\<lambda>_. 10 ^ 18) xs)"
    using sum_list_mono [of xs "\<lambda>x. x" "\<lambda>_. 10 ^ 18"] assms(1) by (simp add: positive_amount_def)
  also have "\<dots> \<le> 10 ^ 20" using assms(2) by (simp add: sum_list_triv)
  finally show ?thesis
    using foldl_dadd_exact [of xs 18 0 20] assms(1)
    by (simp add: dsum_def positive_amount_def less_imp_le)
qed

lemma outcome_totals:
  assumes "validate_outcome out = Inr ()"
  shows "sum_list (map lf_quantity (fo_level_fills out)) = fo_filled_quantity out"
    and "fo_status out \<noteq> WAIT \<Longrightarrow> fo_filled_quantity out + fo_cancelled_quantity out = fo_requested_quantity out"
    and "fo_status out = FILLED \<Longrightarrow> fo_filled_quantity out = fo_requested_quantity out"
    and "fo_status out = PARTIAL \<Longrightarrow> 0 < fo_filled_quantity out \<and> fo_filled_quantity out < fo_requested_quantity out"
    and "fo_status out \<in> {WAIT, NO_FILL, BLOCKED} \<Longrightarrow> fo_level_fills out = []"
proof -
  let ?qs = "map lf_quantity (fo_level_fills out)"
  have a: "nonnegative_amount (fo_filled_quantity out)" "nonnegative_amount (fo_cancelled_quantity out)"
    and len: "length (fo_level_fills out) \<le> 100"
    and lf: "\<forall>x \<in> set (fo_level_fills out). validate_level_fill x = Inr ()"
    and co: "coherent_outcome out = Inr ()"
    using assms rtraverse_ok_iff [of validate_level_fill "fo_level_fills out"]
    by (auto simp: validate_outcome_def rbind_eq_Inr ensure_ok_iff)
  have pos: "\<forall>x \<in> set (fo_level_fills out). positive_amount (lf_quantity x)"
    using lf by (auto simp: validate_level_fill_def ensure_ok_iff)
  have q: "dsum 96 ?qs = sum_list ?qs" by (rule dsum_amounts) (use pos len in auto)
  show s: "sum_list ?qs = fo_filled_quantity out"
    using co q by (simp add: coherent_outcome_def ensure_ok_iff Let_def)
  have ex: "dadd 96 (fo_filled_quantity out) (fo_cancelled_quantity out)
      = fo_filled_quantity out + fo_cancelled_quantity out"
    unfolding dadd_def
    by (rule d96_exact [where j = 19, OF places_add]) (use a in \<open>auto simp: nonnegative_amount_def\<close>)
  show "fo_status out \<noteq> WAIT \<Longrightarrow> fo_filled_quantity out + fo_cancelled_quantity out = fo_requested_quantity out"
    "fo_status out = FILLED \<Longrightarrow> fo_filled_quantity out = fo_requested_quantity out"
    "fo_status out = PARTIAL \<Longrightarrow> 0 < fo_filled_quantity out \<and> fo_filled_quantity out < fo_requested_quantity out"
    using co q s ex by (auto simp: coherent_outcome_def ensure_ok_iff Let_def)
  show "fo_level_fills out = []" if "fo_status out \<in> {WAIT, NO_FILL, BLOCKED}"
  proof (rule ccontr)
    assume ne: "fo_level_fills out \<noteq> []"
    have "sum_list ?qs = 0"
      using co that unfolding coherent_outcome_def ensure_ok_iff Let_def q by auto
    moreover have "0 < sum_list ?qs"
    proof -
      obtain x xs where xs: "fo_level_fills out = x # xs" using ne by (cases "fo_level_fills out") auto
      have "0 \<le> sum_list (map lf_quantity xs)"
        using pos xs by (intro sum_list_nonneg) (auto simp: positive_amount_def)
      then show ?thesis using pos xs by (auto simp: positive_amount_def intro: add_pos_nonneg)
    qed
    ultimately show False by simp
  qed
qed

lemma outcome_valid:
  assumes e: "simulate_ioc c f pol st as_of = Inr ms"
  shows "validate_outcome (ms_outcome ms) = Inr ()"
  using e unfolding simulate_ioc_def evaluate_def Let_def
  by (auto simp: rbind_eq_Inr make_step_eq split: option.splits if_splits)

text \<open>C29: quantity is conserved. Whatever the state, the fills of the outcome of a successful call
  add up exactly to the filled quantity; unless the command has not arrived yet, filled and cancelled
  quantity add up exactly to the requested one; the status says whether all, a part or nothing was
  filled, and a status without fill has an empty list of fills.\<close>

theorem quantity_conserved:
  assumes "simulate_ioc c f pol st as_of = Inr ms"
  defines "out \<equiv> ms_outcome ms"
  shows "sum_list (map lf_quantity (fo_level_fills out)) = fo_filled_quantity out
    \<and> (if fo_status out = WAIT then fo_level_fills out = []
       else fo_filled_quantity out + fo_cancelled_quantity out = fo_requested_quantity out)
    \<and> (case fo_status out of
         FILLED \<Rightarrow> fo_filled_quantity out = fo_requested_quantity out
       | PARTIAL \<Rightarrow> 0 < fo_filled_quantity out \<and> fo_filled_quantity out < fo_requested_quantity out
       | _ \<Rightarrow> fo_level_fills out = [])"
  using outcome_totals [OF outcome_valid [OF assms(1)]]
  by (auto simp: out_def split: fill_status.splits)

theorem quantity_conserved_witness:
  "fo_filled_quantity (ms_outcome (evaluated demo_command demo_frame demo_policy demo_state 1020
       (command_hash demo_command) (policy_hash demo_policy))) = 2"
  using quantity_conserved [OF demo_simulated] by (simp add: evaluated_fields demo_fills)

text \<open>the implementation shortfall of a fresh outcome with fills is the direction of the order
  times the difference between the notional paid and the notional at the arrival mid price, computed
  exactly, and it is never negative: the simulator never grants price improvement.\<close>

theorem shortfall_nonnegative:
  assumes inv: "kernel_inv st" and e: "simulate_ioc c f pol st as_of = Inr ms"
    and new: "\<not> ms_replayed ms" and ne: "fo_level_fills (ms_outcome ms) \<noteq> []"
  shows "fo_arrival_mid_price (ms_outcome ms) = Some (exact_mid f)
    \<and> fo_implementation_shortfall_quote (ms_outcome ms) =
        direction c * (\<Sum>x \<leftarrow> fo_level_fills (ms_outcome ms). lf_quantity x * (lf_execution_price x - exact_mid f))
    \<and> 0 \<le> fo_implementation_shortfall_quote (ms_outcome ms)"
  using e inv
proof (cases rule: simulate_ioc_cases)
  case (replay r)
  then show ?thesis using new by simp
next
  case fresh
  let ?fills = "fills_of c f pol st as_of"
  have fo: "fo_level_fills (ms_outcome ms) = ?fills" using fresh(3) by (simp add: evaluated_fields)
  then obtain x where x: "x \<in> set ?fills" using ne by (cases ?fills) auto
  note G = fills_of_good(2-4) [OF fresh(1) x]
  have c: "validate_command c = Inr ()" and f: "validate_frame f = Inr ()" and pol: "pol_ok pol"
    using fresh(1) by (auto simp: ready_def)
  have ad: "fr_continuity f = ADMITTED" using frame_issue_None(3) [OF G(2)] .
  have w: "?fills = fst (walked c f pol st)" using G by (simp add: fills_of_def)
  have out: "ms_outcome ms = exact_outcome c f (arrival_of c pol) (command_hash c) (policy_hash pol) ?fills"
    using G w fresh(3) by (simp add: evaluated_def decided_def arrival_of_def Let_def)
  have sh: "fo_implementation_shortfall_quote (ms_outcome ms) = shortfall c f ?fills"
    and mid: "fo_arrival_mid_price (ms_outcome ms) = Some (exact_mid f)"
    by (simp_all add: out exact_outcome_def Let_def shortfall_def)
  have nn: "0 \<le> shortfall c f ?fills"
    using shortfall_props(2) [OF walked_fills(1) [OF pol c f inv] command_okD(3) [OF c] f ad]
      walked_adverse [OF pol c f inv ad] unfolding w by blast
  have "shortfall c f fs = direction c * (\<Sum>x \<leftarrow> fs. lf_quantity x * (lf_execution_price x - exact_mid f))" for fs
    by (induction fs) (auto simp: shortfall_def total_notional_def total_quantity_def algebra_simps)
  then show ?thesis using sh mid nn fo by simp
qed

theorem shortfall_nonnegative_witness:
  "fo_implementation_shortfall_quote (ms_outcome (evaluated demo_command demo_frame demo_policy demo_state 1020
       (command_hash demo_command) (policy_hash demo_policy))) = 5 / 2"
  using shortfall_nonnegative [OF demo_inv demo_simulated]
  by (simp add: evaluated_fields demo_fills)
    (simp add: exact_mid_def demo_frame_def direction_def buying_def demo_command_def)

section \<open>Causality and barriers\<close>

text \<open>C16: a fill is causal. When a fresh outcome has fills, the order and the frame were durable
  before the arrival instant, the arrival instant has passed, the frame was admitted, belongs to the
  stream epoch of the session, is not older than the assumed book age and does not go back behind
  the cursor; the command was eligible when submitted and not expired; no barrier was raised.\<close>

theorem fills_are_causal:
  assumes inv: "kernel_inv st" and e: "simulate_ioc c f pol st as_of = Inr ms"
    and new: "\<not> ms_replayed ms" and ne: "fo_level_fills (ms_outcome ms) \<noteq> []"
  shows "cmd_persisted_at_ms c \<le> arrival_of c pol \<and> fr_persisted_at_ms f \<le> arrival_of c pol
    \<and> arrival_of c pol \<le> as_of
    \<and> cmd_eligible_at_ms c \<le> cmd_submitted_at_ms c \<and> arrival_of c pol \<le> cmd_expires_at_ms c
    \<and> fr_continuity f = ADMITTED \<and> fr_stream_epoch f = ls_stream_epoch st
    \<and> arrival_of c pol - fr_exchange_at_ms f \<le> as_maximum_book_age_ms pol
    \<and> fr_received_at_ms f - fr_exchange_at_ms f \<le> as_maximum_frame_latency_ms pol
    \<and> ls_last_frame_sequence st \<le> fr_sequence f \<and> ls_barrier_reason st = None
    \<and> ls_last_frame_sequence (ms_state ms) = fr_sequence f"
  using e inv
proof (cases rule: simulate_ioc_cases)
  case (replay r)
  then show ?thesis using new by simp
next
  case fresh
  let ?fills = "fills_of c f pol st as_of"
  have "?fills \<noteq> []" using ne fresh(3) by (simp add: evaluated_fields)
  then obtain x where x: "x \<in> set ?fills" by (cases ?fills) auto
  note G = fills_of_good(2-4) [OF fresh(1) x]
  have C: "cmd_persisted_at_ms c \<le> arrival_of c pol" "cmd_eligible_at_ms c \<le> cmd_submitted_at_ms c"
    "arrival_of c pol \<le> cmd_expires_at_ms c"
    using G(1) by (auto simp: command_refusal_def split: if_splits)
  have "ls_last_frame_sequence (ms_state ms) = fr_sequence f"
    using G fresh(3) by (simp add: evaluated_def decided_def arrival_of_def frame_cursor_def Let_def)
  with C G(3) frame_issue_None(1-7) [OF G(2)] show ?thesis by simp
qed

theorem fills_are_causal_witness:
  "fr_persisted_at_ms demo_frame \<le> arrival_of demo_command demo_policy
    \<and> ls_last_frame_sequence demo_next = 7"
  using fills_are_causal [OF demo_inv demo_simulated]
  by (simp add: evaluated_fields demo_fills demo_next_def) (simp add: demo_frame_def)

text \<open>C31: a barrier is final. Once a session carries a barrier reason, no successful call fills
  anything that was not filled before, and the reason stays in the state.\<close>

theorem barrier_is_final:
  assumes inv: "kernel_inv st" and b: "ls_barrier_reason st = Some b"
    and e: "simulate_ioc c f pol st as_of = Inr ms"
  shows "ls_barrier_reason (ms_state ms) = Some b \<and> granted c ms = [] \<and> depth_of (ms_state ms) = depth_of st"
  using e inv
proof (cases rule: simulate_ioc_cases)
  case (replay r)
  then show ?thesis using b by (simp add: granted_def)
next
  case fresh
  have i: "frame_issue f st a pol = Some b" for a using b by (simp add: frame_issue_def)
  have "granted c ms = []" using fresh(3) i by (simp add: granted_def evaluated_fields fills_of_def)
  moreover have "ls_barrier_reason (ms_state ms) = Some b" using fresh(3) evaluated_barrier [OF b] by simp
  moreover have "depth_of (ms_state ms) = depth_of st"
    using fresh(3) i by (auto simp: evaluated_def decided_def Let_def split: option.splits)
  ultimately show ?thesis by blast
qed

definition demo_blocked :: liquidity_state where
  "demo_blocked = demo_state \<lparr> ls_barrier_reason := Some ''STALE_BOOK'' \<rparr>"

lemma demo_blocked_ready: "ready demo_command demo_frame demo_policy demo_blocked 1020"
  and demo_blocked_same: "same_session demo_command demo_frame demo_blocked"
proof -
  have "kernel_inv demo_blocked"
    using kernel_invD [OF demo_inv] unfolding demo_blocked_def
    by (intro kernel_invI) (auto simp: state_fields_ok_def state_coherent_def receipt_lineage_def)
  then show "ready demo_command demo_frame demo_policy demo_blocked 1020"
    using demo_ready by (simp add: ready_def demo_blocked_def find_receipt_def)
  show "same_session demo_command demo_frame demo_blocked"
    using demo_same by (simp add: same_session_def demo_blocked_def)
qed

theorem barrier_is_final_witness:
  "ls_barrier_reason (ms_state (evaluated demo_command demo_frame demo_policy demo_blocked 1020
     (command_hash demo_command) (policy_hash demo_policy))) = Some ''STALE_BOOK''"
  using barrier_is_final [OF _ _ simulate_ioc_ready [OF demo_blocked_ready demo_blocked_same], of "''STALE_BOOK''"]
    demo_blocked_ready by (simp add: ready_def) (simp add: demo_blocked_def)

section \<open>Idempotency\<close>

lemma find_append: "find P xs = None \<Longrightarrow> P x \<Longrightarrow> find P (xs @ [x]) = Some x"
  by (induction xs) (auto split: if_splits)

lemma find_receipt_append:
  "find_receipt st cid = None \<Longrightarrow> rc_command_id r = cid \<Longrightarrow>
     find_receipt (st' \<lparr> ls_receipts := ls_receipts st @ [r] \<rparr>) cid = Some r"
  by (simp add: find_receipt_def find_append)

lemma simulate_ioc_replay:
  assumes r: "replays c pol st r" and inv: "kernel_inv st"
    and v: "validate_command c = Inr ()" "validate_frame f = Inr ()" "pol_ok pol"
    and s: "same_session c f st" and m: "ls_last_as_of_ms st \<le> as_of"
  shows "simulate_ioc c f pol st as_of =
    Inr \<lparr> ms_outcome = rc_outcome r, ms_state = st, ms_replayed = True \<rparr>"
proof -
  have rin: "r \<in> set (ls_receipts st)"
    using r find_Some_iff [of "\<lambda>r. rc_command_id r = cmd_command_id c" "ls_receipts st" r]
    unfolding replays_def find_receipt_def by auto
  then have "receipt_lineage st r" using kernel_invD(2) [OF inv] by (auto simp: state_coherent_def)
  then have a: "ls_assumptions_sha256 st = Some (policy_hash pol)"
    using r by (auto simp: receipt_lineage_def replays_def)
  have vo: "validate_outcome (rc_outcome r) = Inr ()"
    using kernel_invD(6) [OF inv] rin by (auto simp: validate_receipt_def rbind_eq_Inr)
  have vs: "validate_state st = Inr ()" using inv by (simp add: kernel_inv_def)
  have va: "validate_assumptions pol = Inr ()" using v(3) by (simp add: pol_ok_def)
  show ?thesis
    unfolding simulate_ioc_def v(1,2) va vs rbind_simps Let_def
    using r s m a vo vs by (simp add: replays_def same_session_def ensure.simps make_step_def)
qed

text \<open>C12: exactly-once. After a command got a terminal outcome, sending the same command again, with
  any later clock and any valid frame of the tape, returns the stored outcome, marked as replayed,
  and leaves the state as it is; nothing is filled twice.\<close>

theorem replay_is_idempotent:
  assumes inv: "kernel_inv st" and e: "simulate_ioc c f pol st as_of = Inr ms"
    and terminal: "fo_status (ms_outcome ms) \<noteq> WAIT"
    and f': "validate_frame f' = Inr ()" "same_session c f' st" and later: "as_of \<le> as_of'"
  shows "simulate_ioc c f' pol (ms_state ms) as_of' =
    Inr \<lparr> ms_outcome = ms_outcome ms, ms_state = ms_state ms, ms_replayed = True \<rparr>"
proof -
  have v: "validate_command c = Inr ()" "pol_ok pol" "ls_last_as_of_ms st \<le> as_of"
    using e unfolding simulate_ioc_def by (auto simp: rbind_eq_Inr pol_ok_def ensure_ok_iff)
  from e inv show ?thesis
  proof (cases rule: simulate_ioc_cases)
    case (replay r)
    then show ?thesis
      using simulate_ioc_replay [OF replay(1) inv v(1) f'(1) v(2) f'(2)] v(3) later by simp
  next
    case fresh
    let ?r = "receipt_for c (command_hash c) (policy_hash pol) (ms_outcome ms)"
    have arr: "arrival_of c pol \<le> as_of"
      using terminal fresh(3) by (auto simp: evaluated_def arrival_of_def base_outcome_def Let_def split: if_splits)
    have "replays c pol (ms_state ms) ?r"
    proof -
      have "find_receipt st (cmd_command_id c) = None" using fresh(1) by (simp add: ready_def)
      from find_receipt_append [OF this, of ?r] evaluated_receipts [OF arr, of f st "command_hash c" "policy_hash pol"]
      have "find_receipt (ms_state ms) (cmd_command_id c) = Some ?r"
        using fresh(3) by (simp add: receipt_for_def find_receipt_def)
      then show ?thesis by (simp add: replays_def receipt_for_def)
    qed
    moreover have "ls_last_as_of_ms (ms_state ms) = as_of"
      using fresh(3) arr
      by (auto simp: evaluated_def decided_def arrival_of_def frame_cursor_def Let_def split: option.splits)
    moreover have "same_session c f' (ms_state ms)"
      using f'(2) fresh(3) by (simp add: same_session_def evaluated_identity)
    ultimately show ?thesis
      using simulate_ioc_replay [OF _ simulate_ioc_keeps_inv [OF e inv] v(1) f'(1) v(2)] later
      by (simp add: receipt_for_def)
  qed
qed

theorem replay_is_idempotent_witness:
  "\<exists>ms. simulate_ioc demo_command demo_frame demo_policy demo_next 5000 = Inr ms \<and> ms_replayed ms
     \<and> ms_state ms = demo_next"
proof -
  have "fo_status (ms_outcome (evaluated demo_command demo_frame demo_policy demo_state 1020 ch ph)) \<noteq> WAIT" for ch ph
    by (auto simp: evaluated_def decided_def base_outcome_def exact_outcome_def Let_def demo_command_def
        demo_policy_def split: option.splits)
  from replay_is_idempotent [OF demo_inv demo_simulated this demo_frame_valid demo_same, of 5000]
  show ?thesis by (simp add: demo_next_def)
qed

text \<open>C32: an identifier is bound to one content. A command that reuses the identifier of a stored
  receipt with other content, or under other assumptions, is never answered with an outcome, and
  with valid inputs of the session the call raises the identity conflict.\<close>

theorem reused_identifier_conflicts:
  assumes r: "find_receipt st (cmd_command_id c) = Some r"
    and d: "rc_command_sha256 r \<noteq> command_hash c \<or> rc_assumptions_sha256 r \<noteq> policy_hash pol"
  shows "\<not> is_ok (simulate_ioc c f pol st as_of)
    \<and> (validate_command c = Inr () \<and> validate_frame f = Inr () \<and> validate_assumptions pol = Inr ()
        \<and> validate_state st = Inr () \<and> same_session c f st \<and> ls_last_as_of_ms st \<le> as_of
       \<longrightarrow> (\<exists>msg. simulate_ioc c f pol st as_of = raise SimulationIdentityConflict msg))"
proof
  show "\<not> is_ok (simulate_ioc c f pol st as_of)"
    using assms unfolding simulate_ioc_def by (auto simp: is_ok_iff rbind_eq_Inr Let_def)
  show "validate_command c = Inr () \<and> validate_frame f = Inr () \<and> validate_assumptions pol = Inr ()
        \<and> validate_state st = Inr () \<and> same_session c f st \<and> ls_last_as_of_ms st \<le> as_of
       \<longrightarrow> (\<exists>msg. simulate_ioc c f pol st as_of = raise SimulationIdentityConflict msg)"
    using assms unfolding simulate_ioc_def by (simp add: same_session_def ensure.simps Let_def)
qed

definition demo_reused :: ioc_command where
  "demo_reused = demo_command \<lparr> cmd_quantity := 1 \<rparr>"

lemma demo_next_receipt:
  "\<exists>r. find_receipt (ms_state (evaluated demo_command demo_frame demo_policy demo_state 1020 ch ph)) ''c1'' = Some r
     \<and> rc_command_sha256 r = ch"
  using evaluated_receipts [of demo_command demo_policy 1020 demo_frame demo_state ch ph]
  by (simp add: find_receipt_def receipt_for_def arrival_of_def)
    (simp add: demo_command_def demo_policy_def demo_state_def initial_liquidity_def)

text \<open>The hash of some other content: the stored receipt of the witness is valid, of the same identifier.\<close>

definition other_hash :: string where
  "other_hash = (if command_hash demo_reused = replicate 64 (CHR ''0'') then replicate 64 (CHR ''1'')
     else replicate 64 (CHR ''0''))"

lemma other_hash: "valid_sha256 other_hash" "other_hash \<noteq> command_hash demo_reused"
  by (auto simp: other_hash_def valid_sha256_def is_hex_lower_def list_all_iff of_char_of take_bit_eq_mod Let_def)

theorem reused_identifier_conflicts_witness:
  "\<exists>msg. simulate_ioc demo_reused demo_frame demo_policy
     (ms_state (evaluated demo_command demo_frame demo_policy demo_state 1020 other_hash (policy_hash demo_policy))) 1030
     = raise SimulationIdentityConflict msg"
proof -
  let ?st = "ms_state (evaluated demo_command demo_frame demo_policy demo_state 1020 other_hash (policy_hash demo_policy))"
  have id: "cmd_command_id demo_reused = ''c1''" by (simp add: demo_reused_def demo_command_def)
  obtain r where r: "find_receipt ?st (cmd_command_id demo_reused) = Some r" "rc_command_sha256 r = other_hash"
    using demo_next_receipt unfolding id by blast
  have "validate_state ?st = Inr ()"
    using evaluated_inv [OF demo_ready refl other_hash(1)] by (simp add: kernel_inv_def)
  moreover have "same_session demo_reused demo_frame ?st"
    using demo_same by (simp add: same_session_def evaluated_identity demo_reused_def)
  moreover have "ls_last_as_of_ms ?st \<le> 1030"
    by (auto simp: evaluated_def decided_def frame_cursor_def demo_state_def initial_liquidity_def Let_def split: option.splits)
  moreover have "validate_command demo_reused = Inr ()"
    by (simp add: validate_command_def ensure.simps demo_reused_def demo_command_def positive_amount_def valid_timestamp_def)
  moreover have "validate_assumptions demo_policy = Inr ()" using demo_valid(2) by (simp add: pol_ok_def)
  ultimately show ?thesis
    using reused_identifier_conflicts [OF r(1)] r(2) other_hash(2) demo_frame_valid by auto
qed

text \<open>evidence is append-only. A successful call keeps every stored receipt in place and appends
  at most one, that of the command at hand; the identity of the session does not change, and the
  evaluation clock, the arrival cursor and the debits never go back.\<close>

theorem evidence_append_only:
  assumes inv: "kernel_inv st" and e: "simulate_ioc c f pol st as_of = Inr ms"
  shows "(ls_receipts (ms_state ms) = ls_receipts st \<or>
      (\<exists>r. ls_receipts (ms_state ms) = ls_receipts st @ [r] \<and> rc_command_id r = cmd_command_id c
         \<and> rc_outcome r = ms_outcome ms))
    \<and> ls_session_id (ms_state ms) = ls_session_id st \<and> ls_tape_id (ms_state ms) = ls_tape_id st
    \<and> ls_last_as_of_ms st \<le> ls_last_as_of_ms (ms_state ms)
    \<and> ls_last_arrival_at_ms st \<le> ls_last_arrival_at_ms (ms_state ms)
    \<and> ls_last_frame_sequence st \<le> ls_last_frame_sequence (ms_state ms)
    \<and> debit_at (depth_of st) (side, p) \<le> debit_at (depth_of (ms_state ms)) (side, p)"
  using e inv
proof (cases rule: simulate_ioc_cases)
  case (replay r)
  then show ?thesis by simp
next
  case fresh
  have R: "ls_receipts (ms_state ms) = ls_receipts st \<or>
      (\<exists>r. ls_receipts (ms_state ms) = ls_receipts st @ [r] \<and> rc_command_id r = cmd_command_id c
         \<and> rc_outcome r = ms_outcome ms)"
    using evaluated_receipts [of c pol as_of f st "command_hash c" "policy_hash pol"]
      evaluated_wait [of as_of c pol f st "command_hash c" "policy_hash pol"] fresh(3)
    by (cases "arrival_of c pol \<le> as_of") (auto simp: receipt_for_def)
  have C: "ls_last_as_of_ms st \<le> ls_last_as_of_ms (ms_state ms)"
    "ls_last_arrival_at_ms st \<le> ls_last_arrival_at_ms (ms_state ms)"
    "ls_last_frame_sequence st \<le> ls_last_frame_sequence (ms_state ms)"
    using fresh(1,3) frame_issue_None(7) [of f st "arrival_of c pol" pol]
    by (auto simp: ready_def evaluated_def decided_def frame_cursor_def arrival_of_def Let_def split: option.splits)
  have nonneg: "0 \<le> logged_at side p (granted c ms)"
  proof -
    have "0 \<le> lf_quantity x" if "x \<in> set (fills_of c f pol st as_of)" for x
      using fills_of_good(1) [OF fresh(1) that] by (auto simp: good_fill_def positive_amount_def)
    then have "0 \<le> filled_at p (fills_of c f pol st as_of)"
      unfolding filled_at_def by (intro sum_list_nonneg) auto
    then show ?thesis using fresh(3) by (simp add: granted_def evaluated_fields)
  qed
  show ?thesis
    using R C nonneg simulate_ioc_debit [OF e inv, of side p] fresh(3)
    by (auto simp: evaluated_identity)
qed

theorem evidence_append_only_witness:
  "debit_at (depth_of demo_next) (ASK, 101) \<ge> 0 \<and> ls_last_as_of_ms demo_next \<ge> 0"
  using evidence_append_only [OF demo_inv demo_simulated, of ASK 101]
  by (simp add: demo_next_def) (simp add: demo_state_def initial_liquidity_def depth_of_def debit_at_def)

end
