(* ===== verification/Sim_Bridge.thy ===== *)
theory Sim_Bridge
  imports Sim_Kernel_Total Float64
begin

text \<open>
  \<^verbatim>\<open>kairos_execution/simulation/bridge.py\<close>: the adapter between the public contracts, whose numbers
  are floats, and the decimal kernel. The contract classes belong to the package \<^verbatim>\<open>kairos_core\<close>,
  which is not part of the tree: they are records of the fields the code reads or passes. A
  constructor call of such a class is a function of \<open>contracts\<close>, a parameter: it may raise, and it
  may derive identifiers, from the fields it is given (the \<open>_args\<close> record that the object extends).
\<close>

section \<open>Public contracts\<close>

datatype trade_side = LONG | SHORT | OTHER_SIDE string

datatype trade_state = PENDING | ACTIVE | FLAT | UNRESOLVED | STATE_NO_FILL | STATE_BLOCKED

datatype command_kind = ENTRY_IOC | STOP_EXIT_IOC | TARGET_EXIT_IOC | TIMEOUT_EXIT_IOC

datatype event_type = ADMITTED_EVENT | ENTRY_FILLED | ENTRY_PARTIAL | ENTRY_NO_FILL | NO_ADMITTED_BOOK
  | SOURCE_BARRIER | STOP_TRIGGERED | TARGET_TRIGGERED | TIMEOUT_TRIGGERED | UNRESOLVED_EVENT

record recorded_level =
  rl_price :: f64
  rl_quantity :: f64

record recorded_frame =
  rf_tape_id :: string
  rf_stream_epoch :: string
  rf_symbol :: string
  rf_tape_sequence :: int
  rf_exchange_update_id :: int
  rf_exchange_at_ms :: int
  rf_received_at_ms :: int
  rf_persisted_at_ms :: int
  rf_raw_payload_sha256 :: string
  rf_continuity :: string
  rf_bids :: "recorded_level list"
  rf_asks :: "recorded_level list"
  rf_frame_sha256 :: "string option"

record session_assumptions =
  sa_latency_ms :: int
  sa_maximum_book_age_ms :: int
  sa_maximum_frame_latency_ms :: int
  sa_depth_participation_fraction :: f64
  sa_adverse_slippage_bps :: f64
  sa_taker_fee_bps :: f64
  sa_price_tick :: f64
  sa_quantity_step :: f64

record sim_session =
  ss_tape_id :: string
  ss_ends_at_ms :: int
  ss_assumptions :: session_assumptions

record exit_plan =
  ep_stop_price :: f64
  ep_target_price :: f64
  ep_max_holding_ms :: int

record sim_intent =
  in_entry_eligible_ts_ms :: int
  in_entry_expires_ts_ms :: int
  in_exit_plan :: "exit_plan option"

record admission_v2 =
  ad_session :: "sim_session option"
  ad_intent :: "sim_intent option"
  ad_quantity :: "f64 option"
  ad_price_cap :: "f64 option"
  ad_selected_stream_epoch :: "string option"

datatype admission = Admission_V1 | Admission_V2 admission_v2

record trade_args =
  tr_source :: string
  tr_admission :: admission
  tr_created_at_ms :: int

record sim_trade = trade_args +
  tr_session_id :: "string option"
  tr_admission_id :: "string option"
  tr_intent_id :: "string option"
  tr_trade_id :: "string option"
  tr_symbol :: "string option"
  tr_side :: trade_side

record command_args =
  ca_source :: string
  ca_trade :: sim_trade
  ca_kind :: command_kind
  ca_quantity :: f64
  ca_price_cap :: f64
  ca_submitted_at_ms :: int
  ca_persisted_at_ms :: int
  ca_eligible_at_ms :: int
  ca_expires_at_ms :: int

record sim_command = command_args +
  sc_command_id :: "string option"
  sc_session_id :: "string option"
  sc_symbol :: "string option"
  sc_order_side :: "string option"

record fill_level =
  fl_book_price :: f64
  fl_execution_price :: f64
  fl_quantity :: f64
  fl_fee_quote :: f64

record receipt_args =
  ra_source :: string
  ra_command :: sim_command
  ra_model_frame_sha256 :: "string option"
  ra_status :: fill_status
  ra_reason_codes :: "string list"
  ra_arrival_at_ms :: int
  ra_filled_quantity :: f64
  ra_cancelled_quantity :: f64
  ra_average_price :: "f64 option"
  ra_notional_quote :: f64
  ra_fee_quote :: f64
  ra_arrival_mid_price :: "f64 option"
  ra_implementation_shortfall_quote :: f64
  ra_level_fills :: "fill_level list"

record sim_receipt = receipt_args +
  sr_receipt_id :: "string option"

record event_args =
  ev_source :: string
  ev_session_id :: string
  ev_admission_id :: string
  ev_intent_id :: string
  ev_trade_id :: string
  ev_seq :: int
  ev_previous_event_sha256 :: "string option"
  ev_type :: event_type
  ev_from_state :: "trade_state option"
  ev_to_state :: trade_state
  ev_occurred_at_ms :: int
  ev_symbol :: string
  ev_side :: trade_side
  ev_command_id :: "string option"
  ev_receipt_id :: "string option"
  ev_filled_quantity :: "f64 option"
  ev_average_price :: "f64 option"
  ev_model_frame_sha256 :: "string option"
  ev_reason_codes :: "string list"

record sim_event = event_args +
  se_event_id :: "string option"

record result_args =
  re_source :: string
  re_session_id :: string
  re_admission_id :: string
  re_intent_id :: string
  re_trade_id :: string
  re_terminal_event_id :: string
  re_completed_at_ms :: int
  re_final_state :: trade_state
  re_entry_filled_quantity :: f64
  re_exit_filled_quantity :: f64
  re_entry_average_price :: "f64 option"
  re_exit_average_price :: "f64 option"
  re_model_realized_pnl_quote :: "f64 option"
  re_model_fee_quote :: "f64 option"
  re_reason_codes :: "string list"

text \<open>The constructors of the contract classes, and the JSON codec of the stored liquidity state
  (\<^verbatim>\<open>model_dump(mode="json")\<close> and \<^verbatim>\<open>model_validate_json\<close>).\<close>

record contracts =
  mk_trade :: "trade_args \<Rightarrow> sim_trade res"
  mk_command :: "command_args \<Rightarrow> sim_command res"
  mk_level :: "fill_level \<Rightarrow> fill_level res"
  mk_receipt :: "receipt_args \<Rightarrow> sim_receipt res"
  mk_event :: "event_args \<Rightarrow> sim_event res"
  mk_result :: "result_args \<Rightarrow> result_args res"
  dump_state :: "liquidity_state \<Rightarrow> json"
  load_state :: "json \<Rightarrow> liquidity_state res"

section \<open>Numbers\<close>

definition decimal_from_contract :: "f64 \<Rightarrow> string \<Rightarrow> rat res" where
  "decimal_from_contract value field =
     (case value of
        Fin x \<Rightarrow> (case frepr x of Some d \<Rightarrow> Inr d
                  | None \<Rightarrow> raise ValueError (field @ '' must be a finite numeric contract value''))
      | _ \<Rightarrow> raise ValueError (field @ '' must be a finite numeric contract value''))"

text \<open>\<^verbatim>\<open>float(d)\<close> of a decimal.\<close>

definition to_float :: "rat \<Rightarrow> f64" where
  "to_float d = fround d"

definition positive_float :: "rat option \<Rightarrow> string \<Rightarrow> f64 res" where
  "positive_float value field =
     (case value of None \<Rightarrow> raise ValueError (field @ '' is required for a non-zero model fill'')
      | Some d \<Rightarrow> (let result = to_float d in
          if \<not> isfinite result \<or> fle result (Fin 0)
          then raise ValueError (field @ '' cannot be represented as a positive finite float'')
          else Inr result))"

text \<open>The literal strings of a contract field; pydantic refuses any other.\<close>

definition literal :: "(string \<times> 'a) list \<Rightarrow> string \<Rightarrow> string \<Rightarrow> 'a res" where
  "literal alternatives field s = (case map_of alternatives s of Some v \<Rightarrow> Inr v | None \<Rightarrow> Inl (invalid field))"

definition kernel_symbol :: "string \<Rightarrow> sim_symbol res" where
  "kernel_symbol = literal (map (\<lambda>s. (symbol_text s, s)) [BTCUSDT, ETHUSDT, SOLUSDT, BNBUSDT, XRPUSDT]) ''symbol''"

definition kernel_side :: "string \<Rightarrow> order_side res" where
  "kernel_side = literal [(''BUY'', BUY), (''SELL'', SELL)] ''side''"

definition kernel_continuity :: "string \<Rightarrow> continuity res" where
  "kernel_continuity = literal (map (\<lambda>c. (continuity_text c, c))
     [ADMITTED, GAP, RECONNECT, UNKNOWN, UNAVAILABLE, CLOCK_SKEW]) ''continuity''"

section \<open>The bridge\<close>

definition kernel_level :: "string \<Rightarrow> recorded_level \<Rightarrow> book_level res" where
  "kernel_level side l =
     rbind (decimal_from_contract (rl_price l) (side @ ''_price'')) (\<lambda>price.
     rbind (decimal_from_contract (rl_quantity l) (side @ ''_quantity'')) (\<lambda>quantity.
       let level = \<lparr> bl_price = price, bl_quantity = quantity \<rparr>
       in rbind (validate_book_level level) (\<lambda>_. Inr level)))"

definition kernel_frame :: "recorded_frame \<Rightarrow> accepted_book_frame res" where
  "kernel_frame f =
     rbind (rtraverse (kernel_level ''bid'') (rf_bids f)) (\<lambda>bids.
     rbind (rtraverse (kernel_level ''ask'') (rf_asks f)) (\<lambda>asks.
     rbind (kernel_symbol (rf_symbol f)) (\<lambda>symbol.
     rbind (kernel_continuity (rf_continuity f)) (\<lambda>cont.
       let frame = \<lparr> fr_tape_id = rf_tape_id f, fr_stream_epoch = rf_stream_epoch f, fr_symbol = symbol,
                     fr_sequence = rf_tape_sequence f, fr_exchange_update_id = rf_exchange_update_id f,
                     fr_exchange_at_ms = rf_exchange_at_ms f, fr_received_at_ms = rf_received_at_ms f,
                     fr_persisted_at_ms = rf_persisted_at_ms f,
                     fr_raw_payload_sha256 = rf_raw_payload_sha256 f, fr_continuity = cont,
                     fr_bids = bids, fr_asks = asks \<rparr>
       in rbind (validate_frame frame) (\<lambda>_. Inr frame)))))"

definition kernel_assumptions :: "sim_session \<Rightarrow> fill_assumptions res" where
  "kernel_assumptions s = (let v = ss_assumptions s in
     rbind (decimal_from_contract (sa_depth_participation_fraction v) ''depth_participation_fraction'') (\<lambda>fraction.
     rbind (decimal_from_contract (sa_adverse_slippage_bps v) ''adverse_slippage_bps'') (\<lambda>slippage.
     rbind (decimal_from_contract (sa_taker_fee_bps v) ''taker_fee_bps'') (\<lambda>fee.
     rbind (decimal_from_contract (sa_price_tick v) ''price_tick'') (\<lambda>tick.
     rbind (decimal_from_contract (sa_quantity_step v) ''quantity_step'') (\<lambda>step.
       let pol = \<lparr> as_latency_ms = sa_latency_ms v, as_maximum_book_age_ms = sa_maximum_book_age_ms v,
                   as_maximum_frame_latency_ms = sa_maximum_frame_latency_ms v,
                   as_depth_participation_fraction = fraction, as_adverse_slippage_bps = slippage,
                   as_taker_fee_bps = fee, as_price_tick = tick, as_quantity_step = step \<rparr>
       in rbind (validate_assumptions pol) (\<lambda>_. Inr pol)))))))"

definition kernel_command :: "sim_command \<Rightarrow> ioc_command res" where
  "kernel_command c =
     (case (sc_command_id c, sc_session_id c, sc_symbol c) of
        (Some command_id, Some session_id, Some symbol) \<Rightarrow>
          (case sc_order_side c of
             None \<Rightarrow> raise ValueError ''simulation command must carry its derived order side''
           | Some side \<Rightarrow>
               rbind (decimal_from_contract (ca_quantity c) ''quantity'') (\<lambda>quantity.
               rbind (decimal_from_contract (ca_price_cap c) ''price_cap'') (\<lambda>price_cap.
               rbind (kernel_symbol symbol) (\<lambda>symbol. rbind (kernel_side side) (\<lambda>side.
                 let k = \<lparr> cmd_session_id = session_id, cmd_command_id = command_id, cmd_symbol = symbol,
                           cmd_side = side, cmd_quantity = quantity, cmd_price_cap = price_cap,
                           cmd_submitted_at_ms = ca_submitted_at_ms c, cmd_persisted_at_ms = ca_persisted_at_ms c,
                           cmd_eligible_at_ms = ca_eligible_at_ms c, cmd_expires_at_ms = ca_expires_at_ms c \<rparr>
                 in rbind (validate_command k) (\<lambda>_. Inr k))))))
      | _ \<Rightarrow> raise ValueError
          ''simulation command must carry canonical session, command and symbol identities'')"

definition public_level :: "contracts \<Rightarrow> level_fill \<Rightarrow> fill_level res" where
  "public_level core l = mk_level core
     \<lparr> fl_book_price = to_float (lf_book_price l), fl_execution_price = to_float (lf_execution_price l),
       fl_quantity = to_float (lf_quantity l), fl_fee_quote = to_float (lf_fee_quote l) \<rparr>"

definition command_receipt ::
  "contracts \<Rightarrow> string \<Rightarrow> sim_command \<Rightarrow> fill_outcome \<Rightarrow> recorded_frame option \<Rightarrow> sim_receipt res" where
  "command_receipt core source command outcome recorded =
     (if fo_status outcome = WAIT
      then raise ValueError ''a non-terminal kernel WAIT outcome cannot become durable evidence''
      else let filled = to_float (fo_filled_quantity outcome) in
      if flt (Fin 0) filled then
        (case Option.bind recorded rf_frame_sha256 of
           None \<Rightarrow> raise ValueError ''a terminal model fill requires its exact public recorded book frame''
         | Some frame_hash \<Rightarrow>
             rbind (positive_float (fo_average_price outcome) ''average_price'') (\<lambda>average.
             rbind (positive_float (fo_arrival_mid_price outcome) ''arrival_mid_price'') (\<lambda>mid.
             rbind (rtraverse (public_level core) (fo_level_fills outcome)) (\<lambda>levels.
               mk_receipt core
                 \<lparr> ra_source = source, ra_command = command, ra_model_frame_sha256 = Some frame_hash,
                   ra_status = fo_status outcome, ra_reason_codes = [fo_reason outcome],
                   ra_arrival_at_ms = fo_arrival_at_ms outcome, ra_filled_quantity = filled,
                   ra_cancelled_quantity = to_float (fo_cancelled_quantity outcome),
                   ra_average_price = Some average, ra_notional_quote = to_float (fo_notional_quote outcome),
                   ra_fee_quote = to_float (fo_fee_quote outcome), ra_arrival_mid_price = Some mid,
                   ra_implementation_shortfall_quote = to_float (fo_implementation_shortfall_quote outcome),
                   ra_level_fills = levels \<rparr>))))
      else mk_receipt core
        \<lparr> ra_source = source, ra_command = command, ra_model_frame_sha256 = None,
          ra_status = fo_status outcome, ra_reason_codes = [fo_reason outcome],
          ra_arrival_at_ms = fo_arrival_at_ms outcome, ra_filled_quantity = Fin 0,
          ra_cancelled_quantity = to_float (fo_cancelled_quantity outcome),
          ra_average_price = None, ra_notional_quote = Fin 0, ra_fee_quote = Fin 0,
          ra_arrival_mid_price = None, ra_implementation_shortfall_quote = Fin 0, ra_level_fills = [] \<rparr>)"

section \<open>Lemmas\<close>

text \<open>Every finite float has a decimal text, and reading it as a float gives the float back.\<close>

lemma decimal_from_contract_total:
  assumes "wf64 (Fin x)"
  obtains d where "decimal_from_contract (Fin x) field = Inr d" "to_float d = Fin x"
proof -
  obtain d where d: "frepr x = Some d" "rnd64 d = x" using frepr_total [of x] assms by auto
  have "to_float d = Fin x" using d assms by (simp add: to_float_def fround_def Let_def)
  with d(1) that show ?thesis by (simp add: decimal_from_contract_def)
qed

lemma decimal_from_contract_ok: "decimal_from_contract v field = Inr d \<Longrightarrow> \<exists>x. v = Fin x \<and> frepr x = Some d"
  by (cases v) (auto simp: decimal_from_contract_def split: option.splits)

text \<open>What the bridge passes on has passed the validation of the kernel.\<close>

lemma kernel_frame_valid: "kernel_frame f = Inr k \<Longrightarrow> validate_frame k = Inr ()"
  by (auto simp: kernel_frame_def rbind_eq_Inr Let_def)

lemma kernel_frame_fields:
  assumes "kernel_frame f = Inr k"
  shows "fr_tape_id k = rf_tape_id f" "fr_stream_epoch k = rf_stream_epoch f"
    "fr_sequence k = rf_tape_sequence f" "fr_persisted_at_ms k = rf_persisted_at_ms f"
    "kernel_symbol (rf_symbol f) = Inr (fr_symbol k)"
  using assms by (auto simp: kernel_frame_def rbind_eq_Inr Let_def)

lemma kernel_assumptions_valid: "kernel_assumptions s = Inr pol \<Longrightarrow> pol_ok pol"
  by (auto simp: kernel_assumptions_def rbind_eq_Inr Let_def pol_ok_def)

lemma kernel_assumptions_latency: "kernel_assumptions s = Inr pol \<Longrightarrow> as_latency_ms pol = sa_latency_ms (ss_assumptions s)"
  by (auto simp: kernel_assumptions_def rbind_eq_Inr Let_def)

lemma kernel_command_valid: "kernel_command c = Inr k \<Longrightarrow> validate_command k = Inr ()"
  by (auto simp: kernel_command_def rbind_eq_Inr Let_def split: option.splits prod.splits)

lemma kernel_command_fields:
  assumes "kernel_command c = Inr k"
  shows "sc_command_id c = Some (cmd_command_id k)" "sc_session_id c = Some (cmd_session_id k)"
    "cmd_submitted_at_ms k = ca_submitted_at_ms c" "cmd_expires_at_ms k = ca_expires_at_ms c"
    "decimal_from_contract (ca_quantity c) ''quantity'' = Inr (cmd_quantity k)"
    "decimal_from_contract (ca_price_cap c) ''price_cap'' = Inr (cmd_price_cap k)"
  using assms by (auto simp: kernel_command_def rbind_eq_Inr Let_def split: option.splits prod.splits)

lemma command_receipt_status:
  assumes "command_receipt core src c out fr = Inr r"
  shows "fo_status out \<noteq> WAIT"
  using assms by (auto simp: command_receipt_def)

end
