(* ===== verification/Interaction.thy ===== *)
theory Interaction
  imports Prelude
begin

text \<open>
  Programs that talk to the outside. The repositories and venue clients the controllers await on
  are not part of the source tree, so a controller is modelled as an interaction tree: \<open>Ask q k\<close>
  awaits the answer to the request \<open>q\<close>, which is either an exception or a response, and continues
  with \<open>k\<close>; \<open>Get\<close> and \<open>Put\<close> read and write the attributes of \<^verbatim>\<open>self\<close>. Nothing is assumed of the
  answers: \<open>wp\<close> quantifies over all of them, and \<open>run\<close> executes a program against an environment
  that may choose each answer from the whole history.
\<close>

section \<open>Programs\<close>

datatype ('s, 'q, 'r, 'a) prog =
    Ret 'a
  | Fail exn
  | Ask 'q "'r res \<Rightarrow> ('s, 'q, 'r, 'a) prog"
  | Get "'s \<Rightarrow> ('s, 'q, 'r, 'a) prog"
  | Put 's "('s, 'q, 'r, 'a) prog"

type_synonym ('q, 'r) trace = "('q \<times> 'r res) list"

primrec bindp ::
  "('s, 'q, 'r, 'a) prog \<Rightarrow> ('a \<Rightarrow> ('s, 'q, 'r, 'b) prog) \<Rightarrow> ('s, 'q, 'r, 'b) prog" where
  "bindp (Ret a) f = f a"
| "bindp (Fail e) f = Fail e"
| "bindp (Ask q k) f = Ask q (\<lambda>r. bindp (k r) f)"
| "bindp (Get k) f = Get (\<lambda>s. bindp (k s) f)"
| "bindp (Put s p) f = Put s (bindp p f)"

text \<open>\<^verbatim>\<open>try: p except Exception as e: h(e)\<close>. State written before the exception stays written.\<close>

primrec catchp ::
  "('s, 'q, 'r, 'a) prog \<Rightarrow> (exn \<Rightarrow> ('s, 'q, 'r, 'a) prog) \<Rightarrow> ('s, 'q, 'r, 'a) prog" where
  "catchp (Ret a) h = Ret a"
| "catchp (Fail e) h = h e"
| "catchp (Ask q k) h = Ask q (\<lambda>r. catchp (k r) h)"
| "catchp (Get k) h = Get (\<lambda>s. catchp (k s) h)"
| "catchp (Put s p) h = Put s (catchp p h)"

text \<open>A result computed without awaiting; an awaited call whose exception propagates.\<close>

definition liftp :: "'a res \<Rightarrow> ('s, 'q, 'r, 'a) prog" where
  "liftp r = (case r of Inl e \<Rightarrow> Fail e | Inr a \<Rightarrow> Ret a)"

definition await :: "'q \<Rightarrow> ('r \<Rightarrow> 'a option) \<Rightarrow> ('s, 'q, 'r, 'a) prog" where
  "await q sel = Ask q (\<lambda>r. case r of Inl e \<Rightarrow> Fail e
     | Inr v \<Rightarrow> (case sel v of Some a \<Rightarrow> Ret a
                 | None \<Rightarrow> Fail (Exn TypeError ''response of another operation'')))"

definition checkp :: "(bool \<times> exn) list \<Rightarrow> ('s, 'q, 'r, unit) prog" where
  "checkp cs = liftp (ensure cs)"

fun mapp :: "('a \<Rightarrow> ('s, 'q, 'r, 'b) prog) \<Rightarrow> 'a list \<Rightarrow> ('s, 'q, 'r, 'b list) prog" where
  "mapp f [] = Ret []"
| "mapp f (x # xs) = bindp (f x) (\<lambda>y. bindp (mapp f xs) (\<lambda>ys. Ret (y # ys)))"

lemma bindp_assoc: "bindp (bindp p f) g = bindp p (\<lambda>a. bindp (f a) g)"
  by (induction p) auto

lemma bindp_Ret [simp]: "bindp p Ret = p"
  by (induction p) auto

lemma liftp_simps [simp]: "liftp (Inl e) = Fail e" "liftp (Inr a) = Ret a"
  by (simp_all add: liftp_def)

section \<open>Execution against an environment\<close>

primrec run ::
  "(('q, 'r) trace \<Rightarrow> 'q \<Rightarrow> 'r res) \<Rightarrow> ('s, 'q, 'r, 'a) prog \<Rightarrow> 's \<Rightarrow> ('q, 'r) trace
   \<Rightarrow> 's \<times> ('q, 'r) trace \<times> 'a res" where
  "run env (Ret a) s t = (s, t, Inr a)"
| "run env (Fail e) s t = (s, t, Inl e)"
| "run env (Ask q k) s t = run env (k (env t q)) s (t @ [(q, env t q)])"
| "run env (Get k) s t = run env (k s) s t"
| "run env (Put s' p) s t = run env p s' t"

lemma run_bindp:
  "run env (bindp p f) s t =
     (case run env p s t of (s', t', Inr a) \<Rightarrow> run env (f a) s' t' | (s', t', Inl e) \<Rightarrow> (s', t', Inl e))"
  by (induction p arbitrary: s t) auto

lemma run_catchp:
  "run env (catchp p h) s t =
     (case run env p s t of (s', t', Inr a) \<Rightarrow> (s', t', Inr a) | (s', t', Inl e) \<Rightarrow> run env (h e) s' t')"
  by (induction p arbitrary: s t) auto

text \<open>Every run extends the history it started from.\<close>

lemma run_extends: "\<exists>u. fst (snd (run env p s t)) = t @ u"
proof (induction p arbitrary: s t)
  case (Ask q k)
  obtain u where "fst (snd (run env (k (env t q)) s (t @ [(q, env t q)]))) = (t @ [(q, env t q)]) @ u"
    using Ask.IH [of "k (env t q)"] by blast
  then show ?case by auto
qed auto

section \<open>Weakest preconditions\<close>

primrec wp ::
  "('s, 'q, 'r, 'a) prog \<Rightarrow> ('s \<Rightarrow> ('q, 'r) trace \<Rightarrow> 'a res \<Rightarrow> bool) \<Rightarrow> 's \<Rightarrow> ('q, 'r) trace \<Rightarrow> bool" where
  "wp (Ret a) Q s t = Q s t (Inr a)"
| "wp (Fail e) Q s t = Q s t (Inl e)"
| "wp (Ask q k) Q s t = (\<forall>r. wp (k r) Q s (t @ [(q, r)]))"
| "wp (Get k) Q s t = wp (k s) Q s t"
| "wp (Put s' p) Q s t = wp p Q s' t"

lemma wp_run: "wp p Q s t \<Longrightarrow> run env p s t = (s', t', r) \<Longrightarrow> Q s' t' r"
  by (induction p arbitrary: s t) (auto, (metis rangeI)+)

lemma wp_bindp [wp_simps]:
  "wp (bindp p f) Q s t =
     wp p (\<lambda>s' t' r. case r of Inr a \<Rightarrow> wp (f a) Q s' t' | Inl e \<Rightarrow> Q s' t' (Inl e)) s t"
  by (induction p arbitrary: s t) auto

lemma wp_catchp [wp_simps]:
  "wp (catchp p h) Q s t =
     wp p (\<lambda>s' t' r. case r of Inr a \<Rightarrow> Q s' t' (Inr a) | Inl e \<Rightarrow> wp (h e) Q s' t') s t"
  by (induction p arbitrary: s t) auto

lemma wp_liftp [wp_simps]: "wp (liftp r) Q s t = Q s t r"
  by (cases r) auto

lemma wp_checkp [wp_simps]: "wp (checkp cs) Q s t = Q s t (ensure cs)"
  by (simp add: checkp_def wp_liftp)

lemma wp_await:
  assumes "\<And>e. Q s (t @ [(q, Inl e)]) (Inl e)"
    and "\<And>v. sel v = None \<Longrightarrow>
           Q s (t @ [(q, Inr v)]) (Inl (Exn TypeError ''response of another operation''))"
    and "\<And>v a. sel v = Some a \<Longrightarrow> Q s (t @ [(q, Inr v)]) (Inr a)"
  shows "wp (await q sel) Q s t"
  unfolding await_def using assms by (auto split: sum.splits option.splits)

lemma wp_conseq:
  assumes "wp p Q s t" and "\<And>s' t' r. Q s' t' r \<Longrightarrow> Q' s' t' r"
  shows "wp p Q' s t"
  using assms by (induction p arbitrary: s t) auto

lemma wp_conj: "wp p Q s t \<Longrightarrow> wp p Q' s t \<Longrightarrow> wp p (\<lambda>s' t' r. Q s' t' r \<and> Q' s' t' r) s t"
  by (induction p arbitrary: s t) auto

text \<open>\<open>wp\<close> says exactly that every environment ends in the postcondition.\<close>

lemma wp_complete:
  assumes "\<And>env s' t' r. run env p s t = (s', t', r) \<Longrightarrow> Q s' t' r"
  shows "wp p Q s t"
  using assms
proof (induction p arbitrary: s t)
  case (Ask q k)
  show ?case
  proof (simp, rule allI)
    fix r
    show "wp (k r) Q s (t @ [(q, r)])"
    proof (rule Ask.IH [OF rangeI])
      fix env s' t' r'
      assume run: "run env (k r) s (t @ [(q, r)]) = (s', t', r')"
      let ?env = "\<lambda>h x. if h = t then r else env h x"
      have "run ?env p s u = run env p s u" if "length t < length u" for p and s and u
        using that by (induction p arbitrary: s u) auto
      from this [of "t @ [(q, r)]" "k r" s] run
      have "run ?env (Ask q k) s t = (s', t', r')" by simp
      then show "Q s' t' r'" by (rule Ask.prems)
    qed
  qed
qed auto

text \<open>A property of every request of a history.\<close>

definition all_asks :: "('q \<Rightarrow> bool) \<Rightarrow> ('q, 'r) trace \<Rightarrow> bool" where
  "all_asks P t \<longleftrightarrow> (\<forall>x \<in> set t. P (fst x))"

lemma all_asks_simps [simp]:
  "all_asks P []" "all_asks P (t @ u) \<longleftrightarrow> all_asks P t \<and> all_asks P u"
  "all_asks P (x # t) \<longleftrightarrow> P (fst x) \<and> all_asks P t"
  by (auto simp: all_asks_def)

section \<open>Guarded programs\<close>

text \<open>\<open>safe G p Q s t\<close>: whatever the answers, every request \<open>q\<close> of \<open>p\<close> meets its guard \<open>G h q\<close> at the
  history \<open>h\<close> in which it is made, and \<open>p\<close> ends in the postcondition.\<close>

primrec safe ::
  "(('q, 'r) trace \<Rightarrow> 'q \<Rightarrow> bool) \<Rightarrow> ('s, 'q, 'r, 'a) prog
   \<Rightarrow> ('s \<Rightarrow> ('q, 'r) trace \<Rightarrow> 'a res \<Rightarrow> bool) \<Rightarrow> 's \<Rightarrow> ('q, 'r) trace \<Rightarrow> bool" where
  "safe G (Ret a) Q s t = Q s t (Inr a)"
| "safe G (Fail e) Q s t = Q s t (Inl e)"
| "safe G (Ask q k) Q s t = (G t q \<and> (\<forall>r. safe G (k r) Q s (t @ [(q, r)])))"
| "safe G (Get k) Q s t = safe G (k s) Q s t"
| "safe G (Put s' p) Q s t = safe G p Q s' t"

text \<open>Every request of a history met its guard.\<close>

definition guarded :: "(('q, 'r) trace \<Rightarrow> 'q \<Rightarrow> bool) \<Rightarrow> ('q, 'r) trace \<Rightarrow> bool" where
  "guarded G t \<longleftrightarrow> (\<forall>i < length t. G (take i t) (fst (t ! i)))"

lemma guarded_Nil [simp]: "guarded G []"
  by (simp add: guarded_def)

lemma guarded_snoc [simp]: "guarded G (t @ [x]) \<longleftrightarrow> guarded G t \<and> G t (fst x)"
proof -
  have "(\<forall>i < Suc (length t). G (take i (t @ [x])) (fst ((t @ [x]) ! i))) \<longleftrightarrow>
    (\<forall>i < length t. G (take i t) (fst (t ! i))) \<and> G t (fst x)"
    by (auto simp: less_Suc_eq nth_append)
  then show ?thesis by (simp add: guarded_def)
qed

lemma safe_run:
  "safe G p Q s t \<Longrightarrow> guarded G t \<Longrightarrow> run env p s t = (s', t', r) \<Longrightarrow> guarded G t' \<and> Q s' t' r"
  by (induction p arbitrary: s t) (auto, (metis rangeI guarded_snoc fst_conv)+)

lemma safe_bindp [wp_simps]:
  "safe G (bindp p f) Q s t =
     safe G p (\<lambda>s' t' r. case r of Inr a \<Rightarrow> safe G (f a) Q s' t' | Inl e \<Rightarrow> Q s' t' (Inl e)) s t"
  by (induction p arbitrary: s t) auto

lemma safe_catchp [wp_simps]:
  "safe G (catchp p h) Q s t =
     safe G p (\<lambda>s' t' r. case r of Inr a \<Rightarrow> Q s' t' (Inr a) | Inl e \<Rightarrow> safe G (h e) Q s' t') s t"
  by (induction p arbitrary: s t) auto

lemma safe_liftp [wp_simps]: "safe G (liftp r) Q s t = Q s t r"
  by (cases r) auto

lemma safe_checkp [wp_simps]: "safe G (checkp cs) Q s t = Q s t (ensure cs)"
  by (simp add: checkp_def safe_liftp)

lemma safe_await:
  "safe G (await q sel) Q s t \<longleftrightarrow> G t q
     \<and> (\<forall>e. Q s (t @ [(q, Inl e)]) (Inl e))
     \<and> (\<forall>v. case sel v of
           None \<Rightarrow> Q s (t @ [(q, Inr v)]) (Inl (Exn TypeError ''response of another operation''))
         | Some a \<Rightarrow> Q s (t @ [(q, Inr v)]) (Inr a))"
proof -
  have "safe G (case sel v of Some a \<Rightarrow> Ret a
      | None \<Rightarrow> Fail (Exn TypeError ''response of another operation'')) Q s u \<longleftrightarrow>
    (case sel v of None \<Rightarrow> Q s u (Inl (Exn TypeError ''response of another operation''))
       | Some a \<Rightarrow> Q s u (Inr a))" for v u
    by (cases "sel v") auto
  then show ?thesis by (simp add: await_def split_sum_all)
qed

lemma safe_conseq:
  assumes "safe G p Q s t" and "\<And>s' t' r. Q s' t' r \<Longrightarrow> Q' s' t' r"
  shows "safe G p Q' s t"
  using assms by (induction p arbitrary: s t) auto

lemma safe_conj:
  "safe G p Q s t \<Longrightarrow> safe G p Q' s t \<Longrightarrow> safe G p (\<lambda>s' t' r. Q s' t' r \<and> Q' s' t' r) s t"
  by (induction p arbitrary: s t) auto

text \<open>A program all of whose requests satisfy \<open>P\<close>, and that does not write its state.\<close>

primrec asks :: "('q \<Rightarrow> bool) \<Rightarrow> ('s, 'q, 'r, 'a) prog \<Rightarrow> bool" where
  "asks P (Ret a) = True"
| "asks P (Fail e) = True"
| "asks P (Ask q k) = (P q \<and> (\<forall>r. asks P (k r)))"
| "asks P (Get k) = (\<forall>s. asks P (k s))"
| "asks P (Put s p) = False"

lemma asks_bindp: "asks P p \<Longrightarrow> (\<And>a. asks P (f a)) \<Longrightarrow> asks P (bindp p f)"
  by (induction p) auto

lemma asks_catchp: "asks P p \<Longrightarrow> (\<And>e. asks P (h e)) \<Longrightarrow> asks P (catchp p h)"
  by (induction p) auto

lemma asks_liftp [simp]: "asks P (liftp r)"
  by (cases r) auto

lemma asks_checkp [simp]: "asks P (checkp cs)"
  by (simp add: checkp_def)

lemma asks_await [simp]: "asks P (await q sel) \<longleftrightarrow> P q"
  by (auto simp: await_def split: sum.splits option.splits)

lemma asks_mapp: "(\<And>x. x \<in> set xs \<Longrightarrow> asks P (f x)) \<Longrightarrow> asks P (mapp f xs)"
  by (induction xs) (auto intro!: asks_bindp)

lemma asks_safe:
  assumes "asks P p" "\<And>h q. P q \<Longrightarrow> G h q" "\<And>u r. all_asks P u \<Longrightarrow> Q s (t @ u) r"
  shows "safe G p Q s t"
  using assms
proof (induction p arbitrary: t)
  case (Ask q k)
  then have P: "P q" by simp
  have "safe G (k r) Q s (t @ [(q, r)])" for r
  proof (rule Ask.IH [OF rangeI])
    show "asks P (k r)" using Ask.prems(1) by simp
    show "\<And>h q. P q \<Longrightarrow> G h q" by (rule Ask.prems(2))
    show "\<And>u x. all_asks P u \<Longrightarrow> Q s ((t @ [(q, r)]) @ u) x"
      using Ask.prems(3) [of "(q, r) # u" for u] P by (simp add: all_asks_def)
  qed
  then show ?case using Ask.prems(2) P by simp
next
  case (Ret a)
  then show ?case using Ret.prems(3) [of "[]"] by simp
next
  case (Fail e)
  then show ?case using Fail.prems(3) [of "[]"] by simp
qed auto

end
