(* ===== verification/Sim_Controller.thy ===== *)
theory Sim_Controller
  imports Sim_Bridge Interaction
begin

text \<open>
  \<^verbatim>\<open>kairos_execution/simulation/controller.py\<close>: the crash-safe controller of the simulator. Every
  method is a program over the requests it awaits from its repository (\<open>sim_request\<close>), which is
  not part of the tree and may answer anything. The controller keeps no state of its own, so the
  state of the programs is \<open>unit\<close>.
\<close>

section \<open>The repository\<close>

record trade_journal =
  jo_trade :: sim_trade
  jo_state :: trade_state
  jo_events :: "sim_event list"
  jo_next_event_seq :: int
  jo_head_sha256 :: "string option"

record prepared_command =
  pc_command :: sim_command
  pc_status :: string

record completion =
  co_created :: bool
  co_receipt :: sim_receipt

record closed_bar =
  ba_symbol :: string
  ba_venue :: string
  ba_sha256 :: "string option"
  ba_close_time_ms :: int
  ba_low :: f64
  ba_high :: f64
  ba_close :: f64

datatype sim_request =
    Create_Admission admission_v2
  | Create_Trade sim_trade
  | Append_Event sim_event
  | Load_Journal string
  | Prepare_Command sim_command
  | Load_Receipt string
  | Complete_Command sim_command sim_receipt string json "sim_event list"
  | Load_Frame string string int
  | Load_Liquidity string string
  | List_Prepared string
  | List_Terminal string
  | Record_Result result_args

datatype sim_response =
    Done
  | Created bool
  | Journal "trade_journal option"
  | Prepared prepared_command
  | Receipt "sim_receipt option"
  | Completed completion
  | Frame "recorded_frame option"
  | Liquidity "(string \<times> json) option"
  | Commands "sim_command list"
  | Trades "sim_trade list"

type_synonym 'a sim_prog = "(unit, sim_request, sim_response, 'a) prog"

definition ask_unit :: "sim_request \<Rightarrow> unit sim_prog" where
  "ask_unit q = Ask q (\<lambda>r. case r of Inl e \<Rightarrow> Fail e | Inr _ \<Rightarrow> Ret ())"

definition ask_created :: "sim_request \<Rightarrow> bool sim_prog" where
  "ask_created q = await q (\<lambda>r. case r of Created b \<Rightarrow> Some b | _ \<Rightarrow> None)"

definition ask_journal :: "string \<Rightarrow> trade_journal option sim_prog" where
  "ask_journal tid = await (Load_Journal tid) (\<lambda>r. case r of Journal j \<Rightarrow> Some j | _ \<Rightarrow> None)"

definition ask_prepare :: "sim_command \<Rightarrow> prepared_command sim_prog" where
  "ask_prepare c = await (Prepare_Command c) (\<lambda>r. case r of Prepared p \<Rightarrow> Some p | _ \<Rightarrow> None)"

definition ask_receipt :: "string \<Rightarrow> sim_receipt option sim_prog" where
  "ask_receipt cid = await (Load_Receipt cid) (\<lambda>r. case r of Receipt x \<Rightarrow> Some x | _ \<Rightarrow> None)"

definition ask_complete ::
  "sim_command \<Rightarrow> sim_receipt \<Rightarrow> string \<Rightarrow> json \<Rightarrow> sim_event list \<Rightarrow> completion sim_prog" where
  "ask_complete c r schema payload events =
     await (Complete_Command c r schema payload events) (\<lambda>r. case r of Completed x \<Rightarrow> Some x | _ \<Rightarrow> None)"

definition ask_frame :: "string \<Rightarrow> string \<Rightarrow> int \<Rightarrow> recorded_frame option sim_prog" where
  "ask_frame tape symbol as_of = await (Load_Frame tape symbol as_of)
     (\<lambda>r. case r of Frame x \<Rightarrow> Some x | _ \<Rightarrow> None)"

definition ask_liquidity :: "string \<Rightarrow> string \<Rightarrow> (string \<times> json) option sim_prog" where
  "ask_liquidity session symbol = await (Load_Liquidity session symbol)
     (\<lambda>r. case r of Liquidity x \<Rightarrow> Some x | _ \<Rightarrow> None)"

section \<open>Lineage helpers\<close>

abbreviation integrity :: "string \<Rightarrow> exn" where
  "integrity msg \<equiv> Exn SimulationControllerIntegrityError msg"

definition state_schema_version :: string where
  "state_schema_version = ''sim-liquidity-state.v1''"

definition terminal_states :: "trade_state set" where
  "terminal_states = {FLAT, UNRESOLVED, STATE_NO_FILL, STATE_BLOCKED}"

definition required :: "'a option \<Rightarrow> string \<Rightarrow> 'a res" where
  "required v name = (case v of Some a \<Rightarrow> Inr a | None \<Rightarrow> Inl (integrity (''simulation '' @ name @ '' is missing'')))"

definition validate_timestamp :: "string \<Rightarrow> int \<Rightarrow> unit res" where
  "validate_timestamp name v = ensure [(\<not> v < 0,
     Exn ValueError (name @ '' must be a non-negative integer Unix timestamp in milliseconds''))]"

definition validate_sha256 :: "string \<Rightarrow> string \<Rightarrow> unit res" where
  "validate_sha256 name v = ensure [(length v = 64 \<and> list_all is_hex_lower v,
     Exn ValueError (name @ '' must be a lowercase SHA-256 hex string''))]"

definition session_from_admission :: "admission_v2 \<Rightarrow> sim_session res" where
  "session_from_admission a = (case ad_session a of Some s \<Rightarrow> Inr s
     | None \<Rightarrow> Inl (integrity ''simulation admission is missing its immutable session''))"

definition intent_from_admission :: "admission_v2 \<Rightarrow> sim_intent res" where
  "intent_from_admission a = (case ad_intent a of Some i \<Rightarrow> Inr i
     | None \<Rightarrow> Inl (integrity ''simulation admission is missing its immutable intent''))"

definition admission_from_trade :: "sim_trade \<Rightarrow> admission_v2 res" where
  "admission_from_trade t = (case tr_admission t of Admission_V2 a \<Rightarrow> Inr a
     | Admission_V1 \<Rightarrow> Inl (integrity ''durable simulator controller requires admission.v2''))"

definition session_from_trade :: "sim_trade \<Rightarrow> sim_session res" where
  "session_from_trade t = rbind (admission_from_trade t) session_from_admission"

definition intent_from_trade :: "sim_trade \<Rightarrow> sim_intent res" where
  "intent_from_trade t = rbind (admission_from_trade t) intent_from_admission"

definition checked_side :: "sim_trade \<Rightarrow> trade_side res" where
  "checked_side t = (case tr_side t of OTHER_SIDE _ \<Rightarrow> Inl (integrity ''simulation trade must be directional'')
     | s \<Rightarrow> Inr s)"

definition journal_of :: "sim_trade \<Rightarrow> trade_journal sim_prog" where
  "journal_of t =
     bindp (liftp (required (tr_trade_id t) ''trade trade_id'')) (\<lambda>tid.
     bindp (ask_journal tid) (\<lambda>j.
       case j of
         Some journal \<Rightarrow> if jo_trade journal \<noteq> t
           then Fail (integrity ''simulation trade journal is missing or has mixed lineage'')
           else Ret journal
       | None \<Rightarrow> Fail (integrity ''simulation trade journal is missing or has mixed lineage'')))"

section \<open>Quantities of a journal\<close>

definition entry_events :: "event_type set" where
  "entry_events = {ENTRY_FILLED, ENTRY_PARTIAL}"

definition exit_events :: "event_type set" where
  "exit_events = {STOP_TRIGGERED, TARGET_TRIGGERED, TIMEOUT_TRIGGERED}"

definition event_quantity :: "string \<Rightarrow> sim_event \<Rightarrow> rat res" where
  "event_quantity field e = (case ev_filled_quantity e of Some v \<Rightarrow> decimal_from_contract v field
     | None \<Rightarrow> raise ValueError (field @ '' must be a finite numeric contract value''))"

definition events_quantity :: "event_type set \<Rightarrow> string \<Rightarrow> trade_journal \<Rightarrow> rat res" where
  "events_quantity types field j =
     rbind (rtraverse (event_quantity field) (filter (\<lambda>e. ev_type e \<in> types) (jo_events j)))
       (\<lambda>qs. Inr (dsum 28 qs))"

definition entry_filled_quantity :: "trade_journal \<Rightarrow> rat res" where
  "entry_filled_quantity = events_quantity entry_events ''entry_event_filled_quantity''"

definition exit_filled_quantity :: "trade_journal \<Rightarrow> rat res" where
  "exit_filled_quantity = events_quantity exit_events ''exit_event_filled_quantity''"

definition remaining_quantity :: "trade_journal \<Rightarrow> rat res" where
  "remaining_quantity j = rbind (entry_filled_quantity j) (\<lambda>entry.
     rbind (exit_filled_quantity j) (\<lambda>exited. Inr (dsub 28 entry exited)))"

definition first_entry_event :: "trade_journal \<Rightarrow> sim_event res" where
  "first_entry_event j = (case filter (\<lambda>e. ev_type e \<in> entry_events) (jo_events j) of
     [e] \<Rightarrow> Inr e
   | _ \<Rightarrow> Inl (integrity ''active simulation trade must have exactly one entry fill''))"

section \<open>Commands\<close>

definition entry_command :: "contracts \<Rightarrow> string \<Rightarrow> sim_trade \<Rightarrow> sim_command res" where
  "entry_command core src t =
     rbind (admission_from_trade t) (\<lambda>admission.
     rbind (intent_from_admission admission) (\<lambda>intent.
     rbind (required (ad_quantity admission) ''admission quantity'') (\<lambda>quantity.
     rbind (required (ad_price_cap admission) ''admission price_cap'') (\<lambda>price_cap.
       mk_command core
         \<lparr> ca_source = src, ca_trade = t, ca_kind = ENTRY_IOC, ca_quantity = quantity,
           ca_price_cap = price_cap, ca_submitted_at_ms = tr_created_at_ms t,
           ca_persisted_at_ms = tr_created_at_ms t,
           ca_eligible_at_ms = max (in_entry_eligible_ts_ms intent) (tr_created_at_ms t),
           ca_expires_at_ms = in_entry_expires_ts_ms intent \<rparr>))))"

definition exit_command ::
  "contracts \<Rightarrow> string \<Rightarrow> sim_trade \<Rightarrow> command_kind \<Rightarrow> rat \<Rightarrow> rat \<Rightarrow> int \<Rightarrow> sim_command res" where
  "exit_command core src t kind quantity price_cap trigger_at_ms =
     rbind (session_from_trade t) (\<lambda>session.
       mk_command core
         \<lparr> ca_source = src, ca_trade = t, ca_kind = kind, ca_quantity = to_float quantity,
           ca_price_cap = to_float price_cap, ca_submitted_at_ms = trigger_at_ms,
           ca_persisted_at_ms = trigger_at_ms, ca_eligible_at_ms = trigger_at_ms,
           ca_expires_at_ms = min (trigger_at_ms + sa_maximum_book_age_ms (ss_assumptions session))
             (ss_ends_at_ms session) \<rparr>)"

definition adverse_exit_cap :: "rat \<Rightarrow> trade_side \<Rightarrow> sim_trade \<Rightarrow> rat res" where
  "adverse_exit_cap price side t =
     rbind (session_from_trade t) (\<lambda>session.
     rbind (decimal_from_contract (sa_price_tick (ss_assumptions session)) ''simulation_price_tick'') (\<lambda>tick.
     rbind (ddiv_res 28 price tick) (\<lambda>ticks.
       let rounded = dmul 28 (if side = LONG then to_integral_floor ticks else to_integral_ceiling ticks) tick
       in if rounded \<le> 0 then Inl (integrity ''adverse simulator exit price cap is not positive'')
          else Inr rounded)))"

text \<open>Which protective level a closed bar crosses: the stop is checked first (\<open>STOP_WINS\<close>).\<close>

definition exit_trigger ::
  "trade_side \<Rightarrow> rat \<Rightarrow> rat \<Rightarrow> rat \<Rightarrow> rat \<Rightarrow> (command_kind \<times> rat) option res" where
  "exit_trigger side low high stop target =
     (case side of
        LONG \<Rightarrow> Inr (if low \<le> stop then Some (STOP_EXIT_IOC, stop)
                     else if target \<le> high then Some (TARGET_EXIT_IOC, target) else None)
      | SHORT \<Rightarrow> Inr (if stop \<le> high then Some (STOP_EXIT_IOC, stop)
                      else if low \<le> target then Some (TARGET_EXIT_IOC, target) else None)
      | OTHER_SIDE _ \<Rightarrow> Inl (integrity ''active simulation trade is not directional''))"

section \<open>Events\<close>

definition trade_event_ids :: "sim_trade \<Rightarrow> (string \<times> string \<times> string \<times> string) res" where
  "trade_event_ids t =
     rbind (required (tr_session_id t) ''trade session_id'') (\<lambda>sid.
     rbind (required (tr_admission_id t) ''trade admission_id'') (\<lambda>aid.
     rbind (required (tr_intent_id t) ''trade intent_id'') (\<lambda>iid.
     rbind (required (tr_trade_id t) ''trade trade_id'') (\<lambda>tid. Inr (sid, aid, iid, tid)))))"

text \<open>The event type and the next state of the trade for a terminal receipt.\<close>

definition receipt_transition ::
  "sim_command \<Rightarrow> sim_receipt \<Rightarrow> trade_journal \<Rightarrow> (event_type \<times> trade_state) res" where
  "receipt_transition c r j =
     rbind (decimal_from_contract (ra_filled_quantity r) ''receipt_filled_quantity'') (\<lambda>filled.
       if ca_kind c = ENTRY_IOC then
         (if jo_state j \<noteq> PENDING then Inl (integrity ''simulator entry does not start from PENDING'')
          else Inr (case ra_status r of
              FILLED \<Rightarrow> (ENTRY_FILLED, ACTIVE)
            | PARTIAL \<Rightarrow> (ENTRY_PARTIAL, ACTIVE)
            | NO_FILL \<Rightarrow> (ENTRY_NO_FILL, STATE_NO_FILL)
            | _ \<Rightarrow> (if ''NO_ADMITTED_BOOK'' \<in> set (ra_reason_codes r)
                      then (NO_ADMITTED_BOOK, STATE_BLOCKED) else (SOURCE_BARRIER, STATE_BLOCKED))))
       else
         (if jo_state j \<noteq> ACTIVE then Inl (integrity ''simulator exit does not start from ACTIVE'')
          else if ra_status r \<in> {FILLED, PARTIAL} then
            rbind (exit_filled_quantity j) (\<lambda>current_exit.
            rbind (entry_filled_quantity j) (\<lambda>entry.
              if filled \<le> 0 \<or> dadd 28 current_exit filled > entry
              then Inl (integrity ''simulator exit receipt exceeds active exposure'')
              else Inr (case ca_kind c of STOP_EXIT_IOC \<Rightarrow> STOP_TRIGGERED | TARGET_EXIT_IOC \<Rightarrow> TARGET_TRIGGERED
                          | _ \<Rightarrow> TIMEOUT_TRIGGERED,
                        if dadd 28 current_exit filled = entry then FLAT else UNRESOLVED)))
          else Inr (UNRESOLVED_EVENT, UNRESOLVED)))"

definition event_for_receipt ::
  "contracts \<Rightarrow> string \<Rightarrow> sim_command \<Rightarrow> sim_receipt \<Rightarrow> trade_journal \<Rightarrow> sim_event res" where
  "event_for_receipt core src c r j =
     rbind (receipt_transition c r j) (\<lambda>(etype, to_state).
     rbind (trade_event_ids (ca_trade c)) (\<lambda>(sid, aid, iid, tid).
     rbind (required (tr_symbol (ca_trade c)) ''trade symbol'') (\<lambda>symbol.
     rbind (checked_side (ca_trade c)) (\<lambda>side.
     rbind (required (sc_command_id c) ''command_id'') (\<lambda>command_id.
     rbind (required (sr_receipt_id r) ''receipt_id'') (\<lambda>receipt_id.
       mk_event core
         \<lparr> ev_source = src, ev_session_id = sid, ev_admission_id = aid, ev_intent_id = iid,
           ev_trade_id = tid, ev_seq = jo_next_event_seq j,
           ev_previous_event_sha256 = jo_head_sha256 j, ev_type = etype,
           ev_from_state = Some (jo_state j), ev_to_state = to_state,
           ev_occurred_at_ms = ra_arrival_at_ms r, ev_symbol = symbol, ev_side = side,
           ev_command_id = Some command_id, ev_receipt_id = Some receipt_id,
           ev_filled_quantity = Some (ra_filled_quantity r), ev_average_price = ra_average_price r,
           ev_model_frame_sha256 = ra_model_frame_sha256 r,
           ev_reason_codes = ''SIM_IOC'' # ra_reason_codes r \<rparr>))))))"

definition root_event :: "contracts \<Rightarrow> string \<Rightarrow> sim_trade \<Rightarrow> int \<Rightarrow> sim_event res" where
  "root_event core src t created_at_ms =
     rbind (trade_event_ids t) (\<lambda>(sid, aid, iid, tid).
     rbind (required (tr_symbol t) ''trade symbol'') (\<lambda>symbol.
     rbind (checked_side t) (\<lambda>side.
       mk_event core
         \<lparr> ev_source = src, ev_session_id = sid, ev_admission_id = aid, ev_intent_id = iid,
           ev_trade_id = tid, ev_seq = 1, ev_previous_event_sha256 = None, ev_type = ADMITTED_EVENT,
           ev_from_state = None, ev_to_state = PENDING, ev_occurred_at_ms = created_at_ms,
           ev_symbol = symbol, ev_side = side, ev_command_id = None, ev_receipt_id = None,
           ev_filled_quantity = None, ev_average_price = None, ev_model_frame_sha256 = None,
           ev_reason_codes = [''SIM_ADMISSION''] \<rparr>)))"

definition unresolved_event ::
  "contracts \<Rightarrow> string \<Rightarrow> sim_trade \<Rightarrow> trade_journal \<Rightarrow> int \<Rightarrow> string \<Rightarrow> sim_event res" where
  "unresolved_event core src t j occurred_at_ms reason =
     rbind (trade_event_ids t) (\<lambda>(sid, aid, iid, tid).
     rbind (required (tr_symbol t) ''trade symbol'') (\<lambda>symbol.
     rbind (checked_side t) (\<lambda>side.
       mk_event core
         \<lparr> ev_source = src, ev_session_id = sid, ev_admission_id = aid, ev_intent_id = iid,
           ev_trade_id = tid, ev_seq = jo_next_event_seq j,
           ev_previous_event_sha256 = jo_head_sha256 j, ev_type = UNRESOLVED_EVENT,
           ev_from_state = Some ACTIVE, ev_to_state = UNRESOLVED, ev_occurred_at_ms = occurred_at_ms,
           ev_symbol = symbol, ev_side = side, ev_command_id = None, ev_receipt_id = None,
           ev_filled_quantity = None, ev_average_price = None, ev_model_frame_sha256 = None,
           ev_reason_codes = [reason] \<rparr>)))"

section \<open>Terminal results\<close>

text \<open>\<^verbatim>\<open>_fill_totals\<close>: quantity, notional and fees of the receipts behind the fill events.\<close>

fun fill_totals ::
  "event_type set \<Rightarrow> sim_event list \<Rightarrow> rat \<times> rat \<times> rat \<Rightarrow> (rat \<times> rat \<times> rat) sim_prog" where
  "fill_totals types [] acc = Ret acc"
| "fill_totals types (e # es) (quantity, notional, fees) =
     (if ev_type e \<notin> types then fill_totals types es (quantity, notional, fees)
      else case ev_command_id e of
        None \<Rightarrow> Fail (integrity ''simulation fill event is missing command lineage'')
      | Some cid \<Rightarrow>
          bindp (ask_receipt cid) (\<lambda>r. case r of
            None \<Rightarrow> Fail (integrity ''simulation fill event is missing its durable receipt'')
          | Some receipt \<Rightarrow>
              if sr_receipt_id receipt \<noteq> ev_receipt_id e
              then Fail (integrity ''simulation fill event is missing its durable receipt'')
              else bindp (liftp (decimal_from_contract (ra_filled_quantity receipt) ''receipt_filled_quantity'')) (\<lambda>filled.
                case ra_average_price receipt of
                  None \<Rightarrow> Fail (integrity ''simulation fill receipt is missing its average price'')
                | Some average \<Rightarrow>
                    bindp (liftp (decimal_from_contract average ''receipt_average_price'')) (\<lambda>price.
                    bindp (liftp (decimal_from_contract (ra_fee_quote receipt) ''receipt_fee_quote'')) (\<lambda>fee.
                      fill_totals types es
                        (dadd 28 quantity filled, dadd 28 notional (dmul 28 filled price), dadd 28 fees fee))))))"

definition result_fields ::
  "string \<Rightarrow> (string \<times> string \<times> string \<times> string) \<Rightarrow> string \<Rightarrow> sim_event \<Rightarrow> trade_state \<Rightarrow> result_args" where
  "result_fields src ids event_id terminal state = (case ids of (sid, aid, iid, tid) \<Rightarrow>
     \<lparr> re_source = src, re_session_id = sid, re_admission_id = aid, re_intent_id = iid, re_trade_id = tid,
       re_terminal_event_id = event_id, re_completed_at_ms = ev_occurred_at_ms terminal,
       re_final_state = state, re_entry_filled_quantity = Fin 0, re_exit_filled_quantity = Fin 0,
       re_entry_average_price = None, re_exit_average_price = None,
       re_model_realized_pnl_quote = None, re_model_fee_quote = None,
       re_reason_codes = ev_reason_codes terminal \<rparr>)"

text \<open>The result of a trade that had an entry fill, from its totals.\<close>

definition filled_result ::
  "trade_side \<Rightarrow> trade_state \<Rightarrow> rat \<times> rat \<times> rat \<Rightarrow> rat \<times> rat \<times> rat \<Rightarrow> result_args \<Rightarrow> result_args res" where
  "filled_result side state entry exited base =
     (case (entry, exited) of ((entry_quantity, entry_notional, entry_fees), (exit_quantity, exit_notional, exit_fees)) \<Rightarrow>
       rbind (ensure
         [(\<not> entry_quantity \<le> 0, integrity ''terminal simulation trade has no entry fill evidence''),
          (\<not> (state = FLAT \<and> exit_quantity \<noteq> entry_quantity),
             integrity ''flat simulation trade does not have matched fill quantities''),
          (\<not> (state = UNRESOLVED \<and> \<not> (0 \<le> exit_quantity \<and> exit_quantity < entry_quantity)),
             integrity ''unresolved simulation trade does not retain positive remaining exposure'')])
       (\<lambda>_. let entry_average = ddiv 28 entry_notional entry_quantity;
               exit_average = (if exit_quantity = 0 then None else Some (ddiv 28 exit_notional exit_quantity));
               matched = dmul 28 entry_average exit_quantity;
               gross_pnl = (if side = LONG then dsub 28 exit_notional matched else dsub 28 matched exit_notional)
           in Inr (base
             \<lparr> re_entry_filled_quantity := to_float entry_quantity,
               re_exit_filled_quantity := to_float exit_quantity,
               re_entry_average_price := Some (to_float entry_average),
               re_exit_average_price := map_option to_float exit_average,
               re_model_realized_pnl_quote := Some (to_float gross_pnl),
               re_model_fee_quote := Some (to_float (dadd 28 entry_fees exit_fees)) \<rparr>)))"

definition ensure_terminal_result :: "contracts \<Rightarrow> string \<Rightarrow> sim_trade \<Rightarrow> result_args option sim_prog" where
  "ensure_terminal_result core src t =
     bindp (journal_of t) (\<lambda>j.
       if jo_state j \<notin> terminal_states then Ret None
       else if jo_events j = [] then Fail (integrity ''terminal simulation trade has no lifecycle events'')
       else let terminal = last (jo_events j) in
         bindp (liftp (required (se_event_id terminal) ''terminal event_id'')) (\<lambda>event_id.
         bindp (liftp (trade_event_ids t)) (\<lambda>ids.
           let base = result_fields src ids event_id terminal (jo_state j) in
           bindp
             (if jo_state j \<in> {STATE_NO_FILL, STATE_BLOCKED} then liftp (mk_result core base)
              else bindp (fill_totals entry_events (jo_events j) (0, 0, 0)) (\<lambda>entry.
                   bindp (fill_totals exit_events (jo_events j) (0, 0, 0)) (\<lambda>exited.
                   bindp (liftp (checked_side t)) (\<lambda>side.
                   bindp (liftp (filled_result side (jo_state j) entry exited base)) (\<lambda>args.
                     liftp (mk_result core args))))))
             (\<lambda>result. bindp (ask_unit (Record_Result result)) (\<lambda>_. Ret (Some result))))))"

definition mark_unresolved ::
  "contracts \<Rightarrow> string \<Rightarrow> sim_trade \<Rightarrow> trade_journal \<Rightarrow> int \<Rightarrow> string \<Rightarrow> unit sim_prog" where
  "mark_unresolved core src t j occurred_at_ms reason =
     (if jo_state j \<noteq> ACTIVE then Ret ()
      else bindp (liftp (unresolved_event core src t j occurred_at_ms reason)) (\<lambda>event.
           bindp (ask_unit (Append_Event event)) (\<lambda>_.
           bindp (ensure_terminal_result core src t) (\<lambda>_. Ret ()))))"

section \<open>Evaluation of a prepared command\<close>

definition load_liquidity_state :: "contracts \<Rightarrow> sim_command \<Rightarrow> liquidity_state sim_prog" where
  "load_liquidity_state core c =
     bindp (liftp (session_from_trade (ca_trade c))) (\<lambda>session.
     bindp (liftp (required (sc_symbol c) ''command symbol'')) (\<lambda>symbol.
     bindp (liftp (required (sc_session_id c) ''command session_id'')) (\<lambda>sid.
     bindp (ask_liquidity sid symbol) (\<lambda>stored. case stored of
       None \<Rightarrow>
         bindp (liftp (admission_from_trade (ca_trade c))) (\<lambda>admission.
         case ad_selected_stream_epoch admission of
           None \<Rightarrow> Fail (integrity ''approved simulation admission has no recorded-book stream epoch'')
         | Some epoch \<Rightarrow> liftp (rbind (kernel_symbol symbol) (\<lambda>y.
             let st = initial_liquidity sid (ss_tape_id session) epoch y
             in rbind (validate_state st) (\<lambda>_. Inr st))))
     | Some (version, payload) \<Rightarrow>
         if version \<noteq> state_schema_version
         then Fail (integrity ''simulation private liquidity state schema is unsupported'')
         else case load_state core payload of
           Inl e \<Rightarrow> Fail (integrity ''stored simulator liquidity state no longer satisfies its immutable model'')
         | Inr st \<Rightarrow>
             if Some (ls_session_id st) \<noteq> sc_session_id c \<or> ls_tape_id st \<noteq> ss_tape_id session
                 \<or> symbol_text (ls_symbol st) \<noteq> symbol
             then Fail (integrity ''stored simulator liquidity state has mixed lineage'')
             else Ret st))))"

definition terminal_without_book ::
  "sim_command \<Rightarrow> liquidity_state \<Rightarrow> string \<Rightarrow> int \<Rightarrow> string \<Rightarrow> fill_status \<Rightarrow> model_step res" where
  "terminal_without_book c st assumptions_sha256 as_of reason status =
     rbind (kernel_command c) (\<lambda>k.
     rbind (session_from_trade (ca_trade c)) (\<lambda>session.
       let arrival = cmd_submitted_at_ms k + sa_latency_ms (ss_assumptions session) in
       rbind (ensure
         [(\<not> as_of < arrival, Exn ValueError ''a terminal simulator outcome cannot predate command arrival''),
          (\<not> as_of < ls_last_as_of_ms st, Exn ValueError ''simulator evaluation clock cannot regress''),
          (\<not> arrival < ls_last_arrival_at_ms st, Exn SimulationIdentityConflict
             ''new command arrival predates an already processed terminal command''),
          (ls_assumptions_sha256 st \<in> {None, Some assumptions_sha256},
             Exn SimulationIdentityConflict ''simulation assumptions changed inside one session'')])
       (\<lambda>_. let command_sha256 = fingerprint (command_json k);
               out = \<lparr> fo_command_id = cmd_command_id k, fo_command_sha256 = command_sha256,
                       fo_assumptions_sha256 = assumptions_sha256, fo_frame_sha256 = None,
                       fo_status = status, fo_reason = reason, fo_arrival_at_ms = arrival,
                       fo_requested_quantity = cmd_quantity k, fo_filled_quantity = 0,
                       fo_cancelled_quantity = cmd_quantity k, fo_average_price = None,
                       fo_notional_quote = 0, fo_fee_quote = 0, fo_arrival_mid_price = None,
                       fo_implementation_shortfall_quote = 0, fo_level_fills = [] \<rparr>;
               receipt = \<lparr> rc_command_id = cmd_command_id k, rc_command_sha256 = command_sha256,
                           rc_assumptions_sha256 = assumptions_sha256, rc_outcome = out \<rparr>;
               st' = st \<lparr> ls_assumptions_sha256 := Some assumptions_sha256, ls_last_as_of_ms := as_of,
                          ls_last_arrival_at_ms := arrival, ls_receipts := ls_receipts st @ [receipt] \<rparr>
           in rbind (validate_outcome out) (\<lambda>_. rbind (validate_receipt receipt) (\<lambda>_.
              rbind (validate_state st') (\<lambda>_. make_step out st' False))))))"

definition evaluate_prepared ::
  "contracts \<Rightarrow> string \<Rightarrow> sim_command \<Rightarrow> int \<Rightarrow> (sim_receipt option \<times> liquidity_state) sim_prog" where
  "evaluate_prepared core src c as_of =
     bindp (liftp (session_from_trade (ca_trade c))) (\<lambda>session.
     bindp (liftp (kernel_assumptions session)) (\<lambda>pol.
     bindp (load_liquidity_state core c) (\<lambda>st.
     bindp (liftp (kernel_command c)) (\<lambda>k.
       let arrival = cmd_submitted_at_ms k + as_latency_ms pol;
           finish = (\<lambda>step fr. bindp (liftp (command_receipt core src c (ms_outcome step) fr))
                       (\<lambda>receipt. Ret (Some receipt, ms_state step)))
       in
       if as_of < arrival then Ret (None, st)
       else if list_ex (\<lambda>r. rc_command_id r = cmd_command_id k) (ls_receipts st)
       then Fail (integrity ''prepared simulation command is already present in private liquidity state'')
       else if arrival > ca_expires_at_ms c then
         bindp (liftp (terminal_without_book c st (fingerprint (assumptions_json pol)) as_of
           ''COMMAND_EXPIRED'' NO_FILL)) (\<lambda>step. finish step None)
       else
         bindp (liftp (required (sc_symbol c) ''command symbol'')) (\<lambda>symbol.
         bindp (ask_frame (ss_tape_id session) symbol arrival) (\<lambda>fr. case fr of
           None \<Rightarrow>
             bindp (liftp (terminal_without_book c st (fingerprint (assumptions_json pol)) as_of
               ''NO_ADMITTED_BOOK'' BLOCKED)) (\<lambda>step. finish step None)
         | Some recorded \<Rightarrow>
             bindp (liftp (kernel_frame recorded)) (\<lambda>f.
             bindp (liftp (simulate_ioc k f pol st as_of)) (\<lambda>step.
               if fo_status (ms_outcome step) = WAIT then Ret (None, st)
               else finish step (Some recorded)))))))))"

section \<open>The public operations\<close>

record execution_outcome =
  eo_trade :: sim_trade
  eo_command :: sim_command
  eo_receipt :: "sim_receipt option"
  eo_lifecycle_state :: trade_state
  eo_replayed :: bool

definition pending :: "execution_outcome \<Rightarrow> bool" where
  "pending o' = (eo_receipt o' = None)"

definition process_command :: "contracts \<Rightarrow> string \<Rightarrow> sim_command \<Rightarrow> int \<Rightarrow> execution_outcome sim_prog" where
  "process_command core src c0 as_of =
     bindp (liftp (validate_timestamp ''as_of_ms'' as_of)) (\<lambda>_.
     bindp (ask_prepare c0) (\<lambda>prepared. let c = pc_command prepared in
     bindp (journal_of (ca_trade c)) (\<lambda>j.
       if pc_status prepared = ''COMPLETED'' then
         bindp (liftp (required (sc_command_id c) ''command_id'')) (\<lambda>cid.
         bindp (ask_receipt cid) (\<lambda>receipt.
           if receipt = None then Fail (integrity ''completed simulation command has no durable receipt'')
           else bindp (ensure_terminal_result core src (ca_trade c)) (\<lambda>_.
                bindp (journal_of (ca_trade c)) (\<lambda>refreshed.
                  Ret \<lparr> eo_trade = ca_trade c, eo_command = c, eo_receipt = receipt,
                        eo_lifecycle_state = jo_state refreshed, eo_replayed = True \<rparr>))))
       else if pc_status prepared \<noteq> ''PREPARED''
       then Fail (integrity ''simulation command has an unknown durable status'')
       else
         bindp (evaluate_prepared core src c as_of) (\<lambda>(receipt, next_state). case receipt of
           None \<Rightarrow> Ret \<lparr> eo_trade = ca_trade c, eo_command = c, eo_receipt = None,
                         eo_lifecycle_state = jo_state j, eo_replayed = False \<rparr>
         | Some r \<Rightarrow>
             bindp (liftp (event_for_receipt core src c r j)) (\<lambda>event.
             bindp (ask_complete c r state_schema_version (dump_state core next_state) [event]) (\<lambda>completion.
               if \<not> co_created completion \<and> co_receipt completion \<noteq> r
               then Fail (integrity ''simulation command completion differs from its receipt'')
               else bindp (ensure_terminal_result core src (ca_trade c)) (\<lambda>_.
                    bindp (journal_of (ca_trade c)) (\<lambda>refreshed.
                      Ret \<lparr> eo_trade = ca_trade c, eo_command = c, eo_receipt = Some (co_receipt completion),
                            eo_lifecycle_state = jo_state refreshed,
                            eo_replayed = (\<not> co_created completion) \<rparr>))))))))"

definition start_trade :: "contracts \<Rightarrow> string \<Rightarrow> admission_v2 \<Rightarrow> int \<Rightarrow> sim_trade sim_prog" where
  "start_trade core src admission created_at_ms =
     bindp (liftp (validate_timestamp ''created_at_ms'' created_at_ms)) (\<lambda>_.
     bindp (liftp (session_from_admission admission)) (\<lambda>session.
     bindp (liftp (intent_from_admission admission)) (\<lambda>intent.
     bindp (checkp
       [(\<not> created_at_ms > ss_ends_at_ms session,
           Exn ValueError ''simulation trade cannot start after its immutable session ends''),
        (\<not> created_at_ms > in_entry_expires_ts_ms intent,
           Exn ValueError ''simulation trade cannot start after its immutable intent expires'')]) (\<lambda>_.
     bindp (ask_unit (Create_Admission admission)) (\<lambda>_.
     bindp (liftp (mk_trade core \<lparr> tr_source = src, tr_admission = Admission_V2 admission,
                                   tr_created_at_ms = created_at_ms \<rparr>)) (\<lambda>t.
     bindp (ask_created (Create_Trade t)) (\<lambda>created.
     bindp (liftp (root_event core src t created_at_ms)) (\<lambda>root.
     bindp (ask_unit (Append_Event root)) (\<lambda>_.
     bindp (journal_of t) (\<lambda>j.
       if created \<and> jo_state j \<noteq> PENDING
       then Fail (integrity ''new simulation trade is not pending after admission'')
       else Ret t))))))))))"

definition submit_entry :: "contracts \<Rightarrow> string \<Rightarrow> sim_trade \<Rightarrow> int \<Rightarrow> execution_outcome sim_prog" where
  "submit_entry core src t as_of =
     bindp (liftp (entry_command core src t)) (\<lambda>c. process_command core src c as_of)"

definition process_closed_bar ::
  "contracts \<Rightarrow> string \<Rightarrow> sim_trade \<Rightarrow> closed_bar \<Rightarrow> int \<Rightarrow> execution_outcome option sim_prog" where
  "process_closed_bar core src t bar as_of =
     bindp (liftp (validate_timestamp ''as_of_ms'' as_of)) (\<lambda>_.
     bindp (liftp (required (tr_symbol t) ''trade symbol'')) (\<lambda>symbol.
     bindp (checkp [(\<not> (ba_symbol bar \<noteq> symbol \<or> ba_venue bar \<noteq> ''BINANCE_UM'' \<or> ba_sha256 bar = None),
       Exn ValueError ''simulation exit processing requires its matching canonical Binance UM closed bar'')]) (\<lambda>_.
     let trigger_at_ms = ba_close_time_ms bar + 1 in
     if as_of < trigger_at_ms then Ret None
     else bindp (journal_of t) (\<lambda>j.
     if jo_state j \<noteq> ACTIVE then Ret None
     else bindp (liftp (session_from_trade t)) (\<lambda>session.
     if trigger_at_ms > ss_ends_at_ms session
     then bindp (mark_unresolved core src t j trigger_at_ms ''SESSION_ENDED_BEFORE_EXIT'') (\<lambda>_. Ret None)
     else bindp (liftp (first_entry_event j)) (\<lambda>entry_event.
     bindp (liftp (intent_from_trade t)) (\<lambda>intent. case in_exit_plan intent of
       None \<Rightarrow> Fail (integrity ''active simulation trade has no immutable exit plan'')
     | Some plan \<Rightarrow>
     bindp (liftp (checked_side t)) (\<lambda>side.
     bindp (liftp (decimal_from_contract (ba_low bar) ''closed_bar_low'')) (\<lambda>low.
     bindp (liftp (decimal_from_contract (ba_high bar) ''closed_bar_high'')) (\<lambda>high.
     bindp (liftp (decimal_from_contract (ba_close bar) ''closed_bar_close'')) (\<lambda>close.
     bindp (liftp (decimal_from_contract (ep_stop_price plan) ''exit_plan_stop_price'')) (\<lambda>stop.
     bindp (liftp (decimal_from_contract (ep_target_price plan) ''exit_plan_target_price'')) (\<lambda>target.
     bindp (liftp (exit_trigger side low high stop target)) (\<lambda>crossed.
       let trigger = (if crossed = None
                         \<and> trigger_at_ms \<ge> ev_occurred_at_ms entry_event + ep_max_holding_ms plan
                      then Some (TIMEOUT_EXIT_IOC, close) else crossed)
       in case trigger of
         None \<Rightarrow> Ret None
       | Some (kind, price) \<Rightarrow>
           bindp (liftp (remaining_quantity j)) (\<lambda>quantity.
             if quantity \<le> 0
             then Fail (integrity ''active simulation trade has no positive remaining exposure'')
             else bindp (liftp (adverse_exit_cap price side t)) (\<lambda>cap.
                  bindp (liftp (exit_command core src t kind quantity cap trigger_at_ms)) (\<lambda>c.
                  bindp (process_command core src c as_of) (\<lambda>o'. Ret (Some o')))))))))))))))))))"

definition recover_prepared :: "contracts \<Rightarrow> string \<Rightarrow> string \<Rightarrow> int \<Rightarrow> execution_outcome list sim_prog" where
  "recover_prepared core src session_id as_of =
     bindp (liftp (validate_sha256 ''session_id'' session_id)) (\<lambda>_.
     bindp (liftp (validate_timestamp ''as_of_ms'' as_of)) (\<lambda>_.
     bindp (await (List_Prepared session_id) (\<lambda>r. case r of Commands cs \<Rightarrow> Some cs | _ \<Rightarrow> None)) (\<lambda>cs.
     bindp (mapp (\<lambda>c. process_command core src c as_of) cs) (\<lambda>outcomes.
     bindp (await (List_Terminal session_id) (\<lambda>r. case r of Trades ts \<Rightarrow> Some ts | _ \<Rightarrow> None)) (\<lambda>ts.
     bindp (mapp (\<lambda>t. ensure_terminal_result core src t) ts) (\<lambda>_. Ret outcomes))))))"

end
