(* ===== verification/Sim_Controller_Proofs.thy ===== *)
theory Sim_Controller_Proofs
  imports Sim_Controller Sim_Kernel_Props
begin

text \<open>
  The guards under which the controller writes to its repository, and the lemmas that every
  operation respects them for all answers of the repository.
\<close>

section \<open>Reading and writing requests\<close>

fun read_only :: "sim_request \<Rightarrow> bool" where
  "read_only (Load_Journal _) = True"
| "read_only (Load_Receipt _) = True"
| "read_only (Load_Frame _ _ _) = True"
| "read_only (Load_Liquidity _ _) = True"
| "read_only (List_Prepared _) = True"
| "read_only (List_Terminal _) = True"
| "read_only _ = False"

text \<open>Reading, and recording a result, which the repository keeps once per trade.\<close>

fun settles :: "sim_request \<Rightarrow> bool" where
  "settles (Record_Result _) = True"
| "settles q = read_only q"

lemma asks_mono: "asks P p \<Longrightarrow> (\<And>q. P q \<Longrightarrow> P' q) \<Longrightarrow> asks P' p"
  by (induction p) auto

lemma read_only_settles: "read_only q \<Longrightarrow> settles q"
  by (cases q) auto

lemma asks_journal_of [simp]: "asks read_only (journal_of t)"
  by (auto simp: journal_of_def ask_journal_def intro!: asks_bindp split: option.splits)

lemma asks_fill_totals [simp]: "asks read_only (fill_totals types es acc)"
  by (induction types es acc rule: fill_totals.induct)
    (auto simp: ask_receipt_def intro!: asks_bindp split: option.splits)

lemma asks_load_liquidity_state [simp]: "asks read_only (load_liquidity_state core c)"
  by (auto simp: load_liquidity_state_def ask_liquidity_def intro!: asks_bindp split: option.splits sum.splits)

lemma asks_evaluate_prepared [simp]: "asks read_only (evaluate_prepared core src c as_of)"
  by (auto simp: evaluate_prepared_def ask_frame_def Let_def intro!: asks_bindp split: option.splits)

lemma asks_ensure_terminal_result [simp]: "asks settles (ensure_terminal_result core src t)"
proof -
  have "asks settles (journal_of t)" "asks settles (fill_totals types es acc)" for types es acc
    using asks_mono [OF asks_journal_of read_only_settles] asks_mono [OF asks_fill_totals read_only_settles]
    by auto
  then show ?thesis
    by (auto simp: ensure_terminal_result_def ask_unit_def Let_def intro!: asks_bindp split: sum.splits)
qed

text \<open>Rules for a program that only reads or settles, before a continuation.\<close>

lemma safe_settles_bindp:
  assumes "asks settles p" "\<And>h q. settles q \<Longrightarrow> G h q"
    and "\<And>u e. all_asks settles u \<Longrightarrow> Q s (t @ u) (Inl e)"
    and "\<And>u a. all_asks settles u \<Longrightarrow> safe G (f a) Q s (t @ u)"
  shows "safe G (bindp p f) Q s t"
  unfolding safe_bindp by (rule asks_safe [OF assms(1,2)]) (auto split: sum.splits intro: assms(3,4))

lemma safe_journal_of:
  assumes "G t (Load_Journal (the (tr_trade_id tr)))"
    and "\<And>u e. Q s (t @ u) (Inl e)"
    and "\<And>tid j. tr_trade_id tr = Some tid \<Longrightarrow> jo_trade j = tr \<Longrightarrow>
           Q s (t @ [(Load_Journal tid, Inr (Journal (Some j)))]) (Inr j)"
  shows "safe G (journal_of tr) Q s t"
proof (cases "tr_trade_id tr")
  case None
  then show ?thesis using assms(2) [of "[]"] by (simp add: journal_of_def required_def)
next
  case (Some tid)
  then show ?thesis
    using assms(1,2) assms(3) [OF Some]
    by (auto simp: journal_of_def required_def safe_bindp ask_journal_def safe_await
        split: sim_response.splits option.splits)
qed

text \<open>When only the guards matter.\<close>

abbreviation keeps_guard ::
  "((sim_request, sim_response) trace \<Rightarrow> sim_request \<Rightarrow> bool) \<Rightarrow> 'a sim_prog
   \<Rightarrow> (sim_request, sim_response) trace \<Rightarrow> bool" where
  "keeps_guard G p t \<equiv> safe G p (\<lambda>_ _ _. True) () t"

lemma keeps_guard_bindp:
  assumes "keeps_guard G p t" "\<And>a u. keeps_guard G (f a) u"
  shows "keeps_guard G (bindp p f) t"
  unfolding safe_bindp by (rule safe_conseq [OF assms(1)]) (use assms(2) in \<open>auto split: sum.splits\<close>)

lemma keeps_guard_mapp:
  assumes "\<And>x u. x \<in> set xs \<Longrightarrow> keeps_guard G (f x) u"
  shows "keeps_guard G (mapp f xs) t"
  using assms
proof (induction xs arbitrary: t)
  case (Cons x xs)
  then show ?case by (auto intro!: keeps_guard_bindp)
qed simp

section \<open>The life of a trade\<close>

definition legal_transition :: "trade_state \<Rightarrow> event_type \<Rightarrow> trade_state \<Rightarrow> bool" where
  "legal_transition from e to = (case from of
     PENDING \<Rightarrow> (e, to) \<in> {(ENTRY_FILLED, ACTIVE), (ENTRY_PARTIAL, ACTIVE), (ENTRY_NO_FILL, STATE_NO_FILL),
                          (NO_ADMITTED_BOOK, STATE_BLOCKED), (SOURCE_BARRIER, STATE_BLOCKED)}
   | ACTIVE \<Rightarrow> e \<in> exit_events \<and> to \<in> {FLAT, UNRESOLVED} \<or> (e, to) = (UNRESOLVED_EVENT, UNRESOLVED)
   | _ \<Rightarrow> False)"

lemma receipt_transition_legal:
  assumes "receipt_transition c r j = Inr (e, to)"
  shows "legal_transition (jo_state j) e to"
  using assms
  by (auto simp: receipt_transition_def rbind_eq_Inr legal_transition_def exit_events_def
      split: if_splits fill_status.splits command_kind.splits)

section \<open>The chain of stored liquidity states\<close>

lemma terminal_without_book_inv:
  assumes e: "terminal_without_book c st ph as_of reason status = Inr step" and inv: "kernel_inv st"
    and k: "kernel_command c = Inr k"
  shows "kernel_inv (ms_state step)"
    and "\<exists>rc. ls_receipts (ms_state step) = ls_receipts st @ [rc] \<and> rc_command_id rc = cmd_command_id k
           \<and> rc_outcome rc = ms_outcome step"
    and "fo_level_fills (ms_outcome step) = []" "ls_consumed_depth (ms_state step) = ls_consumed_depth st"
proof -
  have v: "validate_state (ms_state step) = Inr ()"
    and r: "\<exists>rc. ls_receipts (ms_state step) = ls_receipts st @ [rc] \<and> rc_command_id rc = cmd_command_id k
           \<and> rc_outcome rc = ms_outcome step"
    and d: "ls_consumed_depth (ms_state step) = ls_consumed_depth st"
    and f: "fo_level_fills (ms_outcome step) = []"
    using e k unfolding terminal_without_book_def Let_def by (auto simp: rbind_eq_Inr make_step_eq)
  have "depth_of (ms_state step) = depth_of st" using d by (simp add: depth_of_def)
  then show "kernel_inv (ms_state step)" using v r d inv by (auto simp: kernel_inv_def)
  show "\<exists>rc. ls_receipts (ms_state step) = ls_receipts st @ [rc] \<and> rc_command_id rc = cmd_command_id k
           \<and> rc_outcome rc = ms_outcome step" "fo_level_fills (ms_outcome step) = []"
      "ls_consumed_depth (ms_state step) = ls_consumed_depth st"
    using r f d by auto
qed

lemma simulate_ioc_terminal:
  assumes e: "simulate_ioc k f pol st as_of = Inr step" and inv: "kernel_inv st"
    and fresh: "\<not> list_ex (\<lambda>r. rc_command_id r = cmd_command_id k) (ls_receipts st)"
    and arr: "cmd_submitted_at_ms k + as_latency_ms pol \<le> as_of"
  shows "fo_status (ms_outcome step) \<noteq> WAIT" "kernel_inv (ms_state step)"
    "\<exists>rc. ls_receipts (ms_state step) = ls_receipts st @ [rc] \<and> rc_command_id rc = cmd_command_id k
       \<and> rc_outcome rc = ms_outcome step"
proof -
  have "find_receipt st (cmd_command_id k) = None"
    using fresh by (auto simp: find_receipt_None list_ex_iff)
  then have s: "step = evaluated k f pol st as_of (command_hash k) (policy_hash pol)"
    using simulate_ioc_cases [OF e inv, of ?thesis] simulate_ioc_cases [OF e inv] by (auto simp: replays_def)
  show "fo_status (ms_outcome step) \<noteq> WAIT"
    using s arr by (auto simp: evaluated_def decided_def base_outcome_def exact_outcome_def Let_def split: option.splits)
  show "kernel_inv (ms_state step)" by (rule simulate_ioc_keeps_inv [OF e inv])
  show "\<exists>rc. ls_receipts (ms_state step) = ls_receipts st @ [rc] \<and> rc_command_id rc = cmd_command_id k
       \<and> rc_outcome rc = ms_outcome step"
    using s evaluated_receipts [of k pol as_of] arr by (auto simp: arrival_of_def receipt_for_def)
qed

text \<open>The liquidity state of a command: the repository was asked for the state of the command's session and
  symbol, and only the book frame has been read since. No stored state is the fresh state of that session;
  a stored one is its decoded payload, of the current schema and of the same lineage.\<close>

fun frame_read :: "sim_request \<Rightarrow> bool" where
  "frame_read (Load_Frame _ _ _) = True"
| "frame_read _ = False"

definition stored_state :: "contracts \<Rightarrow> sim_command \<Rightarrow> (string \<times> json) option \<Rightarrow> liquidity_state \<Rightarrow> bool" where
  "stored_state core c stored st \<longleftrightarrow>
     (\<exists>session. session_from_trade (ca_trade c) = Inr session
        \<and> sc_session_id c = Some (ls_session_id st) \<and> sc_symbol c = Some (symbol_text (ls_symbol st))
        \<and> ls_tape_id st = ss_tape_id session)
   \<and> (case stored of
        None \<Rightarrow> validate_state st = Inr () \<and> (\<exists>admission epoch. admission_from_trade (ca_trade c) = Inr admission
          \<and> ad_selected_stream_epoch admission = Some epoch
          \<and> st = initial_liquidity (ls_session_id st) (ls_tape_id st) epoch (ls_symbol st))
      | Some (version, payload) \<Rightarrow> version = state_schema_version \<and> load_state core payload = Inr st)"

definition loaded :: "contracts \<Rightarrow> sim_command \<Rightarrow> (sim_request, sim_response) trace \<Rightarrow> liquidity_state \<Rightarrow> bool" where
  "loaded core c h st \<longleftrightarrow> (\<exists>h0 sid symbol stored u. h = h0 @ (Load_Liquidity sid symbol, Inr (Liquidity stored)) # u
     \<and> all_asks frame_read u \<and> sc_session_id c = Some sid \<and> sc_symbol c = Some symbol \<and> stored_state core c stored st)"

lemma loadedI:
  "sc_session_id c = Some sid \<Longrightarrow> sc_symbol c = Some symbol \<Longrightarrow> stored_state core c stored st
    \<Longrightarrow> loaded core c (h @ [(Load_Liquidity sid symbol, Inr (Liquidity stored))]) st"
  unfolding loaded_def by (intro exI [of _ h] exI [of _ sid] exI [of _ symbol] exI [of _ stored] exI [of _ "[]"]) simp

lemma requiredD: "required v name = Inr x \<Longrightarrow> v = Some x"
  by (auto simp: required_def split: option.splits)

lemma kernel_symbolD: "kernel_symbol s = Inr y \<Longrightarrow> symbol_text y = s"
  by (auto simp: kernel_symbol_def literal_def rbind_eq_Inr symbol_text_def split: if_splits)

lemma initial_fields [simp]: "ls_session_id (initial_liquidity s t e y) = s" "ls_tape_id (initial_liquidity s t e y) = t"
  "ls_symbol (initial_liquidity s t e y) = y"
  by (simp_all add: initial_liquidity_def)

lemma load_liquidity_state_loads:
  "wp (load_liquidity_state core c) (\<lambda>s' t' r. \<forall>st. r = Inr st \<longrightarrow> loaded core c t' st) s t"
  unfolding load_liquidity_state_def ask_liquidity_def
  by (auto simp: wp_bindp wp_liftp await_def rbind_eq_Inr Let_def stored_state_def dest!: requiredD kernel_symbolD
      intro!: loadedI split: sum.splits option.splits sim_response.splits)

lemma loaded_frame:
  assumes "loaded core c h st"
  shows "loaded core c (h @ [(Load_Frame tape symbol ms, x)]) st"
proof -
  obtain h0 sid symb stored u where *: "h = h0 @ (Load_Liquidity sid symb, Inr (Liquidity stored)) # u"
    "all_asks frame_read u" "sc_session_id c = Some sid" "sc_symbol c = Some symb" "stored_state core c stored st"
    using assms unfolding loaded_def by blast
  show ?thesis
    unfolding loaded_def
    by (rule exI [of _ h0], rule exI [of _ sid], rule exI [of _ symb], rule exI [of _ stored],
      rule exI [of _ "u @ [(Load_Frame tape symbol ms, x)]"]) (use * in simp)
qed

text \<open>An evaluation either waits for the arrival instant or appends the one receipt of its command to a
  state that satisfies the invariant. It fills only through the kernel, from the loaded state and on the
  frame that the repository answered for the arrival instant; without a frame the consumed depth stays.\<close>

definition evaluation_ok ::
  "contracts \<Rightarrow> string \<Rightarrow> sim_command \<Rightarrow> int \<Rightarrow> (sim_request, sim_response) trace \<Rightarrow> liquidity_state
   \<Rightarrow> sim_receipt option \<Rightarrow> liquidity_state \<Rightarrow> bool" where
  "evaluation_ok core src c as_of h st ro st' \<longleftrightarrow>
     (\<exists>k session. kernel_command c = Inr k \<and> session_from_trade (ca_trade c) = Inr session \<and>
       (let arrival = ca_submitted_at_ms c + sa_latency_ms (ss_assumptions session) in
        case ro of
          None \<Rightarrow> as_of < arrival \<and> st' = st
        | Some r \<Rightarrow> arrival \<le> as_of \<and> kernel_inv st'
            \<and> cmd_command_id k \<notin> rc_command_id ` set (ls_receipts st)
            \<and> (\<exists>rc recorded. ls_receipts st' = ls_receipts st @ [rc] \<and> rc_command_id rc = cmd_command_id k
                 \<and> command_receipt core src c (rc_outcome rc) recorded = Inr r
                 \<and> (case recorded of
                      None \<Rightarrow> fo_level_fills (rc_outcome rc) = [] \<and> ls_consumed_depth st' = ls_consumed_depth st
                        \<and> (ca_expires_at_ms c < arrival
                            \<or> (\<exists>symbol. last h = (Load_Frame (ss_tape_id session) symbol arrival, Inr (Frame None))))
                    | Some fr \<Rightarrow> (\<exists>symbol f pol step. last h = (Load_Frame (ss_tape_id session) symbol arrival, Inr (Frame (Some fr)))
                        \<and> sc_symbol c = Some symbol \<and> kernel_frame fr = Inr f \<and> kernel_assumptions session = Inr pol
                        \<and> simulate_ioc k f pol st as_of = Inr step \<and> ms_outcome step = rc_outcome rc \<and> ms_state step = st')))))"

lemma wp_asks:
  assumes "asks P p" "\<And>u r. Q s (t @ u) r"
  shows "wp p Q s t"
  using assms
proof (induction p arbitrary: t)
  case (Ask q k)
  have "wp (k r) Q s (t @ [(q, r)])" for r
    by (rule Ask.IH [OF rangeI]) (use Ask.prems in auto)
  then show ?case by simp
next
  case (Ret a)
  then show ?case using Ret.prems(2) [of "[]"] by simp
next
  case (Fail e)
  then show ?case using Fail.prems(2) [of "[]"] by simp
qed auto

lemma evaluate_prepared_chain:
  "wp (evaluate_prepared core src c as_of)
     (\<lambda>s' t' r. \<forall>ro st'. r = Inr (ro, st') \<longrightarrow>
        (\<exists>st. loaded core c t' st \<and> (kernel_inv st \<longrightarrow> evaluation_ok core src c as_of t' st ro st'))) s t"
proof (cases "session_from_trade (ca_trade c)")
  case (Inr session)
  note session = Inr
  show ?thesis
  proof (cases "kernel_assumptions session")
    case (Inr pol)
    note Inr_pol = Inr and lat = kernel_assumptions_latency [OF Inr]
    have body: "wp (bindp (liftp (kernel_command c)) (\<lambda>k.
       let arrival = cmd_submitted_at_ms k + as_latency_ms pol;
           finish = (\<lambda>step fr. bindp (liftp (command_receipt core src c (ms_outcome step) fr))
                       (\<lambda>receipt. Ret (Some receipt, ms_state step)))
       in
       if as_of < arrival then Ret (None, st)
       else if list_ex (\<lambda>r. rc_command_id r = cmd_command_id k) (ls_receipts st)
       then Fail (integrity ''prepared simulation command is already present in private liquidity state'')
       else if arrival > ca_expires_at_ms c then
         bindp (liftp (terminal_without_book c st (fingerprint (assumptions_json pol)) as_of
           ''COMMAND_EXPIRED'' NO_FILL)) (\<lambda>step. finish step None)
       else
         bindp (liftp (required (sc_symbol c) ''command symbol'')) (\<lambda>symbol.
         bindp (ask_frame (ss_tape_id session) symbol arrival) (\<lambda>fr. case fr of
           None \<Rightarrow>
             bindp (liftp (terminal_without_book c st (fingerprint (assumptions_json pol)) as_of
               ''NO_ADMITTED_BOOK'' BLOCKED)) (\<lambda>step. finish step None)
         | Some recorded \<Rightarrow>
             bindp (liftp (kernel_frame recorded)) (\<lambda>f.
             bindp (liftp (simulate_ioc k f pol st as_of)) (\<lambda>step.
               if fo_status (ms_outcome step) = WAIT then Ret (None, st)
               else finish step (Some recorded)))))))
      (\<lambda>s' t' r. \<forall>ro st'. r = Inr (ro, st') \<longrightarrow>
        (\<exists>st. loaded core c t' st \<and> (kernel_inv st \<longrightarrow> evaluation_ok core src c as_of t' st ro st'))) s h"
      if l: "loaded core c h st" for st h
    proof (cases "kernel_command c")
      case (Inr k)
      note k = Inr
      let ?arr = "cmd_submitted_at_ms k + as_latency_ms pol"
      have arr: "?arr = ca_submitted_at_ms c + sa_latency_ms (ss_assumptions session)"
        using kernel_command_fields(3) [OF k] lat by simp
      have no_book: "evaluation_ok core src c as_of h' st (Some r) (ms_state step)"
        if "kernel_inv st" "?arr \<le> as_of" "\<not> list_ex (\<lambda>r. rc_command_id r = cmd_command_id k) (ls_receipts st)"
          "command_receipt core src c (ms_outcome step) None = Inr r"
          "terminal_without_book c st ph as_of reason status = Inr step"
          "ca_expires_at_ms c < ?arr \<or> (\<exists>symbol. last h' = (Load_Frame (ss_tape_id session) symbol ?arr, Inr (Frame None)))"
        for step r ph reason status h'
      proof -
        note T = terminal_without_book_inv [OF that(5,1) k]
        then obtain rc where rc: "ls_receipts (ms_state step) = ls_receipts st @ [rc]" "rc_command_id rc = cmd_command_id k"
          "rc_outcome rc = ms_outcome step" by blast
        show ?thesis
          unfolding evaluation_ok_def Let_def
          by (rule exI [of _ k], rule exI [of _ session])
            (use k session that T rc arr in \<open>auto simp: list_ex_iff intro!: exI [of _ rc] exI [of _ None]\<close>)
      qed
      have book: "evaluation_ok core src c as_of h' st (Some r) (ms_state step)"
        if "kernel_inv st" "?arr \<le> as_of" "\<not> list_ex (\<lambda>r. rc_command_id r = cmd_command_id k) (ls_receipts st)"
          "command_receipt core src c (ms_outcome step) (Some fr) = Inr r" "simulate_ioc k f pol st as_of = Inr step"
          "kernel_frame fr = Inr f" "sc_symbol c = Some symbol"
          "last h' = (Load_Frame (ss_tape_id session) symbol ?arr, Inr (Frame (Some fr)))"
        for step r fr f symbol h'
      proof -
        note T = simulate_ioc_terminal [OF that(5,1,3,2)]
        then obtain rc where rc: "ls_receipts (ms_state step) = ls_receipts st @ [rc]" "rc_command_id rc = cmd_command_id k"
          "rc_outcome rc = ms_outcome step" by blast
        show ?thesis
          unfolding evaluation_ok_def Let_def
          by (rule exI [of _ k], rule exI [of _ session])
            (use k session that T rc arr Inr_pol in \<open>auto simp: list_ex_iff intro!: exI [of _ rc] exI [of _ "Some fr"]\<close>)
      qed
      have wait: "evaluation_ok core src c as_of h' st None st" if "as_of < ?arr" for h'
        using that k session arr by (simp add: evaluation_ok_def)
      have nowait: "fo_status (ms_outcome step) \<noteq> WAIT"
        if "kernel_inv st" "?arr \<le> as_of" "\<not> list_ex (\<lambda>r. rc_command_id r = cmd_command_id k) (ls_receipts st)"
          "simulate_ioc k f pol st as_of = Inr step" for step f
        by (rule simulate_ioc_terminal(1) [OF that(4,1,3,2)])
      have L: "loaded core c (h @ [(Load_Frame tape symbol ms, x)]) st" for tape symbol ms x using l by (rule loaded_frame)
      show ?thesis
        unfolding Inr liftp_simps bindp.simps Let_def ask_frame_def await_def
        by (auto simp: wp_bindp wp_liftp not_less dest!: requiredD intro!: exI [of _ st] l L
            intro: no_book book wait dest: nowait split: sum.splits option.splits sim_response.splits)
    qed simp
    show ?thesis
      unfolding evaluate_prepared_def Inr session liftp_simps bindp.simps
      unfolding wp_bindp [of "load_liquidity_state core c"]
      by (rule wp_conseq [OF load_liquidity_state_loads]) (use body in \<open>auto split: sum.splits\<close>)
  qed (simp add: evaluate_prepared_def session)
qed (simp add: evaluate_prepared_def)

lemma asks_safe_wp:
  assumes "asks P p" "wp p Q s t" "\<And>h q. P q \<Longrightarrow> G h q"
  shows "safe G p (\<lambda>s' t' r. s' = s \<and> (\<exists>u. t' = t @ u) \<and> Q s' t' r) s t"
  using assms
proof (induction p arbitrary: t)
  case (Ask q k)
  have "safe G (k r) (\<lambda>s' t' r. s' = s \<and> (\<exists>u. t' = t @ u) \<and> Q s' t' r) s (t @ [(q, r)])" for r
    by (rule safe_conseq [OF Ask.IH [OF rangeI]]) (use Ask.prems in auto)
  then show ?case using Ask.prems by simp
qed auto

section \<open>The guard of every write\<close>

definition journal_read :: "(sim_request, sim_response) trace \<Rightarrow> trade_journal \<Rightarrow> bool" where
  "journal_read h j \<longleftrightarrow> (\<exists>tid. (Load_Journal tid, Inr (Journal (Some j))) \<in> set h)"

definition prepared_read :: "(sim_request, sim_response) trace \<Rightarrow> sim_command \<Rightarrow> bool" where
  "prepared_read h c \<longleftrightarrow> (\<exists>c0 p. (Prepare_Command c0, Inr (Prepared p)) \<in> set h
     \<and> pc_command p = c \<and> pc_status p = ''PREPARED'')"

text \<open>The payload is the next state of an evaluation of the command, whose start state was loaded.\<close>

definition evaluated_payload ::
  "contracts \<Rightarrow> string \<Rightarrow> int \<Rightarrow> (sim_request, sim_response) trace \<Rightarrow> sim_command \<Rightarrow> sim_receipt \<Rightarrow> json \<Rightarrow> bool" where
  "evaluated_payload core src as_of h c r payload \<longleftrightarrow>
     (\<exists>st st'. loaded core c h st \<and> payload = dump_state core st'
        \<and> (kernel_inv st \<longrightarrow> evaluation_ok core src c as_of h st (Some r) st'))"

text \<open>A command is completed only after the repository has answered that it is prepared, together
  with the state that its evaluation left and with the one event that moves the trade legally from
  the state of the journal that was read, at the next sequence number and on top of the current
  head.\<close>

definition completion_guard ::
  "contracts \<Rightarrow> string \<Rightarrow> int \<Rightarrow> (sim_request, sim_response) trace \<Rightarrow> sim_command \<Rightarrow> sim_receipt \<Rightarrow> string
   \<Rightarrow> json \<Rightarrow> sim_event list \<Rightarrow> bool" where
  "completion_guard core src as_of h c r schema payload events \<longleftrightarrow>
     prepared_read h c \<and> schema = state_schema_version \<and> evaluated_payload core src as_of h c r payload \<and>
     (\<exists>j event etype to. journal_read h j \<and> jo_trade j = ca_trade c \<and> events = [event]
        \<and> receipt_transition c r j = Inr (etype, to) \<and> legal_transition (jo_state j) etype to
        \<and> event_for_receipt core src c r j = Inr event)"

text \<open>The guard of the operations on existing trades: a trade is never created, an event is
  appended only to close a trade whose journal was read as active.\<close>

fun write_guard ::
  "contracts \<Rightarrow> string \<Rightarrow> int \<Rightarrow> (sim_request, sim_response) trace \<Rightarrow> sim_request \<Rightarrow> bool" where
  "write_guard core src as_of h (Complete_Command c r schema payload events) =
     completion_guard core src as_of h c r schema payload events"
| "write_guard core src as_of h (Append_Event e) =
     (\<exists>j t when_ms reason. journal_read h j \<and> jo_trade j = t \<and> jo_state j = ACTIVE \<and> unresolved_event core src t j when_ms reason = Inr e)"
| "write_guard core src as_of h (Create_Admission _) = False"
| "write_guard core src as_of h (Create_Trade _) = False"
| "write_guard core src as_of h _ = True"

lemma write_guard_settles: "settles q \<Longrightarrow> write_guard core src as_of h q"
  by (cases q) auto

lemma read_mono:
  "journal_read h j \<Longrightarrow> journal_read (h @ u) j" "prepared_read h c \<Longrightarrow> prepared_read (h @ u) c"
  "journal_read (h @ [(Load_Journal tid, Inr (Journal (Some j)))]) j"
  "pc_status p = ''PREPARED'' \<Longrightarrow> prepared_read (h @ [(Prepare_Command c0, Inr (Prepared p))]) (pc_command p)"
  by (auto simp: journal_read_def prepared_read_def)

lemma event_for_receipt_transition:
  "event_for_receipt core src c r j = Inr e \<Longrightarrow> \<exists>etype to. receipt_transition c r j = Inr (etype, to)"
  by (auto simp: event_for_receipt_def rbind_eq_Inr)

lemma keeps_guard_settles: "asks settles p \<Longrightarrow> keeps_guard (write_guard core src as_of) p t"
  by (rule asks_safe [where P = settles]) (auto intro: write_guard_settles)

lemma keeps_guard_read_only: "asks read_only p \<Longrightarrow> keeps_guard (write_guard core src as_of) p t"
  by (rule keeps_guard_settles) (rule asks_mono [OF _ read_only_settles])

lemma settles_journal_of [simp]: "asks settles (journal_of t)"
  by (rule asks_mono [OF asks_journal_of read_only_settles])

text \<open>The evaluation reads; after it, the completion and the settlement.\<close>

lemma completion_guarded:
  assumes "prepared_read t c" "journal_read t j" "jo_trade j = ca_trade c"
    and "evaluated_payload core src as_of t c r payload"
    and rest: "\<And>x. asks settles (k x)"
  shows "keeps_guard (write_guard core src as_of)
    (bindp (liftp (event_for_receipt core src c r j)) (\<lambda>event.
       bindp (ask_complete c r state_schema_version payload [event]) k)) t"
proof (cases "event_for_receipt core src c r j")
  case (Inr event)
  obtain etype to where rt: "receipt_transition c r j = Inr (etype, to)"
    using event_for_receipt_transition [OF Inr] by blast
  have G: "write_guard core src as_of t (Complete_Command c r state_schema_version payload [event])"
    using assms rt receipt_transition_legal [OF rt] Inr by (auto simp: completion_guard_def)
  show ?thesis
    using G Inr keeps_guard_settles [OF rest]
    by (auto simp: safe_bindp safe_liftp ask_complete_def safe_await split: sim_response.splits)
qed (simp add: safe_bindp)

lemma evaluation_guarded:
  assumes "prepared_read t c" "journal_read t j" "jo_trade j = ca_trade c"
    and "\<And>r st u. prepared_read (t @ u) c \<Longrightarrow> journal_read (t @ u) j \<Longrightarrow>
           (\<And>x. r = Some x \<Longrightarrow> evaluated_payload core src as_of (t @ u) c x (dump_state core st)) \<Longrightarrow>
           keeps_guard (write_guard core src as_of) (f (r, st)) (t @ u)"
  shows "keeps_guard (write_guard core src as_of) (bindp (evaluate_prepared core src c as_of) f) t"
  unfolding safe_bindp
proof (rule safe_conseq [OF asks_safe_wp [OF asks_evaluate_prepared evaluate_prepared_chain]])
  fix h :: "(sim_request, sim_response) trace" and q
  show "read_only q \<Longrightarrow> write_guard core src as_of h q" by (intro write_guard_settles read_only_settles)
next
  fix s' :: unit and t' and r :: "(sim_receipt option \<times> liquidity_state) res"
  assume a: "s' = () \<and> (\<exists>u. t' = t @ u) \<and> (\<forall>ro st'. r = Inr (ro, st') \<longrightarrow>
        (\<exists>st. loaded core c t' st \<and> (kernel_inv st \<longrightarrow> evaluation_ok core src c as_of t' st ro st')))"
  then obtain u where u: "t' = t @ u" by blast
  show "case r of Inl e \<Rightarrow> True | Inr a \<Rightarrow> safe (write_guard core src as_of) (f a) (\<lambda>_ _ _. True) s' t'"
  proof (cases r)
    case (Inr p)
    then obtain ro st where p: "r = Inr (ro, st)" by (cases p) auto
    have "evaluated_payload core src as_of (t @ u) c x (dump_state core st)" if "ro = Some x" for x
      using a u p that unfolding evaluated_payload_def by blast
    then show ?thesis using assms(4) [of u ro st] read_mono(1,2) assms(1,2) p u by simp
  qed simp
qed

lemma process_command_guarded: "keeps_guard (write_guard core src as_of) (process_command core src c0 as_of) t"
proof (cases "validate_timestamp ''as_of_ms'' as_of")
  case (Inr x)
  have after: "keeps_guard (write_guard core src as_of)
      (bindp (journal_of (ca_trade (pc_command p))) k) (t @ [(Prepare_Command c0, Inr (Prepared p))])"
    if "\<And>j u. journal_read u j \<Longrightarrow> jo_trade j = ca_trade (pc_command p) \<Longrightarrow>
       (pc_status p = ''PREPARED'' \<longrightarrow> prepared_read u (pc_command p)) \<Longrightarrow>
       keeps_guard (write_guard core src as_of) (k j) u" for p and k :: "trade_journal \<Rightarrow> execution_outcome sim_prog"
    unfolding safe_bindp
  proof (rule safe_journal_of)
    fix tid and j :: trade_journal
    assume j: "jo_trade j = ca_trade (pc_command p)"
    have prep: "pc_status p = ''PREPARED'' \<longrightarrow> prepared_read
        ((t @ [(Prepare_Command c0, Inr (Prepared p))]) @ [(Load_Journal tid, Inr (Journal (Some j)))]) (pc_command p)"
      using read_mono(2,4) by blast
    show "case Inr j of Inl e \<Rightarrow> True
        | Inr a \<Rightarrow> keeps_guard (write_guard core src as_of) (k a)
            ((t @ [(Prepare_Command c0, Inr (Prepared p))]) @ [(Load_Journal tid, Inr (Journal (Some j)))])"
      unfolding sum.case by (rule that [OF read_mono(3) j prep])
  qed auto
  have prep: "keeps_guard (write_guard core src as_of) (bindp (ask_prepare c0) k) t"
    if "\<And>p. keeps_guard (write_guard core src as_of) (k p) (t @ [(Prepare_Command c0, Inr (Prepared p))])"
    for k :: "prepared_command \<Rightarrow> execution_outcome sim_prog"
    using that by (auto simp: safe_bindp ask_prepare_def safe_await split: sim_response.splits)
  show ?thesis
    unfolding process_command_def Inr liftp_simps bindp.simps Let_def
  proof (rule prep, rule after)
    fix p j u
    assume a: "journal_read u j" "jo_trade j = ca_trade (pc_command p)"
      "pc_status p = ''PREPARED'' \<longrightarrow> prepared_read u (pc_command p)"
    show "keeps_guard (write_guard core src as_of)
      (if pc_status p = ''COMPLETED'' then
         bindp (liftp (required (sc_command_id (pc_command p)) ''command_id'')) (\<lambda>cid.
         bindp (ask_receipt cid) (\<lambda>receipt.
           if receipt = None then Fail (integrity ''completed simulation command has no durable receipt'')
           else bindp (ensure_terminal_result core src (ca_trade (pc_command p))) (\<lambda>_.
                bindp (journal_of (ca_trade (pc_command p))) (\<lambda>refreshed.
                  Ret \<lparr> eo_trade = ca_trade (pc_command p), eo_command = pc_command p, eo_receipt = receipt,
                        eo_lifecycle_state = jo_state refreshed, eo_replayed = True \<rparr>))))
       else if pc_status p \<noteq> ''PREPARED''
       then Fail (integrity ''simulation command has an unknown durable status'')
       else
         bindp (evaluate_prepared core src (pc_command p) as_of) (\<lambda>(receipt, next_state). case receipt of
           None \<Rightarrow> Ret \<lparr> eo_trade = ca_trade (pc_command p), eo_command = pc_command p, eo_receipt = None,
                         eo_lifecycle_state = jo_state j, eo_replayed = False \<rparr>
         | Some r \<Rightarrow>
             bindp (liftp (event_for_receipt core src (pc_command p) r j)) (\<lambda>event.
             bindp (ask_complete (pc_command p) r state_schema_version (dump_state core next_state) [event]) (\<lambda>completion.
               if \<not> co_created completion \<and> co_receipt completion \<noteq> r
               then Fail (integrity ''simulation command completion differs from its receipt'')
               else bindp (ensure_terminal_result core src (ca_trade (pc_command p))) (\<lambda>_.
                    bindp (journal_of (ca_trade (pc_command p))) (\<lambda>refreshed.
                      Ret \<lparr> eo_trade = ca_trade (pc_command p), eo_command = pc_command p,
                            eo_receipt = Some (co_receipt completion), eo_lifecycle_state = jo_state refreshed,
                            eo_replayed = (\<not> co_created completion) \<rparr>)))))) u"
    proof (cases "pc_status p = ''PREPARED''")
      case True
      then have np: "pc_status p \<noteq> ''COMPLETED''" by simp
      show ?thesis
        unfolding if_not_P [OF np] if_not_P [OF notnotD] True
        using True a
        by (auto intro!: evaluation_guarded completion_guarded asks_bindp split: option.splits)
    next
      case False
      then show ?thesis by (auto simp: ask_receipt_def intro!: keeps_guard_settles asks_bindp)
    qed
  qed
qed (simp add: process_command_def safe_bindp)

text \<open>The other operations on existing trades.\<close>

lemma mark_unresolved_guarded:
  assumes "journal_read t j" "jo_trade j = tr"
  shows "keeps_guard (write_guard core src as_of) (mark_unresolved core src tr j when_ms reason) t"
proof (cases "jo_state j = ACTIVE")
  case True
  show ?thesis
  proof (cases "unresolved_event core src tr j when_ms reason")
    case (Inr e)
    then have G: "write_guard core src as_of t (Append_Event e)" using True assms by auto
    have rest: "keeps_guard (write_guard core src as_of)
        (bindp (ensure_terminal_result core src tr) (\<lambda>_. Ret ())) u" for u
      by (rule keeps_guard_settles) (auto intro!: asks_bindp)
    show ?thesis
      using True Inr G rest
      by (auto simp: mark_unresolved_def ask_unit_def split: sum.splits)
  qed (simp add: mark_unresolved_def True)
qed (simp add: mark_unresolved_def)

lemma submit_entry_guarded: "keeps_guard (write_guard core src as_of) (submit_entry core src tr as_of) t"
  by (cases "entry_command core src tr") (simp_all add: submit_entry_def process_command_guarded)

lemma keeps_guard_liftp_bindp:
  "(\<And>a. r = Inr a \<Longrightarrow> keeps_guard G (f a) t) \<Longrightarrow> keeps_guard G (bindp (liftp r) f) t"
  by (cases r) auto

lemma keeps_guard_journal_bindp:
  assumes "\<And>j u. journal_read (t @ u) j \<Longrightarrow> jo_trade j = tr \<Longrightarrow> keeps_guard (write_guard core src as_of) (f j) (t @ u)"
  shows "keeps_guard (write_guard core src as_of) (bindp (journal_of tr) f) t"
  unfolding safe_bindp
  by (rule safe_journal_of) (use assms read_mono(3) in auto)

lemma process_closed_bar_guarded:
  "keeps_guard (write_guard core src as_of) (process_closed_bar core src tr bar as_of) t"
proof -
  have m: "keeps_guard (write_guard core src as_of)
      (bindp (mark_unresolved core src tr' j when_ms reason) (\<lambda>_. Ret (None :: execution_outcome option))) u"
    if "journal_read u j" "jo_trade j = tr'" for tr' j when_ms reason u
    by (rule keeps_guard_bindp [OF mark_unresolved_guarded [OF that]]) simp
  have p: "keeps_guard (write_guard core src as_of)
      (bindp (process_command core src c as_of) (\<lambda>o'. Ret (Some o'))) u" for c u
    by (rule keeps_guard_bindp [OF process_command_guarded]) simp
  show ?thesis
    unfolding process_closed_bar_def Let_def checkp_def
    by (auto intro!: keeps_guard_liftp_bindp keeps_guard_journal_bindp m p split: option.splits)
qed

lemma recover_prepared_guarded:
  "keeps_guard (write_guard core src as_of) (recover_prepared core src sid as_of) t"
proof -
  have fin: "keeps_guard (write_guard core src as_of)
      (bindp (await (List_Terminal sid) (\<lambda>r. case r of Trades ts \<Rightarrow> Some ts | _ \<Rightarrow> None)) (\<lambda>ts.
         bindp (mapp (\<lambda>t. ensure_terminal_result core src t) ts) (\<lambda>_. Ret (out :: execution_outcome list)))) u"
    for u out
    by (rule keeps_guard_settles) (auto intro!: asks_bindp asks_mapp)
  have main: "keeps_guard (write_guard core src as_of)
      (bindp (mapp (\<lambda>c. process_command core src c as_of) cs) (\<lambda>outcomes.
       bindp (await (List_Terminal sid) (\<lambda>r. case r of Trades ts \<Rightarrow> Some ts | _ \<Rightarrow> None)) (\<lambda>ts.
       bindp (mapp (\<lambda>t. ensure_terminal_result core src t) ts) (\<lambda>_. Ret outcomes)))) u" for cs u
    by (rule keeps_guard_bindp [OF keeps_guard_mapp fin]) (rule process_command_guarded)
  have list: "keeps_guard (write_guard core src as_of)
      (await (List_Prepared sid) (\<lambda>r. case r of Commands cs \<Rightarrow> Some cs | _ \<Rightarrow> None)) u" for u
    by (rule keeps_guard_read_only) simp
  show ?thesis
    unfolding recover_prepared_def
    by (auto intro!: keeps_guard_liftp_bindp keeps_guard_bindp [OF list] main)
qed

end
