(* ===== verification/Sim_Controller_Theorems.thy ===== *)
theory Sim_Controller_Theorems
  imports Sim_Controller_Proofs Sim_Kernel_Theorems
begin

text \<open>
  The properties of the simulator's bridge and controller. The requests of a run and their answers
  form its history; a property of a history holds against every repository.
\<close>

section \<open>Writes\<close>

text \<open>C33: whatever the repository answers, the operations on existing trades write only under their
  guard. A command is completed only after the repository has answered that it is prepared; the
  stored payload is the state its evaluation left, started from the state the repository answered for the
  command's session; if that one satisfies the invariant of the kernel, so does the stored one, with one
  more receipt, and not before the arrival instant. The one event moves the trade legally from the state
  that was read, at the next sequence number. An event is appended on its own only to close an active
  trade, built from the journal that was read for that trade. No trade is created.\<close>

theorem controller_write_discipline:
  "guarded (write_guard core src as_of) (fst (snd (run env (submit_entry core src trade as_of) () [])))
   \<and> guarded (write_guard core src as_of) (fst (snd (run env (process_closed_bar core src trade bar as_of) () [])))
   \<and> guarded (write_guard core src as_of) (fst (snd (run env (recover_prepared core src session_id as_of) () [])))"
proof -
  have *: "guarded (write_guard core src as_of) (fst (snd (run env p () [])))"
    if "keeps_guard (write_guard core src as_of) p []" for p :: "'a sim_prog"
    using safe_run [OF that guarded_Nil, of env] by (cases "run env p () []") simp
  show ?thesis
    using * [OF submit_entry_guarded] * [OF process_closed_bar_guarded] * [OF recover_prepared_guarded] by blast
qed

text \<open>C36: the state machine of a trade. Whatever the receipt, the transition the controller derives
  from it is a legal edge: entries leave \<open>PENDING\<close>, exits leave \<open>ACTIVE\<close>, nothing leaves a terminal
  state; an exit receipt never exceeds the open quantity, and the trade becomes flat exactly when it
  equals it.\<close>

theorem receipt_transitions_legal:
  assumes "receipt_transition c r j = Inr (e, to)"
  shows "legal_transition (jo_state j) e to \<and> jo_state j \<notin> terminal_states
    \<and> (e \<in> exit_events \<longrightarrow> (\<exists>filled exited entry.
         decimal_from_contract (ra_filled_quantity r) ''receipt_filled_quantity'' = Inr filled
         \<and> exit_filled_quantity j = Inr exited \<and> entry_filled_quantity j = Inr entry
         \<and> 0 < filled \<and> dadd 28 exited filled \<le> entry
         \<and> to = (if dadd 28 exited filled = entry then FLAT else UNRESOLVED)))"
proof -
  note L = receipt_transition_legal [OF assms]
  have T: "jo_state j \<notin> terminal_states"
    using L by (auto simp: legal_transition_def terminal_states_def)
  obtain filled where f: "decimal_from_contract (ra_filled_quantity r) ''receipt_filled_quantity'' = Inr filled"
    using assms by (auto simp: receipt_transition_def rbind_eq_Inr)
  have X: "\<exists>exited entry. exit_filled_quantity j = Inr exited \<and> entry_filled_quantity j = Inr entry
         \<and> 0 < filled \<and> dadd 28 exited filled \<le> entry
         \<and> to = (if dadd 28 exited filled = entry then FLAT else UNRESOLVED)" if e: "e \<in> exit_events"
  proof (cases "ca_kind c = ENTRY_IOC")
    case True
    then have "e \<in> {ENTRY_FILLED, ENTRY_PARTIAL, ENTRY_NO_FILL, NO_ADMITTED_BOOK, SOURCE_BARRIER}"
      using assms f by (auto simp: receipt_transition_def split: if_splits fill_status.splits)
    with e show ?thesis by (auto simp: exit_events_def)
  next
    case False
    have st: "ra_status r \<in> {FILLED, PARTIAL}"
    proof (rule ccontr)
      assume n: "ra_status r \<notin> {FILLED, PARTIAL}"
      have "e = UNRESOLVED_EVENT"
        using assms f False unfolding receipt_transition_def if_not_P [OF n] by (auto split: if_splits)
      with e show False by (simp add: exit_events_def)
    qed
    have act: "\<not> jo_state j \<noteq> ACTIVE"
    proof
      assume "jo_state j \<noteq> ACTIVE"
      from assms [unfolded receipt_transition_def f rbind_simps if_not_P [OF False] if_P [OF this]]
      show False by simp
    qed
    note R = assms [unfolded receipt_transition_def f rbind_simps if_not_P [OF False] if_P [OF st] if_not_P [OF act]]
    then obtain exited where x: "exit_filled_quantity j = Inr exited" by (auto simp: rbind_eq_Inr)
    from R [unfolded x rbind_simps] obtain entry where y: "entry_filled_quantity j = Inr entry"
      by (auto simp: rbind_eq_Inr)
    note R' = R [unfolded x y rbind_simps]
    have ok: "\<not> (filled \<le> 0 \<or> dadd 28 exited filled > entry)"
    proof
      assume "filled \<le> 0 \<or> dadd 28 exited filled > entry"
      from R' [unfolded if_P [OF this]] show False by simp
    qed
    have "to = (if dadd 28 exited filled = entry then FLAT else UNRESOLVED)"
      using R' [unfolded if_not_P [OF ok]] by simp
    then show ?thesis using x y ok by (intro exI [of _ exited] exI [of _ entry]) simp
  qed
  have "e \<in> exit_events \<longrightarrow> (\<exists>filled exited entry.
         decimal_from_contract (ra_filled_quantity r) ''receipt_filled_quantity'' = Inr filled
         \<and> exit_filled_quantity j = Inr exited \<and> entry_filled_quantity j = Inr entry
         \<and> 0 < filled \<and> dadd 28 exited filled \<le> entry
         \<and> to = (if dadd 28 exited filled = entry then FLAT else UNRESOLVED))"
  proof
    assume "e \<in> exit_events"
    from X [OF this] obtain exited entry where p: "exit_filled_quantity j = Inr exited"
      "entry_filled_quantity j = Inr entry" "0 < filled" "dadd 28 exited filled \<le> entry"
      "to = (if dadd 28 exited filled = entry then FLAT else UNRESOLVED)" by blast
    show "\<exists>filled exited entry.
         decimal_from_contract (ra_filled_quantity r) ''receipt_filled_quantity'' = Inr filled
         \<and> exit_filled_quantity j = Inr exited \<and> entry_filled_quantity j = Inr entry
         \<and> 0 < filled \<and> dadd 28 exited filled \<le> entry
         \<and> to = (if dadd 28 exited filled = entry then FLAT else UNRESOLVED)"
      by (rule exI [of _ filled], rule exI [of _ exited], rule exI [of _ entry]) (intro conjI f p)
  qed
  with L T show ?thesis by (intro conjI)
qed

definition demo_level :: "rat \<Rightarrow> rat \<Rightarrow> recorded_level" where
  "demo_level p q = \<lparr> rl_price = Fin p, rl_quantity = Fin q \<rparr>"

definition demo_sim_session :: sim_session where
  "demo_sim_session = \<lparr> ss_tape_id = ''t1'', ss_ends_at_ms = 9000, ss_assumptions =
     \<lparr> sa_latency_ms = 10, sa_maximum_book_age_ms = 1000, sa_maximum_frame_latency_ms = 500,
       sa_depth_participation_fraction = Fin 1, sa_adverse_slippage_bps = Fin 0, sa_taker_fee_bps = Fin 5,
       sa_price_tick = Fin 1, sa_quantity_step = Fin 1 \<rparr> \<rparr>"

definition demo_trade :: sim_trade where
  "demo_trade = \<lparr> tr_source = ''sim'', tr_admission = Admission_V2
       \<lparr> ad_session = Some demo_sim_session,
         ad_intent = Some \<lparr> in_entry_eligible_ts_ms = 1000, in_entry_expires_ts_ms = 2000, in_exit_plan = None \<rparr>,
         ad_quantity = Some (Fin 2), ad_price_cap = Some (Fin 101), ad_selected_stream_epoch = Some ''e1'' \<rparr>,
     tr_created_at_ms = 1000, tr_session_id = Some ''s1'', tr_admission_id = Some ''a1'',
     tr_intent_id = Some ''i1'', tr_trade_id = Some ''x1'', tr_symbol = Some ''BTCUSDT'', tr_side = LONG \<rparr>"

definition demo_exit :: sim_command where
  "demo_exit = \<lparr> ca_source = ''sim'', ca_trade = demo_trade, ca_kind = STOP_EXIT_IOC, ca_quantity = Fin 2,
     ca_price_cap = Fin 95, ca_submitted_at_ms = 3000, ca_persisted_at_ms = 3000, ca_eligible_at_ms = 3000,
     ca_expires_at_ms = 4000, sc_command_id = Some ''c2'', sc_session_id = Some ''s1'',
     sc_symbol = Some ''BTCUSDT'', sc_order_side = Some ''SELL'' \<rparr>"

definition demo_receipt :: "f64 \<Rightarrow> sim_receipt" where
  "demo_receipt q = \<lparr> ra_source = ''sim'', ra_command = demo_exit, ra_model_frame_sha256 = Some ''f'',
     ra_status = FILLED, ra_reason_codes = [''MODEL_IOC''], ra_arrival_at_ms = 3010,
     ra_filled_quantity = q, ra_cancelled_quantity = Fin 0, ra_average_price = Some (Fin 96),
     ra_notional_quote = Fin 192, ra_fee_quote = Fin 1, ra_arrival_mid_price = Some (Fin 97),
     ra_implementation_shortfall_quote = Fin 2, ra_level_fills = [], sr_receipt_id = Some ''r2'' \<rparr>"

definition demo_entry_event :: sim_event where
  "demo_entry_event = \<lparr> ev_source = ''sim'', ev_session_id = ''s1'', ev_admission_id = ''a1'', ev_intent_id = ''i1'',
     ev_trade_id = ''x1'', ev_seq = 2, ev_previous_event_sha256 = Some ''h1'', ev_type = ENTRY_FILLED,
     ev_from_state = Some PENDING, ev_to_state = ACTIVE, ev_occurred_at_ms = 1010, ev_symbol = ''BTCUSDT'',
     ev_side = LONG, ev_command_id = Some ''c1'', ev_receipt_id = Some ''r1'',
     ev_filled_quantity = Some (Fin 2), ev_average_price = Some (Fin 100),
     ev_model_frame_sha256 = Some ''f1'', ev_reason_codes = [''SIM_IOC''], se_event_id = Some ''v2'' \<rparr>"

definition demo_journal :: trade_journal where
  "demo_journal = \<lparr> jo_trade = demo_trade, jo_state = ACTIVE, jo_events = [demo_entry_event],
     jo_next_event_seq = 3, jo_head_sha256 = Some ''h2'' \<rparr>"

lemma demo_frepr: "frepr 0 = Some 0" "frepr 1 = Some 1" "frepr 2 = Some 2" "frepr 5 = Some 5"
  by code_simp+

lemma frepr_95: "frepr 95 = Some 95"
  by code_simp

lemma demo_filled: "entry_filled_quantity demo_journal = Inr 2" "exit_filled_quantity demo_journal = Inr 0"
proof -
  have "dround 28 2 = 2" by (rule dround_exact [where k = 0]) auto
  then show "entry_filled_quantity demo_journal = Inr 2" "exit_filled_quantity demo_journal = Inr 0"
    by (simp_all add: entry_filled_quantity_def exit_filled_quantity_def events_quantity_def entry_events_def
        exit_events_def event_quantity_def demo_journal_def demo_entry_event_def decimal_from_contract_def
        demo_frepr dsum_def dadd_def)
qed

lemma demo_flat: "receipt_transition demo_exit (demo_receipt (Fin 2)) demo_journal = Inr (STOP_TRIGGERED, FLAT)"
proof -
  have "dround 28 2 = 2" by (rule dround_exact [where k = 0]) auto
  then show ?thesis
    by (simp add: receipt_transition_def decimal_from_contract_def demo_frepr demo_filled demo_receipt_def
        demo_exit_def dadd_def) (simp add: demo_journal_def)
qed

theorem receipt_transitions_legal_witness:
  "legal_transition ACTIVE STOP_TRIGGERED FLAT \<and> jo_state demo_journal \<notin> terminal_states"
  using receipt_transitions_legal [OF demo_flat] by (simp add: demo_journal_def)

section \<open>Numbers across the bridge\<close>

text \<open>C38: every finite float crosses the bridge and comes back: its decimal text exists (17 digits
  are always enough), the decimal is kept by Python's default 28-digit context, and converting it
  back gives the same float.\<close>

theorem contract_number_roundtrip:
  assumes "wf64 (Fin x)"
  shows "\<exists>d. decimal_from_contract (Fin x) field = Inr d \<and> to_float d = Fin x \<and> dround 28 d = d"
proof -
  obtain d where d: "decimal_from_contract (Fin x) field = Inr d" "to_float d = Fin x"
    using decimal_from_contract_total [OF assms] by blast
  then have "frepr x = Some d" by (auto dest: decimal_from_contract_ok)
  then show ?thesis using d dround_frepr assms by auto
qed

theorem contract_number_roundtrip_witness:
  "\<exists>d. decimal_from_contract (Fin 5) ''price'' = Inr d \<and> to_float d = Fin 5 \<and> dround 28 d = d"
proof (rule contract_number_roundtrip)
  show "wf64 (Fin 5)" using rep64_int [of 5] by simp
qed

lemma rtraverse_single [simp]: "rtraverse f [x] = rbind (f x) (\<lambda>y. Inr [y])"
  by (simp add: rbind_def)

text \<open>C37: a complete exit closes the trade. When the kernel fills the whole quantity of an exit
  command, and the command asked for all that remained of a trade with one entry fill, then the
  public receipt, whose quantities are floats, moves the trade to \<open>FLAT\<close>: no rounding between the
  decimal kernel and the float contracts leaves a residue.\<close>

theorem full_exit_is_flat:
  assumes active: "jo_state j = ACTIVE" and exit_kind: "ca_kind c \<noteq> ENTRY_IOC"
    and entry: "filter (\<lambda>e. ev_type e \<in> entry_events) (jo_events j) = [e]"
    and none: "filter (\<lambda>e. ev_type e \<in> exit_events) (jo_events j) = []"
    and v: "ev_filled_quantity e = Some (Fin v)" "wf64 (Fin v)" "0 < v"
    and rem: "remaining_quantity j = Inr q" and c: "ca_quantity c = to_float q"
    and k: "kernel_command c = Inr k" and full: "fo_filled_quantity out = cmd_quantity k"
    and r: "ra_filled_quantity r = to_float (fo_filled_quantity out)" "ra_status r \<in> {FILLED, PARTIAL}"
  shows "\<exists>etype. receipt_transition c r j = Inr (etype, FLAT)"
proof -
  obtain d where fr: "frepr v = Some d" "rnd64 d = v" using frepr_total [of v] v(2) by auto
  have d: "decimal_from_contract (Fin v) f = Inr d" "to_float d = Fin v" "dround 28 d = d" for f
    using fr v(2) dround_frepr [OF fr(1)]
    by (simp_all add: decimal_from_contract_def to_float_def fround_def Let_def)
  have E: "entry_filled_quantity j = Inr d" and X: "exit_filled_quantity j = Inr 0"
    using entry none v(1) d
    by (simp_all add: entry_filled_quantity_def exit_filled_quantity_def events_quantity_def
        event_quantity_def dsum_def dadd_def)
  have q: "q = d" using rem d(3) by (simp add: remaining_quantity_def E X dsub_def)
  have "cmd_quantity k = d"
    using kernel_command_fields(5) [OF k] c q d(1) [of "''quantity''"] d(2) by simp
  then have f: "ra_filled_quantity r = Fin v" using r(1) full d(2) by simp
  have pos: "0 < d"
  proof (rule ccontr)
    assume "\<not> 0 < d"
    then have "rnd64 d \<le> 0" using r64.nonpos [of d] by simp
    moreover have "rnd64 d = v" using d(2) by (auto simp: to_float_def dest: fround_Fin)
    ultimately show False using v(3) by simp
  qed
  show ?thesis
    using active exit_kind r(2) E X d pos
    by (simp add: receipt_transition_def f dadd_def)
qed

lemma to_float_int: "\<bar>n\<bar> < 2 ^ 53 \<Longrightarrow> to_float (of_int n) = Fin (of_int n)"
proof -
  assume n: "\<bar>n\<bar> < 2 ^ 53"
  have "of_int \<bar>n\<bar> < (2::rat) ^ 53" using n by (metis of_int_less_iff of_int_numeral of_int_power)
  also have "(2::rat) ^ 53 \<le> 2 ^ 1024" by (rule power_increasing) auto
  finally have "\<bar>of_int n :: rat\<bar> < 2 ^ 1024" by simp
  then show ?thesis using rep64_int [OF n] by (simp add: to_float_def fround_def rep64_def Let_def)
qed

definition demo_exit_kernel :: ioc_command where
  "demo_exit_kernel = \<lparr> cmd_session_id = ''s1'', cmd_command_id = ''c2'', cmd_symbol = BTCUSDT, cmd_side = SELL,
     cmd_quantity = 2, cmd_price_cap = 95, cmd_submitted_at_ms = 3000, cmd_persisted_at_ms = 3000,
     cmd_eligible_at_ms = 3000, cmd_expires_at_ms = 4000 \<rparr>"

lemma demo_exit_kernel: "kernel_command demo_exit = Inr demo_exit_kernel"
proof -
  have "valid_identifier ''s1''" "valid_identifier ''c2''"
    by (simp_all add: valid_identifier_def is_alnum_def of_char_of take_bit_eq_mod Let_def)
  then have "validate_command demo_exit_kernel = Inr ()"
    by (simp add: validate_command_def ensure.simps demo_exit_kernel_def positive_amount_def valid_timestamp_def)
  then show ?thesis
    by (simp add: kernel_command_def demo_exit_def decimal_from_contract_def demo_frepr frepr_95
        kernel_symbol_def kernel_side_def literal_def symbol_text_def demo_exit_kernel_def)
qed

theorem full_exit_is_flat_witness:
  "\<exists>etype. receipt_transition demo_exit (demo_receipt (Fin 2)) demo_journal = Inr (etype, FLAT)"
proof (rule full_exit_is_flat [where k = demo_exit_kernel and e = demo_entry_event and v = 2 and q = 2
      and out = "(undefined :: fill_outcome) \<lparr> fo_filled_quantity := 2 \<rparr>"])
  have "dround 28 2 = 2" by (rule dround_exact [where k = 0]) auto
  then show "remaining_quantity demo_journal = Inr 2"
    by (simp add: remaining_quantity_def demo_filled dsub_def)
  show "wf64 (Fin 2)" using rep64_int [of 2] by simp
  show "ca_quantity demo_exit = to_float 2" using to_float_int [of 2] by (simp add: demo_exit_def)
  show "ra_filled_quantity (demo_receipt (Fin 2))
      = to_float (fo_filled_quantity ((undefined :: fill_outcome) \<lparr> fo_filled_quantity := 2 \<rparr>))"
    using to_float_int [of 2] by (simp add: demo_receipt_def)
  show "kernel_command demo_exit = Inr demo_exit_kernel" by (rule demo_exit_kernel)
qed (simp_all add: demo_exit_kernel_def demo_journal_def demo_entry_event_def
    demo_exit_def entry_events_def exit_events_def demo_receipt_def)

section \<open>Results\<close>

text \<open>the result of a trade with an entry fill is only built from consistent totals: a flat trade
  exits exactly what it entered, an unresolved one keeps open exposure; its fees are the sum of both
  legs, and its profit is the exit notional less the entry notional matched to the exited quantity,
  with the sign of the side.\<close>

theorem results_consistent:
  assumes "filled_result side state (eq, en, ef) (xq, xn, xf) base = Inr res"
  shows "0 < eq \<and> (state = FLAT \<longrightarrow> xq = eq) \<and> (state = UNRESOLVED \<longrightarrow> 0 \<le> xq \<and> xq < eq)
    \<and> re_entry_filled_quantity res = to_float eq \<and> re_exit_filled_quantity res = to_float xq
    \<and> (re_exit_average_price res = None \<longleftrightarrow> xq = 0)
    \<and> re_model_fee_quote res = Some (to_float (dadd 28 ef xf))
    \<and> re_model_realized_pnl_quote res = Some (to_float
        (let matched = dmul 28 (ddiv 28 en eq) xq
         in if side = LONG then dsub 28 xn matched else dsub 28 matched xn))
    \<and> re_final_state res = re_final_state base \<and> re_terminal_event_id res = re_terminal_event_id base"
  using assms by (auto simp: filled_result_def rbind_eq_Inr ensure_ok_iff Let_def split: if_splits)

definition demo_base :: result_args where
  "demo_base = result_fields ''sim'' (''s1'', ''a1'', ''i1'', ''x1'') ''v3'' demo_entry_event FLAT"

lemma demo_result: "\<exists>res. filled_result LONG FLAT (2, 200, 1) (2, 192, 1) demo_base = Inr res"
  by (simp add: filled_result_def ensure.simps Let_def)

theorem results_consistent_witness:
  "\<exists>res. filled_result LONG FLAT (2, 200, 1) (2, 192, 1) demo_base = Inr res
     \<and> re_entry_filled_quantity res = re_exit_filled_quantity res"
proof -
  obtain res where "filled_result LONG FLAT (2, 200, 1) (2, 192, 1) demo_base = Inr res"
    using demo_result by blast
  from results_consistent [OF this] this show ?thesis by auto
qed

section \<open>Recovery\<close>

text \<open>A program that never completes a command.\<close>

fun completes :: "sim_request \<Rightarrow> bool" where
  "completes (Complete_Command _ _ _ _ _) = True"
| "completes _ = False"

lemma settles_not_completes: "settles q \<Longrightarrow> \<not> completes q"
  by (cases q) auto

text \<open>C34: recovery reads, it does not recompute. When the repository answers that a command is
  already completed, the controller makes no completion request; a successful run returns the stored
  receipt, marked as replayed.\<close>

theorem completed_command_is_replayed:
  assumes e: "env [] (Prepare_Command c0) = Inr (Prepared p)" and s: "pc_status p = ''COMPLETED''"
  shows "all_asks (\<lambda>q. \<not> completes q) (fst (snd (run env (process_command core src c0 as_of) () [])))
    \<and> (\<forall>out. snd (snd (run env (process_command core src c0 as_of) () [])) = Inr out \<longrightarrow>
         eo_replayed out \<and> eo_command out = pc_command p \<and>
         (\<exists>cid. sc_command_id (pc_command p) = Some cid \<and>
            (Load_Receipt cid, Inr (Receipt (eo_receipt out)))
              \<in> set (fst (snd (run env (process_command core src c0 as_of) () [])))))"
proof -
  let ?c = "pc_command p"
  let ?rest = "\<lambda>receipt. bindp (ensure_terminal_result core src (ca_trade ?c)) (\<lambda>_.
      bindp (journal_of (ca_trade ?c)) (\<lambda>refreshed.
        Ret \<lparr> eo_trade = ca_trade ?c, eo_command = ?c, eo_receipt = receipt,
              eo_lifecycle_state = jo_state refreshed, eo_replayed = True \<rparr>))"
  let ?tail = "\<lambda>j. bindp (liftp (required (sc_command_id ?c) ''command_id'')) (\<lambda>cid.
      bindp (ask_receipt cid) (\<lambda>receipt.
        if receipt = None then Fail (integrity ''completed simulation command has no durable receipt'')
        else ?rest receipt))"
  let ?Q = "\<lambda>s' t' r. all_asks (\<lambda>q. \<not> completes q) t' \<and> (\<forall>out. r = Inr out \<longrightarrow> eo_replayed out \<and> eo_command out = ?c
      \<and> (\<exists>cid. sc_command_id ?c = Some cid \<and> (Load_Receipt cid, Inr (Receipt (eo_receipt out))) \<in> set t'))"
  have rest_asks: "asks settles (?rest receipt)" for receipt by (auto intro!: asks_bindp)
  have rest_out: "wp (?rest receipt) (\<lambda>s' t' r. \<forall>out. r = Inr out \<longrightarrow>
      eo_replayed out \<and> eo_command out = ?c \<and> eo_receipt out = receipt) s h" for receipt s h
    unfolding wp_bindp
    by (rule wp_asks [OF asks_ensure_terminal_result])
      (auto split: sum.splits intro!: wp_asks [OF asks_journal_of])
  have rest: "safe (\<lambda>_ _. True) (?rest receipt) ?Q () h"
    if h: "all_asks (\<lambda>q. \<not> completes q) h" and cid: "sc_command_id ?c = Some cid"
      and rin: "(Load_Receipt cid, Inr (Receipt receipt)) \<in> set h" for h cid receipt
  proof -
    have a: "safe (\<lambda>_ _. True) (?rest receipt) (\<lambda>s' t' r. \<exists>u. t' = h @ u \<and> all_asks settles u) () h"
      by (rule asks_safe [OF rest_asks]) auto
    have b: "safe (\<lambda>_ _. True) (?rest receipt) (\<lambda>s' t' r. s' = () \<and> (\<exists>u. t' = h @ u) \<and>
        (\<forall>out. r = Inr out \<longrightarrow> eo_replayed out \<and> eo_command out = ?c \<and> eo_receipt out = receipt)) () h"
      by (rule asks_safe_wp [OF rest_asks rest_out]) auto
    show ?thesis
      by (rule safe_conseq [OF safe_conj [OF a b]])
        (use h cid rin settles_not_completes in \<open>fastforce simp: all_asks_def\<close>)
  qed
  have tail: "safe (\<lambda>_ _. True) (?tail j) ?Q () h" if h: "all_asks (\<lambda>q. \<not> completes q) h" for j h
  proof (cases "sc_command_id ?c")
    case (Some cid)
    then show ?thesis
      using h rest [OF _ Some]
      by (auto simp: required_def ask_receipt_def safe_bindp safe_await split: sim_response.splits)
  qed (use h in \<open>simp add: required_def\<close>)
  have all: "safe (\<lambda>_ _. True) (bindp (journal_of (ca_trade ?c)) ?tail) ?Q ()
      [(Prepare_Command c0, Inr (Prepared p))]"
    unfolding safe_bindp [of _ "journal_of (ca_trade ?c)"]
  proof (rule asks_safe [OF asks_journal_of])
    fix u :: "(sim_request, sim_response) trace" and r :: "trade_journal res"
    assume "all_asks read_only u"
    then have h: "all_asks (\<lambda>q. \<not> completes q) ([(Prepare_Command c0, Inr (Prepared p))] @ u)"
      using settles_not_completes read_only_settles by (fastforce simp: all_asks_def)
    show "case r of Inl e \<Rightarrow> ?Q () ([(Prepare_Command c0, Inr (Prepared p))] @ u) (Inl e)
        | Inr j \<Rightarrow> safe (\<lambda>_ _. True) (?tail j) ?Q () ([(Prepare_Command c0, Inr (Prepared p))] @ u)"
    proof (cases r)
      case (Inr j)
      show ?thesis unfolding Inr sum.case by (rule tail [OF h])
    qed (use h in simp)
  qed simp
  show ?thesis
  proof (cases "validate_timestamp ''as_of_ms'' as_of")
    case (Inl x)
    then show ?thesis by (simp add: process_command_def)
  next
    case (Inr x)
    obtain s' t' r where R: "run env (bindp (journal_of (ca_trade ?c)) ?tail) () [(Prepare_Command c0, Inr (Prepared p))]
        = (s', t', r)" by (cases "run env (bindp (journal_of (ca_trade ?c)) ?tail) ()
          [(Prepare_Command c0, Inr (Prepared p))]") auto
    have "run env (process_command core src c0 as_of) () [] = (s', t', r)"
      using R e s Inr by (simp add: process_command_def ask_prepare_def await_def Let_def)
    moreover have "?Q s' t' r"
      using safe_run [OF all _ R] by (simp add: guarded_def)
    ultimately show ?thesis by simp
  qed
qed

definition demo_store :: "(sim_request, sim_response) trace \<Rightarrow> sim_request \<Rightarrow> sim_response res" where
  "demo_store h q = (case q of
     Prepare_Command _ \<Rightarrow> Inr (Prepared \<lparr> pc_command = demo_exit, pc_status = ''COMPLETED'' \<rparr>)
   | Load_Receipt _ \<Rightarrow> Inr (Receipt (Some (demo_receipt (Fin 2))))
   | Load_Journal _ \<Rightarrow> Inr (Journal (Some demo_journal))
   | _ \<Rightarrow> Inr Done)"

theorem completed_command_is_replayed_witness:
  "\<forall>core. all_asks (\<lambda>q. \<not> completes q)
     (fst (snd (run demo_store (process_command core ''sim'' demo_exit 5000) () [])))"
  using completed_command_is_replayed [of demo_store demo_exit
      "\<lparr> pc_command = demo_exit, pc_status = ''COMPLETED'' \<rparr>" _ "''sim''" 5000]
  by (simp add: demo_store_def)

text \<open>C35: nothing is recorded before its time, and nothing recorded is forgotten. An evaluation of a prepared
  command that succeeds starts from the state the repository answered for the session and symbol of the
  command: the decoded payload, or without one the fresh state of that session. If that state satisfies the
  kernel's invariant, then either the arrival instant has not passed, nothing changed and the command stays
  pending; or it has passed, and the new state satisfies the invariant and holds exactly one more receipt,
  that of the command, which was not there before. Its outcome is what the kernel computes from that state
  and the frame the repository answered for the arrival instant; without a frame, for an expired command or
  because the repository has none, nothing is filled and the consumed depth stays.\<close>

theorem evaluation_is_causal:
  assumes "run env (evaluate_prepared core src c as_of) () [] = (s, h, Inr (ro, st'))"
  shows "\<exists>st. loaded core c h st \<and> (kernel_inv st \<longrightarrow> evaluation_ok core src c as_of h st ro st')"
  using wp_run [OF evaluate_prepared_chain assms] by simp

text \<open>A session in which an entry has taken from the asks, and an exit that arrives later.\<close>

definition demo_kernel_policy :: fill_assumptions where
  "demo_kernel_policy = \<lparr> as_latency_ms = 10, as_maximum_book_age_ms = 1000, as_maximum_frame_latency_ms = 500,
     as_depth_participation_fraction = 1, as_adverse_slippage_bps = 0, as_taker_fee_bps = 5,
     as_price_tick = 1, as_quantity_step = 1 \<rparr>"

lemma demo_policy_valid: "validate_assumptions demo_kernel_policy = Inr ()"
  by (simp add: demo_kernel_policy_def validate_assumptions_def ensure.simps positive_amount_def nonnegative_amount_def)

lemma demo_kernel_policy: "kernel_assumptions demo_sim_session = Inr demo_kernel_policy"
  using demo_policy_valid
  by (simp add: kernel_assumptions_def demo_sim_session_def decimal_from_contract_def demo_frepr demo_kernel_policy_def)

definition demo_entered :: model_step where
  "demo_entered = evaluated demo_command demo_frame demo_kernel_policy demo_state 1020
     (command_hash demo_command) (policy_hash demo_kernel_policy)"

definition demo_held :: liquidity_state where
  "demo_held = ms_state demo_entered"

lemma demo_entry_simulated: "simulate_ioc demo_command demo_frame demo_kernel_policy demo_state 1020 = Inr demo_entered"
  unfolding demo_entered_def
proof (rule simulate_ioc_ready [OF _ demo_same])
  show "ready demo_command demo_frame demo_kernel_policy demo_state 1020"
    using demo_valid(1) demo_frame_valid demo_inv demo_policy_valid
    by (simp add: ready_def pol_ok_def)
      (simp add: demo_command_def demo_kernel_policy_def demo_state_def initial_liquidity_def find_receipt_def
        valid_timestamp_def max_commands_def)
qed

lemma demo_held_inv: "kernel_inv demo_held"
  and demo_held_depth: "debit_at (depth_of demo_held) (BID, p) = 0"
proof -
  have "session demo_held (granted demo_command demo_entered)"
    using session.step [OF demo_session demo_entry_simulated] by (simp add: demo_held_def)
  from session_inv [OF this] have s: "kernel_inv demo_held"
    "debit_at (depth_of demo_held) (BID, p) = logged_at BID p (granted demo_command demo_entered)" by auto
  show "kernel_inv demo_held" by (rule s(1))
  have "book_side_of demo_command = ASK" by (simp add: book_side_of_def buying_def demo_command_def)
  then show "debit_at (depth_of demo_held) (BID, p) = 0"
    unfolding s(2) by (simp add: granted_def logged_at_def filled_at_def filter_map o_def)
qed

lemma demo_held_fields:
  "ls_session_id demo_held = ''s1''" "ls_tape_id demo_held = ''t1''" "ls_stream_epoch demo_held = ''e1''"
  "ls_symbol demo_held = BTCUSDT" "ls_assumptions_sha256 demo_held = Some (policy_hash demo_kernel_policy)"
  "ls_last_as_of_ms demo_held = 1020" "ls_last_arrival_at_ms demo_held = 1010"
  "ls_last_frame_sequence demo_held = 7" "ls_last_exchange_update_id demo_held = 70"
  "ls_last_exchange_at_ms demo_held = 1000" "ls_last_received_at_ms demo_held = 1002"
  "ls_barrier_reason demo_held = None" "map rc_command_id (ls_receipts demo_held) = [''c1'']"
proof -
  have i: "command_refusal demo_command demo_kernel_policy 1010 = None"
      "frame_issue demo_frame demo_state 1010 demo_kernel_policy = None"
      "cmd_submitted_at_ms demo_command + as_latency_ms demo_kernel_policy = 1010"
    by (simp_all add: command_refusal_def frame_issue_def frame_levels_def drem_def demo_command_def demo_frame_def
        demo_kernel_policy_def demo_state_def initial_liquidity_def)
  have s: "demo_held = (frame_cursor demo_frame (demo_state \<lparr> ls_assumptions_sha256 := Some (policy_hash demo_kernel_policy),
      ls_last_as_of_ms := 1020, ls_last_arrival_at_ms := 1010 \<rparr>))
        \<lparr> ls_consumed_depth := ls_consumed_depth demo_held, ls_receipts := ls_receipts demo_held \<rparr>"
    by (simp add: demo_held_def demo_entered_def evaluated_def decided_def i)
  show "ls_session_id demo_held = ''s1''" "ls_tape_id demo_held = ''t1''" "ls_stream_epoch demo_held = ''e1''"
    "ls_symbol demo_held = BTCUSDT" "ls_assumptions_sha256 demo_held = Some (policy_hash demo_kernel_policy)"
    "ls_last_as_of_ms demo_held = 1020" "ls_last_arrival_at_ms demo_held = 1010"
    "ls_last_frame_sequence demo_held = 7" "ls_last_exchange_update_id demo_held = 70"
    "ls_last_exchange_at_ms demo_held = 1000" "ls_last_received_at_ms demo_held = 1002"
    "ls_barrier_reason demo_held = None"
    by (subst s, simp add: frame_cursor_def demo_frame_def demo_state_def initial_liquidity_def)+
  have "ls_receipts demo_state = []" "cmd_command_id demo_command = ''c1''"
    by (simp_all add: demo_state_def initial_liquidity_def demo_command_def)
  then show "map rc_command_id (ls_receipts demo_held) = [''c1'']"
    by (simp add: demo_held_def demo_entered_def evaluated_def decided_def i receipt_for_def)
qed

definition demo_exit_frame :: accepted_book_frame where
  "demo_exit_frame = demo_frame \<lparr> fr_sequence := 8, fr_exchange_update_id := 80, fr_exchange_at_ms := 3000,
     fr_received_at_ms := 3002, fr_persisted_at_ms := 3005, fr_asks := [\<lparr> bl_price = 101, bl_quantity = 1 \<rparr>] \<rparr>"

definition demo_recorded :: recorded_frame where
  "demo_recorded = \<lparr> rf_tape_id = ''t1'', rf_stream_epoch = ''e1'', rf_symbol = ''BTCUSDT'', rf_tape_sequence = 8,
     rf_exchange_update_id = 80, rf_exchange_at_ms = 3000, rf_received_at_ms = 3002, rf_persisted_at_ms = 3005,
     rf_raw_payload_sha256 = replicate 64 (CHR ''0''), rf_continuity = continuity_text ADMITTED,
     rf_bids = [demo_level 99 5], rf_asks = [demo_level 101 1], rf_frame_sha256 = Some ''f2'' \<rparr>"

lemma demo_recorded: "kernel_frame demo_recorded = Inr demo_exit_frame"
proof -
  have f: "frepr 99 = Some 99" "frepr 101 = Some 101" by code_simp+
  have l: "validate_book_level \<lparr> bl_price = 99, bl_quantity = 5 \<rparr> = Inr ()"
      "validate_book_level \<lparr> bl_price = 101, bl_quantity = 1 \<rparr> = Inr ()"
    by (simp_all add: validate_book_level_def ensure.simps positive_amount_def)
  have v: "validate_frame demo_exit_frame = Inr ()"
    by (simp add: demo_exit_frame_def validate_frame_def ensure.simps demo_frame_def valid_timestamp_def valid_sha256_def
      is_hex_lower_def l strictly_ascending_def
      strictly_descending_def list_all_iff of_char_of take_bit_eq_mod Let_def)
  have k: "kernel_level s (demo_level 99 5) = Inr \<lparr> bl_price = 99, bl_quantity = 5 \<rparr>"
      "kernel_level s (demo_level 101 1) = Inr \<lparr> bl_price = 101, bl_quantity = 1 \<rparr>" for s
    by (simp_all add: kernel_level_def demo_level_def decimal_from_contract_def demo_frepr f l)
  show ?thesis
    using v by (simp add: kernel_frame_def demo_recorded_def k kernel_symbol_def kernel_continuity_def literal_def symbol_text_def
        continuity_text_def demo_exit_frame_def demo_frame_def)
qed

definition demo_exited :: model_step where
  "demo_exited = evaluated demo_exit_kernel demo_exit_frame demo_kernel_policy demo_held 3020
     (command_hash demo_exit_kernel) (policy_hash demo_kernel_policy)"

lemma demo_exit_simulated: "simulate_ioc demo_exit_kernel demo_exit_frame demo_kernel_policy demo_held 3020 = Inr demo_exited"
  unfolding demo_exited_def
proof (rule simulate_ioc_ready)
  have v: "validate_frame demo_exit_frame = Inr ()"
    using demo_recorded by (auto simp: kernel_frame_def rbind_eq_Inr Let_def)
  have c: "validate_command demo_exit_kernel = Inr ()"
    using demo_exit_kernel by (auto simp: kernel_command_def rbind_eq_Inr Let_def split: option.splits)
  have "find_receipt demo_held ''c2'' = None" "length (ls_receipts demo_held) = 1"
    using demo_held_fields(13) by (auto simp: find_receipt_None)
  moreover have "cmd_command_id demo_exit_kernel = ''c2''" "cmd_submitted_at_ms demo_exit_kernel + as_latency_ms demo_kernel_policy = 3010"
    by (simp_all add: demo_exit_kernel_def demo_kernel_policy_def)
  ultimately show "ready demo_exit_kernel demo_exit_frame demo_kernel_policy demo_held 3020"
    using v c demo_held_inv demo_policy_valid
    by (simp add: ready_def pol_ok_def demo_held_fields valid_timestamp_def max_commands_def)
  show "same_session demo_exit_kernel demo_exit_frame demo_held"
    by (simp add: same_session_def demo_held_fields demo_exit_kernel_def demo_exit_frame_def demo_frame_def)
qed

lemma demo_exit_outcome:
  "fo_status (ms_outcome demo_exited) = FILLED" "fo_filled_quantity (ms_outcome demo_exited) = 2"
  "fo_average_price (ms_outcome demo_exited) = Some 99" "fo_arrival_mid_price (ms_outcome demo_exited) = Some 100"
proof -
  have i: "command_refusal demo_exit_kernel demo_kernel_policy 3010 = None"
      "frame_issue demo_exit_frame demo_held 3010 demo_kernel_policy = None"
      "cmd_submitted_at_ms demo_exit_kernel + as_latency_ms demo_kernel_policy = 3010"
    by (simp_all add: command_refusal_def frame_issue_def frame_levels_def drem_def demo_exit_kernel_def demo_frame_def
        demo_exit_frame_def demo_kernel_policy_def demo_held_fields)
  have w: "fst (walked demo_exit_kernel demo_exit_frame demo_kernel_policy demo_held) =
      [\<lparr> lf_book_price = 99, lf_execution_price = 99, lf_quantity = 2, lf_fee_quote = 99 / 1000 \<rparr>]"
    by (simp add: walked_def walk_side_def buying_def walk_stops_def exact_price_def direction_def exact_capacity_def
      exact_fill_def book_side_of_def demo_held_depth demo_exit_kernel_def demo_exit_frame_def demo_frame_def
      demo_kernel_policy_def Let_def)
  have "dround 96 99 = 99" by (rule dround_exact [where k = 0]) auto
  then show "fo_status (ms_outcome demo_exited) = FILLED" "fo_filled_quantity (ms_outcome demo_exited) = 2"
    "fo_average_price (ms_outcome demo_exited) = Some 99" "fo_arrival_mid_price (ms_outcome demo_exited) = Some 100"
    by (simp_all add: demo_exited_def evaluated_def decided_def i w exact_outcome_def total_quantity_def total_notional_def
        base_outcome_def exact_mid_def Let_def)
      (simp_all add: demo_exit_kernel_def demo_exit_frame_def demo_frame_def)
qed

definition demo_contracts :: contracts where
  "demo_contracts = \<lparr> mk_trade = (\<lambda>_. Inr demo_trade), mk_command = (\<lambda>_. Inr demo_exit), mk_level = Inr,
     mk_receipt = (\<lambda>_. Inr (demo_receipt (Fin 2))), mk_event = (\<lambda>_. Inr demo_entry_event), mk_result = Inr,
     dump_state = (\<lambda>_. JNull), load_state = (\<lambda>_. Inr demo_held) \<rparr>"

lemma demo_public: "\<exists>ls. rtraverse (public_level demo_contracts) xs = Inr ls"
  by (induction xs) (auto simp: public_level_def demo_contracts_def rbind_def)

lemma demo_exit_receipt:
  "command_receipt demo_contracts ''sim'' demo_exit (ms_outcome demo_exited) (Some demo_recorded) = Inr (demo_receipt (Fin 2))"
proof -
  obtain ls where "rtraverse (public_level demo_contracts) (fo_level_fills (ms_outcome demo_exited)) = Inr ls"
    using demo_public by blast
  moreover have "to_float 2 = Fin 2" "to_float 99 = Fin 99" "to_float 100 = Fin 100"
    using to_float_int [of 2] to_float_int [of 99] to_float_int [of 100] by simp_all
  moreover have "rf_frame_sha256 demo_recorded = Some ''f2''" by (simp add: demo_recorded_def)
  moreover have "mk_receipt demo_contracts a = Inr (demo_receipt (Fin 2))" for a by (simp add: demo_contracts_def)
  ultimately show ?thesis
    by (simp add: command_receipt_def demo_exit_outcome positive_float_def)
qed

definition demo_liquidity_store :: "(sim_request, sim_response) trace \<Rightarrow> sim_request \<Rightarrow> sim_response res" where
  "demo_liquidity_store h q = (case q of
     Load_Liquidity _ _ \<Rightarrow> Inr (Liquidity (Some (state_schema_version, JNull)))
   | Load_Frame _ _ _ \<Rightarrow> Inr (Frame (Some demo_recorded))
   | _ \<Rightarrow> Inr Done)"

abbreviation demo_evaluation :: "(sim_request, sim_response) trace" where
  "demo_evaluation \<equiv> [(Load_Liquidity ''s1'' ''BTCUSDT'', Inr (Liquidity (Some (state_schema_version, JNull)))),
     (Load_Frame ''t1'' ''BTCUSDT'' 3010, Inr (Frame (Some demo_recorded)))]"

lemma demo_evaluated: "run demo_liquidity_store (evaluate_prepared demo_contracts ''sim'' demo_exit 3020) () [] =
    ((), demo_evaluation, Inr (Some (demo_receipt (Fin 2)), ms_state demo_exited))"
proof -
  have t: "ca_trade demo_exit = demo_trade" "sc_symbol demo_exit = Some ''BTCUSDT''" "sc_session_id demo_exit = Some ''s1''"
      "ca_expires_at_ms demo_exit = 4000" "ss_tape_id demo_sim_session = ''t1''"
      "cmd_submitted_at_ms demo_exit_kernel + as_latency_ms demo_kernel_policy = 3010" "cmd_command_id demo_exit_kernel = ''c2''"
    by (simp_all add: demo_exit_def demo_sim_session_def demo_exit_kernel_def demo_kernel_policy_def)
  have s: "session_from_trade demo_trade = Inr demo_sim_session"
    by (simp add: session_from_trade_def admission_from_trade_def session_from_admission_def demo_trade_def)
  have "load_state demo_contracts JNull = Inr demo_held" by (simp add: demo_contracts_def)
  then have l: "run demo_liquidity_store (load_liquidity_state demo_contracts demo_exit) () [] =
    ((), [(Load_Liquidity ''s1'' ''BTCUSDT'', Inr (Liquidity (Some (state_schema_version, JNull))))], Inr demo_held)"
    by (simp add: load_liquidity_state_def t s required_def ask_liquidity_def await_def demo_liquidity_store_def
        demo_held_fields symbol_text_def)
  have r: "\<not> list_ex (\<lambda>r. rc_command_id r = ''c2'') (ls_receipts demo_held)"
    using demo_held_fields(13) by (auto simp: list_ex_iff)
  show ?thesis
    unfolding evaluate_prepared_def t s demo_kernel_policy demo_exit_kernel liftp_simps bindp.simps
    by (simp add: run_bindp Let_def l t r required_def ask_frame_def await_def demo_liquidity_store_def
        demo_recorded demo_exit_simulated demo_exit_outcome demo_exit_receipt)
qed

theorem evaluation_is_causal_witness:
  "evaluation_ok demo_contracts ''sim'' demo_exit 3020 demo_evaluation demo_held
     (Some (demo_receipt (Fin 2))) (ms_state demo_exited)"
proof -
  obtain st where st: "loaded demo_contracts demo_exit demo_evaluation st" "kernel_inv st \<longrightarrow>
      evaluation_ok demo_contracts ''sim'' demo_exit 3020 demo_evaluation st (Some (demo_receipt (Fin 2))) (ms_state demo_exited)"
    using evaluation_is_causal [OF demo_evaluated] by blast
  have "st = demo_held"
    using st(1) by (auto simp: loaded_def stored_state_def demo_contracts_def Cons_eq_append_conv)
  then show ?thesis using st(2) demo_held_inv by simp
qed

end
