(* ===== verification/Trailing.thy ===== *)
theory Trailing
  imports Float64
begin

text \<open>
  \<^verbatim>\<open>kairos_execution/trailing.py\<close> and \<^verbatim>\<open>kairos_execution/ratelimit.py\<close>: the trailing stop, its
  manager, and the token bucket, in the binary64 arithmetic of the code. Readings of the monotonic
  clock are arguments.
\<close>

section \<open>Trailing stops\<close>

datatype venue_side = BUY_SIDE | SELL_SIDE

record trailing_stop =
  ts_side :: venue_side
  ts_trail_pct :: f64
  ts_anchor :: f64

definition new_trailing_stop :: "venue_side \<Rightarrow> f64 \<Rightarrow> f64 \<Rightarrow> trailing_stop res" where
  "new_trailing_stop side trail anchor = rbind (ensure
     [(\<not> (\<not> isfinite anchor \<or> fle anchor (Fin 0)), Exn ValueError ''trailing-stop anchor must be finite and positive''),
      (\<not> (\<not> isfinite trail \<or> \<not> (flt (Fin 0) trail \<and> flt trail (Fin 1))),
         Exn ValueError ''trail_pct must be finite and within (0, 1)'')])
     (\<lambda>_. Inr \<lparr> ts_side = side, ts_trail_pct = trail, ts_anchor = anchor \<rparr>)"

definition stop_price :: "trailing_stop \<Rightarrow> f64 res" where
  "stop_price ts =
     (let result = (if ts_side ts = BUY_SIDE then fmul (ts_anchor ts) (fsub (Fin 1) (ts_trail_pct ts))
                    else fmul (ts_anchor ts) (fadd (Fin 1) (ts_trail_pct ts)))
      in if \<not> isfinite result \<or> fle result (Fin 0)
         then raise ValueError ''computed protective-stop price must be finite and positive''
         else Inr result)"

definition validate_price :: "f64 \<Rightarrow> unit res" where
  "validate_price price = ensure [(\<not> (\<not> isfinite price \<or> fle price (Fin 0)),
     Exn ValueError ''trailing-stop price must be finite and positive'')]"

text \<open>The anchor is written before the stop price is computed, so it is kept when that raises.\<close>

definition update :: "f64 \<Rightarrow> trailing_stop \<Rightarrow> trailing_stop \<times> f64 res" where
  "update price ts = (case validate_price price of
       Inl e \<Rightarrow> (ts, Inl e)
     | Inr _ \<Rightarrow> (let ts' = ts \<lparr> ts_anchor := if ts_side ts = BUY_SIDE then fmax (ts_anchor ts) price
                                           else fmin (ts_anchor ts) price \<rparr>
                in (ts', stop_price ts')))"

definition is_triggered :: "f64 \<Rightarrow> trailing_stop \<Rightarrow> bool res" where
  "is_triggered price ts = rbind (validate_price price) (\<lambda>_. rbind (stop_price ts) (\<lambda>stop.
     Inr (if ts_side ts = BUY_SIDE then fle price stop else fle stop price)))"

record stop_manager =
  sm_default_trail_pct :: f64
  sm_stops :: "(string \<times> trailing_stop) list"

definition new_manager :: "f64 \<Rightarrow> stop_manager res" where
  "new_manager trail = rbind (ensure
     [(\<not> (\<not> isfinite trail \<or> \<not> (flt (Fin 0) trail \<and> flt trail (Fin 1))),
         Exn ValueError ''default_trail_pct must be finite and within (0, 1)'')])
     (\<lambda>_. Inr \<lparr> sm_default_trail_pct = trail, sm_stops = [] \<rparr>)"

definition manager_open ::
  "string \<Rightarrow> venue_side \<Rightarrow> f64 \<Rightarrow> f64 option \<Rightarrow> stop_manager \<Rightarrow> (stop_manager \<times> trailing_stop) res" where
  "manager_open symbol side entry_price trail m =
     rbind (new_trailing_stop side (case trail of None \<Rightarrow> sm_default_trail_pct m | Some t \<Rightarrow> t) entry_price)
       (\<lambda>ts. Inr (m \<lparr> sm_stops := dict_set symbol ts (sm_stops m) \<rparr>, ts))"

definition manager_on_price :: "string \<Rightarrow> f64 \<Rightarrow> stop_manager \<Rightarrow> stop_manager \<times> f64 option res" where
  "manager_on_price symbol price m = (case dict_get (sm_stops m) symbol of
       None \<Rightarrow> (m, Inr None)
     | Some ts \<Rightarrow> (case update price ts of (ts', r) \<Rightarrow>
         (m \<lparr> sm_stops := dict_set symbol ts' (sm_stops m) \<rparr>, rbind r (\<lambda>x. Inr (Some x)))))"

definition manager_close :: "string \<Rightarrow> stop_manager \<Rightarrow> stop_manager" where
  "manager_close symbol m = m \<lparr> sm_stops := dict_pop symbol (sm_stops m) \<rparr>"

section \<open>The token bucket\<close>

record token_bucket =
  tb_capacity :: int
  tb_refill_period_s :: f64
  tb_tokens :: f64
  tb_last :: f64

definition new_bucket :: "int \<Rightarrow> f64 \<Rightarrow> f64 \<Rightarrow> token_bucket" where
  "new_bucket capacity period now =
     \<lparr> tb_capacity = capacity, tb_refill_period_s = period, tb_tokens = float_of_int capacity, tb_last = now \<rparr>"

definition refill :: "f64 \<Rightarrow> token_bucket \<Rightarrow> token_bucket res" where
  "refill now b =
     rbind (fdiv (fmul (fsub now (tb_last b)) (float_of_int (tb_capacity b))) (tb_refill_period_s b)) (\<lambda>gain.
       Inr (b \<lparr> tb_tokens := fmin (float_of_int (tb_capacity b)) (fadd (tb_tokens b) gain), tb_last := now \<rparr>))"

definition try_acquire :: "f64 \<Rightarrow> token_bucket \<Rightarrow> (bool \<times> token_bucket) res" where
  "try_acquire now b = rbind (refill now b) (\<lambda>b'.
     if fle (Fin 1) (tb_tokens b') then Inr (True, b' \<lparr> tb_tokens := fsub (tb_tokens b') (Fin 1) \<rparr>)
     else Inr (False, b'))"

text \<open>\<^verbatim>\<open>acquire\<close> under the lock: one attempt per wake-up, at the clock readings of the list; \<open>None\<close> when
  the readings end before an attempt succeeds.\<close>

fun acquire :: "f64 list \<Rightarrow> token_bucket \<Rightarrow> token_bucket option res" where
  "acquire [] b = Inr None"
| "acquire (now # nows) b = rbind (try_acquire now b) (\<lambda>(ok, b'). if ok then Inr (Some b') else acquire nows b')"

section \<open>Lemmas\<close>

text \<open>A well-formed stop: finite positive anchor, trail strictly between 0 and 1, all representable.\<close>

definition stop_ok :: "trailing_stop \<Rightarrow> bool" where
  "stop_ok ts \<longleftrightarrow> (\<exists>a t. ts_anchor ts = Fin a \<and> ts_trail_pct ts = Fin t \<and> 0 < a \<and> 0 < t \<and> t < 1
     \<and> rep64 a \<and> \<bar>a\<bar> < 2 ^ 1024)"

lemma fround_le: "fround x = Fin a \<Longrightarrow> fround y = Fin b \<Longrightarrow> x \<le> y \<Longrightarrow> a \<le> b"
  using r64.mono [of x y] by (auto dest!: fround_Fin)

lemma validate_price_ok: "validate_price p = Inr u \<longleftrightarrow> (\<exists>x. p = Fin x \<and> 0 < x)"
  by (cases p) (auto simp: validate_price_def ensure_ok_iff)

lemma new_trailing_stop_ok:
  assumes "new_trailing_stop side trail anchor = Inr ts" "wf64 anchor"
  shows "stop_ok ts"
  using assms
  by (cases anchor; cases trail)
    (auto simp: new_trailing_stop_def rbind_eq_Inr ensure_ok_iff stop_ok_def)

lemma update_ok:
  assumes "stop_ok ts" "wf64 price"
  shows "stop_ok (fst (update price ts))"
proof (cases "validate_price price")
  case (Inr u)
  then obtain x where "price = Fin x" "0 < x" using validate_price_ok by auto
  with assms Inr show ?thesis
    by (auto simp: update_def stop_ok_def Let_def max_def min_def)
qed (use assms in \<open>simp add: update_def\<close>)

text \<open>The factor of a stop price is a float between 0 and 1 for a long, at least 1 for a short.\<close>

lemma fround_between:
  assumes "rep64 a" "rep64 b" "a \<le> x" "x \<le> b" "\<bar>a\<bar> < 2 ^ 1024" "\<bar>b\<bar> < 2 ^ 1024"
  obtains r where "fround x = Fin r" "a \<le> r" "r \<le> b" "r = rnd64 x"
proof -
  have r: "a \<le> rnd64 x" "rnd64 x \<le> b" using r64.between [of a b x] assms by auto
  then have "\<bar>rnd64 x\<bar> < 2 ^ 1024" using assms(5,6) by (auto simp: abs_less_iff)
  then have "fround x = Fin (rnd64 x)" by (simp add: fround_def Let_def)
  with r that show ?thesis by blast
qed

lemma long_factor:
  assumes "0 < t" "t < 1"
  obtains k where "fsub (Fin 1) (Fin t) = Fin k" "0 \<le> k" "k \<le> 1"
proof -
  obtain k where "fround (1 - t) = Fin k" "0 \<le> k" "k \<le> 1"
    using fround_between [of 0 1 "1 - t"] assms rep64_1 r64.rep_0 by auto
  with that show ?thesis by (simp add: fsub_def)
qed

lemma short_factor:
  assumes "0 < t" "t < 1"
  obtains k where "fadd (Fin 1) (Fin t) = Fin k" "1 \<le> k" "k \<le> 2"
proof -
  obtain k where "fround (1 + t) = Fin k" "1 \<le> k" "k \<le> 2"
    using fround_between [of 1 2 "1 + t"] assms rep64_1 rep64_int [of 2] by auto
  with that show ?thesis by simp
qed

text \<open>A stop price is on the losing side of the anchor.\<close>

lemma stop_side:
  assumes "stop_ok ts" "stop_price ts = Inr p" "ts_anchor ts = Fin a"
  obtains x where "p = Fin x" "0 < x" "ts_side ts = BUY_SIDE \<Longrightarrow> x \<le> a" "ts_side ts \<noteq> BUY_SIDE \<Longrightarrow> a \<le> x"
proof -
  obtain t where t: "ts_trail_pct ts = Fin t" "0 < a" "0 < t" "t < 1" "rep64 a" "\<bar>a\<bar> < 2 ^ 1024"
    using assms(1,3) by (auto simp: stop_ok_def)
  show ?thesis
  proof (cases "ts_side ts = BUY_SIDE")
    case True
    obtain k where k: "fsub (Fin 1) (Fin t) = Fin k" "0 \<le> k" "k \<le> 1" using long_factor [OF t(3,4)] .
    have "a * k \<le> a" using t(2) k(3) by (simp add: mult_left_le)
    moreover have "0 \<le> a * k" using t(2) k(2) by simp
    ultimately obtain r where r: "fround (a * k) = Fin r" "r \<le> a"
      using fround_between [of 0 a "a * k"] t r64.rep_0 by auto
    then have "p = Fin r" "0 < r" using assms(2,3) t(1) k(1) True by (auto simp: stop_price_def Let_def split: if_splits)
    with that r True show ?thesis by blast
  next
    case False
    obtain k where k: "fadd (Fin 1) (Fin t) = Fin k" "1 \<le> k" "k \<le> 2" using short_factor [OF t(3,4)] .
    have ak: "a \<le> a * k" using t(2) k(2) by simp
    have fin: "isfinite (fround (a * k))" and "\<not> fle (fround (a * k)) (Fin 0)" and p: "p = fround (a * k)"
      using assms(2,3) t(1) k(1) False by (auto simp: stop_price_def Let_def split: if_splits)
    from fin obtain r where r: "fround (a * k) = Fin r" by (auto simp: isfinite_iff)
    have "a \<le> r" using r64.ge_rep [OF ak t(5)] fround_Fin [OF r] by simp
    with that r p t(2) False show ?thesis by auto
  qed
qed

end
