(* ===== verification/Trailing_Theorems.thy ===== *)
theory Trailing_Theorems
  imports Trailing
begin

text \<open>
  The trailing stop is a ratchet over any sequence of prices, the token bucket grants exactly the
  whole tokens it holds at one instant, and a waiter gets a token by its second attempt.
\<close>

section \<open>The ratchet\<close>

text \<open>A stop along a sequence of prices; an update that raises keeps what it has written.\<close>

definition updates :: "f64 list \<Rightarrow> trailing_stop \<Rightarrow> trailing_stop" where
  "updates ps ts = foldl (\<lambda>s p. fst (update p s)) ts ps"

definition better :: "venue_side \<Rightarrow> rat \<Rightarrow> rat \<Rightarrow> bool" where
  "better side x y \<longleftrightarrow> (if side = BUY_SIDE then x \<le> y else y \<le> x)"

lemma better_refl [simp]: "better s x x"
  by (simp add: better_def)

lemma better_trans: "better s x y \<Longrightarrow> better s y z \<Longrightarrow> better s x z"
  by (auto simp: better_def split: if_splits)

text \<open>One update: the side and the trail are kept, the anchor does not get worse, and an accepted
  price does not beat it.\<close>

definition step_better :: "trailing_stop \<Rightarrow> trailing_stop \<Rightarrow> bool" where
  "step_better ts ts' \<longleftrightarrow> ts_side ts' = ts_side ts \<and> ts_trail_pct ts' = ts_trail_pct ts
     \<and> better (ts_side ts) (fval (ts_anchor ts)) (fval (ts_anchor ts'))"

lemma step_better_refl [simp]: "step_better ts ts"
  by (simp add: step_better_def)

lemma step_better_trans: "step_better a b \<Longrightarrow> step_better b c \<Longrightarrow> step_better a c"
  by (auto simp: step_better_def intro: better_trans)

lemma update_step:
  assumes "stop_ok ts"
  shows "step_better ts (fst (update p ts))"
    and "validate_price p = Inr u \<Longrightarrow> better (ts_side ts) (fval p) (fval (ts_anchor (fst (update p ts))))"
proof -
  show "step_better ts (fst (update p ts))"
  proof (cases "validate_price p")
    case (Inr v)
    then obtain x where "p = Fin x" using validate_price_ok by auto
    with Inr assms show ?thesis by (auto simp: update_def step_better_def better_def stop_ok_def Let_def)
  qed (simp add: update_def)
  show "better (ts_side ts) (fval p) (fval (ts_anchor (fst (update p ts))))" if v: "validate_price p = Inr u"
  proof -
    obtain x where "p = Fin x" using v validate_price_ok by auto
    with v assms show ?thesis by (auto simp: update_def better_def stop_ok_def Let_def)
  qed
qed

lemma updates_simps [simp]:
  "updates [] ts = ts" "updates (p # ps) ts = updates ps (fst (update p ts))"
  by (simp_all add: updates_def)

lemma updates_ok:
  "stop_ok ts \<Longrightarrow> \<forall>p \<in> set ps. wf64 p \<Longrightarrow> stop_ok (updates ps ts) \<and> step_better ts (updates ps ts)"
proof (induction ps arbitrary: ts)
  case (Cons p ps)
  then have "stop_ok (fst (update p ts))" using update_ok by simp
  with Cons show ?case using update_step(1) [of ts p] step_better_trans by auto
qed simp

lemma updates_beat:
  "stop_ok ts \<Longrightarrow> \<forall>p \<in> set ps. wf64 p \<Longrightarrow> p \<in> set ps \<Longrightarrow> validate_price p = Inr u
   \<Longrightarrow> better (ts_side ts) (fval p) (fval (ts_anchor (updates ps ts)))"
proof (induction ps arbitrary: ts)
  case (Cons q ps)
  then have ok: "stop_ok (fst (update q ts))" using update_ok by simp
  have s: "step_better ts (fst (update q ts))" using update_step(1) [OF Cons.prems(1)] .
  show ?case
  proof (cases "p = q")
    case True
    then show ?thesis
      using update_step(2) [OF Cons.prems(1), of p u] Cons.prems updates_ok [OF ok, of ps] s
      by (auto simp: step_better_def intro: better_trans)
  next
    case False
    then show ?thesis using Cons.IH [OF ok] Cons.prems s by (auto simp: step_better_def)
  qed
qed simp

lemma stop_price_mono:
  assumes ok: "stop_ok ts" "stop_ok ts'" and s: "step_better ts ts'"
    and p: "stop_price ts = Inr p" "stop_price ts' = Inr p'"
  shows "\<exists>x x'. p = Fin x \<and> p' = Fin x' \<and> better (ts_side ts) x x'"
proof -
  obtain a t where a: "ts_anchor ts = Fin a" "ts_trail_pct ts = Fin t" "0 < a" "0 < t" "t < 1"
    using ok(1) by (auto simp: stop_ok_def)
  obtain a' where a': "ts_anchor ts' = Fin a'" "ts_trail_pct ts' = Fin t" "ts_side ts' = ts_side ts"
      "better (ts_side ts) a a'"
    using ok(2) s a by (auto simp: stop_ok_def step_better_def)
  obtain k where k: "0 \<le> k" "fround (a * k) = p" "fround (a' * k) = p'"
    "isfinite p" "isfinite p'"
  proof (cases "ts_side ts = BUY_SIDE")
    case True
    obtain k where k: "fsub (Fin 1) (Fin t) = Fin k" "0 \<le> k" using long_factor [OF a(4,5)] by blast
    with that [of k] True p a a' show ?thesis by (auto simp: stop_price_def Let_def split: if_splits)
  next
    case False
    obtain k where k: "fadd (Fin 1) (Fin t) = Fin k" "1 \<le> k" using short_factor [OF a(4,5)] by blast
    with that [of k] False p a a' show ?thesis by (auto simp: stop_price_def Let_def split: if_splits)
  qed
  obtain x x' where x: "p = Fin x" "p' = Fin x'" using k(4,5) by (auto simp: isfinite_iff)
  have "better (ts_side ts) (a * k) (a' * k)"
    using a'(4) k(1) by (auto simp: better_def mult_right_mono)
  then have "better (ts_side ts) x x'"
    using k x by (auto simp: better_def intro: fround_le)
  with x show ?thesis by blast
qed

text \<open>C40: the trailing stop is a ratchet. Along any sequence of prices (invalid ones raise and change
  nothing) the side and the trail stay, the anchor never gets worse and no accepted price beats it,
  and the protective price never moves away from the market: a long's stop price never falls and
  never exceeds its anchor, a short's never rises and never is below its anchor.\<close>

theorem trailing_stop_ratchets:
  assumes new: "new_trailing_stop side trail entry = Inr ts" and entry: "wf64 entry"
    and prices: "\<forall>p \<in> set ps. wf64 p"
  shows "ts_side (updates ps ts) = side \<and> ts_trail_pct (updates ps ts) = trail
    \<and> better side (fval entry) (fval (ts_anchor (updates ps ts)))
    \<and> (\<forall>p \<in> set ps. validate_price p = Inr () \<longrightarrow> better side (fval p) (fval (ts_anchor (updates ps ts))))
    \<and> (\<forall>x y. stop_price ts = Inr x \<longrightarrow> stop_price (updates ps ts) = Inr y \<longrightarrow>
         better side (fval x) (fval y) \<and> better side (fval y) (fval (ts_anchor (updates ps ts))))"
proof -
  have ok: "stop_ok ts" by (rule new_trailing_stop_ok [OF new entry])
  have ts: "ts_side ts = side" "ts_trail_pct ts = trail" "ts_anchor ts = entry"
    using new by (auto simp: new_trailing_stop_def rbind_eq_Inr)
  have ok': "stop_ok (updates ps ts)" and s: "step_better ts (updates ps ts)"
    using updates_ok [OF ok prices] by auto
  have "better side (fval x) (fval y) \<and> better side (fval y) (fval (ts_anchor (updates ps ts)))"
    if st: "stop_price ts = Inr x" "stop_price (updates ps ts) = Inr y" for x y
  proof -
    obtain a where a: "ts_anchor (updates ps ts) = Fin a" using ok' by (auto simp: stop_ok_def)
    obtain z where "y = Fin z" "better side z a"
      using stop_side [OF ok' st(2) a] s ts(1)
      by (metis better_def step_better_def)
    then show ?thesis using stop_price_mono [OF ok ok' s st] ts(1) a by auto
  qed
  with s ts updates_beat [OF ok prices] show ?thesis by (auto simp: step_better_def)
qed

theorem trailing_stop_ratchets_witness:
  "ts_anchor (updates [Fin 110, FNaN, Fin 90] \<lparr> ts_side = BUY_SIDE, ts_trail_pct = Fin (1 / 2), ts_anchor = Fin 100 \<rparr>) = Fin 110
   \<and> 100 \<le> fval (ts_anchor (updates [Fin 110, FNaN, Fin 90] \<lparr> ts_side = BUY_SIDE, ts_trail_pct = Fin (1 / 2), ts_anchor = Fin 100 \<rparr>))"
proof -
  have n: "new_trailing_stop BUY_SIDE (Fin (1 / 2)) (Fin 100) =
      Inr \<lparr> ts_side = BUY_SIDE, ts_trail_pct = Fin (1 / 2), ts_anchor = Fin 100 \<rparr>"
    by (simp add: new_trailing_stop_def ensure.simps)
  have w: "wf64 (Fin 100)" "\<forall>p \<in> set [Fin 110, FNaN, Fin 90]. wf64 p"
    using rep64_int [of 100] rep64_int [of 110] rep64_int [of 90] by simp_all
  from trailing_stop_ratchets [OF n w] show ?thesis
    by (simp add: better_def update_def validate_price_def ensure.simps Let_def)
qed


section \<open>The token bucket\<close>

definition bucket_ok :: "token_bucket \<Rightarrow> bool" where
  "bucket_ok b \<longleftrightarrow> 0 < tb_capacity b \<and> tb_capacity b < 2 ^ 53
     \<and> (\<exists>t l p. tb_tokens b = Fin t \<and> tb_last b = Fin l \<and> tb_refill_period_s b = Fin p
          \<and> 0 \<le> t \<and> t \<le> of_int (tb_capacity b) \<and> 0 < p \<and> rep64 t \<and> rep64 p)"

text \<open>Taking one token is exact.\<close>

lemma minus_one_exact:
  assumes "rep64 t" "1 \<le> t" "t < 2 ^ 53"
  shows "rep64 (t - 1)"
proof -
  let ?s = "grid_exp 2 53 (- 1074) t"
  have e: "pw 2 (rat_exp 2 t) \<le> t" "t < pw 2 (rat_exp 2 t + 1)" using rat_exp_bounds [of 2 t] assms by auto
  have "pw 2 0 < pw 2 (rat_exp 2 t + 1)" using e(2) assms(2) by (simp add: pw_0)
  then have lo: "0 \<le> rat_exp 2 t" using pw_le_iff [of 2 0 "rat_exp 2 t + 1"] by simp
  have "pw 2 (rat_exp 2 t) < pw 2 53" using e(1) assms(3) by (simp add: pw_def)
  then have hi: "rat_exp 2 t < 53" using pw_le_iff [of 2 "rat_exp 2 t" 53] by simp
  have s: "?s = rat_exp 2 t - 52" using lo by (simp add: grid_exp_def)
  obtain m where m: "t = of_int m * pw 2 ?s"
    using assms(1,2) by (auto simp: rep64_def rnd64_def rnd_def rnd_pos_def Let_def) metis
  have "on_grid 2 ?s 1" using on_grid_pw [of 2 ?s 0] s hi by simp
  then obtain k where k: "1 = of_int k * pw 2 ?s" using on_grid_iff [of 2] by auto
  have "t - 1 = of_int (m - k) * pw 2 ?s" using m k by (simp add: left_diff_distrib)
  then have "on_grid 2 ?s (t - 1)" using on_grid_iff [of 2 ?s "t - 1"] by (metis pos2)
  moreover have "?s + 53 = rat_exp 2 t + 1" using s by simp
  then have "\<bar>t - 1\<bar> < pw 2 (?s + 53)" using e(2) assms(2) by (metis abs_of_nonneg diff_ge_0_iff_ge less_trans diff_less_eq less_add_one)
  ultimately show ?thesis using lo s by (intro rep64_grid [of ?s]) auto
qed

text \<open>The refill: nothing is lost, nothing exceeds the capacity, and a full period brings a token.\<close>

lemma fmin_cap:
  assumes "\<And>r. x = Fin r \<Longrightarrow> lo \<le> r \<and> rep64 r" "x = FInf False \<or> isfinite x" "lo \<le> c" "rep64 c"
  obtains r where "fmin (Fin c) x = Fin r" "lo \<le> r" "r \<le> c" "rep64 r"
proof (cases x)
  case (Fin r)
  with that [of "min c r"] assms show ?thesis by (auto simp: min_def)
next
  case (FInf s)
  with that [of c] assms show ?thesis by (auto simp: fmin_def flt_def)
qed (use assms in simp)

lemma refill_ok:
  assumes ok: "bucket_ok b" and now: "now = Fin n" "fval (tb_last b) \<le> n"
  obtains t t' where "refill now b = Inr (b \<lparr> tb_tokens := Fin t', tb_last := now \<rparr>)"
    and "tb_tokens b = Fin t" "t \<le> t'" "t' \<le> of_int (tb_capacity b)" "rep64 t'"
    and "rep64 (fval (tb_refill_period_s b) / of_int (tb_capacity b)) \<Longrightarrow>
      fval (tb_refill_period_s b) / of_int (tb_capacity b) \<le> n - fval (tb_last b) \<Longrightarrow> 1 \<le> t'"
    and "fval (tb_last b) = n \<Longrightarrow> t' = t"
proof -
  let ?c = "of_int (tb_capacity b) :: rat"
  obtain t l p where b: "tb_tokens b = Fin t" "tb_last b = Fin l" "tb_refill_period_s b = Fin p"
      "0 \<le> t" "t \<le> ?c" "0 < p" "rep64 t" "rep64 p" "0 < tb_capacity b" "tb_capacity b < 2 ^ 53"
    using ok by (auto simp: bucket_ok_def)
  have c: "float_of_int (tb_capacity b) = Fin ?c" "rep64 ?c" "1 \<le> ?c"
    using float_of_int_exact rep64_int b(9,10) by auto
  have l: "0 \<le> n - l" using now b(2) by simp
  define full where "full \<longleftrightarrow> rep64 (p / ?c) \<and> p / ?c \<le> n - l"
  define gain where "gain = (case fmul (fround (n - l)) (Fin ?c) of Fin v \<Rightarrow> fround (v / p) | x \<Rightarrow> x)"
  have fr: "fround z = FInf False \<or> (\<exists>g. fround z = Fin g \<and> (\<forall>a. rep64 a \<longrightarrow> a \<le> z \<longrightarrow> a \<le> g) \<and> (z = 0 \<longrightarrow> g = 0))"
    if "0 \<le> z" for z
    using that r64.ge_rep by (cases rule: fround_cases [of z]) (auto simp: r64.zero)
  have g0: "gain = FInf False \<or> (\<exists>g. gain = Fin g \<and> 0 \<le> g \<and> (full \<longrightarrow> 1 \<le> g) \<and> (n = l \<longrightarrow> g = 0))"
  proof -
    consider "fround (n - l) = FInf False" | d where "fround (n - l) = Fin d" "0 \<le> d" "full \<longrightarrow> p / ?c \<le> d" "n = l \<longrightarrow> d = 0"
      using fr [OF l] l r64.rep_0 by (auto simp: full_def)
    then show ?thesis
    proof cases
      case 1
      then show ?thesis using c(3) by (simp add: gain_def)
    next
      case 2
      have dc: "0 \<le> d * ?c" using 2(2) c(3) by simp
      have pd: "full \<Longrightarrow> p \<le> d * ?c"
        using 2(3) c(3) by (simp add: pos_divide_le_eq)
      consider "fround (d * ?c) = FInf False" | v where "fround (d * ?c) = Fin v" "0 \<le> v" "full \<longrightarrow> p \<le> v" "n = l \<longrightarrow> v = 0"
        using fr [OF dc] b(8) pd dc r64.rep_0 2(4) by auto
      then show ?thesis
      proof cases
        case 1
        then show ?thesis using 2 by (simp add: gain_def)
      next
        case 2
        have "0 \<le> v / p" "full \<longrightarrow> 1 \<le> v / p" using 2 b(6) by auto
        then show ?thesis
          using fr [of "v / p"] 2 \<open>fround (n - l) = Fin d\<close> r64.rep_0 rep64_1 by (auto simp: gain_def)
      qed
    qed
  qed
  have r: "refill now b = Inr (b \<lparr> tb_tokens := fmin (Fin ?c) (fadd (Fin t) gain), tb_last := now \<rparr>)"
  proof -
    have "fsub now (tb_last b) = fround (n - l)" using now b(2) by (simp add: fsub_def)
    moreover have "fdiv (fmul (fround (n - l)) (Fin ?c)) (Fin p) = Inr gain"
      using b(6) c(3) by (cases "fmul (fround (n - l)) (Fin ?c)") (auto simp: gain_def)
    ultimately show ?thesis using b(1,3) c(1) by (simp add: refill_def)
  qed
  have same: "gain = Fin 0" if "n = l"
    using that by (simp add: gain_def fround_def rnd64_def)
  obtain t' where t': "fmin (Fin ?c) (fadd (Fin t) gain) = Fin t'" "t \<le> t'" "t' \<le> ?c" "rep64 t'"
      "full \<longrightarrow> 1 \<le> t'" "n = l \<longrightarrow> t' = t"
  proof -
    define lo where "lo = (if full then max t 1 else t)"
    have lo: "lo \<le> ?c" using b(5) c(3) by (simp add: lo_def)
    have "x = FInf False \<or> isfinite x" "\<And>r. x = Fin r \<Longrightarrow> lo \<le> r \<and> rep64 r" if x: "x = fadd (Fin t) gain" for x
    proof -
      have *: "(x = FInf False \<or> isfinite x) \<and> (\<forall>r. x = Fin r \<longrightarrow> lo \<le> r \<and> rep64 r)"
      proof (cases "gain = FInf False")
        case False
        then obtain g where g: "gain = Fin g" "0 \<le> g" "full \<longrightarrow> 1 \<le> g" using g0 by auto
        have "t \<le> rnd64 (t + g)" using r64.ge_rep [of t "t + g"] g(2) b(7) by simp
        moreover have "1 \<le> rnd64 (t + g)" if full
          using r64.ge_rep [of 1 "t + g"] g(3) b(4) rep64_1 that by simp
        ultimately have "lo \<le> rnd64 (t + g)" by (simp add: lo_def)
        moreover have "0 \<le> t + g" using b(4) g(2) by simp
        ultimately show ?thesis
          using x g(1) rep64_rnd64 [of "t + g"] by (cases rule: fround_cases [of "t + g"]) auto
      qed (use x in simp)
      then show "x = FInf False \<or> isfinite x" "\<And>r. x = Fin r \<Longrightarrow> lo \<le> r \<and> rep64 r" by blast+
    qed
    from fmin_cap [OF this(2) this(1) lo c(2), OF refl _ refl]
    obtain r where r: "fmin (Fin ?c) (fadd (Fin t) gain) = Fin r" "lo \<le> r" "r \<le> ?c" "rep64 r" by blast
    have "r = t" if "n = l"
    proof -
      have "fround t = Fin t"
      proof (rule fround_rep [OF b(7)])
        have "?c < 2 ^ 53" using b(10) by (metis of_int_less_iff of_int_numeral of_int_power)
        also have "(2::rat) ^ 53 \<le> 2 ^ 1024" by (intro power_increasing) auto
        finally show "\<bar>t\<bar> < 2 ^ 1024" using b(4,5) by (metis abs_of_nonneg order.strict_trans1)
      qed
      then show ?thesis using same [OF that] r(1) b(5) by (simp add: min_def split: if_splits)
    qed
    with that [OF r(1)] r show ?thesis by (auto simp: lo_def split: if_splits)
  qed
  show ?thesis
    by (rule that [of t' t]) (use r t' b now in \<open>auto simp: full_def\<close>)
qed


text \<open>One attempt: it succeeds exactly when a token is there, and takes exactly one.\<close>

lemma try_acquire_ok:
  assumes "bucket_ok b" "now = Fin n" "fval (tb_last b) \<le> n"
  obtains t' b' where "refill now b = Inr b'" "bucket_ok b'" "tb_tokens b' = Fin t'" "fval (tb_tokens b) \<le> t'"
    and "tb_last b' = now" "tb_capacity b' = tb_capacity b" "tb_refill_period_s b' = tb_refill_period_s b"
    and "rep64 (fval (tb_refill_period_s b) / of_int (tb_capacity b)) \<Longrightarrow>
      fval (tb_refill_period_s b) / of_int (tb_capacity b) \<le> n - fval (tb_last b) \<Longrightarrow> 1 \<le> t'"
    and "fval (tb_last b) = n \<Longrightarrow> t' = fval (tb_tokens b)"
    and "try_acquire now b = Inr (if 1 \<le> t' then (True, b' \<lparr> tb_tokens := Fin (t' - 1) \<rparr>) else (False, b'))"
    and "1 \<le> t' \<Longrightarrow> bucket_ok (b' \<lparr> tb_tokens := Fin (t' - 1) \<rparr>)"
proof -
  obtain t t' where r: "refill now b = Inr (b \<lparr> tb_tokens := Fin t', tb_last := now \<rparr>)"
    and t: "tb_tokens b = Fin t" "t \<le> t'" "t' \<le> of_int (tb_capacity b)" "rep64 t'"
    and full: "rep64 (fval (tb_refill_period_s b) / of_int (tb_capacity b)) \<Longrightarrow>
      fval (tb_refill_period_s b) / of_int (tb_capacity b) \<le> n - fval (tb_last b) \<Longrightarrow> 1 \<le> t'"
    and same: "fval (tb_last b) = n \<Longrightarrow> t' = t"
    using refill_ok [OF assms] by metis
  let ?b = "b \<lparr> tb_tokens := Fin t', tb_last := now \<rparr>"
  have ok: "bucket_ok ?b" using assms t r by (auto simp: bucket_ok_def)
  have "of_int (tb_capacity b) < (2::rat) ^ 53"
    using assms(1) by (metis bucket_ok_def of_int_less_iff of_int_numeral of_int_power)
  then have lt: "t' < 2 ^ 53" using t(3) by (rule order.strict_trans1 [rotated])
  have sub: "fsub (Fin t') (Fin 1) = Fin (t' - 1)" "rep64 (t' - 1)" if "1 \<le> t'"
  proof -
    show rep: "rep64 (t' - 1)" by (rule minus_one_exact [OF t(4) that lt])
    have "\<bar>t' - 1\<bar> < 2 ^ 53" using that lt by simp
    also have "(2::rat) ^ 53 \<le> 2 ^ 1024" by (intro power_increasing) auto
    finally show "fsub (Fin t') (Fin 1) = Fin (t' - 1)" using fround_rep [OF rep] by (simp add: fsub_def)
  qed
  show ?thesis
  proof (rule that [of ?b t'])
    show "bucket_ok (?b \<lparr> tb_tokens := Fin (t' - 1) \<rparr>)" if "1 \<le> t'"
      using ok sub(2) [OF that] that t(3) by (auto simp: bucket_ok_def)
  qed (use r ok t full same sub(1) assms in \<open>auto simp: try_acquire_def\<close>)
qed

text \<open>A burst: attempts one after the other at the given clock readings.\<close>

fun attempts :: "f64 list \<Rightarrow> token_bucket \<Rightarrow> bool list res" where
  "attempts [] b = Inr []"
| "attempts (now # nows) b = rbind (try_acquire now b) (\<lambda>(ok, b'). rbind (attempts nows b') (\<lambda>oks. Inr (ok # oks)))"

text \<open>the burst bound. Attempts made at one clock reading succeed exactly as often as there are
  whole tokens: no rounding of the float arithmetic ever grants one more or one less, so a full
  bucket admits exactly its capacity.\<close>

theorem burst_is_bounded:
  assumes "bucket_ok b" "tb_tokens b = Fin t" "tb_last b = now"
  shows "\<exists>oks. attempts (replicate k now) b = Inr oks \<and> length (filter id oks) = min k (nat \<lfloor>t\<rfloor>)"
  using assms
proof (induction k arbitrary: b t)
  case 0
  then show ?case by simp
next
  case (Suc k)
  obtain n where n: "now = Fin n" using Suc.prems by (auto simp: bucket_ok_def)
  have l: "fval (tb_last b) = n" "fval (tb_last b) \<le> n" using Suc.prems(3) n by simp_all
  obtain t' b' where c: "try_acquire now b = Inr (if 1 \<le> t' then (True, b' \<lparr> tb_tokens := Fin (t' - 1) \<rparr>) else (False, b'))"
    "bucket_ok b'" "tb_tokens b' = Fin t'" "tb_last b' = now" "1 \<le> t' \<Longrightarrow> bucket_ok (b' \<lparr> tb_tokens := Fin (t' - 1) \<rparr>)"
    "fval (tb_last b) = n \<Longrightarrow> t' = fval (tb_tokens b)"
    by (rule try_acquire_ok [OF Suc.prems(1) n l(2)]) (rule that; simp)
  have "t' = t" using c(6) [OF l(1)] Suc.prems(2) by simp
  note b' = c(1-5) [unfolded this]
  show ?case
  proof (cases "1 \<le> t")
    case True
    have "nat \<lfloor>t\<rfloor> = Suc (nat \<lfloor>t - 1\<rfloor>)" using True by (simp add: le_floor_iff nat_diff_distrib Suc_nat_eq_nat_zadd1)
    then show ?thesis using Suc.IH [OF b'(5) [OF True], of "t - 1"] b' True by auto
  next
    case False
    then have "nat \<lfloor>t\<rfloor> = 0" by (simp add: floor_less_iff)
    then show ?thesis using Suc.IH [OF b'(2,3,4)] b' False by auto
  qed
qed

text \<open>\<^verbatim>\<open>acquire\<close> returns. With the pause between two attempts that the loop takes
  (\<^verbatim>\<open>refill_period_s / capacity\<close>, a float), a waiter is served at the latest by its second attempt,
  whatever the state of the bucket.\<close>

theorem acquire_returns:
  assumes "bucket_ok b" "fval (tb_last b) \<le> n1"
    and "rep64 (fval (tb_refill_period_s b) / of_int (tb_capacity b))"
    and "n1 + fval (tb_refill_period_s b) / of_int (tb_capacity b) \<le> n2"
  shows "\<exists>b'. acquire (Fin n1 # Fin n2 # later) b = Inr (Some b') \<and> bucket_ok b'"
proof -
  obtain t1 b1 where b1: "bucket_ok b1" "tb_last b1 = Fin n1" "tb_capacity b1 = tb_capacity b"
      "tb_refill_period_s b1 = tb_refill_period_s b"
      "try_acquire (Fin n1) b = Inr (if 1 \<le> t1 then (True, b1 \<lparr> tb_tokens := Fin (t1 - 1) \<rparr>) else (False, b1))"
      "1 \<le> t1 \<Longrightarrow> bucket_ok (b1 \<lparr> tb_tokens := Fin (t1 - 1) \<rparr>)"
    using try_acquire_ok [OF assms(1) refl assms(2)] by metis
  show ?thesis
  proof (cases "1 \<le> t1")
    case True
    with b1 show ?thesis by auto
  next
    case False
    have "0 \<le> fval (tb_refill_period_s b) / of_int (tb_capacity b)"
      using assms(1) by (auto simp: bucket_ok_def)
    then have le: "fval (tb_last b1) \<le> n2" using assms(4) b1(2) by simp
    obtain t2 b2 where "1 \<le> t2"
      "try_acquire (Fin n2) b1 = Inr (if 1 \<le> t2 then (True, b2 \<lparr> tb_tokens := Fin (t2 - 1) \<rparr>) else (False, b2))"
      "1 \<le> t2 \<Longrightarrow> bucket_ok (b2 \<lparr> tb_tokens := Fin (t2 - 1) \<rparr>)"
    proof -
      have "rep64 (fval (tb_refill_period_s b1) / of_int (tb_capacity b1))"
        "fval (tb_refill_period_s b1) / of_int (tb_capacity b1) \<le> n2 - fval (tb_last b1)"
        using b1 assms by (simp_all add: algebra_simps)
      with that try_acquire_ok [OF b1(1) refl le] show ?thesis by metis
    qed
    with False b1 show ?thesis by auto
  qed
qed

definition demo_bucket :: token_bucket where
  "demo_bucket = \<lparr> tb_capacity = 30, tb_refill_period_s = Fin 60, tb_tokens = Fin 2, tb_last = Fin 0 \<rparr>"

lemma demo_bucket_ok: "bucket_ok demo_bucket"
  using rep64_int [of 2] rep64_int [of 60] by (simp add: bucket_ok_def demo_bucket_def)

theorem burst_is_bounded_witness:
  "\<exists>oks. attempts (replicate 5 (Fin 0)) demo_bucket = Inr oks \<and> length (filter id oks) = 2"
  using burst_is_bounded [OF demo_bucket_ok, of 2 "Fin 0" 5] by (simp add: demo_bucket_def)

theorem acquire_returns_witness:
  "\<exists>b'. acquire [Fin 1, Fin 3] demo_bucket = Inr (Some b') \<and> bucket_ok b'"
  using acquire_returns [OF demo_bucket_ok, of 1 3 "[]"] rep64_int [of 2] by (simp add: demo_bucket_def)

end
