(* ===== verification/Interaction_Rules.thy ===== *)
theory Interaction_Rules
  imports Interaction
begin

text \<open>
  Syntax-directed rules for guarded programs. \<open>does G p t P\<close> says that \<open>p\<close>, started at history \<open>t\<close> in any
  state, makes only requests that meet the guard \<open>G\<close> at their own history, and that \<open>P\<close> holds of the
  value and the history of every normal return. The collection \<open>does_rules\<close> has one rule per
  combinator; a theory that proves an operation once adds its rule to the collection.
\<close>

named_theorems does_rules \<open>introduction rules for guarded programs\<close>

definition does ::
  "(('q, 'r) trace \<Rightarrow> 'q \<Rightarrow> bool) \<Rightarrow> ('s, 'q, 'r, 'a) prog \<Rightarrow> ('q, 'r) trace
   \<Rightarrow> ('a \<Rightarrow> ('q, 'r) trace \<Rightarrow> bool) \<Rightarrow> bool" where
  "does G p t P \<longleftrightarrow> (\<forall>s. safe G p (\<lambda>_ t' r. \<forall>a. r = Inr a \<longrightarrow> P a t') s t)"

definition keeps :: "(('q, 'r) trace \<Rightarrow> 'q \<Rightarrow> bool) \<Rightarrow> ('s, 'q, 'r, 'a) prog \<Rightarrow> bool" where
  "keeps G p \<longleftrightarrow> (\<forall>t. does G p t (\<lambda>_ _. True))"

section \<open>What the judgement gives\<close>

lemma safe_extends:
  "safe G p Q s t \<Longrightarrow> safe G p (\<lambda>s' t' r. Q s' t' r \<and> (\<exists>u. t' = t @ u)) s t"
proof (induction p arbitrary: s t)
  case (Ask q k)
  have "safe G (k r) (\<lambda>s' t' r. Q s' t' r \<and> (\<exists>u. t' = t @ u)) s (t @ [(q, r)])" for r
    by (rule safe_conseq [OF Ask.IH [OF rangeI]]) (use Ask.prems in auto)
  then show ?case using Ask.prems by simp
qed auto

lemma does_conseq: "does G p t R \<Longrightarrow> (\<And>a t'. R a t' \<Longrightarrow> P a t') \<Longrightarrow> does G p t P"
  unfolding does_def by (rule allI, rule safe_conseq, erule spec) auto

lemma does_extends: "does G p t P \<Longrightarrow> does G p t (\<lambda>a t'. P a t' \<and> (\<exists>u. t' = t @ u))"
  unfolding does_def
proof
  fix s
  assume "\<forall>s. safe G p (\<lambda>_ t' r. \<forall>a. r = Inr a \<longrightarrow> P a t') s t"
  then have "safe G p (\<lambda>_ t' r. \<forall>a. r = Inr a \<longrightarrow> P a t') s t" by (rule spec)
  from safe_extends [OF this]
  show "safe G p (\<lambda>_ t' r. \<forall>a. r = Inr a \<longrightarrow> P a t' \<and> (\<exists>u. t' = t @ u)) s t"
    by (rule safe_conseq) auto
qed

lemma does_keeps: "keeps G p \<Longrightarrow> (\<And>a u. P a (t @ u)) \<Longrightarrow> does G p t P"
  unfolding keeps_def by (rule does_conseq [OF does_extends]) auto

lemma keepsI: "(\<And>t. does G p t (\<lambda>_ _. True)) \<Longrightarrow> keeps G p"
  by (simp add: keeps_def)

lemma keepsD: "keeps G p \<Longrightarrow> does G p t (\<lambda>_ _. True)"
  by (simp add: keeps_def)

text \<open>Every run of the program meets the guard.\<close>

lemma does_run:
  "does G p t P \<Longrightarrow> guarded G t \<Longrightarrow> run env p s t = (s', t', r) \<Longrightarrow> guarded G t' \<and> (\<forall>a. r = Inr a \<longrightarrow> P a t')"
  unfolding does_def by (auto dest: safe_run)

lemma keeps_run: "keeps G p \<Longrightarrow> guarded G t \<Longrightarrow> guarded G (fst (snd (run env p s t)))"
  using does_run [OF keepsD, of G p t env s] by (cases "run env p s t") auto

section \<open>One rule per combinator\<close>

lemma does_Ret [does_rules]: "P a t \<Longrightarrow> does G (Ret a) t P"
  by (simp add: does_def)

lemma does_Fail [does_rules]: "does G (Fail e) t P"
  by (simp add: does_def)

lemma does_bindp [does_rules]: "does G p t (\<lambda>a t'. does G (f a) t' P) \<Longrightarrow> does G (bindp p f) t P"
  unfolding does_def safe_bindp
  by (rule allI, rule safe_conseq, erule spec) (auto split: sum.splits)

lemma does_catchp [does_rules]:
  assumes "does G p t P" "\<And>e u. does G (h e) (t @ u) P"
  shows "does G (catchp p h) t P"
  unfolding does_def safe_catchp
proof
  fix s
  have p: "safe G p (\<lambda>_ t' r. \<forall>a. r = Inr a \<longrightarrow> P a t') s t"
    using assms(1) by (simp add: does_def)
  have h: "safe G (h e) (\<lambda>_ t' r. \<forall>a. r = Inr a \<longrightarrow> P a t') s' (t @ u)" for e u s'
    using assms(2) [of e u] by (simp add: does_def)
  show "safe G p (\<lambda>s' t' r. case r of Inl e \<Rightarrow> safe G (h e) (\<lambda>_ t' r. \<forall>a. r = Inr a \<longrightarrow> P a t') s' t'
         | Inr a \<Rightarrow> \<forall>aa. Inr a = Inr aa \<longrightarrow> P aa t') s t"
    by (rule safe_conseq [OF safe_extends [OF p]]) (auto intro: h split: sum.splits)
qed

lemma does_liftp [does_rules]: "(\<And>a. r = Inr a \<Longrightarrow> P a t) \<Longrightarrow> does G (liftp r) t P"
  by (simp add: does_def safe_liftp)

lemma does_checkp [does_rules]: "(ensure cs = Inr () \<Longrightarrow> P () t) \<Longrightarrow> does G (checkp cs) t P"
  by (simp add: does_def safe_checkp)

lemma does_await:
  "G t q \<Longrightarrow> (\<And>v a. sel v = Some a \<Longrightarrow> P a (t @ [(q, Inr v)])) \<Longrightarrow> does G (await q sel) t P"
  by (auto simp: does_def safe_await split: option.splits)

lemma does_if [does_rules]:
  "(c \<Longrightarrow> does G p t P) \<Longrightarrow> (\<not> c \<Longrightarrow> does G q t P) \<Longrightarrow> does G (if c then p else q) t P"
  by simp

lemma does_option [does_rules]:
  "(x = None \<Longrightarrow> does G p t P) \<Longrightarrow> (\<And>y. x = Some y \<Longrightarrow> does G (f y) t P) \<Longrightarrow> does G (case_option p f x) t P"
  by (cases x) auto

lemma does_sum [does_rules]:
  "(\<And>e. x = Inl e \<Longrightarrow> does G (h e) t P) \<Longrightarrow> (\<And>y. x = Inr y \<Longrightarrow> does G (f y) t P) \<Longrightarrow> does G (case_sum h f x) t P"
  by (cases x) auto

lemma does_prod [does_rules]: "(\<And>a b. x = (a, b) \<Longrightarrow> does G (f a b) t P) \<Longrightarrow> does G (case_prod f x) t P"
  by (cases x) auto

lemma does_Let [does_rules]: "does G (f e) t P \<Longrightarrow> does G (Let e f) t P"
  by simp

lemma keeps_mapp [THEN does_keeps, does_rules]:
  assumes "\<And>x. x \<in> set xs \<Longrightarrow> keeps G (f x)"
  shows "keeps G (mapp f xs)"
  using assms
proof (induction xs)
  case Nil
  then show ?case by (simp add: keeps_def does_Ret)
next
  case (Cons x xs)
  then have "keeps G (f x)" "keeps G (mapp f xs)" by auto
  then show ?case by (auto intro!: keepsI does_bindp does_keeps does_Ret)
qed

end
