(* ===== verification/Orders.thy ===== *)
theory Orders
  imports Sha256
begin

text \<open>
  \<^verbatim>\<open>kairos_execution/state_machine.py\<close>: the order state machine and the client order identifiers.
  A \<^verbatim>\<open>datetime\<close> is its wall clock in microseconds since 1970-01-01 with its offset to UTC, if it has
  one. Instants of the current time are arguments.
\<close>

section \<open>The order state machine\<close>

datatype execution_state = ES_RECEIVED | ES_SUBMITTING | ES_ACKNOWLEDGED | ES_PARTIALLY_FILLED | ES_FILLED
  | ES_CANCELLED | ES_REJECTED | ES_UNKNOWN

definition state_text :: "execution_state \<Rightarrow> string" where
  "state_text s = (case s of ES_RECEIVED \<Rightarrow> ''RECEIVED'' | ES_SUBMITTING \<Rightarrow> ''SUBMITTING''
     | ES_ACKNOWLEDGED \<Rightarrow> ''ACKNOWLEDGED'' | ES_PARTIALLY_FILLED \<Rightarrow> ''PARTIALLY_FILLED''
     | ES_FILLED \<Rightarrow> ''FILLED'' | ES_CANCELLED \<Rightarrow> ''CANCELLED'' | ES_REJECTED \<Rightarrow> ''REJECTED''
     | ES_UNKNOWN \<Rightarrow> ''UNKNOWN'')"

definition final_order_states :: "execution_state list" where
  "final_order_states = [ES_FILLED, ES_CANCELLED, ES_REJECTED]"

definition allowed_targets :: "execution_state \<Rightarrow> execution_state list" where
  "allowed_targets s = (case s of
     ES_RECEIVED \<Rightarrow> [ES_SUBMITTING, ES_REJECTED]
   | ES_SUBMITTING \<Rightarrow> [ES_ACKNOWLEDGED, ES_PARTIALLY_FILLED, ES_FILLED, ES_REJECTED, ES_UNKNOWN]
   | ES_ACKNOWLEDGED \<Rightarrow> [ES_PARTIALLY_FILLED, ES_FILLED, ES_CANCELLED, ES_REJECTED, ES_UNKNOWN]
   | ES_PARTIALLY_FILLED \<Rightarrow> [ES_PARTIALLY_FILLED, ES_FILLED, ES_CANCELLED, ES_UNKNOWN]
   | ES_UNKNOWN \<Rightarrow> [ES_ACKNOWLEDGED, ES_PARTIALLY_FILLED, ES_FILLED, ES_CANCELLED, ES_REJECTED]
   | _ \<Rightarrow> [])"

record order_state =
  os_client_order_id :: string
  os_state :: execution_state

definition new_order :: "string \<Rightarrow> order_state" where
  "new_order cid = \<lparr> os_client_order_id = cid, os_state = ES_RECEIVED \<rparr>"

definition transition :: "execution_state \<Rightarrow> order_state \<Rightarrow> order_state res" where
  "transition target st =
     (if target \<notin> set (allowed_targets (os_state st))
      then raise ValueError (''invalid execution transition '' @ state_text (os_state st) @ '' -> '' @ state_text target)
      else Inr (st \<lparr> os_state := target \<rparr>))"

section \<open>Client order identifiers\<close>

record py_datetime =
  dt_wall_us :: int
  dt_offset_us :: "int option"

text \<open>The UTC date of an instant as days since 1970-01-01; a naive one is taken as UTC.\<close>

definition utc_day :: "py_datetime \<Rightarrow> int" where
  "utc_day t = (dt_wall_us t - (case dt_offset_us t of None \<Rightarrow> 0 | Some off \<Rightarrow> off)) div 86400000000"

text \<open>2025-07-24.\<close>

definition evedex_epoch_day :: int where
  "evedex_epoch_day = 20293"

definition lower_char :: "char \<Rightarrow> char" where
  "lower_char c = (let n = (of_char c :: nat) in if 65 \<le> n \<and> n \<le> 90 then char_of (n + 32) else c)"

definition upper_char :: "char \<Rightarrow> char" where
  "upper_char c = (let n = (of_char c :: nat) in if 97 \<le> n \<and> n \<le> 122 then char_of (n - 32) else c)"

text \<open>\<^verbatim>\<open>f"{n:05d}"\<close> of a nonnegative number.\<close>

definition five_digits :: "int \<Rightarrow> string" where
  "five_digits n = (let d = nat_digits (nat n) in replicate (5 - length d) (CHR ''0'') @ d)"

definition client_order_id :: "string \<Rightarrow> string \<Rightarrow> py_datetime option \<Rightarrow> py_datetime \<Rightarrow> string res" where
  "client_order_id validated_order_id exchange occurred_at now =
     (let digest = take 32 (sha256_hex (''kairos:v1:'' @ exchange @ '':'' @ validated_order_id)) in
      if map lower_char exchange = ''evedex'' then
        (let timestamp = (case occurred_at of Some t \<Rightarrow> t | None \<Rightarrow> now);
             days_since_epoch = utc_day timestamp - evedex_epoch_day
         in if \<not> (0 \<le> days_since_epoch \<and> days_since_epoch \<le> 99999)
            then raise ValueError ''EVEDEX order timestamp is outside the supported ID range''
            else Inr (five_digits days_since_epoch @ '':'' @ map upper_char (take 26 digest)))
      else Inr (''krs-'' @ digest))"

definition is_digit :: "char \<Rightarrow> bool" where
  "is_digit c = (let n = (of_char c :: nat) in 48 \<le> n \<and> n \<le> 57)"

definition is_hex :: "char \<Rightarrow> bool" where
  "is_hex c = (let n = (of_char c :: nat) in
     48 \<le> n \<and> n \<le> 57 \<or> 65 \<le> n \<and> n \<le> 70 \<or> 97 \<le> n \<and> n \<le> 102)"

text \<open>\<^verbatim>\<open>^[0-9]{5}:[0-9A-Fa-f]{26}$\<close>, matched in full.\<close>

definition is_evedex_client_order_id :: "string \<Rightarrow> bool" where
  "is_evedex_client_order_id v =
     (length v = 32 \<and> list_all is_digit (take 5 v) \<and> take 1 (drop 5 v) = '':'' \<and> list_all is_hex (drop 6 v))"

definition is_fresh_evedex_client_order_id :: "string \<Rightarrow> py_datetime \<Rightarrow> bool" where
  "is_fresh_evedex_client_order_id v now =
     (is_evedex_client_order_id v \<and>
      (let current_day = utc_day now - evedex_epoch_day; order_day = int (digits_nat (take 5 v))
       in order_day = current_day \<or> order_day = current_day - 1))"

section \<open>Lemmas\<close>

lemma of_char_char_of [simp]: "n < 256 \<Longrightarrow> (of_char (char_of n) :: nat) = n"
  by (simp add: of_char_of take_bit_eq_mod)

lemma is_digit_digit_char: "d < 10 \<Longrightarrow> is_digit (digit_char d)"
  by (simp add: is_digit_def digit_char_def Let_def)

lemma nat_digits_all: "list_all is_digit (nat_digits n)"
  by (induction n rule: nat_digits.induct) (subst nat_digits.simps, simp add: is_digit_digit_char)

lemma length_nat_digits: "n < 10 ^ k \<Longrightarrow> 0 < k \<Longrightarrow> length (nat_digits n) \<le> k"
proof (induction n arbitrary: k rule: nat_digits.induct)
  case (1 n)
  show ?case
  proof (cases "n < 10")
    case True
    then show ?thesis using 1(3) by (simp add: nat_digits.simps [of n])
  next
    case False
    obtain j where k: "k = Suc j" using 1(3) by (cases k) auto
    then have n: "n div 10 < 10 ^ j" using 1(2) by simp
    have "j \<noteq> 0"
    proof
      assume "j = 0"
      with n False show False by simp
    qed
    with n 1(1) [OF False, of j] False k show ?thesis by (simp add: nat_digits.simps [of n])
  qed
qed

lemma length_nat_digits_pos: "0 < length (nat_digits n)"
  by (subst nat_digits.simps) simp

lemma digits_nat_zeros: "digits_nat (replicate k (CHR ''0'') @ ds) = digits_nat ds"
  by (induction k) (simp_all add: digits_nat_def char_digit_def)

lemma five_digits:
  assumes "0 \<le> n" "n \<le> 99999"
  shows "length (five_digits n) = 5" "list_all is_digit (five_digits n)" "int (digits_nat (five_digits n)) = n"
proof -
  have "length (nat_digits (nat n)) \<le> 5" by (rule length_nat_digits) (use assms in auto)
  then show "length (five_digits n) = 5" by (simp add: five_digits_def Let_def)
  show "list_all is_digit (five_digits n)"
    using nat_digits_all [of "nat n"] by (auto simp: five_digits_def Let_def list_all_iff is_digit_def)
  show "int (digits_nat (five_digits n)) = n"
    using assms by (simp add: five_digits_def Let_def digits_nat_zeros digits_nat_digits)
qed

lemma hex_char_hex: "d < 16 \<Longrightarrow> is_hex (upper_char (hex_char d))"
proof -
  assume "d < 16"
  then have "d \<in> {0, 1, 2, 3, 4, 5, 6, 7, 8, 9, 10, 11, 12, 13, 14, 15}" by simp presburger
  then show ?thesis by (auto simp: is_hex_def upper_char_def hex_char_def digit_char_def Let_def)
qed

lemma sha256_hex_upper: "list_all is_hex (map upper_char (sha256_hex m))"
proof -
  have "unat (x AND 15 :: u32) < 16" for x
    using word_and_le1 [of x 15] by (simp add: word_le_nat_alt)
  then have "list_all is_hex (map upper_char (hex_word w))" for w
    by (simp add: hex_word_def hex_char_hex)
  then have "list_all is_hex (map upper_char (concat (map hex_word ws)))" for ws
    by (induction ws) auto
  then show ?thesis by (simp only: sha256_hex_def)
qed

lemma list_all_take: "list_all P xs \<Longrightarrow> list_all P (take n xs)"
  by (auto simp: list_all_iff dest: in_set_takeD)

lemma evedex_id_shape:
  assumes "client_order_id v ex at0 now = Inr i" "map lower_char ex = ''evedex''"
  defines "day \<equiv> utc_day (case at0 of Some t \<Rightarrow> t | None \<Rightarrow> now) - evedex_epoch_day"
  shows "is_evedex_client_order_id i" "int (digits_nat (take 5 i)) = day" "0 \<le> day" "day \<le> 99999"
proof -
  let ?hex = "map upper_char (take 26 (take 32 (sha256_hex (''kairos:v1:'' @ ex @ '':'' @ v))))"
  have d: "0 \<le> day" "day \<le> 99999" and i: "i = five_digits day @ '':'' @ ?hex"
    using assms by (auto simp: client_order_id_def Let_def split: if_splits)
  show "0 \<le> day" "day \<le> 99999" by (fact d)+
  note F = five_digits [OF d]
  have h: "list_all is_hex ?hex" "length ?hex = 26"
    using list_all_take [OF sha256_hex_upper, of 26 "''kairos:v1:'' @ ex @ '':'' @ v"]
    by (simp_all add: take_map)
  show "is_evedex_client_order_id i"
    unfolding i is_evedex_client_order_id_def using F h by simp
  show "int (digits_nat (take 5 i)) = day" unfolding i using F by simp
qed

section \<open>Properties\<close>

text \<open>C39: an EVEDEX client order identifier has the wire format of the venue, and it is fresh exactly
  on the UTC day of the instant it was made from and on the next one; so a retry of the same order on
  those days is accepted, and an older identifier never is.\<close>

theorem client_order_id_fresh:
  assumes "client_order_id v ex at0 now = Inr i" "map lower_char ex = ''evedex''"
  shows "is_evedex_client_order_id i
    \<and> (is_fresh_evedex_client_order_id i later \<longleftrightarrow>
         utc_day later - utc_day (case at0 of Some t \<Rightarrow> t | None \<Rightarrow> now) \<in> {0, 1})"
  using evedex_id_shape [OF assms]
  by (auto simp: is_fresh_evedex_client_order_id_def Let_def)

definition demo_instant :: py_datetime where
  "demo_instant = \<lparr> dt_wall_us = 20300 * 86400000000, dt_offset_us = None \<rparr>"

theorem client_order_id_fresh_witness:
  "\<exists>i. client_order_id ''v1'' ''EVEDEX'' None demo_instant = Inr i \<and> is_fresh_evedex_client_order_id i demo_instant"
proof -
  have lower: "map lower_char ''EVEDEX'' = ''evedex''"
    by (simp add: lower_char_def Let_def char_of_def) (simp add: char_of_def bit_simps)
  have "\<exists>i. client_order_id ''v1'' ''EVEDEX'' None demo_instant = Inr i"
    using lower by (simp add: client_order_id_def Let_def utc_day_def demo_instant_def evedex_epoch_day_def)
  then obtain i where i: "client_order_id ''v1'' ''EVEDEX'' None demo_instant = Inr i" by blast
  from client_order_id_fresh [OF i lower, of demo_instant] i show ?thesis by auto
qed

inductive order_run :: "order_state \<Rightarrow> order_state \<Rightarrow> bool" where
  stop: "order_run st st"
| step: "order_run st st' \<Longrightarrow> transition target st' = Inr st'' \<Longrightarrow> order_run st st''"

inductive_cases order_runE: "order_run st st'"

lemma transition_ok: "transition target st = Inr st' \<longleftrightarrow>
    target \<in> set (allowed_targets (os_state st)) \<and> st' = st \<lparr> os_state := target \<rparr>"
  by (auto simp: transition_def)

lemma targets_facts:
  "s \<in> set final_order_states \<Longrightarrow> allowed_targets s = []" "ES_RECEIVED \<notin> set (allowed_targets s)"
  "ES_SUBMITTING \<in> set (allowed_targets s) \<Longrightarrow> s = ES_RECEIVED"
  by (cases s; simp add: allowed_targets_def final_order_states_def)+

text \<open>the order state machine. A transition is accepted exactly along the table and otherwise
  raises and leaves the order as it was; no sequence of accepted transitions leaves \<open>FILLED\<close>,
  \<open>CANCELLED\<close> or \<open>REJECTED\<close>, returns to \<open>RECEIVED\<close>, or goes back to \<open>SUBMITTING\<close>; the identifier
  never changes.\<close>

theorem order_states_final:
  assumes "order_run st st'"
  shows "os_client_order_id st' = os_client_order_id st
    \<and> (os_state st \<in> set final_order_states \<longrightarrow> st' = st)
    \<and> (os_state st' = ES_RECEIVED \<longrightarrow> st' = st)
    \<and> (os_state st' = ES_SUBMITTING \<longrightarrow> os_state st \<in> {ES_RECEIVED, ES_SUBMITTING})"
  using assms
proof (induction rule: order_run.induct)
  case (step st st' target st'')
  then have T: "target \<in> set (allowed_targets (os_state st'))" and eq: "st'' = st' \<lparr> os_state := target \<rparr>"
    by (simp_all add: transition_ok)
  have live: "os_state st' \<notin> set final_order_states" using T targets_facts(1) [of "os_state st'"] by auto
  have "os_state st \<notin> set final_order_states" using step.IH live by metis
  moreover have "target \<noteq> ES_RECEIVED" using T targets_facts(2) by metis
  moreover have "os_state st \<in> {ES_RECEIVED, ES_SUBMITTING}" if "target = ES_SUBMITTING"
    using targets_facts(3) [of "os_state st'"] T that step.IH by (metis insertI1)
  ultimately show ?case using step.IH by (simp add: eq)
qed simp

theorem order_states_final_witness:
  "os_client_order_id \<lparr> os_client_order_id = ''k'', os_state = ES_FILLED \<rparr> = ''k''
   \<and> \<not> is_ok (transition ES_CANCELLED \<lparr> os_client_order_id = ''k'', os_state = ES_FILLED \<rparr>)"
proof -
  have a: "transition ES_SUBMITTING (new_order ''k'') = Inr \<lparr> os_client_order_id = ''k'', os_state = ES_SUBMITTING \<rparr>"
    by (simp add: transition_def new_order_def allowed_targets_def)
  have "transition ES_FILLED \<lparr> os_client_order_id = ''k'', os_state = ES_SUBMITTING \<rparr>
      = Inr \<lparr> os_client_order_id = ''k'', os_state = ES_FILLED \<rparr>"
    by (simp add: transition_def allowed_targets_def)
  from order_run.step [OF order_run.step [OF order_run.stop a] this]
  have "order_run (new_order ''k'') \<lparr> os_client_order_id = ''k'', os_state = ES_FILLED \<rparr>" .
  from order_states_final [OF this] show ?thesis
    by (simp add: new_order_def transition_def allowed_targets_def)
qed

end
