(* ===== verification/Py_Text.thy ===== *)
theory Py_Text
  imports Orders
begin

text \<open>
  What the paper engine uses of Python's text and number conversions: \<^verbatim>\<open>str\<close> of a JSON value,
  \<^verbatim>\<open>float(...)\<close>, \<^verbatim>\<open>Decimal(str(...))\<close>, \<^verbatim>\<open>float.hex\<close> and \<^verbatim>\<open>float.fromhex\<close>, the \<^verbatim>\<open>.12g\<close> format,
  \<^verbatim>\<open>datetime.fromisoformat\<close> and the conversions between instants and milliseconds. Text is ASCII:
  \<^verbatim>\<open>upper\<close>, \<^verbatim>\<open>casefold\<close> and \<^verbatim>\<open>strip\<close> act on the ASCII letters and blanks. An instant is the number of
  microseconds since 1970-01-01 UTC.
\<close>

type_synonym instant = int
type_synonym obj = "(string \<times> json) list"

section \<open>Text\<close>

definition py_upper :: "string \<Rightarrow> string" where
  "py_upper s = map upper_char s"

definition casefold :: "string \<Rightarrow> string" where
  "casefold s = map lower_char s"

definition is_blank :: "char \<Rightarrow> bool" where
  "is_blank c = (let n = (of_char c :: nat) in n = 32 \<or> (9 \<le> n \<and> n \<le> 13) \<or> (28 \<le> n \<and> n \<le> 31))"

definition strip :: "string \<Rightarrow> string" where
  "strip s = rev (dropWhile is_blank (rev (dropWhile is_blank s)))"

fun replace_text :: "string \<Rightarrow> string \<Rightarrow> string \<Rightarrow> string" where
  "replace_text pat sub [] = []"
| "replace_text pat sub (c # cs) =
     (if pat \<noteq> [] \<and> take (length pat) (c # cs) = pat
      then sub @ replace_text pat sub (drop (length pat - 1) cs)
      else c # replace_text pat sub cs)"

definition starts_with :: "string \<Rightarrow> string \<Rightarrow> bool" where
  "starts_with p s \<longleftrightarrow> take (length p) s = p"

fun join :: "string \<Rightarrow> string list \<Rightarrow> string" where
  "join sep [] = []"
| "join sep [x] = x"
| "join sep (x # xs) = x @ sep @ join sep xs"

text \<open>\<^verbatim>\<open>dict.fromkeys(xs)\<close>: the first occurrence of every element.\<close>

fun first_occurrences :: "'a list \<Rightarrow> 'a list" where
  "first_occurrences [] = []"
| "first_occurrences (x # xs) = x # first_occurrences (filter (\<lambda>y. y \<noteq> x) xs)"

section \<open>Floats as text\<close>

text \<open>A positive decimal \<open>d\<close> in scientific notation with at least two exponent digits.\<close>

definition exponent_text :: "int \<Rightarrow> string" where
  "exponent_text e = (if e < 0 then ''e-'' else ''e+'') @
     (let ds = nat_digits (nat \<bar>e\<bar>) in if length ds < 2 then CHR ''0'' # ds else ds)"

definition scientific_text :: "rat \<Rightarrow> string" where
  "scientific_text d = (let e = rat_exp 10 d in decimal_text (d / pw 10 e) @ exponent_text e)"

definition float_text :: "f64 \<Rightarrow> string" where
  "float_text x = (case x of FNaN \<Rightarrow> ''nan'' | FInf s \<Rightarrow> (if s then ''-inf'' else ''inf'')
     | Fin v \<Rightarrow> if v = 0 then ''0.0'' else
         (let d = (case frepr \<bar>v\<bar> of Some d \<Rightarrow> d | None \<Rightarrow> \<bar>v\<bar>); e = rat_exp 10 d;
              body = (if - 4 \<le> e \<and> e < 16
                      then (let t = decimal_text d in if CHR ''.'' \<in> set t then t else t @ ''.0'')
                      else scientific_text d)
          in if v < 0 then CHR ''-'' # body else body))"

text \<open>\<^verbatim>\<open>format(x, ".12g")\<close>.\<close>

definition format_g12 :: "f64 \<Rightarrow> string" where
  "format_g12 x = (case x of FNaN \<Rightarrow> ''nan'' | FInf s \<Rightarrow> (if s then ''-inf'' else ''inf'')
     | Fin v \<Rightarrow> if v = 0 then ''0'' else
         (let d = dround 12 \<bar>v\<bar>; e = rat_exp 10 d;
              body = (if - 4 \<le> e \<and> e < 12 then decimal_text d else scientific_text d)
          in if v < 0 then CHR ''-'' # body else body))"

section \<open>Any value as text\<close>

definition repr_string :: "string \<Rightarrow> string" where
  "repr_string s =
     (let q = (if CHR 0x27 \<in> set s \<and> CHR 0x22 \<notin> set s then CHR 0x22 else CHR 0x27)
      in q # concat (map (\<lambda>c. if c = q \<or> c = CHR 0x5C then [CHR 0x5C, c]
           else if c = CHR 0x0A then [CHR 0x5C, CHR ''n''] else if c = CHR 0x0D then [CHR 0x5C, CHR ''r'']
           else if c = CHR 0x09 then [CHR 0x5C, CHR ''t'']
           else if (of_char c :: nat) < 32 \<or> (of_char c :: nat) = 127
             then [CHR 0x5C, CHR ''x'', hex_char (of_char c div 16), hex_char (of_char c mod 16)]
           else [c]) s) @ [q])"

primrec py_repr :: "json \<Rightarrow> string" where
  "py_repr JNull = ''None''"
| "py_repr (JBool b) = (if b then ''True'' else ''False'')"
| "py_repr (JInt i) = int_text i"
| "py_repr (JFloat x) = float_text x"
| "py_repr (JStr s) = repr_string s"
| "py_repr (JArr xs) = CHR ''['' # join '', '' (map py_repr xs) @ '']''"
| "py_repr (JObj kvs) = CHR ''{'' # join '', '' (map (\<lambda>(k, v). repr_string k @ '': '' @ v)
     (map (map_prod id py_repr) kvs)) @ ''}''"

fun py_str :: "json \<Rightarrow> string" where
  "py_str (JStr s) = s"
| "py_str j = py_repr j"

fun truthy :: "json \<Rightarrow> bool" where
  "truthy JNull = False"
| "truthy (JBool b) = b"
| "truthy (JInt i) = (i \<noteq> 0)"
| "truthy (JFloat x) = (\<not> feq x fzero)"
| "truthy (JStr s) = (s \<noteq> [])"
| "truthy (JArr xs) = (xs \<noteq> [])"
| "truthy (JObj kvs) = (kvs \<noteq> [])"

text \<open>\<^verbatim>\<open>d.get(k)\<close> and \<^verbatim>\<open>str(d.get(k, default))\<close>.\<close>

definition field :: "obj \<Rightarrow> string \<Rightarrow> json" where
  "field d k = (case map_of d k of Some v \<Rightarrow> v | None \<Rightarrow> JNull)"

definition field_text :: "obj \<Rightarrow> string \<Rightarrow> string \<Rightarrow> string" where
  "field_text d k dflt = (case map_of d k of Some v \<Rightarrow> py_str v | None \<Rightarrow> dflt)"

section \<open>Text as a number\<close>

definition split_sign :: "string \<Rightarrow> bool \<times> string" where
  "split_sign s = (case s of [] \<Rightarrow> (False, []) | c # cs \<Rightarrow>
     if c = CHR ''-'' then (True, cs) else if c = CHR ''+'' then (False, cs) else (False, s))"

definition hex_value :: "char \<Rightarrow> nat" where
  "hex_value c = (let n = of_char c in if n \<le> 57 then n - 48 else if n \<le> 70 then n - 55 else n - 87)"

definition base_nat :: "nat \<Rightarrow> string \<Rightarrow> nat" where
  "base_nat b ds = foldl (\<lambda>acc c. b * acc + hex_value c) 0 ds"

text \<open>Digits of base \<open>b\<close> with an optional fraction and an optional exponent of base \<open>eb\<close>, which the
  characters \<open>marks\<close> introduce; \<open>None\<close> when the text is not such a number.\<close>

definition unsigned_number ::
  "(char \<Rightarrow> bool) \<Rightarrow> nat \<Rightarrow> nat \<Rightarrow> char list \<Rightarrow> string \<Rightarrow> rat option" where
  "unsigned_number digit b eb marks s =
     (let whole = takeWhile digit s; r1 = dropWhile digit s;
          (frac, r2) = (case r1 of c # cs \<Rightarrow> if c = CHR ''.'' then (takeWhile digit cs, dropWhile digit cs) else ([], r1)
                        | [] \<Rightarrow> ([], []));
          m = (of_nat (base_nat b (whole @ frac)) :: rat) / of_nat b ^ length frac
      in if whole @ frac = [] then None
         else case r2 of [] \<Rightarrow> Some m
           | c # cs \<Rightarrow> if c \<notin> set marks then None
               else (let (neg, ds) = split_sign cs in
                     if ds = [] \<or> \<not> list_all is_digit ds then None
                     else Some (m * pw eb (if neg then - int (digits_nat ds) else int (digits_nat ds)))))"

definition decimal_number :: "string \<Rightarrow> rat option" where
  "decimal_number s = (let (neg, r) = split_sign s
     in map_option (\<lambda>v. if neg then - v else v) (unsigned_number is_digit 10 10 [CHR ''e'', CHR ''E''] r))"

text \<open>Underscores are allowed between two digits.\<close>

fun underscores_ok :: "bool \<Rightarrow> string \<Rightarrow> bool" where
  "underscores_ok prev [] = True"
| "underscores_ok prev (c # cs) =
     (if c = CHR ''_'' then prev \<and> (case cs of d # _ \<Rightarrow> is_digit d | [] \<Rightarrow> False) \<and> underscores_ok False cs
      else underscores_ok (is_digit c) cs)"

definition special_float :: "string \<Rightarrow> f64 option" where
  "special_float s = (let (neg, r) = split_sign (casefold s)
     in if r \<in> {''inf'', ''infinity''} then Some (FInf neg) else if r = ''nan'' then Some FNaN else None)"

definition float_of_text :: "string \<Rightarrow> f64 option" where
  "float_of_text s0 = (let s = strip s0 in
     case special_float s of Some x \<Rightarrow> Some x
     | None \<Rightarrow> if \<not> underscores_ok False s then None
               else map_option fround (decimal_number (filter (\<lambda>c. c \<noteq> CHR ''_'') s)))"

text \<open>\<^verbatim>\<open>float(v)\<close> of any value.\<close>

fun py_float :: "json \<Rightarrow> f64 res" where
  "py_float (JFloat x) = Inr x"
| "py_float (JInt i) = (if isfinite (float_of_int i) then Inr (float_of_int i)
     else raise OverflowError ''int too large to convert to float'')"
| "py_float (JBool b) = Inr (Fin (if b then 1 else 0))"
| "py_float (JStr s) = (case float_of_text s of Some x \<Rightarrow> Inr x
     | None \<Rightarrow> raise ValueError (''could not convert string to float: '' @ repr_string s))"
| "py_float _ = raise TypeError ''float() argument must be a string or a real number''"

text \<open>\<^verbatim>\<open>Decimal(s)\<close> when it is a finite number: blanks around it and underscores are ignored.\<close>

definition decimal_of_text :: "string \<Rightarrow> rat option" where
  "decimal_of_text s = decimal_number (filter (\<lambda>c. c \<noteq> CHR ''_'') (strip s))"

text \<open>\<^verbatim>\<open>a % b\<close> of decimals in a context of \<open>prec\<close> digits.\<close>

definition drem_res :: "nat \<Rightarrow> rat \<Rightarrow> rat \<Rightarrow> rat res" where
  "drem_res prec a b = (if 10 ^ prec \<le> \<lfloor>\<bar>a / b\<bar>\<rfloor>
     then raise (OtherError ''InvalidOperation'') ''DivisionImpossible'' else Inr (dround prec (drem a b)))"

section \<open>Hexadecimal floats\<close>

fun hex_digits :: "nat \<Rightarrow> nat \<Rightarrow> string" where
  "hex_digits 0 n = []"
| "hex_digits (Suc k) n = hex_digits k (n div 16) @ [hex_char (n mod 16)]"

text \<open>\<^verbatim>\<open>float.hex()\<close>: 13 hexadecimal digits after the point.\<close>

definition float_hex :: "f64 \<Rightarrow> string" where
  "float_hex x = (case x of FNaN \<Rightarrow> ''nan'' | FInf s \<Rightarrow> (if s then ''-inf'' else ''inf'')
     | Fin v \<Rightarrow> if v = 0 then ''0x0.0p+0'' else
         (let e = max (rat_exp 2 \<bar>v\<bar>) (- 1022); n = nat \<lfloor>\<bar>v\<bar> / pw 2 (e - 52)\<rfloor>
          in (if v < 0 then ''-'' else []) @ ''0x'' @ hex_digits 1 (n div 2 ^ 52) @ ''.'' @ hex_digits 13 (n mod 2 ^ 52)
             @ ''p'' @ (if e < 0 then ''-'' else ''+'') @ nat_digits (nat \<bar>e\<bar>)))"

definition float_fromhex :: "string \<Rightarrow> f64 res" where
  "float_fromhex s0 = (let s = strip s0; (neg, r0) = split_sign s;
       r = (if take 2 r0 \<in> {''0x'', ''0X''} then drop 2 r0 else r0)
     in case special_float s of Some x \<Rightarrow> Inr x
        | None \<Rightarrow> (case unsigned_number is_hex 16 2 [CHR ''p'', CHR ''P''] r of
            None \<Rightarrow> raise ValueError ''invalid hexadecimal floating-point string''
          | Some v \<Rightarrow> (let x = fround (if neg then - v else v)
                      in if isfinite x then Inr x
                         else raise OverflowError ''hexadecimal value too large to represent as a float'')))"

section \<open>Instants\<close>

text \<open>\<^verbatim>\<open>int(t.timestamp() * 1000)\<close> and \<^verbatim>\<open>datetime.fromtimestamp(v / 1000, tz=UTC)\<close>: both go through
  binary64.\<close>

definition trunc_int :: "rat \<Rightarrow> int" where
  "trunc_int q = (if 0 \<le> q then \<lfloor>q\<rfloor> else \<lceil>q\<rceil>)"

definition instant_ms :: "instant \<Rightarrow> int" where
  "instant_ms t = trunc_int (rnd64 (rnd64 (of_int t / 1000000) * 1000))"

definition from_ms :: "int \<Rightarrow> instant" where
  "from_ms v = (let d = rnd64 (of_int v / 1000); whole = trunc_int d
     in whole * 1000000 + rhe (rnd64 ((d - of_int whole) * 1000000)))"

definition days_before_year :: "int \<Rightarrow> int" where
  "days_before_year y = (let z = y - 1 in z * 365 + z div 4 - z div 100 + z div 400)"

definition leap_year :: "int \<Rightarrow> bool" where
  "leap_year y \<longleftrightarrow> y mod 4 = 0 \<and> (y mod 100 \<noteq> 0 \<or> y mod 400 = 0)"

definition month_lengths :: "int \<Rightarrow> nat list" where
  "month_lengths y = [31, if leap_year y then 29 else 28, 31, 30, 31, 30, 31, 31, 30, 31, 30, 31]"

text \<open>Days since 1970-01-01 of a calendar date, and of an ISO week date.\<close>

definition civil_day :: "int \<Rightarrow> nat \<Rightarrow> nat \<Rightarrow> int option" where
  "civil_day y m d = (if 1 \<le> y \<and> y \<le> 9999 \<and> 1 \<le> m \<and> m \<le> 12 \<and> 1 \<le> d \<and> d \<le> month_lengths y ! (m - 1)
     then Some (days_before_year y + int (sum_list (take (m - 1) (month_lengths y))) + int d - 719163) else None)"

definition week_day :: "int \<Rightarrow> nat \<Rightarrow> nat \<Rightarrow> int option" where
  "week_day y w d =
     (let monday1 = (\<lambda>y. let jan4 = days_before_year y + 4 in jan4 - (jan4 - 1) mod 7);
          weeks = (monday1 (y + 1) - monday1 y) div 7
      in if 1 \<le> y \<and> y \<le> 9999 \<and> 1 \<le> w \<and> int w \<le> weeks \<and> 1 \<le> d \<and> d \<le> 7
         then Some (monday1 y + 7 * (int w - 1) + (int d - 1) - 719163) else None)"

definition digits_of :: "nat \<Rightarrow> string \<Rightarrow> nat option" where
  "digits_of k s = (if length s = k \<and> list_all is_digit s then Some (digits_nat s) else None)"

text \<open>The date part: \<^verbatim>\<open>YYYY-MM-DD\<close>, \<^verbatim>\<open>YYYYMMDD\<close>, \<^verbatim>\<open>YYYY-Www[-D]\<close> or \<^verbatim>\<open>YYYYWww[D]\<close>.\<close>

definition iso_date :: "string \<Rightarrow> int option" where
  "iso_date s = (case digits_of 4 (take 4 s) of None \<Rightarrow> None | Some y \<Rightarrow>
     (let dash = take 1 (drop 4 s) = ''-''; r = (if dash then drop 5 s else drop 4 s) in
      if take 1 r = ''W'' then
        (case digits_of 2 (take 2 (drop 1 r)) of None \<Rightarrow> None | Some w \<Rightarrow>
          (let tl = drop 3 r; d = (if dash then (if take 1 tl = ''-'' then drop 1 tl else []) else tl) in
           if tl = [] then week_day (int y) w 1
           else (case digits_of 1 d of None \<Rightarrow> None | Some n \<Rightarrow> week_day (int y) w n)))
      else
        (case digits_of 2 (take 2 r) of None \<Rightarrow> None | Some m \<Rightarrow>
          (let tl = drop 2 r in
           if dash \<and> take 1 tl \<noteq> ''-'' then None
           else (case digits_of 2 (if dash then drop 1 tl else tl) of None \<Rightarrow> None
                 | Some d \<Rightarrow> civil_day (int y) m d)))))"

text \<open>Microseconds of \<^verbatim>\<open>HH[:MM[:SS[.ffffff]]]\<close>, with or without the colons.\<close>

definition iso_clock :: "string \<Rightarrow> int option" where
  "iso_clock s =
     (let colon = take 1 (drop 2 s) = '':'';
          main = takeWhile (\<lambda>c. c \<noteq> CHR ''.'' \<and> c \<noteq> CHR '','') s;
          frac = drop (length main + 1) s;
          ds = (if colon then filter (\<lambda>c. c \<noteq> CHR '':'') main else main);
          layout = (if colon then main \<in> {take 2 ds @ '':'' @ take 2 (drop 2 ds),
                       take 2 ds @ '':'' @ take 2 (drop 2 ds) @ '':'' @ drop 4 ds} else True);
          h = digits_nat (take 2 ds); m = digits_nat (take 2 (drop 2 ds)); sec = digits_nat (drop 4 ds);
          us = digits_nat (take 6 (frac @ ''000000''))
      in if \<not> layout \<or> length ds \<notin> {2, 4, 6} \<or> \<not> list_all is_digit ds
            \<or> (length main < length s \<and> (length ds \<noteq> 6 \<or> frac = [] \<or> \<not> list_all is_digit frac))
            \<or> 24 \<le> h \<or> 60 \<le> m \<or> 60 \<le> sec then None
         else Some (int ((h * 60 + m) * 60 + sec) * 1000000 + int us))"

text \<open>\<^verbatim>\<open>datetime.fromisoformat\<close>: the wall clock and the offset of the instant.\<close>

definition date_length :: "string \<Rightarrow> nat" where
  "date_length s =
     (if length s = 7 then 7
      else if take 1 (drop 4 s) = ''-'' then
        (if take 1 (drop 5 s) = ''W'' then
           (if 8 < length s \<and> take 1 (drop 8 s) = ''-''
               \<and> \<not> (10 < length s \<and> list_all is_digit (take 1 (drop 10 s))) then 10 else 8) else 10)
      else if take 1 (drop 4 s) = ''W'' then
        (let pos = 7 + length (takeWhile is_digit (drop 7 s)) in if pos < 9 then pos else if even pos then 7 else 8)
      else 8)"

definition from_iso :: "string \<Rightarrow> py_datetime option" where
  "from_iso s =
     (if length s < 7 then None else
      case iso_date (take (date_length s) s) of None \<Rightarrow> None | Some day \<Rightarrow>
        (let t = drop (date_length s + 1) s;
             wall = takeWhile (\<lambda>c. c \<noteq> CHR ''+'' \<and> c \<noteq> CHR ''-'' \<and> c \<noteq> CHR ''Z'') t;
             zone = drop (length wall) t
         in if length s \<le> date_length s then Some \<lparr> dt_wall_us = day * 86400000000, dt_offset_us = None \<rparr>
            else (case iso_clock wall of None \<Rightarrow> None | Some us \<Rightarrow>
              if zone = [] then Some \<lparr> dt_wall_us = day * 86400000000 + us, dt_offset_us = None \<rparr>
              else if zone = ''Z'' then Some \<lparr> dt_wall_us = day * 86400000000 + us, dt_offset_us = Some 0 \<rparr>
              else (case iso_clock (drop 1 zone) of None \<Rightarrow> None | Some off \<Rightarrow>
                Some \<lparr> dt_wall_us = day * 86400000000 + us,
                       dt_offset_us = Some (if take 1 zone = ''-'' then - off else off) \<rparr>))))"

text \<open>\<^verbatim>\<open>datetime.fromisoformat(v.replace("Z", "+00:00"))\<close> as an instant, when it has a zone.\<close>

definition iso_instant :: "string \<Rightarrow> instant option option" where
  "iso_instant v = map_option (\<lambda>t. map_option (\<lambda>off. dt_wall_us t - off) (dt_offset_us t))
     (from_iso (replace_text ''Z'' ''+00:00'' v))"

definition utc_datetime :: "instant \<Rightarrow> py_datetime" where
  "utc_datetime t = \<lparr> dt_wall_us = t, dt_offset_us = Some 0 \<rparr>"

end
