(* ===== verification/Paper_Types.thy ===== *)
theory Paper_Types
  imports Py_Text Interaction
begin

text \<open>
  The data of \<^verbatim>\<open>kairos_execution/paper_engine.py\<close>: the fields it reads of the contracts of
  \<^verbatim>\<open>kairos_core\<close> and of the rows of \<^verbatim>\<open>kairos_persistence\<close> (neither is in the tree), the scope of
  \<^verbatim>\<open>kairos_execution/lifecycle_scope.py\<close>, the attributes of the engine, and the requests it awaits.
  Enumerations of the contracts are string enumerations whose value is the member's name.
\<close>

section \<open>Enumerations\<close>

text \<open>\<^verbatim>\<open>TradeState\<close>, and \<^verbatim>\<open>TradeLifecycleState\<close>, which the code converts to by value.\<close>

datatype life = RECEIVED | ENTRY_PENDING | PROTECTING | ACTIVE | EXITING_STOP | EXITING_TARGET
  | EXITING_TIMEOUT | EXITING_EMERGENCY | LIFE_FLAT | LIFE_CANCELLED | FAILED_BLOCKED

datatype order_role = ENTRY | STOP_LOSS | TAKE_PROFIT | TIMEOUT_EXIT | EMERGENCY_EXIT

datatype exit_reason = EXIT_STOP | EXIT_TARGET | EXIT_TIMEOUT | EXIT_EMERGENCY

datatype p_side = LONG_SIDE | SHORT_SIDE | OTHER_P_SIDE string

datatype v_side = V_BUY | V_SELL

datatype fact_type = DECISION_RECEIVED | ENTRY_CANCELLED | RECONCILIATION | VENUE_ACK | ENTRY_FILLED
  | ENTRY_PARTIAL_FILL | STOP_CREATED | STOP_RECONCILED | TARGET_CREATED | TARGET_RECONCILED
  | EXIT_TRIGGERED | EXIT_FILLED | EMERGENCY_CLOSE | FACT_FAILED | OTHER_FACT string

datatype effect_type = PLACE_ORDER | CANCEL_ORDER | PROTECTIVE_STOP | TAKE_PROFIT_EFFECT | CANCEL_TPSL_EFFECT
  | CLOSE_POSITION | TIMEOUT_CLOSE | EMERGENCY_CLOSE_EFFECT | OTHER_EFFECT string

datatype effect_status = EFF_PREPARED | EFF_CONFIRMED | EFF_RECONCILED | EFF_FAILED | OTHER_STATUS string

definition life_text :: "life \<Rightarrow> string" where
  "life_text s = (case s of RECEIVED \<Rightarrow> ''RECEIVED'' | ENTRY_PENDING \<Rightarrow> ''ENTRY_PENDING''
     | PROTECTING \<Rightarrow> ''PROTECTING'' | ACTIVE \<Rightarrow> ''ACTIVE'' | EXITING_STOP \<Rightarrow> ''EXITING_STOP''
     | EXITING_TARGET \<Rightarrow> ''EXITING_TARGET'' | EXITING_TIMEOUT \<Rightarrow> ''EXITING_TIMEOUT''
     | EXITING_EMERGENCY \<Rightarrow> ''EXITING_EMERGENCY'' | LIFE_FLAT \<Rightarrow> ''FLAT''
     | LIFE_CANCELLED \<Rightarrow> ''CANCELLED'' | FAILED_BLOCKED \<Rightarrow> ''FAILED_BLOCKED'')"

definition role_text :: "order_role \<Rightarrow> string" where
  "role_text r = (case r of ENTRY \<Rightarrow> ''ENTRY'' | STOP_LOSS \<Rightarrow> ''STOP_LOSS'' | TAKE_PROFIT \<Rightarrow> ''TAKE_PROFIT''
     | TIMEOUT_EXIT \<Rightarrow> ''TIMEOUT_EXIT'' | EMERGENCY_EXIT \<Rightarrow> ''EMERGENCY_EXIT'')"

definition reason_text :: "exit_reason \<Rightarrow> string" where
  "reason_text r = (case r of EXIT_STOP \<Rightarrow> ''STOP'' | EXIT_TARGET \<Rightarrow> ''TARGET'' | EXIT_TIMEOUT \<Rightarrow> ''TIMEOUT''
     | EXIT_EMERGENCY \<Rightarrow> ''EMERGENCY'')"

definition v_side_text :: "v_side \<Rightarrow> string" where
  "v_side_text s = (case s of V_BUY \<Rightarrow> ''BUY'' | V_SELL \<Rightarrow> ''SELL'')"

definition fact_text :: "fact_type \<Rightarrow> string" where
  "fact_text f = (case f of DECISION_RECEIVED \<Rightarrow> ''DECISION_RECEIVED'' | ENTRY_CANCELLED \<Rightarrow> ''ENTRY_CANCELLED''
     | RECONCILIATION \<Rightarrow> ''RECONCILIATION'' | VENUE_ACK \<Rightarrow> ''VENUE_ACK'' | ENTRY_FILLED \<Rightarrow> ''ENTRY_FILLED''
     | ENTRY_PARTIAL_FILL \<Rightarrow> ''ENTRY_PARTIAL_FILL'' | STOP_CREATED \<Rightarrow> ''STOP_CREATED''
     | STOP_RECONCILED \<Rightarrow> ''STOP_RECONCILED'' | TARGET_CREATED \<Rightarrow> ''TARGET_CREATED''
     | TARGET_RECONCILED \<Rightarrow> ''TARGET_RECONCILED'' | EXIT_TRIGGERED \<Rightarrow> ''EXIT_TRIGGERED''
     | EXIT_FILLED \<Rightarrow> ''EXIT_FILLED'' | EMERGENCY_CLOSE \<Rightarrow> ''EMERGENCY_CLOSE'' | FACT_FAILED \<Rightarrow> ''FAILED''
     | OTHER_FACT s \<Rightarrow> s)"

definition effect_text :: "effect_type \<Rightarrow> string" where
  "effect_text e = (case e of PLACE_ORDER \<Rightarrow> ''PLACE_ORDER'' | CANCEL_ORDER \<Rightarrow> ''CANCEL_ORDER''
     | PROTECTIVE_STOP \<Rightarrow> ''PROTECTIVE_STOP'' | TAKE_PROFIT_EFFECT \<Rightarrow> ''TAKE_PROFIT''
     | CANCEL_TPSL_EFFECT \<Rightarrow> ''CANCEL_TPSL'' | CLOSE_POSITION \<Rightarrow> ''CLOSE_POSITION''
     | TIMEOUT_CLOSE \<Rightarrow> ''TIMEOUT_CLOSE'' | EMERGENCY_CLOSE_EFFECT \<Rightarrow> ''EMERGENCY_CLOSE'' | OTHER_EFFECT s \<Rightarrow> s)"

definition exn_name :: "exn_class \<Rightarrow> string" where
  "exn_name c = (case c of ValueError \<Rightarrow> ''ValueError'' | ValidationError \<Rightarrow> ''ValidationError''
     | TypeError \<Rightarrow> ''TypeError'' | KeyError \<Rightarrow> ''KeyError'' | RuntimeError \<Rightarrow> ''RuntimeError''
     | PermissionError \<Rightarrow> ''PermissionError'' | OverflowError \<Rightarrow> ''OverflowError''
     | SimulationIdentityConflict \<Rightarrow> ''SimulationIdentityConflict''
     | SimulationControllerIntegrityError \<Rightarrow> ''SimulationControllerIntegrityError''
     | PaperExecutionSafetyError \<Rightarrow> ''PaperExecutionSafetyError''
     | LiveMutationAuthorizationError \<Rightarrow> ''LiveMutationAuthorizationError'' | OtherError s \<Rightarrow> s)"

text \<open>\<^verbatim>\<open>f"{type(exc).__name__}: {exc}"\<close>.\<close>

definition describe :: "exn \<Rightarrow> string" where
  "describe e = exn_name (exn_kind e) @ '': '' @ exn_text e"

abbreviation unsafe :: "string \<Rightarrow> exn" where
  "unsafe m \<equiv> Exn PaperExecutionSafetyError m"

section \<open>The risk decision\<close>

record evidence =
  evd_kind :: string
  evd_sha256 :: string
  evd_observed_at_ms :: int
  evd_reference :: string

record trade_intent =
  ti_intent_id :: "string option"
  ti_message_id :: string
  ti_source :: string
  ti_strategy_id :: string
  ti_strategy_revision :: string
  ti_symbol :: string
  ti_side :: p_side
  ti_decision_ts_ms :: int
  ti_entry_eligible_ts_ms :: int
  ti_entry_expires_ts_ms :: int
  ti_signal_strength :: f64
  ti_metadata :: "(string \<times> string) list"
  ti_evidence :: "evidence list"
  ti_input_bar_sha256s :: "string list"

record trade_route =
  ro_message_id :: string
  ro_source :: string
  ro_correlation_id :: "string option"
  ro_causation_id :: "string option"
  ro_intent :: trade_intent
  ro_review_tier :: string
  ro_reasoning_effort :: string
  ro_conflict_rationale :: "string option"
  ro_routed_at_ms :: int
  ro_review_deadline_ms :: int
  ro_evidence_ids :: "string list"

record trade_review =
  rv_message_id :: string
  rv_review_id :: string
  rv_source :: string
  rv_correlation_id :: "string option"
  rv_causation_id :: "string option"
  rv_decision :: string
  rv_reviewer :: string
  rv_has_model_provenance :: bool
  rv_reason_codes :: "string list"
  rv_priority :: int
  rv_reviewed_at_ms :: int
  rv_evidence :: "evidence list"
  rv_route :: trade_route

record risk_decision =
  rd_trading_mode :: string
  rd_profile :: string
  rd_account_id :: string
  rd_approved :: bool
  rd_rejection_reasons :: "string list"
  rd_entry_policy :: string
  rd_trade_id :: "string option"
  rd_decision_id :: "string option"
  rd_decided_at_ms :: int
  rd_intent :: trade_intent
  rd_review :: trade_review
  rd_venue_symbol :: string
  rd_quantity :: f64
  rd_leverage :: f64
  rd_worst_entry_price :: f64
  rd_notional_usd :: f64
  rd_worst_case_loss_usd :: f64
  rd_estimated_fees_usd :: f64
  rd_estimated_slippage_usd :: f64
  rd_stop_price :: f64
  rd_target_price :: f64
  rd_max_holding_ms :: int
  rd_quality_expires_at_ms :: int
  rd_book_timestamp_ms :: int
  rd_assessed_notional_usd :: f64

section \<open>Durable rows\<close>

record new_trade =
  nt_trade_id :: string
  nt_intent_id :: string
  nt_decision_id :: string
  nt_payload :: json
  nt_strategy_id :: string
  nt_strategy_revision :: string
  nt_trading_mode :: string
  nt_environment :: string
  nt_profile :: string
  nt_exchange :: string
  nt_account_id :: string
  nt_symbol :: string
  nt_venue_symbol :: string
  nt_side :: string
  nt_quantity :: f64
  nt_leverage :: f64
  nt_stop_price :: f64
  nt_target_price :: f64
  nt_entry_eligible_at :: instant
  nt_entry_expires_at :: instant
  nt_max_holding_ms :: int
  nt_entry_client_order_id :: string

record trade_row =
  tw_trade_id :: string
  tw_intent_id :: string
  tw_decision_id :: string
  tw_payload :: json
  tw_strategy_id :: string
  tw_strategy_revision :: string
  tw_environment :: string
  tw_account_id :: string
  tw_symbol :: string
  tw_side :: string
  tw_quantity :: f64
  tw_leverage :: f64
  tw_stop_price :: f64
  tw_target_price :: f64
  tw_filled_quantity :: f64
  tw_state :: life
  tw_state_version :: nat
  tw_entry_eligible_at :: instant
  tw_entry_expires_at :: instant
  tw_first_fill_at :: "instant option"
  tw_timeout_at :: "instant option"
  tw_entry_client_order_id :: string
  tw_entry_exchange_order_id :: "string option"
  tw_stop_client_order_id :: "string option"
  tw_stop_exchange_order_id :: "string option"
  tw_target_client_order_id :: "string option"
  tw_target_exchange_order_id :: "string option"
  tw_close_client_order_id :: "string option"
  tw_close_exchange_order_id :: "string option"

record effect_row =
  ef_key :: string
  ef_type :: effect_type
  ef_status :: effect_status
  ef_symbol :: string
  ef_environment :: string
  ef_account_id :: string
  ef_trade_id :: "string option"
  ef_client_order_id :: "string option"
  ef_order_role :: "string option"
  ef_request :: obj
  ef_response :: "obj option"
  ef_exchange_effect_id :: "string option"
  ef_error :: "string option"

record effect_spec =
  es_key :: string
  es_type :: effect_type
  es_exchange :: string
  es_symbol :: string
  es_client_order_id :: string
  es_request :: obj
  es_environment :: string
  es_account_id :: string
  es_trade_id :: string
  es_order_role :: string

record preparation =
  pp_effect :: effect_row
  pp_created :: bool

record reservation =
  rs_remaining :: int
  rs_replay :: bool
  rs_granted :: bool

section \<open>Public facts\<close>

record trade_event =
  te_seq :: nat
  te_source :: string
  te_occurred_at_ms :: int
  te_type :: fact_type
  te_state :: life
  te_trading_mode :: string
  te_profile :: string
  te_account_id :: string
  te_venue_symbol :: string
  te_strategy_id :: string
  te_strategy_revision :: string
  te_intent_id :: string
  te_decision_id :: "string option"
  te_trade_id :: string
  te_effect_id :: "string option"
  te_role :: "order_role option"
  te_client_order_id :: "string option"
  te_exchange_order_id :: "string option"
  te_requested_quantity :: f64
  te_filled_quantity :: f64
  te_position_quantity :: f64
  te_average_price :: "f64 option"
  te_fee_usd :: f64
  te_exit_reason :: "exit_reason option"
  te_details :: "(string \<times> string) list"

text \<open>What the repository calls with the next sequence number inside its transaction.\<close>

datatype event_builder = Build_Event trade_event | Replay_Event trade_event

text \<open>The public fields of a fact, and the durable fields a transition writes; \<open>no_fact\<close> and
  \<open>no_move\<close> hold the defaults of the keyword arguments.\<close>

record fact =
  fc_effect_id :: "string option"
  fc_role :: "order_role option"
  fc_client_order_id :: "string option"
  fc_exchange_order_id :: "string option"
  fc_requested_quantity :: f64
  fc_filled_quantity :: f64
  fc_position_quantity :: "f64 option"
  fc_average_price :: "f64 option"
  fc_fee_usd :: f64
  fc_exit_reason :: "exit_reason option"
  fc_details :: "(string \<times> string) list"

definition no_fact :: fact where
  "no_fact = \<lparr> fc_effect_id = None, fc_role = None, fc_client_order_id = None, fc_exchange_order_id = None,
     fc_requested_quantity = fzero, fc_filled_quantity = fzero, fc_position_quantity = None, fc_average_price = None,
     fc_fee_usd = fzero, fc_exit_reason = None, fc_details = [] \<rparr>"

record move =
  mv_payload :: "obj option"
  mv_filled_quantity :: "f64 option"
  mv_first_fill_at :: "instant option"
  mv_entry_exchange_order_id :: "string option"
  mv_stop_client_order_id :: "string option"
  mv_stop_exchange_order_id :: "string option"
  mv_target_client_order_id :: "string option"
  mv_target_exchange_order_id :: "string option"
  mv_close_client_order_id :: "string option"
  mv_close_exchange_order_id :: "string option"

definition no_move :: move where
  "no_move = \<lparr> mv_payload = None, mv_filled_quantity = None, mv_first_fill_at = None,
     mv_entry_exchange_order_id = None, mv_stop_client_order_id = None, mv_stop_exchange_order_id = None,
     mv_target_client_order_id = None, mv_target_exchange_order_id = None, mv_close_client_order_id = None,
     mv_close_exchange_order_id = None \<rparr>"

section \<open>The scope and the engine\<close>

record lifecycle_scope =
  ls_trading_mode :: string
  ls_profile :: string
  ls_environment :: string
  ls_account_id :: string
  ls_remote_environment :: string
  ls_remote_account_id :: "string option"
  ls_exchange :: string
  ls_symbol_map :: "(string \<times> string) list"
  ls_mutation_namespace :: string
  ls_event_namespace :: string

text \<open>The collaborators of \<^verbatim>\<open>kairos_core\<close> as functions, and the constructor arguments that do not
  change.\<close>

record engine_config =
  ec_scope :: lifecycle_scope
  ec_adapter_name :: string
  ec_service_name :: string
  ec_canary_scope :: "json option"
  ec_canary_scope_error :: string
  ec_model_validate :: "json \<Rightarrow> risk_decision res"
  ec_to_payload :: "risk_decision \<Rightarrow> json"
  ec_canonical_sha256 :: "json \<Rightarrow> string"
  ec_known_status :: "string \<Rightarrow> bool"
  ec_event_id :: "trade_event \<Rightarrow> string"

record engine_state =
  en_blockers :: "string list"
  en_recovered_events :: "trade_event list"
  en_telemetry :: "(string \<times> string) list"
  en_sidecar_health :: obj

definition new_engine :: engine_state where
  "new_engine = \<lparr> en_blockers = [''startup recovery has not run''], en_recovered_events = [], en_telemetry = [],
     en_sidecar_health = [] \<rparr>"

section \<open>Requests and responses\<close>

type_synonym account_key = "string \<times> string \<times> string"

datatype p_lock = Lifecycle_Lock | Account_Lock account_key | Trade_Lock string | Effect_Lock string
  | Operator_Dispatch risk_decision json string | Canary_Dispatch risk_decision json string

text \<open>The venue mutations of the adapter.\<close>

datatype mutation =
    Place_Limit string string string v_side f64 f64 f64
  | Create_Tpsl string string v_side string f64 f64 string
  | Close_Position string string string f64 f64
  | Cancel_Order string string string
  | Cancel_Tpsl string string string

datatype p_request =
    Clock
  | Sleep f64
  | Enter p_lock
  | Leave p_lock
  | Begin_Recovery account_key
  | Complete_Recovery account_key int string
  | List_Scope account_key
  | List_Facts string
  | Recovery_Trades string string
  | Get_Trade string
  | Entries_Allowed account_key
  | Create_With_Event new_trade string event_builder
  | Get_Fact string string
  | Transition string life string string event_builder move
  | Mark_Reconciled string string
  | Record_Equity account_key instant f64
  | Recovery_Effects account_key
  | Get_Effect string
  | Prepare effect_spec
  | Confirm string "string option" obj
  | Reconcile string "string option" obj
  | Preflight
  | Fetch_State
  | Drain_Events
  | Fetch_Depth string
  | Find_Tpsl string string string f64
  | Mutate mutation
  | Latest_Health account_key
  | Record_Health account_key "(string \<times> json) list"
  | Reserve account_key string string bool
  | Check_Entry risk_decision json string
  | Bind_Entry risk_decision json string

record equity_state =
  eq_day_start :: f64
  eq_peak :: f64
  eq_seq :: int

datatype p_response =
    Nothing
  | At_Time instant
  | Epoch int
  | Flag bool
  | Rows "trade_row list"
  | Row "trade_row option"
  | Facts "trade_event list"
  | Fact "trade_event option"
  | Moved trade_row trade_event
  | Effects "effect_row list"
  | Effect "effect_row option"
  | Prepared_Effect preparation
  | Object obj
  | Maybe_Object "obj option"
  | Objects "obj list"
  | Reserve_Health "int option"
  | Reserved reservation
  | Equity equity_state

type_synonym 'a p_prog = "(engine_state, p_request, p_response, 'a) prog"

section \<open>Awaiting\<close>

definition ask_p :: "p_request \<Rightarrow> unit p_prog" where
  "ask_p q = Ask q (\<lambda>r. case r of Inl e \<Rightarrow> Fail e | Inr _ \<Rightarrow> Ret ())"

definition ask_clock :: "instant p_prog" where
  "ask_clock = await Clock (\<lambda>r. case r of At_Time t \<Rightarrow> Some t | _ \<Rightarrow> None)"

definition ask_flag :: "p_request \<Rightarrow> bool p_prog" where
  "ask_flag q = await q (\<lambda>r. case r of Flag b \<Rightarrow> Some b | _ \<Rightarrow> None)"

definition ask_rows :: "p_request \<Rightarrow> trade_row list p_prog" where
  "ask_rows q = await q (\<lambda>r. case r of Rows x \<Rightarrow> Some x | _ \<Rightarrow> None)"

definition ask_trade :: "string \<Rightarrow> trade_row option p_prog" where
  "ask_trade tid = await (Get_Trade tid) (\<lambda>r. case r of Row x \<Rightarrow> Some x | _ \<Rightarrow> None)"

definition ask_facts :: "string \<Rightarrow> trade_event list p_prog" where
  "ask_facts tid = await (List_Facts tid) (\<lambda>r. case r of Facts x \<Rightarrow> Some x | _ \<Rightarrow> None)"

definition ask_fact :: "string \<Rightarrow> string \<Rightarrow> trade_event option p_prog" where
  "ask_fact tid key = await (Get_Fact tid key) (\<lambda>r. case r of Fact x \<Rightarrow> Some x | _ \<Rightarrow> None)"

definition ask_moved :: "p_request \<Rightarrow> (trade_row \<times> trade_event) p_prog" where
  "ask_moved q = await q (\<lambda>r. case r of Moved t e \<Rightarrow> Some (t, e) | _ \<Rightarrow> None)"

definition ask_effects :: "account_key \<Rightarrow> effect_row list p_prog" where
  "ask_effects k = await (Recovery_Effects k) (\<lambda>r. case r of Effects x \<Rightarrow> Some x | _ \<Rightarrow> None)"

definition ask_effect :: "string \<Rightarrow> effect_row option p_prog" where
  "ask_effect key = await (Get_Effect key) (\<lambda>r. case r of Effect x \<Rightarrow> Some x | _ \<Rightarrow> None)"

definition ask_prepared :: "effect_spec \<Rightarrow> preparation p_prog" where
  "ask_prepared s = await (Prepare s) (\<lambda>r. case r of Prepared_Effect x \<Rightarrow> Some x | _ \<Rightarrow> None)"

definition ask_reconcile :: "string \<Rightarrow> string option \<Rightarrow> obj \<Rightarrow> effect_row option p_prog" where
  "ask_reconcile key xid payload = await (Reconcile key xid payload) (\<lambda>r. case r of Effect x \<Rightarrow> Some x | _ \<Rightarrow> None)"

definition ask_object :: "p_request \<Rightarrow> obj p_prog" where
  "ask_object q = await q (\<lambda>r. case r of Object x \<Rightarrow> Some x | _ \<Rightarrow> None)"

definition ask_maybe :: "p_request \<Rightarrow> obj option p_prog" where
  "ask_maybe q = await q (\<lambda>r. case r of Maybe_Object x \<Rightarrow> Some x | _ \<Rightarrow> None)"

definition ask_objects :: "p_request \<Rightarrow> obj list p_prog" where
  "ask_objects q = await q (\<lambda>r. case r of Objects x \<Rightarrow> Some x | _ \<Rightarrow> None)"

definition ask_epoch :: "account_key \<Rightarrow> int p_prog" where
  "ask_epoch k = await (Begin_Recovery k) (\<lambda>r. case r of Epoch n \<Rightarrow> Some n | _ \<Rightarrow> None)"

definition ask_reserve :: "account_key \<Rightarrow> string \<Rightarrow> string \<Rightarrow> bool \<Rightarrow> reservation p_prog" where
  "ask_reserve k eid op compensation = await (Reserve k eid op compensation) (\<lambda>r. case r of Reserved x \<Rightarrow> Some x | _ \<Rightarrow> None)"

definition ask_health :: "account_key \<Rightarrow> int option p_prog" where
  "ask_health k = await (Latest_Health k) (\<lambda>r. case r of Reserve_Health x \<Rightarrow> Some x | _ \<Rightarrow> None)"

definition ask_equity :: "account_key \<Rightarrow> instant \<Rightarrow> f64 \<Rightarrow> equity_state p_prog" where
  "ask_equity k t x = await (Record_Equity k t x) (\<lambda>r. case r of Equity y \<Rightarrow> Some y | _ \<Rightarrow> None)"

abbreviation unsafep :: "string \<Rightarrow> 'a p_prog" where
  "unsafep m \<equiv> Fail (unsafe m)"

text \<open>\<^verbatim>\<open>async with lock: body\<close>: the lock is released on every exit of the body.\<close>

definition attempt :: "('s, 'q, 'r, 'a) prog \<Rightarrow> ('s, 'q, 'r, 'a res) prog" where
  "attempt p = catchp (bindp p (\<lambda>a. Ret (Inr a))) (\<lambda>e. Ret (Inl e))"

definition with_lock :: "p_lock \<Rightarrow> 'a p_prog \<Rightarrow> 'a p_prog" where
  "with_lock l body = bindp (ask_p (Enter l)) (\<lambda>_.
     bindp (attempt body) (\<lambda>r. bindp (ask_p (Leave l)) (\<lambda>_. liftp r)))"

definition modify :: "(engine_state \<Rightarrow> engine_state) \<Rightarrow> unit p_prog" where
  "modify f = Get (\<lambda>s. Put (f s) (Ret ()))"

definition gets :: "(engine_state \<Rightarrow> 'a) \<Rightarrow> 'a p_prog" where
  "gets f = Get (\<lambda>s. Ret (f s))"

text \<open>A loop over a list that appends what every round returns.\<close>

fun gather :: "('x \<Rightarrow> 'a list p_prog) \<Rightarrow> 'x list \<Rightarrow> 'a list p_prog" where
  "gather f [] = Ret []"
| "gather f (x # xs) = bindp (f x) (\<lambda>ys. bindp (gather f xs) (\<lambda>zs. Ret (ys @ zs)))"

end
