(* ===== verification/Paper_Venue.thy ===== *)
theory Paper_Venue
  imports Paper_Types
begin

text \<open>
  How \<^verbatim>\<open>kairos_execution/paper_engine.py\<close> reads the venue: numbers and text of untyped JSON, the
  searches for orders, positions and TP/SL records, the validation of acknowledgements and of TP/SL
  records, and the attribution of a flat position to the protection that triggered.
\<close>

section \<open>Values of untyped JSON\<close>

abbreviation chk :: "bool \<Rightarrow> string \<Rightarrow> unit res" where
  "chk c m \<equiv> ensure [(c, unsafe m)]"

fun rfilter :: "('a \<Rightarrow> bool res) \<Rightarrow> 'a list \<Rightarrow> 'a list res" where
  "rfilter p [] = Inr []"
| "rfilter p (x # xs) = rbind (p x) (\<lambda>b. rbind (rfilter p xs) (\<lambda>ys. Inr (if b then x # ys else ys)))"

fun rfold :: "('s \<Rightarrow> 'x \<Rightarrow> 's res) \<Rightarrow> 's \<Rightarrow> 'x list \<Rightarrow> 's res" where
  "rfold f s [] = Inr s"
| "rfold f s (x # xs) = rbind (f s x) (\<lambda>s'. rfold f s' xs)"

definition eps9 :: f64 where "eps9 = fround (1 / 10 ^ 9)"

definition eps12 :: f64 where "eps12 = fround (1 / 10 ^ 12)"

text \<open>\<^verbatim>\<open>max(1e-12, x * 1e-9)\<close>, and \<^verbatim>\<open>math.isclose\<close> with a relative tolerance of \<^verbatim>\<open>1e-9\<close>.\<close>

definition tolerance :: "f64 \<Rightarrow> f64" where
  "tolerance x = fmax eps12 (fmul x eps9)"

abbreviation close_to :: "f64 \<Rightarrow> f64 \<Rightarrow> f64 \<Rightarrow> bool" where
  "close_to t a b \<equiv> isclose eps9 t a b"

definition as_list :: "json \<Rightarrow> obj list res" where
  "as_list v0 =
     (let v = (case v0 of JObj d \<Rightarrow> (case field d ''list'' of JArr xs \<Rightarrow> JArr xs | _ \<Rightarrow> v0) | _ \<Rightarrow> v0)
      in case v of JNull \<Rightarrow> Inr []
         | JArr xs \<Rightarrow> rtraverse (\<lambda>j. case j of JObj d \<Rightarrow> Inr d
             | _ \<Rightarrow> Inl (unsafe ''venue reconciliation list is malformed'')) xs
         | _ \<Rightarrow> Inl (unsafe ''venue reconciliation list is malformed''))"

definition required_text :: "json \<Rightarrow> string \<Rightarrow> string res" where
  "required_text v name = (case v of
       JStr s \<Rightarrow> if strip s = [] then Inl (unsafe (name @ '' is missing'')) else Inr s
     | _ \<Rightarrow> Inl (unsafe (name @ '' is missing'')))"

definition required_opt :: "string option \<Rightarrow> string \<Rightarrow> string res" where
  "required_opt v name = required_text (case v of Some s \<Rightarrow> JStr s | None \<Rightarrow> JNull) name"

definition as_number :: "json \<Rightarrow> f64 res" where
  "as_number v = (if v = JNull then Inr fzero else
     case py_float v of Inr x \<Rightarrow> Inr x
     | Inl e \<Rightarrow> if exn_kind e \<in> {TypeError, ValueError} then Inl (unsafe ''venue numeric value is malformed'') else Inl e)"

definition finite :: "json \<Rightarrow> f64 res" where
  "finite v = rbind (as_number v) (\<lambda>x. rbind (chk (isfinite x \<and> \<not> flt x fzero)
     ''venue numeric value must be finite and non-negative'') (\<lambda>_. Inr x))"

definition signed_finite :: "json \<Rightarrow> f64 res" where
  "signed_finite v = rbind (as_number v) (\<lambda>x. rbind (chk (isfinite x)
     ''venue numeric value must be finite'') (\<lambda>_. Inr x))"

definition positive :: "json \<Rightarrow> string \<Rightarrow> f64 res" where
  "positive v name = rbind (finite v) (\<lambda>x. rbind (chk (\<not> fle x fzero) (name @ '' must be positive'')) (\<lambda>_. Inr x))"

definition positive_optional :: "json \<Rightarrow> f64 option res" where
  "positive_optional v = rbind (finite v) (\<lambda>x. Inr (if flt fzero x then Some x else None))"

definition as_object :: "json \<Rightarrow> string \<Rightarrow> obj res" where
  "as_object v name = (case v of JObj d \<Rightarrow> Inr d | _ \<Rightarrow> Inl (unsafe (''venue '' @ name @ '' is malformed'')))"

definition required_number :: "obj \<Rightarrow> string \<Rightarrow> f64 res" where
  "required_number d name = (case field d name of
       JNull \<Rightarrow> Inl (unsafe (''venue ACK lacks explicit '' @ name))
     | JBool _ \<Rightarrow> Inl (unsafe (''venue ACK lacks explicit '' @ name))
     | v \<Rightarrow> finite v)"

definition position_unrealized :: "obj \<Rightarrow> f64 res" where
  "position_unrealized d =
     (if field d ''unRealizedPnL'' \<noteq> JNull then signed_finite (field d ''unRealizedPnL'')
      else if field d ''unrealizedPnL'' \<noteq> JNull then signed_finite (field d ''unrealizedPnL'')
      else Inl (unsafe ''venue position lacks explicit unrealized PnL''))"

definition positive_decimal :: "json \<Rightarrow> string \<Rightarrow> rat res" where
  "positive_decimal v name =
     (let bad = Inl (unsafe (name @ '' must be a finite positive decimal'')) in
      case v of JBool _ \<Rightarrow> bad | JNull \<Rightarrow> bad
      | _ \<Rightarrow> (case decimal_of_text (py_str v) of None \<Rightarrow> bad | Some x \<Rightarrow> if x \<le> 0 then bad else Inr x))"

definition canonical_decimal :: "rat \<Rightarrow> string" where
  "canonical_decimal x = decimal_text x"

definition iso_timestamp_ms :: "json \<Rightarrow> string \<Rightarrow> int res" where
  "iso_timestamp_ms v name = (case v of
       JStr s \<Rightarrow> if s = [] then Inl (unsafe (name @ '' must be a non-empty ISO-8601 timestamp''))
         else (case iso_instant s of
             None \<Rightarrow> Inl (unsafe (name @ '' must be a valid ISO-8601 timestamp''))
           | Some None \<Rightarrow> Inl (unsafe (name @ '' must be timezone-aware''))
           | Some (Some t) \<Rightarrow> Inr (instant_ms t))
     | _ \<Rightarrow> Inl (unsafe (name @ '' must be a non-empty ISO-8601 timestamp'')))"

definition timestamp_ms :: "json \<Rightarrow> int \<Rightarrow> int" where
  "timestamp_ms v fallback = (case v of
       JStr s \<Rightarrow> (case iso_instant s of Some (Some t) \<Rightarrow> max 0 (instant_ms t) | _ \<Rightarrow> fallback)
     | _ \<Rightarrow> fallback)"

section \<open>Positions and orders\<close>

definition symbol_of :: "lifecycle_scope \<Rightarrow> string \<Rightarrow> string res" where
  "symbol_of sc symb = (case map_of (ls_symbol_map sc) symb of Some v \<Rightarrow> Inr v
     | None \<Rightarrow> raise KeyError (repr_string symb))"

definition upper_field :: "obj \<Rightarrow> string \<Rightarrow> string" where
  "upper_field d k = py_upper (field_text d k [])"

definition order_status_text :: "obj \<Rightarrow> string \<Rightarrow> string" where
  "order_status_text d dflt = replace_text ''CANCELLED'' ''CANCELED'' (py_upper (field_text d ''status'' dflt))"

definition position_quantity :: "lifecycle_scope \<Rightarrow> obj \<Rightarrow> string \<Rightarrow> f64 res" where
  "position_quantity sc venue symb = rbind (symbol_of sc symb) (\<lambda>expected.
     rbind (as_list (field venue ''positions'')) (\<lambda>items.
     rbind (rtraverse (\<lambda>d. required_number d ''quantity'')
              (filter (\<lambda>d. upper_field d ''instrument'' = expected) items)) (\<lambda>qs.
     Inr (foldl fadd fzero qs))))"

definition position_for_trade :: "lifecycle_scope \<Rightarrow> obj \<Rightarrow> trade_row \<Rightarrow> f64 res" where
  "position_for_trade sc venue tr = rbind (symbol_of sc (tw_symbol tr)) (\<lambda>expected.
     rbind (as_list (field venue ''positions'')) (\<lambda>items.
     rbind (rfilter (\<lambda>d. if upper_field d ''instrument'' = expected
              then rbind (required_number d ''quantity'') (\<lambda>q. Inr (flt fzero q)) else Inr False) items) (\<lambda>matches.
     case matches of [] \<Rightarrow> Inr fzero
     | d # rest \<Rightarrow>
        rbind (chk (rest = []) ''venue returned duplicate positions for one symbol'') (\<lambda>_.
        rbind (chk (upper_field d ''side'' = tw_side tr)
                 ''venue position side differs from durable trade lineage'') (\<lambda>_.
        rbind (positive (field d ''leverage'') ''position leverage'') (\<lambda>lev.
        rbind (chk (close_to (tolerance (tw_leverage tr)) lev (tw_leverage tr))
                 ''venue position leverage differs from durable approval'') (\<lambda>_.
        required_number d ''quantity'')))))))"

definition find_by_id :: "string \<Rightarrow> string \<Rightarrow> obj \<Rightarrow> string \<Rightarrow> obj option res" where
  "find_by_id key msg venue wanted = rbind (as_list (field venue key)) (\<lambda>items.
     case filter (\<lambda>d. field_text d ''id'' ''None'' = wanted) items of
       [] \<Rightarrow> Inr None
     | d # rest \<Rightarrow> if rest = [] then Inr (Some d) else Inl (unsafe msg))"

definition find_order :: "obj \<Rightarrow> string option \<Rightarrow> obj option res" where
  "find_order venue cid = (case cid of None \<Rightarrow> Inr None
     | Some c \<Rightarrow> find_by_id ''orders'' ''venue returned duplicate deterministic order IDs'' venue c)"

definition find_historical_order :: "obj \<Rightarrow> string \<Rightarrow> obj option res" where
  "find_historical_order venue cid =
     find_by_id ''order_history'' ''venue returned duplicate deterministic order history'' venue cid"

definition find_tpsl_by_id :: "obj \<Rightarrow> string option \<Rightarrow> obj option res" where
  "find_tpsl_by_id venue xid = (case xid of None \<Rightarrow> Inr None
     | Some c \<Rightarrow> find_by_id ''tpsl'' ''venue returned duplicate TP/SL IDs'' venue c)"

definition dashed :: "string \<Rightarrow> string" where
  "dashed s = replace_text ''_'' ''-'' (casefold s)"

definition find_tpsl :: "obj \<Rightarrow> string \<Rightarrow> f64 \<Rightarrow> string \<Rightarrow> obj option res" where
  "find_tpsl venue tpsl_type price parent = rbind (as_list (field venue ''tpsl'')) (\<lambda>items.
     rbind (rfilter (\<lambda>d. if casefold (field_text d ''type'' []) = dashed tpsl_type
              then rbind (finite (field d ''price'')) (\<lambda>p.
                     Inr (close_to fzero p price \<and> field_text d ''order'' [] = parent))
              else Inr False) items) (\<lambda>matches.
     case matches of [] \<Rightarrow> Inr None
     | d # rest \<Rightarrow> if rest = [] then Inr (Some d) else Inl (unsafe ''venue returned ambiguous TP/SL geometry'')))"

section \<open>TP/SL records\<close>

definition tpsl_status :: "obj \<Rightarrow> string" where
  "tpsl_status d = casefold (field_text d ''status'' [])"

definition is_live_tpsl :: "obj option \<Rightarrow> bool" where
  "is_live_tpsl d = (case d of None \<Rightarrow> False | Some r \<Rightarrow> tpsl_status r \<in> {''waitorder'', ''active''})"

definition is_terminal_tpsl :: "obj \<Rightarrow> bool" where
  "is_terminal_tpsl d \<longleftrightarrow> tpsl_status d \<in> {''process'', ''triggered'', ''done''}"

definition assert_known_status :: "obj \<Rightarrow> unit res" where
  "assert_known_status d = chk (tpsl_status d \<in>
     {''waitorder'', ''active'', ''process'', ''triggered'', ''done'', ''cancelled''})
     ''EVEDEX TP/SL has an unknown lifecycle status''"

record tpsl_plan =
  tp_venue_symbol :: string
  tp_side :: string
  tp_type :: string
  tp_price :: f64
  tp_parent :: string

definition validate_tpsl :: "obj \<Rightarrow> tpsl_plan \<Rightarrow> bool \<Rightarrow> bool \<Rightarrow> unit res" where
  "validate_tpsl d plan require_live require_parent =
     rbind (chk (upper_field d ''instrument'' = py_upper (tp_venue_symbol plan))
              ''reconciled TP/SL has the wrong DEV instrument'') (\<lambda>_.
     rbind (chk (dashed (field_text d ''type'' []) = dashed (tp_type plan))
              ''reconciled TP/SL has the wrong lifecycle role'') (\<lambda>_.
     rbind (chk (upper_field d ''side'' = py_upper (tp_side plan))
              ''reconciled TP/SL has the wrong position side'') (\<lambda>_.
     rbind (required_number d ''quantity'') (\<lambda>q.
     rbind (chk (close_to eps12 q fzero) ''reconciled TP/SL does not protect the full position'') (\<lambda>_.
     rbind (positive (field d ''price'') ''TP/SL price'') (\<lambda>p.
     rbind (chk (close_to eps9 p (tp_price plan)) ''reconciled TP/SL price differs from the exit plan'') (\<lambda>_.
     let parent = field d ''order'' in
     rbind (chk (parent = JNull \<or> py_str parent = tp_parent plan)
              ''reconciled TP/SL has conflicting parent-order lineage'') (\<lambda>_.
     rbind (chk (\<not> require_parent \<or> (if truthy parent then py_str parent else []) = tp_parent plan)
              ''reconciled TP/SL lacks exact parent-order lineage'') (\<lambda>_.
     rbind (required_text (field d ''id'') ''TP/SL exchange ID'') (\<lambda>_.
     rbind (assert_known_status d) (\<lambda>_.
     chk (\<not> require_live \<or> is_live_tpsl (Some d)) ''reconciled TP/SL is not live'')))))))))))"

section \<open>Acknowledgements\<close>

definition dead_statuses :: "string set" where
  "dead_statuses = {''CANCELED'', ''REJECTED'', ''EXPIRED'', ''REPLACED''}"

definition order_side_of :: "risk_decision \<Rightarrow> v_side" where
  "order_side_of d = (if ti_side (rd_intent d) = LONG_SIDE then V_BUY else V_SELL)"

text \<open>The quantity an entry acknowledgement reports as filled.\<close>

definition entry_fill :: "string \<Rightarrow> f64 \<Rightarrow> f64 \<Rightarrow> f64 \<Rightarrow> f64 res" where
  "entry_fill status quantity remaining tol =
     (if status = ''NEW'' then
        rbind (chk (close_to tol remaining quantity) ''NEW entry ACK reports an incoherent fill'') (\<lambda>_. Inr fzero)
      else
        rbind (if fle quantity fzero then
                 rbind (chk (status \<in> dead_statuses) ''filled entry ACK has no executed quantity'') (\<lambda>_. Inr fzero)
               else rbind (chk (\<not> flt (fadd quantity tol) remaining)
                             ''entry ACK remaining quantity exceeds quantity'') (\<lambda>_.
                      Inr (fmax fzero (fsub quantity remaining)))) (\<lambda>filled.
        rbind (chk (\<not> (status = ''PARTIALLY_FILLED'' \<and> \<not> (flt tol filled \<and> flt tol remaining)))
                 ''PARTIALLY_FILLED entry ACK is incoherent'') (\<lambda>_.
        rbind (chk (\<not> (status = ''FILLED'' \<and> (fle filled tol \<or> \<not> close_to tol remaining fzero)))
                 ''FILLED entry ACK is incoherent'') (\<lambda>_. Inr filled))))"

definition entry_price_cap :: "risk_decision \<Rightarrow> f64 \<Rightarrow> unit res" where
  "entry_price_cap d avg =
     (let worst = rd_worst_entry_price d; tol = tolerance worst in
      ensure [(\<not> (ti_side (rd_intent d) = LONG_SIDE \<and> flt (fadd worst tol) avg),
                 unsafe ''LONG IOC fill breached the Risk-approved price cap''),
              (\<not> (ti_side (rd_intent d) = SHORT_SIDE \<and> flt avg (fsub worst tol)),
                 unsafe ''SHORT IOC fill breached the Risk-approved price cap'')])"

record ack =
  ak_order_id :: string
  ak_status :: string
  ak_filled :: f64
  ak_average :: "f64 option"

definition validate_entry_response :: "obj \<Rightarrow> risk_decision \<Rightarrow> string \<Rightarrow> ack res" where
  "validate_entry_response d dec cid =
     rbind (required_text (field d ''id'') ''entry exchange order ID'') (\<lambda>xid.
     rbind (ensure
       [(xid = cid, unsafe ''entry ACK changed the deterministic client order ID''),
        (upper_field d ''instrument'' = py_upper (rd_venue_symbol dec), unsafe ''entry ACK has the wrong DEV instrument''),
        (upper_field d ''side'' = v_side_text (order_side_of dec), unsafe ''entry ACK has the wrong side''),
        (upper_field d ''type'' = ''LIMIT'', unsafe ''technical canary entry ACK is not an IOC LIMIT'')]) (\<lambda>_.
     rbind (positive (field d ''limitPrice'') ''entry ACK limit price'') (\<lambda>limit.
     rbind (chk (close_to (tolerance (rd_worst_entry_price dec)) limit (rd_worst_entry_price dec))
              ''entry ACK changed the capped canary price'') (\<lambda>_.
     let status = order_status_text d [] in
     rbind (chk (status \<in> {''NEW'', ''PARTIALLY_FILLED'', ''FILLED''} \<union> dead_statuses)
              ''entry ACK has an unknown status'') (\<lambda>_.
     rbind (required_number d ''quantity'') (\<lambda>quantity.
     rbind (required_number d ''unFilledQuantity'') (\<lambda>remaining.
     let tol = tolerance (rd_quantity dec) in
     rbind (chk (close_to tol quantity (rd_quantity dec))
              ''IOC LIMIT quantity differs from the exact approved canary quantity'') (\<lambda>_.
     rbind (entry_fill status quantity remaining tol) (\<lambda>filled.
     rbind (chk (\<not> flt (fadd (rd_quantity dec) tol) filled) ''venue fill exceeds approved quantity'') (\<lambda>_.
     rbind (positive_optional (field d ''filledAvgPrice'')) (\<lambda>avg.
     rbind (chk (\<not> (flt tol filled \<and> avg = None)) ''non-zero entry fill lacks an average price'') (\<lambda>_.
     rbind (case avg of None \<Rightarrow> Inr () | Some a \<Rightarrow> entry_price_cap dec a) (\<lambda>_.
     Inr \<lparr> ak_order_id = xid, ak_status = status, ak_filled = fmin (rd_quantity dec) filled, ak_average = avg \<rparr>)))))))))))))"

definition validate_close_response :: "obj \<Rightarrow> string \<Rightarrow> f64 \<Rightarrow> ack res" where
  "validate_close_response d cid requested =
     rbind (required_text (field d ''id'') ''close exchange order ID'') (\<lambda>xid.
     rbind (chk (xid = cid) ''close ACK changed the deterministic client order ID'') (\<lambda>_.
     let status = order_status_text d [] in
     rbind (chk (status \<in> {''NEW'', ''PARTIALLY_FILLED'', ''FILLED'', ''CANCELED'', ''REJECTED''})
              ''close ACK has an unknown status'') (\<lambda>_.
     rbind (required_number d ''quantity'') (\<lambda>quantity.
     rbind (required_number d ''unFilledQuantity'') (\<lambda>remaining.
     let tol = tolerance requested; filled = fmax fzero (fsub quantity remaining) in
     rbind (ensure
       [(close_to tol quantity requested, unsafe ''close ACK quantity differs from authoritative exposure''),
        (\<not> flt (fadd quantity tol) remaining, unsafe ''close ACK remaining quantity exceeds quantity''),
        (\<not> (status = ''NEW'' \<and> \<not> close_to tol remaining quantity), unsafe ''NEW close ACK reports an incoherent fill''),
        (\<not> (status = ''PARTIALLY_FILLED'' \<and> \<not> (flt tol filled \<and> flt tol remaining)),
           unsafe ''PARTIALLY_FILLED close ACK is incoherent''),
        (\<not> (status = ''FILLED'' \<and> \<not> close_to tol remaining fzero), unsafe ''FILLED close ACK is incoherent'')]) (\<lambda>_.
     rbind (positive_optional (field d ''filledAvgPrice'')) (\<lambda>avg.
     rbind (chk (\<not> (flt tol filled \<and> avg = None)) ''non-zero close fill lacks an average price'') (\<lambda>_.
     Inr \<lparr> ak_order_id = xid, ak_status = status, ak_filled = filled, ak_average = avg \<rparr>))))))))"

text \<open>The time of a fill: the earliest of the venue's stamps that are plausible and a conservative
  fallback.\<close>

definition venue_skew :: instant where "venue_skew = 2000000"

definition stamp_candidate :: "instant \<Rightarrow> instant \<Rightarrow> json \<Rightarrow> instant list res" where
  "stamp_candidate observed lower v = (case v of
       JStr s \<Rightarrow> (case iso_instant s of
           Some (Some t) \<Rightarrow> rbind (ensure
             [(\<not> t > observed + venue_skew, unsafe ''venue fill timestamp is in the future''),
              (\<not> t < lower, unsafe ''venue fill timestamp predates entry eligibility'')]) (\<lambda>_. Inr [min t observed])
         | _ \<Rightarrow> Inr [])
     | _ \<Rightarrow> Inr [])"

definition response_time :: "obj \<Rightarrow> instant \<Rightarrow> instant \<Rightarrow> instant \<Rightarrow> instant res" where
  "response_time d fallback observed not_before =
     (let lower = not_before - venue_skew in
      rbind (rtraverse (\<lambda>k. stamp_candidate observed lower (field d k)) [''updatedAt'', ''createdAt'']) (\<lambda>cs.
        let c1 = (if fallback > observed then observed else fallback);
            c2 = (if c1 < lower then not_before else c1)
        in Inr (foldl min c2 (concat cs))))"

definition order_fee_usd :: "obj \<Rightarrow> bool \<Rightarrow> f64 res" where
  "order_fee_usd d required = (case field d ''fee'' of
       JNull \<Rightarrow> if required then Inl (unsafe ''filled trigger order lacks explicit fee evidence'') else Inr fzero
     | JArr xs \<Rightarrow> (case rtraverse (\<lambda>j. case j of JObj r \<Rightarrow> Inr r | _ \<Rightarrow> Inl (unsafe [])) xs of
           Inl _ \<Rightarrow> Inl (unsafe ''venue order fee list is malformed'')
         | Inr items \<Rightarrow> rbind (rfold (\<lambda>total r.
               rbind (required_text (field r ''coin'') ''fee coin'') (\<lambda>coin.
               rbind (chk (py_upper coin \<in> {''USD'', ''USDT'', ''USDC''})
                        ''trigger fee is not denominated in a USD stablecoin'') (\<lambda>_.
               rbind (required_number r ''quantity'') (\<lambda>q. Inr (fadd total q))))) fzero items) (\<lambda>total.
             rbind (chk (isfinite total) ''venue order fee is non-finite'') (\<lambda>_. Inr total)))
     | _ \<Rightarrow> Inl (unsafe ''venue order fee list is malformed''))"

section \<open>Attribution of a flat position\<close>

record venue_exit =
  vx_role :: order_role
  vx_reason :: exit_reason
  vx_target_state :: life
  vx_protection_id :: string
  vx_trigger_order_id :: string
  vx_trigger_order :: obj
  vx_filled :: f64
  vx_average :: f64
  vx_fee :: f64

definition validate_trigger_order ::
  "lifecycle_scope \<Rightarrow> trade_row \<Rightarrow> obj \<Rightarrow> string \<Rightarrow> f64 \<Rightarrow> (f64 \<times> f64 \<times> f64) res" where
  "validate_trigger_order sc tr d trigger_id triggered =
     rbind (required_text (field d ''id'') ''trigger order ID'') (\<lambda>xid.
     rbind (chk (xid = trigger_id) ''trigger order history changed the generated order ID'') (\<lambda>_.
     rbind (symbol_of sc (tw_symbol tr)) (\<lambda>symb.
     rbind (ensure
       [(upper_field d ''instrument'' = py_upper symb, unsafe ''trigger order has the wrong DEV instrument''),
        (upper_field d ''side'' = (if tw_side tr = ''BUY'' then ''SELL'' else ''BUY''),
           unsafe ''trigger order has the wrong closing side''),
        (upper_field d ''type'' = ''MARKET'', unsafe ''generated TP/SL exit order is not MARKET''),
        (field d ''group'' = JNull \<or> dashed (py_str (field d ''group'')) \<in> {''tpsl'', ''tp-sl''},
           unsafe ''generated TP/SL exit order has the wrong order group''),
        (order_status_text d [] = ''FILLED'', unsafe ''generated TP/SL exit order is not FILLED'')]) (\<lambda>_.
     rbind (required_number d ''quantity'') (\<lambda>quantity.
     rbind (required_number d ''unFilledQuantity'') (\<lambda>remaining.
     let tol = tolerance triggered in
     rbind (ensure
       [(close_to tol quantity triggered, unsafe ''trigger order quantity differs from TP/SL evidence''),
        (close_to tol remaining fzero, unsafe ''trigger order retains unfilled quantity'')]) (\<lambda>_.
     rbind (positive (field d ''filledAvgPrice'') ''trigger fill average price'') (\<lambda>avg.
     rbind (order_fee_usd d True) (\<lambda>fee. Inr (quantity, avg, fee))))))))))"

definition event_objects :: "json \<Rightarrow> obj list" where
  "event_objects v =
     (let dicts = (\<lambda>xs. concat (map (\<lambda>j. case j of JObj d \<Rightarrow> [d] | _ \<Rightarrow> []) xs)) in
      case v of JObj d \<Rightarrow> (case field d ''list'' of JArr xs \<Rightarrow> dicts xs | _ \<Rightarrow> [d])
      | JArr xs \<Rightarrow> dicts xs | _ \<Rightarrow> [])"

text \<open>\<^verbatim>\<open>x not in {None, ""}\<close>: a list or a dict is not hashable.\<close>

definition filled_in :: "json \<Rightarrow> bool res" where
  "filled_in v = (case v of JArr _ \<Rightarrow> raise TypeError (''unhashable type: '' @ repr_string ''list'')
     | JObj _ \<Rightarrow> raise TypeError (''unhashable type: '' @ repr_string ''dict'') | _ \<Rightarrow> Inr (v \<noteq> JNull \<and> v \<noteq> JStr []))"

definition terminal_record :: "lifecycle_scope \<Rightarrow> tpsl_plan \<Rightarrow> obj \<Rightarrow> bool res" where
  "terminal_record sc plan d = rbind (validate_tpsl d plan False False) (\<lambda>_.
     if is_terminal_tpsl d then Inr True
     else rbind (filled_in (field d ''triggerOrder'')) (\<lambda>b.
       rbind (chk (\<not> b) ''non-triggered TP/SL unexpectedly references a generated exit order'') (\<lambda>_. Inr False)))"

definition proven_role ::
  "lifecycle_scope \<Rightarrow> trade_row \<Rightarrow> obj \<Rightarrow> obj list \<Rightarrow> order_role \<Rightarrow> venue_exit list res" where
  "proven_role sc tr venue event_records role =
     (let (pid, typ, price, reason, target) =
        (if role = STOP_LOSS
         then (tw_stop_exchange_order_id tr, ''STOP_LOSS'', tw_stop_price tr, EXIT_STOP, EXITING_STOP)
         else (tw_target_exchange_order_id tr, ''TAKE_PROFIT'', tw_target_price tr, EXIT_TARGET, EXITING_TARGET)) in
      case pid of None \<Rightarrow> Inr [] | Some protection \<Rightarrow>
       rbind (find_tpsl_by_id venue (Some protection)) (\<lambda>authoritative.
       let records = (case authoritative of Some d \<Rightarrow> [d]
             | None \<Rightarrow> filter (\<lambda>d. field_text d ''id'' ''None'' = protection) event_records) in
       if records = [] then Inr [] else
       rbind (symbol_of sc (tw_symbol tr)) (\<lambda>symb.
       rbind (rfilter (terminal_record sc \<lparr> tp_venue_symbol = symb, tp_side = tw_side tr, tp_type = typ,
                 tp_price = price, tp_parent = tw_entry_client_order_id tr \<rparr>) records) (\<lambda>terminal.
       if terminal = [] then Inr [] else
       rbind (rtraverse (\<lambda>d. required_text (field d ''triggerOrder'') ''triggered TP/SL exit order ID'') terminal) (\<lambda>ids.
       rbind (chk (length (remdups ids) = 1) ''TP/SL trigger projections disagree on exit order ID'') (\<lambda>_.
       rbind (rtraverse (\<lambda>d. positive (field d ''triggeredQuantity'') ''TP/SL triggeredQuantity'') terminal) (\<lambda>qs.
       rbind (chk (length (remdups qs) = 1) ''TP/SL trigger projections disagree on quantity'') (\<lambda>_.
       rbind (chk (close_to (tolerance (tw_filled_quantity tr)) (hd qs) (tw_filled_quantity tr))
                ''triggered TP/SL quantity differs from durable filled exposure'') (\<lambda>_.
       rbind (chk (list_all (\<lambda>d. field d ''cancelledReason'' = JStr []) terminal)
                ''triggered TP/SL has a cancellation reason or malformed reason'') (\<lambda>_.
       rbind (find_historical_order venue (hd ids)) (\<lambda>order.
       case order of
         None \<Rightarrow> Inl (unsafe ''triggered TP/SL lacks its generated order in complete order history'')
       | Some d \<Rightarrow> rbind (validate_trigger_order sc tr d (hd ids) (hd qs)) (\<lambda>(filled, avg, fee).
           Inr [\<lparr> vx_role = role, vx_reason = reason, vx_target_state = target, vx_protection_id = protection,
             vx_trigger_order_id = hd ids, vx_trigger_order = d, vx_filled = filled, vx_average = avg,
             vx_fee = fee \<rparr>]))))))))))))"

definition proven_venue_trigger ::
  "lifecycle_scope \<Rightarrow> trade_row \<Rightarrow> obj \<Rightarrow> obj list \<Rightarrow> venue_exit option res" where
  "proven_venue_trigger sc tr venue sidecar_events =
     (let records = concat (map (\<lambda>d. event_objects (field d ''payload''))
            (filter (\<lambda>d. upper_field d ''type'' = ''TPSL'') sidecar_events)) in
      rbind (rtraverse (proven_role sc tr venue records) [STOP_LOSS, TAKE_PROFIT]) (\<lambda>xss.
      case concat xss of [] \<Rightarrow> Inr None
      | x # rest \<Rightarrow> if rest = [] then Inr (Some x)
          else Inl (unsafe ''STOP and TARGET both have authoritative fill evidence'')))"

definition classify_flat_exit :: "lifecycle_scope \<Rightarrow> trade_row \<Rightarrow> obj \<Rightarrow> obj list \<Rightarrow> venue_exit res" where
  "classify_flat_exit sc tr venue sidecar_events = rbind (proven_venue_trigger sc tr venue sidecar_events) (\<lambda>x.
     case x of Some v \<Rightarrow> Inr v
     | None \<Rightarrow> Inl (unsafe ''flat position cannot be attributed uniquely to a filled STOP or TARGET order''))"

end
