(* ===== verification/Paper_Policy.thy ===== *)
theory Paper_Policy
  imports Paper_Venue
begin

text \<open>
  The admission rules of \<^verbatim>\<open>kairos_execution/paper_engine.py\<close> and \<^verbatim>\<open>kairos_execution/lifecycle_scope.py\<close>
  that compute without awaiting: the decision scope, the binding of the technical canary, the fresh
  instrument rule, the live entry book, the sidecar's health, and the identities of effects, orders
  and public facts. The telemetry a check writes is part of its result.
\<close>

section \<open>Identities\<close>

definition effect_id :: "engine_config \<Rightarrow> string \<Rightarrow> order_role \<Rightarrow> string \<Rightarrow> string" where
  "effect_id C tid role operation = sha256_hex (ls_mutation_namespace (ec_scope C) @ '':'' @ tid @ '':''
     @ role_text role @ '':'' @ operation)"

definition client_id :: "string \<Rightarrow> order_role \<Rightarrow> int \<Rightarrow> string res" where
  "client_id tid role decided_at_ms = (let t = utc_datetime (from_ms decided_at_ms)
     in client_order_id (tid @ '':'' @ role_text role) ''evedex'' (Some t) t)"

definition remote_scope :: "engine_config \<Rightarrow> account_key res" where
  "remote_scope C = rbind (required_opt (ls_remote_account_id (ec_scope C)) ''expected EVEDEX DEV account ID'') (\<lambda>a.
     Inr (ls_remote_environment (ec_scope C), a, ls_exchange (ec_scope C)))"

definition local_scope :: "engine_config \<Rightarrow> account_key" where
  "local_scope C = (ls_environment (ec_scope C), ls_account_id (ec_scope C), ec_adapter_name C)"

definition effect_scope :: "engine_config \<Rightarrow> account_key" where
  "effect_scope C = (ec_adapter_name C, ls_environment (ec_scope C), ls_account_id (ec_scope C))"

definition cached_effect :: "effect_row \<Rightarrow> obj option res" where
  "cached_effect e = (if ef_status e \<notin> {EFF_CONFIRMED, EFF_RECONCILED} then Inr None
     else case ef_response e of None \<Rightarrow> Inl (unsafe (''effect '' @ ef_key e @ '' has no response payload''))
       | Some r \<Rightarrow> Inr (Some r))"

section \<open>The decision\<close>

definition validate_decision_scope :: "lifecycle_scope \<Rightarrow> risk_decision \<Rightarrow> unit res" where
  "validate_decision_scope sc d = ensure
     [(rd_trading_mode d = ls_trading_mode sc, Exn ValueError ''PAPER consumer rejects non-PAPER decisions''),
      (rd_profile d = ls_profile sc, Exn ValueError ''PAPER consumer rejects non-DEV decisions''),
      (rd_account_id d = ls_account_id sc, Exn ValueError ''risk decision targets a different PAPER account''),
      (map_of (ls_symbol_map sc) (ti_symbol (rd_intent d)) = Some (rd_venue_symbol d),
         Exn ValueError ''risk decision venue symbol is outside the DEV allowlist'')]"

definition canary_decimal_fields :: "string list" where
  "canary_decimal_fields = [''venue_lot_size'', ''venue_price_increment'', ''venue_quantity_increment'',
     ''venue_multiplier'', ''venue_min_volume_usd'', ''venue_min_price'', ''venue_max_price'',
     ''venue_min_quantity'', ''venue_max_quantity'']"

definition canary_metadata_keys :: "string set" where
  "canary_metadata_keys = {''account_id'', ''alpha_claim'', ''canary_entry_order'', ''canary_quantity'',
     ''entry_policy'', ''instrument_rules_sha256'', ''purpose'', ''venue_market_state'', ''venue_symbol'',
     ''venue_trading'', ''venue_updated_at_ms''} \<union> set canary_decimal_fields"

text \<open>\<^verbatim>\<open>dict(pairs)\<close> keeps the last value of a key.\<close>

definition to_dict :: "(string \<times> 'v) list \<Rightarrow> (string \<times> 'v) list" where
  "to_dict ps = foldl (\<lambda>d (k, v). dict_set k v d) [] ps"

definition meta :: "(string \<times> string) list \<Rightarrow> string \<Rightarrow> string res" where
  "meta md k = (case map_of md k of Some v \<Rightarrow> Inr v | None \<Rightarrow> raise KeyError (repr_string k))"

text \<open>\<^verbatim>\<open>int(text)\<close>.\<close>

definition py_int :: "string \<Rightarrow> int res" where
  "py_int s = (let (neg, r) = split_sign (strip s); ds = filter (\<lambda>c. c \<noteq> CHR ''_'') r in
     if r = [] \<or> \<not> underscores_ok False r \<or> \<not> list_all is_digit ds
     then raise ValueError (''invalid literal for int() with base 10: '' @ repr_string s)
     else Inr (if neg then - int (digits_nat ds) else int (digits_nat ds)))"

text \<open>\<^verbatim>\<open>Decimal(str(x))\<close> of a finite float.\<close>

definition float_decimal :: "f64 \<Rightarrow> rat res" where
  "float_decimal x = (case x of Fin v \<Rightarrow> Inr (case frepr v of Some d \<Rightarrow> d | None \<Rightarrow> v)
     | _ \<Rightarrow> raise (OtherError ''InvalidOperation'') ''non-finite decimal'')"

definition multiple_of :: "rat \<Rightarrow> rat \<Rightarrow> string \<Rightarrow> unit res" where
  "multiple_of a b msg = rbind (drem_res 28 a b) (\<lambda>r. chk (r = 0) msg)"

text \<open>The smallest quantity the venue accepts at a price, in increments.\<close>

definition effective_minimum :: "rat \<Rightarrow> rat \<Rightarrow> rat \<Rightarrow> rat \<Rightarrow> rat" where
  "effective_minimum min_quantity min_volume price increment =
     max min_quantity (dmul 28 (to_integral_ceiling (ddiv 28 (ddiv 28 min_volume price) increment)) increment)"

definition rule_json :: "(string \<times> string) list \<Rightarrow> string \<Rightarrow> string \<Rightarrow> string \<Rightarrow> int \<Rightarrow> json" where
  "rule_json decimals market_state venue_symbol trading updated =
     JObj ([(''domain'', JStr ''evedex-dev-instrument-rule.v1'')] @ map (\<lambda>(k, v). (k, JStr v)) decimals
       @ [(''venue_market_state'', JStr market_state), (''venue_symbol'', JStr venue_symbol),
          (''venue_trading'', JStr trading), (''venue_updated_at_ms'', JInt updated)])"

definition bound_rule :: "(string \<times> string) list \<Rightarrow> json res" where
  "bound_rule md = rbind (rtraverse (\<lambda>k. rbind (meta md k) (\<lambda>v. Inr (k, v))) canary_decimal_fields) (\<lambda>texts.
     rbind (meta md ''venue_market_state'') (\<lambda>st. rbind (meta md ''venue_symbol'') (\<lambda>vs.
     rbind (meta md ''venue_trading'') (\<lambda>tr. rbind (meta md ''venue_updated_at_ms'') (\<lambda>up.
     rbind (py_int up) (\<lambda>n. Inr (rule_json texts st vs tr n)))))))"

definition canary_lineage :: "risk_decision \<Rightarrow> unit res" where
  "canary_lineage d = (let i = rd_intent d; rv = rd_review d; ro = rv_route rv in ensure
     [(rd_approved d \<and> rd_rejection_reasons d = [], unsafe ''PAPER mutations require an approved canary decision''),
      (rd_entry_policy d = ''NEXT_BAR_MARKET'', unsafe ''technical canary requires NEXT_BAR_MARKET policy''),
      (ti_strategy_id i = ''technical-canary'' \<and> ti_strategy_revision i = ''1'',
         unsafe ''PAPER mutations are restricted to technical-canary@1''),
      ({ti_source i, ro_source ro, rv_source rv} = {''kairos-paper-canary''},
         unsafe ''technical canary requires dedicated source lineage''),
      (ti_intent_id i = Some (ti_message_id i) \<and> rv_message_id rv = rv_review_id rv,
         unsafe ''technical canary message identities are not canonical''),
      (ro_correlation_id ro = ti_intent_id i \<and> ro_causation_id ro = Some (ti_message_id i)
         \<and> rv_correlation_id rv = ti_intent_id i \<and> rv_causation_id rv = Some (ro_message_id ro),
         unsafe ''technical canary route/review lineage is invalid''),
      (ro_intent ro = i, unsafe ''technical canary route changed its immutable intent''),
      (rv_decision rv = ''ALLOW'' \<and> rv_reviewer rv = ''DETERMINISTIC'' \<and> \<not> rv_has_model_provenance rv
         \<and> rv_reason_codes rv = [''TECHNICAL_CANARY_MANUAL_POLICY''] \<and> rv_priority rv = 0
         \<and> ro_review_tier ro = ''NORMAL'' \<and> ro_reasoning_effort ro = ''MEDIUM'' \<and> ro_conflict_rationale ro = None,
         unsafe ''technical canary deterministic review policy is not exact''),
      (ro_routed_at_ms ro = ti_decision_ts_ms i \<and> ro_review_deadline_ms ro = ti_entry_expires_ts_ms i
         \<and> rv_reviewed_at_ms rv = ti_entry_eligible_ts_ms i,
         unsafe ''technical canary route/review timing is not exact''),
      (feq (ti_signal_strength i) fzero, unsafe ''technical canary must not claim alpha confidence'')])"

definition canary_policy_metadata :: "risk_decision \<Rightarrow> (string \<times> string) list \<Rightarrow> unit res" where
  "canary_policy_metadata d md =
     rbind (chk (fst ` set md = canary_metadata_keys) ''technical canary metadata set is not exact'') (\<lambda>_.
     chk (map_of md ''account_id'' = Some (rd_account_id d) \<and> map_of md ''alpha_claim'' = Some ''false''
          \<and> map_of md ''canary_entry_order'' = Some ''MARKETABLE_IOC_LIMIT''
          \<and> map_of md ''entry_policy'' = Some ''NEXT_BAR_MARKET''
          \<and> map_of md ''purpose'' = Some ''technical_execution_canary''
          \<and> map_of md ''venue_symbol'' = Some (rd_venue_symbol d) \<and> map_of md ''venue_trading'' = Some ''all''
          \<and> map_of md ''venue_market_state'' = Some ''OPEN'') ''technical canary fixed policy metadata is invalid'')"

definition canary_updated_at :: "(string \<times> string) list \<Rightarrow> int res" where
  "canary_updated_at md = rbind (meta md ''venue_updated_at_ms'') (\<lambda>text.
     case py_int text of
       Inl _ \<Rightarrow> Inl (unsafe ''venue_updated_at_ms is invalid'')
     | Inr n \<Rightarrow> rbind (chk (int_text n = text \<and> \<not> n < 0) ''venue_updated_at_ms is not canonical'') (\<lambda>_. Inr n))"

definition canary_decimals :: "(string \<times> string) list \<Rightarrow> (string \<times> rat) list res" where
  "canary_decimals md = rtraverse (\<lambda>k. rbind (meta md k) (\<lambda>text.
     rbind (positive_decimal (JStr text) k) (\<lambda>x.
     rbind (chk (canonical_decimal x = text) (k @ '' is not canonical'')) (\<lambda>_. Inr (k, x))))) canary_decimal_fields"

definition dec_of :: "(string \<times> rat) list \<Rightarrow> string \<Rightarrow> rat" where
  "dec_of ds k = (case map_of ds k of Some x \<Rightarrow> x | None \<Rightarrow> 0)"

definition canary_rule_bounds :: "(string \<times> rat) list \<Rightarrow> unit res" where
  "canary_rule_bounds ds =
     rbind (ensure
       [(dec_of ds ''venue_lot_size'' = 1 \<and> dec_of ds ''venue_multiplier'' = 1,
           unsafe ''technical canary supports only lotSize=1 and multiplier=1''),
        (\<not> dec_of ds ''venue_min_price'' \<ge> dec_of ds ''venue_max_price'', unsafe ''technical canary price bounds are invalid''),
        (\<not> dec_of ds ''venue_min_quantity'' > dec_of ds ''venue_max_quantity'',
           unsafe ''technical canary quantity bounds are invalid'')]) (\<lambda>_.
     let msg = ''technical canary bound instrument increments are invalid'' in
     rbind (multiple_of (dec_of ds ''venue_min_price'') (dec_of ds ''venue_price_increment'') msg) (\<lambda>_.
     rbind (multiple_of (dec_of ds ''venue_max_price'') (dec_of ds ''venue_price_increment'') msg) (\<lambda>_.
     multiple_of (dec_of ds ''venue_min_quantity'') (dec_of ds ''venue_quantity_increment'') msg)))"

definition canary_evidence :: "risk_decision \<Rightarrow> string \<Rightarrow> int \<Rightarrow> unit res" where
  "canary_evidence d rules updated =
     (let i = rd_intent d; of_kind = (\<lambda>k. filter (\<lambda>e. evd_kind e = k) (ti_evidence i)) in
      rbind (chk (evd_kind ` set (ti_evidence i) = {''closed_bar'', ''venue_instrument''}
                  \<and> length (of_kind ''closed_bar'') = 1 \<and> length (of_kind ''venue_instrument'') = 1)
               ''technical canary requires exactly two evidence kinds'') (\<lambda>_.
      let bar = hd (of_kind ''closed_bar''); ins = hd (of_kind ''venue_instrument'');
          bars = ti_input_bar_sha256s i in
      chk (length bars = 1 \<and> evd_sha256 bar = hd bars \<and> evd_observed_at_ms bar = ti_decision_ts_ms i
           \<and> starts_with (''BINANCE_UM:'' @ ti_symbol i @ '':'') (evd_reference bar)
           \<and> evd_sha256 ins = rules \<and> evd_observed_at_ms ins = updated
           \<and> evd_reference ins = ''EVEDEX_DEV:'' @ rd_venue_symbol d @ '':'' @ int_text updated
           \<and> rv_evidence (rd_review d) = ti_evidence i
           \<and> ro_evidence_ids (rv_route (rd_review d)) = sort [hd bars, rules])
        ''technical canary evidence binding is invalid''))"

definition canary_quantity :: "risk_decision \<Rightarrow> (string \<times> string) list \<Rightarrow> (string \<times> rat) list \<Rightarrow> unit res" where
  "canary_quantity d md ds =
     rbind (meta md ''canary_quantity'') (\<lambda>text.
     rbind (positive_decimal (JStr text) ''canary_quantity'') (\<lambda>bound.
     rbind (chk (canonical_decimal bound = text) ''technical canary quantity is not canonical'') (\<lambda>_.
     rbind (float_decimal (rd_quantity d)) (\<lambda>quantity.
     rbind (chk (quantity = bound) ''Risk decision changed the bound canary quantity'') (\<lambda>_.
     rbind (float_decimal (rd_worst_entry_price d)) (\<lambda>price.
     rbind (chk (\<not> (price < dec_of ds ''venue_min_price'' \<or> price > dec_of ds ''venue_max_price''))
              ''canary entry price is outside bound instrument limits'') (\<lambda>_.
     rbind (multiple_of price (dec_of ds ''venue_price_increment'') ''canary entry price is not bound-price quantized'') (\<lambda>_.
     let msg = ''technical canary quantity is not the Risk-bound effective venue minimum'' in
     rbind (chk (bound = effective_minimum (dec_of ds ''venue_min_quantity'') (dec_of ds ''venue_min_volume_usd'') price
                           (dec_of ds ''venue_quantity_increment'') \<and> \<not> bound > dec_of ds ''venue_max_quantity'') msg) (\<lambda>_.
     multiple_of bound (dec_of ds ''venue_quantity_increment'') msg)))))))))"

definition assert_canary_binding :: "engine_config \<Rightarrow> risk_decision \<Rightarrow> unit res" where
  "assert_canary_binding C d =
     rbind (canary_lineage d) (\<lambda>_.
     let md = to_dict (ti_metadata (rd_intent d)) in
     rbind (canary_policy_metadata d md) (\<lambda>_.
     rbind (canary_updated_at md) (\<lambda>updated.
     rbind (canary_decimals md) (\<lambda>ds.
     rbind (canary_rule_bounds ds) (\<lambda>_.
     rbind (bound_rule md) (\<lambda>rule.
     let rules = ec_canonical_sha256 C rule in
     rbind (chk (map_of md ''instrument_rules_sha256'' = Some rules)
              ''technical canary instrument rule hash is invalid'') (\<lambda>_.
     rbind (canary_evidence d rules updated) (\<lambda>_. canary_quantity d md ds))))))))"

definition zero_economics :: "risk_decision \<Rightarrow> bool" where
  "zero_economics d = list_all (\<lambda>x. feq x fzero)
     [rd_quantity d, rd_notional_usd d, rd_worst_case_loss_usd d, rd_estimated_fees_usd d, rd_estimated_slippage_usd d]"

definition validate_decision :: "engine_config \<Rightarrow> risk_decision \<Rightarrow> unit res" where
  "validate_decision C d =
     (case validate_decision_scope (ec_scope C) d of Inl e \<Rightarrow> Inl (unsafe (exn_text e)) | Inr _ \<Rightarrow>
      if \<not> rd_approved d then
        (case ec_model_validate C (ec_to_payload C d) of
           Inl e \<Rightarrow> if exn_kind e \<in> {ValueError, ValidationError}
             then Inl (unsafe ''rejected risk decision has invalid canonical lineage'') else Inl e
         | Inr _ \<Rightarrow> chk (zero_economics d) ''rejected risk decision must have zero execution economics'')
      else rbind (chk (\<not> ti_entry_eligible_ts_ms (rd_intent d) > rd_quality_expires_at_ms d)
             ''venue quality expires before NEXT_BAR_MARKET entry becomes eligible'') (\<lambda>_. assert_canary_binding C d))"

definition decision_for_trade :: "engine_config \<Rightarrow> trade_row \<Rightarrow> risk_decision res" where
  "decision_for_trade C tr = rbind (ec_model_validate C (tw_payload tr)) (\<lambda>d.
     rbind (validate_decision C d) (\<lambda>_.
     rbind (chk (rd_trade_id d = Some (tw_trade_id tr) \<and> rd_decision_id d = Some (tw_decision_id tr)
                 \<and> ti_intent_id (rd_intent d) = Some (tw_intent_id tr) \<and> ti_symbol (rd_intent d) = tw_symbol tr)
              ''durable trade lineage differs from RiskTradeDecisionV1'') (\<lambda>_. Inr d)))"

definition assert_fresh_market :: "risk_decision \<Rightarrow> int \<Rightarrow> unit res" where
  "assert_fresh_market d now_ms = ensure
     [(\<not> now_ms > ti_entry_expires_ts_ms (rd_intent d), unsafe ''entry deadline expired before venue mutation''),
      (\<not> now_ms > rd_quality_expires_at_ms d, unsafe ''EVEDEX venue quality expired before venue mutation'')]"

definition shortfall_details :: "risk_decision \<Rightarrow> f64 option \<Rightarrow> (string \<times> string) list res" where
  "shortfall_details d avg = (case avg of None \<Rightarrow> Inr [(''execution_shortfall_bps'', ''unknown'')]
     | Some a \<Rightarrow>
        (let worst = rd_worst_entry_price d; direction = Fin (if ti_side (rd_intent d) = LONG_SIDE then 1 else - 1) in
         rbind (fdiv (fsub a worst) worst) (\<lambda>q.
         let bps = fmul (fmul q (Fin 10000)) direction in
         rbind (chk (isfinite bps) ''execution shortfall is non-finite'') (\<lambda>_.
         Inr [(''decision_worst_entry_price'', format_g12 worst), (''execution_average_price'', format_g12 a),
              (''execution_shortfall_bps'', format_g12 bps)]))))"

section \<open>The instrument and the book\<close>

definition instrument_decimals :: "obj \<Rightarrow> (string \<times> rat) list res" where
  "instrument_decimals ins = rtraverse (\<lambda>(k, f). rbind (positive_decimal (field ins f) f) (\<lambda>x. Inr (k, x)))
     (zip canary_decimal_fields [''lotSize'', ''priceIncrement'', ''quantityIncrement'', ''multiplier'', ''minVolume'',
        ''minPrice'', ''maxPrice'', ''minQuantity'', ''maxQuantity''])"

definition protected_price :: "(string \<times> rat) list \<Rightarrow> string \<times> f64 \<Rightarrow> (string \<times> rat) res" where
  "protected_price ds rp = rbind (float_decimal (snd rp)) (\<lambda>p. Inr (fst rp, p))"

definition check_protected_price :: "(string \<times> rat) list \<Rightarrow> string \<times> rat \<Rightarrow> unit res" where
  "check_protected_price ds rp = (let (role, price) = rp in
     rbind (chk (\<not> (price < dec_of ds ''venue_min_price'' \<or> price > dec_of ds ''venue_max_price''))
              (''canary '' @ role @ '' price is outside DEV instrument bounds'')) (\<lambda>_.
     multiple_of price (dec_of ds ''venue_price_increment'')
       (''canary '' @ role @ '' price is not priceIncrement-quantized'')))"

definition find_instrument :: "risk_decision \<Rightarrow> obj \<Rightarrow> obj res" where
  "find_instrument d venue = rbind (as_list (field venue ''instruments'')) (\<lambda>items.
     case filter (\<lambda>i. upper_field i ''name'' = py_upper (rd_venue_symbol d)) items of
       [i] \<Rightarrow> rbind (ensure
         [(casefold (field_text i ''trading'' []) = ''all'', unsafe ''technical canary instrument is not trading=all''),
          (casefold (field_text i ''visibility'' []) = ''all'', unsafe ''technical canary instrument is not visibility=all''),
          (upper_field i ''marketState'' = ''OPEN'', unsafe ''technical canary instrument marketState is not OPEN'')])
         (\<lambda>_. Inr i)
     | _ \<Rightarrow> Inl (unsafe ''DEV instrument metadata is missing or duplicated''))"

definition instrument_quantity :: "risk_decision \<Rightarrow> (string \<times> rat) list \<Rightarrow> rat res" where
  "instrument_quantity d ds =
     rbind (ensure
       [(dec_of ds ''venue_lot_size'' = 1 \<and> dec_of ds ''venue_multiplier'' = 1,
           unsafe ''technical canary supports only lotSize=1 and multiplier=1''),
        (\<not> (dec_of ds ''venue_min_price'' \<ge> dec_of ds ''venue_max_price''
             \<or> dec_of ds ''venue_min_quantity'' > dec_of ds ''venue_max_quantity''),
           unsafe ''DEV instrument price/quantity bounds are incoherent'')]) (\<lambda>_.
     let inc = dec_of ds ''venue_quantity_increment'';
         msg = ''canary decision quantity is not the current effective DEV minimum'' in
     rbind (multiple_of (dec_of ds ''venue_min_price'') (dec_of ds ''venue_price_increment'')
              ''DEV price bounds are not priceIncrement-quantized'') (\<lambda>_.
     rbind (multiple_of (dec_of ds ''venue_max_price'') (dec_of ds ''venue_price_increment'')
              ''DEV price bounds are not priceIncrement-quantized'') (\<lambda>_.
     rbind (float_decimal (rd_worst_entry_price d)) (\<lambda>entry.
     rbind (float_decimal (rd_quantity d)) (\<lambda>quantity.
     rbind (rtraverse (protected_price ds) [(''entry'', rd_worst_entry_price d), (''stop'', rd_stop_price d),
              (''target'', rd_target_price d)]) (\<lambda>prices.
     rbind (rtraverse (check_protected_price ds) prices) (\<lambda>_.
     rbind (multiple_of (dec_of ds ''venue_min_quantity'') inc ''DEV quantity bounds are not increment-quantized'') (\<lambda>_.
     let minimum = effective_minimum (dec_of ds ''venue_min_quantity'') (dec_of ds ''venue_min_volume_usd'') entry inc in
     rbind (chk (quantity = minimum) msg) (\<lambda>_.
     rbind (multiple_of quantity inc msg) (\<lambda>_.
     rbind (chk (\<not> quantity > dec_of ds ''venue_max_quantity'') ''canary decision quantity exceeds maxQuantity'') (\<lambda>_.
     Inr minimum)))))))))))"

definition assert_canary_instrument :: "engine_config \<Rightarrow> risk_decision \<Rightarrow> obj \<Rightarrow> (string \<times> string) list res" where
  "assert_canary_instrument C d venue =
     rbind (chk (isclose fzero eps12 (rd_leverage d) fone) ''technical canary requires exactly 1x leverage'') (\<lambda>_.
     rbind (find_instrument d venue) (\<lambda>ins.
     rbind (instrument_decimals ins) (\<lambda>ds.
     rbind (iso_timestamp_ms (field ins ''updatedAt'') ''instrument updatedAt'') (\<lambda>updated.
     let current = rule_json (map (\<lambda>(k, x). (k, canonical_decimal x)) ds) ''OPEN'' (rd_venue_symbol d) ''all'' updated;
         md = to_dict (ti_metadata (rd_intent d)) in
     rbind (bound_rule md) (\<lambda>bound.
     rbind (chk (current = bound) ''fresh EVEDEX DEV instrument rule differs from the Risk-bound canary rule'') (\<lambda>_.
     rbind (meta md ''instrument_rules_sha256'') (\<lambda>h.
     rbind (chk (ec_canonical_sha256 C current = h) ''fresh EVEDEX DEV instrument rule hash changed'') (\<lambda>_.
     rbind (instrument_quantity d ds) (\<lambda>minimum.
     Inr [(''evedex_canary_instrument_rules_sha256'', h), (''evedex_canary_effective_min_quantity'', canonical_decimal minimum),
          (''evedex_canary_instrument_updated_at_ms'', int_text updated)])))))))))"

definition depth_levels :: "obj \<Rightarrow> string \<Rightarrow> (rat \<times> rat) list res" where
  "depth_levels depth k = rbind (as_list (field depth k)) (\<lambda>rows.
     rbind (chk (rows \<noteq> []) (''EVEDEX depth has no '' @ k)) (\<lambda>_.
     rtraverse (\<lambda>r. rbind (positive_decimal (field r ''price'') (''depth '' @ k @ '' price'')) (\<lambda>p.
       rbind (positive_decimal (field r ''quantity'') (''depth '' @ k @ '' quantity'')) (\<lambda>q. Inr (p, q)))) rows))"

definition depth_age :: "risk_decision \<Rightarrow> obj \<Rightarrow> int \<Rightarrow> int res" where
  "depth_age d depth now_ms = (case field depth ''t'' of
       JInt t \<Rightarrow> rbind (ensure
         [(\<not> t < rd_book_timestamp_ms d, unsafe ''EVEDEX depth projection predates the Risk-bound book''),
          (\<not> (now_ms - t < - 2000 \<or> now_ms - t > 5000),
             unsafe ''EVEDEX depth is stale or has excessive timestamp skew'')]) (\<lambda>_. Inr (now_ms - t))
     | _ \<Rightarrow> Inl (unsafe ''EVEDEX depth timestamp is malformed''))"

definition marketable_levels :: "risk_decision \<Rightarrow> rat \<Rightarrow> (rat \<times> rat) list \<Rightarrow> (rat \<times> rat) list \<Rightarrow> (rat \<times> (rat \<times> rat) list) res" where
  "marketable_levels d cap offers bids =
     (let best_ask = Min (fst ` set offers); best_bid = Max (fst ` set bids) in
      rbind (chk (\<not> best_bid \<ge> best_ask) ''EVEDEX depth is crossed'') (\<lambda>_.
      if ti_side (rd_intent d) = LONG_SIDE then
        rbind (chk (\<not> cap < best_ask) ''canary IOC BUY cap is no longer marketable'') (\<lambda>_.
          Inr (best_ask, filter (\<lambda>(p, q). p \<le> cap) offers))
      else rbind (chk (\<not> cap > best_bid) ''canary IOC SELL cap is no longer marketable'') (\<lambda>_.
          Inr (best_bid, filter (\<lambda>(p, q). p \<ge> cap) bids))))"

definition assert_live_book :: "risk_decision \<Rightarrow> obj \<Rightarrow> int \<Rightarrow> (string \<times> string) list res" where
  "assert_live_book d depth now_ms =
     rbind (depth_age d depth now_ms) (\<lambda>age.
     rbind (depth_levels depth ''asks'') (\<lambda>offers.
     rbind (depth_levels depth ''bids'') (\<lambda>bids.
     rbind (float_decimal (rd_worst_entry_price d)) (\<lambda>cap.
     rbind (marketable_levels d cap offers bids) (\<lambda>(price, levels).
     let executable = dsum 28 (map (\<lambda>(p, q). dmul 28 p q) levels) in
     rbind (float_decimal (fmax (rd_notional_usd d) (rd_assessed_notional_usd d))) (\<lambda>required.
     rbind (chk (\<not> executable < required) ''canary IOC has insufficient current executable depth'') (\<lambda>_.
     let md = to_dict (ti_metadata (rd_intent d));
         decimal = (\<lambda>k. rbind (meta md k) (\<lambda>t. positive_decimal (JStr t) k)) in
     rbind (decimal ''venue_quantity_increment'') (\<lambda>inc.
     rbind (decimal ''venue_min_quantity'') (\<lambda>minq.
     rbind (decimal ''venue_min_volume_usd'') (\<lambda>minv.
     rbind (float_decimal (rd_quantity d)) (\<lambda>quantity.
     rbind (chk (quantity = effective_minimum minq minv price inc)
              ''canary quantity is not the effective minimum at the current marketable IOC price'') (\<lambda>_.
     Inr [(''evedex_entry_book_age_ms'', int_text (max 0 age)),
          (''evedex_entry_executable_depth_usd'', canonical_decimal executable),
          (''evedex_entry_marketable_price'', canonical_decimal price)]))))))))))))"

section \<open>Health of the sidecar\<close>

text \<open>\<^verbatim>\<open>v != n\<close> for an integer \<open>n\<close>.\<close>

definition equals_int :: "json \<Rightarrow> int \<Rightarrow> bool" where
  "equals_int v n = (case v of JInt i \<Rightarrow> i = n | JFloat x \<Rightarrow> x = Fin (of_int n) | JBool b \<Rightarrow> (if b then 1 else 0) = n
     | _ \<Rightarrow> False)"

definition expected_health :: "obj \<Rightarrow> bool" where
  "expected_health h \<longleftrightarrow> field h ''profile'' = JStr ''DEV'' \<and> equals_int (field h ''chain_id'') 16182
     \<and> field h ''exchange_url'' = JStr ''https://trading-api.evedex.tech''
     \<and> field h ''auth_url'' = JStr ''https://auth-api.evedex.tech'' \<and> field h ''sdk_version'' = JStr ''1.2.11''"

definition nonnegative_integer :: "json \<Rightarrow> int res" where
  "nonnegative_integer v = (case v of
       JInt n \<Rightarrow> if n < 0 then Inl (unsafe ''sidecar telemetry must be a non-negative integer'') else Inr n
     | _ \<Rightarrow> Inl (unsafe ''sidecar telemetry must be a non-negative integer''))"

definition telemetry_integer :: "obj \<Rightarrow> string \<Rightarrow> int res" where
  "telemetry_integer h k = (case map_of h k of None \<Rightarrow> Inl (unsafe (''sidecar health lacks '' @ k))
     | Some v \<Rightarrow> nonnegative_integer v)"

definition optional_integer_text :: "json \<Rightarrow> string res" where
  "optional_integer_text v = (if v = JNull then Inr ''unknown'' else rbind (nonnegative_integer v) (\<lambda>n. Inr (int_text n)))"

definition accept_health :: "obj \<Rightarrow> (string \<times> string) list res" where
  "accept_health h =
     rbind (chk (expected_health h) ''sidecar health differs from the pinned EVEDEX DEV profile'') (\<lambda>_.
     rbind (telemetry_integer h ''auth_age_ms'') (\<lambda>age.
     rbind (telemetry_integer h ''local_mutation_rate_limit_capacity'') (\<lambda>capacity.
     rbind (telemetry_integer h ''local_mutation_rate_limit_reserve'') (\<lambda>reserve.
     rbind (telemetry_integer h ''local_mutation_rate_limit_window_ms'') (\<lambda>window.
     rbind (telemetry_integer h ''local_mutation_compensation_reserve'') (\<lambda>compensation.
     rbind (telemetry_integer h ''local_mutation_entry_min_reserve'') (\<lambda>entry_min.
     rbind (chk (\<not> (capacity \<le> 0 \<or> reserve > capacity \<or> compensation \<ge> capacity \<or> entry_min \<le> compensation + 2
                    \<or> entry_min > capacity \<or> window \<le> 0))
              ''sidecar mutation reserve telemetry is inconsistent'') (\<lambda>_.
     rbind (optional_integer_text (field h ''auth_expires_in_ms'')) (\<lambda>expires.
     rbind (case field h ''venue_rate_limit_observable'' of JBool b \<Rightarrow> Inr b
            | _ \<Rightarrow> Inl (unsafe ''venue rate-limit observability flag is malformed'')) (\<lambda>observable.
     rbind (chk (\<not> (observable \<and> field h ''venue_rate_limit_reserve'' = JNull))
              ''observable venue rate limit lacks a reserve value'') (\<lambda>_.
     rbind (optional_integer_text (field h ''venue_rate_limit_reserve'')) (\<lambda>venue_text.
     Inr [(''evedex_auth_age_ms'', int_text age), (''evedex_auth_expires_in_ms'', expires),
          (''evedex_local_mutation_reserve'', int_text reserve), (''evedex_local_mutation_capacity'', int_text capacity),
          (''evedex_local_mutation_window_ms'', int_text window),
          (''evedex_local_mutation_compensation_reserve'', int_text compensation),
          (''evedex_local_mutation_entry_min_reserve'', int_text entry_min),
          (''evedex_venue_rate_limit_observable'', if observable then ''true'' else ''false''),
          (''evedex_venue_rate_limit_reserve'', venue_text)]))))))))))))"

text \<open>What \<^verbatim>\<open>_accept_entry_health\<close> asks beyond \<open>accept_health\<close>.\<close>

definition entry_headroom :: "obj \<Rightarrow> unit res" where
  "entry_headroom h = rbind (telemetry_integer h ''local_mutation_rate_limit_reserve'') (\<lambda>reserve.
     rbind (telemetry_integer h ''local_mutation_entry_min_reserve'') (\<lambda>minimum.
     chk (\<not> reserve < minimum) ''sidecar mutation reserve cannot fund entry plus mandatory STOP/TARGET''))"

section \<open>Public facts\<close>

text \<open>The identity of a fact: everything in it that does not depend on when it is written.\<close>

definition opt_json :: "string option \<Rightarrow> json" where
  "opt_json x = (case x of None \<Rightarrow> JNull | Some s \<Rightarrow> JStr s)"

definition fact_identity :: "fact_type \<Rightarrow> life \<Rightarrow> fact \<Rightarrow> f64 \<Rightarrow> json" where
  "fact_identity typ st f position = JObj
     [(''event_type'', JStr (fact_text typ)), (''lifecycle_state'', JStr (life_text st)),
      (''effect_id'', opt_json (fc_effect_id f)), (''order_role'', opt_json (map_option role_text (fc_role f))),
      (''client_order_id'', opt_json (fc_client_order_id f)), (''exchange_order_id'', opt_json (fc_exchange_order_id f)),
      (''requested_quantity_hex'', JStr (float_hex (fc_requested_quantity f))),
      (''filled_quantity_hex'', JStr (float_hex (fc_filled_quantity f))),
      (''position_quantity_hex'', JStr (float_hex position)),
      (''average_price_hex'', opt_json (map_option float_hex (fc_average_price f))),
      (''fee_usd_hex'', JStr (float_hex (fc_fee_usd f))),
      (''exit_reason'', opt_json (map_option reason_text (fc_exit_reason f))),
      (''fact_details'', JArr (map (\<lambda>(k, v). JArr [JStr k, JStr v]) (fc_details f)))]"

definition fact_key :: "engine_config \<Rightarrow> fact_type \<Rightarrow> life \<Rightarrow> fact \<Rightarrow> f64 \<Rightarrow> string" where
  "fact_key C typ st f position = ls_event_namespace (ec_scope C) @ '':'' @ fact_text typ @ '':''
     @ sha256_hex (json_text float_text (sort_keys (fact_identity typ st f position)))"

record fact_owner =
  fo_account_id :: string
  fo_strategy_id :: string
  fo_strategy_revision :: string
  fo_intent_id :: string
  fo_trade_id :: string

definition owner_of_row :: "trade_row \<Rightarrow> fact_owner" where
  "owner_of_row t = \<lparr> fo_account_id = tw_account_id t, fo_strategy_id = tw_strategy_id t,
     fo_strategy_revision = tw_strategy_revision t, fo_intent_id = tw_intent_id t, fo_trade_id = tw_trade_id t \<rparr>"

definition owner_of_new :: "new_trade \<Rightarrow> fact_owner" where
  "owner_of_new t = \<lparr> fo_account_id = nt_account_id t, fo_strategy_id = nt_strategy_id t,
     fo_strategy_revision = nt_strategy_revision t, fo_intent_id = nt_intent_id t, fo_trade_id = nt_trade_id t \<rparr>"

definition fact_event ::
  "engine_config \<Rightarrow> risk_decision \<Rightarrow> fact_owner \<Rightarrow> fact_type \<Rightarrow> life \<Rightarrow> fact \<Rightarrow> f64 \<Rightarrow> int \<Rightarrow> (string \<times> string) list \<Rightarrow> trade_event" where
  "fact_event C d ow typ st f position occurred telemetry =
     \<lparr> te_seq = 0, te_source = ec_service_name C, te_occurred_at_ms = occurred, te_type = typ, te_state = st,
       te_trading_mode = ls_trading_mode (ec_scope C), te_profile = ls_profile (ec_scope C),
       te_account_id = fo_account_id ow, te_venue_symbol = rd_venue_symbol d, te_strategy_id = fo_strategy_id ow,
       te_strategy_revision = fo_strategy_revision ow, te_intent_id = fo_intent_id ow,
       te_decision_id = rd_decision_id d, te_trade_id = fo_trade_id ow, te_effect_id = fc_effect_id f,
       te_role = fc_role f, te_client_order_id = fc_client_order_id f, te_exchange_order_id = fc_exchange_order_id f,
       te_requested_quantity = fc_requested_quantity f, te_filled_quantity = fc_filled_quantity f,
       te_position_quantity = position, te_average_price = fc_average_price f, te_fee_usd = fc_fee_usd f,
       te_exit_reason = fc_exit_reason f, te_details = fc_details f @ sort_key fst telemetry \<rparr>"

fun build_event :: "event_builder \<Rightarrow> nat \<Rightarrow> trade_event res" where
  "build_event (Build_Event e) n = rbind (required_opt (te_decision_id e) ''decision_id'') (\<lambda>_. Inr (e \<lparr> te_seq := n \<rparr>))"
| "build_event (Replay_Event e) n = Inr e"

end
