(* ===== verification/Paper_Account.thy ===== *)
theory Paper_Account
  imports Paper_Policy
begin

text \<open>
  The account-wide checks of \<^verbatim>\<open>kairos_execution/paper_engine.py\<close>: the ownership of everything the
  venue reports (\<open>authoritative_account_blockers\<close>), the balance projections, the entry projection of
  an IOC order, and the account snapshot. Loops with accumulators are folds over the same
  accumulators.
\<close>

section \<open>Balance projections\<close>

type_synonym projection = "((string \<times> string) \<times> f64) list"

definition add_to :: "string \<times> string \<Rightarrow> f64 \<Rightarrow> projection \<Rightarrow> projection" where
  "add_to k q p = dict_set k (fadd (case map_of p k of Some x \<Rightarrow> x | None \<Rightarrow> fzero) q) p"

definition balance_projection :: "string \<Rightarrow> obj list \<Rightarrow> projection res" where
  "balance_projection quantity_field rows = rfold (\<lambda>p row.
     rbind (required_number row quantity_field) (\<lambda>q.
     if fle q fzero then Inr p else
     let symb = upper_field row ''instrument''; side = upper_field row ''side'' in
     rbind (chk (symb \<noteq> [] \<and> side \<in> {''BUY'', ''SELL''}) ''balance projection has malformed instrument/side'') (\<lambda>_.
     Inr (add_to (symb, side) q p)))) [] rows"

definition projections_match :: "projection \<Rightarrow> projection \<Rightarrow> bool" where
  "projections_match l r \<longleftrightarrow> fst ` set l = fst ` set r
     \<and> list_all (\<lambda>(k, x). case map_of r k of Some y \<Rightarrow> isclose eps9 eps12 x y | None \<Rightarrow> False) l"

section \<open>Ownership\<close>

record ownership =
  ow_blockers :: "string list"
  ow_by_symbol :: "(string \<times> trade_row) list"
  ow_by_entry :: "(string \<times> trade_row) list"
  ow_protection :: "(string \<times> (trade_row \<times> string \<times> f64)) list"

definition block :: "string \<Rightarrow> ownership \<Rightarrow> ownership" where
  "block msg a = a \<lparr> ow_blockers := ow_blockers a @ [msg] \<rparr>"

definition own_protection :: "trade_row \<Rightarrow> string option \<times> string \<times> f64 \<Rightarrow> ownership \<Rightarrow> ownership" where
  "own_protection tr p a = (case fst p of None \<Rightarrow> a | Some xid \<Rightarrow>
     (let a' = (if map_of (ow_protection a) xid \<noteq> None
                then block ''duplicate TP/SL exchange identity in durable state'' a else a)
      in a' \<lparr> ow_protection := dict_set xid (tr, fst (snd p), snd (snd p)) (ow_protection a') \<rparr>))"

definition own_trade :: "lifecycle_scope \<Rightarrow> ownership \<Rightarrow> trade_row \<Rightarrow> ownership" where
  "own_trade sc a tr = (case map_of (ls_symbol_map sc) (tw_symbol tr) of
       None \<Rightarrow> block (''trade '' @ tw_trade_id tr @ '' has a symbol outside the DEV allowlist'') a
     | Some vs \<Rightarrow>
        (let a1 = (if map_of (ow_by_symbol a) vs \<noteq> None then block (''multiple nonterminal trades own '' @ vs) a else a);
             a2 = a1 \<lparr> ow_by_symbol := dict_set vs tr (ow_by_symbol a1) \<rparr>;
             a3 = (if map_of (ow_by_entry a2) (tw_entry_client_order_id tr) \<noteq> None
                   then block ''duplicate deterministic entry IDs in durable state'' a2 else a2);
             a4 = a3 \<lparr> ow_by_entry := dict_set (tw_entry_client_order_id tr) tr (ow_by_entry a3) \<rparr>
         in own_protection tr (tw_target_exchange_order_id tr, ''TAKE_PROFIT'', tw_target_price tr)
              (own_protection tr (tw_stop_exchange_order_id tr, ''STOP_LOSS'', tw_stop_price tr) a4)))"

definition account_identities :: "obj \<Rightarrow> string set" where
  "account_identities account = set (map (\<lambda>k. py_str (field account k))
     (filter (\<lambda>k. field account k \<noteq> JNull) [''id'', ''exchangeId'', ''user'']))"

text \<open>The positions: each belongs to one owned trade, with its side, size, leverage and fill.\<close>

definition position_blockers :: "trade_row \<Rightarrow> string \<Rightarrow> string \<Rightarrow> f64 \<Rightarrow> f64 \<Rightarrow> string list" where
  "position_blockers tr vs side quantity lev =
     (if side \<noteq> tw_side tr then [''position '' @ vs @ '' side differs from durable lineage''] else [])
     @ (if flt (fadd (tw_quantity tr) (tolerance (tw_quantity tr))) quantity
        then [''position '' @ vs @ '' exceeds approved quantity''] else [])
     @ (if \<not> close_to (tolerance (tw_leverage tr)) lev (tw_leverage tr)
        then [''position '' @ vs @ '' leverage differs from durable approval''] else [])
     @ (if tw_state tr = ENTRY_PENDING then [''trade '' @ tw_trade_id tr @ '' has an unreconciled entry fill'']
        else if tw_state tr \<in> {PROTECTING, ACTIVE}
                \<and> \<not> close_to (tolerance (tw_quantity tr)) quantity (tw_filled_quantity tr)
        then [''position '' @ vs @ '' differs from durable cumulative filled quantity''] else [])"

definition own_position :: "ownership \<Rightarrow> string list \<times> projection \<Rightarrow> obj \<Rightarrow> (string list \<times> projection) res" where
  "own_position a acc item = (case acc of (bs, actual) \<Rightarrow>
     rbind (required_number item ''quantity'') (\<lambda>quantity.
     if fle quantity fzero then Inr (bs, actual) else
     let vs = upper_field item ''instrument''; side = upper_field item ''side'' in
     if side \<notin> {''BUY'', ''SELL''} then Inr (bs @ [''position '' @ vs @ '' has malformed side''], actual) else
     let actual' = add_to (vs, side) quantity actual in
     (case map_of (ow_by_symbol a) vs of
        None \<Rightarrow> Inr (bs @ [''unowned venue position '' @ vs], actual')
      | Some tr \<Rightarrow> rbind (positive (field item ''leverage'') ''position leverage'') (\<lambda>lev.
          Inr (bs @ position_blockers tr vs side quantity lev, actual')))))"

definition own_order ::
  "engine_config \<Rightarrow> ownership \<Rightarrow> string list \<times> projection \<Rightarrow> obj \<Rightarrow> (string list \<times> projection) res" where
  "own_order C a acc item = (case acc of (bs, actual) \<Rightarrow>
     let cid = field_text item ''id'' []; key = (upper_field item ''instrument'', upper_field item ''side'') in
     rbind (required_number item ''unFilledQuantity'') (\<lambda>remaining.
     let actual' = (if flt fzero remaining then add_to key remaining actual else actual) in
     (case map_of (ow_by_entry a) cid of
        None \<Rightarrow> Inr (bs @ [''unowned open venue order '' @ (if cid = [] then ''<missing-id>'' else cid)], actual')
      | Some tr \<Rightarrow> rbind (decision_for_trade C tr) (\<lambda>d.
          rbind (validate_entry_response item d (tw_entry_client_order_id tr)) (\<lambda>_.
          Inr (bs @ (if tw_state tr \<notin> {ENTRY_PENDING, PROTECTING, ACTIVE}
                     then [''terminal/closing trade '' @ tw_trade_id tr @ '' retains an entry order''] else []), actual'))))))"

definition own_tpsl :: "lifecycle_scope \<Rightarrow> ownership \<Rightarrow> string list \<Rightarrow> string \<times> obj \<Rightarrow> string list res" where
  "own_tpsl sc a bs rec = (case rec of (tid, item) \<Rightarrow>
     rbind (assert_known_status item) (\<lambda>_.
     if \<not> is_live_tpsl (Some item) then Inr bs else
     (case map_of (ow_protection a) tid of
        None \<Rightarrow> Inr (bs @ [''unowned live TP/SL '' @ tid])
      | Some (tr, typ, price) \<Rightarrow> rbind (symbol_of sc (tw_symbol tr)) (\<lambda>vs.
          rbind (validate_tpsl item \<lparr> tp_venue_symbol = vs, tp_side = tw_side tr, tp_type = typ, tp_price = price,
                   tp_parent = tw_entry_client_order_id tr \<rparr> True False) (\<lambda>_. Inr bs)))))"

text \<open>Every open trade has its position and its protection.\<close>

definition cover_blockers ::
  "lifecycle_scope \<Rightarrow> projection \<Rightarrow> (string \<times> obj) list \<Rightarrow> string list \<Rightarrow> trade_row \<Rightarrow> string list res" where
  "cover_blockers sc actual records bs tr = rbind (symbol_of sc (tw_symbol tr)) (\<lambda>vs.
     let is_open = (vs \<in> fst ` fst ` set actual);
         live = (\<lambda>xid. is_live_tpsl (map_of records (case xid of Some x \<Rightarrow> x | None \<Rightarrow> []))) in
     Inr (bs
       @ (if tw_state tr = ACTIVE \<and> \<not> is_open then [''ACTIVE trade '' @ tw_trade_id tr @ '' lacks its venue position''] else [])
       @ (if tw_state tr \<in> {PROTECTING, ACTIVE} \<and> is_open \<and> \<not> live (tw_stop_exchange_order_id tr)
          then [''trade '' @ tw_trade_id tr @ '' has unprotected exposure''] else [])
       @ (if tw_state tr = ACTIVE \<and> is_open \<and> \<not> live (tw_target_exchange_order_id tr)
          then [''ACTIVE trade '' @ tw_trade_id tr @ '' lacks its target''] else [])))"

definition tpsl_records :: "obj \<Rightarrow> (string \<times> obj) list res" where
  "tpsl_records venue = rbind (as_list (field venue ''tpsl'')) (\<lambda>items.
     rbind (rtraverse (\<lambda>d. rbind (required_text (field d ''id'') ''TP/SL exchange ID'') (\<lambda>i. Inr (i, d))) items) (\<lambda>ps.
     Inr (to_dict ps)))"

definition identity_blockers :: "lifecycle_scope \<Rightarrow> obj \<Rightarrow> string list" where
  "identity_blockers sc account =
     (if (case ls_remote_account_id sc of Some r \<Rightarrow> r \<notin> account_identities account | None \<Rightarrow> True)
      then [''authenticated account identity differs from the dedicated DEV account''] else [])
     @ (if field account ''marginCall'' \<noteq> JBool False
        then [''authenticated DEV account is in margin call or lacks its flag''] else [])"

definition authoritative_account_blockers ::
  "engine_config \<Rightarrow> obj \<Rightarrow> trade_row list \<Rightarrow> string option \<Rightarrow> string list res" where
  "authoritative_account_blockers C venue trades ignored =
     (let sc = ec_scope C; included = filter (\<lambda>t. Some (tw_trade_id t) \<noteq> ignored) trades in
      rbind (as_object (field venue ''account'') ''account'') (\<lambda>account.
      let a = foldl (own_trade sc) \<lparr> ow_blockers = identity_blockers sc account, ow_by_symbol = [], ow_by_entry = [],
                ow_protection = [] \<rparr> included in
      rbind (as_list (field venue ''positions'')) (\<lambda>positions.
      rbind (rfold (own_position a) (ow_blockers a, []) positions) (\<lambda>(bs1, actual_positions).
      rbind (as_list (field venue ''orders'')) (\<lambda>orders.
      rbind (rfold (own_order C a) (bs1, []) orders) (\<lambda>(bs2, actual_orders).
      rbind (tpsl_records venue) (\<lambda>records.
      rbind (rfold (own_tpsl sc a) bs2 records) (\<lambda>bs3.
      rbind (rfold (cover_blockers sc actual_positions records) bs3 included) (\<lambda>bs4.
      rbind (as_object (field venue ''balance'') ''balance'') (\<lambda>balance.
      rbind (rbind (as_list (field balance ''positions'')) (balance_projection ''volume'')) (\<lambda>summary_positions.
      rbind (rbind (as_list (field balance ''openOrders'')) (balance_projection ''unFilledVolume'')) (\<lambda>summary_orders.
      Inr (bs4
        @ (if \<not> projections_match summary_positions actual_positions
           then [''balance.positions differs from fetched positions''] else [])
        @ (if \<not> projections_match summary_orders actual_orders
           then [''balance.openOrders differs from fetched open orders''] else []))))))))))))))"

section \<open>The entry projection of an IOC order\<close>

definition encoding :: "obj \<Rightarrow> string" where
  "encoding d = json_text float_text (sort_keys (JObj d))"

definition settled_projection :: "engine_config \<Rightarrow> risk_decision \<Rightarrow> trade_row \<Rightarrow> obj \<Rightarrow> (obj option \<times> bool) res" where
  "settled_projection C d tr venue =
     rbind (position_for_trade (ec_scope C) venue tr) (\<lambda>position.
     rbind (find_order venue (Some (tw_entry_client_order_id tr))) (\<lambda>active.
     rbind (find_historical_order venue (tw_entry_client_order_id tr)) (\<lambda>historical.
     let candidates = map snd (to_dict (map (\<lambda>c. (encoding c, c))
           (concat (map (\<lambda>o1. case o1 of Some c \<Rightarrow> [c] | None \<Rightarrow> []) [active, historical])))) in
     rbind (rtraverse (\<lambda>c. rbind (validate_entry_response c d (tw_entry_client_order_id tr)) (\<lambda>k.
              Inr (c, ak_status k, ak_filled k))) candidates) (\<lambda>validated.
     if flt fzero position then
       (case filter (\<lambda>(c, st, filled). fle position (fadd filled (tolerance (tw_quantity tr)))) validated of
          [(c, _, _)] \<Rightarrow> Inr (Some c, True)
        | _ \<Rightarrow> Inl (unsafe ''IOC exposure lacks one exact entry-order fill projection''))
     else
       (let observed = list_ex (\<lambda>(c, st, filled). flt fzero filled) validated;
            terminal = map fst (filter (\<lambda>(c, st, filled). fle filled fzero \<and> st \<in> dead_statuses) validated)
        in case terminal of [] \<Rightarrow> Inr (None, observed)
           | c # rest \<Rightarrow> rbind (chk (list_all (\<lambda>x. encoding x = encoding c) rest) ''IOC terminal projections conflict'')
               (\<lambda>_. Inr (Some c, observed)))))))"

section \<open>The account snapshot\<close>

record position_snapshot =
  ps_venue_symbol :: string
  ps_long :: bool
  ps_signed_quantity :: f64
  ps_entry_price :: f64
  ps_mark_price :: f64
  ps_leverage :: f64
  ps_liquidation_price :: "f64 option"
  ps_unrealized_pnl :: f64
  ps_trade :: trade_row
  ps_first_fill_at_ms :: int
  ps_timeout_at_ms :: int
  ps_exit_plan :: "f64 \<times> f64 \<times> int"

record order_snapshot =
  op_venue_symbol :: string
  op_client_order_id :: string
  op_market :: bool
  op_side :: string
  op_status :: string
  op_quantity :: f64
  op_filled_quantity :: f64
  op_price :: "f64 option"
  op_trade :: trade_row
  op_created_at_ms :: int
  op_updated_at_ms :: int

record account_snapshot =
  as_source :: string
  as_account_id :: string
  as_equity :: f64
  as_available :: f64
  as_margin_used :: f64
  as_day_start :: f64
  as_peak :: f64
  as_unrealized :: f64
  as_open_risk :: f64
  as_positions :: "position_snapshot list"
  as_open_orders :: "order_snapshot list"
  as_captured_at_ms :: int
  as_reconciliation_seq :: int
  as_detail :: string

text \<open>Equity and available balance, both net of unrealised losses.\<close>

definition snapshot_funds :: "lifecycle_scope \<Rightarrow> obj \<Rightarrow> (f64 \<times> f64) res" where
  "snapshot_funds sc venue =
     rbind (as_object (field venue ''account'') ''account'') (\<lambda>account.
     rbind (chk (case ls_remote_account_id sc of Some r \<Rightarrow> r \<in> account_identities account | None \<Rightarrow> False)
              ''account snapshot identity differs from PAPER preflight'') (\<lambda>_.
     rbind (chk (field account ''marginCall'' = JBool False)
              ''EVEDEX PAPER account is in margin call or lacks its flag'') (\<lambda>_.
     rbind (as_object (field venue ''balance'') ''balance'') (\<lambda>balance.
     rbind (as_object (field balance ''funding'') ''funding'') (\<lambda>funding.
     rbind (as_list (field venue ''positions'')) (\<lambda>positions.
     rbind (rfold (\<lambda>total item. rbind (required_number item ''quantity'') (\<lambda>q.
              if flt fzero q then rbind (position_unrealized item) (\<lambda>u. Inr (fadd total (fmax fzero (fneg u))))
              else Inr total)) fzero positions) (\<lambda>losses.
     rbind (finite (field funding ''balance'')) (\<lambda>b.
     rbind (finite (field balance ''availableBalance'')) (\<lambda>av.
     let equity = fmax fzero (fsub b losses) in
     rbind (chk (\<not> fle equity fzero) ''reconciled PAPER equity is not positive'') (\<lambda>_.
     Inr (equity, fmax fzero (fsub av losses))))))))))))"

record snapshot_acc =
  sa_details :: "string list"
  sa_positions :: "position_snapshot list"
  sa_risk :: f64
  sa_unrealized :: f64

definition note_detail :: "string \<Rightarrow> snapshot_acc \<Rightarrow> snapshot_acc" where
  "note_detail msg a = a \<lparr> sa_details := sa_details a @ [msg] \<rparr>"

definition snapshot_position ::
  "engine_config \<Rightarrow> (string \<times> trade_row) list \<Rightarrow> (string \<times> obj) list \<Rightarrow> snapshot_acc \<Rightarrow> obj \<Rightarrow> snapshot_acc res" where
  "snapshot_position C by_symbol metrics a item =
     rbind (required_number item ''quantity'') (\<lambda>quantity.
     if fle quantity fzero then Inr a else
     let vs = upper_field item ''instrument'' in
     case map_of by_symbol vs of None \<Rightarrow> Inr (note_detail (''unowned venue position '' @ vs) a) | Some tr \<Rightarrow>
     (case (tw_first_fill_at tr, tw_timeout_at tr) of
       (Some filled_at, Some timeout) \<Rightarrow>
        rbind (ec_model_validate C (tw_payload tr)) (\<lambda>d.
        let side = upper_field item ''side'' in
        if side \<notin> {''BUY'', ''SELL''} then Inr (note_detail (''trade '' @ tw_trade_id tr @ '' venue side is malformed'') a) else
        rbind (positive (field item ''avgPrice'') ''position entry'') (\<lambda>entry.
        case map_of metrics vs of
          None \<Rightarrow> Inr (note_detail (''position '' @ vs @ '' lacks authoritative instrument metrics'') a)
        | Some m \<Rightarrow>
          rbind (positive (field m ''markPrice'') ''position mark'') (\<lambda>mark.
          rbind (position_unrealized item) (\<lambda>u.
          rbind (positive (field item ''leverage'') ''position leverage'') (\<lambda>lev.
          if \<not> close_to (tolerance (tw_leverage tr)) lev (tw_leverage tr)
          then Inr (note_detail (''trade '' @ tw_trade_id tr @ '' venue leverage differs from approval'') a) else
          rbind (positive_optional (field item ''liquidationPrice'')) (\<lambda>liq.
          Inr (a \<lparr> sa_unrealized := fadd (sa_unrealized a) u,
                   sa_risk := fadd (sa_risk a) (fmul quantity (fabs (fsub entry (tw_stop_price tr)))),
                   sa_positions := sa_positions a @ [\<lparr> ps_venue_symbol = vs, ps_long = (side = ''BUY''),
                     ps_signed_quantity = (if side = ''BUY'' then quantity else fneg quantity), ps_entry_price = entry,
                     ps_mark_price = mark, ps_leverage = lev, ps_liquidation_price = liq, ps_unrealized_pnl = u,
                     ps_trade = tr, ps_first_fill_at_ms = instant_ms filled_at, ps_timeout_at_ms = instant_ms timeout,
                     ps_exit_plan = (rd_stop_price d, rd_target_price d, rd_max_holding_ms d) \<rparr>] \<rparr>)))))))
     | _ \<Rightarrow> Inr (note_detail (''trade '' @ tw_trade_id tr @ '' position has no durable first-fill clock'') a)))"

definition snapshot_order ::
  "engine_config \<Rightarrow> (string \<times> trade_row) list \<Rightarrow> int \<Rightarrow> string list \<times> order_snapshot list \<Rightarrow> obj
   \<Rightarrow> (string list \<times> order_snapshot list) res" where
  "snapshot_order C by_entry captured_ms acc item = (case acc of (details, orders) \<Rightarrow>
     let cid = field_text item ''id'' [] in
     case map_of by_entry cid of
       None \<Rightarrow> Inr (details @ [''unowned open venue order '' @ (if cid = [] then ''<missing-id>'' else cid)], orders)
     | Some tr \<Rightarrow> rbind (ec_model_validate C (tw_payload tr)) (\<lambda>d.
        let status = order_status_text item ''NEW'' in
        if \<not> ec_known_status C status
        then Inr (details @ [''order '' @ cid @ '' has unknown status '' @ status], orders)
        else if status \<notin> {''NEW'', ''PARTIALLY_FILLED''} then Inr (details, orders) else
        rbind (required_number item ''quantity'') (\<lambda>quantity.
        rbind (required_number item ''unFilledQuantity'') (\<lambda>remaining.
        rbind (if tw_side tr \<in> {''BUY'', ''SELL''} then Inr () else raise ValueError (tw_side tr @ '' is not a valid OrderSide'')) (\<lambda>_.
        rbind (positive_optional (field item ''limitPrice'')) (\<lambda>price.
        Inr (details, orders @ [\<lparr> op_venue_symbol = rd_venue_symbol d, op_client_order_id = cid,
          op_market = (py_upper (field_text item ''type'' ''MARKET'') = ''MARKET''), op_side = tw_side tr, op_status = status,
          op_quantity = quantity, op_filled_quantity = fmax fzero (fsub quantity remaining), op_price = price, op_trade = tr,
          op_created_at_ms = timestamp_ms (field item ''createdAt'') captured_ms,
          op_updated_at_ms = timestamp_ms (field item ''updatedAt'') captured_ms \<rparr>])))))))"

definition snapshot_tpsl_details :: "trade_row list \<Rightarrow> obj list \<Rightarrow> string list" where
  "snapshot_tpsl_details trades items =
     (let owned = concat (map (\<lambda>t. concat (map (\<lambda>x. case x of Some i \<Rightarrow> [i] | None \<Rightarrow> [])
            [tw_stop_exchange_order_id t, tw_target_exchange_order_id t])) trades) in
      map (\<lambda>d. ''unowned live TP/SL '' @ field_text d ''id'' ''<missing-id>'')
        (filter (\<lambda>d. is_live_tpsl (Some d) \<and> field_text d ''id'' [] \<notin> set owned) items))"

definition snapshot_body ::
  "engine_config \<Rightarrow> obj \<Rightarrow> trade_row list \<Rightarrow> int \<Rightarrow> (snapshot_acc \<times> order_snapshot list \<times> f64) res" where
  "snapshot_body C venue trades captured_ms =
     rbind (rtraverse (\<lambda>t. rbind (symbol_of (ec_scope C) (tw_symbol t)) (\<lambda>v. Inr (v, t))) trades) (\<lambda>by_symbol.
     let by_entry = map (\<lambda>t. (tw_entry_client_order_id t, t)) trades in
     rbind (authoritative_account_blockers C venue trades None) (\<lambda>blockers.
     rbind (as_list (field venue ''instruments'')) (\<lambda>instruments.
     rbind (as_list (field venue ''positions'')) (\<lambda>positions.
     rbind (rfold (snapshot_position C (to_dict by_symbol) (to_dict (map (\<lambda>i. (upper_field i ''name'', i)) instruments)))
              \<lparr> sa_details = blockers, sa_positions = [], sa_risk = fzero, sa_unrealized = fzero \<rparr> positions) (\<lambda>a.
     rbind (as_list (field venue ''orders'')) (\<lambda>orders.
     rbind (rfold (snapshot_order C (to_dict by_entry) captured_ms) (sa_details a, []) orders) (\<lambda>(details, open_orders).
     rbind (as_list (field venue ''tpsl'')) (\<lambda>tpsl.
     rbind (as_object (field venue ''balance'') ''balance'') (\<lambda>balance.
     rbind (as_list (field balance ''positions'')) (\<lambda>margins.
     rbind (rtraverse (\<lambda>d. required_number d ''initialMargin'') margins) (\<lambda>ms.
     Inr (a \<lparr> sa_details := details @ snapshot_tpsl_details trades tpsl \<rparr>, open_orders, foldl fadd fzero ms))))))))))))"

end
