(* ===== verification/Paper_Effects.thy ===== *)
theory Paper_Effects
  imports Paper_Account
begin

text \<open>
  The effects of \<^verbatim>\<open>kairos_execution/paper_engine.py\<close>: how a lifecycle transition is written with its
  public fact, how a venue mutation is prepared, budgeted, sent and confirmed, and how an entry is
  protected and an exposure is closed. \<^verbatim>\<open>_prepare_exit_risk\<close> is empty in the PAPER engine.
\<close>

section \<open>Transitions with their public facts\<close>

definition transition_with_event ::
  "engine_config \<Rightarrow> risk_decision \<Rightarrow> trade_row \<Rightarrow> life \<Rightarrow> string \<Rightarrow> fact_type \<Rightarrow> life \<Rightarrow> move \<Rightarrow> fact
   \<Rightarrow> (trade_row \<times> trade_event) p_prog" where
  "transition_with_event C d tr target journal_type public_type lifecycle mv f = (let position = (case fc_position_quantity f of Some q \<Rightarrow> q
         | None \<Rightarrow> (case mv_filled_quantity mv of Some q \<Rightarrow> q | None \<Rightarrow> tw_filled_quantity tr)) in
     let key = fact_key C public_type lifecycle f position in
     bindp (ask_clock) (\<lambda>now.
     bindp (gets en_telemetry) (\<lambda>telemetry.
     bindp (ask_fact (tw_trade_id tr) key) (\<lambda>stored.
     ask_moved (Transition (tw_trade_id tr) target journal_type key
       (case stored of Some e \<Rightarrow> Replay_Event e
        | None \<Rightarrow> Build_Event (fact_event C d (owner_of_row tr) public_type lifecycle f position (instant_ms now) telemetry))
       mv)))))"

definition create_trade_with_event ::
  "engine_config \<Rightarrow> risk_decision \<Rightarrow> new_trade \<Rightarrow> (trade_row \<times> trade_event \<times> bool) p_prog" where
  "create_trade_with_event C d nt = (bindp (ask_trade (nt_trade_id nt)) (\<lambda>existed.
     let key = fact_key C DECISION_RECEIVED RECEIVED no_fact fzero in
     bindp (ask_clock) (\<lambda>now.
     bindp (gets en_telemetry) (\<lambda>telemetry.
     bindp ((if existed = None then Ret None else ask_fact (nt_trade_id nt) key)) (\<lambda>stored.
     bindp (ask_moved (Create_With_Event nt key (case stored of Some e \<Rightarrow> Replay_Event e
        | None \<Rightarrow> Build_Event (fact_event C d (owner_of_new nt) DECISION_RECEIVED RECEIVED no_fact fzero
            (instant_ms now) telemetry)))) (\<lambda>(tr, e).
     Ret (tr, e, existed = None)))))))"

section \<open>Health and the mutation budget\<close>

definition record_runtime_health :: "engine_config \<Rightarrow> obj \<Rightarrow> int \<Rightarrow> unit p_prog" where
  "record_runtime_health C h reserve = (bindp (liftp (remote_scope C)) (\<lambda>k.
     bindp (ask_clock) (\<lambda>now.
     bindp (liftp (telemetry_integer h ''auth_age_ms'')) (\<lambda>age.
     bindp (liftp (if field h ''auth_expires_in_ms'' = JNull then Inr None
        else rbind (nonnegative_integer (field h ''auth_expires_in_ms'')) (\<lambda>n. Inr (Some n)))) (\<lambda>expires.
     bindp (liftp (case map_of h ''venue_rate_limit_observable'' of Some v \<Rightarrow> Inr (truthy v)
        | None \<Rightarrow> raise KeyError (repr_string ''venue_rate_limit_observable''))) (\<lambda>observable.
     bindp (liftp (if field h ''venue_rate_limit_reserve'' = JNull then Inr None
        else rbind (nonnegative_integer (field h ''venue_rate_limit_reserve'')) (\<lambda>n. Inr (Some n)))) (\<lambda>venue_reserve.
     ask_p (Record_Health k
       [(''observed_at'', JInt now), (''auth_age_ms'', JInt age),
        (''auth_expires_in_ms'', case expires of Some n \<Rightarrow> JInt n | None \<Rightarrow> JNull),
        (''local_mutation_reserve'', JInt reserve), (''local_mutation_capacity'', JInt 30),
        (''local_mutation_compensation_reserve'', JInt 4), (''local_mutation_window_ms'', JInt 60000),
        (''venue_rate_limit_observable'', JBool observable),
        (''venue_rate_limit_reserve'', case venue_reserve of Some n \<Rightarrow> JInt n | None \<Rightarrow> JNull)]))))))))"

definition observe_health :: "engine_config \<Rightarrow> obj \<Rightarrow> bool \<Rightarrow> unit p_prog" where
  "observe_health C h require_entry = (bindp (liftp (accept_health h)) (\<lambda>telemetry.
     bindp (modify (\<lambda>s. s \<lparr> en_telemetry := telemetry \<rparr>)) (\<lambda>_.
     bindp (liftp (if require_entry then entry_headroom h else Inr ())) (\<lambda>_.
     bindp (modify (\<lambda>s. s \<lparr> en_sidecar_health := h \<rparr>)) (\<lambda>_.
     bindp (liftp (remote_scope C)) (\<lambda>k.
     bindp (ask_health k) (\<lambda>previous.
     record_runtime_health C h (case previous of None \<Rightarrow> 30 | Some n \<Rightarrow> n))))))))"

definition add_telemetry :: "(string \<times> string) list \<Rightarrow> engine_state \<Rightarrow> engine_state" where
  "add_telemetry kvs s = s \<lparr> en_telemetry := foldl (\<lambda>d (k, v). dict_set k v d) (en_telemetry s) kvs \<rparr>"

definition reserve_mutation :: "engine_config \<Rightarrow> string \<Rightarrow> string \<Rightarrow> bool \<Rightarrow> bool \<Rightarrow> unit p_prog" where
  "reserve_mutation C eid operation compensation headroom = (bindp (liftp (remote_scope C)) (\<lambda>k.
     bindp (ask_reserve k eid operation compensation) (\<lambda>r.
     bindp (modify (add_telemetry [(''evedex_durable_mutation_reserve'', int_text (rs_remaining r)),
       (''evedex_durable_mutation_capacity'', ''30''), (''evedex_durable_mutation_window_ms'', ''60000''),
       (''evedex_durable_mutation_compensation_reserve'', ''4'')])) (\<lambda>_.
     bindp (gets en_sidecar_health) (\<lambda>h.
     bindp ((if h = [] then Ret () else record_runtime_health C h (rs_remaining r))) (\<lambda>_.
     checkp
       [(\<not> rs_replay r, unsafe ''durable mutation reservation already exists; venue state must be reconciled''),
        (rs_granted r, unsafe ''durable EVEDEX mutation budget is exhausted''),
        (\<not> (headroom \<and> rs_remaining r < 6),
           unsafe ''durable mutation budget cannot fund mandatory STOP/TARGET plus compensation'')]))))))"

section \<open>The entry effect\<close>

definition check_operator_entry :: "engine_config \<Rightarrow> risk_decision \<Rightarrow> string \<Rightarrow> unit p_prog" where
  "check_operator_entry C d eid = (case ec_canary_scope C of
       None \<Rightarrow> unsafep ''operator admission requires independent valid scope''
     | Some sc \<Rightarrow> catchp (ask_p (Check_Entry d sc eid)) (\<lambda>e.
         if exn_kind e = OtherError ''OperatorControlRefused''
         then unsafep ''durable operator control refused this new PAPER entry'' else Fail e))"

definition canary_entry_admission :: "engine_config \<Rightarrow> json res" where
  "canary_entry_admission C = (case ec_canary_scope C of Some sc \<Rightarrow> Inr sc
     | None \<Rightarrow> Inl (unsafe (''new canary entries require an independent valid scope ('' @ ec_canary_scope_error C @ '')'')))"

definition bind_canary_entry :: "engine_config \<Rightarrow> risk_decision \<Rightarrow> string \<Rightarrow> unit p_prog" where
  "bind_canary_entry C d eid = (bindp (liftp (canary_entry_admission C)) (\<lambda>sc.
     ask_p (Bind_Entry d sc eid)))"

definition entry_dispatch_guard :: "engine_config \<Rightarrow> risk_decision \<Rightarrow> string \<Rightarrow> 'a p_prog \<Rightarrow> 'a p_prog" where
  "entry_dispatch_guard C d eid body = (bindp (liftp (canary_entry_admission C)) (\<lambda>sc.
     with_lock (Operator_Dispatch d sc eid) (with_lock (Canary_Dispatch d sc eid) (
       (bindp (check_operator_entry C d eid) (\<lambda>_.
     body))))))"

definition assert_entry_admission :: "engine_config \<Rightarrow> trade_row \<Rightarrow> unit p_prog" where
  "assert_entry_admission C tr = (bindp (ask_flag (Entries_Allowed (local_scope C))) (\<lambda>allowed.
     bindp (checkp [(allowed, unsafe ''durable account recovery revoked entry authority'')]) (\<lambda>_.
     bindp (ask_object Preflight) (\<lambda>h.
     bindp (observe_health C h True) (\<lambda>_.
     bindp (ask_object Fetch_State) (\<lambda>venue.
     bindp (ask_rows (Recovery_Trades (ls_environment (ec_scope C)) (ls_account_id (ec_scope C)))) (\<lambda>durable.
     bindp (liftp (authoritative_account_blockers C venue durable (Some (tw_trade_id tr)))) (\<lambda>blockers.
     bindp (liftp (decision_for_trade C tr)) (\<lambda>d.
     bindp (liftp (assert_canary_instrument C d venue)) (\<lambda>telemetry.
     bindp (modify (add_telemetry telemetry)) (\<lambda>_.
     let all = blockers @ (if list_ex (\<lambda>t. tw_trade_id t \<noteq> tw_trade_id tr) durable
         then [''PAPER canary permits only one nonterminal trade globally''] else []) in
     checkp [(all = [], unsafe (''entry admission is not clean: '' @ join ''; '' all))])))))))))))"

definition effect_spec_of ::
  "engine_config \<Rightarrow> trade_row \<Rightarrow> string \<Rightarrow> effect_type \<Rightarrow> string \<Rightarrow> order_role \<Rightarrow> obj \<Rightarrow> effect_spec" where
  "effect_spec_of C tr eid typ cid role request = \<lparr> es_key = eid, es_type = typ, es_exchange = ec_adapter_name C,
     es_symbol = tw_symbol tr, es_client_order_id = cid, es_request = request, es_environment = tw_environment tr,
     es_account_id = tw_account_id tr, es_trade_id = tw_trade_id tr, es_order_role = role_text role \<rparr>"

definition entry_request :: "risk_decision \<Rightarrow> trade_row \<Rightarrow> string \<Rightarrow> obj" where
  "entry_request d tr cid =
     [(''trade_id'', JStr (tw_trade_id tr)), (''intent_id'', JStr (tw_intent_id tr)), (''client_order_id'', JStr cid),
      (''venue_symbol'', JStr (rd_venue_symbol d)), (''side'', JStr (tw_side tr)),
      (''quantity_hex'', JStr (float_hex (rd_quantity d))), (''limit_price_hex'', JStr (float_hex (rd_worst_entry_price d))),
      (''leverage_hex'', JStr (float_hex (rd_leverage d)))]"

definition prepare_entry_effect ::
  "engine_config \<Rightarrow> risk_decision \<Rightarrow> trade_row \<Rightarrow> string \<Rightarrow> string \<Rightarrow> preparation p_prog" where
  "prepare_entry_effect C d tr eid cid = (bindp (check_operator_entry C d eid) (\<lambda>_.
     bindp (bind_canary_entry C d eid) (\<lambda>_.
     bindp (ask_clock) (\<lambda>now.
     bindp (liftp (assert_fresh_market d (instant_ms now))) (\<lambda>_.
     bindp (assert_entry_admission C tr) (\<lambda>_.
     ask_prepared (effect_spec_of C tr eid PLACE_ORDER cid ENTRY (entry_request d tr cid))))))))"

text \<open>The placement itself: everything that is checked again between the durable row and the venue.\<close>

definition place_entry :: "engine_config \<Rightarrow> risk_decision \<Rightarrow> trade_row \<Rightarrow> string \<Rightarrow> string \<Rightarrow> obj p_prog" where
  "place_entry C d tr eid cid = (bindp (ask_flag (Entries_Allowed (local_scope C))) (\<lambda>allowed.
     bindp (checkp [(allowed, unsafe ''durable account recovery revoked entry authority'')]) (\<lambda>_.
     bindp (assert_entry_admission C tr) (\<lambda>_.
     bindp (ask_object (Fetch_Depth (tw_symbol tr))) (\<lambda>depth.
     bindp (ask_clock) (\<lambda>now.
     bindp (liftp (assert_live_book d depth (instant_ms now))) (\<lambda>telemetry.
     bindp (modify (add_telemetry telemetry)) (\<lambda>_.
     bindp (ask_clock) (\<lambda>now'.
     bindp (liftp (assert_fresh_market d (instant_ms now'))) (\<lambda>_.
     bindp (check_operator_entry C d eid) (\<lambda>_.
     bindp (reserve_mutation C eid ''place_limit'' False True) (\<lambda>_.
     entry_dispatch_guard C d eid ((bindp (ask_object (Mutate (Place_Limit eid cid (tw_symbol tr) (order_side_of d) (rd_quantity d)
         (rd_worst_entry_price d) (rd_leverage d)))) (\<lambda>response.
     bindp (liftp (validate_entry_response response d cid)) (\<lambda>k.
     bindp (ask_p (Confirm eid (Some (ak_order_id k)) response)) (\<lambda>_.
     Ret response)))))))))))))))))"

definition entry_effect ::
  "engine_config \<Rightarrow> risk_decision \<Rightarrow> trade_row \<Rightarrow> string \<Rightarrow> string \<Rightarrow> preparation \<Rightarrow> obj p_prog" where
  "entry_effect C d tr eid cid prep = (bindp (checkp [(ef_key (pp_effect prep) = eid, unsafe ''prepared entry effect identity changed before mutation'')]) (\<lambda>_.
     bindp (liftp (cached_effect (pp_effect prep))) (\<lambda>cached.
     (case cached of
        Some r \<Rightarrow> (bindp (liftp (validate_entry_response r d cid)) (\<lambda>_.
     Ret r))
      | None \<Rightarrow> (bindp (checkp [(pp_created prep, unsafe ''prepared entry requires authoritative recovery'')]) (\<lambda>_.
     place_entry C d tr eid cid))))))"

section \<open>Protection, closing and cancelling\<close>

text \<open>The shape of every other effect: a durable row first, its cached answer if it has one, then the
  budget, the venue and the confirmation.\<close>

definition effect_once ::
  "effect_spec \<Rightarrow> string \<Rightarrow> (obj \<Rightarrow> unit res) \<Rightarrow> unit p_prog \<Rightarrow> obj p_prog \<Rightarrow> (obj \<Rightarrow> string res) \<Rightarrow> obj p_prog" where
  "effect_once spec refusal validate reserve send exchange_id = (bindp (ask_prepared spec) (\<lambda>prep.
     bindp (liftp (cached_effect (pp_effect prep))) (\<lambda>cached.
     (case cached of
        Some r \<Rightarrow> (bindp (liftp (validate r)) (\<lambda>_.
     Ret r))
      | None \<Rightarrow> (bindp (checkp [(pp_created prep, unsafe refusal)]) (\<lambda>_.
     bindp (reserve) (\<lambda>_.
     bindp (send) (\<lambda>response.
     bindp (liftp (exchange_id response)) (\<lambda>xid.
     bindp (ask_p (Confirm (es_key spec) (Some xid) response)) (\<lambda>_.
     Ret response))))))))))"

definition tpsl_type_text :: "order_role \<Rightarrow> string" where
  "tpsl_type_text role = (if role = STOP_LOSS then ''STOP_LOSS'' else ''TAKE_PROFIT'')"

text \<open>\<^verbatim>\<open>OrderSide(text)\<close>.\<close>

definition order_side_enum :: "string \<Rightarrow> v_side res" where
  "order_side_enum s = (if s = ''BUY'' then Inr V_BUY else if s = ''SELL'' then Inr V_SELL
     else raise ValueError (repr_string s @ '' is not a valid OrderSide''))"

definition tpsl_effect :: "engine_config \<Rightarrow> trade_row \<Rightarrow> string \<Rightarrow> string \<Rightarrow> order_role \<Rightarrow> f64 \<Rightarrow> obj p_prog" where
  "tpsl_effect C tr eid cid role price = (bindp (liftp (symbol_of (ec_scope C) (tw_symbol tr))) (\<lambda>vs.
     let typ = tpsl_type_text role in
     let request = [(''trade_id'', JStr (tw_trade_id tr)), (''client_order_id'', JStr cid),
           (''parent_order_id'', JStr (tw_entry_client_order_id tr)), (''venue_symbol'', JStr vs), (''side'', JStr (tw_side tr)),
           (''tpsl_type'', JStr typ), (''quantity_hex'', JStr (float_hex fzero)), (''price_hex'', JStr (float_hex price))] in
     effect_once
       (effect_spec_of C tr eid (if role = STOP_LOSS then PROTECTIVE_STOP else TAKE_PROFIT_EFFECT) cid role request)
       (''prepared '' @ role_text role @ '' requires authoritative recovery'')
       (\<lambda>_. Inr ())
       (reserve_mutation C eid ''create_tpsl'' False False)
       ((bindp (liftp (order_side_enum (tw_side tr))) (\<lambda>side.
     ask_object (Mutate (Create_Tpsl eid (tw_symbol tr) side typ fzero price (tw_entry_client_order_id tr))))))
       (\<lambda>r. required_text (field r ''id'') ''TP/SL exchange ID'')))"

definition close_effect ::
  "engine_config \<Rightarrow> trade_row \<Rightarrow> string \<Rightarrow> string \<Rightarrow> f64 \<Rightarrow> effect_type \<Rightarrow> order_role \<Rightarrow> f64 \<Rightarrow> obj p_prog" where
  "close_effect C tr eid cid leverage typ role quantity = (bindp (checkp [(isfinite quantity \<and> \<not> fle quantity fzero, unsafe ''close effect quantity must be positive'')]) (\<lambda>_.
     bindp (liftp (symbol_of (ec_scope C) (tw_symbol tr))) (\<lambda>vs.
     let request = [(''trade_id'', JStr (tw_trade_id tr)), (''client_order_id'', JStr cid), (''venue_symbol'', JStr vs),
           (''quantity_hex'', JStr (float_hex quantity)), (''leverage_hex'', JStr (float_hex leverage))] in
     effect_once (effect_spec_of C tr eid typ cid role request) ''prepared close requires authoritative recovery''
       (\<lambda>r. rbind (validate_close_response r cid quantity) (\<lambda>_. Inr ()))
       (reserve_mutation C eid ''close_position'' True False)
       (ask_object (Mutate (Close_Position eid cid (tw_symbol tr) quantity leverage)))
       (\<lambda>r. rbind (validate_close_response r cid quantity) (\<lambda>k. Inr (ak_order_id k))))))"

definition cancel_entry_effect :: "engine_config \<Rightarrow> trade_row \<Rightarrow> obj p_prog" where
  "cancel_entry_effect C tr = (let eid = effect_id C (tw_trade_id tr) ENTRY ''cancel'' in
     bindp (liftp (symbol_of (ec_scope C) (tw_symbol tr))) (\<lambda>vs.
     let request = [(''trade_id'', JStr (tw_trade_id tr)), (''client_order_id'', JStr (tw_entry_client_order_id tr)),
           (''venue_symbol'', JStr vs)] in
     effect_once (effect_spec_of C tr eid CANCEL_ORDER (tw_entry_client_order_id tr) ENTRY request)
       ''prepared entry cancel requires authoritative recovery''
       (\<lambda>_. Inr ())
       (reserve_mutation C eid ''cancel_order'' True False)
       (ask_object (Mutate (Cancel_Order eid (tw_symbol tr) (tw_entry_client_order_id tr))))
       (\<lambda>_. Inr (tw_entry_client_order_id tr))))"

text \<open>The identities under which the protection of one role may be known.\<close>

definition tpsl_plan_of :: "trade_row \<Rightarrow> string \<Rightarrow> order_role \<Rightarrow> tpsl_plan" where
  "tpsl_plan_of tr vs role = \<lparr> tp_venue_symbol = vs, tp_side = tw_side tr, tp_type = tpsl_type_text role,
     tp_price = (if role = STOP_LOSS then tw_stop_price tr else tw_target_price tr),
     tp_parent = tw_entry_client_order_id tr \<rparr>"

definition response_id :: "effect_row option \<Rightarrow> string option" where
  "response_id e = (case e of None \<Rightarrow> None | Some r \<Rightarrow> (case ef_response r of None \<Rightarrow> None
     | Some p \<Rightarrow> (let v = field p ''id'' in if v \<noteq> JNull \<and> strip (py_str v) \<noteq> [] then Some (py_str v) else None)))"

definition effect_lineage :: "trade_row \<Rightarrow> order_role \<Rightarrow> effect_row option \<Rightarrow> unit res" where
  "effect_lineage tr role e = (case e of None \<Rightarrow> Inr () | Some r \<Rightarrow>
     chk (ef_trade_id r = Some (tw_trade_id tr) \<and> ef_account_id r = tw_account_id tr
          \<and> ef_environment r = tw_environment tr \<and> ef_order_role r = Some (role_text role))
       ''TP/SL effect lineage is inconsistent'')"

definition cancel_tpsl_once :: "engine_config \<Rightarrow> trade_row \<Rightarrow> order_role \<Rightarrow> string \<Rightarrow> string \<Rightarrow> string \<Rightarrow> unit p_prog" where
  "cancel_tpsl_once C tr role vs cid tid = (let eid = effect_id C (tw_trade_id tr) role ''cancel'' in
     let request = [(''trade_id'', JStr (tw_trade_id tr)), (''client_order_id'', JStr cid), (''tpsl_id'', JStr tid),
           (''venue_symbol'', JStr vs)] in
     bindp (ask_prepared (effect_spec_of C tr eid CANCEL_TPSL_EFFECT cid role request)) (\<lambda>prep.
     bindp (liftp (cached_effect (pp_effect prep))) (\<lambda>cached.
     (if cached \<noteq> None then (bindp (ask_object Fetch_State) (\<lambda>verified.
     bindp (liftp (find_tpsl_by_id verified (Some tid))) (\<lambda>record.
     checkp [(\<not> is_live_tpsl record, unsafe ''confirmed TP/SL cancellation remains live authoritatively'')])))
      else (bindp (checkp [(pp_created prep, unsafe ''prepared TP/SL cancel requires recovery'')]) (\<lambda>_.
     bindp (reserve_mutation C eid ''cancel_tpsl'' True False) (\<lambda>_.
     bindp (ask_object (Mutate (Cancel_Tpsl eid (tw_symbol tr) tid))) (\<lambda>response.
     bindp (ask_p (Confirm eid (Some tid) response)) (\<lambda>_.
     bindp (ask_object Fetch_State) (\<lambda>verified.
     bindp (liftp (find_tpsl_by_id verified (Some tid))) (\<lambda>record.
     checkp [(\<not> is_live_tpsl record, unsafe ''TP/SL cancellation did not reconcile to terminal'')])))))))))))"

definition cancel_protection_role ::
  "engine_config \<Rightarrow> trade_row \<Rightarrow> risk_decision \<Rightarrow> obj \<Rightarrow> order_role option \<Rightarrow> order_role \<Rightarrow> unit p_prog" where
  "cancel_protection_role C tr d venue completed role = (bindp (ask_effect (effect_id C (tw_trade_id tr) role ''create'')) (\<lambda>created0.
     bindp (liftp (effect_lineage tr role created0)) (\<lambda>_.
     let price = (if role = STOP_LOSS then tw_stop_price tr else tw_target_price tr) in
     let persisted = (if role = STOP_LOSS then tw_stop_exchange_order_id tr else tw_target_exchange_order_id tr) in
     let persisted_client = (if role = STOP_LOSS then tw_stop_client_order_id tr else tw_target_client_order_id tr) in
     bindp (liftp (find_tpsl venue (tpsl_type_text role) price (tw_entry_client_order_id tr))) (\<lambda>geometry.
     bindp (liftp (case geometry of None \<Rightarrow> Inr None | Some g \<Rightarrow>
        rbind (symbol_of (ec_scope C) (tw_symbol tr)) (\<lambda>vs.
        rbind (validate_tpsl g (tpsl_plan_of tr vs role) False True) (\<lambda>_.
        rbind (required_text (field g ''id'') ''TP/SL exchange ID'') (\<lambda>i. Inr (Some i)))))) (\<lambda>geometry_id.
     bindp ((case (created0, geometry) of
         (Some e, Some g) \<Rightarrow> if ef_status e \<in> {EFF_PREPARED, EFF_FAILED} then ask_reconcile (ef_key e) geometry_id g
                             else Ret created0
       | _ \<Rightarrow> Ret created0)) (\<lambda>created.
     let candidates = remdups (concat (map (\<lambda>x. case x of Some i \<Rightarrow> [i] | None \<Rightarrow> [])
         [persisted, (case created of Some e \<Rightarrow> ef_exchange_effect_id e | None \<Rightarrow> None), response_id created0, geometry_id])) in
     bindp (checkp [(length candidates \<le> 1, unsafe ''TP/SL cleanup found conflicting exchange identities'')]) (\<lambda>_.
     (if candidates = [] then
        checkp [(created = None, unsafe ''TP/SL create outcome is ambiguous and cancellation cannot be proven'')]
      else (let tid = hd candidates in
     bindp (liftp (find_tpsl_by_id venue (Some tid))) (\<lambda>record.
     bindp (liftp (case record of None \<Rightarrow> Inr ()
          | Some r \<Rightarrow> rbind (symbol_of (ec_scope C) (tw_symbol tr)) (\<lambda>vs.
              validate_tpsl r (tpsl_plan_of tr vs role) False
                (case created of None \<Rightarrow> True | Some e \<Rightarrow> ef_status e \<in> {EFF_PREPARED, EFF_FAILED})))) (\<lambda>_.
     (if record \<noteq> None \<and> \<not> is_live_tpsl record
            \<or> record = None \<and> completed = Some role
            \<or> record = None \<and> (case created of Some e \<Rightarrow> ef_status e = EFF_RECONCILED | None \<Rightarrow> False) then Ret ()
         else (let known = (case persisted_client of Some i \<Rightarrow> (if i = [] then None else Some i) | None \<Rightarrow> None) in
     let known' = (case known of Some i \<Rightarrow> Some i | None \<Rightarrow> (case created of Some e \<Rightarrow> ef_client_order_id e | None \<Rightarrow> None)) in
     bindp (liftp (case known' of Some i \<Rightarrow> Inr i | None \<Rightarrow> client_id (tw_trade_id tr) role (rd_decided_at_ms d))) (\<lambda>cid.
     bindp (liftp (symbol_of (ec_scope C) (tw_symbol tr))) (\<lambda>vs.
     cancel_tpsl_once C tr role vs cid tid)))))))))))))))"

definition cancel_remaining_protection :: "engine_config \<Rightarrow> trade_row \<Rightarrow> order_role option \<Rightarrow> unit p_prog" where
  "cancel_remaining_protection C tr completed = (bindp (ask_object Fetch_State) (\<lambda>venue.
     bindp (liftp (decision_for_trade C tr)) (\<lambda>d.
     bindp (cancel_protection_role C tr d venue completed STOP_LOSS) (\<lambda>_.
     cancel_protection_role C tr d venue completed TAKE_PROFIT))))"

section \<open>Reaching flat\<close>

definition recover_terminal_public_fact :: "trade_row \<Rightarrow> trade_event list p_prog" where
  "recover_terminal_public_fact tr = (bindp (ask_facts (tw_trade_id tr)) (\<lambda>facts.
     (if tw_state tr = LIFE_CANCELLED then
        (if list_ex (\<lambda>f. te_type f = ENTRY_CANCELLED \<and> te_state f = LIFE_CANCELLED) facts then Ret []
         else unsafep ''terminal CANCELLED trade lacks its atomic public lifecycle fact'')
      else if tw_state tr \<noteq> LIFE_FLAT then Ret []
      else if list_ex (\<lambda>f. te_state f = LIFE_FLAT \<and> te_type f \<in> {EXIT_FILLED, EMERGENCY_CLOSE}) facts then Ret []
      else unsafep ''terminal FLAT trade lacks its atomic public lifecycle fact'')))"

definition close_record :: "obj option \<Rightarrow> obj option \<Rightarrow> obj option \<Rightarrow> obj option" where
  "close_record historical response stored =
     (case historical of Some d \<Rightarrow> (if d \<noteq> [] then Some d else case response of Some r \<Rightarrow> (if r \<noteq> [] then Some r else stored) | None \<Rightarrow> stored)
      | None \<Rightarrow> (case response of Some r \<Rightarrow> (if r \<noteq> [] then Some r else stored) | None \<Rightarrow> stored))"

definition assert_manual_close_won :: "engine_config \<Rightarrow> trade_row \<Rightarrow> order_role \<Rightarrow> obj option \<Rightarrow> unit p_prog" where
  "assert_manual_close_won C tr role response = (bindp (ask_effect (effect_id C (tw_trade_id tr) role ''close'')) (\<lambda>eff.
     bindp (liftp (case eff of Some e \<Rightarrow> Inr e | None \<Rightarrow> Inl (unsafe ''flat position lacks a durable close effect''))) (\<lambda>e.
     bindp (liftp (rbind (required_text (field (ef_request e) ''quantity_hex'') ''close quantity'') float_fromhex)) (\<lambda>requested.
     bindp (liftp (required_opt (tw_close_client_order_id tr) ''durable close client order ID'')) (\<lambda>cid.
     bindp (ask_object Fetch_State) (\<lambda>venue.
     bindp (liftp (find_historical_order venue cid)) (\<lambda>historical.
     bindp (liftp (case close_record historical response (ef_response e) of Some r \<Rightarrow> Inr r
        | None \<Rightarrow> Inl (unsafe ''flat position lacks exact close-order fill proof''))) (\<lambda>record.
     bindp (liftp (validate_close_response record cid requested)) (\<lambda>k.
     bindp (checkp [(ak_status k = ''FILLED'' \<and> close_to (tolerance requested) (ak_filled k) requested,
       unsafe ''manual close did not authoritatively fill its full quantity'')]) (\<lambda>_.
     bindp (liftp (proven_venue_trigger (ec_scope C) tr venue [])) (\<lambda>triggered.
     checkp [(triggered = None, unsafe ''manual close and TP/SL have competing terminal venue evidence'')])))))))))))"

text \<open>The client identifier of the exit: the protection's own, or the durable one of a close.\<close>

definition exit_client_id :: "trade_row \<Rightarrow> order_role \<Rightarrow> string res" where
  "exit_client_id tr role =
     (case (if role = STOP_LOSS then tw_stop_client_order_id tr else if role = TAKE_PROFIT then tw_target_client_order_id tr
            else tw_close_client_order_id tr) of
        Some i \<Rightarrow> if role \<in> {STOP_LOSS, TAKE_PROFIT} then Inr i else required_opt (Some i) ''durable close client order ID''
      | None \<Rightarrow> if role \<in> {STOP_LOSS, TAKE_PROFIT} then Inl (unsafe ''exit role lacks deterministic client lineage'')
          else required_opt None ''durable close client order ID'')"

definition finish_venue_exit ::
  "engine_config \<Rightarrow> risk_decision \<Rightarrow> trade_row \<Rightarrow> order_role \<Rightarrow> exit_reason \<Rightarrow> obj option \<Rightarrow> venue_exit option
   \<Rightarrow> obj list \<Rightarrow> trade_event list p_prog" where
  "finish_venue_exit C d tr role reason response attribution0 sidecar_events = (bindp (liftp (exit_client_id tr role)) (\<lambda>cid.
     bindp ((if role \<in> {TIMEOUT_EXIT, EMERGENCY_EXIT} then assert_manual_close_won C tr role response else Ret ())) (\<lambda>_.
     bindp ((if role \<notin> {STOP_LOSS, TAKE_PROFIT} then Ret attribution0 else
        (case attribution0 of Some a \<Rightarrow> Ret (Some a)
         | None \<Rightarrow> (bindp (ask_object Fetch_State) (\<lambda>venue.
     bindp (liftp (classify_flat_exit (ec_scope C) tr venue sidecar_events)) (\<lambda>a.
     Ret (Some a))))))) (\<lambda>attribution.
     bindp (checkp [(role \<notin> {STOP_LOSS, TAKE_PROFIT} \<or> (case attribution of Some a \<Rightarrow> vx_role a = role \<and> vx_reason a = reason | None \<Rightarrow> False),
       unsafe ''durable exit role differs from authoritative trigger'')]) (\<lambda>_.
     let resp = (if role \<in> {STOP_LOSS, TAKE_PROFIT} then map_option vx_trigger_order attribution else response) in
     let xid = (case attribution of Some a \<Rightarrow> (if role \<in> {STOP_LOSS, TAKE_PROFIT} then vx_trigger_order_id a
            else field_text (case response of Some r \<Rightarrow> r | None \<Rightarrow> []) ''id'' cid)
          | None \<Rightarrow> field_text (case response of Some r \<Rightarrow> r | None \<Rightarrow> []) ''id'' cid) in
     bindp (cancel_remaining_protection C tr (if role \<in> {STOP_LOSS, TAKE_PROFIT} then Some role else None)) (\<lambda>_.
     (if tw_state tr = LIFE_FLAT then (bindp (recover_terminal_public_fact tr) (\<lambda>_.
     Ret [])) else (bindp (liftp (case attribution of Some a \<Rightarrow> Inr (Some (vx_average a))
          | None \<Rightarrow> positive_optional (field (case resp of Some r \<Rightarrow> r | None \<Rightarrow> []) ''filledAvgPrice''))) (\<lambda>avg.
     bindp (liftp (case attribution of Some a \<Rightarrow> Inr (vx_fee a)
          | None \<Rightarrow> order_fee_usd (case resp of Some r \<Rightarrow> r | None \<Rightarrow> []) False)) (\<lambda>fee.
     bindp (transition_with_event C d tr LIFE_FLAT (reason_text reason @ ''_EXIT_RECONCILED_FLAT'')
         (if reason = EXIT_EMERGENCY then EMERGENCY_CLOSE else EXIT_FILLED) LIFE_FLAT
         (no_move \<lparr> mv_close_client_order_id := Some cid, mv_close_exchange_order_id := Some xid \<rparr>)
         (no_fact \<lparr> fc_role := Some role, fc_client_order_id := Some cid, fc_exchange_order_id := Some xid,
            fc_requested_quantity := tw_filled_quantity tr, fc_filled_quantity := tw_filled_quantity tr,
            fc_position_quantity := Some fzero, fc_average_price := avg, fc_fee_usd := fee, fc_exit_reason := Some reason,
            fc_details := (case attribution of None \<Rightarrow> [] | Some a \<Rightarrow> [(''evedex_protection_id'', vx_protection_id a)]) \<rparr>)) (\<lambda>(tr', completed).
     Ret [completed])))))))))))"

definition fill_fact_type :: "f64 \<Rightarrow> f64 \<Rightarrow> fact_type" where
  "fill_fact_type filled requested = (if close_to fzero filled requested then ENTRY_FILLED else ENTRY_PARTIAL_FILL)"

definition cancel_entry_and_measure ::
  "engine_config \<Rightarrow> risk_decision \<Rightarrow> trade_row \<Rightarrow> (trade_row \<times> f64 \<times> trade_event list) p_prog" where
  "cancel_entry_and_measure C d tr = (bindp (ask_object Fetch_State) (\<lambda>venue0.
     bindp (liftp (find_order venue0 (Some (tw_entry_client_order_id tr)))) (\<lambda>open_entry.
     bindp ((if open_entry = None then Ret venue0 else (bindp (cancel_entry_effect C tr) (\<lambda>_.
     bindp (ask_object Fetch_State) (\<lambda>venue1.
     bindp (liftp (find_order venue1 (Some (tw_entry_client_order_id tr)))) (\<lambda>still.
     bindp (checkp [(still = None, unsafe ''entry remainder remains open before position close'')]) (\<lambda>_.
     Ret venue1))))))) (\<lambda>venue.
     bindp (liftp (position_for_trade (ec_scope C) venue tr)) (\<lambda>quantity.
     let tol = tolerance (tw_quantity tr) in
     (if flt (fadd (tw_filled_quantity tr) tol) quantity \<and> fle quantity (fadd (tw_quantity tr) tol)
         \<and> tw_state tr \<in> {PROTECTING, ACTIVE} then (bindp (transition_with_event C d tr (tw_state tr) ''CUMULATIVE_FILL_RECONCILED_BEFORE_CLOSE''
          (fill_fact_type quantity (tw_quantity tr)) (tw_state tr)
          (no_move \<lparr> mv_payload := Some [(''position_quantity_hex'', JStr (float_hex quantity))],
             mv_filled_quantity := Some (fmin quantity (tw_quantity tr)) \<rparr>)
          (no_fact \<lparr> fc_role := Some ENTRY, fc_client_order_id := Some (tw_entry_client_order_id tr),
             fc_exchange_order_id := tw_entry_exchange_order_id tr, fc_requested_quantity := tw_quantity tr,
             fc_filled_quantity := fmin quantity (tw_quantity tr), fc_position_quantity := Some quantity,
             fc_details := [(''reason'', ''cumulative_fill_reconciled_before_close'')] \<rparr>)) (\<lambda>(tr', e).
     Ret (tr', quantity, [e])))
      else Ret (tr, quantity, [])))))))"

definition fresh_close_client_id :: "string \<Rightarrow> order_role \<Rightarrow> string p_prog" where
  "fresh_close_client_id tid role = (bindp (ask_clock) (\<lambda>now.
     liftp (client_id tid role (instant_ms now))))"

text \<open>After a close: \<open>True\<close> when the venue still shows the position or the entry order.\<close>

definition not_flat :: "engine_config \<Rightarrow> trade_row \<Rightarrow> obj \<Rightarrow> bool res" where
  "not_flat C tr venue = rbind (position_quantity (ec_scope C) venue (tw_symbol tr)) (\<lambda>q.
     if flt fzero q then Inr True
     else rbind (find_order venue (Some (tw_entry_client_order_id tr))) (\<lambda>e. Inr (e \<noteq> None)))"

definition emergency_trigger ::
  "engine_config \<Rightarrow> risk_decision \<Rightarrow> trade_row \<Rightarrow> f64 \<Rightarrow> string \<Rightarrow> (trade_row \<times> trade_event list) p_prog" where
  "emergency_trigger C d tr quantity reason =
     (if tw_state tr = EXITING_EMERGENCY then Ret (tr, []) else (bindp (fresh_close_client_id (tw_trade_id tr) EMERGENCY_EXIT) (\<lambda>cid.
     bindp (transition_with_event C d tr EXITING_EMERGENCY ''EMERGENCY_CLOSE_REQUIRED'' EXIT_TRIGGERED EXITING_EMERGENCY
          (no_move \<lparr> mv_payload := Some [(''reason'', JStr reason)], mv_close_client_order_id := Some cid \<rparr>)
          (no_fact \<lparr> fc_effect_id := Some (effect_id C (tw_trade_id tr) EMERGENCY_EXIT ''close''),
             fc_role := Some EMERGENCY_EXIT, fc_client_order_id := Some cid, fc_requested_quantity := quantity,
             fc_exit_reason := Some EXIT_EMERGENCY, fc_details := [(''reason'', reason)] \<rparr>)) (\<lambda>(tr', e).
     Ret (tr', [e])))))"

definition emergency_close :: "engine_config \<Rightarrow> risk_decision \<Rightarrow> trade_row \<Rightarrow> string \<Rightarrow> trade_event list p_prog" where
  "emergency_close C d tr0 reason = (bindp (cancel_entry_and_measure C d tr0) (\<lambda>(tr1, quantity, events0).
     bindp (emergency_trigger C d tr1 quantity reason) (\<lambda>(tr, triggered).
     bindp (liftp (required_opt (tw_close_client_order_id tr) ''durable emergency close client ID'')) (\<lambda>cid.
     let eid = effect_id C (tw_trade_id tr) EMERGENCY_EXIT ''close'' in
     bindp ((if flt fzero quantity
        then close_effect C tr eid cid (rd_leverage d) EMERGENCY_CLOSE_EFFECT EMERGENCY_EXIT quantity else Ret [])) (\<lambda>response.
     bindp (ask_object Fetch_State) (\<lambda>venue.
     bindp (liftp (not_flat C tr venue)) (\<lambda>exposed.
     let xid = field_text response ''id'' cid in
     let mv = no_move \<lparr> mv_close_client_order_id := Some cid, mv_close_exchange_order_id := Some xid \<rparr> in
     let base = no_fact \<lparr> fc_effect_id := (if flt fzero quantity then Some eid else None), fc_role := Some EMERGENCY_EXIT,
         fc_client_order_id := Some cid, fc_exchange_order_id := Some xid, fc_requested_quantity := quantity,
         fc_exit_reason := Some EXIT_EMERGENCY, fc_details := [(''reason'', reason)] \<rparr> in
     (if exposed then (bindp (liftp (position_quantity (ec_scope C) venue (tw_symbol tr))) (\<lambda>position.
     bindp (transition_with_event C d tr FAILED_BLOCKED ''EMERGENCY_CLOSE_NOT_FLAT'' FACT_FAILED FAILED_BLOCKED
          (mv \<lparr> mv_payload := Some [(''reason'', JStr reason)] \<rparr>) (base \<lparr> fc_position_quantity := Some position \<rparr>)) (\<lambda>_.
     unsafep ''emergency close did not reconcile entry and position to FLAT'')))
      else (bindp ((if flt fzero quantity then assert_manual_close_won C tr EMERGENCY_EXIT (Some response) else Ret ())) (\<lambda>_.
     bindp (cancel_remaining_protection C tr None) (\<lambda>_.
     bindp (transition_with_event C d tr LIFE_FLAT ''EMERGENCY_CLOSE_RECONCILED_FLAT'' EMERGENCY_CLOSE LIFE_FLAT mv
          (base \<lparr> fc_filled_quantity := quantity, fc_position_quantity := Some fzero \<rparr>)) (\<lambda>(tr', closed).
     Ret (events0 @ triggered @ [closed])))))))))))))"

section \<open>Protecting a fill\<close>

text \<open>One leg of \<^verbatim>\<open>_protect\<close>: create, persist the identity, read it back, reconcile. The state after the
  leg is \<open>PROTECTING\<close> for the stop and \<open>ACTIVE\<close> for the target.\<close>

definition leg_move :: "order_role \<Rightarrow> string \<Rightarrow> string \<Rightarrow> move" where
  "leg_move role cid xid = (if role = STOP_LOSS
     then no_move \<lparr> mv_stop_client_order_id := Some cid, mv_stop_exchange_order_id := Some xid \<rparr>
     else no_move \<lparr> mv_target_client_order_id := Some cid, mv_target_exchange_order_id := Some xid \<rparr>)"

definition leg_fact :: "trade_row \<Rightarrow> order_role \<Rightarrow> string \<Rightarrow> string \<Rightarrow> string \<Rightarrow> fact" where
  "leg_fact tr role eid cid xid = no_fact \<lparr> fc_effect_id := Some eid, fc_role := Some role, fc_client_order_id := Some cid,
     fc_exchange_order_id := Some xid, fc_requested_quantity := tw_filled_quantity tr,
     fc_position_quantity := Some (tw_filled_quantity tr) \<rparr>"

definition leg_confirm ::
  "engine_config \<Rightarrow> risk_decision \<Rightarrow> trade_row \<Rightarrow> order_role \<Rightarrow> string \<Rightarrow> (trade_row \<times> string \<times> trade_event) p_prog" where
  "leg_confirm C d tr role cid = (let eid = effect_id C (tw_trade_id tr) role ''create'' in
     let price = (if role = STOP_LOSS then tw_stop_price tr else tw_target_price tr) in
     bindp (tpsl_effect C tr eid cid role price) (\<lambda>created.
     bindp (liftp (required_text (field created ''id'')
        (if role = STOP_LOSS then ''stop exchange ID'' else ''target exchange ID''))) (\<lambda>xid.
     bindp (transition_with_event C d tr PROTECTING
        (if role = STOP_LOSS then ''STOP_EFFECT_CONFIRMED_PENDING_RECONCILIATION''
         else ''TARGET_EFFECT_CONFIRMED_PENDING_RECONCILIATION'')
        (if role = STOP_LOSS then STOP_CREATED else TARGET_CREATED) PROTECTING (leg_move role cid xid)
        ((leg_fact tr role eid cid xid) \<lparr> fc_details := [(''reason'', ''pending_authoritative_reconciliation'')] \<rparr>)) (\<lambda>(tr', e).
     Ret (tr', xid, e)))))"

definition leg_reconcile ::
  "engine_config \<Rightarrow> risk_decision \<Rightarrow> trade_row \<Rightarrow> order_role \<Rightarrow> string \<Rightarrow> string \<Rightarrow> string \<Rightarrow> (trade_row \<times> trade_event) p_prog" where
  "leg_reconcile C d tr role eid cid xid = (let price = (if role = STOP_LOSS then tw_stop_price tr else tw_target_price tr) in
     bindp (ask_maybe (Find_Tpsl (tw_symbol tr) xid (if role = STOP_LOSS then ''stop-loss'' else ''take-profit'') price)) (\<lambda>found.
     bindp (liftp (case found of Some r \<Rightarrow> Inr r
        | None \<Rightarrow> Inl (unsafe (if role = STOP_LOSS then ''created stop was not authoritatively reconciled''
            else ''created target was not authoritatively reconciled'')))) (\<lambda>record.
     bindp (liftp (validate_tpsl record (tpsl_plan_of tr (rd_venue_symbol d) role) True False)) (\<lambda>_.
     bindp (ask_p (Reconcile eid (Some xid) record)) (\<lambda>_.
     transition_with_event C d tr (if role = STOP_LOSS then PROTECTING else ACTIVE)
       (if role = STOP_LOSS then ''STOP_RECONCILED'' else ''TARGET_RECONCILED_POSITION_ACTIVE'')
       (if role = STOP_LOSS then STOP_RECONCILED else TARGET_RECONCILED)
       (if role = STOP_LOSS then PROTECTING else ACTIVE) (leg_move role cid xid) (leg_fact tr role eid cid xid))))))"

text \<open>The leg with the handler of its failure: an exposure that cannot be protected is closed. The
  \<open>Inl\<close> result is the end of \<open>protect\<close>; the row the handler closes is the one last assigned.\<close>

definition protect_leg ::
  "engine_config \<Rightarrow> risk_decision \<Rightarrow> trade_row \<Rightarrow> order_role \<Rightarrow> string
   \<Rightarrow> (trade_event list + trade_row \<times> trade_event list) p_prog" where
  "protect_leg C d tr role cid = (let label = (if role = STOP_LOSS then ''stop failed: '' else ''target failed: '') in
     bindp (attempt (leg_confirm C d tr role cid)) (\<lambda>first.
     (case first of
        Inl e \<Rightarrow> (bindp (emergency_close C d tr (label @ exn_name (exn_kind e))) (\<lambda>es.
     Ret (Inl es)))
      | Inr (tr1, xid, e1) \<Rightarrow> (bindp (attempt (leg_reconcile C d tr1 role (effect_id C (tw_trade_id tr) role ''create'') cid xid)) (\<lambda>second.
     (case second of
             Inl e \<Rightarrow> (bindp (emergency_close C d tr1 (label @ exn_name (exn_kind e))) (\<lambda>es.
     Ret (Inl (e1 # es))))
           | Inr (tr2, e2) \<Rightarrow> Ret (Inr (tr2, [e1, e2]))))))))"

definition protect :: "engine_config \<Rightarrow> risk_decision \<Rightarrow> trade_row \<Rightarrow> trade_event list p_prog" where
  "protect C d tr = (bindp (liftp (client_id (tw_trade_id tr) STOP_LOSS (rd_decided_at_ms d))) (\<lambda>stop_cid.
     bindp (protect_leg C d tr STOP_LOSS stop_cid) (\<lambda>stop.
     (case stop of
        Inl es \<Rightarrow> Ret es
      | Inr (tr1, es1) \<Rightarrow> (bindp (liftp (client_id (tw_trade_id tr1) TAKE_PROFIT (rd_decided_at_ms d))) (\<lambda>target_cid.
     bindp (protect_leg C d tr1 TAKE_PROFIT target_cid) (\<lambda>target.
     (case target of Inl es \<Rightarrow> Ret (es1 @ es) | Inr (tr2, es2) \<Rightarrow> Ret (es1 @ es2)))))))))"

end
