(* ===== verification/Paper_Engine.thy ===== *)
theory Paper_Engine
  imports Paper_Effects
begin

text \<open>
  The lifecycle of \<^verbatim>\<open>kairos_execution/paper_engine.py\<close>: handling a decision, reconciling trades and
  effects against the venue, startup recovery, and the account snapshot. Every public operation runs
  under the lifecycle lock of the process and the account lock of the database.
\<close>

section \<open>Exits\<close>

definition transition_venue_exit ::
  "engine_config \<Rightarrow> risk_decision \<Rightarrow> trade_row \<Rightarrow> venue_exit \<Rightarrow> string option \<Rightarrow> (trade_row \<times> trade_event) p_prog" where
  "transition_venue_exit C d tr x cid = (case cid of
       None \<Rightarrow> unsafep ''triggered TP/SL lacks deterministic client lineage''
     | Some c \<Rightarrow> transition_with_event C d tr (vx_target_state x) (reason_text (vx_reason x) @ ''_TRIGGER_RECONCILED'')
         EXIT_TRIGGERED (vx_target_state x)
         (no_move \<lparr> mv_close_client_order_id := Some c, mv_close_exchange_order_id := Some (vx_trigger_order_id x) \<rparr>)
         (no_fact \<lparr> fc_role := Some (vx_role x), fc_client_order_id := Some c,
            fc_exchange_order_id := Some (vx_trigger_order_id x), fc_requested_quantity := tw_filled_quantity tr,
            fc_filled_quantity := vx_filled x, fc_position_quantity := Some fzero, fc_average_price := Some (vx_average x),
            fc_fee_usd := vx_fee x, fc_exit_reason := Some (vx_reason x),
            fc_details := [(''evedex_protection_id'', vx_protection_id x)] \<rparr>))"

definition resume_close_exit ::
  "engine_config \<Rightarrow> risk_decision \<Rightarrow> trade_row \<Rightarrow> order_role \<Rightarrow> exit_reason \<Rightarrow> trade_event list p_prog" where
  "resume_close_exit C d tr0 role reason = (bindp (cancel_entry_and_measure C d tr0) (\<lambda>(tr, quantity, events).
     (if fle quantity fzero then (bindp (finish_venue_exit C d tr role reason None None []) (\<lambda>es.
     Ret (events @ es))) else (bindp (liftp (required_opt (tw_close_client_order_id tr) ''durable close client order ID'')) (\<lambda>cid.
     let eid = effect_id C (tw_trade_id tr) role ''close'' in
     bindp (close_effect C tr eid cid (rd_leverage d)
          (if role = TIMEOUT_EXIT then TIMEOUT_CLOSE else EMERGENCY_CLOSE_EFFECT) role quantity) (\<lambda>response.
     bindp (ask_object Fetch_State) (\<lambda>venue.
     bindp (liftp (not_flat C tr venue)) (\<lambda>exposed.
     (if exposed then (bindp (liftp (position_quantity (ec_scope C) venue (tw_symbol tr))) (\<lambda>position.
     let xid = field_text response ''id'' cid in
     bindp (transition_with_event C d tr FAILED_BLOCKED (reason_text reason @ ''_CLOSE_NOT_FLAT'') FACT_FAILED
             FAILED_BLOCKED
             (no_move \<lparr> mv_close_client_order_id := Some cid, mv_close_exchange_order_id := Some xid \<rparr>)
             (no_fact \<lparr> fc_effect_id := Some eid, fc_role := Some role, fc_client_order_id := Some cid,
                fc_exchange_order_id := Some xid, fc_requested_quantity := quantity, fc_position_quantity := Some position,
                fc_exit_reason := Some reason,
                fc_details := [(''reason'', casefold (reason_text reason) @ ''_close_not_flat'')] \<rparr>)) (\<lambda>(tr', failed).
     unsafep (reason_text reason @ '' close did not reconcile entry and position to FLAT; failure fact ''
             @ ec_event_id C failed @ '' is durable''))))
         else (bindp (ask_trade (tw_trade_id tr)) (\<lambda>latest.
     (case latest of None \<Rightarrow> unsafep ''trade disappeared during close reconciliation''
            | Some l \<Rightarrow> (bindp (finish_venue_exit C d l role reason (Some response) None []) (\<lambda>es.
     Ret (events @ es)))))))))))))))"

definition timeout_close :: "engine_config \<Rightarrow> risk_decision \<Rightarrow> trade_row \<Rightarrow> trade_event list p_prog" where
  "timeout_close C d tr = (bindp (fresh_close_client_id (tw_trade_id tr) TIMEOUT_EXIT) (\<lambda>cid.
     bindp (transition_with_event C d tr EXITING_TIMEOUT ''TIMEOUT_WON_EXIT_RACE'' EXIT_TRIGGERED EXITING_TIMEOUT
       (no_move \<lparr> mv_close_client_order_id := Some cid \<rparr>)
       (no_fact \<lparr> fc_effect_id := Some (effect_id C (tw_trade_id tr) TIMEOUT_EXIT ''close''), fc_role := Some TIMEOUT_EXIT,
          fc_client_order_id := Some cid, fc_requested_quantity := tw_filled_quantity tr,
          fc_exit_reason := Some EXIT_TIMEOUT \<rparr>)) (\<lambda>(tr', triggered).
     bindp (resume_close_exit C d tr' TIMEOUT_EXIT EXIT_TIMEOUT) (\<lambda>es.
     Ret (triggered # es)))))"

section \<open>Fills\<close>

definition entry_fill_source :: "trade_row \<Rightarrow> obj \<Rightarrow> obj option res" where
  "entry_fill_source tr venue = rbind (find_order venue (Some (tw_entry_client_order_id tr))) (\<lambda>active.
     case active of Some (x # xs) \<Rightarrow> Inr active
     | _ \<Rightarrow> find_historical_order venue (tw_entry_client_order_id tr))"

definition record_cumulative_fill ::
  "engine_config \<Rightarrow> risk_decision \<Rightarrow> trade_row \<Rightarrow> obj \<Rightarrow> f64 \<Rightarrow> (trade_row \<times> trade_event list) p_prog" where
  "record_cumulative_fill C d tr venue quantity = (let tol = tolerance (tw_quantity tr) in
     bindp (checkp [(\<not> flt quantity (fsub (tw_filled_quantity tr) tol),
        unsafe ''position quantity decreased without a uniquely attributable exit'')]) (\<lambda>_.
     (if fle quantity (fadd (tw_filled_quantity tr) tol) then Ret (tr, []) else (bindp (liftp (entry_fill_source tr venue)) (\<lambda>source.
     bindp (liftp (case source of None \<Rightarrow> Inr None
          | Some s \<Rightarrow> rbind (validate_entry_response s d (tw_entry_client_order_id tr)) (\<lambda>k. Inr (ak_average k)))) (\<lambda>avg.
     bindp (liftp (shortfall_details d avg)) (\<lambda>details.
     bindp (transition_with_event C d tr (tw_state tr) ''RECONCILED_CUMULATIVE_ENTRY_FILL''
          (fill_fact_type quantity (tw_quantity tr)) (tw_state tr)
          (no_move \<lparr> mv_payload := Some [(''position_quantity_hex'', JStr (float_hex quantity))],
             mv_filled_quantity := Some quantity \<rparr>)
          (no_fact \<lparr> fc_role := Some ENTRY, fc_client_order_id := Some (tw_entry_client_order_id tr),
             fc_exchange_order_id := tw_entry_exchange_order_id tr, fc_requested_quantity := tw_quantity tr,
             fc_filled_quantity := quantity, fc_position_quantity := Some quantity, fc_average_price := avg,
             fc_details := details \<rparr>)) (\<lambda>(tr', e).
     Ret (tr', [e])))))))))"

section \<open>Effects found after a crash\<close>

definition validate_recovered_entry :: "engine_config \<Rightarrow> effect_row \<Rightarrow> obj \<Rightarrow> unit p_prog" where
  "validate_recovered_entry C e record = (case (ef_trade_id e, ef_client_order_id e) of
       (Some tid, Some cid) \<Rightarrow> (bindp (ask_trade tid) (\<lambda>found.
     bindp (liftp (case found of Some t \<Rightarrow> Inr t | None \<Rightarrow> Inl (unsafe ''entry recovery references a missing durable trade''))) (\<lambda>tr.
     bindp (liftp (decision_for_trade C tr)) (\<lambda>d.
     liftp (rbind (validate_entry_response record d cid) (\<lambda>_. Inr ()))))))
     | _ \<Rightarrow> unsafep ''entry recovery lacks durable trade/order lineage'')"

definition reconcile_entry_effect :: "engine_config \<Rightarrow> effect_row \<Rightarrow> obj \<Rightarrow> unit p_prog" where
  "reconcile_entry_effect C e venue = (bindp (liftp (find_order venue (ef_client_order_id e))) (\<lambda>active.
     bindp (liftp (find_historical_order venue (case ef_client_order_id e of Some c \<Rightarrow> c | None \<Rightarrow> []))) (\<lambda>historical.
     bindp (liftp (position_quantity (ec_scope C) venue (ef_symbol e))) (\<lambda>quantity.
     let own = (case ef_client_order_id e of Some c \<Rightarrow> c | None \<Rightarrow> ''None'') in
     (case (active, historical) of
        (Some r, _) \<Rightarrow> (bindp (validate_recovered_entry C e r) (\<lambda>_.
     ask_p (Reconcile (ef_key e) (Some (field_text r ''id'' own)) r)))
      | (None, Some r) \<Rightarrow> (bindp (validate_recovered_entry C e r) (\<lambda>_.
     ask_p (Reconcile (ef_key e) (Some (field_text r ''id'' own)) r)))
      | (None, None) \<Rightarrow> if fle quantity fzero
          then ask_p (Reconcile (ef_key e) (ef_client_order_id e)
             [(''status'', JStr ''CANCELED''), (''reconciled_absent_and_flat'', JBool True)])
          else unsafep ''entry effect is absent but the position is non-flat'')))))"

definition request_text :: "obj \<Rightarrow> string \<Rightarrow> string res" where
  "request_text request k = (case map_of request k of Some v \<Rightarrow> Inr (py_str v) | None \<Rightarrow> raise KeyError (repr_string k))"

definition reconcile_tpsl_effect :: "engine_config \<Rightarrow> effect_row \<Rightarrow> obj \<Rightarrow> unit p_prog" where
  "reconcile_tpsl_effect C e venue = (let request = ef_request e in
     bindp (liftp (request_text request ''tpsl_type'')) (\<lambda>typ.
     bindp (liftp (rbind (request_text request ''price_hex'') float_fromhex)) (\<lambda>price.
     bindp (liftp (request_text request ''parent_order_id'')) (\<lambda>parent.
     bindp (liftp (find_tpsl venue typ price parent)) (\<lambda>found.
     bindp (liftp (position_quantity (ec_scope C) venue (ef_symbol e))) (\<lambda>quantity.
     (case found of
        None \<Rightarrow> unsafep (if fle quantity fzero
          then ''ambiguous TP/SL create is absent while flat; cancellation cannot be proven''
          else ''prepared TP/SL is absent while position remains open'')
      | Some r \<Rightarrow> (let is_open = flt fzero quantity in
     bindp (liftp (required_text (field request ''venue_symbol'') ''venue symbol'')) (\<lambda>vs.
     bindp (liftp (required_text (field request ''side'') ''TP/SL side'')) (\<lambda>side.
     bindp (liftp (required_text (field request ''tpsl_type'') ''TP/SL type'')) (\<lambda>typ'.
     bindp (liftp (required_text (field request ''parent_order_id'') ''TP/SL parent order ID'')) (\<lambda>parent'.
     bindp (liftp (validate_tpsl r \<lparr> tp_venue_symbol = vs, tp_side = side, tp_type = typ', tp_price = price, tp_parent = parent' \<rparr>
            is_open True)) (\<lambda>_.
     bindp (ask_p (Reconcile (ef_key e) (Some (py_str (field r ''id''))) r)) (\<lambda>_.
     (if is_open then Ret () else (case ef_trade_id e of
             None \<Rightarrow> unsafep ''orphan TP/SL recovery lacks durable trade lineage''
           | Some tid \<Rightarrow> (bindp (ask_trade tid) (\<lambda>owner.
     (case owner of None \<Rightarrow> unsafep ''orphan TP/SL recovery references a missing trade''
                | Some tr \<Rightarrow> cancel_remaining_protection C tr None)))))))))))))))))))"

definition reconcile_effect :: "engine_config \<Rightarrow> effect_row \<Rightarrow> obj \<Rightarrow> unit p_prog" where
  "reconcile_effect C e venue =
     (if ef_status e = EFF_FAILED
      then unsafep (case ef_error e of Some (c # cs) \<Rightarrow> c # cs | _ \<Rightarrow> ''effect is FAILED'')
      else (case ef_type e of
        PLACE_ORDER \<Rightarrow> reconcile_entry_effect C e venue
      | PROTECTIVE_STOP \<Rightarrow> reconcile_tpsl_effect C e venue
      | TAKE_PROFIT_EFFECT \<Rightarrow> reconcile_tpsl_effect C e venue
      | CANCEL_ORDER \<Rightarrow> (bindp (liftp (find_order venue (ef_client_order_id e))) (\<lambda>open_entry.
     (if open_entry = None then ask_p (Reconcile (ef_key e) (ef_client_order_id e) [(''active'', JBool False)])
           else unsafep ''cancel effect has not removed the entry order'')))
      | CANCEL_TPSL_EFFECT \<Rightarrow> (bindp (liftp (required_text (field (ef_request e) ''tpsl_id'') ''TP/SL ID'')) (\<lambda>tid.
     bindp (liftp (find_tpsl_by_id venue (Some tid))) (\<lambda>record.
     bindp (liftp (case record of None \<Rightarrow> Inr () | Some r \<Rightarrow> assert_known_status r)) (\<lambda>_.
     (if \<not> is_live_tpsl record then ask_p (Reconcile (ef_key e) (Some tid) [(''active'', JBool False)])
           else unsafep ''cancel TP/SL effect remains live'')))))
      | OTHER_EFFECT s \<Rightarrow> unsafep (s @ '' has no PAPER recovery rule'')
      | _ \<Rightarrow> (bindp (liftp (position_quantity (ec_scope C) venue (ef_symbol e))) (\<lambda>quantity.
     (if fle quantity fzero then ask_p (Reconcile (ef_key e) (ef_client_order_id e) [(''position_flat'', JBool True)])
           else unsafep ''prepared exit has not reached a flat position'')))))"

definition recover_effect_locked :: "engine_config \<Rightarrow> effect_row \<Rightarrow> unit p_prog" where
  "recover_effect_locked C e = with_lock (Effect_Lock (ef_key e)) ((bindp (ask_effect (ef_key e)) (\<lambda>current.
     (case current of
        Some c \<Rightarrow> if ef_status c \<in> {EFF_PREPARED, EFF_FAILED}
          then (bindp (ask_object Fetch_State) (\<lambda>venue.
     reconcile_effect C c venue)) else Ret ()
      | None \<Rightarrow> Ret ()))))"

definition effect_identities :: "(order_role \<times> string) list" where
  "effect_identities = [(ENTRY, ''place''), (ENTRY, ''cancel''), (STOP_LOSS, ''create''), (STOP_LOSS, ''cancel''),
     (TAKE_PROFIT, ''create''), (TAKE_PROFIT, ''cancel''), (TIMEOUT_EXIT, ''close''), (EMERGENCY_EXIT, ''close'')]"

definition unripe_effects :: "engine_config \<Rightarrow> trade_row \<Rightarrow> string list \<Rightarrow> string list p_prog" where
  "unripe_effects C tr eligible = gather (\<lambda>(role, operation). (let key = effect_id C (tw_trade_id tr) role operation in
     bindp (ask_effect key) (\<lambda>e.
     Ret (case e of Some r \<Rightarrow> if ef_status r \<in> {EFF_PREPARED, EFF_FAILED} \<and> key \<notin> set eligible then [key] else []
          | None \<Rightarrow> [])))) effect_identities"

section \<open>Windows before any venue mutation\<close>

definition cancelled_fact :: "trade_row \<Rightarrow> string \<Rightarrow> fact" where
  "cancelled_fact tr reason = no_fact \<lparr> fc_role := Some ENTRY, fc_client_order_id := Some (tw_entry_client_order_id tr),
     fc_requested_quantity := tw_quantity tr, fc_details := [(''reason'', reason)] \<rparr>"

definition recover_pre_mutation_gap :: "engine_config \<Rightarrow> trade_row \<Rightarrow> obj \<Rightarrow> trade_event list p_prog" where
  "recover_pre_mutation_gap C tr venue = (bindp (liftp (decision_for_trade C tr)) (\<lambda>d.
     (if tw_state tr = RECEIVED then (bindp (transition_with_event C d tr LIFE_CANCELLED ''RECOVERED_CRASH_BEFORE_ENTRY_TRANSITION'' ENTRY_CANCELLED
          LIFE_CANCELLED no_move (cancelled_fact tr ''crash_before_entry_transition'')) (\<lambda>(tr', e).
     Ret [e]))
      else if tw_state tr \<noteq> ENTRY_PENDING then Ret [] else (bindp (ask_effect (effect_id C (tw_trade_id tr) ENTRY ''place'')) (\<lambda>placement.
     (if placement \<noteq> None then Ret [] else (bindp (liftp (find_order venue (Some (tw_entry_client_order_id tr)))) (\<lambda>active.
     bindp (liftp (if active \<noteq> None then Inr True
            else rbind (find_historical_order venue (tw_entry_client_order_id tr)) (\<lambda>h.
              if h \<noteq> None then Inr True
              else rbind (position_for_trade (ec_scope C) venue tr) (\<lambda>q. Inr (flt fzero q))))) (\<lambda>seen.
     bindp (checkp [(\<not> seen, unsafe ''venue exposure exists without the mandatory PREPARED entry effect'')]) (\<lambda>_.
     bindp (transition_with_event C d tr LIFE_CANCELLED ''RECOVERED_CRASH_BEFORE_ENTRY_EFFECT_PREPARE''
            ENTRY_CANCELLED LIFE_CANCELLED no_move (cancelled_fact tr ''crash_before_durable_effect_prepare'')) (\<lambda>(tr', e).
     Ret [e])))))))))))"

section \<open>Reconciling one trade\<close>

definition exceeds :: "trade_row \<Rightarrow> f64 \<Rightarrow> bool" where
  "exceeds tr quantity = flt (fadd (tw_quantity tr) (tolerance (tw_quantity tr))) quantity"

text \<open>A position above the approved quantity is never adopted.\<close>

definition reconcile_excess :: "engine_config \<Rightarrow> risk_decision \<Rightarrow> trade_row \<Rightarrow> f64 \<Rightarrow> trade_event list p_prog" where
  "reconcile_excess C d tr quantity = (bindp ((if tw_state tr = ENTRY_PENDING then (bindp (transition_with_event C d tr PROTECTING ''AUTHORITATIVE_POSITION_EXCEEDS_APPROVED_QUANTITY'' FACT_FAILED
          PROTECTING
          (no_move \<lparr> mv_payload := Some [(''observed_quantity_hex'', JStr (float_hex quantity))],
             mv_filled_quantity := Some (tw_quantity tr), mv_first_fill_at := Some (tw_entry_eligible_at tr),
             mv_entry_exchange_order_id := Some (tw_entry_client_order_id tr) \<rparr>)
          (no_fact \<lparr> fc_role := Some ENTRY, fc_client_order_id := Some (tw_entry_client_order_id tr),
             fc_requested_quantity := tw_quantity tr, fc_filled_quantity := tw_quantity tr,
             fc_position_quantity := Some quantity,
             fc_details := [(''reason'', ''authoritative_position_exceeds_approval'')] \<rparr>)) (\<lambda>(t, failed).
     Ret t)) else Ret tr)) (\<lambda>tr'.
     (if tw_state tr' \<in> {PROTECTING, ACTIVE}
      then emergency_close C d tr' ''authoritative position exceeds approved quantity''
      else unsafep ''authoritative position exceeds approved quantity'')))"

definition reconcile_first_fill ::
  "engine_config \<Rightarrow> risk_decision \<Rightarrow> trade_row \<Rightarrow> obj \<Rightarrow> instant \<Rightarrow> f64 \<Rightarrow> obj option \<Rightarrow> trade_event list p_prog" where
  "reconcile_first_fill C d tr venue now quantity entry = (bindp (liftp (case entry of Some (x # xs) \<Rightarrow> Inr (x # xs)
        | _ \<Rightarrow> rbind (find_historical_order venue (tw_entry_client_order_id tr)) (\<lambda>h. Inr (case h of Some r \<Rightarrow> r | None \<Rightarrow> [])))) (\<lambda>source.
     bindp (liftp (if source = [] then Inr () else rbind (validate_entry_response source d (tw_entry_client_order_id tr)) (\<lambda>_. Inr ()))) (\<lambda>_.
     bindp (liftp (positive_optional (field source ''filledAvgPrice''))) (\<lambda>avg.
     bindp (liftp (shortfall_details d avg)) (\<lambda>details.
     bindp (liftp (response_time source (tw_entry_eligible_at tr) now (tw_entry_eligible_at tr))) (\<lambda>filled_at.
     let xid = field_text source ''id'' (tw_entry_client_order_id tr) in
     bindp (transition_with_event C d tr PROTECTING ''RECONCILED_FIRST_NONZERO_FILL''
       (fill_fact_type quantity (tw_quantity tr)) PROTECTING
       (no_move \<lparr> mv_filled_quantity := Some quantity, mv_first_fill_at := Some filled_at,
          mv_entry_exchange_order_id := Some xid \<rparr>)
       (no_fact \<lparr> fc_role := Some ENTRY, fc_client_order_id := Some (tw_entry_client_order_id tr),
          fc_exchange_order_id := Some xid, fc_requested_quantity := tw_quantity tr, fc_filled_quantity := quantity,
          fc_position_quantity := Some quantity, fc_average_price := avg, fc_details := details \<rparr>)) (\<lambda>(tr', e).
     bindp (protect C d tr') (\<lambda>es.
     Ret (e # es)))))))))"

text \<open>The entry order is not open and the position is flat: the trade is cancelled only on proof.\<close>

definition reconcile_absent_entry ::
  "engine_config \<Rightarrow> risk_decision \<Rightarrow> trade_row \<Rightarrow> obj \<Rightarrow> trade_event list p_prog" where
  "reconcile_absent_entry C d tr venue = (bindp (ask_effect (effect_id C (tw_trade_id tr) ENTRY ''place'')) (\<lambda>placement.
     let base = (cancelled_fact tr ''prepared_entry_reconciled_absent_and_flat'')
         \<lparr> fc_exchange_order_id := tw_entry_exchange_order_id tr, fc_position_quantity := Some fzero \<rparr> in
     (if (case placement of Some p \<Rightarrow> (case ef_response p of Some r \<Rightarrow> field r ''reconciled_absent_and_flat'' = JBool True
           | None \<Rightarrow> False) | None \<Rightarrow> False) then (bindp (transition_with_event C d tr LIFE_CANCELLED ''ENTRY_EFFECT_RECONCILED_ABSENT_AND_FLAT'' ENTRY_CANCELLED
          LIFE_CANCELLED no_move base) (\<lambda>(tr', e).
     Ret [e]))
      else (bindp (liftp (find_historical_order venue (tw_entry_client_order_id tr))) (\<lambda>historical.
     (case historical of
           None \<Rightarrow> (bindp (ask_p (Mark_Reconciled (tw_trade_id tr)
               ''entry absent from open projection; awaiting exact terminal history'')) (\<lambda>_.
     Ret []))
         | Some h \<Rightarrow> (bindp (liftp (validate_entry_response h d (tw_entry_client_order_id tr))) (\<lambda>k.
     bindp (checkp [(\<not> flt fzero (ak_filled k), unsafe ''entry history reports a fill while authoritative position is flat''),
               (ak_status k \<in> dead_statuses, unsafe ''entry is absent from open orders without an exact terminal outcome'')]) (\<lambda>_.
     bindp (transition_with_event C d tr LIFE_CANCELLED ''ENTRY_TERMINAL_HISTORY_AND_AUTHORITATIVELY_FLAT''
               ENTRY_CANCELLED LIFE_CANCELLED no_move
               (base \<lparr> fc_details := [(''reason'', ''terminal_entry_history_and_flat'')] \<rparr>)) (\<lambda>(tr', e).
     Ret [e]))))))))))"

definition reconcile_flat_exit ::
  "engine_config \<Rightarrow> risk_decision \<Rightarrow> trade_row \<Rightarrow> obj \<Rightarrow> obj list \<Rightarrow> trade_event list p_prog" where
  "reconcile_flat_exit C d tr venue sidecar_events = (bindp (liftp (classify_flat_exit (ec_scope C) tr venue sidecar_events)) (\<lambda>x.
     bindp (transition_venue_exit C d tr x
       (if vx_role x = STOP_LOSS then tw_stop_client_order_id tr else tw_target_client_order_id tr)) (\<lambda>(tr', triggered).
     bindp (finish_venue_exit C d tr' (vx_role x) (vx_reason x) None (Some x) []) (\<lambda>es.
     Ret (triggered # es)))))"

definition reconcile_protecting ::
  "engine_config \<Rightarrow> risk_decision \<Rightarrow> trade_row \<Rightarrow> obj \<Rightarrow> obj list \<Rightarrow> f64 \<Rightarrow> trade_event list \<Rightarrow> trade_event list p_prog" where
  "reconcile_protecting C d tr venue sidecar_events quantity events =
     (if fle quantity fzero then reconcile_flat_exit C d tr venue sidecar_events else (bindp (record_cumulative_fill C d tr venue quantity) (\<lambda>(tr', fills).
     bindp (protect C d tr') (\<lambda>es.
     Ret (events @ fills @ es)))))"

definition check_live_protection :: "risk_decision \<Rightarrow> trade_row \<Rightarrow> obj option \<Rightarrow> order_role \<Rightarrow> unit res" where
  "check_live_protection d tr record role = (case record of
       None \<Rightarrow> Inl (unsafe (''ACTIVE trade lacks a live reconciled '' @ role_text role))
     | Some r \<Rightarrow> validate_tpsl r (tpsl_plan_of tr (rd_venue_symbol d) role) True False)"

definition expire_active_entry ::
  "engine_config \<Rightarrow> risk_decision \<Rightarrow> trade_row \<Rightarrow> (trade_row \<times> obj \<times> f64 \<times> trade_event list) p_prog" where
  "expire_active_entry C d tr = (bindp (cancel_entry_effect C tr) (\<lambda>_.
     bindp (ask_object Fetch_State) (\<lambda>venue.
     bindp (liftp (find_order venue (Some (tw_entry_client_order_id tr)))) (\<lambda>still.
     bindp (checkp [(still = None, unsafe ''partial entry remainder survived expiry cancel'')]) (\<lambda>_.
     bindp (liftp (position_for_trade (ec_scope C) venue tr)) (\<lambda>quantity.
     (if flt fzero quantity then (bindp (record_cumulative_fill C d tr venue quantity) (\<lambda>(tr', fills).
     Ret (tr', venue, quantity, fills)))
      else Ret (tr, venue, quantity, []))))))))"

definition reconcile_active ::
  "engine_config \<Rightarrow> risk_decision \<Rightarrow> trade_row \<Rightarrow> obj \<Rightarrow> obj list \<Rightarrow> instant \<Rightarrow> f64 \<Rightarrow> obj option
   \<Rightarrow> trade_event list \<Rightarrow> trade_event list p_prog" where
  "reconcile_active C d tr0 venue0 sidecar_events now quantity0 entry events = (bindp ((if flt fzero quantity0 then record_cumulative_fill C d tr0 venue0 quantity0 else Ret (tr0, []))) (\<lambda>(tr1, fills).
     bindp ((if entry \<noteq> None \<and> now \<ge> tw_entry_expires_at tr1 then expire_active_entry C d tr1
        else Ret (tr1, venue0, quantity0, []))) (\<lambda>(tr, venue, quantity, more).
     (if fle quantity fzero then reconcile_flat_exit C d tr venue sidecar_events else (bindp (liftp (find_tpsl_by_id venue (tw_stop_exchange_order_id tr))) (\<lambda>stop.
     bindp (liftp (find_tpsl_by_id venue (tw_target_exchange_order_id tr))) (\<lambda>target.
     bindp (liftp (check_live_protection d tr stop STOP_LOSS)) (\<lambda>_.
     bindp (liftp (check_live_protection d tr target TAKE_PROFIT)) (\<lambda>_.
     bindp (liftp (case tw_timeout_at tr of Some t \<Rightarrow> Inr t
           | None \<Rightarrow> Inl (unsafe ''ACTIVE trade has no durable timeout clock''))) (\<lambda>timeout.
     (if now \<ge> timeout then (bindp (timeout_close C d tr) (\<lambda>es.
     Ret (events @ fills @ more @ es))) else (bindp (ask_p (Mark_Reconciled (tw_trade_id tr) ''position, entry expiry, stop, target and timeout reconciled'')) (\<lambda>_.
     Ret (events @ fills @ more))))))))))))))"

definition exit_fact :: "life \<Rightarrow> (order_role \<times> exit_reason) option" where
  "exit_fact s = (case s of EXITING_STOP \<Rightarrow> Some (STOP_LOSS, EXIT_STOP) | EXITING_TARGET \<Rightarrow> Some (TAKE_PROFIT, EXIT_TARGET)
     | EXITING_TIMEOUT \<Rightarrow> Some (TIMEOUT_EXIT, EXIT_TIMEOUT) | EXITING_EMERGENCY \<Rightarrow> Some (EMERGENCY_EXIT, EXIT_EMERGENCY)
     | _ \<Rightarrow> None)"

definition reconcile_exiting ::
  "engine_config \<Rightarrow> risk_decision \<Rightarrow> trade_row \<Rightarrow> obj list \<Rightarrow> f64 \<Rightarrow> trade_event list \<Rightarrow> trade_event list p_prog" where
  "reconcile_exiting C d tr sidecar_events quantity events = (case exit_fact (tw_state tr) of
       None \<Rightarrow> if tw_state tr = FAILED_BLOCKED then unsafep ''trade requires operator recovery'' else Ret events
     | Some (role, reason) \<Rightarrow>
        if fle quantity fzero then finish_venue_exit C d tr role reason None None sidecar_events
        else if tw_state tr \<in> {EXITING_TIMEOUT, EXITING_EMERGENCY} then resume_close_exit C d tr role reason
        else (bindp (ask_p (Mark_Reconciled (tw_trade_id tr) ''venue-triggered exit is still settling'')) (\<lambda>_.
     Ret events)))"

text \<open>The dispatch on the state. The code calls itself once more when the cancellation of an expired
  entry uncovers a position; \<open>again\<close> is that call.\<close>

definition reconcile_pending ::
  "engine_config \<Rightarrow> (trade_row \<Rightarrow> obj \<Rightarrow> trade_event list p_prog) \<Rightarrow> risk_decision \<Rightarrow> trade_row \<Rightarrow> obj \<Rightarrow> instant \<Rightarrow> f64
   \<Rightarrow> obj option \<Rightarrow> trade_event list \<Rightarrow> trade_event list p_prog" where
  "reconcile_pending C again d tr venue0 now quantity entry events =
     (if flt fzero quantity then (bindp (reconcile_first_fill C d tr venue0 now quantity entry) (\<lambda>es.
     Ret (events @ es)))
      else if entry \<noteq> None \<and> now \<ge> tw_entry_expires_at tr then (bindp (cancel_entry_effect C tr) (\<lambda>_.
     bindp (ask_object Fetch_State) (\<lambda>venue.
     bindp (liftp (find_order venue (Some (tw_entry_client_order_id tr)))) (\<lambda>still.
     bindp (checkp [(still = None, unsafe ''expired entry remains open after cancel'')]) (\<lambda>_.
     bindp (liftp (position_quantity (ec_scope C) venue (tw_symbol tr))) (\<lambda>uncovered.
     (if flt fzero uncovered then again tr venue
         else (bindp (reconcile_absent_entry C d tr venue) (\<lambda>es.
     Ret (events @ es))))))))))
      else if entry = None then (bindp (reconcile_absent_entry C d tr venue0) (\<lambda>es.
     Ret (events @ es)))
      else (bindp (ask_p (Mark_Reconciled (tw_trade_id tr) ''entry pending before deterministic expiry'')) (\<lambda>_.
     Ret events)))"

definition reconcile_step ::
  "engine_config \<Rightarrow> (trade_row \<Rightarrow> obj \<Rightarrow> trade_event list p_prog) \<Rightarrow> trade_row \<Rightarrow> obj \<Rightarrow> obj list \<Rightarrow> trade_event list p_prog" where
  "reconcile_step C again tr0 venue sidecar_events = (bindp (liftp (decision_for_trade C tr0)) (\<lambda>d.
     bindp (ask_clock) (\<lambda>now.
     bindp (liftp (position_for_trade (ec_scope C) venue tr0)) (\<lambda>quantity.
     bindp (liftp (find_order venue (Some (tw_entry_client_order_id tr0)))) (\<lambda>entry.
     bindp ((if tw_state tr0 \<in> {RECEIVED, ENTRY_PENDING} then (bindp (recover_pre_mutation_gap C tr0 venue) (\<lambda>gap.
     bindp (ask_trade (tw_trade_id tr0)) (\<lambda>current.
     (case current of None \<Rightarrow> unsafep ''trade disappeared during lifecycle gap recovery''
         | Some t \<Rightarrow> Ret (t, gap))))) else Ret (tr0, []))) (\<lambda>(tr, events).
     (if tw_state tr0 \<in> {RECEIVED, ENTRY_PENDING} \<and> tw_state tr \<in> {LIFE_CANCELLED, LIFE_FLAT} then Ret events else (bindp (liftp (case entry of None \<Rightarrow> Inr ()
          | Some r \<Rightarrow> rbind (validate_entry_response r d (tw_entry_client_order_id tr)) (\<lambda>_. Inr ()))) (\<lambda>_.
     (if exceeds tr quantity then reconcile_excess C d tr quantity
         else if tw_state tr = ENTRY_PENDING then reconcile_pending C again d tr venue now quantity entry events
         else if tw_state tr = PROTECTING then reconcile_protecting C d tr venue sidecar_events quantity events
         else if tw_state tr = ACTIVE then reconcile_active C d tr venue sidecar_events now quantity entry events
         else reconcile_exiting C d tr sidecar_events quantity events))))))))))"

fun reconcile_trade :: "nat \<Rightarrow> engine_config \<Rightarrow> trade_row \<Rightarrow> obj \<Rightarrow> obj list \<Rightarrow> trade_event list p_prog" where
  "reconcile_trade 0 C tr venue sidecar_events = Fail (Exn (OtherError ''RecursionError'') ''maximum recursion depth exceeded'')"
| "reconcile_trade (Suc n) C tr venue sidecar_events =
     reconcile_step C (\<lambda>t v. reconcile_trade n C t v sidecar_events) tr venue sidecar_events"

abbreviation reconcile_one :: "engine_config \<Rightarrow> trade_row \<Rightarrow> obj \<Rightarrow> obj list \<Rightarrow> trade_event list p_prog" where
  "reconcile_one \<equiv> reconcile_trade 2"

section \<open>Handling a decision\<close>

text \<open>\<^verbatim>\<open>_IOC_SETTLE_ATTEMPTS\<close> reads of the venue, with a pause between two of them.\<close>

definition poll_pause :: f64 where "poll_pause = fround (5 / 100)"

fun settle_before_cancel ::
  "engine_config \<Rightarrow> risk_decision \<Rightarrow> trade_row \<Rightarrow> nat \<Rightarrow> bool \<Rightarrow> (obj option \<times> bool) p_prog" where
  "settle_before_cancel C d tr 0 seen = Ret (None, seen)"
| "settle_before_cancel C d tr (Suc k) seen = (bindp (ask_object Fetch_State) (\<lambda>venue.
     bindp (liftp (settled_projection C d tr venue)) (\<lambda>(settled, observed).
     (case settled of Some r \<Rightarrow> Ret (Some r, seen \<or> observed)
      | None \<Rightarrow> (bindp ((if k = 0 then Ret () else ask_p (Sleep poll_pause))) (\<lambda>_.
     settle_before_cancel C d tr k (seen \<or> observed)))))))"

fun settle_after_cancel ::
  "engine_config \<Rightarrow> risk_decision \<Rightarrow> trade_row \<Rightarrow> nat \<Rightarrow> obj option \<Rightarrow> (obj + obj option) p_prog" where
  "settle_after_cancel C d tr 0 last_venue = Ret (Inr last_venue)"
| "settle_after_cancel C d tr (Suc k) last_venue = (bindp (ask_object Fetch_State) (\<lambda>venue.
     bindp (liftp (settled_projection C d tr venue)) (\<lambda>(settled, observed).
     (case settled of Some r \<Rightarrow> Ret (Inl r)
      | None \<Rightarrow> (bindp (checkp [(\<not> observed, unsafe ''IOC fill appeared while proving authoritative cancellation'')]) (\<lambda>_.
     bindp (liftp (find_order venue (Some (tw_entry_client_order_id tr)))) (\<lambda>still.
     bindp (checkp [(still = None \<or> k \<noteq> 0, unsafe ''IOC entry remains open after authoritative cancel'')]) (\<lambda>_.
     bindp ((if k = 0 then Ret () else ask_p (Sleep poll_pause))) (\<lambda>_.
     settle_after_cancel C d tr k (Some venue))))))))))"

definition settle_or_cancel_ioc :: "engine_config \<Rightarrow> risk_decision \<Rightarrow> trade_row \<Rightarrow> obj \<Rightarrow> obj p_prog" where
  "settle_or_cancel_ioc C d tr acknowledged = (bindp (settle_before_cancel C d tr 4 False) (\<lambda>(settled, seen).
     (case settled of Some r \<Rightarrow> Ret r
      | None \<Rightarrow> (bindp (checkp [(\<not> seen, unsafe ''IOC fill projection did not converge to an authoritative position'')]) (\<lambda>_.
     bindp (cancel_entry_effect C tr) (\<lambda>cancel_ack.
     bindp (liftp (required_text (field cancel_ack ''id'') ''entry cancel order ID'')) (\<lambda>cid.
     bindp (checkp [(cid = tw_entry_client_order_id tr, unsafe ''entry cancel ACK changed the deterministic order ID''),
            (order_status_text cancel_ack [] = ''CANCELED'', unsafe ''entry cancel ACK is not terminal CANCELED'')]) (\<lambda>_.
     bindp (settle_after_cancel C d tr 4 None) (\<lambda>outcome.
     (case outcome of Inl r \<Rightarrow> Ret r
           | Inr last_venue \<Rightarrow> (bindp (liftp (case last_venue of None \<Rightarrow> Inr True
                  | Some v \<Rightarrow> rbind (position_for_trade (ec_scope C) v tr) (\<lambda>q. Inr (flt fzero q)))) (\<lambda>exposed.
     bindp (checkp [(\<not> exposed, unsafe ''IOC cancel could not prove an exposure-free account'')]) (\<lambda>_.
     Ret (dict_set ''status'' (JStr ''CANCELED'') acknowledged))))))))))))))"

definition block_entries_unlocked :: "engine_config \<Rightarrow> string \<Rightarrow> unit p_prog" where
  "block_entries_unlocked C detail = (let message = (let m = take 2000 (strip detail) in if m = [] then ''authoritative PAPER reconciliation required'' else m) in
     bindp (ask_epoch (local_scope C)) (\<lambda>_.
     modify (\<lambda>s. s \<lparr> en_blockers := [message] \<rparr>)))"

text \<open>The guarded part of the entry: the mutation and its settlement.\<close>

definition submit_entry :: "engine_config \<Rightarrow> risk_decision \<Rightarrow> trade_row \<Rightarrow> string \<Rightarrow> string \<Rightarrow> preparation \<Rightarrow> (obj \<times> ack) p_prog" where
  "submit_entry C d tr eid cid prep = (bindp (entry_effect C d tr eid cid prep) (\<lambda>response.
     bindp (liftp (validate_entry_response response d cid)) (\<lambda>k.
     (if fle (ak_filled k) fzero \<and> ak_status k \<notin> dead_statuses then (bindp (settle_or_cancel_ioc C d tr response) (\<lambda>response'.
     bindp (liftp (validate_entry_response response' d cid)) (\<lambda>k'.
     Ret (response', k'))))
      else Ret (response, k)))))"

definition ambiguous_entry ::
  "engine_config \<Rightarrow> risk_decision \<Rightarrow> trade_row \<Rightarrow> string \<Rightarrow> string \<Rightarrow> exn \<Rightarrow> trade_event list p_prog" where
  "ambiguous_entry C d tr eid cid e = (bindp (block_entries_unlocked C (''ambiguous entry ACK requires recovery: '' @ describe e)) (\<lambda>_.
     bindp (ask_object Fetch_State) (\<lambda>venue.
     bindp (liftp (position_quantity (ec_scope C) venue (tw_symbol tr))) (\<lambda>exposed.
     (if fle exposed fzero then Fail e else (bindp (transition_with_event C d tr PROTECTING ''AMBIGUOUS_ENTRY_ACK_WITH_EXPOSURE'' FACT_FAILED PROTECTING
          (no_move \<lparr> mv_payload := Some [(''observed_quantity_hex'', JStr (float_hex exposed))],
             mv_filled_quantity := Some (fmin exposed (tw_quantity tr)),
             mv_first_fill_at := Some (from_ms (ti_entry_eligible_ts_ms (rd_intent d))),
             mv_entry_exchange_order_id := Some cid \<rparr>)
          (no_fact \<lparr> fc_effect_id := Some eid, fc_role := Some ENTRY, fc_client_order_id := Some cid,
             fc_requested_quantity := rd_quantity d, fc_filled_quantity := fmin exposed (tw_quantity tr),
             fc_position_quantity := Some exposed, fc_details := [(''reason'', ''ambiguous_entry_ack_with_exposure'')] \<rparr>)) (\<lambda>(tr', failed).
     bindp (emergency_close C d tr' (''ambiguous entry ACK: '' @ exn_name (exn_kind e))) (\<lambda>es.
     Ret (failed # es)))))))))"

definition settle_entry :: "engine_config \<Rightarrow> risk_decision \<Rightarrow> trade_row \<Rightarrow> string \<Rightarrow> obj \<Rightarrow> ack \<Rightarrow> trade_event list p_prog" where
  "settle_entry C d tr cid response k =
     (let xid = ak_order_id k; base = no_fact \<lparr> fc_role := Some ENTRY, fc_client_order_id := Some cid,
            fc_exchange_order_id := Some xid, fc_requested_quantity := rd_quantity d \<rparr>;
          mv = no_move \<lparr> mv_entry_exchange_order_id := Some xid \<rparr> in
      if fle (ak_filled k) fzero \<and> ak_status k \<in> dead_statuses then (bindp (transition_with_event C d tr LIFE_CANCELLED ''ENTRY_TERMINAL_WITHOUT_FILL'' ENTRY_CANCELLED LIFE_CANCELLED mv base) (\<lambda>(tr', e).
     Ret [e]))
      else if fle (ak_filled k) fzero then (bindp (transition_with_event C d tr ENTRY_PENDING ''ENTRY_ACKNOWLEDGED_PENDING_FILL'' VENUE_ACK ENTRY_PENDING mv base) (\<lambda>(tr', e).
     Ret [e]))
      else (bindp (ask_clock) (\<lambda>observed.
     bindp (liftp (response_time response observed observed (from_ms (ti_entry_eligible_ts_ms (rd_intent d))))) (\<lambda>filled_at.
     bindp (liftp (shortfall_details d (ak_average k))) (\<lambda>details.
     bindp (transition_with_event C d tr PROTECTING ''FIRST_NONZERO_FILL''
          (fill_fact_type (ak_filled k) (rd_quantity d)) PROTECTING
          (mv \<lparr> mv_filled_quantity := Some (ak_filled k), mv_first_fill_at := Some filled_at \<rparr>)
          (base \<lparr> fc_filled_quantity := ak_filled k, fc_position_quantity := Some (ak_filled k),
             fc_average_price := ak_average k, fc_details := details \<rparr>)) (\<lambda>(tr', e).
     bindp (protect C d tr') (\<lambda>es.
     Ret (e # es))))))))"

definition new_trade_of :: "engine_config \<Rightarrow> risk_decision \<Rightarrow> string \<Rightarrow> string \<Rightarrow> new_trade res" where
  "new_trade_of C d tid cid = (rbind (required_opt (ti_intent_id (rd_intent d)) ''intent_id'') (\<lambda>intent.
     rbind (required_opt (rd_decision_id d) ''decision_id'') (\<lambda>decision.
     Inr \<lparr> nt_trade_id = tid, nt_intent_id = intent, nt_decision_id = decision, nt_payload = ec_to_payload C d,
       nt_strategy_id = ti_strategy_id (rd_intent d), nt_strategy_revision = ti_strategy_revision (rd_intent d),
       nt_trading_mode = rd_trading_mode d, nt_environment = ls_environment (ec_scope C), nt_profile = rd_profile d,
       nt_exchange = ec_adapter_name C, nt_account_id = rd_account_id d, nt_symbol = ti_symbol (rd_intent d),
       nt_venue_symbol = rd_venue_symbol d, nt_side = v_side_text (order_side_of d), nt_quantity = rd_quantity d,
       nt_leverage = rd_leverage d, nt_stop_price = rd_stop_price d, nt_target_price = rd_target_price d,
       nt_entry_eligible_at = from_ms (ti_entry_eligible_ts_ms (rd_intent d)),
       nt_entry_expires_at = from_ms (ti_entry_expires_ts_ms (rd_intent d)), nt_max_holding_ms = rd_max_holding_ms d,
       nt_entry_client_order_id = cid \<rparr>)))"

text \<open>The bounded wait for the next bar: one pause of at most two seconds.\<close>

definition await_eligibility :: "risk_decision \<Rightarrow> int p_prog" where
  "await_eligibility d = (bindp (ask_clock) (\<lambda>now.
     let now_ms = instant_ms now; eligible = ti_entry_eligible_ts_ms (rd_intent d) in
     (if now_ms < eligible then (let wait = fround (of_int (eligible - now_ms) / 1000) in
     bindp ((if fle wait (Fin 2) then (bindp (ask_p (Sleep wait)) (\<lambda>_.
     bindp (ask_clock) (\<lambda>now'.
     Ret (instant_ms now')))) else Ret now_ms)) (\<lambda>later.
     bindp (checkp [(\<not> later < eligible,
          unsafe ''NEXT_BAR_MARKET eligibility is beyond the bounded local clock-skew wait'')]) (\<lambda>_.
     Ret later)))
      else Ret now_ms)))"

definition reconcile_redelivery :: "engine_config \<Rightarrow> trade_row \<Rightarrow> trade_event list p_prog" where
  "reconcile_redelivery C tr = (bindp (ask_object Preflight) (\<lambda>h.
     bindp (observe_health C h False) (\<lambda>_.
     bindp (ask_object Fetch_State) (\<lambda>venue.
     bindp (ask_trade (tw_trade_id tr)) (\<lambda>c0.
     bindp (liftp (case c0 of Some t \<Rightarrow> Inr t | None \<Rightarrow> Inl (unsafe ''redelivered decision lost its durable trade''))) (\<lambda>t0.
     (if tw_state t0 \<in> {LIFE_FLAT, LIFE_CANCELLED} then (bindp (gets en_recovered_events) (\<lambda>emitted.
     bindp (modify (\<lambda>s. s \<lparr> en_recovered_events := [] \<rparr>)) (\<lambda>_.
     bindp (recover_terminal_public_fact t0) (\<lambda>es.
     Ret (emitted @ es)))))
      else (bindp (recover_pre_mutation_gap C t0 venue) (\<lambda>gap.
     bindp (ask_trade (tw_trade_id tr)) (\<lambda>c1.
     bindp (liftp (case c1 of Some t \<Rightarrow> Inr t | None \<Rightarrow> Inl (unsafe ''trade disappeared during redelivery recovery''))) (\<lambda>t1.
     (if tw_state t1 \<in> {LIFE_FLAT, LIFE_CANCELLED} then (bindp (recover_terminal_public_fact t1) (\<lambda>es.
     Ret (gap @ es)))
         else (bindp (ask_effects (effect_scope C)) (\<lambda>effects.
     bindp (mapp (\<lambda>e. if ef_trade_id e = Some (tw_trade_id tr) then recover_effect_locked C e else Ret ()) effects) (\<lambda>_.
     bindp (ask_trade (tw_trade_id tr)) (\<lambda>c2.
     bindp ((case c2 of None \<Rightarrow> Ret [] | Some t \<Rightarrow> unripe_effects C t (map ef_key effects))) (\<lambda>unripe.
     bindp (checkp [(unripe = [], unsafe (''redelivered trade has an in-flight ambiguous venue effect: '' @ join '','' unripe))]) (\<lambda>_.
     bindp (ask_object Fetch_State) (\<lambda>venue'.
     bindp (ask_objects Drain_Events) (\<lambda>sidecar_events.
     bindp (ask_trade (tw_trade_id tr)) (\<lambda>c3.
     bindp (gets en_recovered_events) (\<lambda>recovered.
     bindp (modify (\<lambda>s. s \<lparr> en_recovered_events := [] \<rparr>)) (\<lambda>_.
     (case c3 of None \<Rightarrow> Ret (gap @ recovered)
            | Some t \<Rightarrow> if tw_state t \<in> {LIFE_FLAT, LIFE_CANCELLED}
                then (bindp (recover_terminal_public_fact t) (\<lambda>es.
     Ret (gap @ recovered @ es)))
                else (bindp (reconcile_one C t venue' sidecar_events) (\<lambda>es.
     Ret (gap @ recovered @ es)))))))))))))))))))))))))))"

text \<open>What follows the creation of the trade, for a row that is still \<open>RECEIVED\<close>.\<close>

definition enter_trade ::
  "engine_config \<Rightarrow> risk_decision \<Rightarrow> trade_row \<Rightarrow> string \<Rightarrow> string \<Rightarrow> int \<Rightarrow> trade_event list p_prog" where
  "enter_trade C d tr0 tid cid now_ms = (let base = no_fact \<lparr> fc_role := Some ENTRY, fc_client_order_id := Some cid, fc_requested_quantity := rd_quantity d \<rparr> in
     (if now_ms > ti_entry_expires_ts_ms (rd_intent d) then (bindp (transition_with_event C d tr0 LIFE_CANCELLED ''DECISION_EXPIRED_BEFORE_SUBMISSION'' ENTRY_CANCELLED
          LIFE_CANCELLED no_move (base \<lparr> fc_details := [(''reason'', ''entry_deadline_expired'')] \<rparr>)) (\<lambda>(tr', e).
     Ret [e]))
      else (bindp (transition_with_event C d tr0 ENTRY_PENDING ''ENTRY_EFFECT_READY'' RECONCILIATION ENTRY_PENDING
          no_move (base \<lparr> fc_details := [(''reason'', ''entry_effect_ready'')] \<rparr>)) (\<lambda>(tr, pending).
     let eid = effect_id C tid ENTRY ''place'' in
     bindp (prepare_entry_effect C d tr eid cid) (\<lambda>prep.
     bindp (attempt (submit_entry C d tr eid cid prep)) (\<lambda>outcome.
     (case outcome of
           Inl e \<Rightarrow> (bindp (ambiguous_entry C d tr eid cid e) (\<lambda>es.
     Ret (pending # es)))
         | Inr (response, k) \<Rightarrow> (bindp (settle_entry C d tr cid response k) (\<lambda>es.
     Ret (pending # es))))))))))"

definition handle_once :: "engine_config \<Rightarrow> risk_decision \<Rightarrow> trade_event list p_prog" where
  "handle_once C d = (bindp (liftp (validate_decision C d)) (\<lambda>_.
     (if \<not> rd_approved d then Ret [] else (bindp (gets en_blockers) (\<lambda>blocked.
     bindp ((if blocked \<noteq> [] then Ret False else ask_flag (Entries_Allowed (local_scope C)))) (\<lambda>allowed.
     bindp (checkp [(allowed, unsafe ''new PAPER entries are blocked until authoritative startup recovery completes'')]) (\<lambda>_.
     bindp (await_eligibility d) (\<lambda>now_ms.
     bindp (liftp (if now_ms \<le> ti_entry_expires_ts_ms (rd_intent d) then assert_fresh_market d now_ms else Inr ())) (\<lambda>_.
     bindp (liftp (required_opt (rd_trade_id d) ''trade_id'')) (\<lambda>tid.
     bindp (liftp (client_id tid ENTRY (rd_decided_at_ms d))) (\<lambda>cid.
     bindp (ask_trade tid) (\<lambda>existing.
     let eid = effect_id C tid ENTRY ''place'' in
     bindp ((if existing = None \<and> now_ms \<le> ti_entry_expires_ts_ms (rd_intent d)
         then (bindp (check_operator_entry C d eid) (\<lambda>_.
     bind_canary_entry C d eid)) else Ret ())) (\<lambda>_.
     bindp (liftp (new_trade_of C d tid cid)) (\<lambda>nt.
     bindp (create_trade_with_event C d nt) (\<lambda>(tr, creation, created).
     (if tw_state tr \<noteq> RECEIVED then reconcile_redelivery C tr else (bindp (enter_trade C d tr tid cid now_ms) (\<lambda>es.
     Ret ((if created then [creation] else []) @ es)))))))))))))))))))"

section \<open>Public operations\<close>

definition with_account :: "engine_config \<Rightarrow> 'a p_prog \<Rightarrow> 'a p_prog" where
  "with_account C body = with_lock Lifecycle_Lock ((bindp (liftp (remote_scope C)) (\<lambda>k.
     with_lock (Account_Lock k) body)))"

definition handle :: "engine_config \<Rightarrow> risk_decision \<Rightarrow> trade_event list p_prog" where
  "handle C d =
     (if \<not> rd_approved d then (bindp (liftp (validate_decision C d)) (\<lambda>_.
     Ret []))
      else (bindp (liftp (required_opt (rd_trade_id d) ''trade_id'')) (\<lambda>tid.
     with_account C (with_lock (Trade_Lock tid) (handle_once C d)))))"

definition block_entries :: "engine_config \<Rightarrow> string \<Rightarrow> unit p_prog" where
  "block_entries C detail = with_account C (block_entries_unlocked C detail)"

definition audit_trade_facts :: "trade_row \<Rightarrow> trade_event list \<Rightarrow> unit res" where
  "audit_trade_facts tr facts =
     (let n = tw_state_version tr + 1; tid = tw_trade_id tr in ensure
      [(length facts = n, unsafe (''trade '' @ tid @ '' has '' @ int_text (int (length facts)) @ '' public facts for ''
          @ int_text (int n) @ '' durable lifecycle versions'')),
       (map te_seq facts = [1..<Suc n], unsafe (''trade '' @ tid @ '' public lifecycle sequence is not contiguous'')),
       (te_type (hd facts) = DECISION_RECEIVED \<and> te_state (hd facts) = RECEIVED,
          unsafe (''trade '' @ tid @ '' lacks the atomic DECISION_RECEIVED creation fact'')),
       (te_state (last facts) = tw_state tr,
          unsafe (''trade '' @ tid @ '' public state does not match durable '' @ life_text (tw_state tr)))])"

definition audit_scoped_public_facts :: "engine_config \<Rightarrow> unit p_prog" where
  "audit_scoped_public_facts C = (bindp (ask_rows (List_Scope (local_scope C))) (\<lambda>scoped.
     bindp (mapp (\<lambda>tr. (bindp (ask_facts (tw_trade_id tr)) (\<lambda>facts.
     liftp (audit_trade_facts tr facts)))) scoped) (\<lambda>_.
     Ret ())))"

text \<open>A step of the recovery whose exception becomes a blocker.\<close>

definition blocker_of :: "string \<Rightarrow> unit p_prog \<Rightarrow> string list p_prog" where
  "blocker_of label p = (bindp (attempt p) (\<lambda>r.
     Ret (case r of Inl e \<Rightarrow> [label @ '': '' @ describe e] | Inr _ \<Rightarrow> [])))"

definition recover_trade_locked :: "engine_config \<Rightarrow> string list \<Rightarrow> trade_row \<Rightarrow> unit p_prog" where
  "recover_trade_locked C eligible tr = with_lock (Trade_Lock (tw_trade_id tr)) ((bindp (ask_trade (tw_trade_id tr)) (\<lambda>current.
     (case current of None \<Rightarrow> Ret ()
      | Some t \<Rightarrow> if tw_state t \<in> {LIFE_FLAT, LIFE_CANCELLED} then Ret () else (bindp (unripe_effects C t eligible) (\<lambda>unripe.
     bindp (checkp [(unripe = [], unsafe (''ambiguous venue effect is still inside its two-minute grace: '' @ join '','' unripe))]) (\<lambda>_.
     bindp (ask_object Fetch_State) (\<lambda>venue.
     bindp (reconcile_one C t venue []) (\<lambda>es.
     modify (\<lambda>s. s \<lparr> en_recovered_events := en_recovered_events s @ es \<rparr>))))))))))"

definition final_account_audit :: "engine_config \<Rightarrow> string list p_prog" where
  "final_account_audit C = (bindp (attempt ((bindp (ask_object Fetch_State) (\<lambda>venue.
     bindp (ask_rows (Recovery_Trades (ls_environment (ec_scope C)) (ls_account_id (ec_scope C)))) (\<lambda>trades.
     liftp (authoritative_account_blockers C venue trades None)))))) (\<lambda>r.
     Ret (case r of Inl e \<Rightarrow> [''account-wide recovery: '' @ describe e] | Inr bs \<Rightarrow> bs)))"

definition set_blockers :: "string list \<Rightarrow> string list p_prog" where
  "set_blockers bs = (bindp (modify (\<lambda>s. s \<lparr> en_blockers := bs \<rparr>)) (\<lambda>_.
     Ret bs))"

definition initialize_recovery_unlocked :: "engine_config \<Rightarrow> string list p_prog" where
  "initialize_recovery_unlocked C = (bindp (ask_epoch (local_scope C)) (\<lambda>epoch.
     bindp (blocker_of ''venue preflight failed''
       ((bindp (ask_object Preflight) (\<lambda>h.
     bindp (observe_health C h False) (\<lambda>_.
     bindp (ask_object Fetch_State) (\<lambda>_.
     Ret ())))))) (\<lambda>b0.
     (if b0 \<noteq> [] then set_blockers b0 else (bindp (blocker_of ''public lifecycle audit failed'' (audit_scoped_public_facts C)) (\<lambda>b1.
     (if b1 \<noteq> [] then set_blockers b1 else (bindp (ask_effects (effect_scope C)) (\<lambda>effects.
     bindp (gather (\<lambda>e. blocker_of (ef_key e) (case ef_trade_id e of
                None \<Rightarrow> recover_effect_locked C e
              | Some tid \<Rightarrow> with_lock (Trade_Lock tid) (recover_effect_locked C e))) effects) (\<lambda>b2.
     bindp (ask_rows (Recovery_Trades (ls_environment (ec_scope C)) (ls_account_id (ec_scope C)))) (\<lambda>trades.
     bindp (gather (\<lambda>t. blocker_of (tw_trade_id t) (recover_trade_locked C (map ef_key effects) t)) trades) (\<lambda>b3.
     bindp ((if b2 @ b3 = [] then final_account_audit C else Ret [])) (\<lambda>b4.
     bindp ((if b2 @ b3 @ b4 = [] then ask_p (Complete_Recovery (local_scope C) epoch
              ''SDK preflight, effects, positions, orders and TP/SL reconciled'') else Ret ())) (\<lambda>_.
     set_blockers (b2 @ b3 @ b4)))))))))))))))"

definition initialize_recovery :: "engine_config \<Rightarrow> string list p_prog" where
  "initialize_recovery C = with_account C (initialize_recovery_unlocked C)"

fun reconcile_trades :: "engine_config \<Rightarrow> trade_row list \<Rightarrow> obj list \<Rightarrow> trade_event list p_prog" where
  "reconcile_trades C [] sidecar_events = Ret []"
| "reconcile_trades C (tr # trs) sidecar_events = (bindp (with_lock (Trade_Lock (tw_trade_id tr)) ((bindp (ask_trade (tw_trade_id tr)) (\<lambda>current.
     (case current of None \<Rightarrow> Ret ([], sidecar_events)
         | Some t \<Rightarrow> if tw_state t \<in> {LIFE_FLAT, LIFE_CANCELLED} then Ret ([], sidecar_events) else (bindp (unripe_effects C t []) (\<lambda>unripe.
     bindp (checkp [(unripe = [],
               unsafe (''venue effect is still inside its two-minute ambiguity grace: '' @ join '','' unripe))]) (\<lambda>_.
     bindp (ask_object Fetch_State) (\<lambda>venue.
     bindp (ask_objects Drain_Events) (\<lambda>more.
     bindp (reconcile_one C t venue (sidecar_events @ more)) (\<lambda>es.
     Ret (es, sidecar_events @ more)))))))))))) (\<lambda>(es, events').
     bindp (reconcile_trades C trs events') (\<lambda>rest.
     Ret (es @ rest))))"

definition reconcile_once_unlocked :: "engine_config \<Rightarrow> trade_event list p_prog" where
  "reconcile_once_unlocked C = (bindp (gets en_blockers) (\<lambda>blocked.
     (if blocked \<noteq> [] then Ret [] else (bindp (ask_flag (Entries_Allowed (local_scope C))) (\<lambda>allowed.
     (if \<not> allowed then (bindp (modify (\<lambda>s. s \<lparr> en_blockers := [''durable account recovery is active''] \<rparr>)) (\<lambda>_.
     Ret []))
         else (bindp (ask_effects (effect_scope C)) (\<lambda>effects.
     bindp (checkp [(effects = [], unsafe ''execution journal requires a durable account recovery epoch'')]) (\<lambda>_.
     bindp (ask_object Preflight) (\<lambda>h.
     bindp (observe_health C h False) (\<lambda>_.
     bindp (ask_objects Drain_Events) (\<lambda>sidecar_events.
     bindp (gets en_recovered_events) (\<lambda>recovered.
     bindp (modify (\<lambda>s. s \<lparr> en_recovered_events := [] \<rparr>)) (\<lambda>_.
     bindp (ask_rows (Recovery_Trades (ls_environment (ec_scope C)) (ls_account_id (ec_scope C)))) (\<lambda>trades.
     bindp (reconcile_trades C trades sidecar_events) (\<lambda>es.
     Ret (recovered @ es)))))))))))))))))"

definition reconcile_once :: "engine_config \<Rightarrow> trade_event list p_prog" where
  "reconcile_once C = with_account C (catchp (reconcile_once_unlocked C) (\<lambda>e. (bindp (block_entries_unlocked C (''authoritative reconciliation failed: '' @ describe e)) (\<lambda>_.
     Fail e))))"

definition account_snapshot_unlocked :: "engine_config \<Rightarrow> account_snapshot p_prog" where
  "account_snapshot_unlocked C = (bindp (ask_clock) (\<lambda>captured.
     bindp (ask_object Preflight) (\<lambda>h.
     bindp (observe_health C h False) (\<lambda>_.
     bindp (ask_object Fetch_State) (\<lambda>venue.
     bindp (liftp (snapshot_funds (ec_scope C) venue)) (\<lambda>(equity, available).
     bindp (ask_rows (Recovery_Trades (ls_environment (ec_scope C)) (ls_account_id (ec_scope C)))) (\<lambda>trades.
     bindp (liftp (snapshot_body C venue trades (instant_ms captured))) (\<lambda>(body, orders, margin).
     bindp (gets en_blockers) (\<lambda>blocked.
     let details = sa_details body @ blocked in
     (if details \<noteq> [] then (let text = take 2000 (join ''; '' (first_occurrences details)) in
     bindp (block_entries_unlocked C text) (\<lambda>_.
     unsafep text))
      else (bindp (ask_equity (local_scope C) captured equity) (\<lambda>eq.
     Ret \<lparr> as_source = ec_service_name C, as_account_id = ls_account_id (ec_scope C), as_equity = equity,
          as_available = available, as_margin_used = margin, as_day_start = eq_day_start eq, as_peak = eq_peak eq,
          as_unrealized = sa_unrealized body, as_open_risk = sa_risk body, as_positions = sa_positions body,
          as_open_orders = orders, as_captured_at_ms = instant_ms captured, as_reconciliation_seq = eq_seq eq,
          as_detail = ''SDK account, balance summaries, lifecycle lineage, effects and protection reconciled'' \<rparr>))))))))))))"

definition account_snapshot :: "engine_config \<Rightarrow> account_snapshot p_prog" where
  "account_snapshot C = with_account C (account_snapshot_unlocked C)"

end
