(* ===== verification/Paper_Guards.thy ===== *)
theory Paper_Guards
  imports Interaction_Rules Paper_Engine
begin

text \<open>
  The guards of the PAPER engine: what must have happened before the engine asks the venue for a
  mutation, confirms an effect, writes a lifecycle transition or completes a recovery. The predicates
  speak of the history alone; \<open>Paper_Lifecycle\<close> proves that the operations respect them.
\<close>

section \<open>Rules for the requests of the engine\<close>

lemma does_attempt [does_rules]:
  assumes "does G p t (\<lambda>a t'. P (Inr a) t')" "\<And>e u. P (Inl e) (t @ u)"
  shows "does G (attempt p) t P"
  unfolding attempt_def by (intro does_catchp does_bindp does_Ret does_conseq [OF assms(1)] assms(2))

lemma does_ask_p:
  "G t q \<Longrightarrow> (\<And>v. P () (t @ [(q, Inr v)])) \<Longrightarrow> does G (ask_p q) t P"
  by (simp add: ask_p_def does_def split_sum_all)

lemma does_modify [does_rules]: "P () t \<Longrightarrow> does G (modify f) t P"
  by (simp add: modify_def does_def)

lemma does_gets [does_rules]: "(\<And>a. P a t) \<Longrightarrow> does G (gets f) t P"
  by (simp add: gets_def does_def)

lemma does_with_lock:
  assumes "G t (Enter l)" "\<And>u. G u (Leave l)"
    and "\<And>v. does G body (t @ [(Enter l, Inr v)]) (\<lambda>a t'. \<forall>w. P a (t' @ [(Leave l, Inr w)]))"
  shows "does G (with_lock l body) t P"
  unfolding with_lock_def
proof (rule does_bindp, rule does_ask_p, rule assms(1), rule does_bindp, rule does_attempt)
  fix v
  show "does G body (t @ [(Enter l, Inr v)])
      (\<lambda>a t'. does G (bindp (ask_p (Leave l)) (\<lambda>_. liftp (Inr a))) t' P)"
    by (rule does_conseq [OF assms(3)]) (auto intro!: does_rules does_ask_p assms(2))
next
  fix v e u
  show "does G (bindp (ask_p (Leave l)) (\<lambda>_. liftp (Inl e))) ((t @ [(Enter l, Inr v)]) @ u) P"
    by (intro does_rules does_ask_p assms(2)) simp
qed

lemma keeps_gather:
  assumes "\<And>x. x \<in> set xs \<Longrightarrow> keeps G (f x)"
  shows "keeps G (gather f xs)"
  using assms
proof (induction xs)
  case Nil
  then show ?case by (simp add: keeps_def does_Ret)
next
  case (Cons x xs)
  then have "keeps G (f x)" "keeps G (gather f xs)" by auto
  then show ?case by (auto intro!: keepsI does_bindp does_keeps does_Ret)
qed

text \<open>The typed requests: one rule each, with the answer in the history.\<close>

lemma does_ask:
  "G t Clock \<Longrightarrow> (\<And>x. R x (t @ [(Clock, Inr (At_Time x))])) \<Longrightarrow> does G ask_clock t R"
  "G t q \<Longrightarrow> (\<And>x. B x (t @ [(q, Inr (Flag x))])) \<Longrightarrow> does G (ask_flag q) t B"
  "G t q \<Longrightarrow> (\<And>x. T x (t @ [(q, Inr (Rows x))])) \<Longrightarrow> does G (ask_rows q) t T"
  "G t (Get_Trade tid) \<Longrightarrow> (\<And>x. W x (t @ [(Get_Trade tid, Inr (Row x))])) \<Longrightarrow> does G (ask_trade tid) t W"
  "G t (List_Facts tid) \<Longrightarrow> (\<And>x. F x (t @ [(List_Facts tid, Inr (Facts x))])) \<Longrightarrow> does G (ask_facts tid) t F"
  "G t (Get_Fact tid key) \<Longrightarrow> (\<And>x. X x (t @ [(Get_Fact tid key, Inr (Fact x))])) \<Longrightarrow> does G (ask_fact tid key) t X"
  "G t q \<Longrightarrow> (\<And>x e. M (x, e) (t @ [(q, Inr (Moved x e))])) \<Longrightarrow> does G (ask_moved q) t M"
  "G t (Recovery_Effects k) \<Longrightarrow> (\<And>x. E x (t @ [(Recovery_Effects k, Inr (Effects x))])) \<Longrightarrow> does G (ask_effects k) t E"
  "G t (Get_Effect key) \<Longrightarrow> (\<And>x. Y x (t @ [(Get_Effect key, Inr (Effect x))])) \<Longrightarrow> does G (ask_effect key) t Y"
  "G t (Prepare s) \<Longrightarrow> (\<And>x. Z x (t @ [(Prepare s, Inr (Prepared_Effect x))])) \<Longrightarrow> does G (ask_prepared s) t Z"
  "G t (Reconcile key xid payload) \<Longrightarrow> (\<And>x. Y x (t @ [(Reconcile key xid payload, Inr (Effect x))])) \<Longrightarrow>
     does G (ask_reconcile key xid payload) t Y"
  by (auto simp: ask_clock_def ask_flag_def ask_rows_def ask_trade_def ask_facts_def ask_fact_def ask_moved_def
      ask_effects_def ask_effect_def ask_prepared_def ask_reconcile_def intro!: does_await split: p_response.splits)

lemma does_ask2:
  "G t q \<Longrightarrow> (\<And>x. O' x (t @ [(q, Inr (Object x))])) \<Longrightarrow> does G (ask_object q) t O'"
  "G t q \<Longrightarrow> (\<And>x. A x (t @ [(q, Inr (Maybe_Object x))])) \<Longrightarrow> does G (ask_maybe q) t A"
  "G t q \<Longrightarrow> (\<And>x. L x (t @ [(q, Inr (Objects x))])) \<Longrightarrow> does G (ask_objects q) t L"
  "G t (Begin_Recovery k) \<Longrightarrow> (\<And>x. N x (t @ [(Begin_Recovery k, Inr (Epoch x))])) \<Longrightarrow> does G (ask_epoch k) t N"
  "G t (Reserve k eid op c) \<Longrightarrow> (\<And>x. V x (t @ [(Reserve k eid op c, Inr (Reserved x))])) \<Longrightarrow> does G (ask_reserve k eid op c) t V"
  "G t (Latest_Health k) \<Longrightarrow> (\<And>x. H x (t @ [(Latest_Health k, Inr (Reserve_Health x))])) \<Longrightarrow> does G (ask_health k) t H"
  "G t (Record_Equity k now y) \<Longrightarrow> (\<And>x. U x (t @ [(Record_Equity k now y, Inr (Equity x))])) \<Longrightarrow>
     does G (ask_equity k now y) t U"
  by (auto simp: ask_object_def ask_maybe_def ask_objects_def ask_epoch_def ask_reserve_def ask_health_def ask_equity_def
      intro!: does_await split: p_response.splits)

section \<open>Mutations are journalled, budgeted and confirmed\<close>

fun mutation_key :: "mutation \<Rightarrow> string" where
  "mutation_key (Place_Limit eid _ _ _ _ _ _) = eid"
| "mutation_key (Create_Tpsl eid _ _ _ _ _ _) = eid"
| "mutation_key (Close_Position eid _ _ _ _) = eid"
| "mutation_key (Cancel_Order eid _ _) = eid"
| "mutation_key (Cancel_Tpsl eid _ _) = eid"

text \<open>Mutations that reduce exposure may use the part of the budget that entries and protection must
  leave.\<close>

fun compensates :: "mutation \<Rightarrow> bool" where
  "compensates (Place_Limit _ _ _ _ _ _ _) = False"
| "compensates (Create_Tpsl _ _ _ _ _ _ _) = False"
| "compensates _ = True"

text \<open>The durable row describes the mutation: a recovery can recognise it from the row alone.\<close>

fun describes :: "effect_spec \<Rightarrow> mutation \<Rightarrow> bool" where
  "describes s (Place_Limit eid cid symb side q price lev) \<longleftrightarrow>
     es_key s = eid \<and> es_type s = PLACE_ORDER \<and> es_symbol s = symb \<and> es_client_order_id s = cid
     \<and> map_of (es_request s) ''quantity_hex'' = Some (JStr (float_hex q))
     \<and> map_of (es_request s) ''limit_price_hex'' = Some (JStr (float_hex price))
     \<and> map_of (es_request s) ''leverage_hex'' = Some (JStr (float_hex lev))
     \<and> (\<exists>x. map_of (es_request s) ''side'' = Some (JStr x))"
| "describes s (Create_Tpsl eid symb side typ q price parent) \<longleftrightarrow>
     es_key s = eid \<and> es_type s = (if typ = ''STOP_LOSS'' then PROTECTIVE_STOP else TAKE_PROFIT_EFFECT) \<and> es_symbol s = symb
     \<and> map_of (es_request s) ''side'' = Some (JStr (v_side_text side))
     \<and> map_of (es_request s) ''tpsl_type'' = Some (JStr typ)
     \<and> map_of (es_request s) ''quantity_hex'' = Some (JStr (float_hex q))
     \<and> map_of (es_request s) ''price_hex'' = Some (JStr (float_hex price))
     \<and> map_of (es_request s) ''parent_order_id'' = Some (JStr parent)"
| "describes s (Close_Position eid cid symb q lev) \<longleftrightarrow>
     es_key s = eid \<and> es_type s \<in> {TIMEOUT_CLOSE, EMERGENCY_CLOSE_EFFECT} \<and> es_symbol s = symb \<and> es_client_order_id s = cid
     \<and> map_of (es_request s) ''quantity_hex'' = Some (JStr (float_hex q))
     \<and> map_of (es_request s) ''leverage_hex'' = Some (JStr (float_hex lev))"
| "describes s (Cancel_Order eid symb cid) \<longleftrightarrow>
     es_key s = eid \<and> es_type s = CANCEL_ORDER \<and> es_symbol s = symb \<and> es_client_order_id s = cid"
| "describes s (Cancel_Tpsl eid symb tid) \<longleftrightarrow>
     es_key s = eid \<and> es_type s = CANCEL_TPSL_EFFECT \<and> es_symbol s = symb
     \<and> map_of (es_request s) ''tpsl_id'' = Some (JStr tid)"

fun no_mutation :: "p_request \<Rightarrow> bool" where
  "no_mutation (Mutate _) = False"
| "no_mutation _ = True"

type_synonym p_trace = "(p_request, p_response) trace"

definition budgeted :: "mutation \<Rightarrow> p_trace \<Rightarrow> bool" where
  "budgeted m h \<longleftrightarrow> (\<exists>k op r. (Reserve k (mutation_key m) op (compensates m), Inr (Reserved r)) \<in> set h
     \<and> rs_granted r \<and> \<not> rs_replay r)"

text \<open>The last durable row before the mutation describes it, was created by this very call and has no
  answer yet; since then nothing was sent, and the budget was granted under the same key.\<close>

definition write_ahead :: "p_trace \<Rightarrow> mutation \<Rightarrow> bool" where
  "write_ahead h m \<longleftrightarrow> (\<exists>h1 spec p h2. h = h1 @ (Prepare spec, Inr (Prepared_Effect p)) # h2
     \<and> describes spec m \<and> pp_created p \<and> cached_effect (pp_effect p) = Inr None
     \<and> all_asks no_mutation h2 \<and> budgeted m h2)"

text \<open>A confirmation directly follows the answer it records.\<close>

definition answered :: "p_trace \<Rightarrow> string \<Rightarrow> obj \<Rightarrow> bool" where
  "answered h key response \<longleftrightarrow> (\<exists>h0 m. h = h0 @ [(Mutate m, Inr (Object response))] \<and> mutation_key m = key)"

section \<open>Lifecycle facts\<close>

definition moved :: "string \<Rightarrow> life \<Rightarrow> string \<Rightarrow> trade_row \<Rightarrow> p_trace \<Rightarrow> bool" where
  "moved tid target journal tr h \<longleftrightarrow>
     (\<exists>key b mv e. (Transition tid target journal key b mv, Inr (Moved tr e)) \<in> set h)"

definition fact_scoped :: "engine_config \<Rightarrow> trade_event \<Rightarrow> bool" where
  "fact_scoped C e \<longleftrightarrow> te_source e = ec_service_name C \<and> te_trading_mode e = ls_trading_mode (ec_scope C)
     \<and> te_profile e = ls_profile (ec_scope C)"

text \<open>Which facts may accompany which transition, and what they say of the quantities.\<close>

definition fact_shape :: "life \<Rightarrow> move \<Rightarrow> trade_event \<Rightarrow> bool" where
  "fact_shape target mv e \<longleftrightarrow> te_state e = target \<and> (case te_type e of
     ENTRY_CANCELLED \<Rightarrow> target = LIFE_CANCELLED \<and> te_role e = Some ENTRY \<and> te_filled_quantity e = fzero
   | RECONCILIATION \<Rightarrow> target = ENTRY_PENDING \<and> te_filled_quantity e = fzero
   | VENUE_ACK \<Rightarrow> target = ENTRY_PENDING \<and> te_filled_quantity e = fzero
   | ENTRY_FILLED \<Rightarrow> te_role e = Some ENTRY \<and> mv_filled_quantity mv = Some (te_filled_quantity e)
       \<and> close_to fzero (te_position_quantity e) (te_requested_quantity e)
   | ENTRY_PARTIAL_FILL \<Rightarrow> te_role e = Some ENTRY \<and> mv_filled_quantity mv = Some (te_filled_quantity e)
       \<and> \<not> close_to fzero (te_position_quantity e) (te_requested_quantity e)
   | STOP_CREATED \<Rightarrow> target = PROTECTING \<and> te_role e = Some STOP_LOSS \<and> te_exchange_order_id e = mv_stop_exchange_order_id mv
   | STOP_RECONCILED \<Rightarrow> target = PROTECTING \<and> te_role e = Some STOP_LOSS
       \<and> te_exchange_order_id e = mv_stop_exchange_order_id mv
   | TARGET_CREATED \<Rightarrow> target = PROTECTING \<and> te_role e = Some TAKE_PROFIT
       \<and> te_exchange_order_id e = mv_target_exchange_order_id mv
   | TARGET_RECONCILED \<Rightarrow> target = ACTIVE \<and> te_role e = Some TAKE_PROFIT
       \<and> te_exchange_order_id e = mv_target_exchange_order_id mv
   | EXIT_TRIGGERED \<Rightarrow> (case te_exit_reason e of
         Some EXIT_STOP \<Rightarrow> target = EXITING_STOP | Some EXIT_TARGET \<Rightarrow> target = EXITING_TARGET
       | Some EXIT_TIMEOUT \<Rightarrow> target = EXITING_TIMEOUT | Some EXIT_EMERGENCY \<Rightarrow> target = EXITING_EMERGENCY
       | None \<Rightarrow> False)
   | EXIT_FILLED \<Rightarrow> target = LIFE_FLAT \<and> te_position_quantity e = fzero
       \<and> te_exit_reason e \<in> {Some EXIT_STOP, Some EXIT_TARGET, Some EXIT_TIMEOUT}
   | EMERGENCY_CLOSE \<Rightarrow> target = LIFE_FLAT \<and> te_position_quantity e = fzero \<and> te_exit_reason e = Some EXIT_EMERGENCY
   | FACT_FAILED \<Rightarrow> target \<in> {PROTECTING, FAILED_BLOCKED}
   | _ \<Rightarrow> False)"

text \<open>A transition carries the fact the journal already holds under its key, or a new one of the right
  shape for the same trade.\<close>

definition fact_ok :: "engine_config \<Rightarrow> p_trace \<Rightarrow> string \<Rightarrow> life \<Rightarrow> string \<Rightarrow> event_builder \<Rightarrow> move \<Rightarrow> bool" where
  "fact_ok C h tid target key b mv = (case b of
     Replay_Event e \<Rightarrow> \<exists>h0. h = h0 @ [(Get_Fact tid key, Inr (Fact (Some e)))]
   | Build_Event e \<Rightarrow> fact_scoped C e \<and> te_trade_id e = tid \<and> fact_shape target mv e)"

text \<open>A trade is created for a validated, approved decision, with the fact that announces it.\<close>

definition creation_ok :: "engine_config \<Rightarrow> p_trace \<Rightarrow> new_trade \<Rightarrow> string \<Rightarrow> event_builder \<Rightarrow> bool" where
  "creation_ok C h nt key b \<longleftrightarrow>
     (\<exists>d cid. rd_approved d \<and> validate_decision C d = Inr () \<and> client_id (nt_trade_id nt) ENTRY (rd_decided_at_ms d) = Inr cid
        \<and> rd_trade_id d = Some (nt_trade_id nt) \<and> new_trade_of C d (nt_trade_id nt) cid = Inr nt)
   \<and> (case b of Replay_Event e \<Rightarrow> \<exists>h0. h = h0 @ [(Get_Fact (nt_trade_id nt) key, Inr (Fact (Some e)))]
      | Build_Event e \<Rightarrow> fact_scoped C e \<and> te_trade_id e = nt_trade_id nt \<and> te_type e = DECISION_RECEIVED
          \<and> te_state e = RECEIVED \<and> te_filled_quantity e = fzero \<and> te_position_quantity e = fzero)"

section \<open>Entries, targets and recoveries\<close>

text \<open>The account was clean for the trade: its recovery is complete, every other open trade, position,
  order and protection is accounted for, and the instrument is the one the decision was bound to.\<close>

definition account_admitted :: "engine_config \<Rightarrow> trade_row \<Rightarrow> p_trace \<Rightarrow> bool" where
  "account_admitted C tr h \<longleftrightarrow> (Entries_Allowed (local_scope C), Inr (Flag True)) \<in> set h
     \<and> (\<exists>venue durable d telemetry.
          (Fetch_State, Inr (Object venue)) \<in> set h
        \<and> (Recovery_Trades (ls_environment (ec_scope C)) (ls_account_id (ec_scope C)), Inr (Rows durable)) \<in> set h
        \<and> authoritative_account_blockers C venue durable (Some (tw_trade_id tr)) = Inr []
        \<and> (\<forall>x \<in> set durable. tw_trade_id x = tw_trade_id tr)
        \<and> decision_for_trade C tr = Inr d \<and> assert_canary_instrument C d venue = Inr telemetry)"

text \<open>The market was live and fresh for the decision.\<close>

definition market_admitted :: "risk_decision \<Rightarrow> string \<Rightarrow> p_trace \<Rightarrow> bool" where
  "market_admitted d symb h \<longleftrightarrow> (\<exists>depth now now' telemetry.
     (Fetch_Depth symb, Inr (Object depth)) \<in> set h \<and> (Clock, Inr (At_Time now)) \<in> set h
   \<and> assert_live_book d depth (instant_ms now) = Inr telemetry
   \<and> (Clock, Inr (At_Time now')) \<in> set h \<and> assert_fresh_market d (instant_ms now') = Inr ())"

text \<open>What the budget leaves after the entry funds the stop, the target and the compensation.\<close>

definition headroom :: "string \<Rightarrow> p_trace \<Rightarrow> bool" where
  "headroom eid h \<longleftrightarrow> (\<exists>k op r. (Reserve k eid op False, Inr (Reserved r)) \<in> set h
     \<and> rs_granted r \<and> \<not> rs_replay r \<and> 6 \<le> rs_remaining r)"

text \<open>The trade was created by this engine for this decision, was new, and was moved to
  \<open>ENTRY_PENDING\<close>.\<close>

definition opened :: "engine_config \<Rightarrow> risk_decision \<Rightarrow> string \<Rightarrow> string \<Rightarrow> trade_row \<Rightarrow> p_trace \<Rightarrow> bool" where
  "opened C d eid cid tr h \<longleftrightarrow> rd_approved d \<and> validate_decision C d = Inr () \<and>
     (\<exists>tid nt key b tr0 e. rd_trade_id d = Some tid \<and> eid = effect_id C tid ENTRY ''place''
        \<and> client_id tid ENTRY (rd_decided_at_ms d) = Inr cid \<and> new_trade_of C d tid cid = Inr nt
        \<and> (Create_With_Event nt key b, Inr (Moved tr0 e)) \<in> set h \<and> tw_state tr0 = RECEIVED
        \<and> moved (tw_trade_id tr0) ENTRY_PENDING ''ENTRY_EFFECT_READY'' tr h)"

fun entry_ok :: "engine_config \<Rightarrow> p_trace \<Rightarrow> mutation \<Rightarrow> bool" where
  "entry_ok C h (Place_Limit eid cid symb side q price lev) \<longleftrightarrow>
     (\<exists>d sc tr spec p h1 h2 a b c.
        h = h1 @ (Prepare spec, Inr (Prepared_Effect p)) # h2
              @ [(Enter (Operator_Dispatch d sc eid), Inr a), (Enter (Canary_Dispatch d sc eid), Inr b),
                 (Check_Entry d sc eid, Inr c)]
      \<and> ec_canary_scope C = Some sc \<and> opened C d eid cid tr h1
      \<and> account_admitted C tr h2 \<and> market_admitted d symb h2 \<and> headroom eid h2
      \<and> symb = tw_symbol tr \<and> side = order_side_of d \<and> q = rd_quantity d \<and> price = rd_worst_entry_price d
      \<and> lev = rd_leverage d)"
| "entry_ok C h _ \<longleftrightarrow> True"

text \<open>A protection leg is on the venue and in the journal: a live record of it was found and validated
  against the row, recorded under the effect of its creation, and the transition was acknowledged.\<close>

definition leg_recorded :: "engine_config \<Rightarrow> order_role \<Rightarrow> trade_row \<Rightarrow> trade_row \<Rightarrow> p_trace \<Rightarrow> bool" where
  "leg_recorded C role tr0 tr h \<longleftrightarrow> (\<exists>tid venue_symbol xid rec r symb typ price.
     (Find_Tpsl symb xid typ price, Inr (Maybe_Object (Some rec))) \<in> set h
   \<and> validate_tpsl rec (tpsl_plan_of tr0 venue_symbol role) True False = Inr ()
   \<and> (Reconcile (effect_id C tid role ''create'') (Some xid) rec, Inr r) \<in> set h
   \<and> moved (tw_trade_id tr0) (if role = STOP_LOSS then PROTECTING else ACTIVE)
       (if role = STOP_LOSS then ''STOP_RECONCILED'' else ''TARGET_RECONCILED_POSITION_ACTIVE'') tr h)"

text \<open>A target is created only for the row the journal answered when the stop had been recorded.\<close>

fun target_ok :: "engine_config \<Rightarrow> p_trace \<Rightarrow> mutation \<Rightarrow> bool" where
  "target_ok C h (Create_Tpsl eid symb side typ q price parent) \<longleftrightarrow> typ = ''STOP_LOSS''
   \<or> (\<exists>tr0 tr. typ = ''TAKE_PROFIT'' \<and> leg_recorded C STOP_LOSS tr0 tr h
        \<and> eid = effect_id C (tw_trade_id tr) TAKE_PROFIT ''create'' \<and> symb = tw_symbol tr
        \<and> parent = tw_entry_client_order_id tr \<and> price = tw_target_price tr)"
| "target_ok C h _ \<longleftrightarrow> True"

text \<open>A recovery completes under the epoch it began, on a venue state whose audit found nothing.\<close>

definition audited :: "engine_config \<Rightarrow> p_trace \<Rightarrow> bool" where
  "audited C h \<longleftrightarrow> (\<exists>venue trades.
     (Fetch_State, Inr (Object venue)) \<in> set h
   \<and> (Recovery_Trades (ls_environment (ec_scope C)) (ls_account_id (ec_scope C)), Inr (Rows trades)) \<in> set h
   \<and> authoritative_account_blockers C venue trades None = Inr [])"

definition recovery_ok :: "engine_config \<Rightarrow> p_trace \<Rightarrow> account_key \<Rightarrow> int \<Rightarrow> bool" where
  "recovery_ok C h k epoch \<longleftrightarrow> k = local_scope C \<and> audited C h
     \<and> (Begin_Recovery k, Inr (Epoch epoch)) \<in> set h"

section \<open>The interface of a guard\<close>

fun quiet :: "p_request \<Rightarrow> bool" where
  "quiet (Mutate _) = False"
| "quiet (Confirm _ _ _) = False"
| "quiet (Transition _ _ _ _ _ _) = False"
| "quiet (Create_With_Event _ _ _) = False"
| "quiet (Complete_Recovery _ _ _) = False"
| "quiet _ = True"

fun is_entry :: "mutation \<Rightarrow> bool" where
  "is_entry (Place_Limit _ _ _ _ _ _ _) = True"
| "is_entry _ = False"

text \<open>A guard that admits what the lifecycle operations ask for. Everything but the entry of a new trade
  respects such a guard; the entry respects one that also admits justified entries.\<close>

locale lifecycle_guard =
  fixes C :: engine_config
    and G :: "p_trace \<Rightarrow> p_request \<Rightarrow> bool"
  assumes quiet_ok: "quiet q \<Longrightarrow> G h q"
    and confirm_ok: "answered h key response \<Longrightarrow> G h (Confirm key xid response)"
    and transition_ok: "fact_ok C h tid target key b mv \<Longrightarrow> G h (Transition tid target journal key b mv)"
    and complete_ok: "recovery_ok C h k epoch \<Longrightarrow> G h (Complete_Recovery k epoch detail)"
    and mutate_ok: "write_ahead h m \<Longrightarrow> target_ok C h m \<Longrightarrow> \<not> is_entry m \<Longrightarrow> G h (Mutate m)"

locale entry_guard = lifecycle_guard +
  assumes create_ok: "creation_ok C h nt key b \<Longrightarrow> G h (Create_With_Event nt key b)"
    and entry_ok: "write_ahead h m \<Longrightarrow> entry_ok C h m \<Longrightarrow> is_entry m \<Longrightarrow> G h (Mutate m)"

end
