(* ===== verification/Paper_Evidence.thy ===== *)
theory Paper_Evidence
  imports Paper_Engine
begin

text \<open>
  What the pure checks of the PAPER engine establish when they return: the acknowledgement of an entry
  is within the decision, a TP/SL record is the planned protection, a flat position is attributed to the
  one protection whose generated order filled it, and an account without blockers is accounted for.
\<close>

section \<open>Results of folds and traversals\<close>

lemma rtraverse_two:
  "rtraverse f [a, b] = Inr xs \<longleftrightarrow> (\<exists>x y. xs = [x, y] \<and> f a = Inr x \<and> f b = Inr y)"
  by (auto simp: rbind_eq_Inr)

lemma rtraverse_set: "rtraverse f xs = Inr ys \<Longrightarrow> y \<in> set ys \<Longrightarrow> \<exists>x \<in> set xs. f x = Inr y"
  by (induction xs arbitrary: ys) (auto simp: rbind_eq_Inr)

lemma rtraverse_all: "rtraverse f xs = Inr ys \<Longrightarrow> x \<in> set xs \<Longrightarrow> \<exists>y \<in> set ys. f x = Inr y"
  by (induction xs arbitrary: ys) (auto simp: rbind_eq_Inr)

lemma rfilter_set: "rfilter p xs = Inr ys \<Longrightarrow> y \<in> set ys \<longleftrightarrow> y \<in> set xs \<and> p y = Inr True"
  by (induction xs arbitrary: ys) (auto simp: rbind_eq_Inr split: if_splits)

lemma chk_ok [simp]: "chk c m = Inr u \<longleftrightarrow> c"
  by (simp add: ensure_ok_iff)

lemma Let_eqE: "Let e f = y \<Longrightarrow> (\<And>z. z = e \<Longrightarrow> f z = y \<Longrightarrow> R) \<Longrightarrow> R"
  by simp

lemma required_someE:
  "(case x of None \<Rightarrow> Inl e | Some y \<Rightarrow> f y) = Inr z \<Longrightarrow> (\<And>y. x = Some y \<Longrightarrow> f y = Inr z \<Longrightarrow> R) \<Longrightarrow> R"
  by (cases x) auto

section \<open>Attribution of a flat position\<close>

text \<open>What may prove that a protection triggered: its record on the venue, or else the records of it among the
  events of the sidecar.\<close>

definition protection_of :: "trade_row \<Rightarrow> order_role \<Rightarrow> string option" where
  "protection_of tr role = (if role = STOP_LOSS then tw_stop_exchange_order_id tr else tw_target_exchange_order_id tr)"

definition with_id :: "string \<Rightarrow> obj list \<Rightarrow> obj list" where
  "with_id i ds = filter (\<lambda>d. field_text d ''id'' ''None'' = i) ds"

definition evidence_records :: "obj \<Rightarrow> obj list \<Rightarrow> string \<Rightarrow> obj list" where
  "evidence_records venue recs i = (case as_list (field venue ''tpsl'') of Inl _ \<Rightarrow> []
     | Inr items \<Rightarrow> if with_id i items = [] then with_id i recs else with_id i items)"

definition triggered_status :: "obj \<Rightarrow> bool" where
  "triggered_status d \<longleftrightarrow> casefold (field_text d ''status'' []) \<in> {''process'', ''triggered'', ''done''}"

text \<open>A record of the protection the row plans: its instrument, role, side, price and parent.\<close>

definition protects :: "string \<Rightarrow> trade_row \<Rightarrow> order_role \<Rightarrow> obj \<Rightarrow> bool" where
  "protects symb tr role d \<longleftrightarrow> upper_field d ''instrument'' = py_upper symb
   \<and> dashed (field_text d ''type'' []) = dashed (if role = STOP_LOSS then ''STOP_LOSS'' else ''TAKE_PROFIT'')
   \<and> upper_field d ''side'' = py_upper (tw_side tr)
   \<and> (\<exists>p. positive (field d ''price'') ''TP/SL price'' = Inr p
        \<and> close_to eps9 p (if role = STOP_LOSS then tw_stop_price tr else tw_target_price tr))
   \<and> (field d ''order'' = JNull \<or> py_str (field d ''order'') = tw_entry_client_order_id tr)"

definition planned_protection :: "lifecycle_scope \<Rightarrow> trade_row \<Rightarrow> order_role \<Rightarrow> obj \<Rightarrow> bool" where
  "planned_protection sc tr role d \<longleftrightarrow> (\<exists>symb. symbol_of sc (tw_symbol tr) = Inr symb \<and> protects symb tr role d)"

text \<open>A filled market order that closes the side of the row, with its quantity, average price and fee.\<close>

definition closing_fill :: "lifecycle_scope \<Rightarrow> trade_row \<Rightarrow> obj \<Rightarrow> f64 \<Rightarrow> f64 \<Rightarrow> f64 \<Rightarrow> f64 \<Rightarrow> bool" where
  "closing_fill sc tr d triggered filled avg fee \<longleftrightarrow>
     (\<exists>symb. symbol_of sc (tw_symbol tr) = Inr symb \<and> upper_field d ''instrument'' = py_upper symb)
   \<and> upper_field d ''side'' = (if tw_side tr = ''BUY'' then ''SELL'' else ''BUY'')
   \<and> upper_field d ''type'' = ''MARKET'' \<and> order_status_text d [] = ''FILLED''
   \<and> required_number d ''quantity'' = Inr filled \<and> close_to (tolerance triggered) filled triggered
   \<and> (\<exists>rest. required_number d ''unFilledQuantity'' = Inr rest \<and> close_to (tolerance triggered) rest fzero)
   \<and> positive (field d ''filledAvgPrice'') ''trigger fill average price'' = Inr avg
   \<and> field d ''fee'' \<noteq> JNull \<and> order_fee_usd d True = Inr fee"

text \<open>The evidence behind an attributed exit: a record of the protection the row names, triggered and
  uncancelled, every triggered record of it with the same generated order, and that order, the only
  one of its id in the order history, a closing fill of the filled quantity of the row.\<close>

definition attributed :: "lifecycle_scope \<Rightarrow> trade_row \<Rightarrow> obj \<Rightarrow> obj list \<Rightarrow> venue_exit \<Rightarrow> bool" where
  "attributed sc tr venue recs x \<longleftrightarrow>
     (vx_role x, vx_reason x, vx_target_state x) \<in>
        {(STOP_LOSS, EXIT_STOP, EXITING_STOP), (TAKE_PROFIT, EXIT_TARGET, EXITING_TARGET)}
   \<and> protection_of tr (vx_role x) = Some (vx_protection_id x)
   \<and> (\<exists>rec triggered. rec \<in> set (evidence_records venue recs (vx_protection_id x)) \<and> triggered_status rec
        \<and> positive (field rec ''triggeredQuantity'') ''TP/SL triggeredQuantity'' = Inr triggered
        \<and> close_to (tolerance (tw_filled_quantity tr)) triggered (tw_filled_quantity tr)
        \<and> closing_fill sc tr (vx_trigger_order x) triggered (vx_filled x) (vx_average x) (vx_fee x))
   \<and> list_all (planned_protection sc tr (vx_role x)) (evidence_records venue recs (vx_protection_id x))
   \<and> list_all (\<lambda>d. triggered_status d \<longrightarrow> field d ''cancelledReason'' = JStr []
          \<and> required_text (field d ''triggerOrder'') ''triggered TP/SL exit order ID'' = Inr (vx_trigger_order_id x))
        (evidence_records venue recs (vx_protection_id x))
   \<and> (\<exists>items. as_list (field venue ''order_history'') = Inr items
        \<and> with_id (vx_trigger_order_id x) items = [vx_trigger_order x])"

text \<open>No record of the protection of a role shows it triggered.\<close>

definition untriggered :: "trade_row \<Rightarrow> obj \<Rightarrow> obj list \<Rightarrow> order_role \<Rightarrow> bool" where
  "untriggered tr venue recs role \<longleftrightarrow> (case protection_of tr role of None \<Rightarrow> True
     | Some i \<Rightarrow> \<not> list_ex triggered_status (evidence_records venue recs i))"

lemma find_by_idD:
  assumes "find_by_id key msg venue i = Inr found"
  obtains items where "as_list (field venue key) = Inr items" "with_id i items = (case found of None \<Rightarrow> [] | Some d \<Rightarrow> [d])"
  using assms unfolding find_by_id_def with_id_def by (auto elim!: rbind_InrE split: list.splits if_splits)

lemma found_records:
  assumes "find_tpsl_by_id venue (Some i) = Inr found"
  shows "evidence_records venue recs i = (case found of Some d \<Rightarrow> [d] | None \<Rightarrow> filter (\<lambda>d. field_text d ''id'' ''None'' = i) recs)"
  using assms unfolding find_tpsl_by_id_def option.case
  by (elim find_by_idD) (auto simp: evidence_records_def with_id_def split: option.splits)

lemma validate_tpslD:
  assumes "validate_tpsl d (tpsl_plan_of tr symb role) live par = Inr ()" "role \<in> {STOP_LOSS, TAKE_PROFIT}"
  shows "protects symb tr role d" "live \<Longrightarrow> casefold (field_text d ''status'' []) \<in> {''waitorder'', ''active''}"
  using assms unfolding validate_tpsl_def protects_def Let_def
  by (elim rbind_InrE; auto simp: tpsl_plan_of_def tpsl_type_text_def ensure_ok_iff is_live_tpsl_def tpsl_status_def)+

lemma validate_tpsl_planned:
  "validate_tpsl d (tpsl_plan_of tr symb role) live par = Inr () \<Longrightarrow> symbol_of sc (tw_symbol tr) = Inr symb
    \<Longrightarrow> role \<in> {STOP_LOSS, TAKE_PROFIT} \<Longrightarrow> planned_protection sc tr role d"
  using validate_tpslD(1) unfolding planned_protection_def by blast

lemma validate_trigger_fill:
  assumes "validate_trigger_order sc tr d i triggered = Inr (filled, avg, fee)"
  shows "closing_fill sc tr d triggered filled avg fee"
  using assms unfolding validate_trigger_order_def closing_fill_def Let_def
  by (elim rbind_InrE) (auto simp: ensure_ok_iff order_fee_usd_def)

lemma rtraverse_hd: "rtraverse f xs = Inr ys \<Longrightarrow> xs \<noteq> [] \<Longrightarrow> f (hd xs) = Inr (hd ys)"
  by (cases xs) (auto simp: rbind_eq_Inr)

lemma terminal_recordD:
  "terminal_record sc plan rec = Inr b \<Longrightarrow> (b \<longleftrightarrow> triggered_status rec) \<and> validate_tpsl rec plan False False = Inr ()"
  unfolding terminal_record_def
  by (erule rbind_InrE) (auto simp: rbind_eq_Inr is_terminal_tpsl_def tpsl_status_def triggered_status_def split: if_splits)

lemma rfilter_all: "rfilter p xs = Inr ys \<Longrightarrow> x \<in> set xs \<Longrightarrow> \<exists>b. p x = Inr b"
  by (induction xs arbitrary: ys) (auto simp: rbind_eq_Inr split: if_splits)

lemma remdups_one: "length (remdups xs) = 1 \<Longrightarrow> x \<in> set xs \<Longrightarrow> x = hd xs"
proof -
  assume "length (remdups xs) = 1" "x \<in> set xs"
  then obtain y where "remdups xs = [y]" by (cases "remdups xs") auto
  then have "set xs = {y}" by (metis set_remdups list.simps(15) list.set(1))
  then show ?thesis using \<open>x \<in> set xs\<close> by (metis hd_in_set empty_iff list.set(1) singletonD)
qed

text \<open>The triggered ones among validated records.\<close>

lemma terminal_records:
  assumes f: "rfilter (terminal_record sc (tpsl_plan_of tr symb role)) rs = Inr terminal"
    and s: "symbol_of sc (tw_symbol tr) = Inr symb" and r: "role \<in> {STOP_LOSS, TAKE_PROFIT}"
  shows "list_all (planned_protection sc tr role) rs" "d \<in> set terminal \<longleftrightarrow> d \<in> set rs \<and> triggered_status d"
proof -
  have ok: "(\<exists>b. terminal_record sc (tpsl_plan_of tr symb role) x = Inr b)" if "x \<in> set rs" for x
    using rfilter_all [OF f that] .
  then show "list_all (planned_protection sc tr role) rs"
    using terminal_recordD validate_tpsl_planned [OF _ s r] by (fastforce simp: list_all_iff)
  show "d \<in> set terminal \<longleftrightarrow> d \<in> set rs \<and> triggered_status d"
    using rfilter_set [OF f, of d] ok [of d] terminal_recordD by (metis (full_types))
qed

lemma proven_roleD:
  assumes e: "proven_role sc tr venue recs role = Inr xs" and x: "x \<in> set xs" and r: "role \<in> {STOP_LOSS, TAKE_PROFIT}"
  shows "attributed sc tr venue recs x \<and> vx_role x = role \<and> xs = [x]"
proof -
  define pid where "pid = (if role = STOP_LOSS then tw_stop_exchange_order_id tr else tw_target_exchange_order_id tr)"
  define kind where "kind = (if role = STOP_LOSS then ''STOP_LOSS'' else ''TAKE_PROFIT'')"
  define price where "price = (if role = STOP_LOSS then tw_stop_price tr else tw_target_price tr)"
  define reason where "reason = (if role = STOP_LOSS then EXIT_STOP else EXIT_TARGET)"
  define target where "target = (if role = STOP_LOSS then EXITING_STOP else EXITING_TARGET)"
  have tuple: "(if role = STOP_LOSS then (tw_stop_exchange_order_id tr, ''STOP_LOSS'', tw_stop_price tr, EXIT_STOP, EXITING_STOP)
      else (tw_target_exchange_order_id tr, ''TAKE_PROFIT'', tw_target_price tr, EXIT_TARGET, EXITING_TARGET))
    = (pid, kind, price, reason, target)"
    by (simp add: pid_def kind_def price_def reason_def target_def)
  from e x show ?thesis
    unfolding proven_role_def tuple Let_def [of "(pid, kind, price, reason, target)"] prod.case
  proof (cases pid)
    case (Some protection)
    assume "(case pid of None \<Rightarrow> Inr [] | Some protection \<Rightarrow>
       rbind (find_tpsl_by_id venue (Some protection)) (\<lambda>authoritative.
       let records = (case authoritative of Some d \<Rightarrow> [d]
             | None \<Rightarrow> filter (\<lambda>d. field_text d ''id'' ''None'' = protection) recs) in
       if records = [] then Inr [] else
       rbind (symbol_of sc (tw_symbol tr)) (\<lambda>symb.
       rbind (rfilter (terminal_record sc \<lparr> tp_venue_symbol = symb, tp_side = tw_side tr, tp_type = kind,
                 tp_price = price, tp_parent = tw_entry_client_order_id tr \<rparr>) records) (\<lambda>terminal.
       if terminal = [] then Inr [] else
       rbind (rtraverse (\<lambda>d. required_text (field d ''triggerOrder'') ''triggered TP/SL exit order ID'') terminal) (\<lambda>ids.
       rbind (chk (length (remdups ids) = 1) ''TP/SL trigger projections disagree on exit order ID'') (\<lambda>_.
       rbind (rtraverse (\<lambda>d. positive (field d ''triggeredQuantity'') ''TP/SL triggeredQuantity'') terminal) (\<lambda>qs.
       rbind (chk (length (remdups qs) = 1) ''TP/SL trigger projections disagree on quantity'') (\<lambda>_.
       rbind (chk (close_to (tolerance (tw_filled_quantity tr)) (hd qs) (tw_filled_quantity tr))
                ''triggered TP/SL quantity differs from durable filled exposure'') (\<lambda>_.
       rbind (chk (list_all (\<lambda>d. field d ''cancelledReason'' = JStr []) terminal)
                ''triggered TP/SL has a cancellation reason or malformed reason'') (\<lambda>_.
       rbind (find_historical_order venue (hd ids)) (\<lambda>order.
       case order of
         None \<Rightarrow> Inl (unsafe ''triggered TP/SL lacks its generated order in complete order history'')
       | Some d \<Rightarrow> rbind (validate_trigger_order sc tr d (hd ids) (hd qs)) (\<lambda>(filled, avg, fee).
           Inr [\<lparr> vx_role = role, vx_reason = reason, vx_target_state = target, vx_protection_id = protection,
             vx_trigger_order_id = hd ids, vx_trigger_order = d, vx_filled = filled, vx_average = avg,
             vx_fee = fee \<rparr>])))))))))))) = Inr xs"
    then obtain authoritative symb terminal ids qs order filled avg fee where
      a: "find_tpsl_by_id venue (Some protection) = Inr authoritative"
      and s: "symbol_of sc (tw_symbol tr) = Inr symb"
      and f: "rfilter (terminal_record sc \<lparr> tp_venue_symbol = symb, tp_side = tw_side tr, tp_type = kind,
                 tp_price = price, tp_parent = tw_entry_client_order_id tr \<rparr>)
          (case authoritative of Some d \<Rightarrow> [d]
             | None \<Rightarrow> filter (\<lambda>d. field_text d ''id'' ''None'' = protection) recs) = Inr terminal" "terminal \<noteq> []"
      and ids: "rtraverse (\<lambda>d. required_text (field d ''triggerOrder'') ''triggered TP/SL exit order ID'') terminal = Inr ids"
        "length (remdups ids) = 1"
      and qs: "rtraverse (\<lambda>d. positive (field d ''triggeredQuantity'') ''TP/SL triggeredQuantity'') terminal = Inr qs"
      and c: "close_to (tolerance (tw_filled_quantity tr)) (hd qs) (tw_filled_quantity tr)"
        "list_all (\<lambda>d. field d ''cancelledReason'' = JStr []) terminal"
      and h: "find_historical_order venue (hd ids) = Inr (Some order)"
      and v: "validate_trigger_order sc tr order (hd ids) (hd qs) = Inr (filled, avg, fee)"
      and xs: "xs = [\<lparr> vx_role = role, vx_reason = reason, vx_target_state = target, vx_protection_id = protection,
             vx_trigger_order_id = hd ids, vx_trigger_order = order, vx_filled = filled, vx_average = avg, vx_fee = fee \<rparr>]"
      using x unfolding Some option.case
      apply -
      apply (erule rbind_InrE, erule Let_eqE)
      apply (split if_split_asm)
       apply simp
      apply (erule rbind_InrE, erule rbind_InrE)
      apply (split if_split_asm)
       apply simp
      apply (elim rbind_InrE)
      apply (erule required_someE, erule rbind_InrE)
      apply auto
      done
    have plan: "\<lparr> tp_venue_symbol = symb, tp_side = tw_side tr, tp_type = kind,
                 tp_price = price, tp_parent = tw_entry_client_order_id tr \<rparr> = tpsl_plan_of tr symb role"
      using r by (auto simp: tpsl_plan_of_def tpsl_type_text_def kind_def price_def)
    note terminal = terminal_records [OF f(1) [unfolded plan found_records [OF a, symmetric]] s r]
    have hd: "hd terminal \<in> set (evidence_records venue recs protection)" "triggered_status (hd terminal)"
      using terminal(2) [of "hd terminal"] f(2) by auto
    have agree: "required_text (field d ''triggerOrder'') ''triggered TP/SL exit order ID'' = Inr (hd ids)"
      if "d \<in> set terminal" for d
      using rtraverse_all [OF ids(1) that] remdups_one [OF ids(2)] by auto
    obtain items where items: "as_list (field venue ''order_history'') = Inr items" "with_id (hd ids) items = [order]"
      using h unfolding find_historical_order_def by (auto elim!: find_by_idD)
    have "protection_of tr role = Some protection" using Some r by (auto simp: pid_def protection_of_def)
    moreover have "(role, reason, target) \<in> {(STOP_LOSS, EXIT_STOP, EXITING_STOP), (TAKE_PROFIT, EXIT_TARGET, EXITING_TARGET)}"
      using r by (auto simp: reason_def target_def)
    ultimately have "attributed sc tr venue recs (hd xs)"
      using rtraverse_hd [OF qs f(2)] c items hd terminal agree validate_trigger_fill [OF v]
      unfolding attributed_def xs by (auto simp: list_all_iff)
    then show ?thesis using x xs by simp
  qed auto
qed

lemma proven_role_none:
  assumes e: "proven_role sc tr venue recs role = Inr []" and r: "role \<in> {STOP_LOSS, TAKE_PROFIT}"
  shows "untriggered tr venue recs role"
proof (cases "protection_of tr role")
  case (Some i)
  define kind where "kind = (if role = STOP_LOSS then ''STOP_LOSS'' else ''TAKE_PROFIT'')"
  define price where "price = (if role = STOP_LOSS then tw_stop_price tr else tw_target_price tr)"
  have tuple: "(if role = STOP_LOSS then (tw_stop_exchange_order_id tr, ''STOP_LOSS'', tw_stop_price tr, EXIT_STOP, EXITING_STOP)
      else (tw_target_exchange_order_id tr, ''TAKE_PROFIT'', tw_target_price tr, EXIT_TARGET, EXITING_TARGET))
    = (Some i, kind, price, if role = STOP_LOSS then EXIT_STOP else EXIT_TARGET,
        if role = STOP_LOSS then EXITING_STOP else EXITING_TARGET)"
    using Some by (auto simp: kind_def price_def protection_of_def)
  have plan: "\<lparr> tp_venue_symbol = symb, tp_side = tw_side tr, tp_type = kind,
               tp_price = price, tp_parent = tw_entry_client_order_id tr \<rparr> = tpsl_plan_of tr symb role" for symb
    using r by (auto simp: tpsl_plan_of_def tpsl_type_text_def kind_def price_def)
  have "\<not> triggered_status d" if d: "d \<in> set (evidence_records venue recs i)" for d
  proof
    assume t: "triggered_status d"
    have nonempty: "terminal \<noteq> []"
      if "rfilter (terminal_record sc (tpsl_plan_of tr symb role)) (evidence_records venue recs i) = Inr terminal"
        "symbol_of sc (tw_symbol tr) = Inr symb" for symb terminal
      using terminal_records(2) [OF that r, of d] d t by auto
    from e show False
      unfolding proven_role_def tuple Let_def prod.case plan option.case
      apply -
      apply (erule rbind_InrE)
      subgoal premises prems for a
      proof -
        note rest = prems(2) [folded found_records [OF prems(1)]]
        show False
          using rest d nonempty
          by (auto elim!: rbind_InrE split: if_split_asm option.splits prod.splits)
      qed
      done
  qed
  then show ?thesis by (simp add: untriggered_def Some list_ex_iff)
qed (simp add: untriggered_def)

text \<open>The events of the sidecar that the attribution may use.\<close>

definition tpsl_events :: "obj list \<Rightarrow> obj list" where
  "tpsl_events sidecar_events = concat (map (\<lambda>d. event_objects (field d ''payload''))
     (filter (\<lambda>d. upper_field d ''type'' = ''TPSL'') sidecar_events))"

lemma proven_venue_triggerD:
  assumes "proven_venue_trigger sc tr venue sidecar_events = Inr (Some x)"
  shows "attributed sc tr venue (tpsl_events sidecar_events) x"
    and "untriggered tr venue (tpsl_events sidecar_events) (if vx_role x = STOP_LOSS then TAKE_PROFIT else STOP_LOSS)"
proof -
  obtain xss where xss: "rtraverse (proven_role sc tr venue (tpsl_events sidecar_events)) [STOP_LOSS, TAKE_PROFIT] = Inr xss"
    and cs: "(case concat xss of [] \<Rightarrow> Inr None | x # rest \<Rightarrow> if rest = [] then Inr (Some x)
          else Inl (unsafe ''STOP and TARGET both have authoritative fill evidence'')) = Inr (Some x)"
    using assms unfolding proven_venue_trigger_def Let_def tpsl_events_def [symmetric] by (elim rbind_InrE)
  obtain xs ys where r: "proven_role sc tr venue (tpsl_events sidecar_events) STOP_LOSS = Inr xs"
      "proven_role sc tr venue (tpsl_events sidecar_events) TAKE_PROFIT = Inr ys"
    and "xss = [xs, ys]"
    using xss unfolding rtraverse_two by blast
  moreover have "concat xss = [x]"
    using cs by (cases "concat xss") (auto split: if_splits)
  ultimately have "xs @ ys = [x]" by simp
  then consider "xs = [x]" "ys = []" | "xs = []" "ys = [x]" by (auto simp: append_eq_Cons_conv)
  then have "attributed sc tr venue (tpsl_events sidecar_events) x
    \<and> untriggered tr venue (tpsl_events sidecar_events) (if vx_role x = STOP_LOSS then TAKE_PROFIT else STOP_LOSS)"
  proof cases
    case 1
    then show ?thesis using proven_roleD [OF r(1), of x] proven_role_none r(2) by simp
  next
    case 2
    then show ?thesis using proven_roleD [OF r(2), of x] proven_role_none r(1) by simp
  qed
  then show "attributed sc tr venue (tpsl_events sidecar_events) x"
    "untriggered tr venue (tpsl_events sidecar_events) (if vx_role x = STOP_LOSS then TAKE_PROFIT else STOP_LOSS)"
    by blast+
qed

lemma classify_flat_exitD:
  "classify_flat_exit sc tr venue sidecar_events = Inr x \<Longrightarrow>
     proven_venue_trigger sc tr venue sidecar_events = Inr (Some x)"
  unfolding classify_flat_exit_def by (auto elim!: rbind_InrE split: option.splits)

lemma classified_shape:
  assumes "classify_flat_exit sc tr venue sidecar_events = Inr x"
  shows "(vx_role x, vx_reason x, vx_target_state x) \<in> {(STOP_LOSS, EXIT_STOP, EXITING_STOP), (TAKE_PROFIT, EXIT_TARGET, EXITING_TARGET)}"
  using conjunct1 [OF proven_venue_triggerD(1) [OF classify_flat_exitD [OF assms], unfolded attributed_def]] by auto

section \<open>Accounts without blockers\<close>

text \<open>The loops only ever add messages: an empty list at the end was empty all along.\<close>

lemma rfold_grows:
  assumes "\<And>s x s'. f s x = Inr s' \<Longrightarrow> g s' = [] \<Longrightarrow> g s = []"
    and "rfold f s xs = Inr s'" "g s' = []"
  shows "g s = []"
  using assms(2,3)
proof (induction xs arbitrary: s)
  case (Cons x xs)
  then show ?case using assms(1) by (auto simp: rbind_eq_Inr)
qed simp

lemma rfold_step:
  assumes grows: "\<And>s x s'. f s x = Inr s' \<Longrightarrow> g s' = [] \<Longrightarrow> g s = []"
    and "rfold f s xs = Inr s'" "g s' = []" "x \<in> set xs"
  shows "\<exists>a b. f a x = Inr b \<and> g a = [] \<and> g b = []"
  using assms(2,3,4)
proof (induction xs arbitrary: s)
  case (Cons y ys)
  then obtain b where b: "f s y = Inr b" "rfold f b ys = Inr s'" by (auto simp: rbind_eq_Inr)
  have gb: "g b = []" by (rule rfold_grows [of f g, OF grows b(2) Cons.prems(2)])
  show ?case
  proof (cases "x = y")
    case True
    then show ?thesis using b(1) gb grows [OF b(1) gb] by blast
  next
    case False
    then show ?thesis using Cons.IH [OF b(2)] Cons.prems by simp
  qed
qed simp

lemma snapshot_position_grows:
  "snapshot_position C by_symbol metrics a item = Inr b \<Longrightarrow> sa_details b = [] \<Longrightarrow> sa_details a = []"
  unfolding snapshot_position_def note_detail_def
  by (auto elim!: rbind_InrE simp: Let_def split: if_splits option.splits)

lemma snapshot_order_grows:
  "snapshot_order C by_entry now acc item = Inr acc' \<Longrightarrow> fst acc' = [] \<Longrightarrow> fst acc = []"
  unfolding snapshot_order_def
  by (cases acc) (auto elim!: rbind_InrE simp: Let_def split: if_splits option.splits)

lemma snapshot_body_clean:
  assumes "snapshot_body C venue trades now = Inr (body, orders, margin)" "sa_details body = []"
  shows "authoritative_account_blockers C venue trades None = Inr []"
proof -
  obtain blockers a items rows details open_orders by_symbol metrics by_entry where
    b: "authoritative_account_blockers C venue trades None = Inr blockers"
    and p: "rfold (snapshot_position C by_symbol metrics)
        \<lparr> sa_details = blockers, sa_positions = [], sa_risk = fzero, sa_unrealized = fzero \<rparr> items = Inr a"
    and o: "rfold (snapshot_order C by_entry now) (sa_details a, []) rows = Inr (details, open_orders)"
    and d: "details = []"
    using assms unfolding snapshot_body_def Let_def
    by (elim rbind_InrE) (auto elim!: rbind_InrE)
  from o d have "sa_details a = []"
    using rfold_grows [where g = fst, OF snapshot_order_grows o] by simp
  then have "blockers = []"
    using rfold_grows [where g = sa_details, OF snapshot_position_grows p] by simp
  then show ?thesis using b by simp
qed

end
