(* ===== verification/Paper_Lifecycle.thy ===== *)
theory Paper_Lifecycle
  imports Paper_Guards Paper_Evidence
begin

text \<open>
  Every operation of the PAPER engine respects every guard of the interface \<open>lifecycle_guard\<close>, and the
  entry of a new trade every guard of \<open>entry_guard\<close>, whatever the repositories, the venue and the clock
  answer. One lemma per operation, proved with the rules of \<open>Interaction_Rules\<close>.
\<close>

section \<open>Building the predicates\<close>

lemma all_asks_mono: "all_asks P t \<Longrightarrow> (\<And>q. P q \<Longrightarrow> P' q) \<Longrightarrow> all_asks P' t"
  by (auto simp: all_asks_def)

lemma quiet_no_mutation: "quiet q \<Longrightarrow> no_mutation q"
  by (cases q) auto

lemma write_aheadI:
  assumes "describes spec m" "pp_created p" "cached_effect (pp_effect p) = Inr None"
    "all_asks no_mutation u" "budgeted m u"
  shows "write_ahead ((t @ [(Prepare spec, Inr (Prepared_Effect p))]) @ u) m"
  unfolding write_ahead_def using assms by auto

lemma answeredI: "mutation_key m = key \<Longrightarrow> answered (t @ [(Mutate m, Inr (Object r))]) key r"
  unfolding answered_def by blast

lemma fact_ok_BuildI:
  "fact_scoped C e \<Longrightarrow> te_trade_id e = tid \<Longrightarrow> fact_shape target mv e \<Longrightarrow> fact_ok C h tid target key (Build_Event e) mv"
  by (simp add: fact_ok_def)

lemma ends_withI: "h \<noteq> [] \<Longrightarrow> last h = x \<Longrightarrow> \<exists>h0. h = h0 @ [x]"
  by (metis append_butlast_last_id)

lemma fact_ok_ReplayI:
  "h \<noteq> [] \<Longrightarrow> last h = (Get_Fact tid key, Inr (Fact (Some e))) \<Longrightarrow> fact_ok C h tid target key (Replay_Event e) mv"
  using ends_withI by (auto simp: fact_ok_def)

lemma movedI: "(Transition tid target journal key b mv, Inr (Moved tr e)) \<in> set h \<Longrightarrow> moved tid target journal tr h"
  unfolding moved_def by blast

lemma moved_mono: "moved tid target journal tr h \<Longrightarrow> moved tid target journal tr (h @ u)"
  unfolding moved_def by auto

lemma fact_event_scoped [simp]:
  "fact_scoped C (fact_event C d ow typ st f position now telemetry)"
  "te_trade_id (fact_event C d ow typ st f position now telemetry) = fo_trade_id ow"
  "fo_trade_id (owner_of_row tr) = tw_trade_id tr"
  "fo_trade_id (owner_of_new nt) = nt_trade_id nt"
  by (simp_all add: fact_scoped_def fact_event_def owner_of_row_def owner_of_new_def)

lemmas shape_simps = fact_shape_def fact_event_def no_fact_def no_move_def

lemma fill_fact_shape:
  assumes "te_type e = fill_fact_type position requested" "te_state e = target" "te_role e = Some ENTRY"
    "mv_filled_quantity mv = Some (te_filled_quantity e)" "te_position_quantity e = position"
    "te_requested_quantity e = requested"
  shows "fact_shape target mv e"
  using assms by (auto simp: fact_shape_def fill_fact_type_def)

definition reserved :: "string \<Rightarrow> string \<Rightarrow> bool \<Rightarrow> bool \<Rightarrow> p_trace \<Rightarrow> bool" where
  "reserved eid op cmpn roomy h \<longleftrightarrow> (\<exists>k r. (Reserve k eid op cmpn, Inr (Reserved r)) \<in> set h
     \<and> rs_granted r \<and> \<not> rs_replay r \<and> (roomy \<longrightarrow> 6 \<le> rs_remaining r))"

lemma reserved_hit:
  "rs_granted r \<Longrightarrow> \<not> rs_replay r \<Longrightarrow> (roomy \<longrightarrow> 6 \<le> rs_remaining r) \<Longrightarrow>
     reserved eid op cmpn roomy ((Reserve k eid op cmpn, Inr (Reserved r)) # h)"
  unfolding reserved_def by (intro exI [where x = k] exI [where x = r]) simp

lemma reserved_budgeted: "reserved (mutation_key m) op (compensates m) roomy h \<Longrightarrow> budgeted m h"
  unfolding reserved_def budgeted_def by blast

lemma tpsl_type_text_iff: "tpsl_type_text role = ''STOP_LOSS'' \<longleftrightarrow> role = STOP_LOSS"
  by (simp add: tpsl_type_text_def)

lemma v_side_of_enum: "order_side_enum s = Inr side \<Longrightarrow> v_side_text side = s"
  by (auto simp: order_side_enum_def v_side_text_def split: if_splits)

lemma leg_recorded_mono: "leg_recorded C role tr0 tr h \<Longrightarrow> leg_recorded C role tr0 tr (h @ u)"
  "leg_recorded C role tr0 tr h \<Longrightarrow> leg_recorded C role tr0 tr (u @ h)"
  unfolding leg_recorded_def moved_def set_append Un_iff by blast+

lemma moved_simps [simp]:
  "\<not> moved tid target journal tr []"
  "moved tid target journal tr ((q, r) # h) \<longleftrightarrow>
     (\<exists>key b mv e. q = Transition tid target journal key b mv \<and> r = Inr (Moved tr e)) \<or> moved tid target journal tr h"
  "moved tid target journal tr (h @ u) \<longleftrightarrow> moved tid target journal tr h \<or> moved tid target journal tr u"
  by (auto simp: moved_def)

text \<open>The rows of a trade in a history: the one at hand, and what the journal answered to its transitions.\<close>

inductive row_of :: "p_trace \<Rightarrow> trade_row \<Rightarrow> trade_row \<Rightarrow> bool" for h tr where
  same: "row_of h tr tr"
| moved: "row_of h tr r \<Longrightarrow> moved (tw_trade_id r) target journal r' h \<Longrightarrow> row_of h tr r'"

lemma row_of_mono: "row_of h tr r \<Longrightarrow> set h \<subseteq> set k \<Longrightarrow> row_of k tr r"
proof (induction rule: row_of.induct)
  case (moved r target journal r')
  then have "moved (tw_trade_id r) target journal r' k" unfolding moved_def by blast
  then show ?case using moved.IH [OF moved.prems] by (blast intro: row_of.moved)
qed (rule row_of.same)

lemma row_of_trans: "row_of h r s \<Longrightarrow> row_of h tr r \<Longrightarrow> row_of h tr s"
  by (induction rule: row_of.induct) (blast intro: row_of.moved)+

lemma row_of_moved: "moved (tw_trade_id tr) target journal r h \<Longrightarrow> row_of h tr r"
  by (blast intro: row_of.intros)

text \<open>A venue state without the position and without the entry order of a row.\<close>

definition shows_flat :: "lifecycle_scope \<Rightarrow> obj \<Rightarrow> trade_row \<Rightarrow> bool" where
  "shows_flat sc venue row \<longleftrightarrow>
     (\<exists>symb items qs. symbol_of sc (tw_symbol row) = Inr symb \<and> as_list (field venue ''positions'') = Inr items
        \<and> rtraverse (\<lambda>d. required_number d ''quantity'') (filter (\<lambda>d. upper_field d ''instrument'' = symb) items) = Inr qs
        \<and> \<not> flt fzero (foldl fadd fzero qs))
   \<and> (\<exists>items. as_list (field venue ''orders'') = Inr items \<and> with_id (tw_entry_client_order_id row) items = [])"

lemma not_flat_shows: "not_flat C row venue = Inr b \<Longrightarrow> \<not> b \<Longrightarrow> shows_flat (ec_scope C) venue row"
  unfolding not_flat_def position_quantity_def find_order_def option.case shows_flat_def
  by (elim rbind_InrE) (auto elim!: rbind_InrE find_by_idD split: if_splits option.splits)

text \<open>An emergency close of a trade ended flat: its last look at the venue showed neither the position nor the
  entry order of the trade's row, and then the journal acknowledged the FLAT transition of that row.\<close>

definition closed_flat :: "engine_config \<Rightarrow> trade_row \<Rightarrow> p_trace \<Rightarrow> bool" where
  "closed_flat C tr h \<longleftrightarrow> (\<exists>h1 venue h2 row row'. h = h1 @ (Fetch_State, Inr (Object venue)) # h2 \<and> row_of h1 tr row
     \<and> shows_flat (ec_scope C) venue row
     \<and> moved (tw_trade_id row) LIFE_FLAT ''EMERGENCY_CLOSE_RECONCILED_FLAT'' row' h2)"

lemma closed_flatI:
  "row_of h1 tr row \<Longrightarrow> not_flat C row venue = Inr b \<Longrightarrow> \<not> b
    \<Longrightarrow> moved (tw_trade_id row) LIFE_FLAT ''EMERGENCY_CLOSE_RECONCILED_FLAT'' row' h2
    \<Longrightarrow> closed_flat C tr (h1 @ (Fetch_State, Inr (Object venue)) # h2)"
  unfolding closed_flat_def using not_flat_shows by blast

lemma closed_flat_later: "closed_flat C r h \<Longrightarrow> row_of u tr r \<Longrightarrow> closed_flat C tr (u @ h)"
proof -
  assume "closed_flat C r h" and r: "row_of u tr r"
  then obtain h1 venue h2 row row' where *: "h = h1 @ (Fetch_State, Inr (Object venue)) # h2" "row_of h1 r row"
      "shows_flat (ec_scope C) venue row" "moved (tw_trade_id row) LIFE_FLAT ''EMERGENCY_CLOSE_RECONCILED_FLAT'' row' h2"
    unfolding closed_flat_def by blast
  have "row_of (u @ h1) tr row"
    by (rule row_of_trans [of _ r]) (use *(2) r in \<open>auto elim: row_of_mono\<close>)
  then show ?thesis unfolding closed_flat_def using * by (metis append_assoc)
qed

text \<open>The answer to an effect: the one its row held, or the one the venue gave.\<close>

definition effect_answer :: "string \<Rightarrow> obj \<Rightarrow> p_trace \<Rightarrow> bool" where
  "effect_answer key c h \<longleftrightarrow>
     (\<exists>spec p. es_key spec = key \<and> (Prepare spec, Inr (Prepared_Effect p)) \<in> set h
        \<and> cached_effect (pp_effect p) = Inr (Some c))
   \<or> (\<exists>m. mutation_key m = key \<and> (Mutate m, Inr (Object c)) \<in> set h)"

lemma effect_answer_simps [simp]:
  "\<not> effect_answer key c []"
  "effect_answer key c ((q, r) # h) \<longleftrightarrow>
     (\<exists>spec p. q = Prepare spec \<and> r = Inr (Prepared_Effect p) \<and> es_key spec = key \<and> cached_effect (pp_effect p) = Inr (Some c))
     \<or> (\<exists>m. q = Mutate m \<and> r = Inr (Object c) \<and> mutation_key m = key) \<or> effect_answer key c h"
  "effect_answer key c (h @ u) \<longleftrightarrow> effect_answer key c h \<or> effect_answer key c u"
  unfolding effect_answer_def by auto

definition effect_named :: "string \<Rightarrow> string \<Rightarrow> p_trace \<Rightarrow> bool" where
  "effect_named key xid h \<longleftrightarrow> (\<exists>c. effect_answer key c h \<and> field c ''id'' = JStr xid)"

lemma effect_named_mono: "effect_named key xid h \<Longrightarrow> set h \<subseteq> set k \<Longrightarrow> effect_named key xid k"
  unfolding effect_named_def effect_answer_def by blast

lemma effect_namedI: "effect_answer key c h \<Longrightarrow> required_text (field c ''id'') name = Inr xid \<Longrightarrow> effect_named key xid h"
  unfolding effect_named_def required_text_def by (auto split: json.splits if_splits)

text \<open>A leg is live: a record of it was found, is the planned protection of the trade's row under the decision
  and live, was recorded at once under the leg's own effect, and the transition was acknowledged.\<close>

definition leg_live :: "risk_decision \<Rightarrow> order_role \<Rightarrow> string \<Rightarrow> string \<Rightarrow> trade_row \<Rightarrow> trade_row \<Rightarrow> p_trace \<Rightarrow> bool" where
  "leg_live d role key xid tr row' h \<longleftrightarrow> (\<exists>h1 row rec r h2.
     h = h1 @ (Find_Tpsl (tw_symbol row) xid (if role = STOP_LOSS then ''stop-loss'' else ''take-profit'')
           (if role = STOP_LOSS then tw_stop_price row else tw_target_price row), Inr (Maybe_Object (Some rec)))
         # (Reconcile key (Some xid) rec, Inr r) # h2
   \<and> row_of h1 tr row \<and> protects (rd_venue_symbol d) row role rec
   \<and> casefold (field_text rec ''status'' []) \<in> {''waitorder'', ''active''}
   \<and> moved (tw_trade_id row) (if role = STOP_LOSS then PROTECTING else ACTIVE)
       (if role = STOP_LOSS then ''STOP_RECONCILED'' else ''TARGET_RECONCILED_POSITION_ACTIVE'') row' h2)"

lemma leg_live_later: "leg_live d role key xid r s h \<Longrightarrow> row_of u tr r \<Longrightarrow> leg_live d role key xid tr s (u @ h)"
proof -
  assume "leg_live d role key xid r s h" and r: "row_of u tr r"
  then obtain h1 row rec rr h2 where *:
     "h = h1 @ (Find_Tpsl (tw_symbol row) xid (if role = STOP_LOSS then ''stop-loss'' else ''take-profit'')
           (if role = STOP_LOSS then tw_stop_price row else tw_target_price row), Inr (Maybe_Object (Some rec)))
         # (Reconcile key (Some xid) rec, Inr rr) # h2" "row_of h1 r row" "protects (rd_venue_symbol d) row role rec"
     "casefold (field_text rec ''status'' []) \<in> {''waitorder'', ''active''}"
     "moved (tw_trade_id row) (if role = STOP_LOSS then PROTECTING else ACTIVE)
       (if role = STOP_LOSS then ''STOP_RECONCILED'' else ''TARGET_RECONCILED_POSITION_ACTIVE'') s h2"
    unfolding leg_live_def by blast
  have "row_of (u @ h1) tr row"
    by (rule row_of_trans [of _ r]) (use *(2) r in \<open>auto elim: row_of_mono\<close>)
  then show ?thesis unfolding leg_live_def using * by (metis append_assoc)
qed

lemma leg_live_row: "leg_live d role key xid tr s h \<Longrightarrow> row_of h tr s"
proof -
  assume "leg_live d role key xid tr s h"
  then obtain h1 row h2 target journal where *: "row_of h1 tr row" "moved (tw_trade_id row) target journal s h2"
      "set h1 \<subseteq> set h" "set h2 \<subseteq> set h"
    unfolding leg_live_def by fastforce
  then have "moved (tw_trade_id row) target journal s h" unfolding moved_def by blast
  then show ?thesis using row_of_mono [OF *(1,3)] by (rule row_of.moved [rotated])
qed

text \<open>A leg in place: it is live under the identity that the answer to its own effect names.\<close>

definition leg_placed :: "engine_config \<Rightarrow> risk_decision \<Rightarrow> order_role \<Rightarrow> trade_row \<Rightarrow> trade_row \<Rightarrow> p_trace \<Rightarrow> bool" where
  "leg_placed C d role tr row' h \<longleftrightarrow> (\<exists>xid. effect_named (effect_id C (tw_trade_id tr) role ''create'') xid h
     \<and> leg_live d role (effect_id C (tw_trade_id tr) role ''create'') xid tr row' h)"

lemma leg_placedI:
  assumes "effect_named (effect_id C (tw_trade_id tr) role ''create'') xid u" "row_of u tr r"
    "leg_live d role (effect_id C (tw_trade_id tr) role ''create'') xid r s h"
  shows "leg_placed C d role tr s (u @ h)"
  unfolding leg_placed_def using assms by (intro exI conjI) (auto elim: effect_named_mono intro: leg_live_later)

lemma leg_placed_row: "leg_placed C d role tr s h \<Longrightarrow> row_of h tr s"
  unfolding leg_placed_def by (blast intro: leg_live_row)

text \<open>What protecting the exposure of a row ends in: the stop live and then the target of the row the journal
  answered, or an emergency close that ended flat.\<close>

definition protected_or_flat :: "engine_config \<Rightarrow> risk_decision \<Rightarrow> trade_row \<Rightarrow> p_trace \<Rightarrow> bool" where
  "protected_or_flat C d tr h \<longleftrightarrow> closed_flat C tr h
     \<or> (\<exists>u v tr1 tr2. h = u @ v \<and> leg_placed C d STOP_LOSS tr tr1 u \<and> leg_placed C d TAKE_PROFIT tr1 tr2 v)"

lemma audited_subset: "audited C u \<Longrightarrow> set u \<subseteq> set h \<Longrightarrow> audited C h"
  unfolding audited_def by blast

lemma recovery_okI:
  "audited C h \<Longrightarrow> (Begin_Recovery (local_scope C), Inr (Epoch epoch)) \<in> set h \<Longrightarrow> recovery_ok C h (local_scope C) epoch"
  unfolding recovery_ok_def by simp

definition entry_spec :: "engine_config \<Rightarrow> risk_decision \<Rightarrow> trade_row \<Rightarrow> string \<Rightarrow> string \<Rightarrow> effect_spec" where
  "entry_spec C d tr eid cid = effect_spec_of C tr eid PLACE_ORDER cid ENTRY (entry_request d tr cid)"

text \<open>Histories in the form the rules of the context are stated for.\<close>

lemmas flat_history = append_assoc append.simps

section \<open>Lifecycle guards\<close>

context lifecycle_guard
begin

lemma quiet_requests [simp]:
  "G h Clock" "G h (Sleep x)" "G h (Enter l)" "G h (Leave l)" "G h (Begin_Recovery k)" "G h (List_Scope k)"
  "G h (List_Facts tid)" "G h (Recovery_Trades e a)" "G h (Get_Trade tid)" "G h (Entries_Allowed k)"
  "G h (Get_Fact tid key)" "G h (Mark_Reconciled tid detail)" "G h (Record_Equity k now y)" "G h (Recovery_Effects k)"
  "G h (Get_Effect key)" "G h (Prepare spec)" "G h (Reconcile key xid payload)" "G h Preflight" "G h Fetch_State"
  "G h Drain_Events" "G h (Fetch_Depth symb)" "G h (Find_Tpsl symb cid typ price)" "G h (Latest_Health k)"
  "G h (Record_Health k kvs)" "G h (Reserve k eid op c)" "G h (Check_Entry d sc eid)" "G h (Bind_Entry d sc eid)"
  by (simp_all add: quiet_ok)

lemmas does_requests [does_rules] =
  allI
  does_ask [where G = G] does_ask2 [where G = G] does_ask_p [where G = G] does_with_lock [where G = G]

lemma does_transition [does_rules]:
  assumes shape: "\<And>now telemetry. fact_shape target mv (fact_event C d (owner_of_row tr) typ target f
        (case fc_position_quantity f of Some q \<Rightarrow> q
         | None \<Rightarrow> (case mv_filled_quantity mv of Some q \<Rightarrow> q | None \<Rightarrow> tw_filled_quantity tr)) now telemetry)"
    and post: "\<And>tr' e u. moved (tw_trade_id tr) target journal tr' u \<Longrightarrow> P (tr', e) (t @ u)"
  shows "does G (transition_with_event C d tr target journal typ target mv f) t P"
  unfolding transition_with_event_def using shape
  by (cases "fc_position_quantity f"; cases "mv_filled_quantity mv"; simp; intro does_rules;
      auto intro!: transition_ok fact_ok_BuildI fact_ok_ReplayI post movedI split: option.splits)

text \<open>Health and budget: nothing is sent, and a reservation that returns was granted.\<close>

lemma does_record_runtime_health [does_rules]:
  "(\<And>u. all_asks no_mutation u \<Longrightarrow> P () (t @ u)) \<Longrightarrow> does G (record_runtime_health C h reserve) t P"
  unfolding record_runtime_health_def by (intro does_rules; simp)

lemma does_observe_health [does_rules]:
  "(\<And>u. all_asks no_mutation u \<Longrightarrow> P () (t @ u)) \<Longrightarrow> does G (observe_health C h entry) t P"
  unfolding observe_health_def by (intro does_rules; simp)

lemma does_reserve_mutation [does_rules]:
  assumes "\<And>u. all_asks no_mutation u \<Longrightarrow> reserved eid op cmpn roomy u \<Longrightarrow> P () (t @ u)"
  shows "does G (reserve_mutation C eid op cmpn roomy) t P"
  unfolding reserve_mutation_def
  by (intro does_rules; auto simp: ensure_ok_iff intro!: assms reserved_hit)

text \<open>The effects: a durable row, the budget, the venue, the confirmation.\<close>

lemma send_ok:
  assumes "reserved eid op cmpn roomy u" "eid = mutation_key m" "cmpn = compensates m" "all_asks no_mutation u"
    "pp_created p" "cached_effect (pp_effect p) = Inr None" "describes spec m"
    "target_ok C ((t @ [(Prepare spec, Inr (Prepared_Effect p))]) @ u) m" "\<not> is_entry m"
  shows "G ((t @ [(Prepare spec, Inr (Prepared_Effect p))]) @ u) (Mutate m)"
  using assms by (intro mutate_ok write_aheadI) (auto intro: reserved_budgeted)

lemmas effect_simps = effect_spec_of_def ensure_ok_iff tpsl_type_text_iff v_side_of_enum

lemma does_tpsl_effect:
  assumes "\<And>u side. target_ok C (t @ u) (Create_Tpsl eid (tw_symbol tr) side (tpsl_type_text role) fzero price
      (tw_entry_client_order_id tr))"
    and post: "\<And>r u. effect_answer eid r u \<Longrightarrow> P r (t @ u)"
  shows "does G (tpsl_effect C tr eid cid role price) t P"
  unfolding tpsl_effect_def effect_once_def
  by (intro does_rules; (erule send_ok | rule confirm_ok, rule answeredI)?;
      ((simp only: flat_history)?, rule post)?; simp add: assms(1) effect_simps del: target_ok.simps)

lemma keeps_close_effect:
  "typ \<in> {TIMEOUT_CLOSE, EMERGENCY_CLOSE_EFFECT} \<Longrightarrow> keeps G (close_effect C tr eid cid lev typ role q)"
  unfolding close_effect_def effect_once_def
  by (rule keepsI, intro does_rules; (erule send_ok | rule confirm_ok, rule answeredI)?; (simp add: effect_simps))

lemma keeps_cancel_entry_effect [THEN does_keeps, does_rules]: "keeps G (cancel_entry_effect C tr)"
  unfolding cancel_entry_effect_def effect_once_def
  by (rule keepsI, intro does_rules; (erule send_ok | rule confirm_ok, rule answeredI)?; (simp add: effect_simps))

lemma keeps_cancel_tpsl_once [THEN does_keeps, does_rules]: "keeps G (cancel_tpsl_once C tr role vs cid tid)"
  unfolding cancel_tpsl_once_def
  by (rule keepsI, intro does_rules; (erule send_ok | rule confirm_ok, rule answeredI)?; (simp add: effect_simps))

lemma keeps_cancel_protection_role [THEN does_keeps, does_rules]:
  "keeps G (cancel_protection_role C tr d venue completed role)"
  unfolding cancel_protection_role_def
  by (rule keepsI, intro does_rules; simp)

lemma keeps_cancel_remaining_protection [THEN does_keeps, does_rules]:
  "keeps G (cancel_remaining_protection C tr completed)"
  unfolding cancel_remaining_protection_def by (rule keepsI, intro does_rules; simp)

lemma keeps_recover_terminal_public_fact [THEN does_keeps, does_rules]:
  "keeps G (recover_terminal_public_fact tr)"
  unfolding recover_terminal_public_fact_def by (rule keepsI, intro does_rules; simp)

lemma keeps_assert_manual_close_won [THEN does_keeps, does_rules]:
  "keeps G (assert_manual_close_won C tr role response)"
  unfolding assert_manual_close_won_def by (rule keepsI, intro does_rules; simp)

lemma keeps_finish_venue_exit [THEN does_keeps, does_rules]:
  "keeps G (finish_venue_exit C d tr role reason response attribution sidecar_events)"
  unfolding finish_venue_exit_def
  by (rule keepsI, intro does_rules; (cases reason)?; simp add: shape_simps)

lemma keeps_fresh_close_client_id [THEN does_keeps, does_rules]: "keeps G (fresh_close_client_id tid role)"
  unfolding fresh_close_client_id_def by (rule keepsI, intro does_rules; simp)

lemma does_cancel_entry_and_measure [does_rules]:
  assumes "\<And>r q es u. row_of u tr r \<Longrightarrow> P (r, q, es) (t @ u)"
  shows "does G (cancel_entry_and_measure C d tr) t P"
  unfolding cancel_entry_and_measure_def
  by (intro does_rules; (simp only: flat_history, rule assms)?;
      (rule fill_fact_shape; simp add: shape_simps)?; auto intro: row_of.same row_of_moved simp del: append_assoc)

lemma does_emergency_trigger [does_rules]:
  assumes "\<And>r es u. row_of u tr r \<Longrightarrow> P (r, es) (t @ u)"
  shows "does G (emergency_trigger C d tr q reason) t P"
proof -
  have same: "P (tr, []) t" using assms [OF row_of.same, of "[]" "[]"] by simp
  show ?thesis
    unfolding emergency_trigger_def
    by (intro does_rules same; ((simp only: flat_history)?, rule assms)?; auto intro: row_of_moved simp: shape_simps)
qed

lemma closed_flat_now:
  "not_flat C row venue = Inr b \<Longrightarrow> \<not> b
    \<Longrightarrow> moved (tw_trade_id row) LIFE_FLAT ''EMERGENCY_CLOSE_RECONCILED_FLAT'' row' h
    \<Longrightarrow> closed_flat C row ((Fetch_State, Inr (Object venue)) # h)"
  using closed_flatI [of "[]", OF row_of.same] by simp

lemma does_emergency_close [does_rules]:
  assumes "\<And>es u. closed_flat C tr u \<Longrightarrow> P es (t @ u)"
  shows "does G (emergency_close C d tr reason) t P"
  unfolding emergency_close_def
  by (intro does_rules does_keeps [OF keeps_close_effect];
      ((simp only: flat_history)?, rule assms)?; (simp add: shape_simps; fail)?;
      (rule closed_flat_later, rule closed_flat_later, (rule closed_flat_later [OF closed_flat_now row_of.same])?,
        (rule closed_flat_now)?); auto)

lemma does_leg_confirm:
  assumes "\<And>u side price. target_ok C (t @ u) (Create_Tpsl (effect_id C (tw_trade_id tr) role ''create'') (tw_symbol tr) side
      (tpsl_type_text role) fzero (if role = STOP_LOSS then tw_stop_price tr else tw_target_price tr)
      (tw_entry_client_order_id tr))"
    and role: "role \<in> {STOP_LOSS, TAKE_PROFIT}"
    and post: "\<And>r xid e u. row_of u tr r \<Longrightarrow> effect_named (effect_id C (tw_trade_id tr) role ''create'') xid u
       \<Longrightarrow> P (r, xid, e) (t @ u)"
  shows "does G (leg_confirm C d tr role cid) t P"
  unfolding leg_confirm_def
  by (intro does_rules does_tpsl_effect; (rule assms(1))?; (simp only: flat_history, rule post)?)
    (use role in \<open>auto simp: shape_simps leg_move_def leg_fact_def intro: row_of_moved
       effect_named_mono [OF effect_namedI]\<close>)

lemma does_leg_reconcile:
  assumes eid: "eid = effect_id C tid role ''create''" and role: "role \<in> {STOP_LOSS, TAKE_PROFIT}"
    and post: "\<And>r e u. leg_recorded C role tr r u \<Longrightarrow> leg_live d role eid xid tr r u \<Longrightarrow> P (r, e) (t @ u)"
  shows "does G (leg_reconcile C d tr role eid cid xid) t P"
proof -
  let ?find = "Find_Tpsl (tw_symbol tr) xid (if role = STOP_LOSS then ''stop-loss'' else ''take-profit'')
            (if role = STOP_LOSS then tw_stop_price tr else tw_target_price tr)"
  have found: "leg_recorded C role tr r ((?find, Inr (Maybe_Object x)) # (Reconcile eid (Some xid) rcd, Inr v) # u)"
      "leg_live d role eid xid tr r ((?find, Inr (Maybe_Object x)) # (Reconcile eid (Some xid) rcd, Inr v) # u)"
    if "validate_tpsl rcd (tpsl_plan_of tr (rd_venue_symbol d) role) True False = Inr w"
      "moved (tw_trade_id tr) (if role = STOP_LOSS then PROTECTING else ACTIVE)
         (if role = STOP_LOSS then ''STOP_RECONCILED'' else ''TARGET_RECONCILED_POSITION_ACTIVE'') r u"
      "(case x of Some y \<Rightarrow> Inr y | None \<Rightarrow> Inl z) = Inr rcd"
    for x z rcd v r u and w :: unit
  proof -
    have x: "x = Some rcd" using that(3) by (cases x) auto
    let ?h = "(?find, Inr (Maybe_Object (Some rcd))) # (Reconcile eid (Some xid) rcd, Inr v) # u"
    have "(?find, Inr (Maybe_Object (Some rcd))) \<in> set ?h" "(Reconcile eid (Some xid) rcd, Inr v) \<in> set ?h"
      by simp_all
    moreover have "moved (tw_trade_id tr) (if role = STOP_LOSS then PROTECTING else ACTIVE)
         (if role = STOP_LOSS then ''STOP_RECONCILED'' else ''TARGET_RECONCILED_POSITION_ACTIVE'') r ?h"
      using that(2) by simp
    moreover have "validate_tpsl rcd (tpsl_plan_of tr (rd_venue_symbol d) role) True False = Inr ()" using that(1) by simp
    ultimately have "leg_recorded C role tr r ?h" unfolding leg_recorded_def eid by blast
    moreover have "leg_live d role eid xid tr r ?h"
      unfolding leg_live_def
      by (intro exI conjI, rule append_Nil [symmetric])
        (use that(1,2) role validate_tpslD [of rcd tr "rd_venue_symbol d" role] in \<open>auto intro: row_of.same\<close>)
    ultimately show "leg_recorded C role tr r ((?find, Inr (Maybe_Object x)) # (Reconcile eid (Some xid) rcd, Inr v) # u)"
      "leg_live d role eid xid tr r ((?find, Inr (Maybe_Object x)) # (Reconcile eid (Some xid) rcd, Inr v) # u)"
      by (simp_all add: x)
  qed
  show ?thesis
    unfolding leg_reconcile_def
    by (intro does_rules; (simp only: flat_history, rule post; rule found; assumption)?;
        (use role in \<open>auto simp: shape_simps leg_move_def leg_fact_def\<close>))
qed

lemma does_protect_leg:
  assumes tpsl: "\<And>u side price. target_ok C (t @ u) (Create_Tpsl (effect_id C (tw_trade_id tr) role ''create'') (tw_symbol tr)
      side (tpsl_type_text role) fzero (if role = STOP_LOSS then tw_stop_price tr else tw_target_price tr)
      (tw_entry_client_order_id tr))"
    and role: "role \<in> {STOP_LOSS, TAKE_PROFIT}"
    and closed: "\<And>es u. closed_flat C tr u \<Longrightarrow> P (Inl es) (t @ u)"
    and rec: "\<And>tr0 r es u. leg_recorded C role tr0 r u \<Longrightarrow> leg_placed C d role tr r u \<Longrightarrow> P (Inr (r, es)) (t @ u)"
  shows "does G (protect_leg C d tr role cid) t P"
  unfolding protect_leg_def
  by (intro does_rules does_leg_confirm does_leg_reconcile; (rule tpsl role refl)?;
      (simp only: flat_history)?; (rule closed rec)?;
      auto intro: closed_flat_later leg_placedI leg_recorded_mono row_of.same)

lemma does_protect [does_rules]:
  assumes "\<And>es u. protected_or_flat C d tr u \<Longrightarrow> P es (t @ u)"
  shows "does G (protect C d tr) t P"
  unfolding protect_def
  by (intro does_rules does_protect_leg; ((simp only: flat_history)?, rule assms)?;
      auto simp: tpsl_type_text_def protected_or_flat_def
        intro: leg_recorded_mono closed_flat_later leg_placed_row)

text \<open>Exits, fills and effects found after a crash.\<close>

lemma keeps_transition_venue_exit:
  assumes "(vx_role x, vx_reason x, vx_target_state x) \<in> {(STOP_LOSS, EXIT_STOP, EXITING_STOP), (TAKE_PROFIT, EXIT_TARGET, EXITING_TARGET)}"
  shows "keeps G (transition_venue_exit C d tr x cid)"
  unfolding transition_venue_exit_def
  by (rule keepsI, intro does_rules) (use assms in \<open>auto simp: shape_simps\<close>)

lemma keeps_resume_close_exit:
  "role \<in> {TIMEOUT_EXIT, EMERGENCY_EXIT} \<Longrightarrow> keeps G (resume_close_exit C d tr role reason)"
  unfolding resume_close_exit_def
  by (rule keepsI, intro does_rules does_keeps [OF keeps_close_effect]; auto simp: shape_simps)

lemma keeps_timeout_close [THEN does_keeps, does_rules]: "keeps G (timeout_close C d tr)"
  unfolding timeout_close_def
  by (rule keepsI, intro does_rules does_keeps [OF keeps_resume_close_exit]; simp add: shape_simps)

lemma keeps_record_cumulative_fill [THEN does_keeps, does_rules]: "keeps G (record_cumulative_fill C d tr venue q)"
  unfolding record_cumulative_fill_def
  by (rule keepsI, intro does_rules; (rule fill_fact_shape; simp add: shape_simps)?; simp)

lemma keeps_validate_recovered_entry [THEN does_keeps, does_rules]: "keeps G (validate_recovered_entry C e rcd)"
  unfolding validate_recovered_entry_def by (rule keepsI, intro does_rules; simp)

lemma keeps_reconcile_entry_effect [THEN does_keeps, does_rules]: "keeps G (reconcile_entry_effect C e venue)"
  unfolding reconcile_entry_effect_def by (rule keepsI, intro does_rules; simp)

lemma keeps_reconcile_tpsl_effect [THEN does_keeps, does_rules]: "keeps G (reconcile_tpsl_effect C e venue)"
  unfolding reconcile_tpsl_effect_def by (rule keepsI, intro does_rules; simp)

lemma keeps_reconcile_effect [THEN does_keeps, does_rules]: "keeps G (reconcile_effect C e venue)"
  unfolding reconcile_effect_def by (rule keepsI, cases "ef_type e"; simp only: effect_type.case; intro does_rules; simp)

lemma keeps_recover_effect_locked [THEN does_keeps, does_rules]: "keeps G (recover_effect_locked C e)"
  unfolding recover_effect_locked_def by (rule keepsI, intro does_rules; simp)

lemma keeps_unripe_effects [THEN does_keeps, does_rules]: "keeps G (unripe_effects C tr eligible)"
  unfolding unripe_effects_def
  by (rule keeps_gather, rule keepsI, intro does_rules; simp)

lemma keeps_recover_pre_mutation_gap [THEN does_keeps, does_rules]: "keeps G (recover_pre_mutation_gap C tr venue)"
  unfolding recover_pre_mutation_gap_def cancelled_fact_def
  by (rule keepsI, intro does_rules; simp add: shape_simps)

text \<open>Reconciling a trade.\<close>

lemma keeps_reconcile_excess [THEN does_keeps, does_rules]: "keeps G (reconcile_excess C d tr q)"
  unfolding reconcile_excess_def by (rule keepsI, intro does_rules; simp add: shape_simps)

lemma keeps_reconcile_first_fill [THEN does_keeps, does_rules]:
  "keeps G (reconcile_first_fill C d tr venue now q entry)"
  unfolding reconcile_first_fill_def
  by (rule keepsI, intro does_rules; (rule fill_fact_shape; simp add: shape_simps)?; simp)

lemma keeps_reconcile_absent_entry [THEN does_keeps, does_rules]: "keeps G (reconcile_absent_entry C d tr venue)"
  unfolding reconcile_absent_entry_def cancelled_fact_def
  by (rule keepsI, intro does_rules; simp add: shape_simps)

lemma keeps_reconcile_flat_exit [THEN does_keeps, does_rules]:
  "keeps G (reconcile_flat_exit C d tr venue sidecar_events)"
  unfolding reconcile_flat_exit_def
  by (rule keepsI, intro does_rules does_keeps [OF keeps_transition_venue_exit];
      (rule classified_shape, assumption)?; simp)

lemma keeps_reconcile_protecting [THEN does_keeps, does_rules]:
  "keeps G (reconcile_protecting C d tr venue sidecar_events q es)"
  unfolding reconcile_protecting_def by (rule keepsI, intro does_rules; simp)

lemma keeps_expire_active_entry [THEN does_keeps, does_rules]: "keeps G (expire_active_entry C d tr)"
  unfolding expire_active_entry_def by (rule keepsI, intro does_rules; simp)

lemma keeps_reconcile_active [THEN does_keeps, does_rules]:
  "keeps G (reconcile_active C d tr venue sidecar_events now q entry es)"
  unfolding reconcile_active_def by (rule keepsI, intro does_rules; simp)

lemma keeps_reconcile_exiting [THEN does_keeps, does_rules]:
  "keeps G (reconcile_exiting C d tr sidecar_events q es)"
  unfolding reconcile_exiting_def
  by (rule keepsI, intro does_rules does_keeps [OF keeps_resume_close_exit]) (auto simp: exit_fact_def split: life.splits)

lemma keeps_reconcile_pending:
  "(\<And>t v. keeps G (again t v)) \<Longrightarrow> keeps G (reconcile_pending C again d tr venue now q entry es)"
  unfolding reconcile_pending_def
  by (rule keepsI, intro does_rules does_keeps [of G "again _ _"]; simp)

lemma keeps_reconcile_step:
  "(\<And>t v. keeps G (again t v)) \<Longrightarrow> keeps G (reconcile_step C again tr venue sidecar_events)"
  unfolding reconcile_step_def
  by (rule keepsI, intro does_rules does_keeps [OF keeps_reconcile_pending]; simp)

lemma keeps_reconcile_trade [THEN does_keeps, does_rules]: "keeps G (reconcile_trade n C tr venue sidecar_events)"
proof (induction n arbitrary: tr venue)
  case 0
  show ?case by (rule keepsI) (simp add: does_Fail)
next
  case (Suc n)
  show ?case unfolding reconcile_trade.simps by (rule keeps_reconcile_step) (rule Suc.IH)
qed

lemma keeps_settle_before_cancel [THEN does_keeps, does_rules]: "keeps G (settle_before_cancel C d tr n seen)"
proof (induction n arbitrary: seen)
  case (Suc n)
  show ?case
    unfolding settle_before_cancel.simps
    by (rule keepsI, intro does_rules does_keeps [OF Suc.IH]; simp)
qed (rule keepsI, simp add: does_Ret)

lemma keeps_settle_after_cancel [THEN does_keeps, does_rules]: "keeps G (settle_after_cancel C d tr n last_venue)"
proof (induction n arbitrary: last_venue)
  case (Suc n)
  show ?case
    unfolding settle_after_cancel.simps
    by (rule keepsI, intro does_rules does_keeps [OF Suc.IH]; simp)
qed (rule keepsI, simp add: does_Ret)

lemma keeps_settle_or_cancel_ioc [THEN does_keeps, does_rules]: "keeps G (settle_or_cancel_ioc C d tr r)"
  unfolding settle_or_cancel_ioc_def by (rule keepsI, intro does_rules; simp)

lemma keeps_block_entries_unlocked [THEN does_keeps, does_rules]: "keeps G (block_entries_unlocked C detail)"
  unfolding block_entries_unlocked_def by (rule keepsI, intro does_rules; simp)

lemma keeps_ambiguous_entry [THEN does_keeps, does_rules]: "keeps G (ambiguous_entry C d tr eid cid e)"
  unfolding ambiguous_entry_def by (rule keepsI, intro does_rules; simp add: shape_simps)

lemma keeps_settle_entry [THEN does_keeps, does_rules]: "keeps G (settle_entry C d tr cid response k)"
  unfolding settle_entry_def
  by (rule keepsI, intro does_rules; (rule fill_fact_shape; simp add: shape_simps; fail)?; simp add: shape_simps)

lemma keeps_await_eligibility [THEN does_keeps, does_rules]: "keeps G (await_eligibility d)"
  unfolding await_eligibility_def by (rule keepsI, intro does_rules; simp)

lemma keeps_reconcile_redelivery [THEN does_keeps, does_rules]: "keeps G (reconcile_redelivery C tr)"
  unfolding reconcile_redelivery_def by (rule keepsI, intro does_rules keepsI; simp)

text \<open>The public operations on existing trades.\<close>

lemma does_with_account [does_rules]:
  assumes "\<And>k v w. does G body ((t @ [(Enter Lifecycle_Lock, Inr v)]) @ [(Enter (Account_Lock k), Inr w)])
      (\<lambda>a t'. \<forall>u. P a (t' @ u))"
  shows "does G (with_account C body) t P"
  unfolding with_account_def
  by (intro does_rules; (rule does_conseq [OF assms])?; simp)

lemma keeps_block_entries: "keeps G (block_entries C detail)"
  unfolding block_entries_def by (rule keepsI, intro does_rules; simp)

lemma keeps_audit_scoped_public_facts [THEN does_keeps, does_rules]: "keeps G (audit_scoped_public_facts C)"
  unfolding audit_scoped_public_facts_def by (rule keepsI, intro does_rules keepsI; simp)

lemma keeps_blocker_of: "keeps G p \<Longrightarrow> keeps G (blocker_of label p)"
  unfolding blocker_of_def by (rule keepsI, intro does_rules does_keeps [of G p]; simp)

lemma keeps_recover_trade_locked [THEN does_keeps, does_rules]: "keeps G (recover_trade_locked C eligible tr)"
  unfolding recover_trade_locked_def by (rule keepsI, intro does_rules; simp)

lemma does_set_blockers [does_rules]: "P bs t \<Longrightarrow> does G (set_blockers bs) t P"
  unfolding set_blockers_def by (intro does_rules)

text \<open>The account-wide audit returns no blocker only on a clean venue state.\<close>

lemma does_final_account_audit [does_rules]:
  assumes "\<And>bs u. (bs = [] \<Longrightarrow> audited C u) \<Longrightarrow> P bs (t @ u)"
  shows "does G (final_account_audit C) t P"
proof -
  have clean: "audited C [(Fetch_State, Inr (Object venue)),
      (Recovery_Trades (ls_environment (ec_scope C)) (ls_account_id (ec_scope C)), Inr (Rows trades))]"
    if "authoritative_account_blockers C venue trades None = Inr []" for venue trades
    unfolding audited_def using that by (auto intro!: exI [where x = venue] exI [where x = trades])
  show ?thesis
    unfolding final_account_audit_def
    by (intro does_rules; auto intro!: assms clean)
qed

lemma does_initialize_recovery_unlocked [does_rules]:
  assumes "\<And>bs u. (bs = [] \<Longrightarrow> \<exists>epoch detail. recovery_ok C u (local_scope C) epoch
      \<and> (\<exists>r. (Complete_Recovery (local_scope C) epoch detail, Inr r) \<in> set u)) \<Longrightarrow> P bs (t @ u)"
  shows "does G (initialize_recovery_unlocked C) t P"
  unfolding initialize_recovery_unlocked_def
  by (intro does_rules keeps_blocker_of keepsI keeps_gather [THEN does_keeps] does_keeps [OF keeps_blocker_of] complete_ok;
      auto intro!: assms recovery_okI exI elim!: audited_subset)

lemma does_initialize_recovery:
  assumes "\<And>bs u. (bs = [] \<Longrightarrow> \<exists>epoch detail. recovery_ok C u (local_scope C) epoch
      \<and> (\<exists>r. (Complete_Recovery (local_scope C) epoch detail, Inr r) \<in> set u)) \<Longrightarrow> P bs (t @ u)"
  shows "does G (initialize_recovery C) t P"
  unfolding initialize_recovery_def
proof (intro does_rules)
  fix k v w u u' and bs :: "string list"
  assume clean: "bs = [] \<Longrightarrow> \<exists>epoch detail. recovery_ok C u (local_scope C) epoch
      \<and> (\<exists>r. (Complete_Recovery (local_scope C) epoch detail, Inr r) \<in> set u)"
  define h where "h = [(Enter Lifecycle_Lock, Inr v), (Enter (Account_Lock k), Inr w)] @ u @ u'"
  have "\<exists>epoch detail. recovery_ok C h (local_scope C) epoch
      \<and> (\<exists>r. (Complete_Recovery (local_scope C) epoch detail, Inr r) \<in> set h)" if "bs = []"
    using clean [OF that] unfolding recovery_ok_def h_def by (auto elim!: audited_subset intro!: exI)
  then have "P bs (t @ h)" by (rule assms)
  then show "P bs ((((t @ [(Enter Lifecycle_Lock, Inr v)]) @ [(Enter (Account_Lock k), Inr w)]) @ u) @ u')"
    by (simp add: h_def)
qed

lemma keeps_initialize_recovery: "keeps G (initialize_recovery C)"
  by (rule keepsI, rule does_initialize_recovery) simp

lemma keeps_reconcile_trades [THEN does_keeps, does_rules]: "keeps G (reconcile_trades C trs sidecar_events)"
proof (induction trs arbitrary: sidecar_events)
  case (Cons tr trs)
  show ?case
    unfolding reconcile_trades.simps
    by (rule keepsI, intro does_rules does_keeps [OF Cons.IH]; simp)
qed (rule keepsI, simp add: does_Ret)

lemma keeps_reconcile_once_unlocked [THEN does_keeps, does_rules]: "keeps G (reconcile_once_unlocked C)"
  unfolding reconcile_once_unlocked_def by (rule keepsI, intro does_rules; simp)

lemma keeps_reconcile_once: "keeps G (reconcile_once C)"
  unfolding reconcile_once_def by (rule keepsI, intro does_rules; simp)

text \<open>A snapshot is returned only of an account whose audit found nothing.\<close>

lemma does_account_snapshot_unlocked [does_rules]:
  assumes "\<And>a u. audited C u \<Longrightarrow> P a (t @ u)"
  shows "does G (account_snapshot_unlocked C) t P"
proof -
  have clean: "audited C h"
    if "snapshot_body C venue trades now = Inr (body, orders, margin)" "\<not> sa_details body @ blocked \<noteq> []"
      "(Fetch_State, Inr (Object venue)) \<in> set h"
      "(Recovery_Trades (ls_environment (ec_scope C)) (ls_account_id (ec_scope C)), Inr (Rows trades)) \<in> set h"
    for h venue trades now body orders margin blocked
    using snapshot_body_clean [OF that(1)] that(2-4) unfolding audited_def by auto
  show ?thesis
    unfolding account_snapshot_unlocked_def
    by (intro does_rules; auto intro!: assms clean)
qed

lemma does_account_snapshot:
  assumes "\<And>a u. audited C u \<Longrightarrow> P a (t @ u)"
  shows "does G (account_snapshot C) t P"
  unfolding account_snapshot_def
  by (intro does_rules) (auto intro!: assms elim!: audited_subset simp: append_assoc)

lemma keeps_account_snapshot: "keeps G (account_snapshot C)"
  by (rule keepsI, rule does_account_snapshot) simp

text \<open>The checks before an entry.\<close>

lemma does_check_operator_entry [does_rules]:
  assumes "\<And>sc v. ec_canary_scope C = Some sc \<Longrightarrow> P () (t @ [(Check_Entry d sc eid, Inr v)])"
  shows "does G (check_operator_entry C d eid) t P"
  unfolding check_operator_entry_def by (intro does_rules; simp add: assms)

lemma does_bind_canary_entry [does_rules]:
  assumes "\<And>u. all_asks no_mutation u \<Longrightarrow> P () (t @ u)"
  shows "does G (bind_canary_entry C d eid) t P"
  unfolding bind_canary_entry_def by (intro does_rules; simp add: assms)

lemma does_assert_entry_admission [does_rules]:
  assumes "\<And>u. all_asks no_mutation u \<Longrightarrow> account_admitted C tr u \<Longrightarrow> P () (t @ u)"
  shows "does G (assert_entry_admission C tr) t P"
proof -
  have admitted: "account_admitted C tr ((Entries_Allowed (local_scope C), Inr (Flag True)) # x # u
      @ [(Fetch_State, Inr (Object venue)),
         (Recovery_Trades (ls_environment (ec_scope C)) (ls_account_id (ec_scope C)), Inr (Rows durable))])"
    if "authoritative_account_blockers C venue durable (Some (tw_trade_id tr)) = Inr []"
      "decision_for_trade C tr = Inr d" "assert_canary_instrument C d venue = Inr tel"
      "\<not> list_ex (\<lambda>t. tw_trade_id t \<noteq> tw_trade_id tr) durable"
    for x u venue durable d tel
    using that unfolding account_admitted_def
    by (auto simp: list_ex_iff intro!: exI [where x = venue] exI [where x = durable])
  show ?thesis
    unfolding assert_entry_admission_def
    by (intro does_rules; (simp; fail)?; auto simp: ensure_ok_iff intro!: assms admitted split: if_splits)
qed

text \<open>The durable row of an entry.\<close>

lemma does_prepare_entry_effect [does_rules]:
  assumes "\<And>p u. P p ((t @ u) @ [(Prepare (entry_spec C d tr eid cid), Inr (Prepared_Effect p))])"
  shows "does G (prepare_entry_effect C d tr eid cid) t P"
  unfolding prepare_entry_effect_def entry_spec_def [symmetric]
  apply (intro does_rules; (simp; fail)?)
  subgoal for sc v u x w ua p
    using assms [of p "[(Check_Entry d sc eid, Inr v)] @ u @ [(Clock, Inr (At_Time x))] @ ua"] by simp
  done

end

section \<open>Entry guards\<close>

lemma entry_writes_ahead:
  assumes "pp_created p" "cached_effect (pp_effect p) = Inr None" "all_asks no_mutation h2"
    "reserved eid ''place_limit'' False True h2" "all_asks no_mutation h3"
  shows "write_ahead (h1 @ (Prepare (entry_spec C d tr eid cid), Inr (Prepared_Effect p)) # h2 @ h3)
     (Place_Limit eid cid (tw_symbol tr) side (rd_quantity d) (rd_worst_entry_price d) (rd_leverage d))"
proof -
  have "describes (entry_spec C d tr eid cid)
      (Place_Limit eid cid (tw_symbol tr) side (rd_quantity d) (rd_worst_entry_price d) (rd_leverage d))"
    by (simp add: entry_spec_def effect_spec_of_def entry_request_def)
  moreover have "reserved eid ''place_limit'' False True (h2 @ h3)"
    using assms(4) by (auto simp: reserved_def)
  then have "budgeted (Place_Limit eid cid (tw_symbol tr) side (rd_quantity d) (rd_worst_entry_price d) (rd_leverage d)) (h2 @ h3)"
    by (intro reserved_budgeted) simp
  ultimately show ?thesis
    unfolding write_ahead_def using assms by (intro exI conjI) (rule refl, auto)
qed

context entry_guard
begin

lemma canary_scopeD: "canary_entry_admission C = Inr sc \<Longrightarrow> ec_canary_scope C = Some sc"
  by (simp add: canary_entry_admission_def split: option.splits)

lemma entry_justified:
  assumes "opened C d eid cid tr h1" "pp_created p" "cached_effect (pp_effect p) = Inr None" "ec_canary_scope C = Some sc"
    and "all_asks no_mutation h2" "account_admitted C tr h2" "market_admitted d (tw_symbol tr) h2"
      "reserved eid ''place_limit'' False True h2"
  shows "G (h1 @ (Prepare (entry_spec C d tr eid cid), Inr (Prepared_Effect p)) # h2
        @ [(Enter (Operator_Dispatch d sc eid), Inr a), (Enter (Canary_Dispatch d sc eid), Inr b),
           (Check_Entry d sc eid, Inr c)])
     (Mutate (Place_Limit eid cid (tw_symbol tr) (order_side_of d) (rd_quantity d) (rd_worst_entry_price d) (rd_leverage d)))"
proof (rule entry_ok)
  have "headroom eid h2" using assms(8) unfolding reserved_def headroom_def by blast
  then show "entry_ok C (h1 @ (Prepare (entry_spec C d tr eid cid), Inr (Prepared_Effect p)) # h2
        @ [(Enter (Operator_Dispatch d sc eid), Inr a), (Enter (Canary_Dispatch d sc eid), Inr b),
           (Check_Entry d sc eid, Inr c)])
     (Place_Limit eid cid (tw_symbol tr) (order_side_of d) (rd_quantity d) (rd_worst_entry_price d) (rd_leverage d))"
    unfolding entry_ok.simps using assms by (intro exI conjI) (rule refl, auto)
qed (use assms in \<open>auto intro!: entry_writes_ahead\<close>)

lemma does_place_entry:
  assumes "opened C d eid cid tr t" "pp_created p" "cached_effect (pp_effect p) = Inr None"
    and post: "\<And>a u. P a (t @ (Prepare (entry_spec C d tr eid cid), Inr (Prepared_Effect p)) # u)"
  shows "does G (place_entry C d tr eid cid) (t @ [(Prepare (entry_spec C d tr eid cid), Inr (Prepared_Effect p))]) P"
  unfolding place_entry_def entry_dispatch_guard_def
  apply (intro does_rules; (rule confirm_ok, rule answeredI)?; (simp add: post; fail)?)
  subgoal premises facts for x u depth now tel now' w sc v ua sc' va vb sc'' vc
  proof -
    define h2 where "h2 = (Entries_Allowed (local_scope C), Inr (Flag x)) # u @ [(Fetch_Depth (tw_symbol tr), Inr (Object depth)),
      (Clock, Inr (At_Time now)), (Clock, Inr (At_Time now')), (Check_Entry d sc eid, Inr v)] @ ua"
    have "all_asks no_mutation h2" "account_admitted C tr h2"
      using facts by (auto simp: h2_def account_admitted_def)
    moreover have "market_admitted d (tw_symbol tr) h2"
      unfolding market_admitted_def
      by (rule exI [where x = depth], rule exI [where x = now], rule exI [where x = now'], rule exI [where x = tel])
        (use facts in \<open>simp add: h2_def\<close>)
    moreover have "reserved eid ''place_limit'' False True h2"
      using facts by (auto simp: h2_def reserved_def)
    moreover have "ec_canary_scope C = Some sc'" "sc'' = sc'"
      using canary_scopeD facts by force+
    ultimately show ?thesis
      using entry_justified [OF assms(1-3), of sc' h2 va vb vc] by (simp add: h2_def)
  qed
  done

lemma does_submit_entry:
  assumes "opened C d eid cid tr t"
    and post: "\<And>a u. P a (t @ (Prepare (entry_spec C d tr eid cid), Inr (Prepared_Effect p)) # u)"
  shows "does G (submit_entry C d tr eid cid p) (t @ [(Prepare (entry_spec C d tr eid cid), Inr (Prepared_Effect p))]) P"
  unfolding submit_entry_def entry_effect_def
  by (intro does_rules does_place_entry assms(1); (simp add: post ensure_ok_iff)?)

lemma keeps_enter_trade_at:
  assumes "rd_approved d" "validate_decision C d = Inr ()" "rd_trade_id d = Some tid"
    "client_id tid ENTRY (rd_decided_at_ms d) = Inr cid" "new_trade_of C d tid cid = Inr nt"
    "(Create_With_Event nt key b, Inr (Moved tr e)) \<in> set t" "tw_state tr = RECEIVED"
    and post: "\<And>a u. P a (t @ u)"
  shows "does G (enter_trade C d tr tid cid now) t P"
proof -
  have op: "opened C d (effect_id C tid ENTRY ''place'') cid tr' (t @ u)"
    if "moved (tw_trade_id tr) ENTRY_PENDING ''ENTRY_EFFECT_READY'' tr' u" for tr' u
  proof -
    have "(Create_With_Event nt key b, Inr (Moved tr e)) \<in> set (t @ u)" using assms(6) by simp
    moreover have "moved (tw_trade_id tr) ENTRY_PENDING ''ENTRY_EFFECT_READY'' tr' (t @ u)" using that by simp
    ultimately show ?thesis unfolding opened_def using assms(1-5,7) by blast
  qed
  show ?thesis
    unfolding enter_trade_def
    apply (intro does_rules does_submit_entry; (simp add: post shape_simps; fail)?)
    by (simp add: op)
qed

lemma new_trade_id: "new_trade_of C d tid cid = Inr nt \<Longrightarrow> nt_trade_id nt = tid"
  by (auto simp: new_trade_of_def rbind_eq_Inr)

lemma does_create_trade:
  assumes "rd_approved d" "validate_decision C d = Inr ()" "rd_trade_id d = Some tid"
    "client_id tid ENTRY (rd_decided_at_ms d) = Inr cid" "new_trade_of C d tid cid = Inr nt"
    and post: "\<And>tr e new key b u. (Create_With_Event nt key b, Inr (Moved tr e)) \<in> set u \<Longrightarrow> P (tr, e, new) (t @ u)"
  shows "does G (create_trade_with_event C d nt) t P"
proof -
  have d: "\<exists>d cid. rd_approved d \<and> validate_decision C d = Inr ()
        \<and> client_id (nt_trade_id nt) ENTRY (rd_decided_at_ms d) = Inr cid
        \<and> rd_trade_id d = Some (nt_trade_id nt) \<and> new_trade_of C d (nt_trade_id nt) cid = Inr nt"
    using assms(1-5) new_trade_id [OF assms(5)] by blast
  have build: "creation_ok C h nt key
      (Build_Event (fact_event C d (owner_of_new nt) DECISION_RECEIVED RECEIVED no_fact fzero now telemetry))"
    for h key now telemetry
    using d by (simp add: creation_ok_def) (simp add: fact_event_def no_fact_def)
  have replay: "creation_ok C h nt key (Replay_Event e)"
    if "h \<noteq> []" "last h = (Get_Fact (nt_trade_id nt) key, Inr (Fact (Some e)))" for h key e
    using d ends_withI [OF that] by (simp add: creation_ok_def)
  show ?thesis
    unfolding create_trade_with_event_def
    by (intro does_rules; auto intro!: create_ok build replay post split: option.splits)
qed

lemma required_optD: "required_opt v name = Inr s \<Longrightarrow> v = Some s"
  by (auto simp: required_opt_def required_text_def split: option.splits if_splits)

lemma keeps_handle_once: "keeps G (handle_once C d)"
  unfolding handle_once_def
  by (rule keepsI, intro does_rules does_create_trade keeps_enter_trade_at; (simp; fail)?)
    (auto dest!: required_optD)

lemma keeps_handle: "keeps G (handle C d)"
  unfolding handle_def
  by (rule keepsI, intro does_rules does_keeps [OF keeps_handle_once]; simp)

end

end
