(* ===== verification/Paper_Theorems.thy ===== *)
theory Paper_Theorems
  imports Paper_Lifecycle
begin

text \<open>
  The properties of the PAPER engine. A session is any sequence of public operations, each of which may
  raise; the environment chooses every answer from the whole history, so the theorems hold for every
  repository, venue and clock.
\<close>

section \<open>Sessions\<close>

datatype paper_op = Handle risk_decision | Reconcile_Once | Initialize_Recovery | Account_Snapshot | Block_Entries string

fun run_op :: "engine_config \<Rightarrow> paper_op \<Rightarrow> unit p_prog" where
  "run_op C (Handle d) = bindp (handle C d) (\<lambda>_. Ret ())"
| "run_op C Reconcile_Once = bindp (reconcile_once C) (\<lambda>_. Ret ())"
| "run_op C Initialize_Recovery = bindp (initialize_recovery C) (\<lambda>_. Ret ())"
| "run_op C Account_Snapshot = bindp (account_snapshot C) (\<lambda>_. Ret ())"
| "run_op C (Block_Entries detail) = block_entries C detail"

definition engine_session :: "engine_config \<Rightarrow> paper_op list \<Rightarrow> unit res list p_prog" where
  "engine_session C ops = mapp (\<lambda>x. attempt (run_op C x)) ops"

text \<open>The history of a session.\<close>

definition session_trace ::
  "(p_trace \<Rightarrow> p_request \<Rightarrow> p_response res) \<Rightarrow> engine_config \<Rightarrow> paper_op list \<Rightarrow> engine_state \<Rightarrow> p_trace" where
  "session_trace env C ops s = fst (snd (run env (engine_session C ops) s []))"

fun maintenance :: "paper_op \<Rightarrow> bool" where
  "maintenance (Handle _) = False"
| "maintenance _ = True"

lemma keeps_attempt: "keeps G p \<Longrightarrow> keeps G (attempt p)"
  by (rule keepsI, intro does_attempt does_keeps [of G p]) auto

lemma keeps_ignore: "keeps G p \<Longrightarrow> keeps G (bindp p (\<lambda>_. Ret ()))"
  by (rule keepsI, intro does_bindp does_keeps [of G p] does_Ret) auto

lemma session_guarded:
  assumes "\<And>x. x \<in> set ops \<Longrightarrow> keeps G (run_op C x)"
  shows "guarded G (session_trace env C ops s)"
  unfolding session_trace_def engine_session_def
  by (rule keeps_run) (auto intro!: keepsI keeps_mapp keeps_attempt [THEN keepsD] assms)

context lifecycle_guard
begin

lemma keeps_maintenance: "maintenance x \<Longrightarrow> keeps G (run_op C x)"
  by (cases x) (simp_all add: keeps_ignore keeps_reconcile_once keeps_initialize_recovery keeps_account_snapshot
      keeps_block_entries)

lemma maintenance_guarded: "guarded G (session_trace env C (filter maintenance ops) s)"
  by (rule session_guarded) (auto intro: keeps_maintenance)

end

context entry_guard
begin

lemma keeps_op: "keeps G (run_op C x)"
  by (cases x) (simp_all add: keeps_ignore keeps_handle keeps_maintenance [of Reconcile_Once, simplified]
      keeps_maintenance [of Initialize_Recovery, simplified] keeps_maintenance [of Account_Snapshot, simplified]
      keeps_maintenance [of "Block_Entries _", simplified])

lemma all_guarded: "guarded G (session_trace env C ops s)"
  by (rule session_guarded) (rule keeps_op)

end

section \<open>The journal leads\<close>

fun journal_guard :: "p_trace \<Rightarrow> p_request \<Rightarrow> bool" where
  "journal_guard h (Mutate m) = write_ahead h m"
| "journal_guard h (Confirm key xid response) = answered h key response"
| "journal_guard h _ = True"

interpretation journal: entry_guard C journal_guard for C
  by unfold_locales (auto elim!: quiet.elims)

text \<open>C1: In every session and for every environment, each mutation of the venue is preceded by a durable
  row that describes its terms (the side of an entry is the one of the trade's row), that this call created
  and that has no answer yet, with the budget granted under the same key and no other mutation since; and
  each confirmation directly follows the answer it records.\<close>

theorem writes_ahead: "guarded journal_guard (session_trace env C ops s)"
  by (rule journal.all_guarded)

section \<open>Nothing is sent twice\<close>

fun mutated_keys :: "p_trace \<Rightarrow> string list" where
  "mutated_keys [] = []"
| "mutated_keys ((Mutate m, r) # h) = mutation_key m # mutated_keys h"
| "mutated_keys (x # h) = mutated_keys h"

text \<open>The keys under which the journal answered that it created the row.\<close>

fun created_keys :: "p_trace \<Rightarrow> string list" where
  "created_keys [] = []"
| "created_keys ((Prepare spec, Inr (Prepared_Effect p)) # h) =
     (if pp_created p then es_key spec # created_keys h else created_keys h)"
| "created_keys (x # h) = created_keys h"

lemma mutated_keys_append: "mutated_keys (h @ u) = mutated_keys h @ mutated_keys u"
  by (induction h rule: mutated_keys.induct) auto

lemma created_keys_append: "created_keys (h @ u) = created_keys h @ created_keys u"
  by (induction h rule: created_keys.induct) auto

lemma mutated_keys_none: "all_asks no_mutation h \<Longrightarrow> mutated_keys h = []"
  by (induction h rule: mutated_keys.induct) auto

lemma mutated_keys_quiet: "no_mutation (fst x) \<Longrightarrow> mutated_keys [x] = []"
  by (cases x; cases "fst x") auto

lemma guarded_append: "guarded G (h @ u) \<Longrightarrow> guarded G h"
  by (induction u rule: rev_induct) (simp_all flip: append_assoc)

lemma describes_key: "describes spec m \<Longrightarrow> es_key spec = mutation_key m"
  by (cases m) auto

lemma journalled_once:
  "guarded journal_guard t \<Longrightarrow> count_list (mutated_keys t) key \<le> count_list (created_keys t) key"
proof (induction t rule: length_induct)
  case (1 t)
  show ?case
  proof (cases t rule: rev_cases)
    case (snoc h x)
    have h: "guarded journal_guard h" "journal_guard h (fst x)" using "1.prems" snoc by auto
    show ?thesis
    proof (cases "fst x")
      case (Mutate m)
      then obtain h1 spec p h2 where d: "h = h1 @ (Prepare spec, Inr (Prepared_Effect p)) # h2" "describes spec m"
        "pp_created p" "all_asks no_mutation h2"
        using h(2) by (auto simp: write_ahead_def)
      have "count_list (mutated_keys h1) key \<le> count_list (created_keys h1) key"
        using "1.IH" guarded_append [OF h(1) [unfolded d(1)]] snoc d(1) by simp
      moreover have "mutated_keys t = mutated_keys h1 @ [mutation_key m]"
        using snoc d Mutate by (cases x) (simp add: mutated_keys_append mutated_keys_none)
      moreover have "count_list (created_keys t) key
          \<ge> count_list (created_keys h1) key + (if mutation_key m = key then 1 else 0)"
        using snoc d describes_key [OF d(2)] by (simp add: created_keys_append)
      ultimately show ?thesis by (simp split: if_splits)
    qed (use "1.IH" h(1) snoc mutated_keys_quiet [of x] in \<open>auto simp: mutated_keys_append created_keys_append trans_le_add1\<close>)
  qed simp
qed

text \<open>C2: Over a session, and over every retry, redelivery and recovery in it, the venue is mutated under an
  effect key at most as often as the journal answered that it had created the row of that key: with a
  journal that creates a row once, no effect is ever sent twice.\<close>

theorem sent_at_most_once:
  "count_list (mutated_keys (session_trace env C ops s)) key \<le> count_list (created_keys (session_trace env C ops s)) key"
  by (rule journalled_once) (rule journal.all_guarded)

section \<open>Entries\<close>

fun entry_gate :: "engine_config \<Rightarrow> p_trace \<Rightarrow> p_request \<Rightarrow> bool" where
  "entry_gate C h (Mutate m) = entry_ok C h m"
| "entry_gate C h _ = True"

lemma entry_ok_other: "\<not> is_entry m \<Longrightarrow> entry_ok C h m"
  by (cases m) auto

interpretation entries: entry_guard C "entry_gate C" for C
  by unfold_locales (auto elim!: quiet.elims simp: entry_ok_other)

text \<open>C3: In every session, an order that opens a position is placed only for an approved and validated
  decision whose trade this engine created as new, with the side, quantity, price cap and leverage of
  the decision, directly after the operator and canary dispatch guards were taken and the operator
  control answered; and between its durable row and the venue the account was audited as clean, the
  book as live, the market as fresh, and the budget as enough for stop, target and compensation.\<close>

theorem entries_are_gated: "guarded (entry_gate C) (session_trace env C ops s)"
  by (rule entries.all_guarded)

fun no_entry_gate :: "p_trace \<Rightarrow> p_request \<Rightarrow> bool" where
  "no_entry_gate h (Mutate m) = (\<not> is_entry m)"
| "no_entry_gate h (Create_With_Event nt key b) = False"
| "no_entry_gate h _ = True"

interpretation no_entries: lifecycle_guard C no_entry_gate for C
  by unfold_locales (auto elim!: quiet.elims)

text \<open>C21: Reconciliation, startup recovery, account snapshots and the operator's block never create a trade
  and never open a position, whatever they find.\<close>

theorem maintenance_never_enters: "guarded no_entry_gate (session_trace env C (filter maintenance ops) s)"
  by (rule no_entries.maintenance_guarded)

section \<open>Protection\<close>

fun target_gate :: "engine_config \<Rightarrow> p_trace \<Rightarrow> p_request \<Rightarrow> bool" where
  "target_gate C h (Mutate m) = target_ok C h m"
| "target_gate C h _ = True"

lemma target_ok_entry: "is_entry m \<Longrightarrow> target_ok C h m"
  by (cases m) auto

interpretation targets: entry_guard C "target_gate C" for C
  by unfold_locales (auto elim!: quiet.elims simp: target_ok_entry)

text \<open>C13: A take-profit is sent to the venue only after the stop of the same exposure was found live on the
  venue, validated against the trade, recorded, and its transition acknowledged by the journal.\<close>

theorem stop_before_target: "guarded (target_gate C) (session_trace env C ops s)"
  by (rule targets.all_guarded)

text \<open>C14: Protecting the fill of a trade returns only when that trade is protected or flat. Protected: first a
  stop and then a target were looked up, under the row the journal had answered for this trade and the
  identity the answer to the leg's own creation names; each found record is live, of the decision's
  instrument, with the row's side and price and no other parent than the row's entry order, was at once
  recorded under the leg's effect key, and the transition of that row was acknowledged. Flat: the close looked
  at the venue, saw neither a position in the row's instrument nor an order with the row's entry identifier,
  and after that look the journal acknowledged the row's FLAT transition.\<close>

theorem protect_protects:
  "case run env (protect C d tr) s [] of
     (_, t, Inr es) \<Rightarrow> protected_or_flat C d tr t
   | _ \<Rightarrow> True"
proof -
  have "does journal_guard (protect C d tr) [] (\<lambda>_. protected_or_flat C d tr)"
    by (rule journal.does_protect) simp
  then show ?thesis
    using does_run [of journal_guard "protect C d tr" "[]" _ env s]
    by (cases "run env (protect C d tr) s []") (auto split: sum.splits)
qed

section \<open>Facts\<close>

fun fact_gate :: "engine_config \<Rightarrow> p_trace \<Rightarrow> p_request \<Rightarrow> bool" where
  "fact_gate C h (Transition tid target journal key b mv) = fact_ok C h tid target key b mv"
| "fact_gate C h (Create_With_Event nt key b) = creation_ok C h nt key b"
| "fact_gate C h _ = True"

interpretation facts: entry_guard C "fact_gate C" for C
  by unfold_locales (auto elim!: quiet.elims)

text \<open>C20: Every lifecycle transition of a session carries the fact the journal already holds under its
  key, or a new fact that is well-formed for it: the state of the transition, the trade and scope of
  the engine, a type the target state allows, and quantities that agree with it (FLAT facts report no
  position, cancelled entries no fill, fills the cumulative quantity the row is given, triggers the
  reason of the exit state). Trades are created for approved, validated decisions only.\<close>

theorem facts_are_typed: "guarded (fact_gate C) (session_trace env C ops s)"
  by (rule facts.all_guarded)

section \<open>Recovery and snapshots\<close>

fun recovery_gate :: "engine_config \<Rightarrow> p_trace \<Rightarrow> p_request \<Rightarrow> bool" where
  "recovery_gate C h (Complete_Recovery k epoch detail) = recovery_ok C h k epoch"
| "recovery_gate C h _ = True"

interpretation recoveries: entry_guard C "recovery_gate C" for C
  by unfold_locales (auto elim!: quiet.elims)

definition recovered :: "engine_config \<Rightarrow> p_trace \<Rightarrow> bool" where
  "recovered C h \<longleftrightarrow> (\<exists>epoch detail r. recovery_ok C h (local_scope C) epoch
     \<and> (Complete_Recovery (local_scope C) epoch detail, Inr r) \<in> set h)"

text \<open>C22: Startup recovery reports no blocker only when it completed the recovery epoch that it began, on a
  venue state in which the account-wide audit found every position, order and protection accounted for.\<close>

theorem recovery_is_proven:
  "case run env (initialize_recovery C) s [] of
     (_, t, Inr []) \<Rightarrow> guarded (recovery_gate C) t \<and> recovered C t
   | _ \<Rightarrow> True"
proof -
  have "does (recovery_gate C) (initialize_recovery C) [] (\<lambda>bs t. bs = [] \<longrightarrow> recovered C t)"
    by (rule recoveries.does_initialize_recovery) (auto simp: recovered_def)
  then show ?thesis
    using does_run [of "recovery_gate C" "initialize_recovery C" "[]" _ env s]
    by (cases "run env (initialize_recovery C) s []") (auto split: sum.splits list.splits)
qed

text \<open>C24: An account snapshot is returned only of an account whose audit, on the venue state of this very
  call, found nothing.\<close>

theorem snapshot_is_audited:
  "case run env (account_snapshot C) s [] of
     (_, t, Inr snapshot) \<Rightarrow> audited C t
   | _ \<Rightarrow> True"
proof -
  have "does journal_guard (account_snapshot C) [] (\<lambda>_. audited C)"
    by (rule journal.does_account_snapshot) simp
  then show ?thesis
    using does_run [of journal_guard "account_snapshot C" "[]" _ env s]
    by (cases "run env (account_snapshot C) s []") (auto split: sum.splits)
qed

end
