(* ===== verification/Paper_Checks.thy ===== *)
theory Paper_Checks
  imports Paper_Evidence
begin

text \<open>
  The properties of the checks of the PAPER engine: what the validation of an entry acknowledgement, the
  attribution of a flat position and the account-wide audit establish when they return.
\<close>

section \<open>Acknowledgements\<close>

text \<open>An acknowledgement is within the decision: it names the engine's own order, reports no more than the
  approved quantity, and every fill has an average price that is positive and respects the cap.\<close>

definition within_cap :: "risk_decision \<Rightarrow> f64 \<Rightarrow> bool" where
  "within_cap d avg \<longleftrightarrow> isfinite avg \<and> flt fzero avg \<and> (case ti_side (rd_intent d) of
     LONG_SIDE \<Rightarrow> \<not> flt (fadd (rd_worst_entry_price d) (tolerance (rd_worst_entry_price d))) avg
   | SHORT_SIDE \<Rightarrow> \<not> flt avg (fsub (rd_worst_entry_price d) (tolerance (rd_worst_entry_price d)))
   | OTHER_P_SIDE _ \<Rightarrow> True)"

definition within_decision :: "risk_decision \<Rightarrow> string \<Rightarrow> ack \<Rightarrow> bool" where
  "within_decision d cid k \<longleftrightarrow> ak_order_id k = cid
     \<and> ak_status k \<in> {''NEW'', ''PARTIALLY_FILLED'', ''FILLED''} \<union> dead_statuses
     \<and> \<not> flt (rd_quantity d) (ak_filled k)
     \<and> (case ak_average k of None \<Rightarrow> \<not> flt (tolerance (rd_quantity d)) (ak_filled k) | Some avg \<Rightarrow> within_cap d avg)"

lemma fmin_upper: "\<not> flt a (fmin a b)"
  by (cases a; cases b) (auto simp: fmin_def flt_def)

lemma fmin_keeps_upper: "\<not> flt t b \<Longrightarrow> b \<noteq> FNaN \<Longrightarrow> \<not> flt t (fmin a b)"
  by (cases a; cases b; cases t) (auto simp: fmin_def flt_def split: if_splits)

lemma finiteD: "Paper_Venue.finite v = Inr x \<Longrightarrow> isfinite x \<and> \<not> flt x fzero"
  unfolding finite_def by (elim rbind_InrE) auto

lemma required_numberD: "required_number d k = Inr x \<Longrightarrow> isfinite x \<and> \<not> flt x fzero"
  unfolding required_number_def by (auto dest: finiteD split: json.splits)

lemma positive_optionalD: "positive_optional v = Inr (Some x) \<Longrightarrow> isfinite x \<and> flt fzero x"
  unfolding positive_optional_def by (elim rbind_InrE) (auto dest: finiteD split: if_splits)

lemma fsub_not_nan: "isfinite a \<Longrightarrow> isfinite b \<Longrightarrow> fmax fzero (fsub a b) \<noteq> FNaN"
  by (cases a; cases b) (auto simp: fsub_def fmax_def fzero_def flt_def fround_def Let_def)

lemma entry_fill_not_nan:
  "entry_fill status q r tol = Inr x \<Longrightarrow> isfinite q \<Longrightarrow> isfinite r \<Longrightarrow> x \<noteq> FNaN"
  unfolding entry_fill_def using fsub_not_nan [of q r]
  by (auto elim!: rbind_InrE simp: fzero_def split: if_splits)

lemma entry_price_capD: "entry_price_cap d a = Inr u \<Longrightarrow> isfinite a \<Longrightarrow> flt fzero a \<Longrightarrow> within_cap d a"
  by (auto simp: entry_price_cap_def within_cap_def Let_def ensure_ok_iff split: p_side.splits)

text \<open>C25: When the validation of an entry acknowledgement returns, the acknowledgement is within the
  decision: the engine's own order, a known status, no more than the approved quantity filled, and a
  positive average price within the cap for every fill.\<close>

theorem acknowledged_within_decision:
  "case validate_entry_response r d cid of Inr k \<Rightarrow> within_decision d cid k | Inl e \<Rightarrow> True"
proof (cases "validate_entry_response r d cid")
  case (Inr k)
  then obtain xid quantity remaining filled avg where
    xid: "xid = cid" and st: "order_status_text r [] \<in> {''NEW'', ''PARTIALLY_FILLED'', ''FILLED''} \<union> dead_statuses"
    and q: "isfinite quantity" "isfinite remaining"
    and f: "entry_fill (order_status_text r []) quantity remaining (tolerance (rd_quantity d)) = Inr filled"
    and a: "positive_optional (field r ''filledAvgPrice'') = Inr avg" "\<not> (flt (tolerance (rd_quantity d)) filled \<and> avg = None)"
      "(case avg of None \<Rightarrow> Inr () | Some a \<Rightarrow> entry_price_cap d a) = Inr ()"
    and k: "k = \<lparr> ak_order_id = xid, ak_status = order_status_text r [], ak_filled = fmin (rd_quantity d) filled,
        ak_average = avg \<rparr>"
    unfolding validate_entry_response_def Let_def
    by (elim rbind_InrE) (auto simp: ensure_ok_iff dest!: required_numberD)
  have "filled \<noteq> FNaN" by (rule entry_fill_not_nan [OF f q])
  then have "within_decision d cid k"
    using xid st a fmin_upper fmin_keeps_upper positive_optionalD entry_price_capD
    by (cases avg) (auto simp: k within_decision_def)
  then show ?thesis using Inr by simp
qed simp

section \<open>Attribution\<close>

text \<open>C26: A flat position is attributed to the stop or to the target only on complete evidence: every record of
  the protection the trade names (the venue's, or without one those of its id among the sidecar's events)
  is the planned protection, one of them is triggered, for the filled quantity of the trade, the
  triggered ones are uncancelled and name the same generated order, that order is the only one of its id
  in the order history and is a filled market order of the closing side and of that quantity with an
  explicit fee; and no record of the other protection shows it triggered.\<close>

theorem attribution_is_proven:
  "case classify_flat_exit sc tr venue sidecar_events of
     Inr x \<Rightarrow> attributed sc tr venue (tpsl_events sidecar_events) x
        \<and> untriggered tr venue (tpsl_events sidecar_events) (if vx_role x = STOP_LOSS then TAKE_PROFIT else STOP_LOSS)
   | Inl e \<Rightarrow> True"
  by (cases "classify_flat_exit sc tr venue sidecar_events")
    (simp_all add: proven_venue_triggerD [OF classify_flat_exitD])

end
