(* ===== verification/Paper_Audit.thy ===== *)
theory Paper_Audit
  imports Paper_Evidence
begin

text \<open>
  The account-wide audit against its specification. \<open>account_clean\<close> says what an accounted account is;
  the code computes a list of blockers in loops with accumulators, and an empty list implies it.
\<close>

section \<open>The specification\<close>

definition trade_symbol :: "lifecycle_scope \<Rightarrow> trade_row \<Rightarrow> string option" where
  "trade_symbol sc tr = map_of (ls_symbol_map sc) (tw_symbol tr)"

definition identity_clean :: "lifecycle_scope \<Rightarrow> obj \<Rightarrow> bool" where
  "identity_clean sc account \<longleftrightarrow> (\<exists>r. ls_remote_account_id sc = Some r \<and> r \<in> account_identities account)
     \<and> field account ''marginCall'' = JBool False"

text \<open>A position is flat, or it is the position of one of the trades.\<close>

definition position_clean :: "lifecycle_scope \<Rightarrow> trade_row list \<Rightarrow> obj \<Rightarrow> bool" where
  "position_clean sc trades item \<longleftrightarrow> (\<exists>q. required_number item ''quantity'' = Inr q \<and> (fle q fzero \<or>
     (\<exists>tr \<in> set trades. \<exists>lev. trade_symbol sc tr = Some (upper_field item ''instrument'')
        \<and> upper_field item ''side'' = tw_side tr
        \<and> \<not> flt (fadd (tw_quantity tr) (tolerance (tw_quantity tr))) q
        \<and> positive (field item ''leverage'') ''position leverage'' = Inr lev
        \<and> close_to (tolerance (tw_leverage tr)) lev (tw_leverage tr)
        \<and> tw_state tr \<noteq> ENTRY_PENDING
        \<and> (tw_state tr \<in> {PROTECTING, ACTIVE} \<longrightarrow> close_to (tolerance (tw_quantity tr)) q (tw_filled_quantity tr)))))"

text \<open>An open order is the entry of one of the trades, in a state that may have one.\<close>

definition order_clean :: "engine_config \<Rightarrow> trade_row list \<Rightarrow> obj \<Rightarrow> bool" where
  "order_clean C trades item \<longleftrightarrow> (\<exists>tr \<in> set trades. \<exists>d k. tw_entry_client_order_id tr = field_text item ''id'' []
     \<and> decision_for_trade C tr = Inr d \<and> validate_entry_response item d (tw_entry_client_order_id tr) = Inr k
     \<and> tw_state tr \<in> {ENTRY_PENDING, PROTECTING, ACTIVE})"

text \<open>A live TP/SL is the stop or the target of one of the trades, with its plan.\<close>

definition tpsl_clean :: "lifecycle_scope \<Rightarrow> trade_row list \<Rightarrow> string \<times> obj \<Rightarrow> bool" where
  "tpsl_clean sc trades p \<longleftrightarrow> \<not> is_live_tpsl (Some (snd p)) \<or>
     (\<exists>tr \<in> set trades. \<exists>role \<in> {STOP_LOSS, TAKE_PROFIT}. \<exists>vs.
        (if role = STOP_LOSS then tw_stop_exchange_order_id tr else tw_target_exchange_order_id tr) = Some (fst p)
      \<and> validate_tpsl (snd p) (tpsl_plan_of tr vs role) True False = Inr ())"

text \<open>A trade that should have a position has one, and an open position has its live protection.\<close>

definition open_symbols :: "obj list \<Rightarrow> string set" where
  "open_symbols positions = {upper_field item ''instrument'' |item q. item \<in> set positions
     \<and> required_number item ''quantity'' = Inr q \<and> \<not> fle q fzero}"

definition trade_covered :: "lifecycle_scope \<Rightarrow> obj list \<Rightarrow> (string \<times> obj) list \<Rightarrow> trade_row \<Rightarrow> bool" where
  "trade_covered sc positions records tr \<longleftrightarrow> (\<exists>vs. trade_symbol sc tr = Some vs \<and>
     (let is_open = (vs \<in> open_symbols positions);
          live = (\<lambda>xid. is_live_tpsl (map_of records (case xid of Some x \<Rightarrow> x | None \<Rightarrow> []))) in
      (tw_state tr = ACTIVE \<longrightarrow> is_open \<and> live (tw_stop_exchange_order_id tr) \<and> live (tw_target_exchange_order_id tr))
    \<and> (tw_state tr = PROTECTING \<and> is_open \<longrightarrow> live (tw_stop_exchange_order_id tr))))"

definition account_clean :: "engine_config \<Rightarrow> obj \<Rightarrow> trade_row list \<Rightarrow> bool" where
  "account_clean C venue trades \<longleftrightarrow>
     (\<exists>account positions orders records.
        as_object (field venue ''account'') ''account'' = Inr account \<and> identity_clean (ec_scope C) account
      \<and> as_list (field venue ''positions'') = Inr positions \<and> (\<forall>x \<in> set positions. position_clean (ec_scope C) trades x)
      \<and> as_list (field venue ''orders'') = Inr orders \<and> (\<forall>x \<in> set orders. order_clean C trades x)
      \<and> tpsl_records venue = Inr records \<and> (\<forall>x \<in> set records. tpsl_clean (ec_scope C) trades x)
      \<and> (\<forall>tr \<in> set trades. trade_covered (ec_scope C) positions records tr)
      \<and> distinct (map (trade_symbol (ec_scope C)) trades) \<and> distinct (map tw_entry_client_order_id trades))"

section \<open>Ownership\<close>

definition owned_by :: "lifecycle_scope \<Rightarrow> trade_row list \<Rightarrow> ownership \<Rightarrow> bool" where
  "owned_by sc ts a \<longleftrightarrow>
     (\<forall>(vs, tr) \<in> set (ow_by_symbol a). tr \<in> set ts \<and> trade_symbol sc tr = Some vs)
   \<and> (\<forall>(cid, tr) \<in> set (ow_by_entry a). tr \<in> set ts \<and> tw_entry_client_order_id tr = cid)
   \<and> (\<forall>(xid, (tr, typ, price)) \<in> set (ow_protection a). tr \<in> set ts \<and>
        (\<exists>role \<in> {STOP_LOSS, TAKE_PROFIT}. typ = tpsl_type_text role
           \<and> price = (if role = STOP_LOSS then tw_stop_price tr else tw_target_price tr)
           \<and> (if role = STOP_LOSS then tw_stop_exchange_order_id tr else tw_target_exchange_order_id tr) = Some xid))"

lemma owned_byD:
  "owned_by sc ts a \<Longrightarrow> map_of (ow_by_symbol a) vs = Some tr \<Longrightarrow> tr \<in> set ts \<and> trade_symbol sc tr = Some vs"
  "owned_by sc ts a \<Longrightarrow> map_of (ow_by_entry a) cid = Some tr \<Longrightarrow> tr \<in> set ts \<and> tw_entry_client_order_id tr = cid"
  "owned_by sc ts a \<Longrightarrow> map_of (ow_protection a) xid = Some (tr, kind, price) \<Longrightarrow> tr \<in> set ts \<and>
     (\<exists>role \<in> {STOP_LOSS, TAKE_PROFIT}. kind = tpsl_type_text role
        \<and> price = (if role = STOP_LOSS then tw_stop_price tr else tw_target_price tr)
        \<and> (if role = STOP_LOSS then tw_stop_exchange_order_id tr else tw_target_exchange_order_id tr) = Some xid)"
  by (drule map_of_SomeD, simp only: owned_by_def, drule conjunct1 conjunct2, fastforce)+

lemma dict_set_members: "x \<in> set (dict_set k v d) \<Longrightarrow> x = (k, v) \<or> x \<in> set d"
  by (induction d rule: dict_set.induct) (auto split: if_splits)

lemma owned_by_mono: "owned_by sc ts a \<Longrightarrow> owned_by sc (t # ts) a"
  unfolding owned_by_def by fastforce

lemma owned_by_block [simp]: "owned_by sc ts (block msg a) = owned_by sc ts a"
  by (simp add: owned_by_def block_def)

lemma owned_by_protection:
  assumes "owned_by sc ts a" "tr \<in> set ts" "role \<in> {STOP_LOSS, TAKE_PROFIT}"
    and "p = (if role = STOP_LOSS then tw_stop_exchange_order_id tr else tw_target_exchange_order_id tr,
       tpsl_type_text role, if role = STOP_LOSS then tw_stop_price tr else tw_target_price tr)"
  shows "owned_by sc ts (own_protection tr p a)"
  using assms unfolding own_protection_def Let_def owned_by_def block_def
  by (cases "fst p") (auto dest!: dict_set_members)

lemma owned_by_trade:
  assumes "owned_by sc ts a" "tr \<in> set ts"
  shows "owned_by sc ts (own_trade sc a tr)"
proof (cases "map_of (ls_symbol_map sc) (tw_symbol tr)")
  case (Some vs)
  have fields: "owned_by sc ts b" if "ow_by_symbol b = dict_set vs tr (ow_by_symbol a)"
      "ow_by_entry b = dict_set (tw_entry_client_order_id tr) tr (ow_by_entry a)" "ow_protection b = ow_protection a" for b
    using that assms Some by (auto simp: owned_by_def trade_symbol_def dest!: dict_set_members)
  show ?thesis
    unfolding own_trade_def Some option.case Let_def
    by (rule owned_by_protection [where role = TAKE_PROFIT], rule owned_by_protection [where role = STOP_LOSS], rule fields)
      (simp_all add: tpsl_type_text_def assms block_def)
qed (use assms in \<open>simp add: own_trade_def\<close>)

lemma owned_by_all:
  "set us \<subseteq> set ts \<Longrightarrow> owned_by sc ts a \<Longrightarrow> owned_by sc ts (foldl (own_trade sc) a us)"
  by (induction us arbitrary: a) (auto intro: owned_by_trade)

text \<open>A trade that adds no blocker has a fresh symbol and a fresh entry identifier.\<close>

lemma blockers_block [simp]: "ow_blockers (block msg a) = ow_blockers a @ [msg]"
  by (simp add: block_def)

lemma own_protection_keeps:
  "ow_blockers (own_protection tr p a) = [] \<Longrightarrow> ow_blockers a = []"
  "ow_by_symbol (own_protection tr p a) = ow_by_symbol a"
  "ow_by_entry (own_protection tr p a) = ow_by_entry a"
  by (auto simp: own_protection_def Let_def block_def split: option.splits if_splits)

lemma own_trade_clean:
  assumes "ow_blockers (own_trade sc a tr) = []"
  obtains vs where "ow_blockers a = []" "trade_symbol sc tr = Some vs" "vs \<notin> fst ` set (ow_by_symbol a)"
    "tw_entry_client_order_id tr \<notin> fst ` set (ow_by_entry a)"
    "fst ` set (ow_by_symbol (own_trade sc a tr)) = insert vs (fst ` set (ow_by_symbol a))"
    "fst ` set (ow_by_entry (own_trade sc a tr)) = insert (tw_entry_client_order_id tr) (fst ` set (ow_by_entry a))"
proof (cases "map_of (ls_symbol_map sc) (tw_symbol tr)")
  case None
  then show ?thesis using assms by (simp add: own_trade_def)
next
  case (Some vs)
  have d: "map_of xs k = None \<longleftrightarrow> k \<notin> fst ` set xs" for xs :: "(string \<times> trade_row) list" and k
    by (rule map_of_eq_None_iff)
  have ts: "trade_symbol sc tr = Some vs" using Some by (simp add: trade_symbol_def)
  show ?thesis
    using assms that [OF _ ts] unfolding own_trade_def Some option.case Let_def
    by (auto dest!: own_protection_keeps(1) simp: own_protection_keeps(2,3) d keys_dict_set block_def
        split: if_splits)
qed

lemma own_trades_clean:
  assumes "ow_blockers (foldl (own_trade sc) a ts) = []"
  shows "ow_blockers a = [] \<and> distinct (map (trade_symbol sc) ts) \<and> distinct (map tw_entry_client_order_id ts)
    \<and> (\<forall>tr \<in> set ts. \<exists>vs. trade_symbol sc tr = Some vs \<and> vs \<notin> fst ` set (ow_by_symbol a)
         \<and> tw_entry_client_order_id tr \<notin> fst ` set (ow_by_entry a))"
  using assms
proof (induction ts arbitrary: a)
  case (Cons tr ts)
  let ?b = "own_trade sc a tr"
  have ih: "ow_blockers ?b = [] \<and> distinct (map (trade_symbol sc) ts) \<and> distinct (map tw_entry_client_order_id ts)
    \<and> (\<forall>tr \<in> set ts. \<exists>vs. trade_symbol sc tr = Some vs \<and> vs \<notin> fst ` set (ow_by_symbol ?b)
         \<and> tw_entry_client_order_id tr \<notin> fst ` set (ow_by_entry ?b))"
    using Cons.IH [of ?b] Cons.prems by simp
  obtain vs where c: "ow_blockers a = []" "trade_symbol sc tr = Some vs" "vs \<notin> fst ` set (ow_by_symbol a)"
    "tw_entry_client_order_id tr \<notin> fst ` set (ow_by_entry a)"
    "fst ` set (ow_by_symbol ?b) = insert vs (fst ` set (ow_by_symbol a))"
    "fst ` set (ow_by_entry ?b) = insert (tw_entry_client_order_id tr) (fst ` set (ow_by_entry a))"
    by (rule own_trade_clean) (use ih in blast)
  from ih c show ?case by fastforce
qed simp

section \<open>The loops over the venue state\<close>

lemma own_position_grows: "own_position a acc item = Inr acc' \<Longrightarrow> fst acc' = [] \<Longrightarrow> fst acc = []"
  unfolding own_position_def by (cases acc) (auto elim!: rbind_InrE simp: Let_def split: if_splits option.splits)

lemma own_order_grows: "own_order C a acc item = Inr acc' \<Longrightarrow> fst acc' = [] \<Longrightarrow> fst acc = []"
  unfolding own_order_def by (cases acc) (auto elim!: rbind_InrE simp: Let_def split: if_splits option.splits)

lemma own_tpsl_grows: "own_tpsl sc a bs p = Inr bs' \<Longrightarrow> bs' = [] \<Longrightarrow> bs = []"
  unfolding own_tpsl_def by (cases p) (auto elim!: rbind_InrE simp: Let_def split: if_splits option.splits)

lemma cover_blockers_grows: "cover_blockers sc actual records bs tr = Inr bs' \<Longrightarrow> bs' = [] \<Longrightarrow> bs = []"
  unfolding cover_blockers_def by (auto elim!: rbind_InrE simp: Let_def)

lemma keys_add_to [simp]: "fst ` set (add_to k q p) = insert k (fst ` set p)"
  by (simp add: add_to_def keys_dict_set)

lemma own_position_clean:
  assumes "own_position a acc item = Inr acc'" "fst acc' = []" "owned_by sc ts a"
  shows "position_clean sc ts item"
    and "fst ` fst ` set (snd acc') = fst ` fst ` set (snd acc) \<union>
      {upper_field item ''instrument'' |q. required_number item ''quantity'' = Inr q \<and> \<not> fle q fzero}"
proof -
  obtain q where q: "required_number item ''quantity'' = Inr q"
    using assms(1) unfolding own_position_def by (cases acc) (auto elim!: rbind_InrE)
  show "position_clean sc ts item"
    using assms q unfolding own_position_def position_clean_def
    by (cases acc) (auto elim!: rbind_InrE dest!: map_of_SomeD simp: Let_def position_blockers_def owned_by_def
        split: if_splits option.splits)
  have "if fle q fzero then snd acc' = snd acc
      else \<exists>side. snd acc' = add_to (upper_field item ''instrument'', side) q (snd acc)"
    using assms q unfolding own_position_def
    by (cases acc) (auto elim!: rbind_InrE simp: Let_def split: if_splits option.splits)
  then show "fst ` fst ` set (snd acc') = fst ` fst ` set (snd acc) \<union>
      {upper_field item ''instrument'' |q. required_number item ''quantity'' = Inr q \<and> \<not> fle q fzero}"
  proof (cases "fle q fzero")
    case False
    then obtain side where "snd acc' = add_to (upper_field item ''instrument'', side) q (snd acc)"
      using \<open>if fle q fzero then _ else _\<close> by auto
    then have "fst ` fst ` set (snd acc') = insert (upper_field item ''instrument'') (fst ` fst ` set (snd acc))"
      by simp
    then show ?thesis using q False by simp
  qed (use q in auto)
qed

lemma own_positions_clean:
  assumes "rfold (own_position a) acc items = Inr acc'" "fst acc' = []" "owned_by sc ts a"
  shows "fst ` fst ` set (snd acc') = fst ` fst ` set (snd acc) \<union> open_symbols items"
    and "\<forall>x \<in> set items. position_clean sc ts x"
  using assms(1,2)
proof (induction items arbitrary: acc)
  case (Cons x xs)
  case 1
  then obtain b where b: "own_position a acc x = Inr b" "rfold (own_position a) b xs = Inr acc'"
    by (auto simp: rbind_eq_Inr)
  have "fst b = []" by (rule rfold_grows [of "own_position a" fst, OF own_position_grows b(2) 1(2)])
  note step = own_position_clean [OF b(1) this assms(3)]
  show ?case using Cons.IH(1) [OF b(2) 1(2)] step(2) by (auto simp: open_symbols_def)
next
  case (Cons x xs)
  case 2
  then obtain b where b: "own_position a acc x = Inr b" "rfold (own_position a) b xs = Inr acc'"
    by (auto simp: rbind_eq_Inr)
  have "fst b = []" by (rule rfold_grows [of "own_position a" fst, OF own_position_grows b(2) 2(2)])
  note step = own_position_clean [OF b(1) this assms(3)]
  show ?case using Cons.IH(2) [OF b(2) 2(2)] step(1) by simp
qed (auto simp: open_symbols_def)

lemma own_order_clean:
  assumes "own_order C a acc item = Inr acc'" "fst acc' = []" "owned_by sc ts a"
  shows "order_clean C ts item"
proof -
  obtain tr d k where m: "map_of (ow_by_entry a) (field_text item ''id'' []) = Some tr"
    and k: "decision_for_trade C tr = Inr d" "validate_entry_response item d (tw_entry_client_order_id tr) = Inr k"
      "tw_state tr \<in> {ENTRY_PENDING, PROTECTING, ACTIVE}"
    using assms(1,2) unfolding own_order_def
    by (cases acc) (auto elim!: rbind_InrE simp: Let_def split: if_splits option.splits)
  then show ?thesis using owned_byD(2) [OF assms(3) m] unfolding order_clean_def by blast
qed

lemma own_tpsl_clean:
  assumes "own_tpsl sc a bs p = Inr bs'" "bs' = []" "owned_by sc ts a"
  shows "tpsl_clean sc ts p"
proof (cases "is_live_tpsl (Some (snd p))")
  case True
  then obtain tr kind price vs where m: "map_of (ow_protection a) (fst p) = Some (tr, kind, price)"
    and v: "validate_tpsl (snd p) \<lparr> tp_venue_symbol = vs, tp_side = tw_side tr, tp_type = kind, tp_price = price,
                   tp_parent = tw_entry_client_order_id tr \<rparr> True False = Inr ()"
    using assms(1,2) unfolding own_tpsl_def
    by (cases p) (auto elim!: rbind_InrE simp: Let_def split: if_splits option.splits)
  obtain role where role: "tr \<in> set ts" "role \<in> {STOP_LOSS, TAKE_PROFIT}" "kind = tpsl_type_text role"
      "price = (if role = STOP_LOSS then tw_stop_price tr else tw_target_price tr)"
      "(if role = STOP_LOSS then tw_stop_exchange_order_id tr else tw_target_exchange_order_id tr) = Some (fst p)"
    using owned_byD(3) [OF assms(3) m] by blast
  have "validate_tpsl (snd p) (tpsl_plan_of tr vs role) True False = Inr ()"
    using v role(3,4) by (simp add: tpsl_plan_of_def)
  then show ?thesis unfolding tpsl_clean_def using role by blast
qed (simp add: tpsl_clean_def)

lemma cover_clean:
  assumes "cover_blockers sc actual records bs tr = Inr bs'" "bs' = []"
    and "fst ` fst ` set actual = open_symbols positions"
  shows "trade_covered sc positions records tr"
  using assms unfolding cover_blockers_def trade_covered_def
  by (auto elim!: rbind_InrE simp: symbol_of_def trade_symbol_def Let_def split: option.splits if_splits)

text \<open>The audit implements its specification.\<close>

lemma audit_clean:
  assumes "authoritative_account_blockers C venue trades None = Inr []"
  shows "account_clean C venue trades"
proof -
  obtain account positions actual orders actual_orders records bs1 bs2 bs3 bs4 a where
    acc: "as_object (field venue ''account'') ''account'' = Inr account"
    and a: "a = foldl (own_trade (ec_scope C)) \<lparr> ow_blockers = identity_blockers (ec_scope C) account, ow_by_symbol = [],
        ow_by_entry = [], ow_protection = [] \<rparr> trades"
    and ps: "as_list (field venue ''positions'') = Inr positions"
      "rfold (own_position a) (ow_blockers a, []) positions = Inr (bs1, actual)"
    and os: "as_list (field venue ''orders'') = Inr orders" "rfold (own_order C a) (bs1, []) orders = Inr (bs2, actual_orders)"
    and ts: "tpsl_records venue = Inr records" "rfold (own_tpsl (ec_scope C) a) bs2 records = Inr bs3"
    and cs: "rfold (cover_blockers (ec_scope C) actual records) bs3 trades = Inr bs4"
    and bs4: "bs4 = []"
    using assms unfolding authoritative_account_blockers_def Let_def
    by (auto elim!: rbind_InrE split: if_splits)
  have bs3: "bs3 = []"
    by (rule rfold_grows [of _ "\<lambda>x. x", OF cover_blockers_grows cs bs4])
  have bs2: "bs2 = []"
    by (rule rfold_grows [of _ "\<lambda>x. x", OF own_tpsl_grows ts(2) bs3])
  have bs1: "bs1 = []"
    using rfold_grows [of _ fst, OF own_order_grows os(2)] bs2 by simp
  have bs0: "ow_blockers a = []"
    using rfold_grows [of _ fst, OF own_position_grows ps(2)] bs1 by simp
  have own: "owned_by (ec_scope C) trades a"
    unfolding a by (rule owned_by_all) (simp_all add: owned_by_def)
  have dist: "identity_blockers (ec_scope C) account = []" "distinct (map (trade_symbol (ec_scope C)) trades)"
    "distinct (map tw_entry_client_order_id trades)"
    using own_trades_clean [OF bs0 [unfolded a]] by auto
  have "identity_clean (ec_scope C) account"
    using dist(1) unfolding identity_blockers_def identity_clean_def by (auto split: if_splits option.splits)
  moreover have "\<forall>x \<in> set positions. position_clean (ec_scope C) trades x"
    "fst ` fst ` set actual = open_symbols positions"
    using own_positions_clean [OF ps(2) _ own] bs1 by auto
  moreover have "order_clean C trades x" if "x \<in> set orders" for x
    using rfold_step [of "own_order C a" fst "(bs1, [])" orders "(bs2, actual_orders)" x] os(2) bs2 that
      own_order_grows own_order_clean [OF _ _ own] by (metis fst_conv)
  moreover have "tpsl_clean (ec_scope C) trades x" if "x \<in> set records" for x
    using rfold_step [of "own_tpsl (ec_scope C) a" "\<lambda>x. x" bs2 records bs3 x] ts(2) bs3 that
      own_tpsl_grows own_tpsl_clean [OF _ _ own] by metis
  moreover have "trade_covered (ec_scope C) positions records tr" if "tr \<in> set trades" for tr
    using rfold_step [of "cover_blockers (ec_scope C) actual records" "\<lambda>x. x" bs3 trades bs4 tr] cs bs4 that
      cover_blockers_grows cover_clean calculation(3) by metis
  ultimately show ?thesis
    unfolding account_clean_def using acc ps(1) os(1) ts(1) dist(2,3) by blast
qed

text \<open>C23: The audit refines its specification: when the account-wide audit returns no blocker, the
  authenticated account is the configured one and not in margin call, every open position is the
  approved position of one trade, every open order the validated entry of one trade, every live TP/SL
  the planned protection of one trade, every trade that must be protected is, and no two trades share a
  symbol or an entry order.\<close>

theorem audit_refines_specification:
  "case authoritative_account_blockers C venue trades None of
     Inr [] \<Rightarrow> account_clean C venue trades
   | _ \<Rightarrow> True"
  using audit_clean [of C venue trades] by (auto split: sum.splits list.splits)

end
