(* ===== verification/Paper_Recursion.thy ===== *)
theory Paper_Recursion
  imports Paper_Checks
begin

text \<open>
  Reconciliation calls itself once more when the cancellation of an expired entry uncovers a position.
  The second call never calls again: the position it was made for is positive, and a pending trade with
  a position takes another branch. The depth 2 of \<open>reconcile_one\<close> is therefore no bound at all.
\<close>

lemma bindp_liftp_cong:
  assumes "r = r'" "\<And>a. r' = Inr a \<Longrightarrow> f a = g a"
  shows "bindp (liftp r) f = bindp (liftp r') g"
  using assms by (cases r') auto

lemma foldl_fadd_zero:
  assumes "\<And>q. q \<in> set qs \<Longrightarrow> q = Fin 0"
  shows "foldl fadd fzero qs = fzero"
  using assms
proof (induction qs)
  case (Cons q qs)
  have "rep64 0" using rep64_int [of 0] by simp
  then have "fadd fzero (Fin 0) = fzero" by (simp add: fzero_def fround_rep)
  moreover have "q = Fin 0" by (rule Cons.prems) simp
  moreover have "foldl fadd fzero qs = fzero" by (rule Cons.IH) (rule Cons.prems, simp)
  ultimately show ?case by simp
qed simp

text \<open>A positive sum of reported quantities has a positive member, so the lookup of the trade's position
  is positive too.\<close>

lemma uncovered_position:
  assumes "position_quantity sc venue (tw_symbol tr) = Inr u" "flt fzero u" "position_for_trade sc venue tr = Inr q"
  shows "flt fzero q"
proof -
  obtain expected items qs where e: "symbol_of sc (tw_symbol tr) = Inr expected" "as_list (field venue ''positions'') = Inr items"
      "rtraverse (\<lambda>d. required_number d ''quantity'') (filter (\<lambda>d. upper_field d ''instrument'' = expected) items) = Inr qs"
    and u: "u = foldl fadd fzero qs"
    using assms(1) unfolding position_quantity_def by (elim rbind_InrE) auto
  have "\<exists>x \<in> set qs. flt fzero x"
  proof (rule ccontr)
    assume none: "\<not> (\<exists>x \<in> set qs. flt fzero x)"
    have "x = Fin 0" if "x \<in> set qs" for x
    proof -
      have "isfinite x \<and> \<not> flt x fzero"
        using rtraverse_set [OF e(3) that] required_numberD by blast
      then show ?thesis using none that by (cases x) (auto simp: fzero_def)
    qed
    then have "u = fzero" unfolding u by (rule foldl_fadd_zero)
    then show False using assms(2) by (simp add: fzero_def)
  qed
  then obtain x where x: "x \<in> set qs" "flt fzero x" by blast
  then obtain d where d: "d \<in> set items" "upper_field d ''instrument'' = expected" "required_number d ''quantity'' = Inr x"
    using rtraverse_set [OF e(3)] by fastforce
  from assms(3) e(1,2) obtain ms where
    ms: "rfilter (\<lambda>d. if upper_field d ''instrument'' = expected
              then rbind (required_number d ''quantity'') (\<lambda>q. Inr (flt fzero q)) else Inr False) items = Inr ms"
    and q: "(case ms of [] \<Rightarrow> Inr fzero
     | d # rest \<Rightarrow>
        rbind (chk (rest = []) ''venue returned duplicate positions for one symbol'') (\<lambda>_.
        rbind (chk (upper_field d ''side'' = tw_side tr)
                 ''venue position side differs from durable trade lineage'') (\<lambda>_.
        rbind (positive (field d ''leverage'') ''position leverage'') (\<lambda>lev.
        rbind (chk (close_to (tolerance (tw_leverage tr)) lev (tw_leverage tr))
                 ''venue position leverage differs from durable approval'') (\<lambda>_.
        required_number d ''quantity''))))) = Inr q"
    unfolding position_for_trade_def by (elim rbind_InrE) simp
  have "d \<in> set ms" using rfilter_set [OF ms, of d] d x(2) by simp
  then obtain m rest where "ms = m # rest" by (cases ms) auto
  moreover then have "required_number m ''quantity'' = Inr q" using q by (auto elim!: rbind_InrE)
  moreover have "m \<in> set ms" using calculation(1) by simp
  ultimately show ?thesis using rfilter_set [OF ms, of m] by (auto split: if_splits)
qed

section \<open>Programs that differ in the recursive call\<close>

lemma bindp_cong: "(\<And>a. f a = g a) \<Longrightarrow> bindp p f = bindp p g"
  by (simp add: ext [of f g])

lemma checkp_cong: "(ensure cs = Inr () \<Longrightarrow> f () = g ()) \<Longrightarrow> bindp (checkp cs) f = bindp (checkp cs) g"
  unfolding checkp_def by (rule bindp_liftp_cong) auto

lemma case_prod_cong: "(\<And>a b. x = (a, b) \<Longrightarrow> f a b = g a b) \<Longrightarrow> case_prod f x = case_prod g x"
  by (cases x) auto

text \<open>The call is only made when the venue shows a position under the trade's symbol.\<close>

lemma reconcile_pending_cong:
  assumes "\<And>t v u. position_quantity (ec_scope C) v (tw_symbol t) = Inr u \<Longrightarrow> flt fzero u \<Longrightarrow> a1 t v = a2 t v"
  shows "reconcile_pending C a1 d tr venue now q entry es = reconcile_pending C a2 d tr venue now q entry es"
  unfolding reconcile_pending_def
  by (intro if_cong refl bindp_cong bindp_liftp_cong checkp_cong; simp add: assms)

lemma reconcile_step_cong:
  assumes "\<And>t v u. position_quantity (ec_scope C) v (tw_symbol t) = Inr u \<Longrightarrow> flt fzero u \<Longrightarrow> a1 t v = a2 t v"
  shows "reconcile_step C a1 tr venue evs = reconcile_step C a2 tr venue evs"
  unfolding reconcile_step_def
  by (intro bindp_cong bindp_liftp_cong case_prod_cong if_cong refl reconcile_pending_cong assms)

text \<open>With a position, the pending branch does not call.\<close>

lemma reconcile_step_positive:
  assumes "position_quantity (ec_scope C) venue (tw_symbol tr) = Inr u" "flt fzero u"
  shows "reconcile_step C a1 tr venue evs = reconcile_step C a2 tr venue evs"
proof -
  have "reconcile_pending C a1 d t venue now q entry es = reconcile_pending C a2 d t venue now q entry es"
    if "position_for_trade (ec_scope C) venue tr = Inr q" for d t now q entry es
    using uncovered_position [OF assms that] by (simp add: reconcile_pending_def)
  then show ?thesis
    unfolding reconcile_step_def
    by (intro bindp_cong bindp_liftp_cong case_prod_cong if_cong refl) simp_all
qed

text \<open>C27: The recursion of the reconciliation ends by itself: it makes at most one call, so any larger depth
  gives the same program, and the exhausted depth is never reached.\<close>

theorem reconciliation_recurs_once:
  "reconcile_trade (Suc (Suc n)) C tr venue evs = reconcile_one C tr venue evs"
proof -
  have deep: "reconcile_trade (Suc k) C t v evs = reconcile_trade 1 C t v evs"
    if "position_quantity (ec_scope C) v (tw_symbol t) = Inr u" "flt fzero u" for k t v u
    unfolding One_nat_def reconcile_trade.simps by (rule reconcile_step_positive [OF that])
  show ?thesis
    unfolding numeral_2_eq_2 reconcile_trade.simps(2) [of "Suc _"]
    by (rule reconcile_step_cong) (use deep in simp)
qed

end
