(* ===== verification/Paper_Clock.thy ===== *)
theory Paper_Clock
  imports Py_Text
begin

text \<open>
  The engine keeps instants as datetimes and reports them in milliseconds; both conversions go through
  binary64. Between November 2004 and January 2038 nothing is lost; later a millisecond can be.
\<close>

lemma rnd64_error:
  assumes "0 < y" "y < pw 2 j" "- 1021 \<le> j"
  shows "\<bar>rnd64 y - y\<bar> \<le> pw 2 (j - 53) / 2"
  unfolding rnd64_def using rnd_error [of 2 y j "- 1074" 53] assms by simp

lemma seconds_error:
  assumes "0 < v" "v < 2147483648000"
  shows "\<bar>rnd64 (of_int v / 1000) - of_int v / 1000\<bar> \<le> 1 / 8388608"
  using rnd64_error [of "of_int v / 1000" 31] assms by (simp add: pw_def)

lemma whole_seconds:
  assumes "\<bar>q\<bar> < 2 ^ 53"
  shows "rnd64 (of_int (q * 1000) / 1000) = of_int q"
  using rep64_int [OF assms] by (simp add: rep64_def)

lemma trunc_seconds:
  assumes "0 \<le> q" "q < 2147483648" "0 \<le> r" "r < 1000"
  shows "trunc_int (rnd64 (of_int (q * 1000 + r) / 1000)) = q"
proof (cases "r = 0")
  case True
  then show ?thesis using whole_seconds [of q] assms by (simp add: trunc_int_def)
next
  case False
  define d where "d = rnd64 (of_int (q * 1000 + r) / 1000)"
  have "\<bar>d - of_int (q * 1000 + r) / 1000\<bar> \<le> 1 / 8388608"
    unfolding d_def by (rule seconds_error) (use assms False in linarith)+
  moreover have "of_int (q * 1000 + r) / 1000 = of_int q + (of_int r / 1000 :: rat)" by (simp add: field_simps)
  moreover have "(1::rat) \<le> of_int r" "of_int r \<le> (999::rat)" using assms False by linarith+
  ultimately have "of_int q \<le> d" "d < of_int q + 1" by linarith+
  moreover have "(0::rat) \<le> of_int q" using assms by simp
  ultimately have "trunc_int d = q" unfolding trunc_int_def by (simp add: floor_unique)
  then show ?thesis by (simp only: d_def)
qed

lemma micros_exact:
  assumes "0 \<le> r" "r < 1000" "\<bar>f - of_int r / 1000\<bar> \<le> 1 / 8388608" "r = 0 \<longrightarrow> f = 0"
  shows "rhe (rnd64 (f * 1000000)) = r * 1000"
proof (cases "r = 0")
  case True
  with assms(4) show ?thesis by (simp add: rnd64_def rhe_def)
next
  case False
  with assms(1,2) have "(1::rat) \<le> of_int r" "of_int r \<le> (999::rat)" by linarith+
  with assms(3) have "0 < f * 1000000" "f * 1000000 < 1048576" by linarith+
  then have f: "0 < f * 1000000" "f * 1000000 < pw 2 20" by (simp_all add: pw_def)
  have "\<bar>rnd64 (f * 1000000) - f * 1000000\<bar> \<le> 1 / 4"
    using rnd64_error [OF f] by (simp add: pw_def)
  moreover have "\<bar>f * 1000000 - of_int (r * 1000)\<bar> < 1 / 4"
    using assms(3) unfolding of_int_mult of_int_numeral by linarith
  ultimately have "\<bar>rnd64 (f * 1000000) - of_int (r * 1000)\<bar> < 1 / 2" by linarith
  then show ?thesis by (rule rhe_near)
qed

lemma from_ms_exact:
  assumes "0 \<le> v" "v < 2147483648000"
  shows "from_ms v = 1000 * v"
proof -
  define q r where "q = v div 1000" and "r = v mod 1000"
  have v: "v = q * 1000 + r" and q: "0 \<le> q" "q < 2147483648" and r: "0 \<le> r" "r < 1000"
    using assms by (auto simp: q_def r_def)
  let ?d = "rnd64 (of_int v / 1000)"
  have "r = 0 \<longrightarrow> ?d - of_int q = 0" using whole_seconds [of q] q by (simp add: v)
  moreover have "\<bar>(?d - of_int q) - of_int r / 1000\<bar> \<le> 1 / 8388608"
  proof (cases "r = 0")
    case True
    then show ?thesis using whole_seconds [of q] q by (simp add: v)
  next
    case False
    have "of_int v / (1000::rat) = of_int q + of_int r / 1000" by (simp add: v field_simps)
    moreover have "\<bar>?d - of_int v / 1000\<bar> \<le> 1 / 8388608"
      by (rule seconds_error) (use assms v q r False in linarith)+
    ultimately show ?thesis by linarith
  qed
  ultimately have "rhe (rnd64 ((?d - of_int q) * 1000000)) = r * 1000" using r by (intro micros_exact) auto
  moreover have "trunc_int ?d = q" using trunc_seconds [OF q r] by (simp add: v)
  ultimately show ?thesis by (simp add: from_ms_def Let_def) (simp add: v)
qed

lemma instant_ms_exact:
  assumes "2 ^ 40 < v" "v < 2147483648000"
  shows "instant_ms (1000 * v) = v"
proof -
  have e: "of_int (1000 * v) / 1000000 = (of_int v / 1000 :: rat)" by simp
  define y where "y = rnd64 (of_int v / 1000) * 1000"
  have "\<bar>rnd64 (of_int v / 1000) - of_int v / 1000\<bar> \<le> 1 / 8388608" using assms by (intro seconds_error) auto
  then have near: "\<bar>y - of_int v\<bar> \<le> 1000 / 8388608" unfolding y_def by linarith
  have "1099511627777 \<le> v" "v \<le> 2147483647999" using assms by auto
  then have "(1099511627777::rat) \<le> of_int v" "of_int v \<le> (2147483647999::rat)" by linarith+
  with near have "1099511627776 \<le> y" "y < 2199023255552" by linarith+
  then have "pw 2 40 \<le> y" "y < pw 2 (40 + 1)" by (simp_all add: pw_def)
  then have x: "rat_exp 2 y = 40" "0 < y" by (rule rat_exp_eqI, simp_all add: pw_def)
  have "rnd64 y = of_int v"
    by (rule rnd64_near [where g = "- 12" and m = "v * 4096"]) (use x near in \<open>simp_all add: pw_def\<close>)
  then show ?thesis using assms by (simp add: instant_ms_def trunc_int_def y_def [symmetric])
qed

text \<open>C28: An instant received in milliseconds between November 2004 and January 2038 is stored without loss:
  the datetime built from it is the exact instant, and reporting it in milliseconds gives the same number.\<close>

theorem instants_survive:
  assumes "2 ^ 40 < v" "v < 2147483648000"
  shows "from_ms v = 1000 * v \<and> instant_ms (from_ms v) = v"
  using assms from_ms_exact [of v] instant_ms_exact [of v] by simp

theorem instants_survive_witness:
  "from_ms 1700000000123 = 1000 * 1700000000123 \<and> instant_ms (from_ms 1700000000123) = 1700000000123"
  by (rule instants_survive) simp_all

text \<open>Past January 2038 the bound is real: a millisecond can be lost.\<close>

lemma instant_loses_a_millisecond: "instant_ms 2150000000002000 = 2150000000001"
  by code_simp

end
