(* ===== verification/Exec_Types.thy ===== *)
theory Exec_Types
  imports Paper_Venue Trailing
begin

text \<open>
  The data of the execution core: \<^verbatim>\<open>kairos_execution/reason_router.py\<close>, the calls of
  \<^verbatim>\<open>kairos_execution/adapters/base.py\<close>, and the fields \<^verbatim>\<open>kairos_execution/engine.py\<close> reads of the
  contracts of \<^verbatim>\<open>kairos_core\<close>, which are not in the tree. The numbers of a report are floats; the
  engine also defends against reports built without validation, so a number may be any other value.
\<close>

section \<open>The reason router\<close>

datatype reason_code = ENTER_LONG_TREND | ENTER_SHORT_TREND | CLOSE_POSITION_CODE | REDUCE_LEVERAGE | REBALANCE
  | HOLD | NO_TRADE | OTHER_REASON string

datatype action = OPEN | CLOSE | REDUCE | NOOP

definition action_for :: "reason_code \<Rightarrow> action \<times> venue_side option" where
  "action_for reason = (case reason of
     ENTER_LONG_TREND \<Rightarrow> (OPEN, Some BUY_SIDE)
   | ENTER_SHORT_TREND \<Rightarrow> (OPEN, Some SELL_SIDE)
   | CLOSE_POSITION_CODE \<Rightarrow> (CLOSE, None)
   | REDUCE_LEVERAGE \<Rightarrow> (REDUCE, None)
   | REBALANCE \<Rightarrow> (OPEN, None)
   | HOLD \<Rightarrow> (NOOP, None)
   | NO_TRADE \<Rightarrow> (NOOP, None)
   | OTHER_REASON _ \<Rightarrow> (NOOP, None))"

section \<open>Orders and reports\<close>

record order_intent =
  oi_symbol :: string
  oi_side :: venue_side
  oi_quantity :: f64
  oi_price :: "f64 option"
  oi_stop_price :: "f64 option"
  oi_leverage :: f64
  oi_client_order_id :: "string option"

record validated_order =
  vo_message_id :: string
  vo_approved :: bool
  vo_reason_code :: reason_code
  vo_intent :: order_intent
  vo_produced_at :: py_datetime

datatype order_status = ORDER_NEW | ORDER_PARTIALLY_FILLED | ORDER_FILLED | ORDER_REJECTED | ORDER_CANCELED
  | OTHER_ORDER_STATUS string

definition order_status_value :: "order_status \<Rightarrow> string" where
  "order_status_value s = (case s of ORDER_NEW \<Rightarrow> ''NEW'' | ORDER_PARTIALLY_FILLED \<Rightarrow> ''PARTIALLY_FILLED''
     | ORDER_FILLED \<Rightarrow> ''FILLED'' | ORDER_REJECTED \<Rightarrow> ''REJECTED'' | ORDER_CANCELED \<Rightarrow> ''CANCELED''
     | OTHER_ORDER_STATUS t \<Rightarrow> t)"

definition side_value :: "venue_side \<Rightarrow> string" where
  "side_value s = (case s of BUY_SIDE \<Rightarrow> ''BUY'' | SELL_SIDE \<Rightarrow> ''SELL'')"

datatype report_number = Number f64 | Not_Number json

datatype report_status = Status order_status | Not_Status json

record exec_report =
  rp_source :: string
  rp_client_order_id :: json
  rp_exchange_order_id :: json
  rp_exchange :: json
  rp_symbol :: json
  rp_side :: venue_side
  rp_status :: report_status
  rp_requested_qty :: report_number
  rp_filled_qty :: report_number
  rp_remaining_qty :: report_number
  rp_avg_price :: report_number
  rp_fees_usd :: report_number
  rp_message :: string
  rp_retryable :: bool

text \<open>The keyword arguments with which the engine constructs a report; the constructor validates them and
  fills in the rest.\<close>

record report_args =
  ra_client_order_id :: string
  ra_exchange_order_id :: "string option"
  ra_exchange :: string
  ra_symbol :: string
  ra_side :: venue_side
  ra_status :: order_status
  ra_requested_qty :: f64
  ra_filled_qty :: "f64 option"
  ra_remaining_qty :: f64
  ra_message :: string

section \<open>The adapter\<close>

datatype venue_call =
    Place_Order order_intent
  | Cancel_By_Id string string
  | Order_Active string string
  | Position_Flat string
  | Close_All string "f64 option" "venue_side option" string
  | Set_Leverage string f64
  | Set_Stop string f64 venue_side string
  | Find_Stop string f64 venue_side string

datatype venue_answer =
    Va_Report exec_report
  | Va_Flag bool
  | Va_Done
  | Va_Stop string
  | Va_Maybe_Stop "string option"

section \<open>Programs over any state and any requests\<close>

definition read_state :: "('s \<Rightarrow> 'a) \<Rightarrow> ('s, 'q, 'r, 'a) prog" where
  "read_state f = Get (\<lambda>s. Ret (f s))"

definition write_state :: "('s \<Rightarrow> 's) \<Rightarrow> ('s, 'q, 'r, unit) prog" where
  "write_state f = Get (\<lambda>s. Put (f s) (Ret ()))"

text \<open>A program over the adapter run against another program for every call: \<open>handler q\<close> takes the place
  of the call \<open>q\<close>.\<close>

primrec handled :: "('q \<Rightarrow> ('s, 'q', 'r', 'r) prog) \<Rightarrow> ('s, 'q, 'r, 'a) prog \<Rightarrow> ('s, 'q', 'r', 'a) prog" where
  "handled handler (Ret a) = Ret a"
| "handled handler (Fail e) = Fail e"
| "handled handler (Ask q k) = bindp (attempt (handler q)) (\<lambda>r. handled handler (k r))"
| "handled handler (Get k) = Get (\<lambda>s. handled handler (k s))"
| "handled handler (Put s p) = Put s (handled handler p)"

end
