(* ===== verification/Exec_Engine.thy ===== *)
theory Exec_Engine
  imports Exec_Types
begin

text \<open>
  \<^verbatim>\<open>kairos_execution/engine.py\<close>: a validated order becomes an exchange action with a protective stop, or
  a close that is proven flat. Logging is left out. The constructor of \<^verbatim>\<open>ExecutionReport\<close> and the JSON
  text of an order are parameters of the configuration; calls are sequential, as the service awaits
  each \<^verbatim>\<open>handle\<close>.
\<close>

section \<open>Configuration and state\<close>

record exec_config =
  xc_adapter_name :: string
  xc_ids_match :: bool
  xc_allowed_symbols :: "string list"
  xc_cache_size :: nat
  xc_order_json :: "validated_order \<Rightarrow> string"
  xc_new_report :: "report_args \<Rightarrow> exec_report res"

datatype system_mode = NORMAL_MODE | LOCAL_QUANT_MODE | OTHER_MODE string

record exec_state =
  xs_trailing :: stop_manager
  xs_mode :: system_mode
  xs_completed :: "(string \<times> string \<times> exec_report option) list"
  xs_blockers :: "string list"

type_synonym 'a x_prog = "(exec_state, venue_call, venue_answer, 'a) prog"

definition new_exec_state :: "f64 \<Rightarrow> int \<Rightarrow> exec_state res" where
  "new_exec_state trail cache_size =
     rbind (ensure [(1 \<le> cache_size, Exn ValueError ''idempotency_cache_size must be positive'')]) (\<lambda>_.
     rbind (new_manager trail) (\<lambda>m.
     Inr \<lparr> xs_trailing = m, xs_mode = NORMAL_MODE, xs_completed = [], xs_blockers = [] \<rparr>))"

abbreviation exec_unsafe :: "string \<Rightarrow> exn" where
  "exec_unsafe m \<equiv> Exn (OtherError ''ExecutionSafetyError'') m"

definition set_mode :: "system_mode \<Rightarrow> exec_state \<Rightarrow> exec_state" where
  "set_mode mode s = s \<lparr> xs_mode := mode \<rparr>"

text \<open>\<^verbatim>\<open>tuple(dict.fromkeys(item.strip() for item in blockers if item.strip()))\<close>.\<close>

definition set_recovery_blockers :: "string list \<Rightarrow> exec_state \<Rightarrow> exec_state" where
  "set_recovery_blockers bs s =
     s \<lparr> xs_blockers := rev (remdups (rev (filter (\<lambda>b. b \<noteq> []) (map strip bs)))) \<rparr>"

section \<open>Calls of the adapter\<close>

definition call_report :: "venue_call \<Rightarrow> exec_report x_prog" where
  "call_report q = await q (\<lambda>r. case r of Va_Report x \<Rightarrow> Some x | _ \<Rightarrow> None)"

definition call_flag :: "venue_call \<Rightarrow> bool x_prog" where
  "call_flag q = await q (\<lambda>r. case r of Va_Flag b \<Rightarrow> Some b | _ \<Rightarrow> None)"

definition call_done :: "venue_call \<Rightarrow> unit x_prog" where
  "call_done q = await q (\<lambda>r. case r of Va_Done \<Rightarrow> Some () | _ \<Rightarrow> None)"

definition call_stop :: "venue_call \<Rightarrow> string x_prog" where
  "call_stop q = await q (\<lambda>r. case r of Va_Stop x \<Rightarrow> Some x | _ \<Rightarrow> None)"

definition position_is_flat :: "string \<Rightarrow> string \<Rightarrow> bool x_prog" where
  "position_is_flat symb context = catchp (call_flag (Position_Flat symb))
     (\<lambda>e. Fail (exec_unsafe (context @ '' failed: '' @ exn_name (exn_kind e))))"

definition order_is_active :: "string \<Rightarrow> string \<Rightarrow> string \<Rightarrow> bool x_prog" where
  "order_is_active symb cid context = catchp (call_flag (Order_Active symb cid))
     (\<lambda>e. Fail (exec_unsafe (context @ '' failed: '' @ exn_name (exn_kind e))))"

definition cancel_if_active :: "string \<Rightarrow> string \<Rightarrow> string \<Rightarrow> unit x_prog" where
  "cancel_if_active symb cid context = (bindp (order_is_active symb cid (context @ '' open-order lookup'')) (\<lambda>active.
     (if \<not> active then Ret () else (bindp (catchp (call_done (Cancel_By_Id symb cid))
          (\<lambda>e. Fail (exec_unsafe (context @ '' cancellation failed: '' @ exn_name (exn_kind e))))) (\<lambda>_.
     bindp (order_is_active symb cid (context @ '' post-cancel lookup'')) (\<lambda>still.
     checkp [(\<not> still, exec_unsafe (context @ '': order '' @ cid @ '' remains active after cancellation''))]))))))"

section \<open>Acknowledgements\<close>

definition number_error :: "string \<Rightarrow> report_number \<Rightarrow> string option" where
  "number_error name v = (case v of
       Not_Number _ \<Rightarrow> Some (name @ '' must be numeric'')
     | Number x \<Rightarrow> if \<not> isfinite x \<or> flt x fzero then Some (name @ '' must be finite and non-negative'') else None)"

text \<open>The value of a field that \<open>number_error\<close> accepted.\<close>

definition number_of :: "report_number \<Rightarrow> f64" where
  "number_of v = (case v of Number x \<Rightarrow> x | Not_Number _ \<Rightarrow> FNaN)"

fun first_error :: "(bool \<times> string) list \<Rightarrow> string option" where
  "first_error [] = None"
| "first_error ((bad, m) # cs) = (if bad then Some m else first_error cs)"

definition side_repr :: "venue_side \<Rightarrow> string" where
  "side_repr s = ''<OrderSide.'' @ side_value s @ '': '' @ repr_string (side_value s) @ ''>''"

definition has_order_id :: "json \<Rightarrow> bool" where
  "has_order_id v = (case v of JStr x \<Rightarrow> strip x \<noteq> [] | _ \<Rightarrow> False)"

definition report_identity_error ::
  "exec_config \<Rightarrow> exec_report \<Rightarrow> order_status \<Rightarrow> string \<Rightarrow> string \<Rightarrow> venue_side option \<Rightarrow> string option" where
  "report_identity_error C r st cid symb side = first_error
     [(rp_client_order_id r \<noteq> JStr cid,
         ''client_order_id '' @ py_repr (rp_client_order_id r) @ '' does not match '' @ repr_string cid),
      ((case rp_exchange r of JStr x \<Rightarrow> casefold x \<noteq> casefold (xc_adapter_name C) | _ \<Rightarrow> True),
         ''exchange '' @ py_repr (rp_exchange r) @ '' does not match adapter '' @ repr_string (xc_adapter_name C)),
      (st \<noteq> ORDER_REJECTED \<and> \<not> has_order_id (rp_exchange_order_id r),
         ''exchange_order_id is required for a submitted order acknowledgement''),
      (rp_exchange_order_id r \<noteq> JNull \<and> xc_ids_match C \<and> rp_exchange_order_id r \<noteq> JStr cid,
         ''exchange_order_id does not match the deterministic submitted order ID''),
      ((case rp_symbol r of JStr x \<Rightarrow> py_upper x \<noteq> py_upper symb | _ \<Rightarrow> True),
         ''symbol '' @ py_repr (rp_symbol r) @ '' does not match '' @ repr_string symb),
      ((case side of None \<Rightarrow> False | Some s \<Rightarrow> rp_side r \<noteq> s),
         ''side '' @ side_repr (rp_side r) @ '' does not match '' @ (case side of None \<Rightarrow> [] | Some s \<Rightarrow> side_value s))]"

definition report_quantity_error :: "exec_report \<Rightarrow> order_status \<Rightarrow> f64 option \<Rightarrow> string option" where
  "report_quantity_error r st expected =
     (let requested = number_of (rp_requested_qty r); filled = number_of (rp_filled_qty r);
          remaining = number_of (rp_remaining_qty r);
          tol = tolerance (case expected of None \<Rightarrow> requested | Some q \<Rightarrow> q);
          bound = fadd requested tol in
      first_error
     [((case expected of None \<Rightarrow> False | Some q \<Rightarrow> flt tol (fabs (fsub requested q))),
         ''requested_qty does not match the submitted quantity''),
      (flt bound filled, ''filled_qty exceeds requested_qty''),
      (flt bound remaining, ''remaining_qty exceeds requested_qty''),
      (flt bound (fadd filled remaining), ''filled_qty plus remaining_qty exceeds requested_qty''),
      (st \<in> {ORDER_NEW, ORDER_PARTIALLY_FILLED, ORDER_FILLED}
         \<and> flt tol (fabs (fsub (fadd filled remaining) requested)),
         order_status_value st @ '' filled_qty plus remaining_qty must equal requested_qty''),
      (st = ORDER_FILLED \<and> (flt tol (fabs (fsub filled requested)) \<or> flt tol remaining),
         ''FILLED acknowledgement does not account for a complete fill''),
      (st = ORDER_PARTIALLY_FILLED \<and> (fle filled fzero \<or> fle remaining fzero),
         ''PARTIALLY_FILLED acknowledgement requires positive filled and remaining quantities'')])"

definition orelse :: "'a option \<Rightarrow> 'a option \<Rightarrow> 'a option" where
  "orelse a b = (case a of Some x \<Rightarrow> Some x | None \<Rightarrow> b)"

definition report_error ::
  "exec_config \<Rightarrow> exec_report \<Rightarrow> string \<Rightarrow> string \<Rightarrow> venue_side option \<Rightarrow> f64 option \<Rightarrow> string option" where
  "report_error C r cid symb side requested =
     orelse (number_error ''requested_qty'' (rp_requested_qty r))
    (orelse (number_error ''filled_qty'' (rp_filled_qty r))
    (orelse (number_error ''remaining_qty'' (rp_remaining_qty r))
    (orelse (number_error ''avg_price'' (rp_avg_price r))
    (orelse (number_error ''fees_usd'' (rp_fees_usd r))
    (case rp_status r of
       Not_Status v \<Rightarrow> Some (''status '' @ py_repr v @ '' is not a recognized OrderStatus'')
     | Status st \<Rightarrow> orelse (report_identity_error C r st cid symb side) (report_quantity_error r st requested))))))"

definition execution_ack_error :: "exec_config \<Rightarrow> exec_report \<Rightarrow> order_intent \<Rightarrow> string \<Rightarrow> string option" where
  "execution_ack_error C r i cid = report_error C r cid (oi_symbol i) (Some (oi_side i)) (Some (oi_quantity i))"

definition safe_number :: "report_number \<Rightarrow> f64" where
  "safe_number v = (case v of Number x \<Rightarrow> if isfinite x \<and> \<not> flt x fzero then x else fzero | Not_Number _ \<Rightarrow> fzero)"

text \<open>\<^verbatim>\<open>min(entry_report.filled_qty, intent.quantity)\<close> when the reported fill is a finite non-negative number.\<close>

definition compensated_report :: "exec_config \<Rightarrow> exec_report \<Rightarrow> order_intent \<Rightarrow> string \<Rightarrow> exec_report" where
  "compensated_report C r i reason = r \<lparr>
     rp_client_order_id := JStr (case oi_client_order_id i of None \<Rightarrow> ''unknown'' | Some c \<Rightarrow> if c = [] then ''unknown'' else c),
     rp_exchange_order_id := JNull, rp_exchange := JStr (xc_adapter_name C), rp_symbol := JStr (oi_symbol i),
     rp_side := oi_side i, rp_status := Status ORDER_CANCELED, rp_requested_qty := Number (oi_quantity i),
     rp_filled_qty := Number (case rp_filled_qty r of
         Number x \<Rightarrow> if isfinite x \<and> \<not> flt x fzero then fmin x (oi_quantity i) else fzero | Not_Number _ \<Rightarrow> fzero),
     rp_remaining_qty := Number fzero, rp_avg_price := Number (safe_number (rp_avg_price r)),
     rp_fees_usd := Number (safe_number (rp_fees_usd r)),
     rp_message := reason @ ''; entry canceled/closed and venue position reconciled flat'', rp_retryable := False \<rparr>"

definition desired_state_close_report :: "exec_config \<Rightarrow> order_intent \<Rightarrow> string \<Rightarrow> string \<Rightarrow> exec_report res" where
  "desired_state_close_report C i close_id detail = xc_new_report C
     \<lparr> ra_client_order_id = close_id, ra_exchange_order_id = None, ra_exchange = xc_adapter_name C,
       ra_symbol = oi_symbol i, ra_side = oi_side i, ra_status = ORDER_CANCELED, ra_requested_qty = oi_quantity i,
       ra_filled_qty = Some fzero, ra_remaining_qty = fzero,
       ra_message = ''desired state satisfied: '' @ detail @ ''; no unverified fill is claimed'' \<rparr>"

text \<open>\<^verbatim>\<open>report.status.value\<close>.\<close>

definition status_value :: "exec_report \<Rightarrow> string" where
  "status_value r = (case rp_status r of Status st \<Rightarrow> order_status_value st | Not_Status v \<Rightarrow> py_str v)"

section \<open>Compensation\<close>

text \<open>The cancellation of an entry that may still fill.\<close>

definition cancel_entry :: "string \<Rightarrow> string \<Rightarrow> string \<Rightarrow> unit x_prog" where
  "cancel_entry symb cid reason = catchp ((bindp (call_done (Cancel_By_Id symb cid)) (\<lambda>_.
     bindp (call_flag (Order_Active symb cid)) (\<lambda>active.
     checkp [(\<not> active, exec_unsafe (reason @ ''; entry '' @ cid @ '' remains active after cancellation''))]))))
     (\<lambda>e. if exn_kind e = OtherError ''ExecutionSafetyError'' then Fail e
           else Fail (exec_unsafe (reason @ ''; entry cancellation could not be verified: '' @ exn_name (exn_kind e))))"

text \<open>The identifier of a follow-up of an order, deterministic in the order.\<close>

definition derived_id :: "exec_config \<Rightarrow> validated_order \<Rightarrow> string \<Rightarrow> string res" where
  "derived_id C order suffix =
     client_order_id (vo_message_id order @ suffix) (xc_adapter_name C) (Some (vo_produced_at order)) (vo_produced_at order)"

text \<open>An emergency close whose answer was lost: the venue's position decides.\<close>

definition ambiguous_emergency :: "exec_config \<Rightarrow> exec_report \<Rightarrow> order_intent \<Rightarrow> string \<Rightarrow> string \<Rightarrow> exn \<Rightarrow> exec_report x_prog" where
  "ambiguous_emergency C r i reason eid e = (bindp (position_is_flat (oi_symbol i) (reason @ ''; ambiguous emergency-close position reconciliation'')) (\<lambda>is_flat.
     (if is_flat then (bindp (cancel_if_active (oi_symbol i) eid (reason @ ''; ambiguous emergency close already flat'')) (\<lambda>_.
     Ret (compensated_report C r i reason)))
      else (bindp (order_is_active (oi_symbol i) eid (reason @ ''; ambiguous emergency-close order reconciliation'')) (\<lambda>active.
     Fail (exec_unsafe (reason @ ''; ambiguous emergency close after '' @ exn_name (exn_kind e) @ '' ''
          @ (if active then ''remains active'' else ''is inactive while the position remains open''))))))))"

definition settled_emergency ::
  "exec_config \<Rightarrow> exec_report \<Rightarrow> order_intent \<Rightarrow> string \<Rightarrow> string \<Rightarrow> exec_report \<Rightarrow> exec_report x_prog" where
  "settled_emergency C r i reason eid close_report = (let err = report_error C close_report eid (oi_symbol i) None None in
     (bindp (position_is_flat (oi_symbol i) (reason @ ''; emergency-close post-submit reconciliation'')) (\<lambda>is_flat.
     bindp (checkp [(err = None, exec_unsafe (reason @ ''; malformed emergency-close acknowledgement: '' @ the err)),
       (rp_status close_report \<notin> {Status ORDER_REJECTED, Status ORDER_CANCELED},
          exec_unsafe (reason @ ''; emergency close status='' @ status_value close_report @ ''; flat='' @ py_repr (JBool is_flat))),
       (is_flat, exec_unsafe (reason @ ''; emergency close status='' @ status_value close_report @ '' did not flatten position''))]) (\<lambda>_.
     bindp (cancel_if_active (oi_symbol i) eid (reason @ ''; flat emergency-close reconciliation'')) (\<lambda>_.
     Ret (compensated_report C r i reason))))))"

definition emergency_close_position ::
  "exec_config \<Rightarrow> validated_order \<Rightarrow> order_intent \<Rightarrow> exec_report \<Rightarrow> string \<Rightarrow> exec_report x_prog" where
  "emergency_close_position C order i r reason = (bindp (liftp (derived_id C order '':emergency-close'')) (\<lambda>eid.
     bindp (order_is_active (oi_symbol i) eid (reason @ ''; emergency-close preflight reconciliation'')) (\<lambda>active.
     bindp (checkp [(\<not> active, exec_unsafe (reason @ ''; emergency close '' @ eid @ '' remains active''))]) (\<lambda>_.
     bindp (attempt (call_report (Close_All (oi_symbol i) None None eid))) (\<lambda>closed.
     (case closed of
        Inl e \<Rightarrow> if exn_kind e = OtherError ''ExecutionSafetyError'' then Fail e else ambiguous_emergency C r i reason eid e
      | Inr close_report \<Rightarrow> settled_emergency C r i reason eid close_report))))))"

definition may_be_live :: "exec_report \<Rightarrow> bool" where
  "may_be_live r \<longleftrightarrow> rp_status r \<in> {Status ORDER_NEW, Status ORDER_PARTIALLY_FILLED}"

definition compensate_unprotected ::
  "exec_config \<Rightarrow> validated_order \<Rightarrow> order_intent \<Rightarrow> exec_report \<Rightarrow> string \<Rightarrow> bool \<Rightarrow> exec_report x_prog" where
  "compensate_unprotected C order i r reason cancel = (bindp (write_state (\<lambda>s. s \<lparr> xs_trailing := manager_close (oi_symbol i) (xs_trailing s) \<rparr>)) (\<lambda>_.
     bindp ((if cancel \<or> may_be_live r then
        (case oi_client_order_id i of
           None \<Rightarrow> Fail (exec_unsafe (reason @ ''; entry has no trusted submitted client ID and cannot be cancelled''))
         | Some cid \<Rightarrow> if cid = [] then
               Fail (exec_unsafe (reason @ ''; entry has no trusted submitted client ID and cannot be cancelled''))
             else cancel_entry (oi_symbol i) cid reason)
      else Ret ())) (\<lambda>_.
     bindp (catchp (call_flag (Position_Flat (oi_symbol i)))
       (\<lambda>e. Fail (exec_unsafe (reason @ ''; pre-close position reconciliation failed: '' @ exn_name (exn_kind e))))) (\<lambda>is_flat.
     (if is_flat then Ret (compensated_report C r i reason) else emergency_close_position C order i r reason)))))"

definition resolve_ambiguous_entry :: "exec_config \<Rightarrow> validated_order \<Rightarrow> order_intent \<Rightarrow> exn \<Rightarrow> 'a x_prog" where
  "resolve_ambiguous_entry C order i e = (bindp (liftp (xc_new_report C
       \<lparr> ra_client_order_id = (case oi_client_order_id i of None \<Rightarrow> ''unknown'' | Some c \<Rightarrow> if c = [] then ''unknown'' else c),
         ra_exchange_order_id = None, ra_exchange = xc_adapter_name C, ra_symbol = oi_symbol i, ra_side = oi_side i,
         ra_status = ORDER_NEW, ra_requested_qty = oi_quantity i, ra_filled_qty = None, ra_remaining_qty = oi_quantity i,
         ra_message = ''ambiguous place_order after '' @ exn_name (exn_kind e) \<rparr>)) (\<lambda>uncertain.
     bindp (compensate_unprotected C order i uncertain (''ambiguous entry mutation after '' @ exn_name (exn_kind e)) True) (\<lambda>_.
     Fail (exec_unsafe (''ambiguous entry mutation was reconciled inactive and flat; ''
       @ ''delivery remains pending for deterministic redelivery'')))))"

section \<open>Closing\<close>

definition resolve_ambiguous_close :: "exec_config \<Rightarrow> order_intent \<Rightarrow> string \<Rightarrow> exn \<Rightarrow> exec_report x_prog" where
  "resolve_ambiguous_close C i close_id e = (bindp (position_is_flat (oi_symbol i) ''ambiguous close position reconciliation'') (\<lambda>is_flat.
     (if is_flat then (bindp (cancel_if_active (oi_symbol i) close_id ''ambiguous close already-flat reconciliation'') (\<lambda>_.
     liftp (desired_state_close_report C i close_id (''ambiguous close reconciled flat after '' @ exn_name (exn_kind e)))))
      else (bindp (order_is_active (oi_symbol i) close_id ''ambiguous close order reconciliation'') (\<lambda>active.
     Fail (exec_unsafe (''ambiguous close '' @ close_id @ '' after '' @ exn_name (exn_kind e) @ '' ''
          @ (if active then ''remains active'' else ''is inactive but the position is not flat''))))))))"

definition settled_close :: "exec_config \<Rightarrow> order_intent \<Rightarrow> string \<Rightarrow> exec_report \<Rightarrow> exec_report x_prog" where
  "settled_close C i close_id r = (let err = execution_ack_error C r i close_id in
     (bindp (position_is_flat (oi_symbol i) ''close-position post-submit reconciliation'') (\<lambda>is_flat.
     bindp (checkp [(err = None, exec_unsafe (''malformed close acknowledgement: '' @ the err)),
       (is_flat, exec_unsafe (''close acknowledgement status='' @ status_value r @ '' did not flatten position''))]) (\<lambda>_.
     bindp (cancel_if_active (oi_symbol i) close_id ''flat close post-submit reconciliation'') (\<lambda>_.
     (if rp_status r = Status ORDER_FILLED then Ret r
      else liftp (desired_state_close_report C i close_id
        (''venue position is flat after close status='' @ status_value r))))))))"

definition close_to_desired_state :: "exec_config \<Rightarrow> validated_order \<Rightarrow> exec_report x_prog" where
  "close_to_desired_state C order = (let i = vo_intent order in (bindp (write_state (\<lambda>s. s \<lparr> xs_trailing := manager_close (oi_symbol i) (xs_trailing s) \<rparr>)) (\<lambda>_.
     bindp (liftp (derived_id C order '':close'')) (\<lambda>close_id.
     bindp (position_is_flat (oi_symbol i) ''close-position preflight reconciliation'') (\<lambda>is_flat.
     (if is_flat then (bindp (cancel_if_active (oi_symbol i) close_id ''already-flat close preflight'') (\<lambda>_.
     liftp (desired_state_close_report C i close_id ''position already flat'')))
      else (bindp (order_is_active (oi_symbol i) close_id ''close-position preflight order reconciliation'') (\<lambda>active.
     bindp (checkp [(\<not> active, exec_unsafe (''deterministic close '' @ close_id @ '' is still active; awaiting venue reconciliation''))]) (\<lambda>_.
     bindp (attempt (call_report (Close_All (oi_symbol i) (Some (oi_quantity i)) (Some (oi_side i)) close_id))) (\<lambda>closed.
     (case closed of
           Inl e \<Rightarrow> resolve_ambiguous_close C i close_id e
         | Inr r \<Rightarrow> settled_close C i close_id r)))))))))))"

section \<open>Opening\<close>

definition exchange_client_id :: "exec_config \<Rightarrow> validated_order \<Rightarrow> string res" where
  "exchange_client_id C order = (case oi_client_order_id (vo_intent order) of
       None \<Rightarrow> derived_id C order []
     | Some c \<Rightarrow> if casefold (xc_adapter_name C) = ''evedex'' \<and> \<not> is_evedex_client_order_id c
         then client_order_id (if c = [] then vo_message_id order else c) (xc_adapter_name C) (Some (vo_produced_at order))
                (vo_produced_at order)
         else Inr c)"

text \<open>\<^verbatim>\<open>report.avg_price or intent.price or 0.0\<close>, of an acknowledgement without error.\<close>

definition protection_price :: "exec_report \<Rightarrow> order_intent \<Rightarrow> f64" where
  "protection_price r i = (let avg = number_of (rp_avg_price r) in
     if \<not> feq avg fzero then avg
     else case oi_price i of Some p \<Rightarrow> if \<not> feq p fzero then p else fzero | None \<Rightarrow> fzero)"

text \<open>The trail of an explicit stop, when the stop is on the losing side of the entry and less than all of
  it away.\<close>

definition explicit_trail :: "venue_side \<Rightarrow> f64 \<Rightarrow> f64 \<Rightarrow> f64 option res" where
  "explicit_trail side entry stop = rbind (fdiv (fabs (fsub entry stop)) entry) (\<lambda>trail.
     Inr (if (side = BUY_SIDE \<and> flt stop entry \<or> side = SELL_SIDE \<and> flt entry stop)
            \<and> isfinite stop \<and> isfinite trail \<and> flt fzero trail \<and> flt trail fone then Some trail else None))"

text \<open>The trailing stop is registered before its price is computed; it stays registered when that raises,
  until the caller closes it.\<close>

definition open_trailing :: "string \<Rightarrow> venue_side \<Rightarrow> f64 \<Rightarrow> f64 option \<Rightarrow> trailing_stop x_prog" where
  "open_trailing symb side entry trail = (bindp (read_state xs_trailing) (\<lambda>m.
     bindp (liftp (manager_open symb side entry trail m)) (\<lambda>(m', ts).
     bindp (write_state (\<lambda>s. s \<lparr> xs_trailing := m' \<rparr>)) (\<lambda>_.
     Ret ts))))"

definition arm_stop :: "order_intent \<Rightarrow> string \<Rightarrow> f64 \<Rightarrow> f64 option \<Rightarrow> string x_prog" where
  "arm_stop i cid entry trail = (bindp (open_trailing (oi_symbol i) (oi_side i) entry trail) (\<lambda>ts.
     bindp (liftp (stop_price ts)) (\<lambda>price.
     bindp (checkp [(isfinite price \<and> \<not> fle price fzero, Exn ValueError ''computed protective-stop price must be finite and positive'')]) (\<lambda>_.
     call_stop (Set_Stop (oi_symbol i) price (oi_side i) cid)))))"

definition protect_entry ::
  "exec_config \<Rightarrow> validated_order \<Rightarrow> order_intent \<Rightarrow> string \<Rightarrow> exec_report \<Rightarrow> f64 \<Rightarrow> f64 option \<Rightarrow> exec_report x_prog" where
  "protect_entry C order i cid r entry trail = (bindp (attempt (arm_stop i cid entry trail)) (\<lambda>armed.
     (case armed of
        Inr x \<Rightarrow> Ret r
      | Inl e \<Rightarrow> (bindp (write_state (\<lambda>s. s \<lparr> xs_trailing := manager_close (oi_symbol i) (xs_trailing s) \<rparr>)) (\<lambda>_.
     compensate_unprotected C order i r (''protective stop failed: '' @ exn_name (exn_kind e)) False)))))"

definition settle_entry_report ::
  "exec_config \<Rightarrow> validated_order \<Rightarrow> order_intent \<Rightarrow> string \<Rightarrow> exec_report \<Rightarrow> exec_report x_prog" where
  "settle_entry_report C order i cid r = (
     case execution_ack_error C r i cid of
       Some err \<Rightarrow> compensate_unprotected C order i r (''malformed entry acknowledgement: '' @ err) True
     | None \<Rightarrow>
       if rp_status r = Status ORDER_REJECTED then
         (if flt fzero (number_of (rp_filled_qty r))
          then compensate_unprotected C order i r ''rejected entry acknowledgement reported a fill'' False else Ret r)
       else if rp_status r = Status ORDER_CANCELED \<and> feq (number_of (rp_filled_qty r)) fzero then Ret r
       else if may_be_live r \<and> rp_exchange_order_id r = JNull
         then compensate_unprotected C order i r ''active entry acknowledgement has no exchange order ID'' False
       else (let entry = protection_price r i in
         if \<not> isfinite entry \<or> fle entry fzero
         then compensate_unprotected C order i r ''entry submitted without a finite positive protection price'' False
         else (case oi_stop_price i of
             None \<Rightarrow> protect_entry C order i cid r entry None
           | Some stop \<Rightarrow> (bindp (liftp (explicit_trail (oi_side i) entry stop)) (\<lambda>trail.
     (case trail of
                  None \<Rightarrow> compensate_unprotected C order i r ''entry submitted with an invalid protective stop'' False
                | Some t \<Rightarrow> protect_entry C order i cid r entry (Some t)))))))"

definition open_position :: "exec_config \<Rightarrow> validated_order \<Rightarrow> venue_side option \<Rightarrow> exec_report x_prog" where
  "open_position C order side = (bindp (liftp (exchange_client_id C order)) (\<lambda>cid.
     let i = (vo_intent order) \<lparr> oi_client_order_id := Some cid,
        oi_side := (case side of None \<Rightarrow> oi_side (vo_intent order) | Some s \<Rightarrow> s) \<rparr> in
     bindp (attempt (call_report (Place_Order i))) (\<lambda>placed.
     (case placed of
        Inl e \<Rightarrow> resolve_ambiguous_entry C order i e
      | Inr r \<Rightarrow> settle_entry_report C order i cid r))))"

section \<open>Handling\<close>

definition handle_order_once :: "exec_config \<Rightarrow> validated_order \<Rightarrow> exec_report option x_prog" where
  "handle_order_once C order = (
     if py_upper (oi_symbol (vo_intent order)) \<notin> set (map py_upper (xc_allowed_symbols C)) \<or> \<not> vo_approved order then Ret None
     else (let (act, side) = action_for (vo_reason_code order) in
     bindp (read_state xs_blockers) (\<lambda>blockers.
     bindp (checkp [(blockers = [] \<or> act = CLOSE,
          exec_unsafe (''execution journal recovery is incomplete; only protective closes are allowed: '' @ join ''; '' (take 3 blockers)))]) (\<lambda>_.
     bindp (read_state xs_mode) (\<lambda>mode.
     (if mode = LOCAL_QUANT_MODE \<and> act = OPEN then Ret None
        else case act of
            NOOP \<Rightarrow> Ret None
          | CLOSE \<Rightarrow> (bindp (close_to_desired_state C order) (\<lambda>r.
     Ret (Some r)))
          | REDUCE \<Rightarrow> (bindp (liftp (fdiv (oi_leverage (vo_intent order)) (Fin 2))) (\<lambda>half.
     bindp (call_done (Set_Leverage (oi_symbol (vo_intent order)) (fmax fone half))) (\<lambda>_.
     Ret None)))
          | OPEN \<Rightarrow> (bindp (open_position C order side) (\<lambda>r.
     Ret (Some r)))))))))"

text \<open>The cache of completed orders, in the order of their last use.\<close>

definition move_to_end :: "'k \<Rightarrow> ('k \<times> 'v) list \<Rightarrow> ('k \<times> 'v) list" where
  "move_to_end k d = (case dict_get d k of None \<Rightarrow> d | Some v \<Rightarrow> dict_pop k d @ [(k, v)])"

definition remember :: "nat \<Rightarrow> 'k \<Rightarrow> 'v \<Rightarrow> ('k \<times> 'v) list \<Rightarrow> ('k \<times> 'v) list" where
  "remember limit k v d = (let d' = dict_set k v d in if limit < length d' then drop 1 d' else d')"

definition order_fingerprint :: "exec_config \<Rightarrow> validated_order \<Rightarrow> string" where
  "order_fingerprint C order = sha256_hex (xc_order_json C order)"

definition handle_order :: "exec_config \<Rightarrow> validated_order \<Rightarrow> exec_report option x_prog" where
  "handle_order C order = (let fingerprint = order_fingerprint C order in (bindp (read_state xs_completed) (\<lambda>completed.
     (case dict_get completed (vo_message_id order) of
        Some (stored, report) \<Rightarrow> (bindp (checkp [(stored = fingerprint, exec_unsafe (''validated-order ID '' @ repr_string (vo_message_id order)
             @ '' was reused with a different payload''))]) (\<lambda>_.
     bindp (write_state (\<lambda>s. s \<lparr> xs_completed := move_to_end (vo_message_id order) (xs_completed s) \<rparr>)) (\<lambda>_.
     Ret report)))
      | None \<Rightarrow> (bindp (handle_order_once C order) (\<lambda>result.
     bindp (write_state (\<lambda>s. s \<lparr> xs_completed := remember (xc_cache_size C) (vo_message_id order) (fingerprint, result) (xs_completed s) \<rparr>)) (\<lambda>_.
     Ret result)))))))"

end
