(* ===== verification/Exec_Journal.thy ===== *)
theory Exec_Journal
  imports Exec_Engine
begin

text \<open>
  \<^verbatim>\<open>kairos_execution/journaled_adapter.py\<close>: every mutation of the venue is prepared in a durable journal
  before it is sent, and an effect that an earlier process left prepared is reconciled with the venue
  instead of being sent again. The journal, the venue, and the payloads of the contracts of
  \<^verbatim>\<open>kairos_core\<close> are outside; nothing is assumed of them.
\<close>

section \<open>Requests\<close>

record journal_config =
  jc_name :: string
  jc_stop_lookup_authoritative :: bool
  jc_intent_payload :: "order_intent \<Rightarrow> json"
  jc_intent_of :: "json \<Rightarrow> order_intent res"
  jc_report_payload :: "exec_report \<Rightarrow> obj"
  jc_report_of :: "obj \<Rightarrow> exec_report res"
  jc_new_report :: "report_args \<Rightarrow> exec_report res"

abbreviation SET_LEVERAGE :: effect_type where
  "SET_LEVERAGE \<equiv> OTHER_EFFECT ''SET_LEVERAGE''"

record journal_spec =
  js_key :: string
  js_type :: effect_type
  js_exchange :: string
  js_symbol :: string
  js_client_order_id :: "string option"
  js_request :: obj

datatype j_request =
    Venue venue_call
  | Journal_Prepare journal_spec
  | Journal_Confirm string json obj
  | Journal_Reconcile string "string option" "obj option"
  | Journal_Pending string
  | Journal_Enter string
  | Journal_Leave string

datatype j_response =
    Answered venue_answer
  | Journal_Prepared preparation
  | Journal_Effects "effect_row list"
  | Journal_Done

type_synonym ('s, 'a) j_prog = "('s, j_request, j_response, 'a) prog"

definition ask_journal :: "j_request \<Rightarrow> ('s, unit) j_prog" where
  "ask_journal q = await q (\<lambda>r. case r of Journal_Done \<Rightarrow> Some () | _ \<Rightarrow> None)"

definition journal_prepare :: "journal_spec \<Rightarrow> ('s, preparation) j_prog" where
  "journal_prepare s = await (Journal_Prepare s) (\<lambda>r. case r of Journal_Prepared p \<Rightarrow> Some p | _ \<Rightarrow> None)"

definition journal_pending :: "string \<Rightarrow> ('s, effect_row list) j_prog" where
  "journal_pending ex = await (Journal_Pending ex) (\<lambda>r. case r of Journal_Effects xs \<Rightarrow> Some xs | _ \<Rightarrow> None)"

definition venue :: "venue_call \<Rightarrow> ('s, venue_answer) j_prog" where
  "venue q = await (Venue q) (\<lambda>r. case r of Answered a \<Rightarrow> Some a | _ \<Rightarrow> None)"

definition venue_report :: "venue_call \<Rightarrow> ('s, exec_report) j_prog" where
  "venue_report q = await (Venue q) (\<lambda>r. case r of Answered (Va_Report x) \<Rightarrow> Some x | _ \<Rightarrow> None)"

definition venue_flag :: "venue_call \<Rightarrow> ('s, bool) j_prog" where
  "venue_flag q = await (Venue q) (\<lambda>r. case r of Answered (Va_Flag x) \<Rightarrow> Some x | _ \<Rightarrow> None)"

definition venue_done :: "venue_call \<Rightarrow> ('s, unit) j_prog" where
  "venue_done q = await (Venue q) (\<lambda>r. case r of Answered Va_Done \<Rightarrow> Some () | _ \<Rightarrow> None)"

definition venue_stop :: "venue_call \<Rightarrow> ('s, string) j_prog" where
  "venue_stop q = await (Venue q) (\<lambda>r. case r of Answered (Va_Stop x) \<Rightarrow> Some x | _ \<Rightarrow> None)"

definition venue_maybe_stop :: "venue_call \<Rightarrow> ('s, string option) j_prog" where
  "venue_maybe_stop q = await (Venue q) (\<lambda>r. case r of Answered (Va_Maybe_Stop x) \<Rightarrow> Some x | _ \<Rightarrow> None)"

text \<open>\<^verbatim>\<open>async with self.journal.recovery_lock(effect_key)\<close>.\<close>

definition under_recovery_lock :: "string \<Rightarrow> ('s, 'a) j_prog \<Rightarrow> ('s, 'a) j_prog" where
  "under_recovery_lock key body = (bindp (ask_journal (Journal_Enter key)) (\<lambda>_.
     bindp (attempt body) (\<lambda>r.
     bindp (ask_journal (Journal_Leave key)) (\<lambda>_.
     liftp r))))"

section \<open>Identities and cached answers\<close>

abbreviation recovery_error :: "string \<Rightarrow> exn" where
  "recovery_error m \<equiv> Exn (OtherError ''ExecutionRecoveryError'') m"

abbreviation not_required :: exn where
  "not_required \<equiv> Exn (OtherError ''ProtectionNoLongerRequired'') ''position is already flat; protective stop is not required''"

definition trusted_client_id :: "string option \<Rightarrow> string \<Rightarrow> string res" where
  "trusted_client_id v operation = (case v of
       None \<Rightarrow> raise ValueError (operation @ '' requires a deterministic client order ID'')
     | Some c \<Rightarrow> if strip c = [] then raise ValueError (operation @ '' requires a deterministic client order ID'') else Inr c)"

definition journal_key :: "journal_config \<Rightarrow> effect_type \<Rightarrow> string \<Rightarrow> string" where
  "journal_key J t identity = jc_name J @ '':'' @ effect_text t @ '':'' @ sha256_hex identity"

definition answered_effect :: "effect_row \<Rightarrow> bool" where
  "answered_effect e \<longleftrightarrow> ef_status e \<in> {EFF_CONFIRMED, EFF_RECONCILED}"

definition cached_report :: "journal_config \<Rightarrow> effect_row \<Rightarrow> exec_report option res" where
  "cached_report J e = (if \<not> answered_effect e then Inr None
     else case ef_response e of
        None \<Rightarrow> Inl (recovery_error (''effect '' @ ef_key e @ '' has no cached response''))
      | Some d \<Rightarrow> rbind (jc_report_of J d) (\<lambda>r. Inr (Some r)))"

text \<open>\<^verbatim>\<open>ProtectiveStopAck.__post_init__\<close>.\<close>

definition stop_ack :: "string \<Rightarrow> string res" where
  "stop_ack xid = (if strip xid = [] then raise ValueError ''protective-stop acknowledgement has no exchange order ID'' else Inr xid)"

definition cached_stop :: "effect_row \<Rightarrow> string res" where
  "cached_stop e = (case ef_response e of
       None \<Rightarrow> Inl (recovery_error (''effect '' @ ef_key e @ '' has no cached stop response''))
     | Some d \<Rightarrow> (case field d ''exchange_order_id'' of
          JStr xid \<Rightarrow> stop_ack xid
        | _ \<Rightarrow> Inl (recovery_error (''effect '' @ ef_key e @ '' has an invalid cached stop ID''))))"

definition optional_float :: "json \<Rightarrow> string \<Rightarrow> f64 option res" where
  "optional_float v name = (case v of
       JNull \<Rightarrow> Inr None
     | JInt i \<Rightarrow> rbind (py_float (JInt i)) (\<lambda>x. Inr (Some x))
     | JFloat x \<Rightarrow> Inr (Some x)
     | _ \<Rightarrow> Inl (recovery_error (name @ '' is not numeric'')))"

definition order_side_of_text :: "string \<Rightarrow> venue_side res" where
  "order_side_of_text s = (if s = ''BUY'' then Inr BUY_SIDE else if s = ''SELL'' then Inr SELL_SIDE
     else raise ValueError (repr_string s @ '' is not a valid OrderSide''))"

definition item :: "obj \<Rightarrow> string \<Rightarrow> json res" where
  "item d k = (case map_of d k of Some v \<Rightarrow> Inr v | None \<Rightarrow> raise KeyError (repr_string k))"

definition neutral_report :: "journal_config \<Rightarrow> order_intent \<Rightarrow> string \<Rightarrow> exec_report res" where
  "neutral_report J i detail = rbind (trusted_client_id (oi_client_order_id i) ''neutral report'') (\<lambda>cid.
     jc_new_report J \<lparr> ra_client_order_id = cid, ra_exchange_order_id = Some cid, ra_exchange = jc_name J,
       ra_symbol = oi_symbol i, ra_side = oi_side i, ra_status = ORDER_CANCELED, ra_requested_qty = oi_quantity i,
       ra_filled_qty = None, ra_remaining_qty = fzero, ra_message = detail \<rparr>)"

section \<open>Recovery of a prepared effect\<close>

definition recover_prepared_place :: "journal_config \<Rightarrow> effect_row \<Rightarrow> order_intent \<Rightarrow> ('s, exec_report) j_prog" where
  "recover_prepared_place J e i = (bindp (checkp [(ef_status e \<noteq> EFF_FAILED, recovery_error (''place effect '' @ ef_key e @ '' is FAILED''))]) (\<lambda>_.
     under_recovery_lock (ef_key e) ((bindp (liftp (trusted_client_id (oi_client_order_id i) ''place order'')) (\<lambda>cid.
     bindp (venue_flag (Order_Active (oi_symbol i) cid)) (\<lambda>active.
     bindp ((if active then (bindp (venue_done (Cancel_By_Id (oi_symbol i) cid)) (\<lambda>_.
     bindp (venue_flag (Order_Active (oi_symbol i) cid)) (\<lambda>still.
     checkp [(\<not> still, recovery_error ''prepared entry remains active after cancellation'')])))
         else Ret ())) (\<lambda>_.
     bindp (venue_flag (Position_Flat (oi_symbol i))) (\<lambda>is_flat.
     bindp (checkp [(is_flat, recovery_error ''prepared entry is inactive but the position is not flat'')]) (\<lambda>_.
     bindp (liftp (neutral_report J i ''prepared entry reconciled inactive and flat'')) (\<lambda>response.
     bindp (ask_journal (Journal_Reconcile (ef_key e) (Some cid) (Some (jc_report_payload J response)))) (\<lambda>_.
     Ret response)))))))))))"

definition recover_prepared_close ::
  "journal_config \<Rightarrow> effect_row \<Rightarrow> f64 option \<Rightarrow> venue_side option \<Rightarrow> ('s, exec_report) j_prog" where
  "recover_prepared_close J e quantity side = (bindp (checkp [(ef_status e \<noteq> EFF_FAILED, recovery_error (''close effect '' @ ef_key e @ '' is FAILED''))]) (\<lambda>_.
     under_recovery_lock (ef_key e) ((bindp (venue_flag (Position_Flat (ef_symbol e))) (\<lambda>is_flat.
     bindp (checkp [(is_flat, recovery_error ''prepared close has not reached a flat position'')]) (\<lambda>_.
     bindp (liftp (jc_new_report J
          \<lparr> ra_client_order_id = (case ef_client_order_id e of None \<Rightarrow> ''unknown'' | Some c \<Rightarrow> if c = [] then ''unknown'' else c),
            ra_exchange_order_id = ef_client_order_id e, ra_exchange = jc_name J, ra_symbol = ef_symbol e,
            ra_side = (case side of None \<Rightarrow> BUY_SIDE | Some s \<Rightarrow> s), ra_status = ORDER_CANCELED,
            ra_requested_qty = (case quantity of None \<Rightarrow> fzero | Some q \<Rightarrow> if feq q fzero then fzero else q),
            ra_filled_qty = None, ra_remaining_qty = fzero,
            ra_message = ''prepared close reconciled to the flat desired state'' \<rparr>)) (\<lambda>report.
     bindp (ask_journal (Journal_Reconcile (ef_key e) (ef_client_order_id e) (Some (jc_report_payload J report)))) (\<lambda>_.
     Ret report))))))))"

definition stop_not_required :: "effect_row \<Rightarrow> ('s, unit) j_prog" where
  "stop_not_required e = ask_journal (Journal_Reconcile (ef_key e) None
     (Some [(''position_flat'', JBool True), (''protective_stop_required'', JBool False)]))"

definition recover_prepared_stop ::
  "journal_config \<Rightarrow> effect_row \<Rightarrow> f64 \<Rightarrow> venue_side \<Rightarrow> string \<Rightarrow> ('s, string) j_prog" where
  "recover_prepared_stop J e price side parent = under_recovery_lock (ef_key e) (
     if \<not> jc_stop_lookup_authoritative J then (bindp (venue_flag (Position_Flat (ef_symbol e))) (\<lambda>is_flat.
     (if is_flat then (bindp (stop_not_required e) (\<lambda>_.
     Fail not_required))
         else Fail (recovery_error (jc_name J @ '' cannot authoritatively deduplicate a prepared protective stop'')))))
     else (bindp (venue_maybe_stop (Find_Stop (ef_symbol e) price side parent)) (\<lambda>existing.
     (case existing of
           Some xid \<Rightarrow> (bindp (ask_journal (Journal_Reconcile (ef_key e) (Some xid) (Some [(''exchange_order_id'', JStr xid)]))) (\<lambda>_.
     Ret xid))
         | None \<Rightarrow> (bindp (venue_flag (Position_Flat (ef_symbol e))) (\<lambda>is_flat.
     (if is_flat then (bindp (stop_not_required e) (\<lambda>_.
     Fail not_required))
              else (bindp (venue_stop (Set_Stop (ef_symbol e) price side parent)) (\<lambda>xid.
     bindp (ask_journal (Journal_Confirm (ef_key e) (JStr xid) [(''exchange_order_id'', JStr xid)])) (\<lambda>_.
     Ret xid))))))))))"

section \<open>The operations\<close>

definition json_of_float_option :: "f64 option \<Rightarrow> json" where
  "json_of_float_option v = (case v of None \<Rightarrow> JNull | Some x \<Rightarrow> JFloat x)"

definition json_of_side_option :: "venue_side option \<Rightarrow> json" where
  "json_of_side_option v = (case v of None \<Rightarrow> JNull | Some s \<Rightarrow> JStr (side_value s))"

text \<open>\<^verbatim>\<open>report.exchange_order_id or client_id\<close>.\<close>

definition effect_identity :: "exec_report \<Rightarrow> string \<Rightarrow> json" where
  "effect_identity r cid = (if truthy (rp_exchange_order_id r) then rp_exchange_order_id r else JStr cid)"

definition journal_place :: "journal_config \<Rightarrow> order_intent \<Rightarrow> ('s, exec_report) j_prog" where
  "journal_place J i = (bindp (liftp (trusted_client_id (oi_client_order_id i) ''place order'')) (\<lambda>cid.
     bindp (journal_prepare \<lparr> js_key = journal_key J PLACE_ORDER cid, js_type = PLACE_ORDER, js_exchange = jc_name J,
       js_symbol = oi_symbol i, js_client_order_id = Some cid, js_request = [(''intent'', jc_intent_payload J i)] \<rparr>) (\<lambda>prep.
     (if \<not> pp_created prep then (bindp (liftp (cached_report J (pp_effect prep))) (\<lambda>cached.
     (case cached of Some r \<Rightarrow> Ret r | None \<Rightarrow> recover_prepared_place J (pp_effect prep) i)))
      else (bindp (venue_report (Place_Order i)) (\<lambda>r.
     bindp (ask_journal (Journal_Confirm (ef_key (pp_effect prep)) (effect_identity r cid) (jc_report_payload J r))) (\<lambda>_.
     Ret r)))))))"

definition journal_close ::
  "journal_config \<Rightarrow> string \<Rightarrow> f64 option \<Rightarrow> venue_side option \<Rightarrow> string option \<Rightarrow> ('s, exec_report) j_prog" where
  "journal_close J symb quantity side client_id = (bindp (liftp (trusted_client_id client_id ''close position'')) (\<lambda>cid.
     bindp (journal_prepare \<lparr> js_key = journal_key J CLOSE_POSITION cid, js_type = CLOSE_POSITION, js_exchange = jc_name J,
       js_symbol = symb, js_client_order_id = Some cid, js_request = [(''symbol'', JStr symb),
         (''quantity'', json_of_float_option quantity), (''side'', json_of_side_option side), (''client_order_id'', JStr cid)] \<rparr>) (\<lambda>prep.
     (if \<not> pp_created prep then (bindp (liftp (cached_report J (pp_effect prep))) (\<lambda>cached.
     (case cached of Some r \<Rightarrow> Ret r | None \<Rightarrow> recover_prepared_close J (pp_effect prep) quantity side)))
      else (bindp (venue_report (Close_All symb quantity side cid)) (\<lambda>r.
     bindp (ask_journal (Journal_Confirm (ef_key (pp_effect prep)) (effect_identity r cid) (jc_report_payload J r))) (\<lambda>_.
     Ret r)))))))"

definition journal_stop :: "journal_config \<Rightarrow> string \<Rightarrow> f64 \<Rightarrow> venue_side \<Rightarrow> string \<Rightarrow> ('s, string) j_prog" where
  "journal_stop J symb price side parent = (let key = journal_key J PROTECTIVE_STOP parent in (bindp (journal_prepare \<lparr> js_key = key, js_type = PROTECTIVE_STOP, js_exchange = jc_name J,
       js_symbol = symb, js_client_order_id = Some parent, js_request = [(''symbol'', JStr symb),
         (''stop_price_hex'', JStr (float_hex price)), (''position_side'', JStr (side_value side)),
         (''parent_order_id'', JStr parent)] \<rparr>) (\<lambda>prep.
     (if \<not> pp_created prep then
        (if answered_effect (pp_effect prep) then liftp (cached_stop (pp_effect prep))
         else if ef_status (pp_effect prep) = EFF_FAILED
         then Fail (recovery_error (''protective effect '' @ ef_key (pp_effect prep) @ '' is FAILED''))
         else recover_prepared_stop J (pp_effect prep) price side parent)
      else (bindp (venue_stop (Set_Stop symb price side parent)) (\<lambda>xid.
     bindp (ask_journal (Journal_Confirm key (JStr xid) [(''exchange_order_id'', JStr xid)])) (\<lambda>_.
     Ret xid)))))))"

definition journal_cancel :: "journal_config \<Rightarrow> string \<Rightarrow> string \<Rightarrow> ('s, unit) j_prog" where
  "journal_cancel J symb cid = (let key = journal_key J CANCEL_ORDER cid in (bindp (journal_prepare \<lparr> js_key = key, js_type = CANCEL_ORDER, js_exchange = jc_name J,
       js_symbol = symb, js_client_order_id = Some cid,
       js_request = [(''symbol'', JStr symb), (''client_order_id'', JStr cid)] \<rparr>) (\<lambda>prep.
     (if \<not> pp_created prep \<and> answered_effect (pp_effect prep) then Ret ()
      else if \<not> pp_created prep \<and> ef_status (pp_effect prep) = EFF_FAILED
      then Fail (recovery_error (''cancel effect '' @ ef_key (pp_effect prep) @ '' is FAILED''))
      else under_recovery_lock key ((bindp (venue_flag (Order_Active symb cid)) (\<lambda>active.
     (if \<not> active then ask_journal (Journal_Reconcile key (Some cid) (Some [(''active'', JBool False)]))
         else (bindp (venue_done (Cancel_By_Id symb cid)) (\<lambda>_.
     bindp (venue_flag (Order_Active symb cid)) (\<lambda>still.
     bindp (checkp [(\<not> still, recovery_error (''order '' @ cid @ '' remains active after cancellation''))]) (\<lambda>_.
     ask_journal (Journal_Confirm key (JStr cid) [(''active'', JBool False)])))))))))))))"

definition journal_leverage :: "journal_config \<Rightarrow> string \<Rightarrow> f64 \<Rightarrow> ('s, unit) j_prog" where
  "journal_leverage J symb leverage = (let key = journal_key J SET_LEVERAGE (symb @ '':'' @ float_hex leverage) in (bindp (journal_prepare \<lparr> js_key = key, js_type = SET_LEVERAGE, js_exchange = jc_name J, js_symbol = symb,
       js_client_order_id = None, js_request = [(''symbol'', JStr symb), (''leverage_hex'', JStr (float_hex leverage))] \<rparr>) (\<lambda>prep.
     (if \<not> pp_created prep then
        (if answered_effect (pp_effect prep) then Ret ()
         else Fail (recovery_error (''leverage effect '' @ ef_key (pp_effect prep) @ '' requires reconciliation'')))
      else (bindp (venue_done (Set_Leverage symb leverage)) (\<lambda>_.
     ask_journal (Journal_Confirm key (JStr symb) [(''leverage_hex'', JStr (float_hex leverage))])))))))"

text \<open>The adapter interface, as the engine calls it: reads pass through.\<close>

definition journaled :: "journal_config \<Rightarrow> venue_call \<Rightarrow> ('s, venue_answer) j_prog" where
  "journaled J q = (case q of
     Place_Order i \<Rightarrow> (bindp (journal_place J i) (\<lambda>r.
     Ret (Va_Report r)))
   | Cancel_By_Id symb cid \<Rightarrow> (bindp (journal_cancel J symb cid) (\<lambda>_.
     Ret Va_Done))
   | Close_All symb quantity side cid \<Rightarrow> (bindp (journal_close J symb quantity side (Some cid)) (\<lambda>r.
     Ret (Va_Report r)))
   | Set_Leverage symb leverage \<Rightarrow> (bindp (journal_leverage J symb leverage) (\<lambda>_.
     Ret Va_Done))
   | Set_Stop symb price side parent \<Rightarrow> (bindp (journal_stop J symb price side parent) (\<lambda>x.
     Ret (Va_Stop x)))
   | Order_Active symb cid \<Rightarrow> venue (Order_Active symb cid)
   | Position_Flat symb \<Rightarrow> venue (Position_Flat symb)
   | Find_Stop symb price side parent \<Rightarrow> venue (Find_Stop symb price side parent))"

section \<open>Startup recovery\<close>

definition recover_journal_effect :: "journal_config \<Rightarrow> effect_row \<Rightarrow> ('s, unit) j_prog" where
  "recover_journal_effect J e = (
     if ef_type e = PROTECTIVE_STOP then (bindp (liftp (rbind (item (ef_request e) ''stop_price_hex'') (\<lambda>v. float_fromhex (py_str v)))) (\<lambda>price.
     bindp (liftp (rbind (item (ef_request e) ''position_side'') (\<lambda>v. order_side_of_text (py_str v)))) (\<lambda>side.
     bindp (liftp (item (ef_request e) ''parent_order_id'')) (\<lambda>parent.
     bindp (recover_prepared_stop J e price side (py_str parent)) (\<lambda>_.
     Ret ())))))
     else if ef_type e = CANCEL_ORDER then (bindp (liftp (trusted_client_id (ef_client_order_id e) ''cancel recovery'')) (\<lambda>cid.
     journal_cancel J (ef_symbol e) cid))
     else if ef_type e = PLACE_ORDER then (bindp (liftp (rbind (item (ef_request e) ''intent'') (jc_intent_of J))) (\<lambda>i.
     bindp (recover_prepared_place J e i) (\<lambda>_.
     Ret ())))
     else if ef_type e = CLOSE_POSITION then (bindp (liftp (optional_float (field (ef_request e) ''quantity'') ''close quantity'')) (\<lambda>quantity.
     bindp (liftp (if field (ef_request e) ''side'' = JNull then Inr None
         else rbind (order_side_of_text (py_str (field (ef_request e) ''side''))) (\<lambda>s. Inr (Some s)))) (\<lambda>side.
     bindp (recover_prepared_close J e quantity side) (\<lambda>_.
     Ret ()))))
     else Fail (recovery_error (effect_text (ef_type e) @ '' cannot be reconciled automatically'')))"

fun recover_effects :: "journal_config \<Rightarrow> effect_row list \<Rightarrow> ('s, string list) j_prog" where
  "recover_effects J [] = Ret []"
| "recover_effects J (e # es) = (bindp ((if ef_status e = EFF_FAILED
        then Ret [ef_key e @ '': FAILED: '' @ (case ef_error e of None \<Rightarrow> ''unknown error''
             | Some m \<Rightarrow> if m = [] then ''unknown error'' else m)]
        else (bindp (attempt (recover_journal_effect J e)) (\<lambda>r.
     Ret (case r of Inr _ \<Rightarrow> []
             | Inl x \<Rightarrow> if exn_kind x = OtherError ''ProtectionNoLongerRequired'' then [] else [ef_key e @ '': '' @ describe x]))))) (\<lambda>b.
     bindp (recover_effects J es) (\<lambda>bs.
     Ret (b @ bs))))"

definition recover_pending :: "journal_config \<Rightarrow> ('s, string list) j_prog" where
  "recover_pending J = (bindp (journal_pending (jc_name J)) (\<lambda>es.
     recover_effects J es))"

end
