(* ===== verification/Exec_Rules.thy ===== *)
theory Exec_Rules
  imports Paper_Guards Exec_Journal
begin

text \<open>
  The guards of the execution core, and the rules for its requests: what must directly precede a mutation
  that the journaled adapter sends, and a confirmation or reconciliation that it writes; and what the
  engine must have seen before it places, protects or closes.
\<close>

section \<open>Rules for the requests\<close>

lemma does_read_state [does_rules]: "(\<And>a. P a t) \<Longrightarrow> does G (read_state f) t P"
  by (simp add: read_state_def does_def)

lemma does_write_state [does_rules]: "P () t \<Longrightarrow> does G (write_state f) t P"
  by (simp add: write_state_def does_def)

lemma does_call:
  "G t q \<Longrightarrow> (\<And>x. R x (t @ [(q, Inr (Va_Report x))])) \<Longrightarrow> does G (call_report q) t R"
  "G t q \<Longrightarrow> (\<And>x. B x (t @ [(q, Inr (Va_Flag x))])) \<Longrightarrow> does G (call_flag q) t B"
  "G t q \<Longrightarrow> U () (t @ [(q, Inr Va_Done)]) \<Longrightarrow> does G (call_done q) t U"
  "G t q \<Longrightarrow> (\<And>x. S x (t @ [(q, Inr (Va_Stop x))])) \<Longrightarrow> does G (call_stop q) t S"
  by (auto simp: call_report_def call_flag_def call_done_def call_stop_def intro!: does_await split: venue_answer.splits)

lemma does_journal:
  "G t q \<Longrightarrow> U () (t @ [(q, Inr Journal_Done)]) \<Longrightarrow> does G (ask_journal q) t U"
  "G t (Journal_Prepare s) \<Longrightarrow> (\<And>p. P p (t @ [(Journal_Prepare s, Inr (Journal_Prepared p))])) \<Longrightarrow>
     does G (journal_prepare s) t P"
  "G t (Journal_Pending ex) \<Longrightarrow> (\<And>es. E es (t @ [(Journal_Pending ex, Inr (Journal_Effects es))])) \<Longrightarrow>
     does G (journal_pending ex) t E"
  by (auto simp: ask_journal_def journal_prepare_def journal_pending_def intro!: does_await split: j_response.splits)

lemma does_venue:
  "G t (Venue q) \<Longrightarrow> (\<And>a. A a (t @ [(Venue q, Inr (Answered a))])) \<Longrightarrow> does G (venue q) t A"
  "G t (Venue q) \<Longrightarrow> (\<And>x. R x (t @ [(Venue q, Inr (Answered (Va_Report x)))])) \<Longrightarrow> does G (venue_report q) t R"
  "G t (Venue q) \<Longrightarrow> (\<And>x. B x (t @ [(Venue q, Inr (Answered (Va_Flag x)))])) \<Longrightarrow> does G (venue_flag q) t B"
  "G t (Venue q) \<Longrightarrow> U () (t @ [(Venue q, Inr (Answered Va_Done))]) \<Longrightarrow> does G (venue_done q) t U"
  "G t (Venue q) \<Longrightarrow> (\<And>x. S x (t @ [(Venue q, Inr (Answered (Va_Stop x)))])) \<Longrightarrow> does G (venue_stop q) t S"
  "G t (Venue q) \<Longrightarrow> (\<And>x. M x (t @ [(Venue q, Inr (Answered (Va_Maybe_Stop x)))])) \<Longrightarrow> does G (venue_maybe_stop q) t M"
  by (auto simp: venue_def venue_report_def venue_flag_def venue_done_def venue_stop_def venue_maybe_stop_def
      intro!: does_await split: j_response.splits venue_answer.splits)

lemma keeps_under_recovery_lock:
  assumes "\<And>h. G h (Journal_Enter key)" "\<And>h. G h (Journal_Leave key)" "keeps G body"
  shows "keeps G (under_recovery_lock key body)"
  unfolding under_recovery_lock_def
  by (intro keepsI does_rules does_journal does_keeps [OF assms(3)] assms(1,2)) simp_all

text \<open>A program run against guarded handlers is guarded, whatever it calls.\<close>

lemma keeps_Ask: "(\<And>h. G h q) \<Longrightarrow> (\<And>r. keeps G (k r)) \<Longrightarrow> keeps G (Ask q k)"
  by (simp add: keeps_def does_def)

lemma keeps_state: "(\<And>s. keeps G (k s)) \<Longrightarrow> keeps G (Get k)" "keeps G p \<Longrightarrow> keeps G (Put s p)"
  by (simp_all add: keeps_def does_def)

lemma keeps_handled:
  assumes "\<And>q. keeps G (handler q)"
  shows "keeps G (handled handler p)"
proof (induction p)
  case (Ask q k)
  then have k: "keeps G (handled handler (k r))" for r by auto
  have "does G (attempt (handler q)) t (\<lambda>r t'. does G (handled handler (k r)) t' (\<lambda>_ _. True))" for t
    by (rule does_attempt, rule does_keeps [OF assms], rule keepsD [OF k], rule keepsD [OF k])
  then show ?case by (auto intro!: keepsI does_bindp)
next
  case (Get k)
  then show ?case by (auto intro!: keeps_state)
next
  case (Put s p)
  then show ?case by (auto intro!: keeps_state)
qed (simp_all add: keeps_def does_Ret does_Fail)

section \<open>The guard of the journaled adapter\<close>

type_synonym j_trace = "(j_request, j_response) trace"

text \<open>The history ends with these answers, the latest last.\<close>

definition recent :: "'a list \<Rightarrow> 'a list \<Rightarrow> bool" where
  "recent xs h \<longleftrightarrow> (\<exists>h0. h = h0 @ xs)"

fun trailing :: "'a list \<Rightarrow> 'a list \<Rightarrow> bool" where
  "trailing [] h = True"
| "trailing (x # xs) h \<longleftrightarrow> h \<noteq> [] \<and> last h = x \<and> trailing xs (butlast h)"

lemma recent_trailing: "recent xs h \<longleftrightarrow> trailing (rev xs) h"
proof (induction xs arbitrary: h rule: rev_induct)
  case (snoc x xs)
  have "recent (xs @ [x]) h \<longleftrightarrow> h \<noteq> [] \<and> last h = x \<and> recent xs (butlast h)"
    by (cases h rule: rev_cases) (auto simp: recent_def)
  then show ?case using snoc by simp
qed (simp add: recent_def)

definition answers :: "(venue_call \<times> venue_answer) list \<Rightarrow> j_trace" where
  "answers = map (\<lambda>(q, a). (Venue q, Inr (Answered a)))"

lemma answers_simps [simp]: "answers [] = []" "answers ((q, a) # as) = (Venue q, Inr (Answered a)) # answers as"
  by (simp_all add: answers_def)

text \<open>The row of a mutation: everything the journal must hold of it before it is sent.\<close>

fun call_row :: "journal_config \<Rightarrow> venue_call \<Rightarrow> journal_spec option" where
  "call_row J (Place_Order i) = (case oi_client_order_id i of None \<Rightarrow> None
     | Some cid \<Rightarrow> Some \<lparr> js_key = journal_key J PLACE_ORDER cid, js_type = PLACE_ORDER, js_exchange = jc_name J,
         js_symbol = oi_symbol i, js_client_order_id = Some cid, js_request = [(''intent'', jc_intent_payload J i)] \<rparr>)"
| "call_row J (Close_All symb quantity side cid) = Some \<lparr> js_key = journal_key J CLOSE_POSITION cid,
     js_type = CLOSE_POSITION, js_exchange = jc_name J, js_symbol = symb, js_client_order_id = Some cid,
     js_request = [(''symbol'', JStr symb), (''quantity'', json_of_float_option quantity),
       (''side'', json_of_side_option side), (''client_order_id'', JStr cid)] \<rparr>"
| "call_row J (Set_Stop symb price side parent) = Some \<lparr> js_key = journal_key J PROTECTIVE_STOP parent,
     js_type = PROTECTIVE_STOP, js_exchange = jc_name J, js_symbol = symb, js_client_order_id = Some parent,
     js_request = [(''symbol'', JStr symb), (''stop_price_hex'', JStr (float_hex price)),
       (''position_side'', JStr (side_value side)), (''parent_order_id'', JStr parent)] \<rparr>"
| "call_row J (Cancel_By_Id symb cid) = Some \<lparr> js_key = journal_key J CANCEL_ORDER cid, js_type = CANCEL_ORDER,
     js_exchange = jc_name J, js_symbol = symb, js_client_order_id = Some cid,
     js_request = [(''symbol'', JStr symb), (''client_order_id'', JStr cid)] \<rparr>"
| "call_row J (Set_Leverage symb leverage) = Some \<lparr> js_key = journal_key J SET_LEVERAGE (symb @ '':'' @ float_hex leverage),
     js_type = SET_LEVERAGE, js_exchange = jc_name J, js_symbol = symb, js_client_order_id = None,
     js_request = [(''symbol'', JStr symb), (''leverage_hex'', JStr (float_hex leverage))] \<rparr>"
| "call_row J _ = None"

text \<open>The mutation that the request of a durable effect stands for.\<close>

fun effect_call :: "journal_config \<Rightarrow> effect_row \<Rightarrow> venue_call \<Rightarrow> bool" where
  "effect_call J e (Place_Order i) \<longleftrightarrow> ef_type e = PLACE_ORDER \<and> (\<exists>v. map_of (ef_request e) ''intent'' = Some v \<and> jc_intent_of J v = Inr i)"
| "effect_call J e (Close_All symb quantity side cid) \<longleftrightarrow> ef_type e = CLOSE_POSITION
     \<and> optional_float (field (ef_request e) ''quantity'') ''close quantity'' = Inr quantity
     \<and> (case side of None \<Rightarrow> field (ef_request e) ''side'' = JNull
          | Some s \<Rightarrow> order_side_of_text (py_str (field (ef_request e) ''side'')) = Inr s)"
| "effect_call J e (Set_Stop symb price side parent) \<longleftrightarrow> ef_type e = PROTECTIVE_STOP
     \<and> (\<exists>v. map_of (ef_request e) ''stop_price_hex'' = Some v \<and> float_fromhex (py_str v) = Inr price)
     \<and> (\<exists>v. map_of (ef_request e) ''position_side'' = Some v \<and> order_side_of_text (py_str v) = Inr side)
     \<and> (\<exists>v. map_of (ef_request e) ''parent_order_id'' = Some v \<and> parent = py_str v)"
| "effect_call J e _ \<longleftrightarrow> False"

text \<open>A mutation that may or may not have been sent: its row was there before this call and has no answer, or
  the journal lists it as pending; and it did not fail.\<close>

definition unanswered :: "journal_config \<Rightarrow> j_trace \<Rightarrow> venue_call \<Rightarrow> effect_row \<Rightarrow> bool" where
  "unanswered J h q e \<longleftrightarrow> ef_status e \<noteq> EFF_FAILED
   \<and> ((\<exists>spec p. call_row J q = Some spec \<and> (Journal_Prepare spec, Inr (Journal_Prepared p)) \<in> set h
         \<and> \<not> pp_created p \<and> \<not> answered_effect (pp_effect p) \<and> e = pp_effect p)
      \<or> (\<exists>es. (Journal_Pending (jc_name J), Inr (Journal_Effects es)) \<in> set h \<and> e \<in> set es \<and> effect_call J e q))"

lemma unanswered_append: "unanswered J h q e \<Longrightarrow> unanswered J (h @ u) q e"
  unfolding unanswered_def by auto

text \<open>Since the recovery lock of an effect was taken, exactly these answers.\<close>

definition in_lock :: "string \<Rightarrow> (venue_call \<times> venue_answer) list \<Rightarrow> j_trace \<Rightarrow> bool" where
  "in_lock key as h \<longleftrightarrow> recent ((Journal_Enter key, Inr Journal_Done) # answers as) h"

text \<open>A cancellation under its row, which was created or is still open, and since then exactly these answers.\<close>

definition cancelling :: "journal_config \<Rightarrow> string \<Rightarrow> string \<Rightarrow> (venue_call \<times> venue_answer) list \<Rightarrow> j_trace \<Rightarrow> bool" where
  "cancelling J symb cid as h \<longleftrightarrow> (\<exists>spec p. call_row J (Cancel_By_Id symb cid) = Some spec
     \<and> (pp_created p \<or> \<not> answered_effect (pp_effect p) \<and> ef_status (pp_effect p) \<noteq> EFF_FAILED)
     \<and> recent ((Journal_Prepare spec, Inr (Journal_Prepared p)) # (Journal_Enter (js_key spec), Inr Journal_Done) # answers as) h)"

text \<open>When a mutation may be sent: directly after the journal created its row; or, for one that an earlier
  process left unanswered, when the venue shows under the lock that it is missing or still to be undone.\<close>

inductive may_send :: "journal_config \<Rightarrow> j_trace \<Rightarrow> venue_call \<Rightarrow> bool" for J h where
  first: "call_row J q = Some spec \<Longrightarrow> js_type spec \<noteq> CANCEL_ORDER \<Longrightarrow> pp_created p
    \<Longrightarrow> recent [(Journal_Prepare spec, Inr (Journal_Prepared p))] h \<Longrightarrow> may_send J h q"
| missing_stop: "unanswered J h (Set_Stop symb price side parent) e \<Longrightarrow> jc_stop_lookup_authoritative J
    \<Longrightarrow> in_lock (ef_key e) [(Find_Stop (ef_symbol e) price side parent, Va_Maybe_Stop None),
         (Position_Flat (ef_symbol e), Va_Flag False)] h
    \<Longrightarrow> may_send J h (Set_Stop (ef_symbol e) price side parent)"
| cancel: "cancelling J symb cid [(Order_Active symb cid, Va_Flag True)] h \<Longrightarrow> may_send J h (Cancel_By_Id symb cid)"
| left_entry: "unanswered J h (Place_Order i) e \<Longrightarrow> oi_client_order_id i = Some cid
    \<Longrightarrow> in_lock (ef_key e) [(Order_Active (oi_symbol i) cid, Va_Flag True)] h
    \<Longrightarrow> may_send J h (Cancel_By_Id (oi_symbol i) cid)"

text \<open>What a confirmation may record: the answer that directly follows the creation of the row, under that
  row; the recreation of a missing stop; a cancellation after which the order was seen inactive.\<close>

inductive may_confirm :: "journal_config \<Rightarrow> j_trace \<Rightarrow> string \<Rightarrow> json \<Rightarrow> obj \<Rightarrow> bool" for J h where
  placed: "call_row J (Place_Order i) = Some spec \<Longrightarrow> pp_created p \<Longrightarrow> js_client_order_id spec = Some cid
    \<Longrightarrow> recent [(Journal_Prepare spec, Inr (Journal_Prepared p)), (Venue (Place_Order i), Inr (Answered (Va_Report r)))] h
    \<Longrightarrow> may_confirm J h (ef_key (pp_effect p)) (effect_identity r cid) (jc_report_payload J r)"
| closed: "call_row J (Close_All symb quantity side cid) = Some spec \<Longrightarrow> pp_created p
    \<Longrightarrow> recent [(Journal_Prepare spec, Inr (Journal_Prepared p)),
         (Venue (Close_All symb quantity side cid), Inr (Answered (Va_Report r)))] h
    \<Longrightarrow> may_confirm J h (ef_key (pp_effect p)) (effect_identity r cid) (jc_report_payload J r)"
| stopped: "call_row J (Set_Stop symb price side parent) = Some spec \<Longrightarrow> pp_created p
    \<Longrightarrow> recent [(Journal_Prepare spec, Inr (Journal_Prepared p)),
         (Venue (Set_Stop symb price side parent), Inr (Answered (Va_Stop x)))] h
    \<Longrightarrow> key = js_key spec \<Longrightarrow> may_confirm J h key (JStr x) [(''exchange_order_id'', JStr x)]"
| levered: "call_row J (Set_Leverage symb leverage) = Some spec \<Longrightarrow> pp_created p
    \<Longrightarrow> recent [(Journal_Prepare spec, Inr (Journal_Prepared p)), (Venue (Set_Leverage symb leverage), Inr (Answered Va_Done))] h
    \<Longrightarrow> key = js_key spec \<Longrightarrow> may_confirm J h key (JStr symb) [(''leverage_hex'', JStr (float_hex leverage))]"
| stop_restored: "unanswered J h (Set_Stop symb price side parent) e
    \<Longrightarrow> in_lock (ef_key e) [(Find_Stop (ef_symbol e) price side parent, Va_Maybe_Stop None),
         (Position_Flat (ef_symbol e), Va_Flag False), (Set_Stop (ef_symbol e) price side parent, Va_Stop x)] h
    \<Longrightarrow> may_confirm J h (ef_key e) (JStr x) [(''exchange_order_id'', JStr x)]"
| cancelled: "cancelling J symb cid [(Order_Active symb cid, Va_Flag True), (Cancel_By_Id symb cid, Va_Done),
         (Order_Active symb cid, Va_Flag False)] h
    \<Longrightarrow> may_confirm J h (journal_key J CANCEL_ORDER cid) (JStr cid) [(''active'', JBool False)]"

text \<open>What a reconciliation may record of an unanswered mutation: an entry seen inactive and the position flat;
  a close whose position is flat; a stop that was found, or that a flat position no longer needs; an order
  to cancel that is inactive already.\<close>

inductive may_reconcile :: "journal_config \<Rightarrow> j_trace \<Rightarrow> string \<Rightarrow> string option \<Rightarrow> obj option \<Rightarrow> bool" for J h where
  entry: "unanswered J h (Place_Order i) e \<Longrightarrow> oi_client_order_id i = Some cid
    \<Longrightarrow> as = [] \<or> as = [(Order_Active (oi_symbol i) cid, Va_Flag True), (Cancel_By_Id (oi_symbol i) cid, Va_Done)]
    \<Longrightarrow> in_lock (ef_key e) (as @ [(Order_Active (oi_symbol i) cid, Va_Flag False), (Position_Flat (oi_symbol i), Va_Flag True)]) h
    \<Longrightarrow> neutral_report J i ''prepared entry reconciled inactive and flat'' = Inr r
    \<Longrightarrow> may_reconcile J h (ef_key e) (Some cid) (Some (jc_report_payload J r))"
| close: "unanswered J h (Close_All symb quantity side cid) e
    \<Longrightarrow> in_lock (ef_key e) [(Position_Flat (ef_symbol e), Va_Flag True)] h
    \<Longrightarrow> jc_new_report J a = Inr r \<Longrightarrow> ra_status a = ORDER_CANCELED \<Longrightarrow> ra_symbol a = ef_symbol e
    \<Longrightarrow> ra_exchange_order_id a = ef_client_order_id e \<Longrightarrow> ra_filled_qty a = None \<Longrightarrow> ra_remaining_qty a = fzero
    \<Longrightarrow> may_reconcile J h (ef_key e) (ef_client_order_id e) (Some (jc_report_payload J r))"
| stop_found: "unanswered J h (Set_Stop symb price side parent) e \<Longrightarrow> jc_stop_lookup_authoritative J
    \<Longrightarrow> in_lock (ef_key e) [(Find_Stop (ef_symbol e) price side parent, Va_Maybe_Stop (Some x))] h
    \<Longrightarrow> may_reconcile J h (ef_key e) (Some x) (Some [(''exchange_order_id'', JStr x)])"
| stop_not_needed: "unanswered J h (Set_Stop symb price side parent) e
    \<Longrightarrow> as = (if jc_stop_lookup_authoritative J
         then [(Find_Stop (ef_symbol e) price side parent, Va_Maybe_Stop None)] else [])
    \<Longrightarrow> in_lock (ef_key e) (as @ [(Position_Flat (ef_symbol e), Va_Flag True)]) h
    \<Longrightarrow> may_reconcile J h (ef_key e) None
         (Some [(''position_flat'', JBool True), (''protective_stop_required'', JBool False)])"
| cancelled: "cancelling J symb cid [(Order_Active symb cid, Va_Flag False)] h
    \<Longrightarrow> may_reconcile J h (journal_key J CANCEL_ORDER cid) (Some cid) (Some [(''active'', JBool False)])"

fun journal_guard_of :: "journal_config \<Rightarrow> j_trace \<Rightarrow> j_request \<Rightarrow> bool" where
  "journal_guard_of J h (Venue q) \<longleftrightarrow> call_row J q = None \<and> \<not> (\<exists>i. q = Place_Order i) \<or> may_send J h q"
| "journal_guard_of J h (Journal_Prepare spec) \<longleftrightarrow> (\<exists>q. call_row J q = Some spec)"
| "journal_guard_of J h (Journal_Confirm key xid payload) \<longleftrightarrow> may_confirm J h key xid payload"
| "journal_guard_of J h (Journal_Reconcile key xid payload) \<longleftrightarrow> may_reconcile J h key xid payload"
| "journal_guard_of J h _ \<longleftrightarrow> True"

lemma trusted_client_idD: "trusted_client_id v op = Inr c \<Longrightarrow> v = Some c"
  by (auto simp: trusted_client_id_def split: option.splits if_splits)

section \<open>The journaled adapter respects its guard\<close>

named_theorems journal_keeps \<open>the operations of the journaled adapter keep its guard\<close>

lemma does_under_recovery_lock:
  "does (journal_guard_of J) body (t @ [(Journal_Enter key, Inr Journal_Done)]) (\<lambda>_ _. True)
    \<Longrightarrow> does (journal_guard_of J) (under_recovery_lock key body) t (\<lambda>_ _. True)"
  unfolding under_recovery_lock_def
  by (intro does_rules does_journal; (simp; fail)?) (erule does_conseq; intro does_rules does_journal; simp)

lemmas journal_steps = does_rules does_under_recovery_lock does_venue does_journal

lemmas ends = in_lock_def cancelling_def recent_trailing butlast_append ensure_ok_iff unanswered_append

lemmas journal_rules = may_confirm.intros may_reconcile.intros may_send.intros

lemma does_recover_prepared_place:
  assumes "ef_status e \<noteq> EFF_FAILED \<Longrightarrow> unanswered J t (Place_Order i) e"
  shows "does (journal_guard_of J) (recover_prepared_place J e i) t (\<lambda>_ _. True)"
proof -
  have *: "unanswered J (t @ u) (Place_Order i) e" if "ef_status e \<noteq> EFF_FAILED" for u
    using assms [OF that] by (rule unanswered_append)
  show ?thesis
    unfolding recover_prepared_place_def
    by (intro journal_steps)
      (auto simp: ends dest!: trusted_client_idD intro!: may_send.left_entry [OF *]
        intro: may_reconcile.entry [OF * _ disjI1 [OF refl]] may_reconcile.entry [OF * _ disjI2 [OF refl]])
qed

lemma does_recover_prepared_close:
  assumes "ef_status e \<noteq> EFF_FAILED \<Longrightarrow> unanswered J t (Close_All symb quantity side cid) e"
  shows "does (journal_guard_of J) (recover_prepared_close J e quantity side) t (\<lambda>_ _. True)"
proof -
  have *: "unanswered J (t @ u) (Close_All symb quantity side cid) e" if "ef_status e \<noteq> EFF_FAILED" for u
    using assms [OF that] by (rule unanswered_append)
  show ?thesis
    unfolding recover_prepared_close_def
    by (intro journal_steps) (auto simp: ends intro!: may_reconcile.close [OF *])
qed

lemma does_recover_prepared_stop:
  assumes "unanswered J t (Set_Stop symb price side parent) e"
  shows "does (journal_guard_of J) (recover_prepared_stop J e price side parent) t (\<lambda>_ _. True)"
proof -
  have *: "unanswered J (t @ u) (Set_Stop symb price side parent) e" for u using assms by (rule unanswered_append)
  show ?thesis
    unfolding recover_prepared_stop_def stop_not_required_def
    by (intro journal_steps) (auto simp: ends intro!: may_reconcile.stop_found [OF *]
        may_reconcile.stop_not_needed [OF *] may_send.missing_stop [OF *] may_confirm.stop_restored [OF *])
qed

lemma unanswered_prepared:
  "call_row J q = Some spec \<Longrightarrow> \<not> pp_created p \<Longrightarrow> \<not> answered_effect (pp_effect p) \<Longrightarrow> ef_status (pp_effect p) \<noteq> EFF_FAILED
    \<Longrightarrow> unanswered J (h @ [(Journal_Prepare spec, Inr (Journal_Prepared p))]) q (pp_effect p)"
  unfolding unanswered_def by auto

lemma cached_report_None: "cached_report J e = Inr None \<Longrightarrow> \<not> answered_effect e"
  by (auto simp: cached_report_def rbind_eq_Inr split: if_splits option.splits)

lemma keeps_journal_place [journal_keeps]: "keeps (journal_guard_of J) (journal_place J i)"
  unfolding journal_place_def
  by (intro keepsI journal_steps does_recover_prepared_place unanswered_prepared)
    (auto simp: ends dest!: trusted_client_idD cached_report_None intro!: may_send.first may_confirm.placed
      exI [where x = "Place_Order i"])

lemma keeps_journal_close [journal_keeps]: "keeps (journal_guard_of J) (journal_close J symb quantity side xid)"
  unfolding journal_close_def
  by (intro keepsI journal_steps does_recover_prepared_close unanswered_prepared)
    (auto simp: ends dest!: trusted_client_idD cached_report_None intro!: may_send.first may_confirm.closed
      exI [where x = "Close_All symb quantity side _"])

lemma keeps_journal_stop [journal_keeps]: "keeps (journal_guard_of J) (journal_stop J symb price side parent)"
  unfolding journal_stop_def
  by (intro keepsI journal_steps does_recover_prepared_stop unanswered_prepared)
    (auto simp: ends intro!: may_send.first may_confirm.stopped exI [where x = "Set_Stop symb price side parent"])

lemma keeps_journal_cancel [journal_keeps]: "keeps (journal_guard_of J) (journal_cancel J symb cid)"
  unfolding journal_cancel_def
  by (intro keepsI journal_steps)
    (auto simp: ends intro!: may_send.cancel may_confirm.cancelled may_reconcile.cancelled
      exI [where x = "Cancel_By_Id symb cid"])

lemma keeps_journal_leverage [journal_keeps]: "keeps (journal_guard_of J) (journal_leverage J symb leverage)"
  unfolding journal_leverage_def
  by (intro keepsI journal_steps)
    (auto simp: ends intro!: may_send.first may_confirm.levered exI [where x = "Set_Leverage symb leverage"])

lemma keeps_journaled [journal_keeps]: "keeps (journal_guard_of J) (journaled J q)"
  unfolding journaled_def
  by (cases q) (auto intro!: keepsI journal_steps does_keeps [OF keeps_journal_place] does_keeps [OF keeps_journal_close]
      does_keeps [OF keeps_journal_stop] does_keeps [OF keeps_journal_cancel] does_keeps [OF keeps_journal_leverage])

text \<open>At startup: what the journal lists as pending is known as unanswered.\<close>

lemma unanswered_pending:
  "(Journal_Pending (jc_name J), Inr (Journal_Effects es)) \<in> set t \<Longrightarrow> e \<in> set es \<Longrightarrow> ef_status e \<noteq> EFF_FAILED
    \<Longrightarrow> effect_call J e q \<Longrightarrow> unanswered J t q e"
  unfolding unanswered_def by auto

lemma itemD: "item d k = Inr v \<Longrightarrow> map_of d k = Some v"
  by (auto simp: item_def split: option.splits)

lemma does_recover_journal_effect:
  assumes "(Journal_Pending (jc_name J), Inr (Journal_Effects es)) \<in> set t" "e \<in> set es" "ef_status e \<noteq> EFF_FAILED"
  shows "does (journal_guard_of J) (recover_journal_effect J e) t (\<lambda>_ _. True)"
  unfolding recover_journal_effect_def
  by (intro does_rules does_keeps [OF keeps_journal_cancel] does_conseq [OF does_recover_prepared_place]
      does_conseq [OF does_recover_prepared_close [where symb = "ef_symbol e" and cid = "[]"]]
      does_conseq [OF does_recover_prepared_stop [where symb = "ef_symbol e"]] unanswered_pending [OF assms] TrueI)
    (auto elim!: rbind_InrE dest!: itemD split: option.splits if_splits)

lemma does_recover_effects:
  assumes "(Journal_Pending (jc_name J), Inr (Journal_Effects es)) \<in> set t" "set xs \<subseteq> set es"
  shows "does (journal_guard_of J) (recover_effects J xs :: ('s, string list) j_prog) t (\<lambda>_ _. True)"
  using assms
proof (induction xs arbitrary: t)
  case (Cons e xs)
  have rec: "does (journal_guard_of J) (recover_effects J xs :: ('s, string list) j_prog) (t @ u) (\<lambda>_ _. True)" for u
    by (rule Cons.IH) (use Cons.prems in auto)
  have one: "does (journal_guard_of J) (recover_journal_effect J e :: ('s, unit) j_prog) t (\<lambda>_ _. True)" if "ef_status e \<noteq> EFF_FAILED"
    by (rule does_recover_journal_effect [OF Cons.prems(1) _ that]) (use Cons.prems(2) in simp)
  have now: "does (journal_guard_of J) (recover_effects J xs :: ('s, string list) j_prog) t (\<lambda>_ _. True)"
    using rec [of "[]"] by simp
  show ?case
    unfolding recover_effects.simps
    by (intro does_bindp does_if does_Ret does_attempt does_conseq [OF does_extends [OF one]])
      (auto intro: does_conseq [OF rec] does_conseq [OF now] does_Ret)
qed (simp add: does_Ret)

lemma keeps_recover_pending [journal_keeps]: "keeps (journal_guard_of J) (recover_pending J)"
  unfolding recover_pending_def
  by (auto intro!: keepsI does_rules does_journal does_recover_effects)

end
