(* ===== verification/Exec_Lifecycle.thy ===== *)
theory Exec_Lifecycle
  imports Exec_Rules
begin

text \<open>
  The execution core against its guard: when it may place, protect, cancel and close, and what its
  histories look like when an order was handled.
\<close>

section \<open>The guard of the engine\<close>

type_synonym x_trace = "(venue_call, venue_answer) trace"

text \<open>The intent that is placed: the order's, under the derived identifier and the side of its reason.\<close>

definition placed_intent :: "exec_config \<Rightarrow> validated_order \<Rightarrow> order_intent \<Rightarrow> bool" where
  "placed_intent C order i \<longleftrightarrow> (\<exists>cid. exchange_client_id C order = Inr cid \<and>
     i = (vo_intent order) \<lparr> oi_client_order_id := Some cid,
        oi_side := (case snd (action_for (vo_reason_code order)) of None \<Rightarrow> oi_side (vo_intent order) | Some s \<Rightarrow> s) \<rparr>)"

definition admitted :: "exec_config \<Rightarrow> validated_order \<Rightarrow> action \<Rightarrow> bool" where
  "admitted C order act \<longleftrightarrow> vo_approved order \<and> fst (action_for (vo_reason_code order)) = act
     \<and> py_upper (oi_symbol (vo_intent order)) \<in> set (map py_upper (xc_allowed_symbols C))"

text \<open>A stop that protects the entry of a report: its price follows from the entry price on the losing side.\<close>

definition protective :: "exec_config \<Rightarrow> order_intent \<Rightarrow> exec_report \<Rightarrow> string \<Rightarrow> f64 \<Rightarrow> venue_side \<Rightarrow> string \<Rightarrow> bool" where
  "protective C i r symb price side cid \<longleftrightarrow> oi_client_order_id i = Some cid \<and> execution_ack_error C r i cid = None
     \<and> symb = oi_symbol i \<and> side = oi_side i \<and> isfinite price \<and> flt fzero price
     \<and> (\<exists>ts. stop_price ts = Inr price \<and> ts_side ts = side \<and> ts_anchor ts = protection_price r i
          \<and> isfinite (ts_trail_pct ts) \<and> flt fzero (ts_trail_pct ts) \<and> flt (ts_trail_pct ts) fone)"

fun exec_guard :: "exec_config \<Rightarrow> validated_order \<Rightarrow> x_trace \<Rightarrow> venue_call \<Rightarrow> bool" where
  "exec_guard C order h (Place_Order i) \<longleftrightarrow> h = [] \<and> admitted C order OPEN \<and> placed_intent C order i"
| "exec_guard C order h (Set_Stop symb price side cid) \<longleftrightarrow>
     (\<exists>i r. h = [(Place_Order i, Inr (Va_Report r))] \<and> protective C i r symb price side cid)"
| "exec_guard C order h (Close_All symb quantity side cid) \<longleftrightarrow>
     (\<exists>h0. h = h0 @ [(Position_Flat symb, Inr (Va_Flag False)), (Order_Active symb cid, Inr (Va_Flag False))])"
| "exec_guard C order h (Cancel_By_Id symb cid) \<longleftrightarrow>
     (\<exists>i x u. h = (Place_Order i, x) # u \<and> oi_client_order_id i = Some cid)
     \<or> (h \<noteq> [] \<and> last h = (Order_Active symb cid, Inr (Va_Flag True)))"
| "exec_guard C order h (Set_Leverage symb leverage) \<longleftrightarrow> h = [] \<and> admitted C order REDUCE"
| "exec_guard C order h _ = True"

text \<open>The venue reported the position flat, and since then orders were only looked up and cancelled.\<close>

fun cleanup :: "venue_call \<Rightarrow> bool" where
  "cleanup (Order_Active _ _) = True"
| "cleanup (Cancel_By_Id _ _) = True"
| "cleanup _ = False"

definition ends_flat :: "string \<Rightarrow> x_trace \<Rightarrow> bool" where
  "ends_flat symb h \<longleftrightarrow> (case dropWhile (\<lambda>x. cleanup (fst x)) (rev h) of
       [] \<Rightarrow> False | x # _ \<Rightarrow> x = (Position_Flat symb, Inr (Va_Flag True)))"

lemma ends_flat_cleanup:
  assumes "ends_flat symb h" "all_asks cleanup u"
  shows "ends_flat symb (h @ u)"
proof -
  have "dropWhile (\<lambda>x. cleanup (fst x)) (rev (h @ u)) = dropWhile (\<lambda>x. cleanup (fst x)) (rev h)"
    using assms(2) by (simp add: dropWhile_append all_asks_def)
  with assms(1) show ?thesis by (simp add: ends_flat_def)
qed

lemma ends_flat_now [simp]: "ends_flat symb (h @ [(Position_Flat symb, Inr (Va_Flag True))])"
  "ends_flat symb [(Position_Flat symb, Inr (Va_Flag True))]"
  by (simp_all add: ends_flat_def)

text \<open>What an entry ends in: nothing was filled; or its stop is armed; or the venue is flat, and the entry
  order itself was seen inactive unless a valid acknowledgement already said that it cannot fill any more.\<close>

definition not_filled :: "exec_config \<Rightarrow> order_intent \<Rightarrow> exec_report \<Rightarrow> x_trace \<Rightarrow> bool" where
  "not_filled C i r h \<longleftrightarrow> (\<exists>cid. oi_client_order_id i = Some cid \<and> h = [(Place_Order i, Inr (Va_Report r))]
     \<and> execution_ack_error C r i cid = None
     \<and> (rp_status r = Status ORDER_REJECTED \<and> \<not> flt fzero (number_of (rp_filled_qty r))
        \<or> rp_status r = Status ORDER_CANCELED \<and> feq (number_of (rp_filled_qty r)) fzero))"

definition stop_armed :: "exec_config \<Rightarrow> order_intent \<Rightarrow> exec_report \<Rightarrow> x_trace \<Rightarrow> bool" where
  "stop_armed C i r h \<longleftrightarrow> (\<exists>price cid xid. protective C i r (oi_symbol i) price (oi_side i) cid
     \<and> h = [(Place_Order i, Inr (Va_Report r)), (Set_Stop (oi_symbol i) price (oi_side i) cid, Inr (Va_Stop xid))])"

definition neutralized :: "exec_config \<Rightarrow> order_intent \<Rightarrow> exec_report \<Rightarrow> x_trace \<Rightarrow> bool" where
  "neutralized C i r h \<longleftrightarrow> (\<exists>cid. oi_client_order_id i = Some cid \<and> ends_flat (oi_symbol i) h
     \<and> rp_status r = Status ORDER_CANCELED
     \<and> ((Order_Active (oi_symbol i) cid, Inr (Va_Flag False)) \<in> set h
        \<or> (\<exists>r0. (Place_Order i, Inr (Va_Report r0)) \<in> set h \<and> execution_ack_error C r0 i cid = None \<and> \<not> may_be_live r0)))"

definition entry_settled :: "exec_config \<Rightarrow> order_intent \<Rightarrow> exec_report \<Rightarrow> x_trace \<Rightarrow> bool" where
  "entry_settled C i r h \<longleftrightarrow> not_filled C i r h \<or> stop_armed C i r h \<or> neutralized C i r h"

section \<open>Closing\<close>

lemma does_flat_query:
  "(\<And>b. P b (t @ [(Position_Flat symb, Inr (Va_Flag b))])) \<Longrightarrow> does (exec_guard C order) (position_is_flat symb m) t P"
  "(\<And>b. P b (t @ [(Order_Active symb cid, Inr (Va_Flag b))])) \<Longrightarrow> does (exec_guard C order) (order_is_active symb cid m) t P"
  unfolding position_is_flat_def order_is_active_def by (intro does_rules does_call; simp)+

lemma does_attempt_report:
  assumes "exec_guard C order t q" "\<And>x. P (Inr x) (t @ [(q, Inr (Va_Report x))])" "\<And>e x. P (Inl e) (t @ [(q, x)])"
  shows "does (exec_guard C order) (attempt (call_report q)) t P"
  using assms unfolding attempt_def call_report_def await_def does_def
  by (auto split: sum.splits venue_answer.splits option.splits)

lemma does_cancel_if_active:
  assumes "\<And>u. all_asks cleanup u \<Longrightarrow> P () (t @ u)"
  shows "does (exec_guard C order) (cancel_if_active symb cid m) t P"
  unfolding cancel_if_active_def
  by (intro does_rules does_flat_query does_call) (auto intro!: assms)

text \<open>Once flat, the clean-up leaves the history flat.\<close>

lemma does_cancel_flat:
  assumes "ends_flat symb t" "\<And>u. ends_flat symb (t @ u) \<Longrightarrow> all_asks cleanup u \<Longrightarrow> P () (t @ u)"
  shows "does (exec_guard C order) (cancel_if_active symb' cid m) t P"
  by (rule does_cancel_if_active) (auto intro: assms(2) ends_flat_cleanup [OF assms(1)])

lemmas exec_steps = does_rules does_flat_query does_cancel_flat does_call

lemma does_resolve_ambiguous_close:
  "does (exec_guard C order) (resolve_ambiguous_close C i cid e) t (\<lambda>_. ends_flat (oi_symbol i))"
  unfolding resolve_ambiguous_close_def
  by (intro exec_steps) simp_all

lemma does_settled_close:
  "does (exec_guard C order) (settled_close C i cid r) t (\<lambda>_. ends_flat (oi_symbol i))"
  unfolding settled_close_def
  by (intro exec_steps) (auto simp: ensure_ok_iff)

lemma does_close_to_desired_state:
  "does (exec_guard C order) (close_to_desired_state C order) [] (\<lambda>_. ends_flat (oi_symbol (vo_intent order)))"
  unfolding close_to_desired_state_def Let_def
  by (intro exec_steps does_resolve_ambiguous_close does_settled_close) (auto simp: ensure_ok_iff)

section \<open>Compensation\<close>

text \<open>The history of an entry starts with its placement.\<close>

definition entry_history :: "order_intent \<Rightarrow> x_trace \<Rightarrow> bool" where
  "entry_history i h \<longleftrightarrow> (\<exists>x u. h = (Place_Order i, x) # u)"

lemma entry_history_append [simp]: "entry_history i h \<Longrightarrow> entry_history i (h @ u)"
  by (auto simp: entry_history_def)

lemma does_cancel_entry:
  assumes "entry_history i t" "oi_client_order_id i = Some cid"
    and "\<And>u. (Order_Active (oi_symbol i) cid, Inr (Va_Flag False)) \<in> set u \<Longrightarrow> P () (t @ u)"
  shows "does (exec_guard C order) (cancel_entry (oi_symbol i) cid m) t P"
proof -
  have "exec_guard C order t (Cancel_By_Id (oi_symbol i) cid)" using assms(1,2) by (auto simp: entry_history_def)
  note g = this
  show ?thesis unfolding cancel_entry_def by (intro exec_steps g) (auto simp: ensure_ok_iff intro!: assms(3))
qed

definition flat_report :: "order_intent \<Rightarrow> x_trace \<Rightarrow> exec_report \<Rightarrow> x_trace \<Rightarrow> bool" where
  "flat_report i h r t \<longleftrightarrow> ends_flat (oi_symbol i) t \<and> rp_status r = Status ORDER_CANCELED \<and> set h \<subseteq> set t"

lemma compensated_status [simp]: "rp_status (compensated_report C r i m) = Status ORDER_CANCELED"
  by (simp add: compensated_report_def)

lemma does_ambiguous_emergency:
  "set h \<subseteq> set t \<Longrightarrow> does (exec_guard C order) (ambiguous_emergency C r i m eid e) t (flat_report i h)"
  unfolding ambiguous_emergency_def flat_report_def
  by (intro exec_steps) auto

lemma does_settled_emergency:
  "set h \<subseteq> set t \<Longrightarrow> does (exec_guard C order) (settled_emergency C r i m eid cr) t (flat_report i h)"
  unfolding settled_emergency_def flat_report_def Let_def
  by (intro exec_steps) (auto simp: ensure_ok_iff)

lemma does_emergency_close_position:
  assumes "t = t0 @ [(Position_Flat (oi_symbol i), Inr (Va_Flag False))]" "set h \<subseteq> set t"
  shows "does (exec_guard C order) (emergency_close_position C order i r m) t (flat_report i h)"
  unfolding emergency_close_position_def
  by (intro exec_steps does_ambiguous_emergency does_settled_emergency) (use assms in \<open>auto simp: ensure_ok_iff\<close>)

lemma does_compensate_unprotected:
  assumes "entry_history i t"
  shows "does (exec_guard C order) (compensate_unprotected C order i r m cancel) t (\<lambda>rep t'. flat_report i t rep t'
     \<and> (cancel \<or> may_be_live r \<longrightarrow> (\<exists>cid. oi_client_order_id i = Some cid \<and> (Order_Active (oi_symbol i) cid, Inr (Va_Flag False)) \<in> set t')))"
proof -
  let ?inactive = "\<lambda>h. \<exists>cid. oi_client_order_id i = Some cid \<and> (Order_Active (oi_symbol i) cid, Inr (Va_Flag False)) \<in> set h"
  have close: "does (exec_guard C order)
      (bindp (catchp (call_flag (Position_Flat (oi_symbol i))) (\<lambda>e. Fail (exec_unsafe (m @ m' e)))) (\<lambda>b.
        if b then Ret (compensated_report C r i m) else emergency_close_position C order i r m)) h
      (\<lambda>rep t'. flat_report i t rep t' \<and> (cancel \<or> may_be_live r \<longrightarrow> ?inactive t'))"
    if "set t \<subseteq> set h" "cancel \<or> may_be_live r \<longrightarrow> ?inactive h" for h m'
  proof -
    have "set h \<subseteq> set (h @ [(Position_Flat (oi_symbol i), Inr (Va_Flag False))])" by auto
    from does_emergency_close_position [OF refl this]
    have "does (exec_guard C order) (emergency_close_position C order i r m)
        (h @ [(Position_Flat (oi_symbol i), Inr (Va_Flag False))])
        (\<lambda>rep t'. flat_report i t rep t' \<and> (cancel \<or> may_be_live r \<longrightarrow> ?inactive t'))"
      by (rule does_conseq) (use that in \<open>auto simp: flat_report_def\<close>)
    moreover have "flat_report i t (compensated_report C r i m) (h @ [(Position_Flat (oi_symbol i), Inr (Va_Flag True))])"
      using that(1) by (auto simp: flat_report_def)
    ultimately show ?thesis
      by (intro does_bindp does_catchp does_call does_Fail does_if does_Ret) (use that(2) in \<open>simp_all, blast?\<close>)
  qed
  show ?thesis
    unfolding compensate_unprotected_def
    by (rule does_bindp, rule does_write_state, rule does_bindp)
      (intro does_if does_option does_Fail does_Ret does_cancel_entry assms; (assumption | rule close | blast)?; auto)
qed

section \<open>Opening\<close>

lemma does_resolve_ambiguous_entry:
  "entry_history i t \<Longrightarrow> does (exec_guard C order) (resolve_ambiguous_entry C order i e) t P"
  unfolding resolve_ambiguous_entry_def
  by (intro does_rules does_conseq [OF does_compensate_unprotected]) auto

lemma manager_openD:
  "manager_open symb side entry trail m = Inr (m', ts) \<Longrightarrow> ts_side ts = side \<and> ts_anchor ts = entry
     \<and> isfinite (ts_trail_pct ts) \<and> flt fzero (ts_trail_pct ts) \<and> flt (ts_trail_pct ts) fone"
  by (auto simp: manager_open_def new_trailing_stop_def rbind_eq_Inr ensure_ok_iff fzero_def fone_def)

lemma finite_not_le: "isfinite x \<Longrightarrow> \<not> fle x fzero \<Longrightarrow> flt fzero x"
  by (cases x) (auto simp: fzero_def)

lemma does_arm_stop:
  assumes "t = [(Place_Order i, Inr (Va_Report r))]" "oi_client_order_id i = Some cid"
    "execution_ack_error C r i cid = None"
  shows "does (exec_guard C order) (arm_stop i cid (protection_price r i) trail) t (\<lambda>_. stop_armed C i r)"
proof -
  have protects: "protective C i r (oi_symbol i) price (oi_side i) cid"
    if "manager_open (oi_symbol i) (oi_side i) (protection_price r i) trail m = Inr (m', ts)" "stop_price ts = Inr price"
      "isfinite price" "\<not> fle price fzero" for m m' ts price
    using that manager_openD [OF that(1)] assms(2,3) finite_not_le unfolding protective_def by blast
  show ?thesis
    unfolding arm_stop_def open_trailing_def
    by (intro does_rules does_call)
      (auto simp: assms(1) ensure_ok_iff stop_armed_def dest: protects)
qed

lemma does_compensated:
  assumes "entry_history i t" "(Place_Order i, Inr (Va_Report r)) \<in> set t" "oi_client_order_id i = Some cid"
    and "execution_ack_error C r i cid = None \<or> cancel"
  shows "does (exec_guard C order) (compensate_unprotected C order i r m cancel) t (entry_settled C i)"
  by (rule does_conseq [OF does_compensate_unprotected [OF assms(1)]])
    (use assms(2-4) in \<open>auto simp: entry_settled_def neutralized_def flat_report_def\<close>)

lemma does_protect_entry:
  assumes "t = [(Place_Order i, Inr (Va_Report r))]" "oi_client_order_id i = Some cid"
    "execution_ack_error C r i cid = None"
  shows "does (exec_guard C order) (protect_entry C order i cid r (protection_price r i) trail) t (entry_settled C i)"
  unfolding protect_entry_def
proof (rule does_bindp, rule does_attempt)
  show "does (exec_guard C order) (arm_stop i cid (protection_price r i) trail) t (\<lambda>a t'.
      does (exec_guard C order) (case Inr a of Inl e \<Rightarrow> bindp (write_state (\<lambda>s. s \<lparr> xs_trailing := manager_close (oi_symbol i) (xs_trailing s) \<rparr>))
        (\<lambda>_. compensate_unprotected C order i r (''protective stop failed: '' @ exn_name (exn_kind e)) False) | Inr x \<Rightarrow> Ret r) t'
      (entry_settled C i))"
    by (rule does_conseq [OF does_arm_stop [OF assms]]) (auto intro!: does_Ret simp: entry_settled_def)
next
  fix e u
  show "does (exec_guard C order) (case Inl e of Inl e \<Rightarrow> bindp (write_state (\<lambda>s. s \<lparr> xs_trailing := manager_close (oi_symbol i) (xs_trailing s) \<rparr>))
        (\<lambda>_. compensate_unprotected C order i r (''protective stop failed: '' @ exn_name (exn_kind e)) False) | Inr x \<Rightarrow> Ret r) (t @ u)
      (entry_settled C i)"
    using assms by (auto intro!: does_bindp does_write_state does_compensated simp: entry_history_def)
qed

lemma does_settle_entry_report:
  assumes "t = [(Place_Order i, Inr (Va_Report r))]" "oi_client_order_id i = Some cid"
  shows "does (exec_guard C order) (settle_entry_report C order i cid r) t (entry_settled C i)"
proof (cases "execution_ack_error C r i cid")
  case (Some err)
  then show ?thesis
    unfolding settle_entry_report_def
    using assms by (auto intro!: does_compensated simp: entry_history_def)
next
  case None
  have c: "does (exec_guard C order) (compensate_unprotected C order i r m False) t (entry_settled C i)" for m
    using assms None by (intro does_compensated) (auto simp: entry_history_def)
  have r: "does (exec_guard C order) (Ret r) t (entry_settled C i)" if "not_filled C i r t"
    using that by (auto intro!: does_Ret simp: entry_settled_def)
  show ?thesis
    unfolding settle_entry_report_def None option.case Let_def
    by (intro does_if does_option does_bindp does_liftp c r does_protect_entry assms None)
      (use assms None in \<open>auto simp: not_filled_def\<close>)
qed

text \<open>Every request of an opening meets its guard, and the entry ends settled.\<close>

definition opened_safely :: "exec_config \<Rightarrow> exec_report \<Rightarrow> x_trace \<Rightarrow> bool" where
  "opened_safely C r h \<longleftrightarrow> (\<exists>i. entry_history i h \<and> entry_settled C i r h)"

lemma does_open_position:
  assumes "admitted C order OPEN" "side = snd (action_for (vo_reason_code order))"
  shows "does (exec_guard C order) (open_position C order side) [] (opened_safely C)"
proof -
  let ?i = "\<lambda>cid. (vo_intent order) \<lparr> oi_client_order_id := Some cid,
      oi_side := (case side of None \<Rightarrow> oi_side (vo_intent order) | Some s \<Rightarrow> s) \<rparr>"
  have settle: "does (exec_guard C order) (settle_entry_report C order (?i cid) cid r) [(Place_Order (?i cid), Inr (Va_Report r))]
      (opened_safely C)" for cid r
    by (rule does_conseq [OF does_extends [OF does_settle_entry_report [OF refl]]])
      (auto simp: opened_safely_def entry_history_def)
  have guard: "exec_guard C order [] (Place_Order (?i cid))" if "exchange_client_id C order = Inr cid" for cid
    using that assms by (simp add: placed_intent_def)
  have ambiguous: "does (exec_guard C order) (resolve_ambiguous_entry C order (?i cid) e) [(Place_Order (?i cid), x)]
      (opened_safely C)" for cid e x
    by (rule does_resolve_ambiguous_entry) (simp add: entry_history_def)
  show ?thesis
    unfolding open_position_def Let_def
    by (intro does_bindp does_liftp does_attempt_report guard) (simp_all only: sum.case append_Nil settle ambiguous)
qed

text \<open>What handling an order ends in.\<close>

definition handled_safely :: "exec_config \<Rightarrow> validated_order \<Rightarrow> exec_report option \<Rightarrow> x_trace \<Rightarrow> bool" where
  "handled_safely C order r h \<longleftrightarrow> h = []
     \<or> (admitted C order OPEN \<and> (\<exists>rep. r = Some rep \<and> opened_safely C rep h))
     \<or> (admitted C order CLOSE \<and> r \<noteq> None \<and> ends_flat (oi_symbol (vo_intent order)) h)
     \<or> (admitted C order REDUCE \<and> r = None
          \<and> (\<exists>leverage. h = [(Set_Leverage (oi_symbol (vo_intent order)) leverage, Inr Va_Done)]))"

lemma does_handle_order_once: "does (exec_guard C order) (handle_order_once C order) [] (handled_safely C order)"
proof -
  let ?P = "\<lambda>r t'. does (exec_guard C order) (Ret r :: exec_report option x_prog) t' (handled_safely C order)"
  have enter: "does (exec_guard C order) (open_position C order side) [] (\<lambda>r. ?P (Some r))"
    if "admitted C order OPEN" "side = snd (action_for (vo_reason_code order))" for side
    by (rule does_conseq [OF does_open_position [OF that]]) (use that in \<open>auto intro!: does_Ret simp: handled_safely_def\<close>)
  have leave: "does (exec_guard C order) (close_to_desired_state C order) [] (\<lambda>r. ?P (Some r))" if "admitted C order CLOSE"
    by (rule does_conseq [OF does_close_to_desired_state]) (use that in \<open>auto intro!: does_Ret simp: handled_safely_def\<close>)
  have reduce: "does (exec_guard C order) (call_done (Set_Leverage (oi_symbol (vo_intent order)) x)) [] (\<lambda>_. ?P None)"
    if "admitted C order REDUCE" for x
    by (intro does_call does_Ret) (use that in \<open>auto simp: handled_safely_def\<close>)
  have idle: "does (exec_guard C order) (Ret None) [] (handled_safely C order)"
    by (rule does_Ret) (simp add: handled_safely_def)
  obtain act side where a: "action_for (vo_reason_code order) = (act, side)" by fastforce
  show ?thesis
  proof (cases "admitted C order act")
    case True
    then show ?thesis
      unfolding handle_order_once_def a Let_def prod.case
      by (cases act) (auto intro!: does_bindp does_read_state does_checkp does_liftp idle enter leave reduce simp: a)
  next
    case False
    then have "py_upper (oi_symbol (vo_intent order)) \<notin> set (map py_upper (xc_allowed_symbols C)) \<or> \<not> vo_approved order"
      by (auto simp: admitted_def a)
    then show ?thesis unfolding handle_order_once_def by (simp only: if_True idle)
  qed
qed

lemma does_handle_order: "does (exec_guard C order) (handle_order C order) [] (handled_safely C order)"
  unfolding handle_order_def Let_def
  by (intro does_bindp does_read_state does_option does_prod does_checkp does_write_state does_Ret
      does_conseq [OF does_handle_order_once]) (auto simp: handled_safely_def)

end
