(* ===== verification/Exec_Theorems.thy ===== *)
theory Exec_Theorems
  imports Exec_Lifecycle
begin

text \<open>
  The properties of the execution core and of the journaled adapter under it. The adapter, the journal
  and their failures are the environment's, which chooses every answer from the whole history.
\<close>

section \<open>Handling an order\<close>

lemma checkp_one: "checkp [(c, e)] = (if c then Ret () else Fail e)"
  by (simp add: checkp_def ensure.simps)

lemma gated:
  assumes "fst (action_for (vo_reason_code order)) = OPEN" "xs_blockers s \<noteq> [] \<or> xs_mode s = LOCAL_QUANT_MODE"
  shows "fst (snd (run env (handle_order C order) s [])) = []"
proof -
  obtain side where a: "action_for (vo_reason_code order) = (OPEN, side)" using assms(1) by (metis prod.collapse)
  have "fst (snd (run env (handle_order_once C order) s [])) = []"
    using assms(2) by (simp add: handle_order_once_def a read_state_def checkp_one)
  moreover have "fst (snd (run env (handle_order C order) s [])) = fst (snd (run env (handle_order_once C order) s []))
      \<or> fst (snd (run env (handle_order C order) s [])) = []"
    by (auto simp: handle_order_def Let_def read_state_def write_state_def checkp_one run_bindp
        split: option.splits sum.splits prod.splits)
  ultimately show ?thesis by auto
qed

text \<open>A history with any request handled an entry only in a state without recovery blockers whose mode
  admits entries.\<close>

definition entry_permitted :: "exec_config \<Rightarrow> validated_order \<Rightarrow> exec_state \<Rightarrow> 'h list \<Rightarrow> bool" where
  "entry_permitted C order s h \<longleftrightarrow>
     (h \<noteq> [] \<and> admitted C order OPEN \<longrightarrow> xs_blockers s = [] \<and> xs_mode s \<noteq> LOCAL_QUANT_MODE)"

text \<open>C17: Whatever the venue answers, every request of an order's handling meets its guard: an entry is placed
  at most once and first, for an approved order of an allowed symbol while no recovery blocker is set and
  the mode permits it; a stop is sent only for a valid acknowledgement, on the losing side of its entry; a
  close only after the venue reported the position and no such order active. And when the handling
  returns, an entry was not filled, or its stop is armed, or the venue is flat with the entry inactive;
  and a close ended flat.\<close>

theorem orders_end_safely:
  "case run env (handle_order C order) s [] of (s', h, res) \<Rightarrow>
     guarded (exec_guard C order) h
   \<and> entry_permitted C order s h
   \<and> (case res of Inl e \<Rightarrow> True | Inr r \<Rightarrow> handled_safely C order r h)"
proof -
  obtain s' h res where run: "run env (handle_order C order) s [] = (s', h, res)" by (metis prod.collapse)
  have "guarded (exec_guard C order) h \<and> (\<forall>a. res = Inr a \<longrightarrow> handled_safely C order a h)"
    by (rule does_run [OF does_handle_order _ run]) simp
  moreover have "h = []" if "admitted C order OPEN" "xs_blockers s \<noteq> [] \<or> xs_mode s = LOCAL_QUANT_MODE"
    using gated [of order s env C] that run by (simp add: admitted_def)
  ultimately show ?thesis unfolding run by (cases res) (auto simp: entry_permitted_def)
qed

section \<open>Sessions over the journal\<close>

text \<open>What the service does with the engine over the journaled adapter.\<close>

datatype exec_op = Handle_Order validated_order | Recover_Journal | Set_Mode system_mode

fun run_exec :: "exec_config \<Rightarrow> journal_config \<Rightarrow> exec_op \<Rightarrow> (exec_state, unit) j_prog" where
  "run_exec C J (Handle_Order order) = bindp (handled (journaled J) (handle_order C order)) (\<lambda>_. Ret ())"
| "run_exec C J Recover_Journal = bindp (recover_pending J) (\<lambda>bs. write_state (set_recovery_blockers bs))"
| "run_exec C J (Set_Mode mode) = write_state (set_mode mode)"

definition exec_session :: "exec_config \<Rightarrow> journal_config \<Rightarrow> exec_op list \<Rightarrow> (exec_state, unit res list) j_prog" where
  "exec_session C J ops = mapp (\<lambda>x. attempt (run_exec C J x)) ops"

definition exec_trace ::
  "(j_trace \<Rightarrow> j_request \<Rightarrow> j_response res) \<Rightarrow> exec_config \<Rightarrow> journal_config \<Rightarrow> exec_op list \<Rightarrow> exec_state \<Rightarrow> j_trace" where
  "exec_trace env C J ops s = fst (snd (run env (exec_session C J ops) s []))"

lemma keeps_run_exec: "keeps (journal_guard_of J) (run_exec C J x)"
proof (cases x)
  case (Handle_Order order)
  then show ?thesis
    by (auto intro!: keepsI does_bindp does_Ret does_keeps [OF keeps_handled [OF keeps_journaled]])
next
  case Recover_Journal
  then show ?thesis
    by (auto intro!: keepsI does_bindp does_write_state does_keeps [OF keeps_recover_pending])
next
  case (Set_Mode mode)
  then show ?thesis by (auto intro!: keepsI does_write_state)
qed

lemma exec_session_guarded: "guarded (journal_guard_of J) (exec_trace env C J ops s)"
  unfolding exec_trace_def exec_session_def
  by (rule keeps_run) (auto intro!: keepsI keeps_mapp does_attempt does_keeps [OF keeps_run_exec])

text \<open>C18: In every session of the engine over the journaled adapter, restarts and recoveries included, and for
  every journal and venue: only the complete rows of mutations are prepared; an entry, a close, a leverage
  change and a stop are sent directly after the journal created their row; a stop also, and a cancellation
  only, in the other cases of \<open>may_send\<close>: under the recovery lock of an effect known to be unanswered and not
  failed, when the venue has just shown the stop missing on an open position, or the order still active. A
  confirmation records, under the key of that row and with the venue's identifier and payload, the answer
  that directly follows the row, or the recreation of the stop, or a cancellation after which the order was
  seen inactive. A reconciliation records, under the lock and key of an unanswered effect, nothing but what
  the venue answered since the lock was taken: an inactive entry and a flat position, a flat position after
  a close, the stop that was found or is no longer needed, or an order that is inactive already.\<close>

theorem journal_leads_execution: "guarded (journal_guard_of J) (exec_trace env C J ops s)"
  by (rule exec_session_guarded)

section \<open>Nothing is placed or closed twice\<close>

fun sent_key :: "journal_config \<Rightarrow> j_request \<times> j_response res \<Rightarrow> string list" where
  "sent_key J (Venue (Place_Order i), r) =
     (case oi_client_order_id i of None \<Rightarrow> [] | Some cid \<Rightarrow> [journal_key J PLACE_ORDER cid])"
| "sent_key J (Venue (Close_All symb quantity side cid), r) = [journal_key J CLOSE_POSITION cid]"
| "sent_key J (Venue (Set_Leverage symb leverage), r) = [journal_key J SET_LEVERAGE (symb @ '':'' @ float_hex leverage)]"
| "sent_key J _ = []"

fun created_key :: "j_request \<times> j_response res \<Rightarrow> string list" where
  "created_key (Journal_Prepare sp, Inr (Journal_Prepared p)) = (if pp_created p then [js_key sp] else [])"
| "created_key _ = []"

lemma sent_first:
  assumes "may_send J h q" "sent_key J (Venue q, r) = [key]"
  obtains spec p where "recent [(Journal_Prepare spec, Inr (Journal_Prepared p))] h" "pp_created p" "js_key spec = key"
  using assms
proof (induction rule: may_send.induct)
  case (first q spec p)
  have "js_key spec = key" using first.hyps(1) first.prems(2) by (cases q) (auto split: option.splits)
  then show ?case using first.hyps first.prems(1) by blast
qed simp_all

lemma sent_after_created:
  assumes "journal_guard_of J h (fst x)" "sent_key J x = [key]"
  obtains h0 c where "h = h0 @ [c]" "created_key c = [key]" "sent_key J c = []"
proof -
  obtain q r where x: "x = (Venue q, r)" using assms(2) by (cases "(J, x)" rule: sent_key.cases) auto
  then have "may_send J h q" using assms by (cases q) (auto split: option.splits)
  then obtain spec p where c: "recent [(Journal_Prepare spec, Inr (Journal_Prepared p))] h" "pp_created p" "js_key spec = key"
    using assms(2) x by (blast elim: sent_first)
  then show thesis
    using that [of _ "(Journal_Prepare spec, Inr (Journal_Prepared p))"] by (auto simp: recent_def)
qed

lemma sent_key_cases: "sent_key J x = [] \<or> (\<exists>key. sent_key J x = [key])"
  by (induction J x rule: sent_key.induct) (auto split: option.splits)

lemma sent_at_most_created:
  "guarded (journal_guard_of J) t \<Longrightarrow>
     count_list (concat (map (sent_key J) t)) key \<le> count_list (concat (map created_key t)) key"
proof (induction t rule: length_induct)
  case (1 t)
  show ?case
  proof (cases t rule: rev_cases)
    case (snoc h x)
    have h: "guarded (journal_guard_of J) h" "journal_guard_of J h (fst x)" using "1.prems" snoc by auto
    have IH: "count_list (concat (map (sent_key J) u)) key \<le> count_list (concat (map created_key u)) key"
      if "guarded (journal_guard_of J) u" "length u < length t" for u using "1.IH" that by blast
    show ?thesis
    proof (cases "sent_key J x = []")
      case True
      then show ?thesis using IH [OF h(1)] snoc by simp
    next
      case False
      then obtain k where k: "sent_key J x = [k]" using sent_key_cases [of J x] by blast
      then obtain h0 c where c: "h = h0 @ [c]" "created_key c = [k]" "sent_key J c = []"
        using sent_after_created [OF h(2)] by blast
      have "guarded (journal_guard_of J) h0" using h(1) c(1) by simp
      then show ?thesis using IH [of h0] snoc c k by simp
    qed
  qed simp
qed

text \<open>C19: Over all deliveries, redeliveries and recoveries of a session, an entry order, a close and a leverage
  change are sent to the venue at most as often as the journal created their row: with a journal that
  creates a row once, none is ever sent twice.\<close>

theorem orders_sent_at_most_once:
  "count_list (concat (map (sent_key J) (exec_trace env C J ops s))) key
     \<le> count_list (concat (map created_key (exec_trace env C J ops s))) key"
  by (rule sent_at_most_created [OF exec_session_guarded])

end
