(* ===== verification/Json_Parse.thy ===== *)
theory Json_Parse
  imports Py_Text
begin

text \<open>
  \<^verbatim>\<open>json.loads\<close> of the standard library: the scanner of strings and numbers, and the recursive descent
  over arrays and objects. The fuel is the length of the text, which bounds the depth. The pairs of an
  object go through the \<^verbatim>\<open>object_pairs_hook\<close>, which may reject them. Escapes of characters above one
  byte are outside the character type and count as malformed. What \<^verbatim>\<open>json.dumps\<close> writes reads back.
\<close>

section \<open>Strings\<close>

fun simple_escape :: "char \<Rightarrow> char option" where
  "simple_escape e = map_of [(CHR ''\"'', CHR ''\"''), (CHR 0x5C, CHR 0x5C), (CHR ''/'', CHR ''/''),
     (CHR ''b'', CHR 0x08), (CHR ''f'', CHR 0x0C), (CHR ''n'', CHR 0x0A), (CHR ''r'', CHR 0x0D), (CHR ''t'', CHR 0x09)] e"

definition unicode_escape :: "string \<Rightarrow> (char \<times> string) option" where
  "unicode_escape r = (let h = take 4 r; v = base_nat 16 h
     in if length h = 4 \<and> list_all is_hex h \<and> v < 256 then Some (char_of v, drop 4 r) else None)"

fun scan_string :: "nat \<Rightarrow> string \<Rightarrow> (string \<times> string) option" where
  "scan_string 0 s = None"
| "scan_string (Suc n) [] = None"
| "scan_string (Suc n) (c # cs) =
     (let more = (\<lambda>d r. map_option (\<lambda>(t, rest). (d # t, rest)) (scan_string n r)) in
      if c = CHR ''\"'' then Some ([], cs)
      else if c = CHR 0x5C then
        (case cs of [] \<Rightarrow> None
         | e # r \<Rightarrow> if e = CHR ''u'' then (case unicode_escape r of None \<Rightarrow> None | Some (d, r') \<Rightarrow> more d r')
                    else (case simple_escape e of None \<Rightarrow> None | Some d \<Rightarrow> more d r))
      else if (of_char c :: nat) < 32 then None
      else more c cs)"

section \<open>Numbers\<close>

definition digit_run :: "string \<Rightarrow> string \<times> string" where
  "digit_run s = (takeWhile is_digit s, dropWhile is_digit s)"

text \<open>\<^verbatim>\<open>-?(?:0|[1-9][0-9]*)\<close>, then \<^verbatim>\<open>(\.[0-9]+)?\<close> and \<^verbatim>\<open>([eE][-+]?[0-9]+)?\<close>.\<close>

definition scan_integer :: "string \<Rightarrow> (string \<times> string) option" where
  "scan_integer s =
     (let (sign, r) = (if take 1 s = ''-'' then (''-'', drop 1 s) else ([], s)); (ds, rest) = digit_run r
      in if ds = [] then None
         else if hd ds = CHR ''0'' then Some (sign @ ''0'', drop 1 r)
         else Some (sign @ ds, rest))"

definition scan_fraction :: "string \<Rightarrow> string \<times> string" where
  "scan_fraction s = (let (ds, rest) = digit_run (drop 1 s)
     in if take 1 s = ''.'' \<and> ds \<noteq> [] then (CHR ''.'' # ds, rest) else ([], s))"

definition scan_exponent :: "string \<Rightarrow> string \<times> string" where
  "scan_exponent s =
     (let r = drop 1 s; sign = (if take 1 r \<in> {''-'', ''+''} then take 1 r else []); (ds, rest) = digit_run (drop (length sign) r)
      in if take 1 s \<in> {''e'', ''E''} \<and> ds \<noteq> [] then (take 1 s @ sign @ ds, rest) else ([], s))"

definition int_of_text :: "string \<Rightarrow> int" where
  "int_of_text s = (if take 1 s = ''-'' then - int (digits_nat (drop 1 s)) else int (digits_nat s))"

definition scan_number :: "string \<Rightarrow> (json \<times> string) option" where
  "scan_number s = (case scan_integer s of None \<Rightarrow> None
     | Some (i, r) \<Rightarrow> (let (f, r1) = scan_fraction r; (e, r2) = scan_exponent r1
         in if f = [] \<and> e = [] then Some (JInt (int_of_text i), r2)
            else map_option (\<lambda>x. (JFloat x, r2)) (float_of_text (i @ f @ e))))"

section \<open>Values\<close>

definition skip_space :: "string \<Rightarrow> string" where
  "skip_space s = dropWhile (\<lambda>c. c \<in> {CHR '' '', CHR 0x09, CHR 0x0A, CHR 0x0D}) s"

text \<open>\<^verbatim>\<open>null\<close>, \<^verbatim>\<open>true\<close>, \<^verbatim>\<open>false\<close> and the three special floats.\<close>

definition json_words :: "(string \<times> json) list" where
  "json_words = [(''null'', JNull), (''true'', JBool True), (''false'', JBool False), (''NaN'', JFloat FNaN),
     (''Infinity'', JFloat (FInf False)), (''-Infinity'', JFloat (FInf True))]"

definition scan_word :: "string \<Rightarrow> (json \<times> string) option" where
  "scan_word s = (case find (\<lambda>(w, v). starts_with w s) json_words of None \<Rightarrow> None
     | Some (w, v) \<Rightarrow> Some (v, drop (length w) s))"

fun scan_value :: "((string \<times> json) list \<Rightarrow> json option) \<Rightarrow> nat \<Rightarrow> string \<Rightarrow> (json \<times> string) option"
  and scan_elements :: "((string \<times> json) list \<Rightarrow> json option) \<Rightarrow> nat \<Rightarrow> string \<Rightarrow> (json list \<times> string) option"
  and scan_members ::
    "((string \<times> json) list \<Rightarrow> json option) \<Rightarrow> nat \<Rightarrow> string \<Rightarrow> ((string \<times> json) list \<times> string) option" where
  "scan_value hook 0 s = None"
| "scan_value hook (Suc n) s =
     (case s of [] \<Rightarrow> None
      | c # cs \<Rightarrow>
         if c = CHR ''\"'' then map_option (\<lambda>(t, r). (JStr t, r)) (scan_string (Suc (length cs)) cs)
         else if c = CHR ''['' then
           (let r = skip_space cs in if take 1 r = '']'' then Some (JArr [], drop 1 r)
            else map_option (\<lambda>(xs, r'). (JArr xs, r')) (scan_elements hook n r))
         else if c = CHR ''{'' then
           (let r = skip_space cs in if take 1 r = ''}'' then map_option (\<lambda>j. (j, drop 1 r)) (hook [])
            else (case scan_members hook n r of None \<Rightarrow> None
                  | Some (kvs, r') \<Rightarrow> map_option (\<lambda>j. (j, r')) (hook kvs)))
         else (case scan_number s of Some p \<Rightarrow> Some p | None \<Rightarrow> scan_word s))"
| "scan_elements hook 0 s = None"
| "scan_elements hook (Suc n) s =
     (case scan_value hook n s of None \<Rightarrow> None
      | Some (v, r) \<Rightarrow> (let r1 = skip_space r in
          if take 1 r1 = '']'' then Some ([v], drop 1 r1)
          else if take 1 r1 = '','' then map_option (\<lambda>(vs, r'). (v # vs, r')) (scan_elements hook n (skip_space (drop 1 r1)))
          else None))"
| "scan_members hook 0 s = None"
| "scan_members hook (Suc n) s =
     (if take 1 s \<noteq> [CHR ''\"''] then None
      else (case scan_string (length s) (drop 1 s) of None \<Rightarrow> None
      | Some (k, r) \<Rightarrow> (let r1 = skip_space r in
          if take 1 r1 \<noteq> '':'' then None
          else (case scan_value hook n (skip_space (drop 1 r1)) of None \<Rightarrow> None
          | Some (v, r2) \<Rightarrow> (let r3 = skip_space r2 in
              if take 1 r3 = ''}'' then Some ([(k, v)], drop 1 r3)
              else if take 1 r3 = '','' then map_option (\<lambda>(kvs, r'). ((k, v) # kvs, r')) (scan_members hook n (skip_space (drop 1 r3)))
              else None)))))"

definition json_loads :: "((string \<times> json) list \<Rightarrow> json option) \<Rightarrow> string \<Rightarrow> json option" where
  "json_loads hook s = (case scan_value hook (2 * length s + 2) (skip_space s) of None \<Rightarrow> None
     | Some (j, r) \<Rightarrow> if skip_space r = [] then Some j else None)"

text \<open>Without a hook, a repeated key keeps its place and takes the last value.\<close>

definition plain_object :: "(string \<times> json) list \<Rightarrow> json option" where
  "plain_object kvs = Some (JObj (foldl (\<lambda>d (k, v). dict_set k v d) [] kvs))"

section \<open>What is written reads back\<close>

lemma hex_char_value: "d < 16 \<Longrightarrow> hex_value (hex_char d) = d \<and> is_hex (hex_char d)"
  by (auto simp: hex_value_def hex_char_def digit_char_def is_hex_def Let_def)

lemma control_escape:
  assumes "(of_char c :: nat) < 32"
  shows "unicode_escape (CHR ''0'' # CHR ''0'' # hex_char (of_char c div 16) # hex_char (of_char c mod 16) # r) = Some (c, r)"
proof -
  let ?n = "of_char c :: nat"
  have d: "?n div 16 < 16" "?n mod 16 < 16" using assms by auto
  have zero: "hex_value (CHR ''0'') = 0" "is_hex (CHR ''0'')" by (simp_all add: hex_value_def is_hex_def)
  have "base_nat 16 [CHR ''0'', CHR ''0'', hex_char (?n div 16), hex_char (?n mod 16)] = ?n"
    using hex_char_value [OF d(1)] hex_char_value [OF d(2)] by (simp add: base_nat_def zero(1))
  then show ?thesis
    using assms hex_char_value [OF d(1)] hex_char_value [OF d(2)] zero(2) by (simp add: unicode_escape_def)
qed

lemma scan_escaped:
  assumes "0 < n"
  shows "scan_string n (escape_char c @ r) = map_option (\<lambda>(t, rest). (c # t, rest)) (scan_string (n - 1) r)"
proof -
  obtain m where n: "n = Suc m" using assms by (cases n) auto
  consider "c \<in> {CHR ''\"'', CHR 0x5C, CHR 0x0A, CHR 0x0D, CHR 0x09, CHR 0x08, CHR 0x0C}"
    | "c \<notin> {CHR ''\"'', CHR 0x5C, CHR 0x0A, CHR 0x0D, CHR 0x09, CHR 0x08, CHR 0x0C}" "(of_char c :: nat) < 32"
    | "c \<notin> {CHR ''\"'', CHR 0x5C, CHR 0x0A, CHR 0x0D, CHR 0x09, CHR 0x08, CHR 0x0C}" "32 \<le> (of_char c :: nat)"
    by (meson not_le)
  then show ?thesis
  proof cases
    case 1
    then show ?thesis by (auto simp: n escape_char_def)
  next
    case 2
    then show ?thesis using control_escape [of c r] by (simp add: n escape_char_def)
  next
    case 3
    then show ?thesis by (simp add: n escape_char_def)
  qed
qed

lemma escape_char_nonempty: "0 < length (escape_char c)"
  by (simp add: escape_char_def)

lemma scan_written_string:
  "length s < n \<Longrightarrow> scan_string n (concat (map escape_char s) @ CHR ''\"'' # rest) = Some (s, rest)"
proof (induction s arbitrary: n)
  case Nil
  then show ?case by (cases n) auto
next
  case (Cons c s)
  then show ?case by (simp add: scan_escaped)
qed

lemma length_escaped: "length s \<le> length (concat (map escape_char s))"
proof (induction s)
  case (Cons c s)
  then show ?case using escape_char_nonempty [of c] by (cases "escape_char c") auto
qed simp

definition ends_number :: "string \<Rightarrow> bool" where
  "ends_number r \<longleftrightarrow> r = [] \<or> \<not> is_digit (hd r) \<and> hd r \<notin> {CHR ''.'', CHR ''e'', CHR ''E''}"

lemma ends_number_simps [simp]:
  "ends_number []" "ends_number (CHR '','' # r)" "ends_number (CHR '']'' # r)" "ends_number (CHR ''}'' # r)"
  by (simp_all add: ends_number_def is_digit_def)

lemma digit_run_digits: "list_all is_digit ds \<Longrightarrow> ends_number r \<Longrightarrow> digit_run (ds @ r) = (ds, r)"
  by (cases r) (auto simp: digit_run_def ends_number_def list_all_iff takeWhile_append dropWhile_append)

lemma nat_digits_lead: "10 \<le> n \<Longrightarrow> hd (nat_digits n) \<noteq> CHR ''0''"
proof (induction n rule: nat_digits.induct)
  case (1 n)
  show ?case
  proof (cases "n div 10 < 10")
    case True
    then have "nat_digits (n div 10) = [digit_char (n div 10)]" by (subst nat_digits.simps) simp
    moreover have "digit_char (n div 10) \<noteq> CHR ''0''"
      using True 1(2) char_digit_char [of "n div 10"] by (auto simp: char_digit_def)
    ultimately show ?thesis using 1(2) by (subst nat_digits.simps) simp
  next
    case False
    then have "hd (nat_digits (n div 10)) \<noteq> CHR ''0''" using 1 by simp
    then show ?thesis using 1(2) nat_digits_nonempty [of "n div 10"] by (subst nat_digits.simps) simp
  qed
qed

lemma scan_unsigned_integer:
  assumes "ends_number r" "take 1 s = ''-'' \<and> drop 1 s = nat_digits n @ r \<and> sign = ''-'' \<or> s = nat_digits n @ r \<and> sign = []"
  shows "scan_integer s = Some (sign @ nat_digits n, r)"
proof -
  have run: "digit_run (nat_digits n @ r) = (nat_digits n, r)"
    using digit_run_digits [OF nat_digits_all assms(1)] .
  have head: "take 1 (nat_digits n @ r) \<noteq> ''-''"
    using nat_digits_not_special [of "hd (nat_digits n)" n] nat_digits_nonempty [of n] by (cases "nat_digits n") auto
  show ?thesis
  proof (cases "hd (nat_digits n) = CHR ''0''")
    case True
    then have "n < 10" using nat_digits_lead [of n] by force
    then have "nat_digits n = ''0''" using True by (subst (asm) nat_digits.simps) (subst nat_digits.simps, simp)
    then show ?thesis using assms(2) run head True by (auto simp: scan_integer_def)
  next
    case False
    then show ?thesis using assms(2) run head nat_digits_nonempty [of n] by (auto simp: scan_integer_def)
  qed
qed

lemma scan_int_text:
  assumes "ends_number r"
  shows "scan_number (int_text i @ r) = Some (JInt i, r)"
proof -
  define sign where "sign = (if i < 0 then ''-'' else [])"
  define n where "n = nat \<bar>i\<bar>"
  have written: "int_text i = sign @ nat_digits n"
    by (simp add: int_text_def sign_def n_def)
  have "scan_integer (int_text i @ r) = Some (sign @ nat_digits n, r)"
    by (rule scan_unsigned_integer [OF assms]) (simp add: written sign_def)
  moreover have "scan_fraction r = ([], r)" "scan_exponent r = ([], r)"
    using assms by (cases r; auto simp: scan_fraction_def scan_exponent_def ends_number_def Let_def split: prod.splits)+
  moreover have "int_of_text (sign @ nat_digits n) = i"
    using digits_nat_digits [of n] nat_digits_not_special [of "hd (nat_digits n)" n] nat_digits_nonempty [of n]
    by (cases "nat_digits n") (auto simp: int_of_text_def sign_def n_def)
  ultimately show ?thesis by (simp add: scan_number_def)
qed

text \<open>Values without floats and without repeated keys.\<close>

primrec written_json :: "json \<Rightarrow> bool" where
  "written_json JNull = True"
| "written_json (JBool b) = True"
| "written_json (JInt i) = True"
| "written_json (JFloat x) = False"
| "written_json (JStr s) = True"
| "written_json (JArr xs) = list_all (\<lambda>b. b) (map written_json xs)"
| "written_json (JObj kvs) = (distinct (map fst kvs) \<and> list_all (\<lambda>p. snd p) (map (map_prod id written_json) kvs))"

lemma int_text_head: "\<exists>c cs. int_text i = c # cs \<and> (is_digit c \<or> c = CHR ''-'')"
proof -
  obtain c cs where "nat_digits (nat \<bar>i\<bar>) = c # cs" using nat_digits_nonempty by (cases "nat_digits (nat \<bar>i\<bar>)") auto
  moreover have "is_digit c" using nat_digits_all [of "nat \<bar>i\<bar>"] calculation by simp
  ultimately show ?thesis by (auto simp: int_text_def)
qed

definition value_head :: "char \<Rightarrow> bool" where
  "value_head c \<longleftrightarrow> is_digit c \<or> c \<in> {CHR ''-'', CHR ''\"'', CHR ''['', CHR ''{'', CHR ''n'', CHR ''t'', CHR ''f''}"

lemma json_text_head: "written_json j \<Longrightarrow> \<exists>c cs. json_text ft j = c # cs \<and> value_head c"
  using int_text_head by (cases j) (fastforce simp: value_head_def json_string_def)+

lemma value_head_skips:
  "value_head c \<Longrightarrow> skip_space (c # cs) = c # cs" "value_head c \<Longrightarrow> c \<noteq> CHR '']''" "value_head c \<Longrightarrow> c \<noteq> CHR ''}''"
  by (auto simp: value_head_def skip_space_def is_digit_def)

lemma skip_text: "written_json j \<Longrightarrow> skip_space (json_text ft j @ r) = json_text ft j @ r"
  using json_text_head [of j ft] value_head_skips(1) by fastforce

lemma skip_sign: "c \<in> {CHR '','', CHR '']'', CHR ''}'', CHR '':'', CHR ''\"''} \<Longrightarrow> skip_space (c # r) = c # r"
  by (auto simp: skip_space_def)

lemma scan_words:
  "scan_number (''null'' @ r) = None" "scan_word (''null'' @ r) = Some (JNull, r)"
  "scan_number (''true'' @ r) = None" "scan_word (''true'' @ r) = Some (JBool True, r)"
  "scan_number (''false'' @ r) = None" "scan_word (''false'' @ r) = Some (JBool False, r)"
  by (simp_all add: scan_number_def scan_integer_def digit_run_def is_digit_def scan_word_def json_words_def starts_with_def)

lemma commas_Cons: "xs \<noteq> [] \<Longrightarrow> commas (x # xs) = x @ CHR '','' # commas xs"
  by (cases xs) auto

definition reads_back :: "(f64 \<Rightarrow> string) \<Rightarrow> ((string \<times> json) list \<Rightarrow> json option) \<Rightarrow> json \<Rightarrow> bool" where
  "reads_back ft hook j \<longleftrightarrow> (\<forall>n r. 2 * length (json_text ft j) \<le> n \<longrightarrow> ends_number r \<longrightarrow>
     scan_value hook n (json_text ft j @ r) = Some (j, r))"

lemma scan_elements_text:
  assumes "xs \<noteq> []" "\<And>x. x \<in> set xs \<Longrightarrow> reads_back ft hook x \<and> written_json x"
    "2 * length (commas (map (json_text ft) xs)) + 1 \<le> n"
  shows "scan_elements hook n (commas (map (json_text ft) xs) @ CHR '']'' # r) = Some (xs, r)"
  using assms
proof (induction xs arbitrary: n)
  case (Cons x xs)
  obtain m where n: "n = Suc m" using Cons.prems(3) by (cases n) auto
  have x: "reads_back ft hook x" "written_json x" using Cons.prems(2) [of x] by simp_all
  show ?case
  proof (cases "xs = []")
    case True
    then have "scan_value hook m (json_text ft x @ CHR '']'' # r) = Some (x, CHR '']'' # r)"
      using x(1) Cons.prems(3) n by (simp add: reads_back_def)
    then show ?thesis using True by (simp add: n skip_sign)
  next
    case False
    let ?rest = "commas (map (json_text ft) xs) @ CHR '']'' # r"
    have cs: "commas (map (json_text ft) (x # xs)) = json_text ft x @ CHR '','' # commas (map (json_text ft) xs)"
      using False by (simp add: commas_Cons)
    then have "scan_value hook m (json_text ft x @ CHR '','' # ?rest) = Some (x, CHR '','' # ?rest)"
      using x(1) Cons.prems(3) n by (simp add: reads_back_def)
    moreover have "scan_elements hook m ?rest = Some (xs, r)"
      by (rule Cons.IH) (use Cons.prems cs False n in auto)
    moreover have "skip_space ?rest = ?rest"
    proof -
      obtain y ys where "xs = y # ys" using False by (cases xs) auto
      then show ?thesis
        using skip_text [of y ft] Cons.prems(2) [of y] by (cases ys) auto
    qed
    ultimately show ?thesis unfolding cs by (simp add: n skip_sign)
  qed
qed simp

abbreviation member_text :: "(f64 \<Rightarrow> string) \<Rightarrow> string \<times> json \<Rightarrow> string" where
  "member_text ft p \<equiv> json_string (fst p) @ CHR '':'' # json_text ft (snd p)"

lemma scan_members_text:
  assumes "kvs \<noteq> []" "\<And>p. p \<in> set kvs \<Longrightarrow> reads_back ft hook (snd p) \<and> written_json (snd p)"
    "2 * length (commas (map (member_text ft) kvs)) + 1 \<le> n"
  shows "scan_members hook n (commas (map (member_text ft) kvs) @ CHR ''}'' # r) = Some (kvs, r)"
  using assms
proof (induction kvs arbitrary: n)
  case (Cons p kvs)
  obtain m where n: "n = Suc m" using Cons.prems(3) by (cases n) auto
  obtain k v where p: "p = (k, v)" by (cases p)
  have v: "reads_back ft hook v" "written_json v" using Cons.prems(2) [of p] p by simp_all
  let ?key = "\<lambda>u. json_string k @ CHR '':'' # u"
  have key: "scan_string (length (?key u)) (drop 1 (?key u)) = Some (k, CHR '':'' # u)" for u
    using scan_written_string [of k "length (?key u)" "CHR '':'' # u"] length_escaped [of k] by (simp add: json_string_def)
  have quote: "take 1 (?key u) = [CHR ''\"'']" for u by (simp add: json_string_def)
  show ?case
  proof (cases "kvs = []")
    case True
    then have "scan_value hook m (json_text ft v @ CHR ''}'' # r) = Some (v, CHR ''}'' # r)"
      using v(1) Cons.prems(3) n p by (simp add: reads_back_def)
    then show ?thesis
      using True key [of "json_text ft v @ CHR ''}'' # r"] quote [of "json_text ft v @ CHR ''}'' # r"] skip_text [OF v(2)]
      by (simp add: n p skip_sign)
  next
    case False
    let ?rest = "commas (map (member_text ft) kvs) @ CHR ''}'' # r"
    have cs: "commas (map (member_text ft) (p # kvs)) = member_text ft p @ CHR '','' # commas (map (member_text ft) kvs)"
      using False by (simp add: commas_Cons)
    then have "scan_value hook m (json_text ft v @ CHR '','' # ?rest) = Some (v, CHR '','' # ?rest)"
      using v(1) Cons.prems(3) n p by (simp add: reads_back_def)
    moreover have "scan_members hook m ?rest = Some (kvs, r)"
      by (rule Cons.IH) (use Cons.prems cs False n in auto)
    moreover have "skip_space ?rest = ?rest"
    proof -
      obtain q qs where "kvs = q # qs" using False by (cases kvs) auto
      then show ?thesis by (cases qs) (auto simp: json_string_def skip_sign)
    qed
    ultimately show ?thesis
      unfolding cs
      using key [of "json_text ft v @ CHR '','' # ?rest"] quote [of "json_text ft v @ CHR '','' # ?rest"] skip_text [OF v(2)]
      by (simp add: n p skip_sign)
  qed
qed simp

lemma written_text_reads_back:
  assumes hook: "\<And>kvs. distinct (map fst kvs) \<Longrightarrow> hook kvs = Some (JObj kvs)"
  shows "written_json j \<Longrightarrow> reads_back ft hook j"
proof (induction j)
  case (JInt i)
  obtain c cs where c: "int_text i = c # cs" "is_digit c \<or> c = CHR ''-''" using int_text_head [of i] by blast
  have "scan_value hook n (int_text i @ r) = Some (JInt i, r)" if "2 * length (int_text i) \<le> n" "ends_number r" for n r
    using that c scan_int_text [OF that(2), of i] by (cases n) (auto simp: is_digit_def)
  then show ?case by (simp add: reads_back_def)
next
  case (JStr s)
  show ?case
    unfolding reads_back_def
  proof (intro allI impI)
    fix n r
    assume n: "2 * length (json_text ft (JStr s)) \<le> n"
    have "scan_string (Suc (length (concat (map escape_char s) @ CHR ''\"'' # r))) (concat (map escape_char s) @ CHR ''\"'' # r)
        = Some (s, r)"
      by (rule scan_written_string) (use length_escaped [of s] in simp)
    then show "scan_value hook n (json_text ft (JStr s) @ r) = Some (JStr s, r)"
      using n by (cases n) (auto simp: json_string_def)
  qed
next
  case (JArr xs)
  show ?case
    unfolding reads_back_def
  proof (intro allI impI)
    fix n r
    assume n: "2 * length (json_text ft (JArr xs)) \<le> n"
    then obtain m where m: "n = Suc m" by (cases n) auto
    show "scan_value hook n (json_text ft (JArr xs) @ r) = Some (JArr xs, r)"
    proof (cases xs)
      case Nil
      then show ?thesis by (simp add: m skip_sign)
    next
      case (Cons x ys)
      have els: "scan_elements hook m (commas (map (json_text ft) xs) @ CHR '']'' # r) = Some (xs, r)"
        by (rule scan_elements_text) (use Cons n m JArr in \<open>auto simp: list_all_iff\<close>)
      obtain c cs where c: "json_text ft x = c # cs" "value_head c"
        using json_text_head [of x ft] JArr.prems Cons by auto
      then have "\<exists>u. commas (map (json_text ft) xs) @ CHR '']'' # r = c # u" using Cons by (cases ys) auto
      then show ?thesis
        using els value_head_skips [OF c(2)] by (auto simp: m)
    qed
  qed
next
  case (JObj kvs)
  have texts: "json_text ft (JObj kvs) = CHR ''{'' # commas (map (member_text ft) kvs) @ ''}''"
    by (simp add: comp_def case_prod_unfold)
  show ?case
    unfolding reads_back_def
  proof (intro allI impI)
    fix n r
    assume n: "2 * length (json_text ft (JObj kvs)) \<le> n"
    then obtain m where m: "n = Suc m" by (cases n) auto
    have hooked: "hook kvs = Some (JObj kvs)" using JObj.prems by (intro hook) simp
    show "scan_value hook n (json_text ft (JObj kvs) @ r) = Some (JObj kvs, r)"
    proof (cases kvs)
      case Nil
      then show ?thesis using hooked by (simp add: m skip_sign)
    next
      case (Cons p qs)
      have mem: "scan_members hook m (commas (map (member_text ft) kvs) @ CHR ''}'' # r) = Some (kvs, r)"
      proof (rule scan_members_text)
        fix q assume q: "q \<in> set kvs"
        then have "written_json (snd q)" using JObj.prems by (auto simp: list_all_iff)
        moreover have "snd q \<in> Basic_BNFs.snds q" by (cases q) (simp add: Basic_BNFs.snds.intros)
        ultimately show "reads_back ft hook (snd q) \<and> written_json (snd q)" using JObj.IH q by blast
      qed (use Cons n m texts in auto)
      have "\<exists>u. commas (map (member_text ft) kvs) @ CHR ''}'' # r = CHR ''\"'' # u"
        using Cons by (cases qs) (auto simp: json_string_def)
      then show ?thesis
        unfolding texts using mem hooked by (auto simp: m skip_sign)
    qed
  qed
next
  case JNull
  have "scan_value hook n (''null'' @ r) = Some (JNull, r)" if "8 \<le> n" for n r
    using that scan_words(1,2) [of r] by (cases n) auto
  then show ?case by (simp add: reads_back_def)
next
  case (JBool b)
  have "scan_value hook n (''true'' @ r) = Some (JBool True, r)" "scan_value hook n (''false'' @ r) = Some (JBool False, r)"
    if "8 \<le> n" for n r
    using that scan_words(3-6) [of r] by (cases n; auto)+
  then show ?case by (cases b) (simp_all add: reads_back_def)
qed simp

lemma loads_written:
  assumes "\<And>kvs. distinct (map fst kvs) \<Longrightarrow> hook kvs = Some (JObj kvs)" "written_json j"
  shows "json_loads hook (json_text ft j) = Some j"
proof -
  have "scan_value hook (2 * length (json_text ft j) + 2) (json_text ft j @ []) = Some (j, [])"
  proof -
    have "reads_back ft hook j" by (rule written_text_reads_back [OF assms])
    then show ?thesis unfolding reads_back_def using ends_number_simps(1) le_add1 by blast
  qed
  then have "scan_value hook (2 * length (json_text ft j) + 2) (skip_space (json_text ft j)) = Some (j, [])"
    using skip_text [OF assms(2), of ft "[]"] by (metis append_Nil2)
  then show ?thesis by (simp only: json_loads_def option.case prod.case) (simp add: skip_space_def)
qed

declare scan_value.simps [simp del] scan_elements.simps [simp del] scan_members.simps [simp del]

end
