(* ===== verification/Prod_Records.thy ===== *)
theory Prod_Records
  imports Json_Parse Sim_Models Interaction
begin

text \<open>
  The records of the production path and the validation of an owner's arm request:
  \<^verbatim>\<open>kairos_execution/production_readiness.py\<close>, and the models of \<^verbatim>\<open>managed_signer.py\<close> and
  \<^verbatim>\<open>signing_authorization.py\<close>. A field with a fixed literal value is not kept. A datetime of a validated
  record is in UTC, so it is an instant in microseconds; a clock reading is a datetime and is checked.
  What pydantic's \<^verbatim>\<open>model_dump(mode="json")\<close> writes for instants and decimals, and the Ed25519
  verification of the \<^verbatim>\<open>cryptography\<close> package, are parameters.
\<close>

section \<open>Validated text\<close>

definition identity_char :: "char \<Rightarrow> bool" where
  "identity_char c = (let n = (of_char c :: nat) in is_digit c \<or> 65 \<le> n \<and> n \<le> 90 \<or> 97 \<le> n \<and> n \<le> 122
     \<or> c \<in> {CHR ''_'', CHR ''.'', CHR '':'', CHR ''-''})"

definition identity_ok :: "string \<Rightarrow> bool" where
  "identity_ok s \<longleftrightarrow> 1 \<le> length s \<and> length s \<le> 160 \<and> list_all identity_char s"

definition bounded_text :: "nat \<Rightarrow> string \<Rightarrow> bool" where
  "bounded_text n s \<longleftrightarrow> 1 \<le> length s \<and> length s \<le> n"

abbreviation rejected :: exn where
  "rejected \<equiv> Exn ValidationError ''record is not valid''"

definition valid_when :: "bool list \<Rightarrow> unit res" where
  "valid_when cs = (if list_all (\<lambda>c. c) cs then Inr () else Inl rejected)"

section \<open>Records\<close>

record production_context =
  px_remote_account_id :: string
  px_adaptive_system_id :: string
  px_frozen_policy_sha256 :: string
  px_source_set_sha256 :: string

definition validate_context :: "production_context \<Rightarrow> unit res" where
  "validate_context c = valid_when
     [identity_ok (px_remote_account_id c), identity_ok (px_adaptive_system_id c),
      valid_sha256 (px_frozen_policy_sha256 c), valid_sha256 (px_source_set_sha256 c),
      casefold (px_adaptive_system_id c) \<notin> {''trial15'', ''trial_15'', ''regime_aligned_right_tail_v1''}]"

definition context_payload :: "production_context \<Rightarrow> json" where
  "context_payload c = JObj [(''version'', JStr ''kairos.production-context.v1''), (''environment'', JStr ''PROD''),
     (''exchange'', JStr ''EVEDEX''), (''remote_account_id'', JStr (px_remote_account_id c)),
     (''adaptive_system_id'', JStr (px_adaptive_system_id c)),
     (''frozen_policy_sha256'', JStr (px_frozen_policy_sha256 c)), (''source_set_sha256'', JStr (px_source_set_sha256 c))]"

record preconditions =
  pr_context :: production_context
  pr_evidence_sha256 :: string
  pr_verified_at :: instant
  pr_valid_until :: instant
  pr_owner_identity :: string
  pr_dollar_cap :: rat
  pr_daily_stop_loss_usd :: rat

definition validate_preconditions :: "preconditions \<Rightarrow> unit res" where
  "validate_preconditions p = rbind (validate_context (pr_context p)) (\<lambda>_. valid_when
     [valid_sha256 (pr_evidence_sha256 p), identity_ok (pr_owner_identity p)])"

record manual_arm =
  ma_context :: production_context
  ma_preconditions_sha256 :: string
  ma_nonce :: string
  ma_owner_identity :: string
  ma_created_at :: instant
  ma_expires_at :: instant
  ma_dollar_cap :: rat
  ma_daily_stop_loss_usd :: rat

definition validate_arm :: "manual_arm \<Rightarrow> unit res" where
  "validate_arm a = rbind (validate_context (ma_context a)) (\<lambda>_. valid_when
     [valid_sha256 (ma_preconditions_sha256 a), identity_ok (ma_nonce a), identity_ok (ma_owner_identity a),
      0 < ma_dollar_cap a, 0 < ma_daily_stop_loss_usd a,
      \<not> (ma_expires_at a \<le> ma_created_at a \<or> ma_dollar_cap a < ma_daily_stop_loss_usd a)])"

record owner_key =
  wk_owner_identity :: string
  wk_key_id :: string
  wk_public_key_base64 :: string
  wk_context :: production_context
  wk_valid_from :: instant
  wk_valid_until :: instant

definition base64_char :: "char \<Rightarrow> bool" where
  "base64_char c = (let n = (of_char c :: nat) in is_digit c \<or> 65 \<le> n \<and> n \<le> 90 \<or> 97 \<le> n \<and> n \<le> 122
     \<or> c \<in> {CHR ''+'', CHR ''/''})"

definition base64_shape :: "nat \<Rightarrow> string \<Rightarrow> string \<Rightarrow> bool" where
  "base64_shape n padding s \<longleftrightarrow> list_all base64_char (take n s) \<and> drop n s = padding \<and> n \<le> length s"

definition validate_owner_key :: "owner_key \<Rightarrow> unit res" where
  "validate_owner_key k = rbind (validate_context (wk_context k)) (\<lambda>_. valid_when
     [identity_ok (wk_owner_identity k), identity_ok (wk_key_id k), base64_shape 43 ''='' (wk_public_key_base64 k),
      wk_valid_from k < wk_valid_until k])"

record signed_arm =
  sa_request :: manual_arm
  sa_key_id :: string
  sa_signature_base64 :: string

definition validate_signed_arm :: "signed_arm \<Rightarrow> unit res" where
  "validate_signed_arm s = rbind (validate_arm (sa_request s)) (\<lambda>_. valid_when
     [identity_ok (sa_key_id s), base64_shape 86 ''=='' (sa_signature_base64 s)])"

section \<open>Digests\<close>

text \<open>How the JSON of a record shows its instants and decimals, and the signature scheme.\<close>

record production_codec =
  pd_instant :: "instant \<Rightarrow> json"
  pd_decimal :: "rat \<Rightarrow> json"
  pd_ed25519 :: "nat list \<Rightarrow> nat list \<Rightarrow> string \<Rightarrow> bool"

definition compact_text :: "json \<Rightarrow> string" where
  "compact_text j = json_text float_text (sort_keys j)"

definition digest_of :: "json \<Rightarrow> string" where
  "digest_of j = sha256_hex (compact_text j)"

abbreviation context_digest :: "production_context \<Rightarrow> string" where
  "context_digest c \<equiv> digest_of (context_payload c)"

definition preconditions_payload :: "production_codec \<Rightarrow> preconditions \<Rightarrow> json" where
  "preconditions_payload K p = JObj [(''version'', JStr ''kairos.production-preconditions.v1''),
     (''outcome'', JStr ''PRECONDITIONS_VALIDATED_ONLY''), (''context'', context_payload (pr_context p)),
     (''evidence_sha256'', JStr (pr_evidence_sha256 p)), (''verified_at'', pd_instant K (pr_verified_at p)),
     (''valid_until'', pd_instant K (pr_valid_until p)), (''live_ready'', JBool False), (''mutation_authority'', JBool False),
     (''owner_identity'', JStr (pr_owner_identity p)), (''dollar_cap'', pd_decimal K (pr_dollar_cap p)),
     (''daily_stop_loss_usd'', pd_decimal K (pr_daily_stop_loss_usd p))]"

definition arm_payload :: "production_codec \<Rightarrow> manual_arm \<Rightarrow> json" where
  "arm_payload K a = JObj [(''version'', JStr ''kairos.manual-arm-request.v1''), (''context'', context_payload (ma_context a)),
     (''preconditions_sha256'', JStr (ma_preconditions_sha256 a)), (''nonce'', JStr (ma_nonce a)),
     (''owner_identity'', JStr (ma_owner_identity a)), (''created_at'', pd_instant K (ma_created_at a)),
     (''expires_at'', pd_instant K (ma_expires_at a)), (''dollar_cap'', pd_decimal K (ma_dollar_cap a)),
     (''daily_stop_loss_usd'', pd_decimal K (ma_daily_stop_loss_usd a))]"

definition owner_key_payload :: "production_codec \<Rightarrow> owner_key \<Rightarrow> json" where
  "owner_key_payload K k = JObj [(''version'', JStr ''kairos.owner-arm-key.v1''),
     (''owner_identity'', JStr (wk_owner_identity k)), (''key_id'', JStr (wk_key_id k)),
     (''public_key_base64'', JStr (wk_public_key_base64 k)), (''context'', context_payload (wk_context k)),
     (''valid_from'', pd_instant K (wk_valid_from k)), (''valid_until'', pd_instant K (wk_valid_until k))]"

section \<open>Base64\<close>

definition base64_alphabet :: string where
  "base64_alphabet = map char_of ([65..<91] @ [97..<123] @ [48..<58] @ [43, 47 :: nat])"

definition base64_value :: "char \<Rightarrow> nat" where
  "base64_value c = (let n = of_char c in if c = CHR ''+'' then 62 else if c = CHR ''/'' then 63
     else if n < 58 then n + 4 else if n < 91 then n - 65 else n - 71)"

text \<open>The bytes of a text of base64 characters; \<open>fill\<close> final padding characters stand for that many missing bytes.\<close>

fun base64_groups :: "nat list \<Rightarrow> nat list" where
  "base64_groups (a # b # c # d # vs) =
     [(a * 4 + b div 16) mod 256, (b mod 16 * 16 + c div 4) mod 256, (c mod 4 * 64 + d) mod 256] @ base64_groups vs"
| "base64_groups vs = []"

definition base64_decode :: "string \<Rightarrow> nat list" where
  "base64_decode s = (let body = filter (\<lambda>c. c \<noteq> CHR ''='') s; fill = length s - length body;
       bytes = base64_groups (map base64_value body @ replicate fill 0)
     in take (length bytes - fill) bytes)"

fun base64_units :: "nat list \<Rightarrow> nat list" where
  "base64_units (x # y # z # bs) = [x div 4, x mod 4 * 16 + y div 16, y mod 16 * 4 + z div 64, z mod 64] @ base64_units bs"
| "base64_units [x, y] = [x div 4, x mod 4 * 16 + y div 16, y mod 16 * 4]"
| "base64_units [x] = [x div 4, x mod 4 * 16]"
| "base64_units [] = []"

definition base64_encode :: "nat list \<Rightarrow> string" where
  "base64_encode bs = (let t = map (\<lambda>v. base64_alphabet ! v) (base64_units bs)
     in t @ replicate ((4 - length t mod 4) mod 4) (CHR ''=''))"

section \<open>The owner's arm\<close>

abbreviation refused :: "string \<Rightarrow> exn" where
  "refused m \<equiv> Exn ValueError m"

text \<open>\<^verbatim>\<open>_aware\<close>: a datetime with offset zero; its instant.\<close>

definition aware :: "py_datetime \<Rightarrow> instant res" where
  "aware t = (if dt_offset_us t = Some 0 then Inr (dt_wall_us t) else Inl (refused ''an explicit UTC timestamp is required''))"

definition validated_manual_request ::
  "production_codec \<Rightarrow> manual_arm \<Rightarrow> preconditions \<Rightarrow> string \<Rightarrow> instant \<Rightarrow> int \<Rightarrow> manual_arm res" where
  "validated_manual_request K a p owner now maximum_lifetime =
     rbind (validate_arm a) (\<lambda>_. rbind (validate_preconditions p) (\<lambda>_. rbind (ensure
     [(0 < maximum_lifetime, refused ''reviewed manual-arm lifetime must be positive''),
      (\<not> (ma_context a \<noteq> pr_context p \<or> ma_preconditions_sha256 a \<noteq> digest_of (preconditions_payload K p)
        \<or> ma_owner_identity a \<noteq> owner \<or> ma_owner_identity a \<noteq> pr_owner_identity p
        \<or> ma_dollar_cap a \<noteq> pr_dollar_cap p \<or> ma_daily_stop_loss_usd a \<noteq> pr_daily_stop_loss_usd p),
       refused ''manual-arm scope, readiness digest or owner mismatch''),
      (pr_verified_at p \<le> now \<and> now < pr_valid_until p, refused ''preconditions are stale or future-dated''),
      (ma_created_at a \<le> now \<and> now < ma_expires_at a \<and> ma_expires_at a \<le> pr_valid_until p,
       refused ''manual-arm request is stale, future-dated or beyond evidence validity''),
      (ma_expires_at a - ma_created_at a \<le> maximum_lifetime, refused ''manual-arm lifetime exceeds the reviewed bound'')])
     (\<lambda>_. Inr a)))"

definition owner_arm_domain :: string where
  "owner_arm_domain = ''kairos.signed-manual-arm-request.v1'' @ [CHR 0x00]"

definition arm_signature_ok :: "production_codec \<Rightarrow> owner_key \<Rightarrow> signed_arm \<Rightarrow> bool" where
  "arm_signature_ok K k s =
     (let public_key = base64_decode (wk_public_key_base64 k); signature = base64_decode (sa_signature_base64 s)
      in \<not> (length public_key \<noteq> 32 \<or> length signature \<noteq> 64 \<or> base64_encode public_key \<noteq> wk_public_key_base64 k
          \<or> base64_encode signature \<noteq> sa_signature_base64 s)
         \<and> pd_ed25519 K public_key signature (owner_arm_domain @ compact_text (arm_payload K (sa_request s))))"

definition verify_owner_signed_arm ::
  "production_codec \<Rightarrow> signed_arm \<Rightarrow> preconditions \<Rightarrow> owner_key \<Rightarrow> string \<Rightarrow> string \<Rightarrow> instant \<Rightarrow> int
   \<Rightarrow> (manual_arm \<times> string) res" where
  "verify_owner_signed_arm K s p k key_sha256 owner now maximum_lifetime =
     rbind (validate_signed_arm s) (\<lambda>_. rbind (validate_owner_key k) (\<lambda>_. rbind (ensure
     [(valid_sha256 key_sha256, refused ''an independently pinned owner signing-key digest is required''),
      (digest_of (owner_key_payload K k) = key_sha256,
       refused ''owner signing key does not match the independently pinned policy'')])
     (\<lambda>_. rbind (validated_manual_request K (sa_request s) p owner now maximum_lifetime) (\<lambda>a. rbind (ensure
     [(\<not> (wk_owner_identity k \<noteq> owner \<or> wk_context k \<noteq> ma_context a \<or> sa_key_id s \<noteq> wk_key_id k
        \<or> \<not> (wk_valid_from k \<le> ma_created_at a \<and> ma_created_at a < ma_expires_at a \<and> ma_expires_at a \<le> wk_valid_until k)
        \<or> \<not> (wk_valid_from k \<le> now \<and> now < wk_valid_until k)),
       refused ''owner signing key identity, scope or validity mismatch''),
      (arm_signature_ok K k s, refused ''owner manual-arm signature verification failed'')])
     (\<lambda>_. Inr (a, digest_of (arm_payload K a)))))))"

end
