(* ===== verification/Prod_Messages.thy ===== *)
theory Prod_Messages
  imports Prod_Records
begin

text \<open>
  The typed messages of the production path: the EIP-712 schemas of \<^verbatim>\<open>kairos_execution/crypto.py\<close>, the
  signing requests and the validation of their messages in \<^verbatim>\<open>managed_signer.py\<close>, the effect identity of
  \<^verbatim>\<open>signing_authorization.py\<close>, and the REST body of \<^verbatim>\<open>production_dispatch.py\<close>.
\<close>

section \<open>EIP-712 schemas\<close>

definition eip712_schemas :: "(string \<times> (string \<times> string) list) list" where
  "eip712_schemas =
    [(''Withdraw'', [(''recipient'', ''address''), (''amount'', ''uint256'')]),
     (''New limit order'', [(''id'', ''string''), (''instrument'', ''string''), (''side'', ''string''),
        (''leverage'', ''uint8''), (''quantity'', ''uint96''), (''limitPrice'', ''uint80''), (''chainId'', ''uint256'')]),
     (''New market order'', [(''id'', ''string''), (''instrument'', ''string''), (''side'', ''string''),
        (''timeInForce'', ''string''), (''leverage'', ''uint8''), (''cashQuantity'', ''uint96''), (''chainId'', ''uint256'')]),
     (''New stop-limit order'', [(''id'', ''string''), (''instrument'', ''string''), (''side'', ''string''),
        (''leverage'', ''uint8''), (''quantity'', ''uint96''), (''limitPrice'', ''uint80''), (''stopPrice'', ''uint80''),
        (''chainId'', ''uint256'')]),
     (''Position close order'', [(''id'', ''string''), (''instrument'', ''string''), (''leverage'', ''uint8''),
        (''quantity'', ''uint96''), (''chainId'', ''uint256'')]),
     (''New take-profit/stop-loss'', [(''instrument'', ''string''), (''type'', ''string''), (''side'', ''string''),
        (''quantity'', ''uint96''), (''price'', ''uint80''), (''order'', ''string'')])]"

abbreviation TPSL_OPERATION :: string where
  "TPSL_OPERATION \<equiv> ''New take-profit/stop-loss''"

abbreviation CLOSE_OPERATION :: string where
  "CLOSE_OPERATION \<equiv> ''Position close order''"

definition signing_operations :: "string list" where
  "signing_operations = [''New limit order'', ''New market order'', ''New stop-limit order'', CLOSE_OPERATION, TPSL_OPERATION]"

text \<open>\<^verbatim>\<open>round(value * 10**8)\<close> half up; downwards for withdrawals. The argument is the decimal of the value's text.\<close>

definition to_eth_number :: "rat \<Rightarrow> bool \<Rightarrow> int res" where
  "to_eth_number value round_down = (let scaled = dmul 28 value (10 ^ 8); a = \<bar>scaled\<bar>;
       m = (if round_down then \<lfloor>a\<rfloor> else \<lfloor>a + 1 / 2\<rfloor>)
     in if 10 ^ 28 \<le> m then raise (OtherError ''InvalidOperation'') ''quantize result has too many digits''
        else Inr (if scaled < 0 then - m else m))"

definition build_domain :: "int \<Rightarrow> obj" where
  "build_domain chain_id = [(''name'', JStr ''EVEDEX''), (''version'', JStr ''2''),
     (''salt'', JStr ''0x5792f7333c35db190e30acc144f049fd15b24f552c0010b8b3e06f9105c37c5a''),
     (''chainId'', JStr (int_text chain_id))]"

abbreviation signing_error :: "string \<Rightarrow> exn" where
  "signing_error m \<equiv> Exn (OtherError ''ManagedSigningError'') m"

definition signing_types :: "string \<Rightarrow> (string \<times> string) list res" where
  "signing_types operation =
     (if operation \<notin> set signing_operations then Inl (signing_error ''signing operation is not allowlisted'')
      else let schema = the (map_of eip712_schemas operation)
        in Inr (if operation = TPSL_OPERATION then filter (\<lambda>f. fst f \<noteq> ''order'') schema else schema))"

definition unsigned_fields :: "string \<Rightarrow> string set" where
  "unsigned_fields operation = (if operation = TPSL_OPERATION then {''order''} else {})"

text \<open>The fields a message must have, as a set.\<close>

definition fields_match :: "string \<Rightarrow> (string \<times> string) list \<Rightarrow> obj \<Rightarrow> bool" where
  "fields_match operation schema message \<longleftrightarrow> fst ` set message = fst ` set schema \<union> unsigned_fields operation"

definition signed_message :: "string \<Rightarrow> obj \<Rightarrow> obj res" where
  "signed_message operation message = rbind (signing_types operation) (\<lambda>schema.
     if \<not> fields_match operation schema message
     then Inl (signing_error ''typed message does not match the production signing profile'')
     else Inr (map (\<lambda>(name, t). (name, field message name)) schema))"

section \<open>Requests\<close>

record custody_binding =
  cb_context :: production_context
  cb_custody_reference :: string
  cb_wallet_address :: string
  cb_chain_id :: int
  cb_schema_sha256 :: string
  cb_approved_instruments :: "string list"
  cb_custody_receipt_sha256 :: string

record signing_request =
  sq_request_id :: string
  sq_context :: production_context
  sq_manual_request_sha256 :: string
  sq_custody_receipt_sha256 :: string
  sq_operation :: string
  sq_message_json :: string
  sq_expires_at :: instant

record signed_data =
  sd_request_sha256 :: string
  sd_wallet_address :: string
  sd_signature_sha256 :: string
  sd_signature :: string

definition hex_text :: "nat \<Rightarrow> string \<Rightarrow> bool" where
  "hex_text n s \<longleftrightarrow> length s = n + 2 \<and> take 2 s = ''0x'' \<and> list_all is_hex (drop 2 s)"

definition validate_custody :: "custody_binding \<Rightarrow> unit res" where
  "validate_custody b = rbind (validate_context (cb_context b)) (\<lambda>_. valid_when
     [identity_ok (cb_custody_reference b), hex_text 40 (cb_wallet_address b),
      0 < cb_chain_id b, cb_chain_id b < 2 ^ 256, valid_sha256 (cb_schema_sha256 b),
      list_all identity_ok (cb_approved_instruments b), valid_sha256 (cb_custody_receipt_sha256 b),
      length (cb_approved_instruments b) = 5, distinct (cb_approved_instruments b)])"

definition validate_signing_request :: "signing_request \<Rightarrow> unit res" where
  "validate_signing_request q = rbind (validate_context (sq_context q)) (\<lambda>_. valid_when
     [identity_ok (sq_request_id q), valid_sha256 (sq_manual_request_sha256 q),
      valid_sha256 (sq_custody_receipt_sha256 q), sq_operation q \<in> set signing_operations,
      2 \<le> length (sq_message_json q), length (sq_message_json q) \<le> 4096])"

text \<open>The reviewed schema: the domain, the signed types and the unsigned request metadata.\<close>

definition field_payload :: "string \<times> string \<Rightarrow> json" where
  "field_payload f = JObj [(''name'', JStr (fst f)), (''type'', JStr (snd f))]"

definition reviewed_schema_sha256 :: "int \<Rightarrow> string" where
  "reviewed_schema_sha256 chain_id = digest_of (JObj
     [(''profile'', JStr ''kairos.evedex-managed-sdk.v1''),
      (''sdk'', JObj [(''package'', JStr ''@evedex/exchange-crypto''), (''version'', JStr ''1.1.0'')]),
      (''domain'', JObj (build_domain chain_id)),
      (''types'', JObj (map (\<lambda>op. (op, JArr (map field_payload (case signing_types op of Inr fs \<Rightarrow> fs | Inl _ \<Rightarrow> []))))
         (sort_key (\<lambda>op. op) signing_operations))),
      (''unsigned_request_metadata'', JObj
         [(''New limit order'', JObj [(''timeInForce'', JStr ''IOC''), (''postOnly'', JBool False)]),
          (TPSL_OPERATION, JObj [(''order'', JStr ''required deterministic parent client order ID'')])])])"

section \<open>The typed message\<close>

definition reject_duplicate_keys :: "(string \<times> json) list \<Rightarrow> json option" where
  "reject_duplicate_keys kvs = (if distinct (map fst kvs) then Some (JObj kvs) else None)"

definition typed_value_ok :: "string \<Rightarrow> json \<Rightarrow> unit res" where
  "typed_value_ok t v =
     (if starts_with ''uint'' t
      then (case v of JInt i \<Rightarrow> if 0 \<le> i \<and> i < 2 ^ digits_nat (drop 4 t) then Inr ()
              else Inl (signing_error ''typed integer violates the fixed schema'')
            | _ \<Rightarrow> Inl (signing_error ''typed integer violates the fixed schema''))
      else (case v of JStr s \<Rightarrow>
              if 0 < length s \<and> length s \<le> 160 \<and> \<not> list_ex (\<lambda>c. (of_char c :: nat) < 32) s then Inr ()
              else Inl (signing_error ''typed string violates the fixed schema'')
            | _ \<Rightarrow> Inl (signing_error ''typed string violates the fixed schema'')))"

text \<open>\<^verbatim>\<open>name in message\<close>, and the value of a present field.\<close>

definition has_field :: "obj \<Rightarrow> string \<Rightarrow> bool" where
  "has_field d k \<longleftrightarrow> map_of d k \<noteq> None"

definition order_id_ok :: "json \<Rightarrow> bool" where
  "order_id_ok v = (case v of JStr s \<Rightarrow> is_evedex_client_order_id s | _ \<Rightarrow> False)"

definition positive_int :: "json \<Rightarrow> bool" where
  "positive_int v = (case v of JInt i \<Rightarrow> 0 < i | _ \<Rightarrow> False)"

definition message_rules :: "custody_binding \<Rightarrow> string \<Rightarrow> obj \<Rightarrow> (bool \<times> exn) list" where
  "message_rules b operation m =
     [(\<exists>s \<in> set (cb_approved_instruments b). field m ''instrument'' = JStr s,
       signing_error ''instrument is not in the custody-approved universe''),
      (\<not> (has_field m ''chainId'' \<and> field m ''chainId'' \<noteq> JInt (cb_chain_id b)),
       signing_error ''typed message chain differs from custody binding''),
      (\<not> (has_field m ''side'' \<and> field m ''side'' \<notin> {JStr ''BUY'', JStr ''SELL''}), signing_error ''typed side is invalid''),
      (\<not> (has_field m ''leverage'' \<and> field m ''leverage'' \<noteq> JInt 1),
       signing_error ''initial controlled signing permits only 1x leverage''),
      (\<not> (has_field m ''timeInForce'' \<and> field m ''timeInForce'' \<noteq> JStr ''IOC''),
       signing_error ''initial controlled signing permits only IOC market orders''),
      (\<not> (has_field m ''id'' \<and> \<not> order_id_ok (field m ''id'')),
       signing_error ''typed order ID is not a deterministic EVEDEX ID''),
      (\<not> (has_field m ''order'' \<and> \<not> order_id_ok (field m ''order'')),
       signing_error ''protective request lacks an authoritative parent ID''),
      (\<not> (has_field m ''type'' \<and> field m ''type'' \<notin> {JStr ''stop-loss'', JStr ''take-profit''}),
       signing_error ''protective request type is not allowlisted'')]
     @ map (\<lambda>name. (\<not> (has_field m name \<and> \<not> positive_int (field m name)), signing_error ''price/cash quantity must be positive''))
         [''cashQuantity'', ''limitPrice'', ''stopPrice'', ''price'']
     @ [(\<not> (has_field m ''quantity'' \<and> field m ''quantity'' = JInt 0 \<and> operation \<noteq> TPSL_OPERATION),
         signing_error ''entry/close quantity must be positive'')]"

definition typed_message :: "signing_request \<Rightarrow> custody_binding \<Rightarrow> ((string \<times> string) list \<times> obj) res" where
  "typed_message q b =
     (if sq_operation q \<notin> set signing_operations then Inl (signing_error ''signing operation is not allowlisted'')
      else case json_loads reject_duplicate_keys (sq_message_json q) of
        None \<Rightarrow> Inl (signing_error ''malformed typed message'')
      | Some j \<Rightarrow> rbind (signing_types (sq_operation q)) (\<lambda>schema. (case j of
          JObj m \<Rightarrow>
            if \<not> fields_match (sq_operation q) schema m
            then Inl (signing_error ''typed message does not match the fixed schema'')
            else rbind (rtraverse (\<lambda>(name, t). typed_value_ok t (field m name)) schema) (\<lambda>_.
                 rbind (ensure (message_rules b (sq_operation q) m)) (\<lambda>_. Inr (schema, m)))
        | _ \<Rightarrow> Inl (signing_error ''typed message does not match the fixed schema''))))"

definition request_payload :: "production_codec \<Rightarrow> signing_request \<Rightarrow> string \<Rightarrow> json" where
  "request_payload K q message_json = JObj [(''version'', JStr ''kairos.managed-sign-request.v1''),
     (''request_id'', JStr (sq_request_id q)), (''context'', context_payload (sq_context q)),
     (''manual_request_sha256'', JStr (sq_manual_request_sha256 q)),
     (''custody_receipt_sha256'', JStr (sq_custody_receipt_sha256 q)), (''operation'', JStr (sq_operation q)),
     (''message_json'', JStr message_json), (''expires_at'', pd_instant K (sq_expires_at q))]"

text \<open>\<^verbatim>\<open>json.dumps(message, sort_keys=True)\<close> has spaces after its separators.\<close>

fun spaced_commas :: "string list \<Rightarrow> string" where
  "spaced_commas [] = []"
| "spaced_commas [x] = x"
| "spaced_commas (x # xs) = x @ '', '' @ spaced_commas xs"

definition spaced_object :: "obj \<Rightarrow> string" where
  "spaced_object m = CHR ''{'' # spaced_commas (map (\<lambda>(k, v). json_string k @ '': '' @ json_text float_text v)
     (sort_key fst m)) @ ''}''"

definition signing_digest :: "production_codec \<Rightarrow> signing_request \<Rightarrow> obj \<Rightarrow> string" where
  "signing_digest K q m = digest_of (request_payload K q (spaced_object m))"

definition signing_effect_id :: "signing_request \<Rightarrow> obj \<Rightarrow> string \<Rightarrow> string" where
  "signing_effect_id q m decision_id = digest_of (JObj [(''domain'', JStr ''kairos.production-sign-effect.v1''),
     (''context_sha256'', JStr (context_digest (sq_context q))), (''request_id'', JStr (sq_request_id q)),
     (''decision_id'', JStr decision_id), (''operation'', JStr (sq_operation q)), (''typed_message'', JObj m)])"

section \<open>The REST body\<close>

abbreviation dispatch_error :: "string \<Rightarrow> exn" where
  "dispatch_error m \<equiv> Exn (OtherError ''ProductionDispatchError'') m"

datatype wire_effect_type = WIRE_PLACE_ORDER | WIRE_CLOSE_POSITION | WIRE_PROTECTIVE_STOP

text \<open>Per operation the path before and after the instrument, the effect type, and the field with the venue's identity.\<close>

definition operation_bindings :: "(string \<times> (string \<times> string option) \<times> wire_effect_type \<times> string) list" where
  "operation_bindings =
    [(''New limit order'', (''/api/v2/order/limit'', None), WIRE_PLACE_ORDER, ''id''),
     (''New market order'', (''/api/v2/order/market'', None), WIRE_PLACE_ORDER, ''id''),
     (''New stop-limit order'', (''/api/v2/order/stop-limit'', None), WIRE_PLACE_ORDER, ''id''),
     (CLOSE_OPERATION, (''/api/v2/position/'', Some ''/close''), WIRE_CLOSE_POSITION, ''id''),
     (TPSL_OPERATION, (''/api/tpsl/'', Some []), WIRE_PROTECTIVE_STOP, ''order'')]"

definition wire_numbers :: "string list" where
  "wire_numbers = [''quantity'', ''limitPrice'', ''stopPrice'', ''cashQuantity'', ''price'']"

definition eight_digits :: "nat \<Rightarrow> string" where
  "eight_digits n = (let d = nat_digits n in replicate (8 - length d) (CHR ''0'') @ d)"

definition rstrip_zeros :: "string \<Rightarrow> string" where
  "rstrip_zeros s = rev (dropWhile (\<lambda>c. c = CHR ''0'') (rev s))"

definition wire_decimal :: "int \<Rightarrow> string" where
  "wire_decimal v = (let whole = v div 100000000; fraction = v mod 100000000
     in int_text whole @ (if fraction \<noteq> 0 then CHR ''.'' # rstrip_zeros (eight_digits (nat fraction)) else []))"

fun wire_fields :: "obj \<Rightarrow> string list \<Rightarrow> obj \<Rightarrow> obj res" where
  "wire_fields message [] result = Inr result"
| "wire_fields message (f # fs) result = (case map_of message f of
       None \<Rightarrow> wire_fields message fs result
     | Some (JInt v) \<Rightarrow>
         if v < 0 then Inl (dispatch_error ''wire numeric geometry must use exact unsigned EIP integers'')
         else wire_fields message fs (dict_set f (JStr (wire_decimal v)) result)
     | Some _ \<Rightarrow> Inl (dispatch_error ''wire numeric geometry must use exact unsigned EIP integers''))"

definition wire_body :: "string \<Rightarrow> obj \<Rightarrow> string \<Rightarrow> obj res" where
  "wire_body operation message signature =
     (if map_of operation_bindings operation = None
      then Inl (dispatch_error ''wire operation has no reviewed REST normalization'')
      else rbind (wire_fields message wire_numbers message) (\<lambda>result.
        let timed = (if operation = ''New limit order'' then dict_set ''timeInForce'' (JStr ''IOC'') result else result)
        in Inr (dict_set ''signature'' (JStr signature) timed)))"

end
