(* ===== verification/Prod_Authorization.thy ===== *)
theory Prod_Authorization
  imports Prod_Messages
begin

text \<open>
  The policy of \<^verbatim>\<open>kairos_execution/signing_authorization.py\<close>: whether the resolved evidence of the owner's
  arm, its nonce claim, the operator, the risk decision and the exposure authorizes exactly one signing
  request at one instant. Sums and products of dollars are in the 28-digit default context.
\<close>

section \<open>Evidence\<close>

record nonce_claim =
  an_owner_identity :: string
  an_nonce :: string
  an_request_sha256 :: string
  an_context_sha256 :: string
  an_database_uuid :: string
  an_claimed_at :: instant

datatype operator_latch = ARMED | DISARMED | KILLED

record operator_state =
  lo_context :: production_context
  lo_version :: int
  lo_state :: operator_latch
  lo_arm_nonce :: "string option"
  lo_arm_request_sha256 :: "string option"
  lo_observed_at :: instant
  lo_changed_at :: instant
  lo_expires_at :: "instant option"
  lo_command_sha256 :: string
  lo_previous_command_sha256 :: string

record risk_geometry =
  rg_context :: production_context
  rg_decision_id :: string
  rg_signing_request_id :: string
  rg_effect_id :: string
  rg_client_order_id :: "string option"
  rg_operation :: string
  rg_instrument :: string
  rg_side :: "string option"
  rg_quantity :: int
  rg_cash_quantity :: "int option"
  rg_price :: "int option"
  rg_stop_price :: "int option"
  rg_protection_type :: "string option"
  rg_trigger_price :: "int option"
  rg_parent_order_id :: "string option"
  rg_leverage :: int
  rg_worst_case_loss_usd :: rat
  rg_account_equity_usd :: rat
  rg_daily_realized_loss_usd :: rat
  rg_aggregate_open_risk_usd :: rat
  rg_aggregate_open_notional_usd :: rat
  rg_observed_at :: instant
  rg_valid_until :: instant

record exposure_snapshot =
  xs_context :: production_context
  xs_instrument :: string
  xs_position_side :: string
  xs_remaining_quantity :: int
  xs_parent_order_id :: string
  xs_observed_at :: instant
  xs_valid_until :: instant

record signing_evidence =
  ev_owner_arm :: signed_arm
  ev_owner_nonce_claim :: nonce_claim
  ev_operator :: "operator_state option"
  ev_risk :: risk_geometry
  ev_exposure :: "exposure_snapshot option"
  ev_resolved_at :: instant

definition validate_nonce_claim :: "nonce_claim \<Rightarrow> unit res" where
  "validate_nonce_claim c = valid_when [bounded_text 160 (an_owner_identity c), bounded_text 160 (an_nonce c),
     valid_sha256 (an_request_sha256 c), valid_sha256 (an_context_sha256 c)]"

definition validate_operator :: "operator_state \<Rightarrow> unit res" where
  "validate_operator o1 = rbind (validate_context (lo_context o1)) (\<lambda>_. valid_when
     [0 < lo_version o1, pred_option valid_sha256 (lo_arm_request_sha256 o1),
      valid_sha256 (lo_command_sha256 o1), valid_sha256 (lo_previous_command_sha256 o1)])"

abbreviation side_text_ok :: "string \<Rightarrow> bool" where
  "side_text_ok s \<equiv> s \<in> {''BUY'', ''SELL''}"

definition validate_risk :: "risk_geometry \<Rightarrow> unit res" where
  "validate_risk r = rbind (validate_context (rg_context r)) (\<lambda>_. valid_when
     [bounded_text 160 (rg_decision_id r), bounded_text 160 (rg_signing_request_id r), valid_sha256 (rg_effect_id r),
      bounded_text 64 (rg_operation r), bounded_text 64 (rg_instrument r), pred_option side_text_ok (rg_side r),
      0 \<le> rg_quantity r, pred_option (\<lambda>x. 0 < x) (rg_cash_quantity r), pred_option (\<lambda>x. 0 < x) (rg_price r),
      pred_option (\<lambda>x. 0 < x) (rg_stop_price r),
      pred_option (\<lambda>t. t \<in> {''stop-loss'', ''take-profit''}) (rg_protection_type r),
      pred_option (\<lambda>x. 0 < x) (rg_trigger_price r), rg_leverage r = 1, 0 < rg_worst_case_loss_usd r,
      0 < rg_account_equity_usd r, 0 \<le> rg_daily_realized_loss_usd r, 0 \<le> rg_aggregate_open_risk_usd r,
      0 \<le> rg_aggregate_open_notional_usd r])"

definition validate_exposure :: "exposure_snapshot \<Rightarrow> unit res" where
  "validate_exposure x = rbind (validate_context (xs_context x)) (\<lambda>_. valid_when
     [bounded_text 64 (xs_instrument x), side_text_ok (xs_position_side x), 0 < xs_remaining_quantity x,
      bounded_text 160 (xs_parent_order_id x)])"

definition validate_evidence :: "signing_evidence \<Rightarrow> unit res" where
  "validate_evidence e = rbind (validate_signed_arm (ev_owner_arm e)) (\<lambda>_.
     rbind (validate_nonce_claim (ev_owner_nonce_claim e)) (\<lambda>_.
     rbind (case ev_operator e of None \<Rightarrow> Inr () | Some o1 \<Rightarrow> validate_operator o1) (\<lambda>_.
     rbind (validate_risk (ev_risk e)) (\<lambda>_.
     (case ev_exposure e of None \<Rightarrow> Inr () | Some x \<Rightarrow> validate_exposure x)))))"

section \<open>The verifier\<close>

record auth_config =
  ac_codec :: production_codec
  ac_preconditions :: preconditions
  ac_owner_key :: owner_key
  ac_owner_key_sha256 :: string
  ac_owner :: string
  ac_claim_database_uuid :: string
  ac_arm_lifetime :: int
  ac_max_age :: int

definition seconds :: "int \<Rightarrow> int" where
  "seconds n = n * 1000000"

definition new_authorization :: "auth_config \<Rightarrow> auth_config res" where
  "new_authorization A = rbind (ensure
     [(0 < ac_arm_lifetime A \<and> ac_arm_lifetime A \<le> seconds 600,
       refused ''manual-arm lifetime must be positive and at most ten minutes''),
      (0 < ac_max_age A \<and> ac_max_age A \<le> seconds 5, refused ''authorization state freshness may not exceed five seconds'')])
     (\<lambda>_. rbind (validate_preconditions (ac_preconditions A)) (\<lambda>_. rbind (validate_owner_key (ac_owner_key A)) (\<lambda>_.
     rbind (ensure [(ac_claim_database_uuid A \<noteq> ''00000000-0000-0000-0000-000000000000'',
       refused ''an exact nonzero isolated claim database UUID is required'')]) (\<lambda>_. Inr A))))"

definition validate_scope :: "auth_config \<Rightarrow> signing_request \<Rightarrow> custody_binding \<Rightarrow> py_datetime \<Rightarrow> instant res" where
  "validate_scope A q b t = rbind (aware t) (\<lambda>now. rbind (validate_signing_request q) (\<lambda>_. rbind (validate_custody b) (\<lambda>_.
     rbind (ensure
     [(\<not> (sq_context q \<noteq> cb_context b \<or> sq_context q \<noteq> pr_context (ac_preconditions A)),
       signing_error ''authorization context differs from custody/readiness scope''),
      (\<not> (sq_custody_receipt_sha256 q \<noteq> cb_custody_receipt_sha256 b
        \<or> cb_schema_sha256 b \<noteq> reviewed_schema_sha256 (cb_chain_id b)),
       signing_error ''custody receipt or reviewed schema binding differs''),
      (now < sq_expires_at q \<and> sq_expires_at q \<le> now + seconds 30,
       signing_error ''signing request is expired or exceeds the deadline bound'')]) (\<lambda>_. Inr now))))"

definition is_exit :: "signing_request \<Rightarrow> bool" where
  "is_exit q \<longleftrightarrow> sq_operation q \<in> {CLOSE_OPERATION, TPSL_OPERATION}"

text \<open>\<^verbatim>\<open>message[field] != risk_value\<close> for a text, a number, and values that may be absent.\<close>

definition json_of_text :: "string option \<Rightarrow> json" where
  "json_of_text v = (case v of None \<Rightarrow> JNull | Some s \<Rightarrow> JStr s)"

definition json_of_int :: "int option \<Rightarrow> json" where
  "json_of_int v = (case v of None \<Rightarrow> JNull | Some i \<Rightarrow> JInt i)"

definition geometry_agrees :: "obj \<Rightarrow> risk_geometry \<Rightarrow> bool" where
  "geometry_agrees m r \<longleftrightarrow> list_all (\<lambda>(name, v). \<not> (has_field m name \<and> field m name \<noteq> v))
     [(''side'', json_of_text (rg_side r)), (''quantity'', JInt (rg_quantity r)),
      (''cashQuantity'', json_of_int (rg_cash_quantity r)), (''limitPrice'', json_of_int (rg_price r)),
      (''stopPrice'', json_of_int (rg_stop_price r)), (''order'', json_of_text (rg_parent_order_id r))]"

definition required_exit_side :: "signing_request \<Rightarrow> exposure_snapshot \<Rightarrow> string" where
  "required_exit_side q x = (if sq_operation q = TPSL_OPERATION then xs_position_side x
     else if xs_position_side x = ''BUY'' then ''SELL'' else ''BUY'')"

definition int_value :: "json \<Rightarrow> int" where
  "int_value v = (case v of JInt i \<Rightarrow> i | _ \<Rightarrow> 0)"

definition verify_exit :: "signing_evidence \<Rightarrow> signing_request \<Rightarrow> obj \<Rightarrow> production_context \<Rightarrow> instant \<Rightarrow> unit res" where
  "verify_exit e q m expected now = (let r = ev_risk e in case ev_exposure e of
     None \<Rightarrow> Inl (signing_error ''protective exit lacks current authoritative exposure lineage'')
   | Some x \<Rightarrow> ensure
     [(xs_context x = expected, signing_error ''protective exit lacks current authoritative exposure lineage''),
      (\<not> (xs_valid_until x \<le> now \<or> xs_valid_until x - xs_observed_at x > seconds 5),
       signing_error ''protective exit exposure snapshot is stale''),
      (sq_expires_at q \<le> xs_valid_until x, signing_error ''signing deadline extends beyond the exposure snapshot lease''),
      (\<not> (xs_observed_at x > now \<or> now - xs_observed_at x > seconds 5),
       signing_error ''protective exit exposure snapshot is stale''),
      (field m ''instrument'' = JStr (xs_instrument x), signing_error ''exit instrument differs from authoritative exposure''),
      (\<not> (rg_side r \<noteq> Some (required_exit_side q x)
        \<or> field m ''side'' \<noteq> JNull \<and> field m ''side'' \<noteq> JStr (required_exit_side q x)),
       signing_error (if sq_operation q = TPSL_OPERATION then ''protection side differs from the protected position side''
         else ''exit side is not the reducing side for authoritative exposure'')),
      (sq_operation q = TPSL_OPERATION \<and> field m ''quantity'' = JInt 0
        \<or> \<not> (int_value (field m ''quantity'') \<le> 0 \<or> int_value (field m ''quantity'') > xs_remaining_quantity x),
       signing_error ''exit quantity exceeds remaining exposure''),
      (\<not> (has_field m ''order'' \<and> field m ''order'' \<noteq> JStr (xs_parent_order_id x)),
       signing_error ''protective exit parent differs from authoritative exposure''),
      (rg_parent_order_id r = Some (xs_parent_order_id x),
       signing_error ''risk decision parent differs from authoritative exposure''),
      (\<not> (rg_operation r = TPSL_OPERATION \<and> (field m ''type'' \<noteq> json_of_text (rg_protection_type r)
        \<or> field m ''price'' \<noteq> json_of_int (rg_trigger_price r)
        \<or> field m ''type'' \<notin> {JStr ''stop-loss'', JStr ''take-profit''})),
       signing_error ''protective trigger type/price differs from risk authorization'')])"

definition verify_operator :: "signing_evidence \<Rightarrow> signing_request \<Rightarrow> manual_arm \<Rightarrow> string \<Rightarrow> production_context \<Rightarrow> instant \<Rightarrow> unit res" where
  "verify_operator e q arm arm_digest expected now = (case ev_operator e of
     None \<Rightarrow> Inl (signing_error ''fresh deployed operator state is unavailable'')
   | Some o1 \<Rightarrow> ensure
     [(\<not> (lo_context o1 \<noteq> expected \<or> lo_version o1 \<le> 0), signing_error ''operator state scope or version is invalid''),
      (lo_state o1 = ARMED \<and> (case lo_expires_at o1 of None \<Rightarrow> False | Some t \<Rightarrow> now < t),
       signing_error ''fresh deployed operator state is not armed''),
      (\<not> (lo_arm_nonce o1 \<noteq> Some (ma_nonce arm) \<or> lo_arm_request_sha256 o1 \<noteq> Some arm_digest),
       signing_error ''operator ARM is not bound to this accepted owner request''),
      (case lo_expires_at o1 of None \<Rightarrow> False | Some t \<Rightarrow> sq_expires_at q \<le> t,
       signing_error ''signing deadline extends beyond the operator ARM lease'')])"

definition notional_of :: "obj \<Rightarrow> rat res" where
  "notional_of m =
     (if has_field m ''cashQuantity'' then Inr (ddiv 28 (of_int (int_value (field m ''cashQuantity''))) (10 ^ 8))
      else if has_field m ''quantity'' \<and> (has_field m ''limitPrice'' \<or> has_field m ''price'')
      then (case (if has_field m ''limitPrice'' then field m ''limitPrice'' else field m ''price'') of
          JInt p \<Rightarrow> Inr (ddiv 28 (dmul 28 (of_int (int_value (field m ''quantity''))) (of_int p)) (10 ^ 16))
        | _ \<Rightarrow> Inl (signing_error ''typed order lacks an exact authoritative price''))
      else Inr 0)"

definition within_limits :: "risk_geometry \<Rightarrow> manual_arm \<Rightarrow> rat \<Rightarrow> bool" where
  "within_limits r arm notional \<longleftrightarrow>
     \<not> (rg_worst_case_loss_usd r > ma_dollar_cap arm
       \<or> dadd 28 (rg_daily_realized_loss_usd r) (rg_worst_case_loss_usd r) > ma_daily_stop_loss_usd arm
       \<or> rg_worst_case_loss_usd r > dmul 28 (rg_account_equity_usd r) (25 / 10000)
       \<or> dadd 28 (rg_aggregate_open_risk_usd r) (rg_worst_case_loss_usd r) > dmul 28 (rg_account_equity_usd r) (1 / 100)
       \<or> dadd 28 (rg_aggregate_open_notional_usd r) notional > ma_dollar_cap arm
       \<or> rg_leverage r \<noteq> 1)"

definition nonce_bound :: "auth_config \<Rightarrow> signing_request \<Rightarrow> nonce_claim \<Rightarrow> manual_arm \<Rightarrow> string \<Rightarrow> instant \<Rightarrow> bool" where
  "nonce_bound A q c arm arm_digest now \<longleftrightarrow>
     \<not> (sq_manual_request_sha256 q \<noteq> arm_digest \<or> an_owner_identity c \<noteq> ma_owner_identity arm
       \<or> an_nonce c \<noteq> ma_nonce arm \<or> an_request_sha256 c \<noteq> arm_digest
       \<or> an_context_sha256 c \<noteq> context_digest (ma_context arm) \<or> an_claimed_at c > now
       \<or> an_claimed_at c < ma_created_at arm \<or> an_database_uuid c \<noteq> ac_claim_database_uuid A)"

definition freshness_ok :: "auth_config \<Rightarrow> instant list \<Rightarrow> instant \<Rightarrow> bool" where
  "freshness_ok A ts now \<longleftrightarrow> \<not> list_ex (\<lambda>t. t > now \<or> now - t > ac_max_age A) ts"

definition verify_risk :: "auth_config \<Rightarrow> signing_request \<Rightarrow> custody_binding \<Rightarrow> signing_evidence \<Rightarrow> obj \<Rightarrow> instant \<Rightarrow> unit res" where
  "verify_risk A q b e m now = (let r = ev_risk e in rbind (ensure
     [(\<not> (rg_signing_request_id r \<noteq> sq_request_id q \<or> rg_effect_id r \<noteq> signing_effect_id q m (rg_decision_id r)
        \<or> json_of_text (rg_client_order_id r) \<noteq> field m ''id''),
       signing_error ''risk decision is not bound to this exact order/request effect''),
      (\<not> (\<not> is_exit q \<and> ev_operator e = None), signing_error ''fresh deployed operator state is unavailable'')]) (\<lambda>_. ensure
     [(freshness_ok A ([ev_resolved_at e, rg_observed_at r]
         @ (if is_exit q then [] else [lo_observed_at (the (ev_operator e))])) now,
       signing_error ''operator or risk evidence is stale or future-dated''),
      (\<not> (rg_context r \<noteq> cb_context b \<or> rg_valid_until r \<le> now \<or> rg_valid_until r - rg_observed_at r > seconds 30),
       signing_error ''risk authorization is stale or outside its fixed validity bound''),
      (sq_expires_at q \<le> rg_valid_until r, signing_error ''signing deadline extends beyond the risk authorization lease''),
      (\<not> (rg_operation r \<noteq> sq_operation q \<or> JStr (rg_instrument r) \<noteq> field m ''instrument''),
       signing_error ''risk decision operation/instrument differs from typed order''),
      (geometry_agrees m r, signing_error ''typed order geometry differs from authoritative risk sizing'')]))"

definition verify_evidence ::
  "auth_config \<Rightarrow> signing_request \<Rightarrow> custody_binding \<Rightarrow> signing_evidence \<Rightarrow> instant \<Rightarrow> unit res" where
  "verify_evidence A q b e now =
     (case verify_owner_signed_arm (ac_codec A) (ev_owner_arm e) (ac_preconditions A) (ac_owner_key A) (ac_owner_key_sha256 A)
         (ac_owner A) (if is_exit q then an_claimed_at (ev_owner_nonce_claim e) else now) (ac_arm_lifetime A) of
       Inl _ \<Rightarrow> Inl (signing_error ''owner arm or authoritative authorization state is unavailable'')
     | Inr (arm, arm_digest) \<Rightarrow> rbind (ensure
         [(nonce_bound A q (ev_owner_nonce_claim e) arm arm_digest now,
           signing_error ''owner arm has no exact accepted durable nonce claim'')]) (\<lambda>_.
       (case typed_message q b of
         Inl _ \<Rightarrow> Inl (signing_error ''typed order geometry cannot be authorized'')
       | Inr (_, m) \<Rightarrow> rbind (verify_risk A q b e m now) (\<lambda>_.
           rbind (if is_exit q then verify_exit e q m (cb_context b) now
                  else verify_operator e q arm arm_digest (cb_context b) now) (\<lambda>_.
           rbind (notional_of m) (\<lambda>notional. ensure
             [(\<not> (\<not> is_exit q \<and> \<not> within_limits (ev_risk e) arm notional),
               signing_error ''owner or fixed per-trade/aggregate risk limit is exceeded'')]))))))"

end
