(* ===== verification/Prod_Binding.thy ===== *)
theory Prod_Binding
  imports Prod_Authorization Paper_Policy
begin

text \<open>
  \<^verbatim>\<open>kairos_execution/production_lifecycle_binding.py\<close>: from an approved decision to the one signing request of
  each of its effects. The decision is the record of \<open>Paper_Types\<close>; what its contract class does when it
  validates and dumps one is a parameter.
\<close>

section \<open>Records\<close>

text \<open>\<^verbatim>\<open>RiskTradeDecisionV1.model_validate\<close> of a stored payload and of \<^verbatim>\<open>decision.to_payload()\<close>, and \<^verbatim>\<open>model_dump\<close>.\<close>

record live_codec =
  lv_decision :: "json \<Rightarrow> risk_decision res"
  lv_revalidate :: "risk_decision \<Rightarrow> risk_decision res"
  lv_payload :: "risk_decision \<Rightarrow> json"

record lifecycle_plan =
  lp_context :: production_context
  lp_decision_id :: string
  lp_trade_id :: string
  lp_decision_sha256 :: string
  lp_role :: order_role
  lp_risk_decision_id :: string
  lp_lifecycle_effect_id :: string
  lp_signing_effect_id :: string
  lp_request :: signing_request

text \<open>Rows of the durable trades and effects, with the columns that only the production path reads.\<close>

record live_trade = trade_row +
  lt_trading_mode :: string
  lt_profile :: string
  lt_exchange :: string
  lt_venue_symbol :: string

record live_effect = effect_row +
  le_exchange :: string

definition validate_plan :: "lifecycle_plan \<Rightarrow> unit res" where
  "validate_plan p = (rbind (validate_context (lp_context p)) (\<lambda>_.
     rbind (validate_signing_request (lp_request p)) (\<lambda>_.
     valid_when (map valid_sha256 [lp_decision_id p, lp_trade_id p, lp_decision_sha256 p, lp_risk_decision_id p,
       lp_lifecycle_effect_id p, lp_signing_effect_id p]))))"

section \<open>Numbers and identifiers\<close>

definition exact_evedex_integer :: "f64 \<Rightarrow> string \<Rightarrow> int res" where
  "exact_evedex_integer value name = (case float_decimal value of
       Inl _ \<Rightarrow> Inl (refused (name @ '' must be finite and positive''))
     | Inr d \<Rightarrow> if d \<le> 0 then Inl (refused (name @ '' must be finite and positive''))
         else (let scaled = dmul 28 d (10 ^ 8); integral = rhe scaled
           in if scaled \<noteq> of_int integral
              then Inl (refused (name @ '' is not exactly representable at EVEDEX precision 1e8''))
              else Inr integral))"

text \<open>\<^verbatim>\<open>str.isdigit\<close> also accepts the superscripts, which \<^verbatim>\<open>int\<close> then refuses.\<close>

definition isdigit_char :: "char \<Rightarrow> bool" where
  "isdigit_char c \<longleftrightarrow> is_digit c \<or> (of_char c :: nat) \<in> {178, 179, 185}"

definition trade_id_text :: "risk_decision \<Rightarrow> string" where
  "trade_id_text d = (case rd_trade_id d of Some s \<Rightarrow> s | None \<Rightarrow> ''None'')"

definition validate_client_id :: "string \<Rightarrow> risk_decision \<Rightarrow> order_role \<Rightarrow> unit res" where
  "validate_client_id value d role = (rbind (ensure [(\<not> (length value < 6 \<or> value ! 5 \<noteq> CHR '':'' \<or> \<not> list_all isdigit_char (take 5 value)),
         refused ''persisted EVEDEX client ID is malformed''),
       (list_all is_digit (take 5 value), refused ''invalid literal for int() with base 10'')]) (\<lambda>_.
     let order_date = utc_datetime ((evedex_epoch_day + int (digits_nat (take 5 value))) * 86400000000) in
     rbind (client_order_id (trade_id_text d @ '':'' @ role_text role) ''evedex'' (Some order_date) order_date) (\<lambda>expected.
     ensure [(value = expected, refused ''persisted EVEDEX client ID differs from the original Core trade/role'')])))"

section \<open>The request of one effect\<close>

definition validate_inputs :: "live_codec \<Rightarrow> risk_decision \<Rightarrow> production_context \<Rightarrow> custody_binding \<Rightarrow> risk_decision res" where
  "validate_inputs L d0 cx b = (rbind (lv_revalidate L d0) (\<lambda>d.
     rbind (validate_context cx) (\<lambda>_.
     rbind (validate_custody b) (\<lambda>_.
     rbind (ensure [(\<not> (\<not> rd_approved d \<or> rd_trading_mode d \<noteq> ''LIVE''), refused ''only an approved Core LIVE decision can be bridged''),
       (rd_profile d = ''PROD'', refused ''Core LIVE decision must target EVEDEX PROD''),
       (\<not> (rd_decision_id d = None \<or> rd_trade_id d = None), refused ''Core decision and trade identities are required''),
       (\<not> (rd_account_id d \<noteq> px_remote_account_id cx \<or> rd_account_id d \<noteq> px_remote_account_id (cb_context b)
         \<or> cx \<noteq> cb_context b), refused ''Core decision, production context, and custody scope differ''),
       (ti_strategy_id (rd_intent d) = px_adaptive_system_id cx,
         refused ''Core decision strategy differs from the production adaptive system''),
       (\<not> (drop (length (rd_venue_symbol d) - 4) (rd_venue_symbol d) = '':DEV''
         \<or> rd_venue_symbol d \<notin> set (cb_approved_instruments b)),
         refused ''Core decision instrument is not an approved EVEDEX PROD instrument''),
       (feq (rd_leverage d) fone, refused ''production lifecycle bridge permits only 1x leverage'')]) (\<lambda>_.
     Inr d)))))"

text \<open>\<^verbatim>\<open>t.timestamp() * 1000\<close>, compared with an integer exactly.\<close>

definition timestamp_millis :: "instant \<Rightarrow> rat" where
  "timestamp_millis t = rnd64 (rnd64 (of_int t / 1000000) * 1000)"

definition entry_window_ok :: "risk_decision \<Rightarrow> instant \<Rightarrow> instant \<Rightarrow> bool" where
  "entry_window_ok d now expires_at \<longleftrightarrow>
     (let original_deadline_ms = min (ti_entry_expires_ts_ms (rd_intent d)) (rd_quality_expires_at_ms d) in
      \<not> (timestamp_millis now < of_int (max (rd_decided_at_ms d) (ti_entry_eligible_ts_ms (rd_intent d)))
        \<or> timestamp_millis expires_at > of_int original_deadline_ms))"

definition position_side :: "risk_decision \<Rightarrow> string" where
  "position_side d = (if ti_side (rd_intent d) = LONG_SIDE then ''BUY'' else ''SELL'')"

definition lifecycle_message ::
  "risk_decision \<Rightarrow> order_role \<Rightarrow> string \<Rightarrow> string option \<Rightarrow> f64 option \<Rightarrow> int \<Rightarrow> int \<Rightarrow> obj res" where
  "lifecycle_message d role cid parent close_quantity quantity chain_id =
     (if role = ENTRY then (rbind (exact_evedex_integer (rd_worst_entry_price d) ''worst entry price'') (\<lambda>price.
     Inr [(''id'', JStr cid), (''instrument'', JStr (rd_venue_symbol d)), (''side'', JStr (position_side d)),
          (''leverage'', JInt 1), (''quantity'', JInt quantity), (''limitPrice'', JInt price), (''chainId'', JInt chain_id)]))
      else if role \<in> {STOP_LOSS, TAKE_PROFIT} then (case parent of
          None \<Rightarrow> Inl (refused ''protective lifecycle effect requires its persisted parent entry ID'')
        | Some p \<Rightarrow> (rbind (validate_client_id p d ENTRY) (\<lambda>_.
     rbind (exact_evedex_integer (if role = STOP_LOSS then rd_stop_price d else rd_target_price d)
              ''protective trigger price'') (\<lambda>price.
     Inr [(''instrument'', JStr (rd_venue_symbol d)),
              (''type'', JStr (if role = STOP_LOSS then ''stop-loss'' else ''take-profit'')),
              (''side'', JStr (position_side d)), (''quantity'', JInt 0), (''price'', JInt price), (''order'', JStr p)]))))
      else (rbind (exact_evedex_integer (case close_quantity of None \<Rightarrow> rd_quantity d | Some x \<Rightarrow> x) ''close quantity'') (\<lambda>closing.
     Inr [(''id'', JStr cid), (''instrument'', JStr (rd_venue_symbol d)), (''leverage'', JInt 1),
          (''quantity'', JInt closing), (''chainId'', JInt chain_id)])))"

definition role_operation :: "order_role \<Rightarrow> string" where
  "role_operation role = (case role of ENTRY \<Rightarrow> ''New limit order'' | STOP_LOSS \<Rightarrow> TPSL_OPERATION
     | TAKE_PROFIT \<Rightarrow> TPSL_OPERATION | _ \<Rightarrow> CLOSE_OPERATION)"

definition request_identity :: "live_codec \<Rightarrow> risk_decision \<Rightarrow> production_context \<Rightarrow> string \<Rightarrow> order_role \<Rightarrow> string" where
  "request_identity L d cx effect role = ''lifecycle-'' @ digest_of (JObj
     [(''domain'', JStr ''kairos.production-lifecycle-request.v1''), (''context_sha256'', JStr (context_digest cx)),
      (''trade_id'', json_of_text (rd_trade_id d)), (''decision_id'', json_of_text (rd_decision_id d)),
      (''decision_sha256'', JStr (digest_of (lv_payload L d))), (''lifecycle_effect_id'', JStr effect),
      (''role'', JStr (role_text role))])"

text \<open>What the caller asks for; the expiry and the digest come from the stored plan.\<close>

record plan_query =
  pq_role :: order_role
  pq_effect_id :: string
  pq_client_order_id :: "string option"
  pq_manual_sha256 :: string
  pq_expires_at :: instant
  pq_parent :: "string option"
  pq_close_quantity :: "f64 option"
  pq_risk_decision_id :: "string option"

definition build_plan ::
  "live_codec \<Rightarrow> risk_decision \<Rightarrow> production_context \<Rightarrow> custody_binding \<Rightarrow> plan_query \<Rightarrow> py_datetime \<Rightarrow> lifecycle_plan res" where
  "build_plan L d0 cx b r t = (rbind (validate_inputs L d0 cx b) (\<lambda>d.
     rbind (ensure [(dt_offset_us t = Some 0, refused ''now must be an explicit UTC timestamp''),
       (\<not> (pq_expires_at r \<le> dt_wall_us t \<or> pq_expires_at r - dt_wall_us t > seconds 30),
         refused ''original signing deadline must be in the next 30 seconds''),
       (pq_role r = ENTRY \<longrightarrow> entry_window_ok d (dt_wall_us t) (pq_expires_at r),
         refused ''entry signing cannot retime the original Core decision/evidence window''),
       (valid_sha256 (pq_manual_sha256 r), refused ''manual request digest must be lowercase SHA-256'')]) (\<lambda>_.
     let own = the (rd_decision_id d) in
     let risk_id = (case pq_risk_decision_id r of Some s \<Rightarrow> if s = [] then own else s | None \<Rightarrow> own) in
     rbind (ensure [(valid_sha256 risk_id, refused ''risk decision ID must be lowercase SHA-256''),
       (\<not> (pq_role r = ENTRY \<and> risk_id \<noteq> own), refused ''entry risk identity must be the original Core decision'')]) (\<lambda>_.
     rbind (exact_evedex_integer (rd_quantity d) ''decision quantity'') (\<lambda>quantity.
     rbind (ensure [(ti_side (rd_intent d) \<in> {LONG_SIDE, SHORT_SIDE}, refused ''flat Core decisions cannot create lifecycle effects''),
       (valid_sha256 (pq_effect_id r), refused ''persisted lifecycle effect ID must be lowercase SHA-256'')]) (\<lambda>_.
     rbind ((case pq_client_order_id r of Some c \<Rightarrow> Inr c | None \<Rightarrow> raise TypeError ''expected string or bytes-like object, got NoneType'')) (\<lambda>cid.
     rbind (ensure [(is_fresh_evedex_client_order_id cid t, refused ''EVEDEX lifecycle client order ID is not fresh'')]) (\<lambda>_.
     rbind (validate_client_id cid d (pq_role r)) (\<lambda>_.
     rbind (lifecycle_message d (pq_role r) cid (pq_parent r) (pq_close_quantity r) quantity (cb_chain_id b)) (\<lambda>message.
     let q = \<lparr> sq_request_id = request_identity L d cx (pq_effect_id r) (pq_role r), sq_context = cx,
         sq_manual_request_sha256 = pq_manual_sha256 r, sq_custody_receipt_sha256 = cb_custody_receipt_sha256 b,
         sq_operation = role_operation (pq_role r), sq_message_json = compact_text (JObj message),
         sq_expires_at = pq_expires_at r \<rparr> in
     rbind (validate_signing_request q) (\<lambda>_.
     rbind (typed_message q b) (\<lambda>typed.
     let p = \<lparr> lp_context = cx, lp_decision_id = own, lp_trade_id = the (rd_trade_id d),
         lp_decision_sha256 = digest_of (lv_payload L d), lp_role = pq_role r, lp_risk_decision_id = risk_id,
         lp_lifecycle_effect_id = pq_effect_id r, lp_signing_effect_id = signing_effect_id q (snd typed) risk_id,
         lp_request = q \<rparr> in
     rbind (validate_plan p) (\<lambda>_.
     Inr p)))))))))))))"

section \<open>The evidence of an entry\<close>

definition entry_geometry_exact :: "lifecycle_plan \<Rightarrow> risk_decision \<Rightarrow> obj \<Rightarrow> rat \<Rightarrow> risk_geometry \<Rightarrow> bool" where
  "entry_geometry_exact p d m loss r \<longleftrightarrow>
     rg_context r = lp_context p \<and> Some (rg_decision_id r) = rd_decision_id d
   \<and> rg_signing_request_id r = sq_request_id (lp_request p) \<and> rg_effect_id r = lp_signing_effect_id p
   \<and> json_of_text (rg_client_order_id r) = field m ''id'' \<and> rg_operation r = ''New limit order''
   \<and> rg_instrument r = rd_venue_symbol d \<and> rg_side r = Some (position_side d)
   \<and> JInt (rg_quantity r) = field m ''quantity'' \<and> json_of_int (rg_price r) = field m ''limitPrice''
   \<and> rg_leverage r = 1 \<and> rg_worst_case_loss_usd r = loss"

definition loaded_object :: "string \<Rightarrow> obj res" where
  "loaded_object s = (case json_loads plain_object s of
     Some (JObj m) \<Rightarrow> Inr m | Some _ \<Rightarrow> raise TypeError ''message is not an object'' | None \<Rightarrow> raise ValueError ''malformed JSON'')"

definition compare_entry_risk :: "live_codec \<Rightarrow> risk_decision \<Rightarrow> lifecycle_plan \<Rightarrow> signing_evidence \<Rightarrow> unit res" where
  "compare_entry_risk L d0 p e = (rbind (lv_revalidate L d0) (\<lambda>d.
     rbind (validate_plan p) (\<lambda>_.
     rbind (validate_evidence e) (\<lambda>_.
     rbind (ensure [(lp_role p = ENTRY, refused ''Core entry comparison applies only to ENTRY effects''),
       (\<not> (Some (lp_decision_id p) \<noteq> rd_decision_id d \<or> Some (lp_trade_id p) \<noteq> rd_trade_id d
         \<or> lp_decision_sha256 p \<noteq> digest_of (lv_payload L d) \<or> Some (lp_risk_decision_id p) \<noteq> rd_decision_id d),
         refused ''lifecycle binding differs from the immutable Core decision'')]) (\<lambda>_.
     rbind (loaded_object (sq_message_json (lp_request p))) (\<lambda>m.
     rbind (ensure [(has_field m ''id'' \<and> has_field m ''quantity'' \<and> has_field m ''limitPrice'', Exn KeyError ''message field'')]) (\<lambda>_.
     rbind (float_decimal (rd_worst_case_loss_usd d)) (\<lambda>loss.
     ensure [(entry_geometry_exact p d m loss (ev_risk e),
       refused ''production signing risk geometry differs from the immutable Core entry decision'')]))))))))"

end
