(* ===== verification/Prod_Venue.thy ===== *)
theory Prod_Venue
  imports Prod_Binding
begin

text \<open>
  The records of \<^verbatim>\<open>kairos_execution/production_cancellation.py\<close>: the facts of one account and instrument
  that a cancellation is judged on, their validation, and the reservation of an entry that the state
  source resolves. A decimal of a validated record is finite, so it is its value.
\<close>

section \<open>Venue facts\<close>

definition instrument_text_ok :: "string \<Rightarrow> bool" where
  "instrument_text_ok s \<longleftrightarrow> 1 \<le> length s \<and> length s \<le> 32
     \<and> list_all (\<lambda>c. is_digit c \<or> (let n = (of_char c :: nat) in 65 \<le> n \<and> n \<le> 90)) s"

record order_fact =
  vo_order_id :: string
  vo_instrument :: string
  vo_role :: string
  vo_status :: string
  vo_side :: string
  vo_remaining_quantity :: rat
  vo_reduce_only :: bool
  vo_parent_order_id :: "string option"

record protection_fact =
  vp_protection_id :: string
  vp_instrument :: string
  vp_protection_type :: string
  vp_status :: string
  vp_parent_order_id :: string
  vp_covered_quantity :: rat

record venue_snapshot =
  vs_context :: production_context
  vs_source_id :: string
  vs_account_id :: string
  vs_instrument :: string
  vs_observed_at :: instant
  vs_valid_until :: instant
  vs_position_side :: "string option"
  vs_position_quantity :: rat
  vs_entry_parent_order_id :: "string option"
  vs_orders :: "order_fact list"
  vs_protections :: "protection_fact list"

definition order_fact_ok :: "order_fact \<Rightarrow> bool" where
  "order_fact_ok f \<longleftrightarrow> identity_ok (vo_order_id f) \<and> instrument_text_ok (vo_instrument f)
     \<and> vo_role f \<in> {''ENTRY'', ''EXIT''} \<and> vo_status f \<in> {''OPEN'', ''PARTIALLY_FILLED''} \<and> side_text_ok (vo_side f)
     \<and> 0 < vo_remaining_quantity f \<and> pred_option (bounded_text 160) (vo_parent_order_id f)"

definition protection_fact_ok :: "protection_fact \<Rightarrow> bool" where
  "protection_fact_ok f \<longleftrightarrow> identity_ok (vp_protection_id f) \<and> instrument_text_ok (vp_instrument f)
     \<and> vp_protection_type f \<in> {''STOP_LOSS'', ''TAKE_PROFIT''} \<and> vp_status f = ''ACTIVE''
     \<and> identity_ok (vp_parent_order_id f) \<and> 0 < vp_covered_quantity f"

definition snapshot_max_age :: int where
  "snapshot_max_age = seconds 5"

definition validate_snapshot :: "venue_snapshot \<Rightarrow> unit res" where
  "validate_snapshot s = rbind (validate_context (vs_context s)) (\<lambda>_. valid_when
     [identity_ok (vs_source_id s), identity_ok (vs_account_id s), instrument_text_ok (vs_instrument s),
      pred_option side_text_ok (vs_position_side s), 0 \<le> vs_position_quantity s,
      pred_option (bounded_text 160) (vs_entry_parent_order_id s),
      length (vs_orders s) \<le> 512, list_all order_fact_ok (vs_orders s),
      length (vs_protections s) \<le> 512, list_all protection_fact_ok (vs_protections s),
      vs_position_quantity s = 0 \<longleftrightarrow> vs_position_side s = None,
      \<not> (vs_valid_until s \<le> vs_observed_at s \<or> vs_valid_until s - vs_observed_at s > snapshot_max_age),
      distinct (map vo_order_id (vs_orders s)), distinct (map vp_protection_id (vs_protections s))])"

section \<open>The reservation of an entry\<close>

text \<open>\<^verbatim>\<open>AcceptedEntryReservationV1\<close>, with the fields that a cancellation compares.\<close>

record entry_reservation =
  er_effect_id :: string
  er_signing_request_id :: string
  er_decision_id :: string
  er_client_order_id :: string
  er_owner_arm_sha256 :: string
  er_risk :: risk_geometry
  er_dollar_cap :: rat
  er_daily_stop_loss_usd :: rat

end
