(* ===== verification/Prod_Claims.thy ===== *)
theory Prod_Claims
  imports Prod_Records
begin

text \<open>
  The one-use claims of \<^verbatim>\<open>kairos_execution/production_claims.py\<close>: the three insert-only tables of its
  schema, and each operation of \<^verbatim>\<open>PostgresProductionClaims\<close> as one transaction over them. A call may
  also fail on its connection, before or after the transaction committed. The interface
  \<open>one_use_store\<close> states what its clients rely on: over any calls and failures a key is granted once.
\<close>

section \<open>Tables\<close>

type_synonym claim_key = "string \<times> string \<times> string"

record claim_row =
  cw_request_sha256 :: string
  cw_context_sha256 :: string
  cw_claimed_at :: instant

record terminal_row =
  tm_request_sha256 :: string
  tm_status :: string
  tm_result_sha256 :: "string option"

record claims_db =
  db_claims :: "(claim_key \<times> claim_row) list"
  db_terminals :: "(claim_key \<times> terminal_row) list"

text \<open>The tables \<^verbatim>\<open>terminals\<close> and \<^verbatim>\<open>wire_terminals\<close> are one association list, by their fixed claim kinds.\<close>

abbreviation claim_error :: "string \<Rightarrow> exn" where
  "claim_error m \<equiv> Exn (OtherError ''ProductionClaimError'') m"

definition checked_identity :: "string \<Rightarrow> unit res" where
  "checked_identity v = (if identity_ok v then Inr () else Inl (claim_error ''invalid production evidence identity''))"

definition checked_digest :: "string \<Rightarrow> unit res" where
  "checked_digest v = (if valid_sha256 v then Inr () else Inl (claim_error ''invalid production evidence digest''))"

definition claim_kinds :: "string list" where
  "claim_kinds = [''MANUAL_NONCE'', ''TYPED_SIGNING'', ''WIRE_DISPATCH'']"

definition utc :: "instant \<Rightarrow> py_datetime" where
  "utc now = \<lparr> dt_wall_us = now, dt_offset_us = Some 0 \<rparr>"

section \<open>Transactions\<close>

text \<open>\<^verbatim>\<open>INSERT ... ON CONFLICT DO NOTHING RETURNING\<close>, and the comparison with the prior row.\<close>

definition claim_tx :: "string \<Rightarrow> instant \<Rightarrow> claims_db \<Rightarrow> claim_key \<Rightarrow> string \<Rightarrow> claims_db \<times> bool res" where
  "claim_tx cx stamp db key sha = (case map_of (db_claims db) key of
       None \<Rightarrow> (db \<lparr> db_claims := db_claims db @ [(key, \<lparr> cw_request_sha256 = sha, cw_context_sha256 = cx,
         cw_claimed_at = stamp \<rparr>)] \<rparr>, Inr True)
     | Some prior \<Rightarrow> (db, if cw_request_sha256 prior \<noteq> sha \<or> cw_context_sha256 prior \<noteq> cx
         then Inl (claim_error ''one-use claim identity was rebound'') else Inr False))"

definition terminal_evidence_ok :: "string \<Rightarrow> string option \<Rightarrow> bool" where
  "terminal_evidence_ok status result \<longleftrightarrow>
     \<not> (status \<notin> {''COMPLETED'', ''UNRESOLVED''} \<or> status = ''COMPLETED'' \<and> result = None
       \<or> status = ''UNRESOLVED'' \<and> result \<noteq> None)"

definition resolves_claim :: "string \<Rightarrow> claims_db \<Rightarrow> claim_key \<Rightarrow> string \<Rightarrow> bool" where
  "resolves_claim cx db key sha = (case map_of (db_claims db) key of None \<Rightarrow> False
     | Some prior \<Rightarrow> cw_request_sha256 prior = sha \<and> cw_context_sha256 prior = cx)"

text \<open>The terminal is inserted unless there is one; then the stored one is compared. An exception rolls back.\<close>

definition finish_tx ::
  "string \<Rightarrow> string \<Rightarrow> claims_db \<Rightarrow> claim_key \<Rightarrow> string \<Rightarrow> string \<Rightarrow> string option \<Rightarrow> claims_db \<times> unit res" where
  "finish_tx what cx db key sha status result =
     (if \<not> resolves_claim cx db key sha
      then (db, Inl (claim_error (what @ '' terminal does not resolve its exact claim'')))
      else case map_of (db_terminals db) key of
        None \<Rightarrow> (db \<lparr> db_terminals := db_terminals db
            @ [(key, \<lparr> tm_request_sha256 = sha, tm_status = status, tm_result_sha256 = result \<rparr>)] \<rparr>, Inr ())
      | Some t \<Rightarrow> (db, if tm_status t \<noteq> status \<or> tm_result_sha256 t \<noteq> result
          then Inl (claim_error (''immutable '' @ what @ '' terminal conflict'')) else Inr ()))"

record claim_view =
  cv_kind :: string
  cv_namespace :: string
  cv_identity :: string
  cv_request_sha256 :: string
  cv_context_sha256 :: string
  cv_claimed_at :: py_datetime
  cv_terminal_status :: "string option"
  cv_result_sha256 :: "string option"

definition load_tx :: "string \<Rightarrow> claims_db \<Rightarrow> claim_key \<Rightarrow> claim_view option res" where
  "load_tx cx db key = (case map_of (db_claims db) key of None \<Rightarrow> Inr None
     | Some row \<Rightarrow> if cw_context_sha256 row \<noteq> cx then Inl (claim_error ''production claim observation scope mismatch'')
         else Inr (Some \<lparr> cv_kind = fst key, cv_namespace = fst (snd key), cv_identity = snd (snd key), cv_request_sha256 = cw_request_sha256 row, cv_context_sha256 = cw_context_sha256 row,
           cv_claimed_at = utc (cw_claimed_at row),
           cv_terminal_status = map_option tm_status (map_of (db_terminals db) key),
           cv_result_sha256 = Option.bind (map_of (db_terminals db) key) tm_result_sha256 \<rparr>))"

section \<open>Calls\<close>

datatype store_call =
    Claim_Call string string string string
  | Finish_Signing string string string string "string option"
  | Finish_Wire string string string string "string option"
  | Load_Claim string string string

datatype store_answer = Claimed bool | Finished | Loaded "claim_view option"

definition answer_of :: "('a \<Rightarrow> store_answer) \<Rightarrow> claims_db \<times> 'a res \<Rightarrow> claims_db \<times> store_answer res" where
  "answer_of f p = (fst p, map_sum id f (snd p))"

definition finish_call ::
  "string \<Rightarrow> string \<Rightarrow> string \<Rightarrow> claims_db \<Rightarrow> string \<Rightarrow> string \<Rightarrow> string \<Rightarrow> string \<Rightarrow> string option
   \<Rightarrow> claims_db \<times> store_answer res" where
  "finish_call what kind cx db ns i sha status result =
     (case rbind (checked_identity ns) (\<lambda>_. rbind (checked_identity i) (\<lambda>_. rbind (checked_digest sha) (\<lambda>_. rbind (ensure
         [(terminal_evidence_ok status result, claim_error (''invalid '' @ what @ '' terminal evidence''))]) (\<lambda>_.
         (case result of None \<Rightarrow> Inr () | Some r \<Rightarrow> checked_digest r))))) of
       Inl e \<Rightarrow> (db, Inl e)
     | Inr _ \<Rightarrow> answer_of (\<lambda>_. Finished) (finish_tx what cx db (kind, ns, i) sha status result))"

fun exec_call :: "string \<Rightarrow> instant \<Rightarrow> claims_db \<Rightarrow> store_call \<Rightarrow> claims_db \<times> store_answer res" where
  "exec_call cx stamp db (Claim_Call kind ns i sha) =
     (case rbind (checked_identity ns) (\<lambda>_. rbind (checked_identity i) (\<lambda>_. rbind (checked_digest sha) (\<lambda>_. ensure
         [(kind \<in> set claim_kinds, claim_error ''unsupported claim kind'')]))) of
       Inl e \<Rightarrow> (db, Inl e)
     | Inr _ \<Rightarrow> answer_of Claimed (claim_tx cx stamp db (kind, ns, i) sha))"
| "exec_call cx stamp db (Finish_Signing ns i sha status result) =
     finish_call ''signing'' ''TYPED_SIGNING'' cx db ns i sha status result"
| "exec_call cx stamp db (Finish_Wire ns i sha status result) =
     finish_call ''wire'' ''WIRE_DISPATCH'' cx db ns i sha status result"
| "exec_call cx stamp db (Load_Claim kind ns i) =
     (case rbind (checked_identity ns) (\<lambda>_. rbind (checked_identity i) (\<lambda>_. ensure
         [(kind \<in> set claim_kinds, claim_error ''unsupported claim kind'')])) of
       Inl e \<Rightarrow> (db, Inl e)
     | Inr _ \<Rightarrow> (db, map_sum id Loaded (load_tx cx db (kind, ns, i))))"

text \<open>A call executes at an instant of the database's clock; its connection may fail before its transaction
  or after its commit.\<close>

datatype fault = No_Fault instant | Lost_Before exn | Lost_After instant exn

fun faulty_call :: "fault \<Rightarrow> string \<Rightarrow> claims_db \<Rightarrow> store_call \<Rightarrow> claims_db \<times> store_answer res" where
  "faulty_call (No_Fault stamp) cx db c = exec_call cx stamp db c"
| "faulty_call (Lost_Before e) cx db c = (db, Inl e)"
| "faulty_call (Lost_After stamp e) cx db c = (fst (exec_call cx stamp db c), Inl e)"

section \<open>The interface\<close>

text \<open>\<open>step\<close> executes one call with a fault; \<open>granted\<close> are the keys whose claim the answer grants.\<close>

locale one_use_store =
  fixes step :: "'f \<Rightarrow> 'db \<Rightarrow> 'c \<Rightarrow> 'db \<times> 'r"
    and granted :: "'c \<Rightarrow> 'r \<Rightarrow> 'k list"
    and taken :: "'db \<Rightarrow> 'k \<Rightarrow> bool"
  assumes grants_fresh: "k \<in> set (granted c (snd (step f db c))) \<Longrightarrow> \<not> taken db k \<and> taken (fst (step f db c)) k"
    and grants_once: "length (granted c (snd (step f db c))) \<le> 1"
    and stays_taken: "taken db k \<Longrightarrow> taken (fst (step f db c)) k"
begin

primrec grants_of :: "'db \<Rightarrow> ('f \<times> 'c) list \<Rightarrow> 'k list" where
  "grants_of db [] = []"
| "grants_of db (x # xs) = (let p = step (fst x) db (snd x) in granted (snd x) (snd p) @ grants_of (fst p) xs)"

primrec state_after :: "'db \<Rightarrow> ('f \<times> 'c) list \<Rightarrow> 'db" where
  "state_after db [] = db"
| "state_after db (x # xs) = state_after (fst (step (fst x) db (snd x))) xs"

lemma state_after_append: "state_after db (xs @ ys) = state_after (state_after db xs) ys"
  by (induction xs arbitrary: db) simp_all

lemma grants_of_append: "grants_of db (xs @ ys) = grants_of db xs @ grants_of (state_after db xs) ys"
  by (induction xs arbitrary: db) (simp_all add: Let_def)

lemma no_grant_when_taken: "taken db k \<Longrightarrow> count_list (grants_of db xs) k = 0"
proof (induction xs arbitrary: db)
  case (Cons x xs)
  let ?p = "step (fst x) db (snd x)"
  have "k \<notin> set (granted (snd x) (snd ?p))" using grants_fresh Cons.prems by blast
  moreover have "count_list (grants_of (fst ?p) xs) k = 0" using Cons stays_taken by blast
  ultimately show ?case by (simp add: Let_def count_list_0_iff)
qed simp

lemma granted_at_most_once: "count_list (grants_of db xs) k \<le> 1"
proof (induction xs arbitrary: db)
  case (Cons x xs)
  let ?p = "step (fst x) db (snd x)"
  show ?case
  proof (cases "k \<in> set (granted (snd x) (snd ?p))")
    case True
    then have "count_list (grants_of (fst ?p) xs) k = 0" using grants_fresh no_grant_when_taken by blast
    moreover have "count_list (granted (snd x) (snd ?p)) k \<le> 1"
      using count_le_length [of "granted (snd x) (snd ?p)" k] grants_once [of "snd x" "fst x" db] by simp
    ultimately show ?thesis by (simp add: Let_def)
  next
    case False
    then show ?thesis using Cons [of "fst ?p"] by (simp add: Let_def count_list_0_iff [symmetric])
  qed
qed simp

end

fun claim_granted :: "store_call \<Rightarrow> store_answer res \<Rightarrow> claim_key list" where
  "claim_granted (Claim_Call kind ns i sha) (Inr (Claimed True)) = [(kind, ns, i)]"
| "claim_granted _ _ = []"

definition claim_taken :: "claims_db \<Rightarrow> claim_key \<Rightarrow> bool" where
  "claim_taken db k \<longleftrightarrow> k \<in> fst ` set (db_claims db)"

lemma claim_granted_cases:
  "k \<in> set (claim_granted c r) \<longleftrightarrow> (\<exists>kind ns i sha. c = Claim_Call kind ns i sha \<and> r = Inr (Claimed True) \<and> k = (kind, ns, i))"
  by (cases "(c, r)" rule: claim_granted.cases) auto

text \<open>Claims and terminals are only appended.\<close>

definition db_extends :: "claims_db \<Rightarrow> claims_db \<Rightarrow> bool" where
  "db_extends db db' \<longleftrightarrow> (\<exists>cs ts. db_claims db' = db_claims db @ cs \<and> db_terminals db' = db_terminals db @ ts)"

lemma claim_tx_extends: "db_extends db (fst (claim_tx cx stamp db k sha))"
  by (auto simp: claim_tx_def db_extends_def split: option.splits)

lemma finish_tx_extends: "db_extends db (fst (finish_tx w cx db k sha status result))"
  by (auto simp: finish_tx_def db_extends_def split: option.splits)

lemma db_extends_refl [simp]: "db_extends db db"
  by (simp add: db_extends_def)

lemma exec_call_extends: "db_extends db (fst (exec_call cx stamp db c))"
  by (cases c) (auto simp: answer_of_def finish_call_def claim_tx_extends finish_tx_extends split: sum.splits)

lemma exec_call_claims:
  "set (db_claims db) \<subseteq> set (db_claims (fst (exec_call cx stamp db c)))"
  using exec_call_extends [of db cx stamp c] by (auto simp: db_extends_def)

lemma claim_call_granted:
  "snd (exec_call cx stamp db (Claim_Call kind ns i sha)) = Inr (Claimed True) \<Longrightarrow>
     \<not> claim_taken db (kind, ns, i) \<and> claim_taken (fst (exec_call cx stamp db (Claim_Call kind ns i sha))) (kind, ns, i)"
  by (auto simp: answer_of_def claim_tx_def claim_taken_def map_of_eq_None_iff map_sum_def
      split: option.splits sum.splits if_splits)

interpretation claims: one_use_store "\<lambda>f. faulty_call f cx" claim_granted claim_taken for cx
proof
  fix k c f db
  assume "k \<in> set (claim_granted c (snd (faulty_call f cx db c)))"
  then show "\<not> claim_taken db k \<and> claim_taken (fst (faulty_call f cx db c)) k"
    by (cases f) (auto simp: claim_granted_cases simp del: exec_call.simps dest: claim_call_granted)
next
  fix c f db
  show "length (claim_granted c (snd (faulty_call f cx db c))) \<le> 1"
    by (cases "(c, snd (faulty_call f cx db c))" rule: claim_granted.cases) auto
next
  fix db k f c
  assume "claim_taken db k"
  then show "claim_taken (fst (faulty_call f cx db c)) k"
    using image_mono [OF exec_call_claims, of fst db cx _ c] by (cases f) (auto simp: claim_taken_def)
qed

lemma records_immutable:
  assumes "map_of (db_claims db) k = Some v"
  shows "map_of (db_claims (fst (faulty_call f cx db c))) k = Some v"
proof -
  have "db_extends db (fst (faulty_call f cx db c))" by (cases f) (simp_all add: exec_call_extends)
  then show ?thesis using assms by (auto simp: db_extends_def map_add_def)
qed

end
