(* ===== verification/Prod_Chain.thy ===== *)
theory Prod_Chain
  imports Prod_Venue Prod_Claims
begin

text \<open>
  The signing and dispatching of one production effect: the authorization calls of
  \<^verbatim>\<open>signing_authorization.py\<close>, the boundary of \<^verbatim>\<open>managed_signer.py\<close>, the dispatcher of
  \<^verbatim>\<open>production_dispatch.py\<close> and the runtime of \<^verbatim>\<open>production_runtime.py\<close> that composes them. Clocks, the
  state source, the claims store, the custody backend, the signature verifier and the venue transport are
  the environment. A cancelled task is an await answered with \<^verbatim>\<open>CancelledError\<close>; whether a deadline of an
  enclosing \<^verbatim>\<open>asyncio.timeout\<close> caused it is asked of the event loop.
\<close>

section \<open>Requests\<close>

datatype chain_request =
    Read_Wall
  | Read_Loop
  | Deadline_Expired
  | Resolve_Evidence signing_request custody_binding instant
  | Reserve_Entry signing_request custody_binding signing_evidence
  | Store store_call
  | Sign_Message string obj "(string \<times> string) list" obj
  | Check_Signature string obj "(string \<times> string) list" obj string
  | Send string obj
  | Get_Plan string
  | Get_Effect string
  | Get_Trade "string option"
  | Verify_Effect_Chain string
  | Verify_Trade_Chain string
  | Owner_Lineage string
  | Entry_Reservation string string string string
  | Read_Venue string production_context string string
  | Check_Venue string json production_context string string
  | Cancel_Entry string string string
  | Cancel_Protection string string string
  | Confirm_Effect string string obj

datatype chain_response =
    Wall py_datetime
  | Loop f64
  | Flag bool
  | Evidence signing_evidence
  | Acted
  | Stored store_answer
  | Answer json
  | Plan_Row "lifecycle_plan option"
  | Effect_Row "live_effect option"
  | Trade_Row "live_trade option"
  | Lineage signed_arm nonce_claim
  | Reservation entry_reservation
  | Venue_Facts venue_snapshot

type_synonym 'a chain = "(unit, chain_request, chain_response, 'a) prog"
type_synonym chain_trace = "(chain_request, chain_response) trace"

definition read_wall :: "py_datetime chain" where
  "read_wall = await Read_Wall (\<lambda>r. case r of Wall t \<Rightarrow> Some t | _ \<Rightarrow> None)"

definition read_loop :: "f64 chain" where
  "read_loop = await Read_Loop (\<lambda>r. case r of Loop t \<Rightarrow> Some t | _ \<Rightarrow> None)"

definition deadline_expired :: "bool chain" where
  "deadline_expired = await Deadline_Expired (\<lambda>r. case r of Flag b \<Rightarrow> Some b | _ \<Rightarrow> None)"

definition resolve_evidence :: "signing_request \<Rightarrow> custody_binding \<Rightarrow> instant \<Rightarrow> signing_evidence chain" where
  "resolve_evidence q b now = await (Resolve_Evidence q b now) (\<lambda>r. case r of Evidence e \<Rightarrow> Some e | _ \<Rightarrow> None)"

definition reserve_entry_row :: "signing_request \<Rightarrow> custody_binding \<Rightarrow> signing_evidence \<Rightarrow> unit chain" where
  "reserve_entry_row q b e = await (Reserve_Entry q b e) (\<lambda>r. case r of Acted \<Rightarrow> Some () | _ \<Rightarrow> None)"

definition get_plan :: "string \<Rightarrow> lifecycle_plan option chain" where
  "get_plan i = await (Get_Plan i) (\<lambda>r. case r of Plan_Row p \<Rightarrow> Some p | _ \<Rightarrow> None)"

definition get_effect :: "string \<Rightarrow> live_effect option chain" where
  "get_effect i = await (Get_Effect i) (\<lambda>r. case r of Effect_Row e \<Rightarrow> Some e | _ \<Rightarrow> None)"

definition get_trade :: "string option \<Rightarrow> live_trade option chain" where
  "get_trade i = await (Get_Trade i) (\<lambda>r. case r of Trade_Row t \<Rightarrow> Some t | _ \<Rightarrow> None)"

definition flag_of :: "chain_request \<Rightarrow> bool chain" where
  "flag_of q = await q (\<lambda>r. case r of Flag b \<Rightarrow> Some b | _ \<Rightarrow> None)"

definition store_claim :: "string \<Rightarrow> string \<Rightarrow> string \<Rightarrow> string \<Rightarrow> bool chain" where
  "store_claim kind ns i sha = await (Store (Claim_Call kind ns i sha)) (\<lambda>r. case r of Stored (Claimed b) \<Rightarrow> Some b | _ \<Rightarrow> None)"

definition store_finish :: "store_call \<Rightarrow> unit chain" where
  "store_finish c = await (Store c) (\<lambda>r. case r of Stored Finished \<Rightarrow> Some () | _ \<Rightarrow> None)"

definition store_load :: "string \<Rightarrow> string \<Rightarrow> string \<Rightarrow> claim_view option chain" where
  "store_load kind ns i = await (Store (Load_Claim kind ns i)) (\<lambda>r. case r of Stored (Loaded v) \<Rightarrow> Some v | _ \<Rightarrow> None)"

definition answer :: "chain_request \<Rightarrow> json chain" where
  "answer q = await q (\<lambda>r. case r of Answer j \<Rightarrow> Some j | _ \<Rightarrow> None)"

text \<open>The further awaits of a cancellation; the reader's synchronous verification of its raw facts is one too.\<close>

definition owner_lineage :: "string \<Rightarrow> (signed_arm \<times> nonce_claim) chain" where
  "owner_lineage sha = await (Owner_Lineage sha) (\<lambda>r. case r of Lineage a c \<Rightarrow> Some (a, c) | _ \<Rightarrow> None)"

definition entry_reservation_row :: "string \<Rightarrow> string \<Rightarrow> string \<Rightarrow> string \<Rightarrow> entry_reservation chain" where
  "entry_reservation_row i sha q d = await (Entry_Reservation i sha q d) (\<lambda>r. case r of Reservation x \<Rightarrow> Some x | _ \<Rightarrow> None)"

definition venue_facts :: "chain_request \<Rightarrow> venue_snapshot chain" where
  "venue_facts q = await q (\<lambda>r. case r of Venue_Facts s \<Rightarrow> Some s | _ \<Rightarrow> None)"

definition act :: "chain_request \<Rightarrow> unit chain" where
  "act q = await q (\<lambda>r. case r of Acted \<Rightarrow> Some () | _ \<Rightarrow> None)"

section \<open>Cancellation and deadlines\<close>

definition cancelled :: "exn \<Rightarrow> bool" where
  "cancelled e \<longleftrightarrow> exn_kind e = OtherError ''CancelledError''"

abbreviation timeout_error :: exn where
  "timeout_error \<equiv> Exn (OtherError ''TimeoutError'') []"

text \<open>\<^verbatim>\<open>except Exception\<close>, which leaves a cancellation alone.\<close>

definition catch_exception :: "'a chain \<Rightarrow> (exn \<Rightarrow> 'a chain) \<Rightarrow> 'a chain" where
  "catch_exception p h = catchp p (\<lambda>e. if cancelled e then Fail e else h e)"

text \<open>\<^verbatim>\<open>async with asyncio.timeout_at(deadline)\<close>.\<close>

definition under_deadline :: "'a chain \<Rightarrow> 'a chain" where
  "under_deadline p = catchp p (\<lambda>e. if cancelled e
     then (bindp (deadline_expired) (\<lambda>expired.
     Fail (if expired then timeout_error else e))) else Fail e)"

definition catch_timeout :: "'a chain \<Rightarrow> exn \<Rightarrow> 'a chain" where
  "catch_timeout p e' = catchp p (\<lambda>e. Fail (if exn_kind e = OtherError ''TimeoutError'' then e' else e))"

text \<open>\<^verbatim>\<open>timedelta.total_seconds()\<close>.\<close>

definition total_seconds :: "int \<Rightarrow> f64" where
  "total_seconds us = fround (of_int us / 1000000)"

text \<open>\<^verbatim>\<open>later < now\<close> between a clock reading and an instant: a naive datetime raises.\<close>

definition not_before :: "py_datetime \<Rightarrow> instant \<Rightarrow> exn \<Rightarrow> unit res" where
  "not_before t earlier e = (case dt_offset_us t of
     None \<Rightarrow> raise TypeError ''cannot compare offset-naive and offset-aware datetimes''
   | Some off \<Rightarrow> if dt_wall_us t - off < earlier then Inl e else Inr ())"

section \<open>Authorization\<close>

definition signing_only :: "'a chain \<Rightarrow> 'a chain" where
  "signing_only p = catch_exception p (\<lambda>e. Fail (if exn_kind e = OtherError ''ManagedSigningError'' then e
     else signing_error ''independent signing authorization failed''))"

definition resolve_verify ::
  "auth_config \<Rightarrow> signing_request \<Rightarrow> custody_binding \<Rightarrow> bool \<Rightarrow> signing_evidence chain" where
  "resolve_verify A q b reserve = signing_only ((bindp (read_wall) (\<lambda>t.
     bindp (liftp (validate_scope A q b t)) (\<lambda>now.
     bindp (resolve_evidence q b now) (\<lambda>e.
     bindp (read_wall) (\<lambda>t1.
     bindp (liftp (not_before t1 now (signing_error ''authorization clock moved backwards''))) (\<lambda>_.
     bindp (liftp (validate_scope A q b t1)) (\<lambda>checked_at.
     bindp (liftp (validate_evidence e)) (\<lambda>_.
     bindp (liftp (verify_evidence A q b e checked_at)) (\<lambda>_.
     bindp ((if reserve \<and> \<not> is_exit q then (bindp (reserve_entry_row q b e) (\<lambda>_.
     bindp (read_wall) (\<lambda>t2.
     bindp (liftp (not_before t2 checked_at (signing_error ''authorization clock moved backwards''))) (\<lambda>_.
     bindp (liftp (validate_scope A q b t2)) (\<lambda>after.
     liftp (verify_evidence A q b e after)))))) else Ret ())) (\<lambda>_.
     Ret e)))))))))))"

definition verify_request :: "auth_config \<Rightarrow> signing_request \<Rightarrow> custody_binding \<Rightarrow> unit chain" where
  "verify_request A q b = (bindp (resolve_verify A q b True) (\<lambda>_.
     Ret ()))"

definition inspect_request :: "auth_config \<Rightarrow> signing_request \<Rightarrow> custody_binding \<Rightarrow> signing_evidence chain" where
  "inspect_request A q b = resolve_verify A q b False"

definition verify_effect ::
  "auth_config \<Rightarrow> signing_request \<Rightarrow> custody_binding \<Rightarrow> string \<Rightarrow> string \<Rightarrow> unit chain" where
  "verify_effect A q b decision_id eff_id = (bindp (resolve_verify A q b False) (\<lambda>e.
     checkp [(\<not> (rg_decision_id (ev_risk e) \<noteq> decision_id \<or> rg_effect_id (ev_risk e) \<noteq> eff_id),
       signing_error ''wire effect differs from the authoritative risk decision'')]))"

section \<open>The managed signer\<close>

record chain_config =
  ch_auth :: auth_config
  ch_binding :: custody_binding
  ch_database_uuid :: string
  ch_context :: production_context

text \<open>\<^verbatim>\<open>_prepare_fields\<close>: the schema, the message and the digest of a request within its custody scope.\<close>

definition prepare_fields ::
  "chain_config \<Rightarrow> signing_request \<Rightarrow> py_datetime \<Rightarrow> (instant \<times> (string \<times> string) list \<times> obj \<times> string) res" where
  "prepare_fields H q t = (let b = ch_binding H in (rbind (aware t) (\<lambda>now.
     rbind (validate_signing_request q) (\<lambda>_.
     rbind (validate_custody b) (\<lambda>_.
     rbind (ensure [(\<not> (sq_context q \<noteq> cb_context b \<or> sq_custody_receipt_sha256 q \<noteq> cb_custody_receipt_sha256 b),
         signing_error ''request is not bound to this production custody scope''),
       (cb_schema_sha256 b = reviewed_schema_sha256 (cb_chain_id b),
         signing_error ''reviewed typed schema/domain digest changed''),
       (now < sq_expires_at q \<and> sq_expires_at q \<le> now + seconds 30,
         signing_error ''signing deadline is expired or exceeds the fixed bound'')]) (\<lambda>_.
     rbind (typed_message q b) (\<lambda>typed.
     Inr (now, fst typed, snd typed, signing_digest (ac_codec (ch_auth H)) q (snd typed)))))))))"

definition sign_claimed :: "custody_binding \<Rightarrow> (string \<times> string) list \<Rightarrow> obj \<Rightarrow> string \<Rightarrow> signed_data chain" where
  "sign_claimed b schema m digest = (bindp (catch_exception ((bindp (answer (Sign_Message (cb_custody_reference b) (build_domain (cb_chain_id b)) schema m)) (\<lambda>s.
     bindp (liftp (case s of
           JStr x \<Rightarrow> if hex_text 130 x then Inr x else Inl (signing_error ''managed backend returned a malformed signature'')
         | _ \<Rightarrow> Inl (signing_error ''managed backend returned a malformed signature''))) (\<lambda>text1.
     bindp (answer (Check_Signature (cb_wallet_address b) (build_domain (cb_chain_id b)) schema m text1)) (\<lambda>verified.
     bindp (checkp [(verified = JBool True, signing_error ''managed signature failed independent verification'')]) (\<lambda>_.
     Ret text1))))))
       (\<lambda>_. Fail (signing_error ''managed signing outcome failed or is unresolved; do not retry''))) (\<lambda>signature.
     Ret \<lparr> sd_request_sha256 = digest, sd_wallet_address = cb_wallet_address b,
       sd_signature_sha256 = sha256_hex signature, sd_signature = signature \<rparr>))"

definition check_loop :: "f64 \<Rightarrow> exn \<Rightarrow> unit chain" where
  "check_loop deadline e = (bindp (read_loop) (\<lambda>t.
     checkp [(\<not> fle deadline t, e)]))"

definition sign_body ::
  "chain_config \<Rightarrow> signing_request \<Rightarrow> (string \<times> string) list \<Rightarrow> obj \<Rightarrow> string \<Rightarrow> f64 \<Rightarrow> signed_data chain" where
  "sign_body H q schema m digest deadline = (let b = ch_binding H; ref = cb_custody_reference b in (bindp (check_loop deadline timeout_error) (\<lambda>_.
     bindp (catch_exception (verify_request (ch_auth H) q b)
       (\<lambda>_. Fail (signing_error ''independent signing authorization failed''))) (\<lambda>_.
     bindp (check_loop deadline timeout_error) (\<lambda>_.
     bindp (catch_exception (store_claim ''TYPED_SIGNING'' ref (sq_request_id q) digest)
       (\<lambda>_. Fail (signing_error ''signing claim outcome is unresolved; do not retry''))) (\<lambda>admitted.
     bindp (checkp [(admitted, signing_error ''signing request is already claimed or unresolved'')]) (\<lambda>_.
     bindp (check_loop deadline timeout_error) (\<lambda>_.
     bindp (catch_exception (sign_claimed b schema m digest) (\<lambda>_. (bindp (catch_exception (store_finish (Finish_Signing ref (sq_request_id q) digest ''UNRESOLVED'' None))
         (\<lambda>_. Fail (signing_error ''managed signing and terminal outcomes unresolved; do not retry''))) (\<lambda>_.
     Fail (signing_error ''managed signing outcome failed or is unresolved; do not retry''))))) (\<lambda>signed.
     bindp (check_loop deadline timeout_error) (\<lambda>_.
     bindp (catch_exception (store_finish (Finish_Signing ref (sq_request_id q) digest ''COMPLETED'' (Some (sd_signature_sha256 signed))))
       (\<lambda>_. Fail (signing_error ''signing terminal outcome is unresolved; do not retry''))) (\<lambda>_.
     bindp (check_loop deadline timeout_error) (\<lambda>_.
     Ret signed))))))))))))"

definition sign_async :: "chain_config \<Rightarrow> signing_request \<Rightarrow> py_datetime \<Rightarrow> signed_data chain" where
  "sign_async H q t = (bindp (read_loop) (\<lambda>started.
     bindp (liftp (prepare_fields H q t)) (\<lambda>prep.
     (case prep of (now, schema, m, digest) \<Rightarrow>
       let deadline = fadd started (fmin (Fin 30) (total_seconds (sq_expires_at q - now)))
       in catch_timeout (under_deadline (sign_body H q schema m digest deadline))
            (signing_error ''end-to-end signing deadline expired; outcome unresolved; do not retry'')))))"

section \<open>The dispatcher\<close>

record wire_request =
  wr_context :: production_context
  wr_database_uuid :: string
  wr_decision_id :: string
  wr_effect_id :: string
  wr_effect_type :: wire_effect_type
  wr_path :: string
  wr_body :: obj
  wr_signing_request :: signing_request
  wr_custody_binding :: custody_binding
  wr_signed :: signed_data

definition validate_wire :: "wire_request \<Rightarrow> unit res" where
  "validate_wire w = (rbind (validate_context (wr_context w)) (\<lambda>_.
     rbind (validate_signing_request (wr_signing_request w)) (\<lambda>_.
     rbind (validate_custody (wr_custody_binding w)) (\<lambda>_.
     valid_when [identity_ok (wr_decision_id w), identity_ok (wr_effect_id w), bounded_text 256 (wr_path w),
       valid_sha256 (sd_request_sha256 (wr_signed w)), valid_sha256 (sd_signature_sha256 (wr_signed w))]))))"

definition effect_type_text :: "wire_effect_type \<Rightarrow> string" where
  "effect_type_text t = (case t of WIRE_PLACE_ORDER \<Rightarrow> ''PLACE_ORDER'' | WIRE_CLOSE_POSITION \<Rightarrow> ''CLOSE_POSITION''
     | WIRE_PROTECTIVE_STOP \<Rightarrow> ''PROTECTIVE_STOP'')"

text \<open>\<^verbatim>\<open>_canonical_bytes\<close> refuses NaN and the infinities.\<close>

primrec finite_json :: "json \<Rightarrow> bool" where
  "finite_json JNull = True"
| "finite_json (JBool b) = True"
| "finite_json (JInt i) = True"
| "finite_json (JFloat x) = isfinite x"
| "finite_json (JStr s) = True"
| "finite_json (JArr xs) = list_all (\<lambda>b. b) (map finite_json xs)"
| "finite_json (JObj kvs) = list_all (\<lambda>p. snd p) (map (map_prod id finite_json) kvs)"

definition canonical_text :: "json \<Rightarrow> string res" where
  "canonical_text j = (if finite_json j then Inr (compact_text j)
     else raise ValueError ''Out of range float values are not JSON compliant'')"

definition expected_path :: "string \<Rightarrow> string \<times> string option \<Rightarrow> obj \<Rightarrow> string res" where
  "expected_path operation template m = (case snd template of
     None \<Rightarrow> Inr (fst template)
   | Some tail \<Rightarrow> (case field m ''instrument'' of
       JStr s \<Rightarrow> if instrument_text_ok s then Inr (fst template @ s @ tail)
         else Inl (dispatch_error ''signed instrument is malformed'')
     | _ \<Rightarrow> Inl (dispatch_error ''signed instrument is malformed'')))"

definition validate_effect :: "production_codec \<Rightarrow> wire_request \<Rightarrow> obj res" where
  "validate_effect K w = (let q = wr_signing_request w; b = wr_custody_binding w; s = wr_signed w in (rbind (ensure [(\<not> (wr_context w \<noteq> sq_context q \<or> wr_context w \<noteq> cb_context b
         \<or> sq_custody_receipt_sha256 q \<noteq> cb_custody_receipt_sha256 b),
         dispatch_error ''wire context differs from the managed signing context''),
       (map_of operation_bindings (sq_operation q) \<noteq> None, dispatch_error ''wire signing operation is unsupported'')]) (\<lambda>_.
     let spec = the (map_of operation_bindings (sq_operation q)) in
     rbind ((case typed_message q b of Inl _ \<Rightarrow> Inl (dispatch_error ''managed signing message is malformed'')
           | Inr typed \<Rightarrow> Inr (snd typed))) (\<lambda>m.
     rbind (ensure [(wr_effect_type w = fst (snd spec), dispatch_error ''wire effect type differs from signed operation''),
       (wr_effect_id w = signing_effect_id q m (wr_decision_id w),
         dispatch_error ''wire effect identity differs from the authorized decision geometry''),
       (case field m (snd (snd spec)) of JStr _ \<Rightarrow> True | _ \<Rightarrow> False,
         dispatch_error ''signed wire message lacks its deterministic venue identity'')]) (\<lambda>_.
     rbind (expected_path (sq_operation q) (fst spec) m) (\<lambda>path.
     rbind (ensure [(wr_path w = path, dispatch_error ''wire path differs from the signed operation''),
       (\<not> (\<not> hex_text 130 (sd_signature s) \<or> sha256_hex (sd_signature s) \<noteq> sd_signature_sha256 s
         \<or> casefold (sd_wallet_address s) \<noteq> casefold (cb_wallet_address b)),
         dispatch_error ''managed signature is malformed or changed''),
       (signing_digest K q m = sd_request_sha256 s, dispatch_error ''managed signature belongs to a different signing request'')]) (\<lambda>_.
     rbind (canonical_text (JObj (wr_body w))) (\<lambda>given.
     rbind (wire_body (sq_operation q) m (sd_signature s)) (\<lambda>body.
     rbind (canonical_text (JObj body)) (\<lambda>derived.
     rbind (ensure [(given = derived, dispatch_error ''wire body differs from the exact independently signed message'')]) (\<lambda>_.
     Inr m)))))))))))"

text \<open>\<^verbatim>\<open>datetime.isoformat()\<close> of a UTC instant: the civil date of a day number, and the fraction when there is one.\<close>

definition civil_date :: "int \<Rightarrow> int \<times> int \<times> int" where
  "civil_date day = (let z = day + 719468; era = z div 146097; doe = z mod 146097;
       yoe = (doe - doe div 1460 + doe div 36524 - doe div 146096) div 365;
       doy = doe - (365 * yoe + yoe div 4 - yoe div 100); mp = (5 * doy + 2) div 153;
       d = doy - (153 * mp + 2) div 5 + 1; mo = (if mp < 10 then mp + 3 else mp - 9)
     in (yoe + era * 400 + (if mo \<le> 2 then 1 else 0), mo, d))"

definition padded :: "nat \<Rightarrow> int \<Rightarrow> string" where
  "padded k n = (let d = nat_digits (nat n) in replicate (k - length d) (CHR ''0'') @ d)"

definition iso_format :: "instant \<Rightarrow> string" where
  "iso_format t = (let (y, mo, d) = civil_date (t div 86400000000); us = t mod 86400000000; s = us div 1000000;
       f = us mod 1000000
     in padded 4 y @ ''-'' @ padded 2 mo @ ''-'' @ padded 2 d @ ''T'' @ padded 2 (s div 3600) @ '':''
        @ padded 2 (s mod 3600 div 60) @ '':'' @ padded 2 (s mod 60)
        @ (if f = 0 then [] else CHR ''.'' # padded 6 f) @ ''+00:00'')"

definition claim_record :: "chain_config \<Rightarrow> wire_request \<Rightarrow> string \<Rightarrow> json" where
  "claim_record H w body_digest = JObj [(''context_sha256'', JStr (context_digest (ch_context H))),
     (''database_uuid'', JStr (ch_database_uuid H)), (''effect_id'', JStr (wr_effect_id w)),
     (''effect_type'', JStr (effect_type_text (wr_effect_type w))), (''method'', JStr ''POST''), (''path'', JStr (wr_path w)),
     (''body_sha256'', JStr body_digest), (''signing_request_sha256'', JStr (sd_request_sha256 (wr_signed w))),
     (''signing_signature_sha256'', JStr (sd_signature_sha256 (wr_signed w))),
     (''expires_at'', JStr (iso_format (sq_expires_at (wr_signing_request w))))]"

definition wire_namespace :: "chain_config \<Rightarrow> string" where
  "wire_namespace H = ''wire:'' @ context_digest (ch_context H)"

text \<open>\<^verbatim>\<open>fresh_time\<close>: the clock does not go back, the request has not expired, the deadline is ahead. The
  high-water mark is passed on.\<close>

definition fresh_time :: "wire_request \<Rightarrow> f64 \<Rightarrow> instant \<Rightarrow> instant chain" where
  "fresh_time w deadline high = (bindp (read_wall) (\<lambda>t.
     bindp (liftp (aware t)) (\<lambda>now.
     bindp (checkp [(high \<le> now, dispatch_error ''wall clock moved backwards during wire dispatch''),
       (now < sq_expires_at (wr_signing_request w), dispatch_error ''wire request expired during bounded dispatch'')]) (\<lambda>_.
     bindp (check_loop deadline (dispatch_error ''wire request expired during bounded dispatch'')) (\<lambda>_.
     Ret now)))))"

abbreviation terminal_unresolved :: exn where
  "terminal_unresolved \<equiv> dispatch_error ''wire terminal outcome unresolved; do not retry''"

definition finish_shielded ::
  "chain_config \<Rightarrow> wire_request \<Rightarrow> string \<Rightarrow> string \<Rightarrow> string option \<Rightarrow> f64 \<Rightarrow> unit chain" where
  "finish_shielded H w sha status result deadline = (bindp (check_loop deadline terminal_unresolved) (\<lambda>_.
     catch_exception (under_deadline (store_finish (Finish_Wire (wire_namespace H) (wr_effect_id w) sha status result)))
       (\<lambda>_. Fail terminal_unresolved)))"

text \<open>The two exception handlers around the final check and around the send: record the outcome as
  unresolved, then let a cancellation through or raise the given error.\<close>

definition or_unresolved :: "chain_config \<Rightarrow> wire_request \<Rightarrow> string \<Rightarrow> f64 \<Rightarrow> exn \<Rightarrow> 'a chain \<Rightarrow> 'a chain" where
  "or_unresolved H w sha deadline e' p = catchp p (\<lambda>e. (bindp (finish_shielded H w sha ''UNRESOLVED'' None deadline) (\<lambda>_.
     Fail (if cancelled e then e else e'))))"

definition verify_wire_effect :: "chain_config \<Rightarrow> wire_request \<Rightarrow> unit chain" where
  "verify_wire_effect H w =
     verify_effect (ch_auth H) (wr_signing_request w) (wr_custody_binding w) (wr_decision_id w) (wr_effect_id w)"

definition signature_verified :: "wire_request \<Rightarrow> bool chain" where
  "signature_verified w = (let q = wr_signing_request w; b = wr_custody_binding w in (bindp (liftp (typed_message q b)) (\<lambda>typed.
     bindp (catch_exception ((bindp (liftp (signed_message (sq_operation q) (snd typed))) (\<lambda>sm.
     answer (Check_Signature (cb_wallet_address b) (build_domain (cb_chain_id b)) (fst typed) sm (sd_signature (wr_signed w)))))) (\<lambda>_. Ret (JBool False))) (\<lambda>v.
     Ret (v = JBool True)))))"

definition signing_claim_ok :: "chain_config \<Rightarrow> wire_request \<Rightarrow> claim_view option \<Rightarrow> bool" where
  "signing_claim_ok H w v = (case v of None \<Rightarrow> False
     | Some c \<Rightarrow> \<not> (cv_request_sha256 c \<noteq> sd_request_sha256 (wr_signed w)
         \<or> cv_context_sha256 c \<noteq> context_digest (ch_context H) \<or> cv_terminal_status c \<noteq> Some ''COMPLETED''
         \<or> cv_result_sha256 c \<noteq> Some (sd_signature_sha256 (wr_signed w))))"

definition response_digest :: "json \<Rightarrow> string res" where
  "response_digest r = (case r of
     JObj _ \<Rightarrow> rbind (canonical_text r) (\<lambda>t. Inr (sha256_hex t))
   | _ \<Rightarrow> raise ValueError ''transport returned a malformed response'')"

text \<open>\<^verbatim>\<open>_dispatch_one_bounded\<close>. The one-use token binds the path and the body of this call and is consumed at
  once; its consumption fails only when the request has expired.\<close>

definition dispatch_claimed ::
  "chain_config \<Rightarrow> wire_request \<Rightarrow> obj \<Rightarrow> string \<Rightarrow> f64 \<Rightarrow> instant \<Rightarrow> json chain" where
  "dispatch_claimed H w body sha deadline high = (bindp (or_unresolved H w sha deadline
       (dispatch_error ''wire-time authorization failed; durable claim is not retryable'') ((bindp (verify_wire_effect H w) (\<lambda>_.
     bindp (fresh_time w deadline high) (\<lambda>h1.
     bindp (fresh_time w deadline h1) (\<lambda>h2.
     bindp (checkp [(h2 < sq_expires_at (wr_signing_request w),
           dispatch_error ''exact one-use wire authorization is absent, expired, or already consumed'')]) (\<lambda>_.
     Ret h2))))))) (\<lambda>now.
     bindp (or_unresolved H w sha deadline (dispatch_error ''wire outcome is unresolved; do not retry'') ((bindp (answer (Send (wr_path w) body)) (\<lambda>r.
     bindp (fresh_time w deadline now) (\<lambda>h3.
     bindp (liftp (response_digest r)) (\<lambda>d.
     Ret (r, d, h3))))))) (\<lambda>sent.
     (case sent of (r, d, h3) \<Rightarrow> (bindp (fresh_time w deadline h3) (\<lambda>h4.
     bindp (finish_shielded H w sha ''COMPLETED'' (Some d) deadline) (\<lambda>_.
     bindp (fresh_time w deadline h4) (\<lambda>_.
     Ret r))))))))"

definition dispatch_bounded :: "chain_config \<Rightarrow> wire_request \<Rightarrow> instant \<Rightarrow> f64 \<Rightarrow> json chain" where
  "dispatch_bounded H w initial deadline = (let q = wr_signing_request w; b = wr_custody_binding w in (bindp (checkp [(\<not> (wr_context w \<noteq> ch_context H \<or> wr_database_uuid w \<noteq> ch_database_uuid H),
       dispatch_error ''wire request differs from the pinned production scope'')]) (\<lambda>_.
     bindp (liftp (validate_effect (ac_codec (ch_auth H)) w)) (\<lambda>m.
     bindp (checkp [(initial < sq_expires_at q, dispatch_error ''wire request expired before durable admission'')]) (\<lambda>_.
     bindp (liftp (wire_body (sq_operation q) m (sd_signature (wr_signed w)))) (\<lambda>derived.
     bindp (liftp (canonical_text (JObj derived))) (\<lambda>body_text.
     bindp (liftp (case json_loads plain_object body_text of Some (JObj d) \<Rightarrow> Inr d | _ \<Rightarrow> raise ValueError ''malformed JSON'')) (\<lambda>body.
     bindp (liftp (canonical_text (JObj body))) (\<lambda>body_text1.
     let sha = sha256_hex (compact_text (claim_record H w (sha256_hex body_text1))) in
     bindp (catch_exception (store_load ''TYPED_SIGNING'' (cb_custody_reference b) (sq_request_id q))
       (\<lambda>_. Fail (dispatch_error ''durable signing evidence is unavailable''))) (\<lambda>claim.
     bindp (fresh_time w deadline initial) (\<lambda>h1.
     bindp (checkp [(signing_claim_ok H w claim, dispatch_error ''signature has no exact completed durable signing claim'')]) (\<lambda>_.
     bindp (signature_verified w) (\<lambda>verified.
     bindp (fresh_time w deadline h1) (\<lambda>h2.
     bindp (checkp [(verified, dispatch_error ''managed signature failed independent wire-bound verification'')]) (\<lambda>_.
     bindp (catch_exception (verify_wire_effect H w) (\<lambda>_. Fail (dispatch_error ''authoritative wire-time state check failed''))) (\<lambda>_.
     bindp (fresh_time w deadline h2) (\<lambda>h3.
     bindp (catch_exception (store_claim ''WIRE_DISPATCH'' (wire_namespace H) (wr_effect_id w) sha)
       (\<lambda>_. Fail (dispatch_error ''wire claim outcome is unresolved; do not retry''))) (\<lambda>claimed.
     bindp (fresh_time w deadline h3) (\<lambda>h4.
     bindp (checkp [(claimed, dispatch_error ''wire effect is already claimed or unresolved'')]) (\<lambda>_.
     dispatch_claimed H w body sha deadline h4))))))))))))))))))))"

definition dispatch_one :: "chain_config \<Rightarrow> wire_request \<Rightarrow> json chain" where
  "dispatch_one H w = (bindp (liftp (validate_wire w)) (\<lambda>_.
     bindp (read_loop) (\<lambda>started.
     bindp (read_wall) (\<lambda>t.
     bindp (liftp (aware t)) (\<lambda>initial.
     let remaining = total_seconds (sq_expires_at (wr_signing_request w) - initial) in
     bindp (checkp [(\<not> fle remaining fzero, dispatch_error ''wire request expired before durable admission''),
       (\<not> flt (Fin 30) remaining, dispatch_error ''wire request expiry exceeds the 30-second dispatch bound'')]) (\<lambda>_.
     let deadline = fadd started (fmin remaining (Fin 30)) in
     catch_timeout (under_deadline (dispatch_bounded H w initial deadline))
       (dispatch_error ''wire dispatch deadline elapsed; outcome may be unresolved; do not retry'')))))))"

section \<open>The runtime\<close>

abbreviation permission_error :: "string \<Rightarrow> exn" where
  "permission_error m \<equiv> Exn PermissionError m"

record authority_inspection =
  ai_request_id :: string
  ai_decision_id :: string
  ai_effect_id :: string
  ai_dollar_cap :: rat
  ai_daily_stop_loss_usd :: rat
  ai_valid_until :: instant

definition owner_limits_ok :: "signing_evidence \<Rightarrow> bool" where
  "owner_limits_ok e = (let arm = sa_request (ev_owner_arm e) in
     \<not> (ma_dollar_cap arm \<le> 0 \<or> ma_daily_stop_loss_usd arm \<le> 0 \<or> ma_daily_stop_loss_usd arm > ma_dollar_cap arm
       \<or> ma_context arm \<noteq> rg_context (ev_risk e)))"

definition loaded_message :: "signing_request \<Rightarrow> json res" where
  "loaded_message q = (case json_loads plain_object (sq_message_json q) of
     Some j \<Rightarrow> Inr j | None \<Rightarrow> raise ValueError ''malformed JSON'')"

definition object_of :: "json \<Rightarrow> obj" where
  "object_of j = (case j of JObj d \<Rightarrow> d | _ \<Rightarrow> [])"

definition inspect_authority :: "chain_config \<Rightarrow> signing_request \<Rightarrow> authority_inspection chain" where
  "inspect_authority H q = (bindp (liftp (validate_signing_request q)) (\<lambda>_.
     bindp (checkp [(sq_context q = ch_context H, refused ''signing request differs from the production runtime context''),
       (map_of operation_bindings (sq_operation q) \<noteq> None, refused ''signing operation has no production wire mapping'')]) (\<lambda>_.
     bindp (read_wall) (\<lambda>t.
     bindp (liftp (case aware t of Inl _ \<Rightarrow> Inl (refused ''runtime clock must return an explicit UTC time'') | Inr n \<Rightarrow> Inr n)) (\<lambda>now.
     let remaining = total_seconds (sq_expires_at q - now) in
     bindp (checkp [(flt fzero remaining \<and> fle remaining (Fin 30),
       permission_error ''production inspection requires an unexpired bounded request'')]) (\<lambda>_.
     bindp (catch_exception (under_deadline (inspect_request (ch_auth H) q (ch_binding H)))
       (\<lambda>_. Fail (permission_error ''complete current production authority is unavailable''))) (\<lambda>e.
     bindp (read_wall) (\<lambda>t1.
     bindp (liftp (not_before t1 now (permission_error ''production inspection clock regressed or the request expired''))) (\<lambda>_.
     bindp (checkp [(dt_wall_us t1 - the (dt_offset_us t1) < sq_expires_at q,
         permission_error ''production inspection clock regressed or the request expired''),
       (owner_limits_ok e, permission_error ''explicit owner dollar-cap and daily-loss limits are required'')]) (\<lambda>_.
     bindp (liftp (loaded_message q)) (\<lambda>j.
     let decision_id = rg_decision_id (ev_risk e) in
     let eff_id = signing_effect_id q (object_of j) decision_id in
     bindp (checkp [(rg_effect_id (ev_risk e) = eff_id, permission_error ''current risk decision differs from the exact signed effect'')]) (\<lambda>_.
     Ret \<lparr> ai_request_id = sq_request_id q, ai_decision_id = decision_id, ai_effect_id = eff_id,
       ai_dollar_cap = ma_dollar_cap (sa_request (ev_owner_arm e)),
       ai_daily_stop_loss_usd = ma_daily_stop_loss_usd (sa_request (ev_owner_arm e)),
       ai_valid_until = rg_valid_until (ev_risk e) \<rparr>))))))))))))"

definition wire_request_of :: "chain_config \<Rightarrow> signing_request \<Rightarrow> signed_data \<Rightarrow> authority_inspection \<Rightarrow> wire_request res" where
  "wire_request_of H q s a = (case map_of operation_bindings (sq_operation q) of
     None \<Rightarrow> Inl (refused ''signing operation has no production wire mapping'')
   | Some spec \<Rightarrow> (rbind (loaded_message q) (\<lambda>j.
     let m = object_of j in
     rbind ((case snd (fst spec) of None \<Rightarrow> Inr (fst (fst spec))
         | Some tail \<Rightarrow> (case field m ''instrument'' of JStr i \<Rightarrow> Inr (fst (fst spec) @ i @ tail)
             | _ \<Rightarrow> Inl (refused ''signed message lacks its bound instrument'')))) (\<lambda>path.
     rbind (wire_body (sq_operation q) m (sd_signature s)) (\<lambda>body.
     let w = \<lparr> wr_context = ch_context H, wr_database_uuid = ch_database_uuid H, wr_decision_id = ai_decision_id a,
         wr_effect_id = ai_effect_id a, wr_effect_type = fst (snd spec), wr_path = path, wr_body = body,
         wr_signing_request = q, wr_custody_binding = ch_binding H, wr_signed = s \<rparr> in
     rbind (validate_wire w) (\<lambda>_.
     Inr w))))))"

record runtime_outcome =
  ro_request_id :: string
  ro_decision_id :: string
  ro_effect_id :: string

definition dispatch_one_response :: "chain_config \<Rightarrow> signing_request \<Rightarrow> (runtime_outcome \<times> json) chain" where
  "dispatch_one_response H q = (bindp (liftp (validate_signing_request q)) (\<lambda>_.
     bindp (inspect_authority H q) (\<lambda>a.
     bindp (read_wall) (\<lambda>t.
     bindp (sign_async H q t) (\<lambda>s.
     bindp (liftp (wire_request_of H q s a)) (\<lambda>w.
     bindp (dispatch_one H w) (\<lambda>r.
     bindp (checkp [(finite_json r, Exn ValueError ''Out of range float values are not JSON compliant'')]) (\<lambda>_.
     Ret (\<lparr> ro_request_id = sq_request_id q, ro_decision_id = ai_decision_id a, ro_effect_id = ai_effect_id a \<rparr>, r)))))))))"

end
