(* ===== verification/Prod_Rules.thy ===== *)
theory Prod_Rules
  imports Prod_Chain Interaction_Rules
begin

text \<open>
  The guard of the production chain: what must have happened before the custody backend signs, before the
  transport sends, and before an outcome is recorded as completed; and the proofs that the signer, the
  dispatcher and the runtime respect it for every answer of the environment.
\<close>

section \<open>Facts of a history\<close>

abbreviation "chain_codec H \<equiv> ac_codec (ch_auth H)"

text \<open>Evidence that was resolved for the request and verified at a clock reading before its deadline.\<close>

definition authorizes :: "auth_config \<Rightarrow> signing_request \<Rightarrow> custody_binding \<Rightarrow> signing_evidence \<Rightarrow> chain_trace \<Rightarrow> bool" where
  "authorizes A q b e u \<longleftrightarrow> (\<exists>t0. (Resolve_Evidence q b t0, Inr (Evidence e)) \<in> set u)
     \<and> validate_evidence e = Inr ()
     \<and> (\<exists>now. (Read_Wall, Inr (Wall (utc now))) \<in> set u \<and> now < sq_expires_at q \<and> verify_evidence A q b e now = Inr ())"

definition reserved_for :: "signing_request \<Rightarrow> custody_binding \<Rightarrow> signing_evidence \<Rightarrow> chain_trace \<Rightarrow> bool" where
  "reserved_for q b e u \<longleftrightarrow> is_exit q \<or> (Reserve_Entry q b e, Inr Acted) \<in> set u"

fun silent :: "chain_request \<Rightarrow> bool" where
  "silent (Store (Load_Claim k ns i)) = True"
| "silent (Store c) = False"
| "silent (Sign_Message r d s m) = False"
| "silent (Send p b) = False"
| "silent (Cancel_Entry e i x) = False"
| "silent (Cancel_Protection e i x) = False"
| "silent q = True"

fun clock_read :: "chain_request \<Rightarrow> bool" where
  "clock_read Read_Wall = True"
| "clock_read Read_Loop = True"
| "clock_read q = False"

lemma clock_read_silent: "clock_read q \<Longrightarrow> silent q"
  by (cases q) auto

lemma authorizes_mono: "authorizes A q b e u \<Longrightarrow> set u \<subseteq> set v \<Longrightarrow> authorizes A q b e v"
  unfolding authorizes_def by blast

section \<open>The guard\<close>

text \<open>The guard has two parameters: which signing requests the history so far stands for, which only grows; and
  what must have happened before a cancellation is asked, completed or confirmed.\<close>

type_synonym request_source = "chain_trace \<Rightarrow> signing_request \<Rightarrow> bool"

definition granted :: "string \<Rightarrow> string \<Rightarrow> string \<Rightarrow> string \<Rightarrow> chain_request \<times> chain_response res" where
  "granted kind ns i sha = (Store (Claim_Call kind ns i sha), Inr (Stored (Claimed True)))"

definition may_sign :: "chain_config \<Rightarrow> request_source \<Rightarrow> chain_trace \<Rightarrow> string \<Rightarrow> (string \<times> string) list \<Rightarrow> obj \<Rightarrow> bool" where
  "may_sign H Q h ref schema m \<longleftrightarrow> (\<exists>q digest e u v t now. Q h q \<and> h = u @ granted ''TYPED_SIGNING'' ref (sq_request_id q) digest # v
     \<and> all_asks clock_read v \<and> ref = cb_custody_reference (ch_binding H)
     \<and> prepare_fields H q t = Inr (now, schema, m, digest)
     \<and> authorizes (ch_auth H) q (ch_binding H) e u \<and> reserved_for q (ch_binding H) e u)"

definition sent_body :: "wire_request \<Rightarrow> obj \<Rightarrow> obj \<Rightarrow> bool" where
  "sent_body w m body \<longleftrightarrow> (\<exists>d. wire_body (sq_operation (wr_signing_request w)) m (sd_signature (wr_signed w)) = Inr d
     \<and> finite_json (JObj d) \<and> json_loads plain_object (compact_text (JObj d)) = Some (JObj body))"

definition wire_authorized :: "chain_config \<Rightarrow> wire_request \<Rightarrow> chain_trace \<Rightarrow> bool" where
  "wire_authorized H w u \<longleftrightarrow> (\<exists>e. authorizes (ch_auth H) (wr_signing_request w) (wr_custody_binding w) e u
     \<and> rg_decision_id (ev_risk e) = wr_decision_id w \<and> rg_effect_id (ev_risk e) = wr_effect_id w)"

lemma wire_authorized_mono: "wire_authorized H w u \<Longrightarrow> set u \<subseteq> set v \<Longrightarrow> wire_authorized H w v"
  unfolding wire_authorized_def using authorizes_mono by blast

definition signature_proven :: "chain_config \<Rightarrow> wire_request \<Rightarrow> obj \<Rightarrow> chain_trace \<Rightarrow> bool" where
  "signature_proven H w m u \<longleftrightarrow> (let q = wr_signing_request w; b = wr_custody_binding w in
     (\<exists>c. (Store (Load_Claim ''TYPED_SIGNING'' (cb_custody_reference b) (sq_request_id q)), Inr (Stored (Loaded c))) \<in> set u
        \<and> signing_claim_ok H w c)
     \<and> (\<exists>schema sm. typed_message q b = Inr (schema, m) \<and> signed_message (sq_operation q) m = Inr sm
        \<and> (Check_Signature (cb_wallet_address b) (build_domain (cb_chain_id b)) schema sm (sd_signature (wr_signed w)),
             Inr (Answer (JBool True))) \<in> set u))"

text \<open>The last clock reading before the deadline.\<close>

definition unexpired :: "wire_request \<Rightarrow> chain_trace \<Rightarrow> bool" where
  "unexpired w v \<longleftrightarrow> (\<exists>v' now x. v = v' @ [(Read_Wall, Inr (Wall (utc now))), (Read_Loop, x)]
     \<and> now < sq_expires_at (wr_signing_request w))"

definition may_send :: "chain_config \<Rightarrow> request_source \<Rightarrow> chain_trace \<Rightarrow> string \<Rightarrow> obj \<Rightarrow> bool" where
  "may_send H Q h path body \<longleftrightarrow> (\<exists>w m sha u v. Q h (wr_signing_request w) \<and> h = u @ granted ''WIRE_DISPATCH'' (wire_namespace H) (wr_effect_id w) sha # v
     \<and> wr_context w = ch_context H \<and> validate_effect (chain_codec H) w = Inr m \<and> path = wr_path w \<and> sent_body w m body
     \<and> wire_authorized H w u \<and> signature_proven H w m u
     \<and> all_asks silent v \<and> wire_authorized H w v \<and> unexpired w v)"

definition completed_send :: "chain_trace \<Rightarrow> string \<Rightarrow> bool" where
  "completed_send h d \<longleftrightarrow> (\<exists>u v path body r. h = u @ (Send path body, Inr (Answer r)) # v
     \<and> all_asks clock_read v \<and> response_digest r = Inr d)"

definition completed_signature :: "chain_trace \<Rightarrow> string \<Rightarrow> bool" where
  "completed_signature h d \<longleftrightarrow> (\<exists>u v ref domain schema m wallet s.
     h = u @ (Sign_Message ref domain schema m, Inr (Answer (JStr s)))
           # (Check_Signature wallet domain schema m s, Inr (Answer (JBool True))) # v
     \<and> all_asks clock_read v \<and> sha256_hex s = d)"

type_synonym cancel_rule = "chain_trace \<Rightarrow> chain_request \<Rightarrow> bool"

fun chain_guard :: "chain_config \<Rightarrow> request_source \<Rightarrow> cancel_rule \<Rightarrow> chain_trace \<Rightarrow> chain_request \<Rightarrow> bool" where
  "chain_guard H Q K h (Sign_Message ref domain schema m) \<longleftrightarrow> may_sign H Q h ref schema m"
| "chain_guard H Q K h (Send path body) \<longleftrightarrow> may_send H Q h path body"
| "chain_guard H Q K h (Store (Finish_Wire ns i sha status (Some d))) \<longleftrightarrow>
     (if ns = wire_namespace H then completed_send h d else K h (Store (Finish_Wire ns i sha status (Some d))))"
| "chain_guard H Q K h (Store (Finish_Signing ref i sha status (Some d))) \<longleftrightarrow> completed_signature h d"
| "chain_guard H Q K h (Cancel_Entry e i x) \<longleftrightarrow> K h (Cancel_Entry e i x)"
| "chain_guard H Q K h (Cancel_Protection e i x) \<longleftrightarrow> K h (Cancel_Protection e i x)"
| "chain_guard H Q K h (Confirm_Effect e i m) \<longleftrightarrow> K h (Confirm_Effect e i m)"
| "chain_guard H Q K h q = True"

section \<open>Rules of the awaits\<close>

lemma does_chain_await:
  "G t Read_Wall \<Longrightarrow> (\<And>x. P x (t @ [(Read_Wall, Inr (Wall x))])) \<Longrightarrow> does G read_wall t P"
  "G t Read_Loop \<Longrightarrow> (\<And>x. P' x (t @ [(Read_Loop, Inr (Loop x))])) \<Longrightarrow> does G read_loop t P'"
  "G t Deadline_Expired \<Longrightarrow> (\<And>x. P'' x (t @ [(Deadline_Expired, Inr (Flag x))])) \<Longrightarrow> does G deadline_expired t P''"
  "G t (Resolve_Evidence q b now) \<Longrightarrow> (\<And>x. R x (t @ [(Resolve_Evidence q b now, Inr (Evidence x))]))
    \<Longrightarrow> does G (resolve_evidence q b now) t R"
  "G t (Reserve_Entry q b e) \<Longrightarrow> R' () (t @ [(Reserve_Entry q b e, Inr Acted)]) \<Longrightarrow> does G (reserve_entry_row q b e) t R'"
  "G t (Store c) \<Longrightarrow> S () (t @ [(Store c, Inr (Stored Finished))]) \<Longrightarrow> does G (store_finish c) t S"
  "G t (Store (Claim_Call k ns i sha)) \<Longrightarrow> (\<And>x. S' x (t @ [(Store (Claim_Call k ns i sha), Inr (Stored (Claimed x)))]))
    \<Longrightarrow> does G (store_claim k ns i sha) t S'"
  "G t (Store (Load_Claim k ns i)) \<Longrightarrow> (\<And>x. S'' x (t @ [(Store (Load_Claim k ns i), Inr (Stored (Loaded x)))]))
    \<Longrightarrow> does G (store_load k ns i) t S''"
  "G t r \<Longrightarrow> (\<And>x. T x (t @ [(r, Inr (Answer x))])) \<Longrightarrow> does G (answer r) t T"
  by (auto simp: read_wall_def read_loop_def deadline_expired_def resolve_evidence_def reserve_entry_row_def
      store_finish_def store_claim_def store_load_def answer_def
      intro!: does_await split: chain_response.splits store_answer.splits)

lemma does_catch_exception:
  "does G p t P \<Longrightarrow> (\<And>e u. does G (h e) (t @ u) P) \<Longrightarrow> does G (catch_exception p h) t P"
  unfolding catch_exception_def by (intro does_catchp) (auto intro: does_Fail)

lemma does_catch_fail: "does G p t P \<Longrightarrow> does G (catch_exception p (\<lambda>e. Fail (f e))) t P"
  by (intro does_catch_exception) (auto intro: does_Fail)

lemma does_under_deadline:
  "(\<And>h. G h Deadline_Expired) \<Longrightarrow> does G p t P \<Longrightarrow> does G (under_deadline p) t P"
  unfolding under_deadline_def by (intro does_rules does_chain_await) auto

lemma does_catch_timeout: "does G p t P \<Longrightarrow> does G (catch_timeout p e) t P"
  unfolding catch_timeout_def by (intro does_catchp) (auto intro: does_Fail)

lemmas chain_steps = does_rules does_chain_await does_catch_fail does_catch_timeout

lemma does_check_loop:
  assumes "\<And>x. P () (t @ [(Read_Loop, x)])"
  shows "does (chain_guard H Q K) (check_loop deadline e) t P"
  unfolding check_loop_def by (intro chain_steps) (auto intro: assms)

section \<open>Authorization\<close>

lemma aware_utc: "aware t = Inr now \<Longrightarrow> t = utc now"
  by (cases t) (auto simp: aware_def utc_def split: if_splits)

lemma validate_scopeD: "validate_scope A q b t = Inr now \<Longrightarrow> t = utc now \<and> now < sq_expires_at q"
  by (auto simp: validate_scope_def rbind_eq_Inr ensure_ok_iff dest: aware_utc)

text \<open>What the request, the answers and the checks of one authorization leave in the history.\<close>

lemma does_resolve_verify:
  assumes "\<And>e u. all_asks silent u \<Longrightarrow> authorizes A q b e u \<Longrightarrow> (reserve \<Longrightarrow> reserved_for q b e u) \<Longrightarrow> P e (t @ u)"
  shows "does (chain_guard H Q K) (resolve_verify A q b reserve) t P"
proof (rule does_conseq)
  show "does (chain_guard H Q K) (resolve_verify A q b reserve) t
      (\<lambda>e t'. \<exists>u. t' = t @ u \<and> all_asks silent u \<and> authorizes A q b e u \<and> (reserve \<longrightarrow> reserved_for q b e u))"
    unfolding resolve_verify_def signing_only_def
    by (intro chain_steps) (auto simp: authorizes_def reserved_for_def dest!: validate_scopeD)
qed (use assms in auto)

lemma does_verify_request:
  assumes "\<And>e u. all_asks silent u \<Longrightarrow> authorizes A q b e u \<Longrightarrow> reserved_for q b e u \<Longrightarrow> P () (t @ u)"
  shows "does (chain_guard H Q K) (verify_request A q b) t P"
  unfolding verify_request_def by (intro chain_steps does_resolve_verify) (auto intro: assms)

lemma does_verify_wire_effect:
  assumes "\<And>u. all_asks silent u \<Longrightarrow> wire_authorized H w u \<Longrightarrow> P () (t @ u)"
  shows "does (chain_guard H Q K) (verify_wire_effect H w) t P"
  unfolding verify_wire_effect_def verify_effect_def
  by (intro chain_steps does_resolve_verify) (auto simp: wire_authorized_def ensure_ok_iff intro!: assms)

lemma does_inspect_request:
  assumes "\<And>e u. P e (t @ u)"
  shows "does (chain_guard H Q K) (inspect_request A q b) t P"
  unfolding inspect_request_def by (rule does_resolve_verify) (rule assms)

section \<open>The signer\<close>

locale request_history =
  fixes Q :: "chain_trace \<Rightarrow> signing_request \<Rightarrow> bool"
  assumes still: "Q h q \<Longrightarrow> Q (h @ u) q"
begin

lemma does_sign_claimed:
  assumes "may_sign H Q t (cb_custody_reference b) schema m"
    "\<And>s sd. sd_signature_sha256 sd = sha256_hex s \<Longrightarrow>
       P sd (t @ [(Sign_Message (cb_custody_reference b) (build_domain (cb_chain_id b)) schema m, Inr (Answer (JStr s))),
       (Check_Signature (cb_wallet_address b) (build_domain (cb_chain_id b)) schema m s, Inr (Answer (JBool True)))])"
  shows "does (chain_guard H Q K) (sign_claimed b schema m digest) t P"
  unfolding sign_claimed_def
  by (intro chain_steps) (auto simp: assms(1) ensure_ok_iff intro!: assms(2) split: json.splits if_splits)

lemma may_signI:
  assumes "Q t q" "prepare_fields H q t0 = Inr (now, schema, m, digest)" "authorizes (ch_auth H) q (ch_binding H) e u"
    "reserved_for q (ch_binding H) e u"
  shows "may_sign H Q (t @ x # u @ [y, (Store (Claim_Call ''TYPED_SIGNING'' (cb_custody_reference (ch_binding H)) (sq_request_id q) digest),
     Inr (Stored (Claimed True))), (Read_Loop, z)]) (cb_custody_reference (ch_binding H)) schema m"
proof -
  let ?u = "t @ x # u @ [y]"
  have "authorizes (ch_auth H) q (ch_binding H) e ?u" using assms(3) by (rule authorizes_mono) auto
  moreover have "reserved_for q (ch_binding H) e ?u" using assms(4) by (auto simp: reserved_for_def)
  moreover have "all_asks clock_read [(Read_Loop, z)]" by simp
  ultimately show ?thesis
    unfolding may_sign_def granted_def using assms(2) still [OF assms(1)]
    by (intro exI [of _ q] exI [of _ digest] exI [of _ e] exI [of _ ?u] exI [of _ "[(Read_Loop, z)]"] exI [of _ t0] exI [of _ now]) auto
qed

lemma does_finish:
  "(\<And>h. chain_guard H Q K h (Store c)) \<Longrightarrow> does (chain_guard H Q K) (store_finish c) t (\<lambda>_ _. True)"
  by (rule does_chain_await) auto

lemma keeps_sign_body:
  assumes "Q t q" "prepare_fields H q t0 = Inr (now, schema, m, digest)"
  shows "does (chain_guard H Q K) (sign_body H q schema m digest deadline) t (\<lambda>_ _. True)"
proof -
  let ?b = "ch_binding H"
  let ?sign = "catch_exception (sign_claimed ?b schema m digest) (\<lambda>_. bindp
     (catch_exception (store_finish (Finish_Signing (cb_custody_reference ?b) (sq_request_id q) digest ''UNRESOLVED'' None))
        (\<lambda>_. Fail (signing_error ''managed signing and terminal outcomes unresolved; do not retry'')))
     (\<lambda>_. Fail (signing_error ''managed signing outcome failed or is unresolved; do not retry'')))"
  let ?after = "\<lambda>signed. bindp (check_loop deadline timeout_error) (\<lambda>_.
     bindp (catch_exception (store_finish (Finish_Signing (cb_custody_reference ?b) (sq_request_id q) digest ''COMPLETED''
         (Some (sd_signature_sha256 signed)))) (\<lambda>_. Fail (signing_error ''signing terminal outcome is unresolved; do not retry'')))
     (\<lambda>_. bindp (check_loop deadline timeout_error) (\<lambda>_. Ret signed)))"
  have after: "does (chain_guard H Q K) (?after signed) h (\<lambda>_ _. True)"
    if "sd_signature_sha256 signed = sha256_hex s"
      "h = h0 @ [(Sign_Message ref domain schema m, Inr (Answer (JStr s))),
         (Check_Signature wallet domain schema m s, Inr (Answer (JBool True)))]" for signed h h0 s ref domain wallet
  proof -
    have "completed_signature (h @ [(Read_Loop, x)]) (sd_signature_sha256 signed)" for x
      unfolding completed_signature_def that
      by (rule exI [of _ h0], rule exI [of _ "[(Read_Loop, x)]"]) auto
    then show ?thesis by (intro chain_steps does_check_loop) auto
  qed
  have sign: "does (chain_guard H Q K) ?sign h (\<lambda>signed h'. does (chain_guard H Q K) (?after signed) h' (\<lambda>_ _. True))"
    if "may_sign H Q h (cb_custody_reference ?b) schema m" for h
    by (intro does_catch_exception does_sign_claimed that after [OF _ refl])
      (auto intro!: does_rules does_catch_fail does_chain_await)
  show ?thesis
    unfolding sign_body_def Let_def
    by (intro chain_steps does_check_loop does_verify_request)
      (auto simp: ensure_ok_iff intro!: sign intro: may_signI [OF assms])
qed

lemma keeps_sign_async: "Q t q \<Longrightarrow> does (chain_guard H Q K) (sign_async H q t0) t (\<lambda>_ _. True)"
  unfolding sign_async_def Let_def
  by (intro chain_steps does_under_deadline) (auto intro: keeps_sign_body still)

section \<open>The dispatcher\<close>

lemma does_fresh_time:
  assumes "\<And>now x. now < sq_expires_at (wr_signing_request w) \<Longrightarrow>
    P now (t @ [(Read_Wall, Inr (Wall (utc now))), (Read_Loop, x)])"
  shows "does (chain_guard H Q K) (fresh_time w deadline high) t P"
  unfolding fresh_time_def
  by (intro chain_steps does_check_loop) (auto simp: ensure_ok_iff dest!: aware_utc intro!: assms)

lemma does_unresolved:
  "does (chain_guard H Q K) (finish_shielded H w sha ''UNRESOLVED'' None deadline) t (\<lambda>_ _. True)"
  unfolding finish_shielded_def
  by (intro chain_steps does_check_loop does_under_deadline) auto

lemma does_or_unresolved:
  "does (chain_guard H Q K) p t P \<Longrightarrow> does (chain_guard H Q K) (or_unresolved H w sha deadline e' p) t P"
  unfolding or_unresolved_def
  by (intro does_catchp does_bindp does_conseq [OF does_unresolved]) (auto intro: does_Fail)

lemma does_completed:
  assumes "completed_send t d" "\<And>u. P () (t @ u)"
  shows "does (chain_guard H Q K) (finish_shielded H w sha ''COMPLETED'' (Some d) deadline) t P"
proof -
  have "completed_send (t @ [(Read_Loop, x)]) d" for x
    using assms(1) unfolding completed_send_def by (elim exE conjE) (intro exI, auto)
  then show ?thesis
    unfolding finish_shielded_def
    by (intro chain_steps does_check_loop does_under_deadline) (auto intro: assms(2))
qed

definition claimed_wire :: "chain_config \<Rightarrow> wire_request \<Rightarrow> obj \<Rightarrow> chain_trace \<Rightarrow> bool" where
  "claimed_wire H w m t \<longleftrightarrow> (\<exists>sha u v. t = u @ granted ''WIRE_DISPATCH'' (wire_namespace H) (wr_effect_id w) sha # v
     \<and> all_asks silent v \<and> wire_authorized H w u \<and> signature_proven H w m u)"

lemma does_last_check:
  assumes "\<And>now v. all_asks silent v \<Longrightarrow> wire_authorized H w v \<Longrightarrow> unexpired w v \<Longrightarrow> P now (t @ v)"
  shows "does (chain_guard H Q K) (bindp (verify_wire_effect H w) (\<lambda>_. bindp (fresh_time w deadline high) (\<lambda>h1.
     bindp (fresh_time w deadline h1) (\<lambda>h2. bindp (checkp (cs h2)) (\<lambda>_. Ret h2))))) t P"
proof (intro does_rules does_verify_wire_effect does_fresh_time, simp only: append_assoc)
  fix u now x now' x'
  assume u: "all_asks silent u" "wire_authorized H w u" and now: "now' < sq_expires_at (wr_signing_request w)"
  let ?v = "u @ [(Read_Wall, Inr (Wall (utc now))), (Read_Loop, x)] @ [(Read_Wall, Inr (Wall (utc now'))), (Read_Loop, x')]"
  have "wire_authorized H w ?v" using u(2) by (rule wire_authorized_mono) auto
  moreover have "unexpired w ?v"
    unfolding unexpired_def using now
    by (intro exI [of _ "u @ [(Read_Wall, Inr (Wall (utc now))), (Read_Loop, x)]"] exI [of _ now'] exI [of _ x']) simp
  ultimately show "P now' (t @ ?v)" using u(1) by (intro assms) auto
qed

lemma keeps_dispatch_claimed:
  assumes "claimed_wire H w m t" "validate_effect (chain_codec H) w = Inr m" "sent_body w m body"
    "wr_context w = ch_context H" "Q t (wr_signing_request w)"
  shows "does (chain_guard H Q K) (dispatch_claimed H w body sha deadline high) t (\<lambda>_ _. True)"
proof -
  have send: "chain_guard H Q K (t @ v) (Send (wr_path w) body)"
    if "all_asks silent v" "wire_authorized H w v" "unexpired w v" for v
  proof -
    obtain s u v0 where t: "t = u @ granted ''WIRE_DISPATCH'' (wire_namespace H) (wr_effect_id w) s # v0"
        "all_asks silent v0" "wire_authorized H w u" "signature_proven H w m u"
      using assms(1) unfolding claimed_wire_def by blast
    have "wire_authorized H w (v0 @ v)" using that(2) by (rule wire_authorized_mono) auto
    moreover have "unexpired w (v0 @ v)" using that(3) unfolding unexpired_def by (metis append_assoc)
    moreover have "all_asks silent (v0 @ v)" using t(2) that(1) by simp
    moreover have Q: "Q (u @ granted ''WIRE_DISPATCH'' (wire_namespace H) (wr_effect_id w) s # (v0 @ v)) (wr_signing_request w)"
      using still [OF assms(5), of v] t(1) by simp
    ultimately have "may_send H Q (u @ granted ''WIRE_DISPATCH'' (wire_namespace H) (wr_effect_id w) s # (v0 @ v)) (wr_path w) body"
      unfolding may_send_def using t(3,4) assms(2-4) Q by blast
    then show ?thesis using t(1) by simp
  qed
  have completed: "completed_send (h @ [(Send p b, Inr (Answer r)), (Read_Wall, x1), (Read_Loop, y1), (Read_Wall, x2), (Read_Loop, y2)]) d"
    if "response_digest r = Inr d" for h p b r d x1 y1 x2 y2
    unfolding completed_send_def using that
    by (intro exI [of _ h] exI [of _ "[(Read_Wall, x1), (Read_Loop, y1), (Read_Wall, x2), (Read_Loop, y2)]"] exI [of _ p] exI [of _ b] exI [of _ r]) auto
  show ?thesis
    unfolding dispatch_claimed_def
  proof (rule does_bindp, rule does_or_unresolved, rule does_last_check)
    fix now v
    assume v: "all_asks silent v" "wire_authorized H w v" "unexpired w v"
    show "does (chain_guard H Q K) (bindp (or_unresolved H w sha deadline (dispatch_error ''wire outcome is unresolved; do not retry'')
         (bindp (answer (Send (wr_path w) body)) (\<lambda>r. bindp (fresh_time w deadline now) (\<lambda>h3.
          bindp (liftp (response_digest r)) (\<lambda>d. Ret (r, d, h3))))))
       (\<lambda>sent. case sent of (r, d, h3) \<Rightarrow> bindp (fresh_time w deadline h3) (\<lambda>h4.
          bindp (finish_shielded H w sha ''COMPLETED'' (Some d) deadline) (\<lambda>_.
          bindp (fresh_time w deadline h4) (\<lambda>_. Ret r))))) (t @ v) (\<lambda>_ _. True)"
      by (intro chain_steps does_or_unresolved does_fresh_time does_completed) (auto intro: send [OF v, simplified] completed [where h = "t @ v", simplified])
  qed
qed

lemma does_signature_verified:
  assumes "validate_effect (chain_codec H) w = Inr m"
    "\<And>v u. (v \<Longrightarrow> \<exists>schema sm. typed_message (wr_signing_request w) (wr_custody_binding w) = Inr (schema, m)
        \<and> signed_message (sq_operation (wr_signing_request w)) m = Inr sm
        \<and> (Check_Signature (cb_wallet_address (wr_custody_binding w)) (build_domain (cb_chain_id (wr_custody_binding w))) schema sm
             (sd_signature (wr_signed w)), Inr (Answer (JBool True))) \<in> set u) \<Longrightarrow> P v (t @ u)"
  shows "does (chain_guard H Q K) (signature_verified w) t P"
proof (rule does_conseq)
  have m: "typed_message (wr_signing_request w) (wr_custody_binding w) = Inr typed \<Longrightarrow> snd typed = m" for typed
    using assms(1) by (auto simp: validate_effect_def Let_def rbind_eq_Inr split: sum.splits)
  show "does (chain_guard H Q K) (signature_verified w) t (\<lambda>v t'. \<exists>u. t' = t @ u \<and>
      (v \<longrightarrow> (\<exists>schema sm. typed_message (wr_signing_request w) (wr_custody_binding w) = Inr (schema, m)
        \<and> signed_message (sq_operation (wr_signing_request w)) m = Inr sm
        \<and> (Check_Signature (cb_wallet_address (wr_custody_binding w)) (build_domain (cb_chain_id (wr_custody_binding w))) schema sm
             (sd_signature (wr_signed w)), Inr (Answer (JBool True))) \<in> set u)))"
    unfolding signature_verified_def Let_def
    by (intro chain_steps does_catch_exception) (auto dest: m)
qed (use assms(2) in blast)

lemma keeps_dispatch_bounded:
  assumes "Q t (wr_signing_request w)"
  shows "does (chain_guard H Q K) (dispatch_bounded H w initial deadline) t (\<lambda>_ _. True)"
proof -
  have claimed: "claimed_wire H w m (t @ l # a # b # u @ c # d # v @ [p1, p2, (Store (Claim_Call ''WIRE_DISPATCH''
       (wire_namespace H) (wr_effect_id w) sha), Inr (Stored (Claimed True))), (Read_Wall, y), (Read_Loop, z)])"
    if "signature_proven H w m (t @ l # a # b # u)" "wire_authorized H w v" for l a b u c d v m sha p1 p2 y z
  proof -
    let ?u = "t @ l # a # b # u @ c # d # v @ [p1, p2]"
    have "wire_authorized H w ?u" using that(2) by (rule wire_authorized_mono) auto
    moreover have "signature_proven H w m ?u" using that(1) by (auto simp: signature_proven_def Let_def)
    ultimately show ?thesis
      unfolding claimed_wire_def granted_def
      by (intro exI [of _ sha] exI [of _ ?u] exI [of _ "[(Read_Wall, y), (Read_Loop, z)]"]) simp
  qed
  show ?thesis
    unfolding dispatch_bounded_def Let_def
    by (intro chain_steps does_fresh_time does_verify_wire_effect does_signature_verified keeps_dispatch_claimed)
      (auto simp: ensure_ok_iff sent_body_def canonical_text_def signature_proven_def Let_def intro!: claimed still [OF assms]
        split: json.splits option.splits if_splits)
qed

end

end
