(* ===== verification/Prod_Session.thy ===== *)
theory Prod_Session
  imports Prod_Rules
begin

text \<open>
  Sessions of the production runtime: any sequence of effects, each of which may raise, against every
  environment; and against every environment whose claims store is the transaction model of
  \<open>Prod_Claims\<close> with arbitrary connection failures.
\<close>

section \<open>Every session meets the guard\<close>

lemma wire_request_source: "wire_request_of H q s a = Inr w \<Longrightarrow> wr_signing_request w = q"
  unfolding wire_request_of_def by (cases "map_of operation_bindings (sq_operation q)") (auto simp: rbind_eq_Inr Let_def)

context request_history
begin

lemma keeps_dispatch_one:
  "Q t (wr_signing_request w) \<Longrightarrow> does (chain_guard H Q K) (dispatch_one H w) t (\<lambda>_ _. True)"
  unfolding dispatch_one_def Let_def
  by (intro chain_steps does_under_deadline keeps_dispatch_bounded) (auto intro: still)

lemma keeps_inspect_authority:
  assumes "\<And>a u. P a (t @ u)"
  shows "does (chain_guard H Q K) (inspect_authority H q) t P"
  unfolding inspect_authority_def Let_def
  by (intro chain_steps does_under_deadline does_inspect_request) (auto intro: assms)

lemma keeps_dispatch_one_response:
  assumes "Q t q"
  shows "does (chain_guard H Q K) (dispatch_one_response H q) t (\<lambda>_ _. True)"
proof -
  have sign: "does (chain_guard H Q K) (sign_async H q x) h (\<lambda>a h'. \<exists>u. h' = h @ u)" if "Q h q" for x h
    by (rule does_conseq [OF does_extends [OF keeps_sign_async [OF that]]]) auto
  show ?thesis
    unfolding dispatch_one_response_def
    by (intro chain_steps keeps_inspect_authority does_conseq [OF sign] does_conseq [OF keeps_dispatch_one])
      (auto simp: wire_request_source intro: still assms)
qed

end

interpretation listed: request_history "\<lambda>_ q. q \<in> set qs" for qs
  by unfold_locales

definition chain_session :: "chain_config \<Rightarrow> signing_request list \<Rightarrow> (runtime_outcome \<times> json) res list chain" where
  "chain_session H qs = mapp (\<lambda>q. attempt (dispatch_one_response H q)) qs"

definition chain_history ::
  "(chain_trace \<Rightarrow> chain_request \<Rightarrow> chain_response res) \<Rightarrow> chain_config \<Rightarrow> signing_request list \<Rightarrow> chain_trace" where
  "chain_history env H qs = fst (snd (run env (chain_session H qs) () []))"

lemma does_attempt_chain: "does G p t (\<lambda>_ _. True) \<Longrightarrow> does G (attempt p) t (\<lambda>_ _. True)"
  unfolding attempt_def by (rule does_catchp, rule does_bindp, erule does_conseq) (auto intro: does_Ret)

text \<open>Only the requests of the session are signed and sent, and nothing is cancelled.\<close>

abbreviation listed_guard :: "chain_config \<Rightarrow> signing_request list \<Rightarrow> chain_trace \<Rightarrow> chain_request \<Rightarrow> bool" where
  "listed_guard H qs \<equiv> chain_guard H (\<lambda>_ q. q \<in> set qs) (\<lambda>_ _. False)"

lemma chain_guarded: "guarded (listed_guard H qs) (chain_history env H qs)"
  unfolding chain_history_def chain_session_def
  by (rule keeps_run) (auto intro!: keepsI keeps_mapp does_attempt_chain listed.keeps_dispatch_one_response)

section \<open>The claims store as the environment\<close>

text \<open>The tables after a history, latest request first; \<open>faults\<close> decides from the history before a call
  whether its connection fails.\<close>

primrec state_before :: "(chain_trace \<Rightarrow> fault) \<Rightarrow> string \<Rightarrow> claims_db \<Rightarrow> chain_trace \<Rightarrow> claims_db" where
  "state_before faults cx db [] = db"
| "state_before faults cx db (x # h) = (case fst x of
     Store c \<Rightarrow> fst (faulty_call (faults (rev h)) cx (state_before faults cx db h) c)
   | _ \<Rightarrow> state_before faults cx db h)"

definition with_store ::
  "(chain_trace \<Rightarrow> fault) \<Rightarrow> string \<Rightarrow> claims_db \<Rightarrow> (chain_trace \<Rightarrow> chain_request \<Rightarrow> chain_response res)
   \<Rightarrow> chain_trace \<Rightarrow> chain_request \<Rightarrow> chain_response res" where
  "with_store faults cx db env h q = (case q of
     Store c \<Rightarrow> map_sum id Stored (snd (faulty_call (faults h) cx (state_before faults cx db (rev h)) c))
   | _ \<Rightarrow> env h q)"

text \<open>The answers of a history are the environment's.\<close>

definition follows :: "('q \<times> 'r) list \<Rightarrow> (('q \<times> 'r) list \<Rightarrow> 'q \<Rightarrow> 'r) \<Rightarrow> bool" where
  "follows h env \<longleftrightarrow> (\<forall>u x v. h = u @ x # v \<longrightarrow> snd x = env u (fst x))"

lemma follows_Nil [simp]: "follows [] env"
  by (simp add: follows_def)

lemma follows_snoc [simp]: "follows (h @ [x]) env \<longleftrightarrow> follows h env \<and> snd x = env h (fst x)"
proof
  assume l: "follows (h @ [x]) env"
  have "follows h env"
    unfolding follows_def
  proof (intro allI impI)
    fix u y v assume "h = u @ y # v"
    then show "snd y = env u (fst y)" using l unfolding follows_def by (metis append.assoc append_Cons)
  qed
  moreover have "snd x = env h (fst x)" using l unfolding follows_def by blast
  ultimately show "follows h env \<and> snd x = env h (fst x)" by blast
next
  assume r: "follows h env \<and> snd x = env h (fst x)"
  show "follows (h @ [x]) env"
    unfolding follows_def
  proof (intro allI impI)
    fix u y v assume *: "h @ [x] = u @ y # v"
    show "snd y = env u (fst y)"
    proof (cases v rule: rev_cases)
      case Nil
      then show ?thesis using * r by simp
    next
      case (snoc v' z)
      then have "h = u @ y # v'" using * by simp
      then show ?thesis using r unfolding follows_def by blast
    qed
  qed
qed

lemma run_follows: "follows t env \<Longrightarrow> follows (fst (snd (run env p s t))) env"
  by (induction p arbitrary: s t) auto

fun chain_grants :: "chain_request \<times> chain_response res \<Rightarrow> claim_key list" where
  "chain_grants (Store c, Inr (Stored a)) = claim_granted c (Inr a)"
| "chain_grants _ = []"

primrec store_calls :: "(chain_trace \<Rightarrow> fault) \<Rightarrow> chain_trace \<Rightarrow> (fault \<times> store_call) list" where
  "store_calls faults [] = []"
| "store_calls faults (x # h) = store_calls faults h @ (case fst x of Store c \<Rightarrow> [(faults (rev h), c)] | _ \<Rightarrow> [])"

lemma grants_of_store:
  "follows h (with_store faults cx db env) \<Longrightarrow>
     concat (map chain_grants h) = claims.grants_of cx db (store_calls faults (rev h))
     \<and> claims.state_after cx db (store_calls faults (rev h)) = state_before faults cx db (rev h)"
proof (induction h rule: rev_induct)
  case (snoc x h)
  then have IH: "concat (map chain_grants h) = claims.grants_of cx db (store_calls faults (rev h))"
      "claims.state_after cx db (store_calls faults (rev h)) = state_before faults cx db (rev h)" by auto
  show ?case
  proof (cases "fst x")
    case (Store c)
    then have "snd x = map_sum id Stored (snd (faulty_call (faults h) cx (state_before faults cx db (rev h)) c))"
      using snoc.prems by (simp add: with_store_def)
    moreover have "chain_grants x = claim_granted c (snd (faulty_call (faults h) cx (state_before faults cx db (rev h)) c))"
      using calculation Store by (cases x; cases "snd (faulty_call (faults h) cx (state_before faults cx db (rev h)) c)") auto
    ultimately show ?thesis using IH Store by (simp add: claims.grants_of_append claims.state_after_append)
  qed (use IH in \<open>cases x; auto\<close>)+
qed simp

lemma granted_once:
  "follows h (with_store faults cx db env) \<Longrightarrow> count_list (concat (map chain_grants h)) k \<le> 1"
  using grants_of_store claims.granted_at_most_once by metis

end
