(* ===== verification/Prod_Wire.thy ===== *)
theory Prod_Wire
  imports Prod_Messages Sim_Kernel_Total
begin

text \<open>
  What the REST body of a signed message says: every number is the signed integer over \<open>10 ^ 8\<close>, written
  as its shortest decimal, and every other field is the signed one. The frozen body that the dispatcher
  sends is read back from canonical JSON; reading loses nothing.
\<close>

section \<open>Decimals of the wire\<close>

fun last_digits :: "nat \<Rightarrow> nat \<Rightarrow> string" where
  "last_digits 0 n = []"
| "last_digits (Suc k) n = last_digits k (n div 10) @ [digit_char (n mod 10)]"

lemma digit_char_0 [simp]: "digit_char 0 = CHR ''0''"
  by code_simp

lemma last_digits_zero: "last_digits k 0 = replicate k (CHR ''0'')"
  by (induction k) (simp_all add: replicate_append_same)

lemma padded_digits: "n < 10 ^ k \<Longrightarrow> 0 < k \<Longrightarrow> replicate (k - length (nat_digits n)) (CHR ''0'') @ nat_digits n = last_digits k n"
proof (induction k arbitrary: n)
  case (Suc k)
  show ?case
  proof (cases "n < 10")
    case True
    then show ?thesis by (simp add: nat_digits.simps [of n] last_digits_zero)
  next
    case False
    then have "n div 10 < 10 ^ k" "0 < k" using Suc.prems by (cases k; simp add: div_less_iff_less_mult)+
    then show ?thesis using Suc.IH [of "n div 10"] False by (simp add: nat_digits.simps [of n])
  qed
qed simp

lemma digits_frac_snoc: "digits_frac (ds @ [c]) = digits_frac ds + of_nat (char_digit c) / 10 ^ Suc (length ds)"
  by (induction ds) (simp_all add: field_simps)

lemma length_last_digits [simp]: "length (last_digits k n) = k"
  by (induction k arbitrary: n) simp_all

lemma digits_frac_last_digits: "n < 10 ^ k \<Longrightarrow> digits_frac (last_digits k n) = of_nat n / 10 ^ k"
proof (induction k arbitrary: n)
  case (Suc k)
  then have "digits_frac (last_digits k (n div 10)) = of_nat (n div 10) / 10 ^ k" by (simp add: div_less_iff_less_mult)
  moreover have "(of_nat n :: rat) = 10 * of_nat (n div 10) + of_nat (n mod 10)"
    by (metis mult_div_mod_eq of_nat_add of_nat_mult of_nat_numeral)
  ultimately show ?case by (simp add: digits_frac_snoc field_simps)
qed simp

lemma digits_frac_zeros: "digits_frac (ds @ replicate k (CHR ''0'')) = digits_frac ds"
proof (induction k)
  case (Suc k)
  then show ?case
    using digits_frac_snoc [of "ds @ replicate k (CHR ''0'')" "CHR ''0''"]
    by (simp add: replicate_append_same [symmetric] char_digit_def)
qed simp

lemma rstrip_zeros: "\<exists>k. s = rstrip_zeros s @ replicate k (CHR ''0'')"
proof -
  let ?z = "takeWhile (\<lambda>c. c = CHR ''0'') (rev s)"
  have "s = rstrip_zeros s @ rev ?z"
    unfolding rstrip_zeros_def by (simp flip: rev_append)
  moreover have "?z = replicate (length ?z) (CHR ''0'')"
    by (rule replicate_length_same [symmetric]) (auto dest: set_takeWhileD)
  ultimately show ?thesis by (metis rev_replicate)
qed

lemma digits_frac_rstrip: "digits_frac (rstrip_zeros s) = digits_frac s"
  using rstrip_zeros [of s] digits_frac_zeros by metis

lemma rstrip_zeros_last: "rstrip_zeros s = [] \<or> last (rstrip_zeros s) \<noteq> CHR ''0''"
  unfolding rstrip_zeros_def using hd_dropWhile [of "\<lambda>c. c = CHR ''0''" "rev s"]
  by (cases "dropWhile (\<lambda>c. c = CHR ''0'') (rev s)") auto

lemma eight_digits_value: "n < 100000000 \<Longrightarrow> digits_frac (rstrip_zeros (eight_digits n)) = of_nat n / 100000000"
  using padded_digits [of n 8] digits_frac_last_digits [of n 8]
  by (simp add: digits_frac_rstrip eight_digits_def Let_def)

text \<open>The text of a wire number reads as the signed integer over \<open>10 ^ 8\<close>, without a trailing zero.\<close>

lemma wire_decimal_exact:
  assumes "0 \<le> v"
  shows "read_decimal (wire_decimal v) = of_int v / 10 ^ 8"
    "CHR ''.'' \<in> set (wire_decimal v) \<Longrightarrow> last (wire_decimal v) \<noteq> CHR ''0''"
proof -
  define f where "f = (if v mod 100000000 \<noteq> 0 then rstrip_zeros (eight_digits (nat (v mod 100000000))) else [])"
  have frac: "digits_frac f = of_int (v mod 100000000) / 100000000"
    using eight_digits_value [of "nat (v mod 100000000)"] by (simp add: f_def of_nat_nat)
  have "f = [] \<longleftrightarrow> v mod 100000000 = 0"
    using frac by (auto simp: f_def)
  then have wire: "wire_decimal v = nat_digits (nat (v div 100000000)) @ (if f = [] then [] else CHR ''.'' # f)"
    using assms by (auto simp: wire_decimal_def Let_def f_def int_text_def)
  obtain c cs where c: "nat_digits (nat (v div 100000000)) = c # cs" "c \<noteq> CHR ''-''"
    using nat_digits_nonempty nat_digits_not_special by (metis list.exhaust list.set_intros(1))
  have "read_decimal (wire_decimal v) = read_unsigned (wire_decimal v)"
    unfolding wire by (simp add: read_decimal_def c)
  also have "\<dots> = of_nat (nat (v div 100000000)) + of_int (v mod 100000000) / 100000000"
    unfolding wire read_unsigned_text frac ..
  also have "\<dots> = of_int v / 10 ^ 8"
  proof -
    have "(of_int v :: rat) = 100000000 * of_int (v div 100000000) + of_int (v mod 100000000)"
      by (metis mult_div_mod_eq of_int_add of_int_mult of_int_numeral)
    then show ?thesis using assms by (simp add: of_nat_nat pos_imp_zdiv_nonneg_iff field_simps)
  qed
  finally show "read_decimal (wire_decimal v) = of_int v / 10 ^ 8" .
  show "CHR ''.'' \<in> set (wire_decimal v) \<Longrightarrow> last (wire_decimal v) \<noteq> CHR ''0''"
  proof (cases "f = []")
    case True
    then show "CHR ''.'' \<in> set (wire_decimal v) \<Longrightarrow> ?thesis" unfolding wire using nat_digits_not_special by auto
  next
    case False
    then have "last f \<noteq> CHR ''0''" using rstrip_zeros_last by (auto simp: f_def split: if_splits)
    then show ?thesis unfolding wire using False by simp
  qed
qed

section \<open>The fields of the body\<close>

lemma wire_fields_get:
  "wire_fields m fs r = Inr r' \<Longrightarrow> map_of r' name =
     (if name \<in> set fs \<and> map_of m name \<noteq> None then Some (JStr (wire_decimal (case map_of m name of Some (JInt v) \<Rightarrow> v | _ \<Rightarrow> 0)))
      else map_of r name)"
  by (induction m fs r rule: wire_fields.induct) (auto split: option.splits json.splits if_splits)

lemma wire_fields_nonneg: "wire_fields m fs r = Inr r' \<Longrightarrow> name \<in> set fs \<Longrightarrow> map_of m name = Some x \<Longrightarrow> \<exists>v. x = JInt v \<and> 0 \<le> v"
  by (induction m fs r rule: wire_fields.induct) (auto split: option.splits json.splits if_splits)

lemma wire_bodyD:
  assumes "wire_body operation m signature = Inr d"
  shows "map_of d ''signature'' = Some (JStr signature)"
    "operation = ''New limit order'' \<Longrightarrow> map_of d ''timeInForce'' = Some (JStr ''IOC'')"
    "name \<in> set wire_numbers \<Longrightarrow> map_of m name = Some x \<Longrightarrow>
       \<exists>v. x = JInt v \<and> 0 \<le> v \<and> map_of d name = Some (JStr (wire_decimal v))"
    "name \<notin> set wire_numbers \<Longrightarrow> name \<notin> {''signature'', ''timeInForce''} \<Longrightarrow> map_of d name = map_of m name"
proof -
  obtain r where r: "wire_fields m wire_numbers m = Inr r"
    and d: "d = dict_set ''signature'' (JStr signature)
      (if operation = ''New limit order'' then dict_set ''timeInForce'' (JStr ''IOC'') r else r)"
    using assms by (auto simp: wire_body_def Let_def rbind_eq_Inr split: if_splits)
  show "map_of d ''signature'' = Some (JStr signature)" by (simp add: d)
  show "operation = ''New limit order'' \<Longrightarrow> map_of d ''timeInForce'' = Some (JStr ''IOC'')" by (simp add: d)
  show "\<exists>v. x = JInt v \<and> 0 \<le> v \<and> map_of d name = Some (JStr (wire_decimal v))"
    if n: "name \<in> set wire_numbers" and x: "map_of m name = Some x"
  proof -
    obtain v where v: "x = JInt v" "0 \<le> v" using wire_fields_nonneg [OF r n x] by blast
    then have "map_of r name = Some (JStr (wire_decimal v))" using wire_fields_get [OF r, of name] n x by simp
    moreover have "name \<noteq> ''signature''" "name \<noteq> ''timeInForce''" using n by (auto simp: wire_numbers_def)
    ultimately show ?thesis using v by (simp add: d)
  qed
  show "name \<notin> set wire_numbers \<Longrightarrow> name \<notin> {''signature'', ''timeInForce''} \<Longrightarrow> map_of d name = map_of m name"
    using wire_fields_get [OF r, of name] by (auto simp: d)
qed

section \<open>Reading the frozen body\<close>

lemma map_of_sorted: "distinct (map fst kvs) \<Longrightarrow> map_of (sort_key fst kvs) k = map_of kvs k"
  by (simp add: map_of_sort_key)

text \<open>A signed body has only text, numbers, and distinct keys.\<close>

definition plain_value :: "json \<Rightarrow> bool" where
  "plain_value v \<longleftrightarrow> (case v of JInt _ \<Rightarrow> True | JStr _ \<Rightarrow> True | _ \<Rightarrow> False)"

lemma plain_value_cases: "plain_value v \<longleftrightarrow> (\<exists>i. v = JInt i) \<or> (\<exists>s. v = JStr s)"
  by (cases v) (auto simp: plain_value_def)

definition plain_message :: "obj \<Rightarrow> bool" where
  "plain_message m \<longleftrightarrow> distinct (map fst m) \<and> list_all (\<lambda>p. plain_value (snd p)) m"

lemma plain_dict_set: "plain_message m \<Longrightarrow> plain_value v \<Longrightarrow> plain_message (dict_set k v m)"
  unfolding plain_message_def
proof (intro conjI)
  assume m: "distinct (map fst m) \<and> list_all (\<lambda>p. plain_value (snd p)) m" and v: "plain_value v"
  show "distinct (map fst (dict_set k v m))" using m by (simp add: distinct_dict_set)
  show "list_all (\<lambda>p. plain_value (snd p)) (dict_set k v m)"
    using m v set_dict_set [of k v m] by (auto simp: list_all_iff)
qed

lemma plain_wire_fields: "wire_fields m fs r = Inr r' \<Longrightarrow> plain_message r \<Longrightarrow> plain_message r'"
proof (induction fs arbitrary: r)
  case (Cons f fs)
  have written: "plain_message (dict_set f (JStr s) r)" for s
    using plain_dict_set [OF Cons.prems(2)] by (simp add: plain_value_def)
  show ?case
  proof (cases "map_of m f")
    case None
    then show ?thesis using Cons by simp
  next
    case (Some v)
    then obtain i where "v = JInt i" "wire_fields m fs (dict_set f (JStr (wire_decimal i)) r) = Inr r'"
      using Cons.prems(1) by (cases v) (auto split: if_splits)
    then show ?thesis using Cons.IH written by blast
  qed
qed simp

lemma plain_wire_body: "wire_body operation m signature = Inr d \<Longrightarrow> plain_message m \<Longrightarrow> plain_message d"
  by (auto simp: wire_body_def Let_def rbind_eq_Inr plain_value_def split: if_splits
      intro!: plain_dict_set dest: plain_wire_fields)

lemma plain_object_distinct: "distinct (map fst kvs) \<Longrightarrow> plain_object kvs = Some (JObj kvs)"
proof -
  have snoc: "k \<notin> fst ` set d \<Longrightarrow> dict_set k v d = d @ [(k, v)]" for k :: string and v :: json and d
    by (induction k v d rule: dict_set.induct) auto
  have "distinct (map fst (d @ kvs)) \<Longrightarrow> foldl (\<lambda>d (k, v). dict_set k v d) d kvs = d @ kvs" for d
    by (induction kvs arbitrary: d) (auto simp: snoc)
  from this [of "[]"] show "distinct (map fst kvs) \<Longrightarrow> ?thesis" by (simp add: plain_object_def)
qed

lemma sorted_plain:
  assumes "plain_message d"
  shows "sort_keys (JObj d) = JObj (sort_key fst d)" "written_json (JObj (sort_key fst d))"
proof -
  have "map (map_prod id sort_keys) d = d"
    using assms by (intro map_idI) (fastforce simp: plain_message_def list_all_iff plain_value_cases)
  then show "sort_keys (JObj d) = JObj (sort_key fst d)" by simp
  show "written_json (JObj (sort_key fst d))"
    using assms by (fastforce simp: plain_message_def list_all_iff plain_value_cases distinct_map)
qed

lemma frozen_body:
  assumes "plain_message d" "json_loads plain_object (compact_text (JObj d)) = Some (JObj body)"
  shows "map_of body k = map_of d k"
proof -
  have "json_loads plain_object (compact_text (JObj d)) = Some (JObj (sort_key fst d))"
    unfolding compact_text_def sorted_plain(1) [OF assms(1)]
    by (rule loads_written [OF plain_object_distinct sorted_plain(2) [OF assms(1)]])
  then show ?thesis using assms by (auto simp: plain_message_def map_of_sorted)
qed

section \<open>Typed messages\<close>

lemma scan_value_object:
  assumes "scan_value reject_duplicate_keys n s = Some (JObj m, r)"
  shows "distinct (map fst m)"
  using assms
  by (cases n; cases s)
    (auto simp: scan_value.simps reject_duplicate_keys_def scan_number_def scan_word_def json_words_def Let_def
      split: if_splits option.splits prod.splits)

lemma loads_object: "json_loads reject_duplicate_keys s = Some (JObj m) \<Longrightarrow> distinct (map fst m)"
  by (auto simp: json_loads_def split: option.splits if_splits prod.splits dest: scan_value_object)

lemma typed_messageD:
  assumes "typed_message q b = Inr (schema, m)"
  shows "json_loads reject_duplicate_keys (sq_message_json q) = Some (JObj m)"
    "signing_types (sq_operation q) = Inr schema" "fields_match (sq_operation q) schema m"
    "(name, ty) \<in> set schema \<Longrightarrow> typed_value_ok ty (field m name) = Inr ()"
    "ensure (message_rules b (sq_operation q) m) = Inr ()"
proof -
  obtain j where j: "json_loads reject_duplicate_keys (sq_message_json q) = Some j"
    using assms by (auto simp: typed_message_def split: if_splits option.splits)
  moreover obtain m' where m': "j = JObj m'"
    using assms j by (cases j) (auto simp: typed_message_def rbind_eq_Inr split: if_splits)
  moreover obtain us where "m' = m" "signing_types (sq_operation q) = Inr schema" "fields_match (sq_operation q) schema m"
      "rtraverse (\<lambda>(name, ty). typed_value_ok ty (field m name)) schema = Inr us"
      "ensure (message_rules b (sq_operation q) m) = Inr ()"
    using assms unfolding typed_message_def j m' by (auto simp: rbind_eq_Inr split: if_splits)
  ultimately have facts: "json_loads reject_duplicate_keys (sq_message_json q) = Some (JObj m)"
      "signing_types (sq_operation q) = Inr schema" "fields_match (sq_operation q) schema m"
      "rtraverse (\<lambda>(name, ty). typed_value_ok ty (field m name)) schema = Inr us"
      "ensure (message_rules b (sq_operation q) m) = Inr ()" by auto
  then show "json_loads reject_duplicate_keys (sq_message_json q) = Some (JObj m)"
      "signing_types (sq_operation q) = Inr schema" "fields_match (sq_operation q) schema m"
      "ensure (message_rules b (sq_operation q) m) = Inr ()" by auto
  assume "(name, ty) \<in> set schema"
  then obtain i where "i < length schema" "schema ! i = (name, ty)" by (auto simp: in_set_conv_nth)
  then show "typed_value_ok ty (field m name) = Inr ()" using rtraverse_nth [OF facts(4)] by fastforce
qed

lemma typed_value_plain: "typed_value_ok ty v = Inr () \<Longrightarrow> plain_value v"
  by (auto simp: typed_value_ok_def plain_value_def split: if_splits json.splits)

lemma typed_message_plain:
  assumes "typed_message q b = Inr (schema, m)"
  shows "plain_message m"
  unfolding plain_message_def list_all_iff
proof (intro conjI ballI)
  show d: "distinct (map fst m)" using typed_messageD(1) [OF assms] loads_object by blast
  fix p assume p: "p \<in> set m"
  then have "map_of m (fst p) = Some (snd p)" using map_of_is_SomeI [OF d] by (metis prod.collapse)
  then have v: "field m (fst p) = snd p" "has_field m (fst p)" by (simp_all add: field_def has_field_def)
  have "fst p \<in> fst ` set schema \<union> unsigned_fields (sq_operation q)"
    using typed_messageD(3) [OF assms] p by (auto simp: fields_match_def)
  then consider ty where "(fst p, ty) \<in> set schema" | "fst p = ''order''"
    by (auto simp: unsigned_fields_def split: if_splits)
  then show "plain_value (snd p)"
  proof cases
    case 1
    then show ?thesis using typed_messageD(4) [OF assms 1] typed_value_plain v(1) by metis
  next
    case 2
    have "order_id_ok (snd p)"
      using typed_messageD(5) [OF assms] v 2 by (auto simp: ensure_ok_iff message_rules_def)
    then show ?thesis by (auto simp: order_id_ok_def plain_value_def split: json.splits)
  qed
qed

text \<open>Every number of the wire is a signed field: an unsigned integer.\<close>

lemma wire_body_numbers:
  assumes "wire_body operation m signature = Inr d" "plain_message m"
    "json_loads plain_object (compact_text (JObj d)) = Some (JObj body)"
  shows "name \<in> set wire_numbers \<Longrightarrow> map_of m name = Some x \<Longrightarrow>
      \<exists>v t. x = JInt v \<and> map_of body name = Some (JStr t) \<and> read_decimal t = of_int v / 10 ^ 8"
    "name \<notin> set wire_numbers \<Longrightarrow> name \<notin> {''signature'', ''timeInForce''} \<Longrightarrow> map_of body name = map_of m name"
    "map_of body ''signature'' = Some (JStr signature)"
proof -
  note frozen = frozen_body [OF plain_wire_body [OF assms(1,2)] assms(3)]
  show "\<exists>v t. x = JInt v \<and> map_of body name = Some (JStr t) \<and> read_decimal t = of_int v / 10 ^ 8"
    if "name \<in> set wire_numbers" "map_of m name = Some x"
    using wire_bodyD(3) [OF assms(1) that] wire_decimal_exact(1) by (auto simp: frozen)
  show "name \<notin> set wire_numbers \<Longrightarrow> name \<notin> {''signature'', ''timeInForce''} \<Longrightarrow> map_of body name = map_of m name"
    using wire_bodyD(4) [OF assms(1)] by (simp add: frozen)
  show "map_of body ''signature'' = Some (JStr signature)" using wire_bodyD(1) [OF assms(1)] by (simp add: frozen)
qed

end
