(* ===== verification/Prod_Limits.thy ===== *)
theory Prod_Limits
  imports Prod_Authorization Prod_Wire
begin

text \<open>
  What an accepted evidence says about the money: the exact amounts of an entry stay within the owner's
  signed limits and the fixed fractions of the equity, up to the last digits of the 28-digit decimals the
  policy computes with; an exit only reduces the exposure that was read.
\<close>

section \<open>Rounded comparisons\<close>

lemma dround_lower_magnitude:
  assumes "1 / 10 ^ 26 \<le> x"
  shows "\<bar>dround 28 x - x\<bar> \<le> x / 10 ^ 27"
proof -
  let ?k = "rat_exp 10 x"
  have pos: "0 < x" using assms less_le_trans [of "0 :: rat" "1 / 10 ^ 26" x] by simp
  note b = rat_exp_bounds [of 10, OF _ pos, simplified]
  have "pw 10 (- 26) = 1 / 10 ^ 26" by (simp add: pw_minus pw_nat)
  then have "pw 10 (- 26) < pw 10 (?k + 1)" using assms b(2) by simp
  then have "- 26 < ?k + 1" by (simp add: pw_le_iff)
  then have "\<bar>dround 28 x - x\<bar> \<le> pw 10 (?k + 1 - int 28) / 2"
    unfolding dround_def using b(2) pos by (intro rnd_error) auto
  also have "\<dots> = pw 10 ?k / (2 * 10 ^ 27)"
    using pw_diff [of 10 ?k 27] by (simp add: pw_nat field_simps)
  also have "\<dots> \<le> x / 10 ^ 27" using b(1) pos by (simp add: field_simps)
  finally show ?thesis .
qed

lemma dround_error:
  assumes "0 \<le> x"
  shows "\<bar>dround 28 x - x\<bar> \<le> x / 10 ^ 27 + 1 / 10 ^ 26"
proof (cases "1 / 10 ^ 26 \<le> x")
  case True
  have "0 \<le> (1 / 10 ^ 26 :: rat)" by simp
  then show ?thesis using dround_lower_magnitude [OF True] by linarith
next
  case False
  have "0 \<le> dround 28 x" using d28.nonneg [OF assms] .
  moreover have "dround 28 x \<le> 1 / 10 ^ 26"
    by (rule d28.le_rep) (use False in \<open>auto intro!: fitsI [of 26] placesI [of _ _ 1]\<close>)
  moreover have "0 \<le> x / 10 ^ 27" using assms by simp
  ultimately show ?thesis using False assms by linarith
qed

text \<open>At most the bound, or more by less than one part in \<open>10 ^ 24\<close> of the bound and a dollar.\<close>

definition about_at_most :: "rat \<Rightarrow> rat \<Rightarrow> bool" where
  "about_at_most x c \<longleftrightarrow> x \<le> c + (c + 1) / 10 ^ 24"

lemma dround_at_most:
  assumes "0 \<le> x" "dround 28 x \<le> c"
  shows "about_at_most x c"
  using dround_error [OF assms(1)] assms unfolding about_at_most_def abs_le_iff by (elim conjE) (simp add: add_divide_distrib)

lemma dround_at_most_rounded:
  assumes "0 \<le> x" "0 \<le> c" "dround 28 x \<le> dround 28 c"
  shows "about_at_most x c"
  using dround_error [OF assms(1)] dround_error [OF assms(2)] assms unfolding about_at_most_def abs_le_iff by (elim conjE) (simp add: add_divide_distrib)

section \<open>Entries\<close>

definition exact_notional :: "obj \<Rightarrow> rat" where
  "exact_notional m =
     (if has_field m ''cashQuantity'' then of_int (int_value (field m ''cashQuantity'')) / 10 ^ 8
      else if has_field m ''quantity'' \<and> (has_field m ''limitPrice'' \<or> has_field m ''price'')
      then of_int (int_value (field m ''quantity''))
         * of_int (int_value (if has_field m ''limitPrice'' then field m ''limitPrice'' else field m ''price'')) / 10 ^ 16
      else 0)"

text \<open>The limits without rounding: the loss of the trade, with the losses of the day, with the open risk, and
  the notional with the open notional.\<close>

definition exactly_limited :: "risk_geometry \<Rightarrow> manual_arm \<Rightarrow> rat \<Rightarrow> bool" where
  "exactly_limited r arm notional \<longleftrightarrow>
     rg_worst_case_loss_usd r \<le> ma_dollar_cap arm
   \<and> about_at_most (rg_daily_realized_loss_usd r + rg_worst_case_loss_usd r) (ma_daily_stop_loss_usd arm)
   \<and> about_at_most (rg_worst_case_loss_usd r) (rg_account_equity_usd r * (25 / 10000))
   \<and> about_at_most (rg_aggregate_open_risk_usd r + rg_worst_case_loss_usd r) (rg_account_equity_usd r / 100)
   \<and> about_at_most (rg_aggregate_open_notional_usd r + notional) (ma_dollar_cap arm)
   \<and> rg_leverage r = 1"

definition risk_positive :: "risk_geometry \<Rightarrow> bool" where
  "risk_positive r \<longleftrightarrow> 0 < rg_worst_case_loss_usd r \<and> 0 < rg_account_equity_usd r \<and> 0 \<le> rg_daily_realized_loss_usd r
     \<and> 0 \<le> rg_aggregate_open_risk_usd r \<and> 0 \<le> rg_aggregate_open_notional_usd r"

lemma validate_risk_positive: "validate_evidence e = Inr () \<Longrightarrow> risk_positive (ev_risk e)"
  by (auto simp: validate_evidence_def validate_risk_def rbind_eq_Inr valid_when_def risk_positive_def split: if_splits)

text \<open>Numbers of a typed message are not negative.\<close>

definition counts :: "obj \<Rightarrow> bool" where
  "counts m \<longleftrightarrow> list_all (\<lambda>name. 0 \<le> int_value (field m name)) [''quantity'', ''cashQuantity'', ''limitPrice'', ''price'']"

lemma notional_of_exact:
  assumes "notional_of m = Inr n" "counts m"
  shows "0 \<le> n" "exact_notional m - exact_notional m / 10 ^ 26 - 1 / 10 ^ 25 \<le> n"
proof -
  have once: "x - x / 10 ^ 27 - 1 / 10 ^ 26 \<le> dround 28 x" if "0 \<le> x" for x
    using dround_error [OF that] by (simp add: abs_le_iff)
  have cash: "exact_notional m - exact_notional m / 10 ^ 26 - 1 / 10 ^ 25 \<le> n \<and> 0 \<le> exact_notional m \<and> 0 \<le> n"
    if "has_field m ''cashQuantity''"
  proof -
    have "0 \<le> exact_notional m" "n = dround 28 (exact_notional m)"
      using that assms by (auto simp: exact_notional_def notional_of_def counts_def ddiv_def)
    then show ?thesis using once [of "exact_notional m"] d28.nonneg [of "exact_notional m"] by (auto simp: field_simps)
  qed
  have product: "exact_notional m - exact_notional m / 10 ^ 26 - 1 / 10 ^ 25 \<le> n \<and> 0 \<le> exact_notional m \<and> 0 \<le> n"
    if f: "\<not> has_field m ''cashQuantity''" "has_field m ''quantity'' \<and> (has_field m ''limitPrice'' \<or> has_field m ''price'')"
  proof -
    define q p :: rat where q: "q = of_int (int_value (field m ''quantity''))"
      and p: "p = of_int (int_value (if has_field m ''limitPrice'' then field m ''limitPrice'' else field m ''price''))"
    have pos: "0 \<le> q" "0 \<le> p" using assms(2) by (auto simp: counts_def q p)
    have exact: "exact_notional m = q * p / 10 ^ 16" unfolding exact_notional_def q p using f by simp
    obtain i where i: "(if has_field m ''limitPrice'' then field m ''limitPrice'' else field m ''price'') = JInt i"
      using assms(1) f unfolding notional_of_def by (auto split: json.splits)
    have "n = dround 28 (dround 28 (q * p) / 10 ^ 16)"
      using assms(1) f unfolding notional_of_def i q p by (simp add: ddiv_def dmul_def int_value_def)
    moreover have "0 \<le> q * p" using pos by simp
    moreover have "q * p - q * p / 10 ^ 27 - 1 / 10 ^ 26 \<le> dround 28 (q * p)" using once calculation(2) by blast
    moreover have "0 \<le> dround 28 (q * p)" using d28.nonneg calculation(2) by blast
    moreover have "dround 28 (q * p) / 10 ^ 16 - dround 28 (q * p) / 10 ^ 16 / 10 ^ 27 - 1 / 10 ^ 26 \<le> n"
      unfolding calculation(1) by (rule once) (use calculation(4) in simp)
    moreover have "0 \<le> n" unfolding calculation(1) by (rule d28.nonneg) (use calculation(4) in simp)
    ultimately show ?thesis unfolding exact by (auto simp: field_simps)
  qed
  have none: "exact_notional m = 0 \<and> 0 \<le> n"
    if "\<not> has_field m ''cashQuantity''" "\<not> (has_field m ''quantity'' \<and> (has_field m ''limitPrice'' \<or> has_field m ''price''))"
    using that assms(1) by (auto simp: exact_notional_def notional_of_def split: if_splits)
  have "exact_notional m - exact_notional m / 10 ^ 26 - 1 / 10 ^ 25 \<le> n \<and> 0 \<le> exact_notional m \<and> 0 \<le> n"
    using cash product none by fastforce
  then show "0 \<le> n" "exact_notional m - exact_notional m / 10 ^ 26 - 1 / 10 ^ 25 \<le> n" by auto
qed

lemma within_limits_exact:
  assumes "within_limits r arm n" "notional_of m = Inr n" "risk_positive r" "counts m"
  shows "exactly_limited r arm (exact_notional m)"
  unfolding exactly_limited_def
proof (intro conjI)
  note a = assms(1) [unfolded within_limits_def de_Morgan_disj not_less not_not dadd_def dmul_def]
  note pos = assms(3) [unfolded risk_positive_def]
  show "rg_worst_case_loss_usd r \<le> ma_dollar_cap arm" "rg_leverage r = 1" using a by auto
  show "about_at_most (rg_daily_realized_loss_usd r + rg_worst_case_loss_usd r) (ma_daily_stop_loss_usd arm)"
    by (rule dround_at_most) (use a pos in auto)
  show "about_at_most (rg_aggregate_open_risk_usd r + rg_worst_case_loss_usd r) (rg_account_equity_usd r / 100)"
    by (rule dround_at_most_rounded) (use a pos in auto)
  show "about_at_most (rg_worst_case_loss_usd r) (rg_account_equity_usd r * (25 / 10000))"
  proof -
    have "0 \<le> rg_account_equity_usd r * (25 / 10000)" using pos by simp
    from dround_error [OF this] show ?thesis
      using a pos unfolding about_at_most_def abs_le_iff by (elim conjE) (simp add: add_divide_distrib)
  qed
  show "about_at_most (rg_aggregate_open_notional_usd r + exact_notional m) (ma_dollar_cap arm)"
  proof -
    note n = notional_of_exact [OF assms(2,4)]
    have "\<bar>dround 28 (rg_aggregate_open_notional_usd r + n) - (rg_aggregate_open_notional_usd r + n)\<bar>
        \<le> (rg_aggregate_open_notional_usd r + n) / 10 ^ 27 + 1 / 10 ^ 26" using pos n(1) by (intro dround_error) auto
    then have "rg_aggregate_open_notional_usd r + n - (rg_aggregate_open_notional_usd r + n) / 10 ^ 27 - 1 / 10 ^ 26 \<le> ma_dollar_cap arm"
      using a by (simp add: abs_le_iff)
    moreover have "0 \<le> rg_aggregate_open_notional_usd r" using pos by simp
    ultimately show ?thesis using n unfolding about_at_most_def by (simp add: add_divide_distrib)
  qed
qed

end
