(* ===== verification/Prod_Theorems.thy ===== *)
theory Prod_Theorems
  imports Prod_Session Prod_Limits
begin

text \<open>
  The properties of the production signing and dispatch chain: the order of its effects, the single use of
  its durable claims, what a signature authorizes, and what the venue is sent.
\<close>

lemma guarded_mono: "guarded G t \<Longrightarrow> (\<And>h q. G h q \<Longrightarrow> G' h q) \<Longrightarrow> guarded G' t"
  by (simp add: guarded_def)

section \<open>The order of effects\<close>

text \<open>C4: In every session of the production runtime, whatever its collaborators answer and wherever a call is
  cancelled: the custody backend signs only a request of the session that was just authorized on freshly read evidence
  (an entry also durably reserved) and whose one-use signing claim was just granted; the transport sends
  only a body derived from the signed message, after a granted one-use wire claim, with a signature that
  was verified and recorded as completed, after a second authorization since the claim, before the
  deadline; and an outcome is recorded as completed only with the digest of the answer just received.\<close>

theorem effects_are_authorized: "guarded (listed_guard H qs) (chain_history env H qs)"
  by (rule chain_guarded)

section \<open>Claims are used once\<close>

definition last_grant :: "chain_trace \<Rightarrow> claim_key option" where
  "last_grant h = (case rev (concat (map chain_grants h)) of [] \<Rightarrow> None | k # ks \<Rightarrow> Some k)"

fun spends :: "chain_request \<Rightarrow> bool" where
  "spends (Sign_Message r d s m) = True"
| "spends (Send p b) = True"
| "spends (Cancel_Entry e i x) = True"
| "spends (Cancel_Protection e i x) = True"
| "spends q = False"

text \<open>For each signature, each send and each cancellation of a history, its latest granted claim.\<close>

definition used_claims :: "chain_trace \<Rightarrow> claim_key option list" where
  "used_claims t = map (\<lambda>i. last_grant (take i t)) (filter (\<lambda>i. spends (fst (t ! i))) [0..<length t])"

lemma used_claims_Nil [simp]: "used_claims [] = []"
  by (simp add: used_claims_def)

lemma used_claims_snoc [simp]:
  "used_claims (h @ [x]) = used_claims h @ (if spends (fst x) then [last_grant h] else [])"
proof -
  have "filter (\<lambda>i. spends (fst ((h @ [x]) ! i))) [0..<length h] = filter (\<lambda>i. spends (fst (h ! i))) [0..<length h]"
    by (rule filter_cong) (auto simp: nth_append)
  moreover have "map (\<lambda>i. last_grant (take i (h @ [x]))) (filter P [0..<length h]) =
      map (\<lambda>i. last_grant (take i h)) (filter P [0..<length h])" for P
    by (rule map_cong) auto
  ultimately show ?thesis by (simp add: used_claims_def nth_append)
qed

lemma silent_no_grant: "silent (fst x) \<Longrightarrow> chain_grants x = [] \<and> \<not> spends (fst x)"
  by (cases x rule: chain_grants.cases; cases "fst x" rule: silent.cases) auto

lemma silent_history:
  "all_asks silent v \<Longrightarrow> concat (map chain_grants v) = [] \<and> used_claims (u @ v) = used_claims u"
proof (induction v rule: rev_induct)
  case (snoc x v)
  then show ?case using silent_no_grant [of x] by (simp flip: append_assoc)
qed simp

lemma silent_clock: "all_asks clock_read v \<Longrightarrow> all_asks silent v"
  by (auto simp: all_asks_def intro: clock_read_silent)

definition claims_first :: "cancel_rule \<Rightarrow> bool" where
  "claims_first K \<longleftrightarrow> (\<forall>h q. K h q \<longrightarrow> spends q \<longrightarrow> (\<exists>kind ns i sha u v. h = u @ granted kind ns i sha # v \<and> all_asks silent v))"

lemma claims_first_False [simp]: "claims_first (\<lambda>_ _. False)"
  by (simp add: claims_first_def)

lemma spends_after_grant:
  assumes "chain_guard H Q K h q" "spends q" "claims_first K"
  obtains u g v k where "h = u @ g # v" "chain_grants g = [k]" "\<not> spends (fst g)" "all_asks silent v"
proof -
  have "\<exists>kind ns i sha u v. h = u @ granted kind ns i sha # v \<and> all_asks silent v"
  proof (cases q)
    case (Sign_Message ref domain schema m)
    then show ?thesis using assms(1) [unfolded Sign_Message chain_guard.simps may_sign_def] silent_clock by blast
  next
    case (Send path body)
    then show ?thesis using assms(1) [unfolded Send chain_guard.simps may_send_def] by blast
  next
    case (Cancel_Entry e i x)
    then have "K h q" using assms(1) by simp
    then show ?thesis using assms(2,3) unfolding claims_first_def by blast
  next
    case (Cancel_Protection e i x)
    then have "K h q" using assms(1) by simp
    then show ?thesis using assms(2,3) unfolding claims_first_def by blast
  qed (use assms(2) in simp_all)
  then show thesis using that by (auto simp: granted_def)
qed

lemma used_claims_granted:
  assumes first: "claims_first K"
  shows "guarded (chain_guard H Q K) t \<Longrightarrow> None \<notin> set (used_claims t)
     \<and> count_list (used_claims t) (Some k) \<le> count_list (concat (map chain_grants t)) k"
proof (induction t rule: length_induct)
  case (1 t)
  show ?case
  proof (cases t rule: rev_cases)
    case (snoc h x)
    have h: "guarded (chain_guard H Q K) h" "chain_guard H Q K h (fst x)" using "1.prems" snoc by auto
    have IH: "None \<notin> set (used_claims u)
        \<and> count_list (used_claims u) (Some k) \<le> count_list (concat (map chain_grants u)) k"
      if "guarded (chain_guard H Q K) u" "length u < length t" for u using "1.IH" that by blast
    show ?thesis
    proof (cases "spends (fst x)")
      case False
      then show ?thesis using IH [OF h(1)] snoc by simp
    next
      case True
      then obtain u g v k' where g: "h = u @ g # v" "chain_grants g = [k']" "\<not> spends (fst g)" "all_asks silent v"
        using spends_after_grant [OF h(2) _ first] by blast
      have "guarded (chain_guard H Q K) u"
        using h(1) unfolding g(1) guarded_def by (auto simp: nth_append dest: spec [where x = "_ :: nat"] split: if_splits)
      then have "None \<notin> set (used_claims u)"
          "count_list (used_claims u) (Some k) \<le> count_list (concat (map chain_grants u)) k"
        using IH snoc g(1) by auto
      moreover have "used_claims h = used_claims u" "concat (map chain_grants h) = concat (map chain_grants u) @ [k']"
        using silent_history [OF g(4), of "u @ [g]"] g by auto
      ultimately show ?thesis using snoc True by (simp add: last_grant_def)
    qed
  qed simp
qed

lemma counted_distinct: "(\<And>x. count_list xs x \<le> 1) \<Longrightarrow> distinct xs"
proof (induction xs)
  case (Cons y ys)
  have "count_list ys x \<le> 1" for x using Cons.prems [of x] by (simp split: if_splits)
  moreover have "count_list ys y = 0" using Cons.prems [of y] by simp
  ultimately show ?case using Cons.IH by (simp add: count_list_0_iff)
qed simp

lemma used_once:
  assumes "guarded (chain_guard H Q K) t" "follows t (with_store faults cx db env)" "claims_first K"
  shows "None \<notin> set (used_claims t) \<and> distinct (used_claims t)"
proof -
  have used: "None \<notin> set (used_claims t)"
      "count_list (used_claims t) (Some k) \<le> count_list (concat (map chain_grants t)) k" for k
    using used_claims_granted [OF assms(3,1)] by blast+
  have "count_list (used_claims t) (Some k) \<le> 1" for k
    using used(2) [of k] granted_once [OF assms(2)] le_trans by blast
  moreover have "count_list (used_claims t) None = 0" using used(1) by (simp add: count_list_0_iff)
  ultimately have "count_list (used_claims t) x \<le> 1" for x by (cases x) auto
  then show ?thesis using used(1) counted_distinct by blast
qed

section \<open>What a signature authorizes\<close>

lemma typed_value_nonneg: "typed_value_ok ty v = Inr () \<Longrightarrow> 0 \<le> int_value v"
  by (auto simp: typed_value_ok_def int_value_def split: if_splits json.splits)

lemma typed_message_counts:
  assumes "typed_message q b = Inr (schema, m)"
  shows "counts m"
proof -
  have "0 \<le> int_value (field m name)" if name: "name \<noteq> ''order''" for name
  proof (cases "map_of m name")
    case None
    then show ?thesis by (simp add: field_def int_value_def)
  next
    case (Some v)
    then have "name \<in> fst ` set m" by (force dest: map_of_SomeD)
    then obtain ty where "(name, ty) \<in> set schema"
      using typed_messageD(3) [OF assms] name by (auto simp: fields_match_def unsigned_fields_def split: if_splits)
    then show ?thesis using typed_messageD(4) [OF assms] typed_value_nonneg by blast
  qed
  then show ?thesis by (simp add: counts_def)
qed

lemma owner_armD:
  assumes "verify_owner_signed_arm K s p k sha owner now life = Inr (arm, d)"
  shows "arm = sa_request s" "d = digest_of (arm_payload K arm)" "arm_signature_ok K k s"
    "digest_of (owner_key_payload K k) = sha"
  using assms by (auto simp: verify_owner_signed_arm_def validated_manual_request_def rbind_eq_Inr ensure_ok_iff)

lemma verify_evidenceD:
  assumes "verify_evidence A q b e now = Inr ()"
  obtains schema m n where "arm_signature_ok (ac_codec A) (ac_owner_key A) (ev_owner_arm e)"
    "digest_of (owner_key_payload (ac_codec A) (ac_owner_key A)) = ac_owner_key_sha256 A"
    "sq_manual_request_sha256 q = digest_of (arm_payload (ac_codec A) (sa_request (ev_owner_arm e)))"
    "typed_message q b = Inr (schema, m)" "notional_of m = Inr n"
    "is_exit q \<Longrightarrow> verify_exit e q m (cb_context b) now = Inr ()"
    "\<not> is_exit q \<Longrightarrow> within_limits (ev_risk e) (sa_request (ev_owner_arm e)) n"
proof -
  obtain arm d where arm: "verify_owner_signed_arm (ac_codec A) (ev_owner_arm e) (ac_preconditions A) (ac_owner_key A)
      (ac_owner_key_sha256 A) (ac_owner A) (if is_exit q then an_claimed_at (ev_owner_nonce_claim e) else now)
      (ac_arm_lifetime A) = Inr (arm, d)"
    using assms unfolding verify_evidence_def by (auto split: sum.splits)
  note owner = owner_armD [OF arm]
  show thesis
    using assms that owner unfolding verify_evidence_def arm
    by (auto simp: rbind_eq_Inr ensure_ok_iff nonce_bound_def split: sum.splits prod.splits if_splits)
qed

text \<open>An exit that only reduces the exposure of its instrument.\<close>

definition reduces :: "signing_request \<Rightarrow> obj \<Rightarrow> exposure_snapshot \<Rightarrow> bool" where
  "reduces q m x \<longleftrightarrow> field m ''instrument'' = JStr (xs_instrument x)
     \<and> (sq_operation q = TPSL_OPERATION \<and> field m ''quantity'' = JInt 0
        \<or> 0 < int_value (field m ''quantity'') \<and> int_value (field m ''quantity'') \<le> xs_remaining_quantity x)
     \<and> field m ''side'' \<in> {JNull, JStr (required_exit_side q x)}"

lemma verify_exit_reduces:
  assumes "verify_exit e q m cx now = Inr ()"
  obtains x where "ev_exposure e = Some x" "reduces q m x" "xs_observed_at x \<le> now" "now < xs_valid_until x"
  using assms by (cases "ev_exposure e") (auto simp: verify_exit_def Let_def ensure_ok_iff reduces_def)

text \<open>The evidence on which a signature was given: the owner signed the limits, and the message keeps them.\<close>

definition limited :: "chain_config \<Rightarrow> signing_request \<Rightarrow> obj \<Rightarrow> signing_evidence \<Rightarrow> bool" where
  "limited H q m e \<longleftrightarrow> (let A = ch_auth H; arm = sa_request (ev_owner_arm e) in
     arm_signature_ok (ac_codec A) (ac_owner_key A) (ev_owner_arm e)
   \<and> digest_of (owner_key_payload (ac_codec A) (ac_owner_key A)) = ac_owner_key_sha256 A
   \<and> sq_manual_request_sha256 q = digest_of (arm_payload (ac_codec A) arm)
   \<and> (if is_exit q then \<exists>x. ev_exposure e = Some x \<and> reduces q m x
      else exactly_limited (ev_risk e) arm (exact_notional m)))"

fun limits_guard :: "chain_config \<Rightarrow> chain_trace \<Rightarrow> chain_request \<Rightarrow> bool" where
  "limits_guard H h (Sign_Message ref domain schema m) \<longleftrightarrow> (\<exists>q e t. typed_message q (ch_binding H) = Inr (schema, m)
     \<and> (Resolve_Evidence q (ch_binding H) t, Inr (Evidence e)) \<in> set h \<and> limited H q m e)"
| "limits_guard H h _ \<longleftrightarrow> True"

lemma authorized_limited:
  assumes "authorizes (ch_auth H) q (ch_binding H) e u" "typed_message q (ch_binding H) = Inr (schema, m)"
  shows "limited H q m e"
proof -
  obtain now where e: "validate_evidence e = Inr ()" "verify_evidence (ch_auth H) q (ch_binding H) e now = Inr ()"
    using assms(1) by (auto simp: authorizes_def)
  show ?thesis
  proof (rule verify_evidenceD [OF e(2)])
    fix schema' m' n
    assume *: "arm_signature_ok (ac_codec (ch_auth H)) (ac_owner_key (ch_auth H)) (ev_owner_arm e)"
      "digest_of (owner_key_payload (ac_codec (ch_auth H)) (ac_owner_key (ch_auth H))) = ac_owner_key_sha256 (ch_auth H)"
      "sq_manual_request_sha256 q = digest_of (arm_payload (ac_codec (ch_auth H)) (sa_request (ev_owner_arm e)))"
      "typed_message q (ch_binding H) = Inr (schema', m')" "notional_of m' = Inr n"
      "is_exit q \<Longrightarrow> verify_exit e q m' (cb_context (ch_binding H)) now = Inr ()"
      "\<not> is_exit q \<Longrightarrow> within_limits (ev_risk e) (sa_request (ev_owner_arm e)) n"
    then have m: "m' = m" using assms(2) by simp
    have "\<exists>x. ev_exposure e = Some x \<and> reduces q m x" if "is_exit q"
      using verify_exit_reduces [OF *(6) [OF that]] m by metis
    moreover have "exactly_limited (ev_risk e) (sa_request (ev_owner_arm e)) (exact_notional m)" if "\<not> is_exit q"
      using within_limits_exact [OF *(7) [OF that] *(5) validate_risk_positive [OF e(1)]]
        typed_message_counts [OF assms(2)] m by simp
    ultimately show ?thesis using *(1-3) by (simp add: limited_def Let_def)
  qed
qed

lemma prepared_message: "prepare_fields H q t = Inr (now, schema, m, digest) \<Longrightarrow> typed_message q (ch_binding H) = Inr (schema, m)"
  by (auto simp: prepare_fields_def Let_def rbind_eq_Inr)

lemma limits_of_guard:
  assumes g: "chain_guard H Q K h r"
  shows "limits_guard H h r"
proof (cases r)
  case (Sign_Message ref domain schema m)
  then obtain q digest e u v t now where h: "h = u @ granted ''TYPED_SIGNING'' ref (sq_request_id q) digest # v"
      "prepare_fields H q t = Inr (now, schema, m, digest)" "authorizes (ch_auth H) q (ch_binding H) e u"
    using g by (auto simp: may_sign_def)
  note typed = prepared_message [OF h(2)]
  moreover obtain t0 where "(Resolve_Evidence q (ch_binding H) t0, Inr (Evidence e)) \<in> set h"
    using h(1,3) by (auto simp: authorizes_def)
  ultimately show ?thesis using authorized_limited [OF h(3) typed] Sign_Message by auto
qed simp_all

text \<open>C6: Whatever is asked to be signed, the evidence read for it was signed by the owner's pinned key and bound
  to the request; the exact loss and notional of an entry, together with the losses of the day, the open
  risk and the open notional, stay within the limits the owner signed and the fixed fractions of the
  equity (up to the last digits of the 28-digit decimals that are compared); and an exit takes at most
  the remaining quantity of the exposure that was read, on the side that reduces it.\<close>

theorem signatures_are_limited: "guarded (limits_guard H) (chain_history env H qs)"
  by (rule guarded_mono [OF chain_guarded]) (rule limits_of_guard)

section \<open>What the venue is sent\<close>

text \<open>Each number of the body is the decimal of the signed integer over \<open>10 ^ 8\<close>; every other field is the
  message's.\<close>

definition says_exactly :: "obj \<Rightarrow> obj \<Rightarrow> string \<Rightarrow> bool" where
  "says_exactly m body signature \<longleftrightarrow> map_of body ''signature'' = Some (JStr signature)
     \<and> (\<forall>name x. name \<in> set wire_numbers \<and> map_of m name = Some x \<longrightarrow>
         (\<exists>v t. x = JInt v \<and> map_of body name = Some (JStr t) \<and> read_decimal t = of_int v / 10 ^ 8))
     \<and> (\<forall>name. name \<notin> set wire_numbers \<and> name \<notin> {''signature'', ''timeInForce''} \<longrightarrow> map_of body name = map_of m name)"

fun wire_guard :: "chain_config \<Rightarrow> chain_trace \<Rightarrow> chain_request \<Rightarrow> bool" where
  "wire_guard H h (Send path body) \<longleftrightarrow> (\<exists>q b schema m sm s. typed_message q b = Inr (schema, m)
     \<and> cb_context b = ch_context H \<and> signed_message (sq_operation q) m = Inr sm
     \<and> (Check_Signature (cb_wallet_address b) (build_domain (cb_chain_id b)) schema sm s, Inr (Answer (JBool True))) \<in> set h
     \<and> says_exactly m body s)"
| "wire_guard H h _ \<longleftrightarrow> True"

lemma sent_body_says:
  assumes "sent_body w m body" "typed_message (wr_signing_request w) (wr_custody_binding w) = Inr (schema, m)"
  shows "says_exactly m body (sd_signature (wr_signed w))"
proof -
  obtain d where d: "wire_body (sq_operation (wr_signing_request w)) m (sd_signature (wr_signed w)) = Inr d"
      "json_loads plain_object (compact_text (JObj d)) = Some (JObj body)"
    using assms(1) by (auto simp: sent_body_def)
  show ?thesis
    using wire_body_numbers [OF d(1) typed_message_plain [OF assms(2)] d(2)] unfolding says_exactly_def by blast
qed

lemma wire_of_guard:
  assumes g: "chain_guard H Q K h r"
  shows "wire_guard H h r"
proof (cases r)
  case (Send path body)
  then obtain w m u v where h: "set u \<subseteq> set h" "wr_context w = ch_context H" "validate_effect (chain_codec H) w = Inr m" "sent_body w m body"
      "signature_proven H w m u"
    using g by (fastforce simp: may_send_def)
  let ?q = "wr_signing_request w" let ?b = "wr_custody_binding w"
  obtain schema sm where typed: "typed_message ?q ?b = Inr (schema, m)" "signed_message (sq_operation ?q) m = Inr sm"
      "(Check_Signature (cb_wallet_address ?b) (build_domain (cb_chain_id ?b)) schema sm (sd_signature (wr_signed w)),
        Inr (Answer (JBool True))) \<in> set u"
    using h(5) by (auto simp: signature_proven_def Let_def)
  have "cb_context ?b = ch_context H" using h(2,3) by (auto simp: validate_effect_def Let_def rbind_eq_Inr ensure_ok_iff)
  then show ?thesis unfolding Send wire_guard.simps
    using typed subsetD [OF h(1) typed(3)] sent_body_says [OF h(4) typed(1)] by blast
qed simp_all

text \<open>C7: Every body sent to the venue says what was signed: it carries a signature that was verified for the
  typed message under the custody wallet of the production scope, each of its numbers is a text that reads
  back exactly as the signed integer over 10^8, and every other field but the time in force is the
  message's.\<close>

theorem sends_what_was_signed: "guarded (wire_guard H) (chain_history env H qs)"
  by (rule guarded_mono [OF chain_guarded]) (rule wire_of_guard)

end
