(* ===== verification/Prod_Cancel.thy ===== *)
theory Prod_Cancel
  imports Prod_Chain
begin

text \<open>
  \<^verbatim>\<open>kairos_execution/production_cancellation.py\<close>: the cancellation of an owned entry order or protection. The
  durable lineage and the venue facts are proved, a one-use claim is taken, everything is proved again,
  the venue is asked once, and the outcome is recorded. Stores, state source, venue reader and transport
  are the environment; the reader's verification of its raw facts is asked of it as well.
\<close>

record cancel_config =
  cn_context :: production_context
  cn_binding :: custody_binding
  cn_decisions :: live_codec
  cn_codec :: production_codec
  cn_preconditions :: preconditions
  cn_owner_key :: owner_key
  cn_owner_key_sha256 :: string
  cn_owner :: string
  cn_arm_lifetime :: int
  cn_database_uuid :: string
  cn_sources :: "string list"

abbreviation cancel_error :: "string \<Rightarrow> exn" where
  "cancel_error m \<equiv> Exn (OtherError ''ProductionCancellationError'') m"

abbreviation attribute_error :: "string \<Rightarrow> exn" where
  "attribute_error m \<equiv> Exn (OtherError ''AttributeError'') m"

definition cancel_namespace :: "cancel_config \<Rightarrow> string" where
  "cancel_namespace K = ''kairos.production-cancel.v1:'' @ context_digest (cn_context K)"

definition cancel_now :: "instant chain" where
  "cancel_now = (bindp (read_wall) (\<lambda>t.
     bindp (checkp [(dt_offset_us t = Some 0, cancel_error ''cancellation clock must return explicit UTC'')]) (\<lambda>_.
     Ret (dt_wall_us t))))"

section \<open>The lineage of the trade\<close>

text \<open>\<^verbatim>\<open>str.isupper\<close> on Latin-1: a cased letter, and no lower case one.\<close>

definition is_upper_char :: "char \<Rightarrow> bool" where
  "is_upper_char c = (let n = (of_char c :: nat) in 65 \<le> n \<and> n \<le> 90 \<or> 192 \<le> n \<and> n \<le> 222 \<and> n \<noteq> 215)"

definition is_lower_char :: "char \<Rightarrow> bool" where
  "is_lower_char c = (let n = (of_char c :: nat) in 97 \<le> n \<and> n \<le> 122 \<or> n \<in> {170, 181, 186} \<or> 223 \<le> n \<and> n \<noteq> 247)"

definition isupper_text :: "string \<Rightarrow> bool" where
  "isupper_text s \<longleftrightarrow> list_ex is_upper_char s \<and> \<not> list_ex is_lower_char s"

definition cancel_environment :: "cancel_config \<Rightarrow> string" where
  "cancel_environment K = ''PROD:'' @ context_digest (cn_context K) @ '':LIVE''"

definition validate_trade :: "cancel_config \<Rightarrow> live_trade \<Rightarrow> string \<Rightarrow> unit res" where
  "validate_trade K tr trade_id = ensure [(\<not> (tw_trade_id tr \<noteq> trade_id \<or> lt_trading_mode tr \<noteq> ''LIVE''
       \<or> lt_profile tr \<noteq> ''PROD'' \<or> casefold (lt_exchange tr) \<noteq> ''evedex''
       \<or> tw_account_id tr \<noteq> px_remote_account_id (cn_context K) \<or> tw_environment tr \<noteq> cancel_environment K
       \<or> \<not> isupper_text (lt_venue_symbol tr) \<or> tw_state tr \<in> {LIFE_CANCELLED, FAILED_BLOCKED}),
     cancel_error ''trade is outside the exact EVEDEX LIVE/PROD account scope'')]"

definition role_client_id :: "live_trade \<Rightarrow> order_role \<Rightarrow> string option" where
  "role_client_id tr role = (if role = ENTRY then Some (tw_entry_client_order_id tr)
     else if role = STOP_LOSS then tw_stop_client_order_id tr else tw_target_client_order_id tr)"

definition role_exchange_id :: "live_trade \<Rightarrow> order_role \<Rightarrow> string option" where
  "role_exchange_id tr role = (if role = ENTRY then tw_entry_exchange_order_id tr
     else if role = STOP_LOSS then tw_stop_exchange_order_id tr else tw_target_exchange_order_id tr)"

definition prod_key :: "cancel_config \<Rightarrow> live_trade \<Rightarrow> order_role \<Rightarrow> string \<Rightarrow> string" where
  "prod_key K tr role operation = sha256_hex (''prod.v1:'' @ context_digest (cn_context K) @ '':'' @ tw_trade_id tr
     @ '':'' @ role_text role @ '':'' @ operation)"

definition origin_effect_key :: "cancel_config \<Rightarrow> live_trade \<Rightarrow> order_role \<Rightarrow> string" where
  "origin_effect_key K tr role = prod_key K tr role (if role = ENTRY then ''place'' else ''create'')"

text \<open>Equality of two dictionaries, the second written out.\<close>

definition same_dict :: "obj \<Rightarrow> obj \<Rightarrow> bool" where
  "same_dict d expected \<longleftrightarrow> fst ` set d = fst ` set expected \<and> list_all (\<lambda>p. map_of d (fst p) = Some (snd p)) expected"

definition cancel_type_of :: "order_role \<Rightarrow> effect_type" where
  "cancel_type_of role = (if role = ENTRY then CANCEL_ORDER else CANCEL_TPSL_EFFECT)"

definition cancel_payload :: "live_trade \<Rightarrow> string \<Rightarrow> string \<Rightarrow> order_role \<Rightarrow> obj" where
  "cancel_payload tr instr target role =
     (if role = ENTRY then [(''trade_id'', JStr (tw_trade_id tr)), (''client_order_id'', JStr (tw_entry_client_order_id tr)),
        (''venue_symbol'', JStr instr)]
      else [(''trade_id'', JStr (tw_trade_id tr)), (''client_order_id'', json_of_text (role_client_id tr role)),
        (''tpsl_id'', JStr target), (''venue_symbol'', JStr instr)])"

definition validate_cancel_effect ::
  "cancel_config \<Rightarrow> live_effect \<Rightarrow> live_trade \<Rightarrow> string \<Rightarrow> string \<Rightarrow> string \<Rightarrow> order_role \<Rightarrow> unit res" where
  "validate_cancel_effect K e tr eff_id instr target role = ensure
     [(\<not> (ef_key e \<noteq> eff_id \<or> ef_key e \<noteq> prod_key K tr role ''cancel'' \<or> ef_type e \<noteq> cancel_type_of role
         \<or> ef_status e \<noteq> EFF_PREPARED \<or> casefold (le_exchange e) \<noteq> ''evedex'' \<or> ef_environment e \<noteq> tw_environment tr
         \<or> ef_account_id e \<noteq> tw_account_id tr \<or> ef_trade_id e \<noteq> Some (tw_trade_id tr)
         \<or> ef_order_role e \<noteq> Some (role_text role) \<or> ef_symbol e \<noteq> tw_symbol tr
         \<or> ef_client_order_id e \<noteq> role_client_id tr role \<or> instr \<noteq> lt_venue_symbol tr),
       cancel_error ''PREPARED cancellation effect does not match trade lineage''),
      (same_dict (ef_request e) (cancel_payload tr instr target role),
       cancel_error ''cancellation request payload differs from owned target'')]"

section \<open>The origin of the target\<close>

definition origin_type :: "order_role \<Rightarrow> effect_type" where
  "origin_type role = (if role = ENTRY then PLACE_ORDER else if role = STOP_LOSS then PROTECTIVE_STOP else TAKE_PROFIT_EFFECT)"

definition origin_payload :: "live_trade \<Rightarrow> risk_decision \<Rightarrow> order_role \<Rightarrow> obj" where
  "origin_payload tr d role =
     (if role = ENTRY then [(''trade_id'', JStr (tw_trade_id tr)), (''intent_id'', JStr (tw_intent_id tr)),
        (''client_order_id'', json_of_text (role_client_id tr role)), (''venue_symbol'', JStr (lt_venue_symbol tr)),
        (''side'', JStr (tw_side tr)), (''quantity_hex'', JStr (float_hex (tw_quantity tr))),
        (''limit_price_hex'', JStr (float_hex (rd_worst_entry_price d))), (''leverage_hex'', JStr (float_hex (tw_leverage tr)))]
      else [(''trade_id'', JStr (tw_trade_id tr)), (''client_order_id'', json_of_text (role_client_id tr role)),
        (''parent_order_id'', JStr (tw_entry_client_order_id tr)), (''venue_symbol'', JStr (lt_venue_symbol tr)),
        (''side'', JStr (tw_side tr)), (''tpsl_type'', JStr (role_text role)), (''quantity_hex'', JStr (float_hex fzero)),
        (''price_hex'', JStr (float_hex (if role = STOP_LOSS then tw_stop_price tr else tw_target_price tr)))])"

definition own_origin :: "live_effect \<Rightarrow> live_trade \<Rightarrow> string \<Rightarrow> order_role \<Rightarrow> string \<Rightarrow> bool" where
  "own_origin o1 tr origin_key role target \<longleftrightarrow>
     \<not> (ef_key o1 \<noteq> origin_key \<or> ef_type o1 \<noteq> origin_type role \<or> ef_status o1 \<notin> {EFF_CONFIRMED, EFF_RECONCILED}
       \<or> ef_trade_id o1 \<noteq> Some (tw_trade_id tr) \<or> ef_order_role o1 \<noteq> Some (role_text role)
       \<or> ef_client_order_id o1 \<noteq> role_client_id tr role \<or> ef_exchange_effect_id o1 \<noteq> role_exchange_id tr role
       \<or> ef_environment o1 \<noteq> tw_environment tr \<or> ef_account_id o1 \<noteq> tw_account_id tr
       \<or> casefold (le_exchange o1) \<noteq> ''evedex'' \<or> role_client_id tr role = None \<or> role_exchange_id tr role = None
       \<or> role = ENTRY \<and> role_client_id tr role \<noteq> Some target \<or> role \<noteq> ENTRY \<and> role_exchange_id tr role \<noteq> Some target)"

definition trade_decision :: "cancel_config \<Rightarrow> live_trade \<Rightarrow> exn \<Rightarrow> risk_decision res" where
  "trade_decision K tr e = (case lv_decision (cn_decisions K) (tw_payload tr) of Inl _ \<Rightarrow> Inl e | Inr d \<Rightarrow> Inr d)"

definition validate_origin ::
  "cancel_config \<Rightarrow> live_effect \<Rightarrow> live_trade \<Rightarrow> string \<Rightarrow> order_role \<Rightarrow> string \<Rightarrow> unit res" where
  "validate_origin K o1 tr origin_key role target = (rbind (trade_decision K tr (cancel_error ''trade lacks its canonical original Core decision'')) (\<lambda>d.
     ensure [(\<not> (rd_trade_id d \<noteq> Some (tw_trade_id tr) \<or> rd_decision_id d \<noteq> Some (tw_decision_id tr)
           \<or> ti_symbol (rd_intent d) \<noteq> tw_symbol tr \<or> rd_venue_symbol d \<noteq> lt_venue_symbol tr),
         cancel_error ''trade Core decision identity differs from durable trade''),
       (own_origin o1 tr origin_key role target, cancel_error ''origin effect does not prove target ownership''),
       (same_dict (ef_request o1) (origin_payload tr d role),
         cancel_error ''origin journal payload differs from exact trade geometry'')]))"

section \<open>The signing of the origin\<close>

definition completed_claim :: "cancel_config \<Rightarrow> string \<Rightarrow> string \<Rightarrow> string \<Rightarrow> claim_view \<Rightarrow> bool" where
  "completed_claim K kind ns i c \<longleftrightarrow> cv_kind c = kind \<and> cv_namespace c = ns \<and> cv_identity c = i
     \<and> cv_context_sha256 c = context_digest (cn_context K) \<and> cv_terminal_status c = Some ''COMPLETED''
     \<and> (case cv_result_sha256 c of None \<Rightarrow> False | Some s \<Rightarrow> valid_sha256 s)"

definition dispatch_namespace :: "cancel_config \<Rightarrow> string" where
  "dispatch_namespace K = ''wire:'' @ context_digest (cn_context K)"

definition origin_claims_ok ::
  "cancel_config \<Rightarrow> lifecycle_plan \<Rightarrow> string \<Rightarrow> claim_view \<Rightarrow> claim_view option \<Rightarrow> bool" where
  "origin_claims_ok K p request_sha c wire \<longleftrightarrow> (let q = lp_request p; claimed = cv_claimed_at c in
     completed_claim K ''TYPED_SIGNING'' (cb_custody_reference (cn_binding K)) (sq_request_id q) c
     \<and> cv_request_sha256 c = request_sha
     \<and> (case wire of None \<Rightarrow> False
        | Some w \<Rightarrow> completed_claim K ''WIRE_DISPATCH'' (dispatch_namespace K) (lp_signing_effect_id p) w)
     \<and> dt_offset_us claimed = Some 0
     \<and> \<not> (dt_wall_us claimed \<ge> sq_expires_at q \<or> sq_expires_at q - dt_wall_us claimed > seconds 30))"

text \<open>\<^verbatim>\<open>_verify_completed_origin_claims\<close>, which returns the instant of the signing claim.\<close>

definition completed_origin_claims :: "cancel_config \<Rightarrow> lifecycle_plan option \<Rightarrow> py_datetime chain" where
  "completed_origin_claims K plan = (case plan of None \<Rightarrow> Fail (attribute_error ''request'')
   | Some p \<Rightarrow> (let q = lp_request p; lacks = cancel_error ''origin lacks exact completed signing and wire lineage'' in (bindp (catch_exception ((bindp (liftp (typed_message q (cn_binding K))) (\<lambda>typed.
     let request_sha = signing_digest (cn_codec K) q (snd typed) in
     bindp (store_load ''TYPED_SIGNING'' (cb_custody_reference (cn_binding K)) (sq_request_id q)) (\<lambda>c.
     bindp (store_load ''WIRE_DISPATCH'' (dispatch_namespace K) (lp_signing_effect_id p)) (\<lambda>w.
     Ret (request_sha, c, w)))))) (\<lambda>_. Fail (cancel_error ''durable origin signing/wire claims are unavailable''))) (\<lambda>loaded.
     (case loaded of
       (request_sha, None, w) \<Rightarrow> Fail lacks
     | (request_sha, Some c, w) \<Rightarrow> (bindp (checkp [(origin_claims_ok K p request_sha c w, lacks)]) (\<lambda>_.
     Ret (cv_claimed_at c))))))))"

definition origin_query :: "live_trade \<Rightarrow> string \<Rightarrow> order_role \<Rightarrow> lifecycle_plan \<Rightarrow> plan_query" where
  "origin_query tr origin_key role p = \<lparr> pq_role = role, pq_effect_id = origin_key,
     pq_client_order_id = role_client_id tr role, pq_manual_sha256 = sq_manual_request_sha256 (lp_request p),
     pq_expires_at = sq_expires_at (lp_request p),
     pq_parent = (if role = ENTRY then None else Some (tw_entry_client_order_id tr)), pq_close_quantity = None,
     pq_risk_decision_id = Some (tw_decision_id tr) \<rparr>"

definition verify_origin_binding ::
  "cancel_config \<Rightarrow> lifecycle_plan option \<Rightarrow> live_trade \<Rightarrow> live_effect \<Rightarrow> string \<Rightarrow> order_role \<Rightarrow> py_datetime \<Rightarrow> string res" where
  "verify_origin_binding K plan tr o1 origin_key role claimed_at = (case plan of
       None \<Rightarrow> Inl (cancel_error ''exact durable lifecycle signing binding is absent'')
     | Some p \<Rightarrow> (case (rbind (validate_plan p) (\<lambda>_.
     rbind (lv_decision (cn_decisions K) (tw_payload tr)) (\<lambda>d.
     build_plan (cn_decisions K) d (cn_context K) (cn_binding K) (origin_query tr origin_key role p) claimed_at))) of
         Inl _ \<Rightarrow> Inl (cancel_error ''stored lifecycle binding fails canonical rebuild'')
       | Inr rebuilt \<Rightarrow> (rbind (ensure [(\<not> (p \<noteq> rebuilt \<or> lp_context p \<noteq> cn_context K \<or> lp_trade_id p \<noteq> tw_trade_id tr
               \<or> lp_decision_id p \<noteq> tw_decision_id tr \<or> lp_risk_decision_id p \<noteq> tw_decision_id tr \<or> lp_role p \<noteq> role
               \<or> lp_lifecycle_effect_id p \<noteq> origin_key \<or> ef_key o1 \<noteq> origin_key
               \<or> ef_client_order_id o1 \<noteq> role_client_id tr role),
             cancel_error ''stored lifecycle binding differs from exact journal origin'')]) (\<lambda>_.
     Inr (sq_manual_request_sha256 (lp_request p))))))"

section \<open>The owner and the reservation\<close>

definition verify_owner_lineage :: "cancel_config \<Rightarrow> signed_arm \<Rightarrow> nonce_claim \<Rightarrow> string \<Rightarrow> instant \<Rightarrow> unit res" where
  "verify_owner_lineage K owner_arm c expected now = (case verify_owner_signed_arm (cn_codec K) owner_arm (cn_preconditions K)
       (cn_owner_key K) (cn_owner_key_sha256 K) (cn_owner K) (an_claimed_at c) (cn_arm_lifetime K) of
     Inl _ \<Rightarrow> Inl (cancel_error ''accepted owner arm signature/lineage is invalid'')
   | Inr (arm, digest) \<Rightarrow> ensure [(\<not> (digest \<noteq> expected \<or> ma_context arm \<noteq> cn_context K
         \<or> an_owner_identity c \<noteq> ma_owner_identity arm \<or> an_nonce c \<noteq> ma_nonce arm \<or> an_request_sha256 c \<noteq> digest
         \<or> an_context_sha256 c \<noteq> context_digest (cn_context K) \<or> an_database_uuid c \<noteq> cn_database_uuid K
         \<or> an_claimed_at c < ma_created_at arm \<or> an_claimed_at c > now),
       cancel_error ''owner arm lacks the exact accepted PROD nonce lineage'')])"

definition reservation_ok :: "entry_reservation \<Rightarrow> lifecycle_plan \<Rightarrow> string \<Rightarrow> live_trade \<Rightarrow> signed_arm \<Rightarrow> bool" where
  "reservation_ok r p entry_hash tr owner_arm \<longleftrightarrow>
     \<not> (er_effect_id r \<noteq> lp_signing_effect_id p \<or> er_owner_arm_sha256 r \<noteq> entry_hash
       \<or> er_signing_request_id r \<noteq> sq_request_id (lp_request p) \<or> er_decision_id r \<noteq> lp_risk_decision_id p
       \<or> er_client_order_id r \<noteq> tw_entry_client_order_id tr \<or> er_dollar_cap r \<noteq> ma_dollar_cap (sa_request owner_arm)
       \<or> er_daily_stop_loss_usd r \<noteq> ma_daily_stop_loss_usd (sa_request owner_arm))"

definition reservation_geometry ::
  "cancel_config \<Rightarrow> entry_reservation \<Rightarrow> lifecycle_plan \<Rightarrow> live_trade \<Rightarrow> unit res" where
  "reservation_geometry K r p tr = (let bad = cancel_error ''entry risk reservation geometry is unavailable''; g = er_risk r in (rbind (trade_decision K tr bad) (\<lambda>d.
     rbind ((case loaded_object (sq_message_json (lp_request p)) of Inl _ \<Rightarrow> Inl bad | Inr m \<Rightarrow> Inr m)) (\<lambda>m.
     ensure [(\<not> (lp_role p \<noteq> ENTRY \<or> rg_context g \<noteq> cn_context K \<or> Some (rg_decision_id g) \<noteq> rd_decision_id d
         \<or> rg_signing_request_id g \<noteq> sq_request_id (lp_request p) \<or> rg_effect_id g \<noteq> lp_signing_effect_id p
         \<or> rg_client_order_id g \<noteq> Some (tw_entry_client_order_id tr) \<or> rg_operation g \<noteq> ''New limit order''
         \<or> rg_instrument g \<noteq> rd_venue_symbol d \<or> rg_side g \<noteq> Some (position_side d)
         \<or> JInt (rg_quantity g) \<noteq> field m ''quantity'' \<or> json_of_int (rg_price g) \<noteq> field m ''limitPrice''
         \<or> rg_leverage g \<noteq> 1 \<or> Inr (rg_worst_case_loss_usd g) \<noteq> float_decimal (rd_worst_case_loss_usd d)),
       cancel_error ''entry risk reservation differs from exact Core signing geometry'')]))))"

section \<open>The venue\<close>

definition read_venue :: "cancel_config \<Rightarrow> string \<Rightarrow> instant \<Rightarrow> (string \<times> venue_snapshot) chain" where
  "read_venue K instr now = (case cn_sources K of
     [source] \<Rightarrow> (bindp (under_deadline (answer (Read_Venue source (cn_context K) (px_remote_account_id (cn_context K)) instr))) (\<lambda>raw.
     bindp (catch_exception ((bindp (venue_facts (Check_Venue source raw (cn_context K) (px_remote_account_id (cn_context K)) instr)) (\<lambda>x.
     bindp (liftp (validate_snapshot x)) (\<lambda>_.
     Ret x)))) (\<lambda>_. Fail (cancel_error ''authoritative cancellation venue facts are unavailable''))) (\<lambda>s.
     bindp (cancel_now) (\<lambda>checked_at.
     bindp (checkp [(\<not> checked_at < now, cancel_error ''cancellation clock moved backwards during venue capture''),
         (\<not> (vs_source_id s \<noteq> source \<or> vs_context s \<noteq> cn_context K
           \<or> vs_account_id s \<noteq> px_remote_account_id (cn_context K) \<or> vs_instrument s \<noteq> instr
           \<or> vs_observed_at s > checked_at \<or> checked_at - vs_observed_at s > snapshot_max_age
           \<or> vs_valid_until s \<le> checked_at), cancel_error ''cancellation venue snapshot is stale or out of scope'')]) (\<lambda>_.
     Ret (source, s))))))
   | _ \<Rightarrow> Fail (cancel_error ''cancellation requires one unambiguous registered venue source''))"

text \<open>A pair of a protection type and an id of the trade that a live protection of the snapshot has.\<close>

definition live_protection :: "venue_snapshot \<Rightarrow> live_trade \<Rightarrow> string \<Rightarrow> string \<Rightarrow> string option \<Rightarrow> bool" where
  "live_protection s tr instr kind i \<longleftrightarrow> list_ex (\<lambda>f. vp_protection_type f = kind \<and> Some (vp_protection_id f) = i
     \<and> vp_status f = ''ACTIVE'' \<and> vp_instrument f = instr \<and> vp_parent_order_id f = tw_entry_client_order_id tr
     \<and> vp_covered_quantity f \<ge> vs_position_quantity s) (vs_protections s)"

definition entry_order_ok :: "venue_snapshot \<Rightarrow> live_trade \<Rightarrow> string \<Rightarrow> string \<Rightarrow> bool" where
  "entry_order_ok s tr instr target = (case find (\<lambda>f. vo_order_id f = target) (vs_orders s) of None \<Rightarrow> False
     | Some f \<Rightarrow> \<not> (vo_role f \<noteq> ''ENTRY'' \<or> vo_instrument f \<noteq> instr \<or> vo_side f \<noteq> tw_side tr
         \<or> (case float_decimal (tw_quantity tr) of Inl _ \<Rightarrow> True
            | Inr q \<Rightarrow> vo_remaining_quantity f \<noteq> dsub 28 q (vs_position_quantity s))
         \<or> vo_reduce_only f \<or> vs_entry_parent_order_id s \<notin> {None, Some target}))"

definition competing_exit :: "venue_snapshot \<Rightarrow> live_trade \<Rightarrow> string \<Rightarrow> bool" where
  "competing_exit s tr instr = (let exit_side = (if vs_position_side s = Some ''BUY'' then ''SELL'' else ''BUY'') in
     list_ex (\<lambda>f. vo_role f = ''EXIT'' \<and> vo_status f \<in> {''OPEN'', ''PARTIALLY_FILLED''} \<and> vo_instrument f = instr
       \<and> vo_reduce_only f \<and> vo_side f = exit_side \<and> vo_parent_order_id f = Some (tw_entry_client_order_id tr)
       \<and> vo_remaining_quantity f \<ge> vs_position_quantity s) (vs_orders s))"

definition validate_venue ::
  "venue_snapshot \<Rightarrow> live_trade \<Rightarrow> string \<Rightarrow> string \<Rightarrow> order_role \<Rightarrow> string \<Rightarrow> instant \<Rightarrow> unit res" where
  "validate_venue s tr instr target role source now = (rbind (ensure [(\<not> (vs_source_id s \<noteq> source \<or> vs_instrument s \<noteq> instr
           \<or> px_remote_account_id (vs_context s) \<noteq> tw_account_id tr),
         cancel_error ''venue cancellation facts differ from trade/account scope''),
       (\<not> (vs_observed_at s > now \<or> now - vs_observed_at s > snapshot_max_age \<or> vs_valid_until s \<le> now),
         cancel_error ''venue cancellation facts expired before final authorization'')]) (\<lambda>_.
     (if role = ENTRY then ensure
       [(entry_order_ok s tr instr target, cancel_error ''entry remainder is not authoritatively open and owned''),
        (vs_position_quantity s > 0 \<longrightarrow> vs_position_side s = Some (tw_side tr),
          cancel_error ''partial entry position side differs from durable trade''),
        (vs_position_quantity s > 0 \<longrightarrow> live_protection s tr instr ''STOP_LOSS'' (tw_stop_exchange_order_id tr)
            \<and> live_protection s tr instr ''TAKE_PROFIT'' (tw_target_exchange_order_id tr),
          cancel_error ''partial entry exposure lacks both active protections'')]
      else (rbind (ensure [(case find (\<lambda>f. vp_protection_id f = target) (vs_protections s) of None \<Rightarrow> False
          | Some f \<Rightarrow> \<not> (Some (vp_protection_id f) \<noteq> role_exchange_id tr role \<or> vp_instrument f \<noteq> instr
              \<or> vp_parent_order_id f \<noteq> tw_entry_client_order_id tr \<or> vp_protection_type f \<noteq> role_text role),
          cancel_error ''TP/SL is not an active protection owned by this trade'')]) (\<lambda>_.
     (if vs_position_quantity s = 0 then Inr ()
         else if role = STOP_LOSS then ensure [(competing_exit s tr instr,
           cancel_error ''active stop cannot be cancelled without flat exposure or an authoritative competing exit'')]
         else ensure [(live_protection s tr instr ''STOP_LOSS'' (tw_stop_exchange_order_id tr),
           cancel_error ''take-profit cancellation would leave live exposure unprotected'')]))))))"

section \<open>The proof of one cancellation\<close>

record cancel_ask =
  ca_effect_id :: string
  ca_trade_id :: string
  ca_instrument :: string
  ca_target_id :: string
  ca_role :: order_role

record cancel_plan =
  cp_trade_id :: string
  cp_decision_id :: string
  cp_effect_id :: string
  cp_role :: order_role
  cp_instrument :: string
  cp_target_id :: string
  cp_origin_effect_id :: string
  cp_manual_request_sha256 :: string
  cp_request_sha256 :: string

definition cancel_type_text :: "order_role \<Rightarrow> string" where
  "cancel_type_text role = (if role = ENTRY then ''CANCEL_ORDER'' else ''CANCEL_TPSL'')"

definition plan_record :: "cancel_config \<Rightarrow> cancel_plan \<Rightarrow> string \<Rightarrow> json" where
  "plan_record K p source = JObj
     [(''context_sha256'', JStr (context_digest (cn_context K))), (''database_uuid'', JStr (cn_database_uuid K)),
      (''trade_id'', JStr (cp_trade_id p)), (''decision_id'', JStr (cp_decision_id p)), (''effect_id'', JStr (cp_effect_id p)),
      (''cancellation_type'', JStr (cancel_type_text (cp_role p))), (''role'', JStr (role_text (cp_role p))),
      (''instrument'', JStr (cp_instrument p)), (''target_id'', JStr (cp_target_id p)),
      (''origin_effect_id'', JStr (cp_origin_effect_id p)), (''manual_request_sha256'', JStr (cp_manual_request_sha256 p)),
      (''venue_source_id'', JStr source)]"

definition validate_cancel_plan :: "cancel_config \<Rightarrow> cancel_plan \<Rightarrow> unit res" where
  "validate_cancel_plan K p = rbind (validate_context (cn_context K)) (\<lambda>_. valid_when
     [identity_ok (cp_trade_id p), identity_ok (cp_decision_id p), valid_sha256 (cp_effect_id p),
      instrument_text_ok (cp_instrument p), identity_ok (cp_target_id p), identity_ok (cp_origin_effect_id p),
      valid_sha256 (cp_manual_request_sha256 p), valid_sha256 (cp_request_sha256 p)])"

definition present :: "'a option \<Rightarrow> exn \<Rightarrow> 'a chain" where
  "present x e = (case x of None \<Rightarrow> Fail e | Some v \<Rightarrow> Ret v)"

text \<open>The effect of one origin, its chain, its plan and the completed claims: the digest of the owner's arm.\<close>

definition signed_origin ::
  "cancel_config \<Rightarrow> live_trade \<Rightarrow> live_effect \<Rightarrow> string \<Rightarrow> order_role \<Rightarrow> (lifecycle_plan option \<times> string) chain" where
  "signed_origin K tr o1 origin_key role = (bindp (get_plan origin_key) (\<lambda>plan.
     bindp (completed_origin_claims K plan) (\<lambda>claimed_at.
     bindp (liftp (verify_origin_binding K plan tr o1 origin_key role claimed_at)) (\<lambda>owner_hash.
     Ret (plan, owner_hash)))))"

definition chained_effect :: "string \<Rightarrow> exn \<Rightarrow> live_effect chain" where
  "chained_effect key e = (bindp (get_effect key) (\<lambda>row.
     bindp (present row e) (\<lambda>o1.
     bindp (flag_of (Verify_Effect_Chain key)) (\<lambda>chained.
     bindp (checkp [(chained, e)]) (\<lambda>_.
     Ret o1)))))"

text \<open>For an entry the origin is the entry; a protection has the plan of its own and that of its entry.\<close>

definition entry_lineage ::
  "cancel_config \<Rightarrow> live_trade \<Rightarrow> order_role \<Rightarrow> lifecycle_plan option \<times> string \<Rightarrow> (lifecycle_plan option \<times> string) chain" where
  "entry_lineage K tr role own = (if role = ENTRY then Ret own else (let entry_key = origin_effect_key K tr ENTRY in (bindp (chained_effect entry_key (cancel_error ''durable entry origin journal chain is invalid'')) (\<lambda>o1.
     bindp (signed_origin K tr o1 entry_key ENTRY) (\<lambda>entry.
     bindp (checkp [(snd entry = snd own, cancel_error ''protection owner lineage differs from original entry'')]) (\<lambda>_.
     Ret entry))))))"

definition prove_reservation ::
  "cancel_config \<Rightarrow> live_trade \<Rightarrow> string \<Rightarrow> lifecycle_plan option \<times> string \<Rightarrow> instant \<Rightarrow> unit chain" where
  "prove_reservation K tr owner_hash entry now = (bindp (owner_lineage owner_hash) (\<lambda>lineage.
     bindp (liftp (verify_owner_lineage K (fst lineage) (snd lineage) owner_hash now)) (\<lambda>_.
     bindp (present (fst entry) (attribute_error ''signing_effect_id'')) (\<lambda>p.
     bindp (entry_reservation_row (lp_signing_effect_id p) (snd entry) (sq_request_id (lp_request p)) (lp_risk_decision_id p)) (\<lambda>r.
     bindp (checkp [(reservation_ok r p (snd entry) tr (fst lineage),
       cancel_error ''entry reservation differs from exact signed trade lineage'')]) (\<lambda>_.
     liftp (reservation_geometry K r p tr)))))))"

definition prove_cancel :: "cancel_config \<Rightarrow> cancel_ask \<Rightarrow> (cancel_plan \<times> live_effect) chain" where
  "prove_cancel K a = (let role = ca_role a; absent = cancel_error ''durable cancellation trade/effect is absent'';
       broken = cancel_error ''durable trade/cancellation journal chain is invalid'' in (bindp (cancel_now) (\<lambda>now.
     bindp (checkp [(ca_effect_id a \<noteq> [] \<and> ca_trade_id a \<noteq> [], cancel_error ''cancellation identity is malformed'')]) (\<lambda>_.
     bindp (get_trade (Some (ca_trade_id a))) (\<lambda>trade.
     bindp (get_effect (ca_effect_id a)) (\<lambda>effect.
     bindp (present trade absent) (\<lambda>tr.
     bindp (present effect absent) (\<lambda>e.
     bindp (flag_of (Verify_Trade_Chain (ca_trade_id a))) (\<lambda>linked.
     bindp (checkp [(linked, broken)]) (\<lambda>_.
     bindp (flag_of (Verify_Effect_Chain (ca_effect_id a))) (\<lambda>chained.
     bindp (checkp [(chained, broken)]) (\<lambda>_.
     bindp (liftp (validate_trade K tr (ca_trade_id a))) (\<lambda>_.
     let instr = lt_venue_symbol tr in
     bindp (checkp [(ca_instrument a = tw_symbol tr \<or> ca_instrument a = lt_venue_symbol tr,
       cancel_error ''cancellation instrument differs from exact trade'')]) (\<lambda>_.
     bindp (liftp (validate_cancel_effect K e tr (ca_effect_id a) instr (ca_target_id a) role)) (\<lambda>_.
     let origin_key = origin_effect_key K tr role in
     bindp (chained_effect origin_key (cancel_error ''durable origin execution journal chain is invalid'')) (\<lambda>o1.
     bindp (liftp (validate_origin K o1 tr origin_key role (ca_target_id a))) (\<lambda>_.
     bindp (signed_origin K tr o1 origin_key role) (\<lambda>own.
     bindp (entry_lineage K tr role own) (\<lambda>entry.
     bindp (prove_reservation K tr (snd own) entry now) (\<lambda>_.
     bindp (read_venue K instr now) (\<lambda>facts.
     bindp (cancel_now) (\<lambda>checked_at.
     bindp (liftp (validate_venue (snd facts) tr instr (ca_target_id a) role (fst facts) checked_at)) (\<lambda>_.
     let p = \<lparr> cp_trade_id = ca_trade_id a, cp_decision_id = tw_decision_id tr, cp_effect_id = ef_key e, cp_role = role,
       cp_instrument = instr, cp_target_id = ca_target_id a, cp_origin_effect_id = origin_key,
       cp_manual_request_sha256 = snd own, cp_request_sha256 = [] \<rparr> in
     let q = p \<lparr> cp_request_sha256 := digest_of (plan_record K p (fst facts)) \<rparr> in
     bindp (liftp (validate_cancel_plan K q)) (\<lambda>_.
     Ret (q, e)))))))))))))))))))))))))"

section \<open>The cancellation\<close>

definition cancel_finish :: "cancel_config \<Rightarrow> cancel_plan \<Rightarrow> string \<Rightarrow> string option \<Rightarrow> unit chain" where
  "cancel_finish K p status result =
     catch_exception (under_deadline (store_finish (Finish_Wire (cancel_namespace K) (cp_effect_id p) (cp_request_sha256 p) status result)))
       (\<lambda>_. Fail (cancel_error ''cancellation terminal claim unresolved; do not retry''))"

text \<open>Both handlers record the outcome as unresolved; a cancellation of the task goes on, everything else is replaced.\<close>

definition or_cancel_unresolved :: "cancel_config \<Rightarrow> cancel_plan \<Rightarrow> exn \<Rightarrow> 'a chain \<Rightarrow> 'a chain" where
  "or_cancel_unresolved K p e' body = catchp body (\<lambda>e. (bindp (cancel_finish K p ''UNRESOLVED'' None) (\<lambda>_.
     Fail (if cancelled e then e else e'))))"

definition acknowledged :: "string \<Rightarrow> json \<Rightarrow> obj res" where
  "acknowledged target r = (case r of
     JObj m \<Rightarrow> if field m ''status'' = JStr ''CANCELED'' \<and> field m ''id'' = JStr target then Inr m
       else raise ValueError ''venue cancellation acknowledgement differs from target''
   | _ \<Rightarrow> raise ValueError ''venue cancellation acknowledgement differs from target'')"

definition cancel_request :: "cancel_plan \<Rightarrow> chain_request" where
  "cancel_request p = (if cp_role p = ENTRY then Cancel_Entry (cp_effect_id p) (cp_instrument p) (cp_target_id p)
     else Cancel_Protection (cp_effect_id p) (cp_instrument p) (cp_target_id p))"

definition cancel_claimed :: "cancel_config \<Rightarrow> cancel_ask \<Rightarrow> cancel_plan \<Rightarrow> json chain" where
  "cancel_claimed K a p = (bindp (or_cancel_unresolved K p (cancel_error ''post-claim cancellation authority changed; do not retry'') ((bindp (prove_cancel K a) (\<lambda>final.
     checkp [(\<not> (cp_request_sha256 (fst final) \<noteq> cp_request_sha256 p \<or> cp_effect_id (fst final) \<noteq> cp_effect_id p
           \<or> cp_origin_effect_id (fst final) \<noteq> cp_origin_effect_id p
           \<or> cp_manual_request_sha256 (fst final) \<noteq> cp_manual_request_sha256 p),
         cancel_error ''cancellation lineage changed after one-shot claim'')])))) (\<lambda>_.
     bindp (or_cancel_unresolved K p (cancel_error ''cancellation outcome unresolved; do not retry'') ((bindp (under_deadline (answer (cancel_request p))) (\<lambda>r.
     bindp (liftp (acknowledged (cp_target_id p) r)) (\<lambda>m.
     bindp (liftp (response_digest r)) (\<lambda>d.
     Ret (m, d))))))) (\<lambda>sent.
     bindp (cancel_finish K p ''COMPLETED'' (Some (snd sent))) (\<lambda>_.
     bindp (catch_exception (act (Confirm_Effect (cp_effect_id p) (cp_target_id p) (fst sent)))
       (\<lambda>_. Fail (cancel_error ''venue cancellation completed but execution journal confirmation is unresolved''))) (\<lambda>_.
     Ret (JObj (fst sent)))))))"

definition cancel_role :: "string \<Rightarrow> order_role option" where
  "cancel_role s = (if s = ''ENTRY'' then Some ENTRY else if s = ''STOP_LOSS'' then Some STOP_LOSS
     else if s = ''TAKE_PROFIT'' then Some TAKE_PROFIT else None)"

definition cancel_effect ::
  "cancel_config \<Rightarrow> string \<Rightarrow> string option \<Rightarrow> string \<Rightarrow> string \<Rightarrow> order_role option \<Rightarrow> json chain" where
  "cancel_effect K eff_id trade_id instr target role = (let lacks = cancel_error ''cancellation effect lacks exact trade/role lineage'' in (bindp (checkp [(valid_sha256 eff_id \<and> instrument_text_ok instr \<and> identity_ok target,
       cancel_error ''cancellation request identity is malformed'')]) (\<lambda>_.
     bindp (get_effect eff_id) (\<lambda>row.
     bindp (present row (cancel_error ''durable cancellation effect is absent'')) (\<lambda>preliminary.
     bindp (present (case trade_id of Some i \<Rightarrow> Some i | None \<Rightarrow> ef_trade_id preliminary) lacks) (\<lambda>tid.
     bindp (present (case role of Some r \<Rightarrow> Some r | None \<Rightarrow> Option.bind (ef_order_role preliminary) cancel_role) lacks) (\<lambda>own_role.
     let a = \<lparr> ca_effect_id = eff_id, ca_trade_id = tid, ca_instrument = instr, ca_target_id = target, ca_role = own_role \<rparr> in
     bindp (prove_cancel K a) (\<lambda>proved.
     bindp (catch_exception (store_claim ''WIRE_DISPATCH'' (cancel_namespace K) (cp_effect_id (fst proved)) (cp_request_sha256 (fst proved)))
       (\<lambda>_. Fail (cancel_error ''cancellation claim outcome unresolved; do not retry''))) (\<lambda>claimed.
     bindp (checkp [(claimed, cancel_error ''cancellation effect is already claimed or unresolved'')]) (\<lambda>_.
     cancel_claimed K a (fst proved)))))))))))"

text \<open>The four public operations; the adapter's two leave the trade and the role to the journal.\<close>

definition cancel_entry_remainder :: "cancel_config \<Rightarrow> string \<Rightarrow> string \<Rightarrow> string \<Rightarrow> string \<Rightarrow> json chain" where
  "cancel_entry_remainder K eff_id trade_id instr cid = cancel_effect K eff_id (Some trade_id) instr cid (Some ENTRY)"

definition cancel_entry :: "cancel_config \<Rightarrow> string \<Rightarrow> string \<Rightarrow> string \<Rightarrow> json chain" where
  "cancel_entry K eff_id symb cid = cancel_effect K eff_id None symb cid None"

definition cancel_owned_tpsl :: "cancel_config \<Rightarrow> string \<Rightarrow> string \<Rightarrow> string \<Rightarrow> string \<Rightarrow> order_role \<Rightarrow> json chain" where
  "cancel_owned_tpsl K eff_id trade_id instr i role = cancel_effect K eff_id (Some trade_id) instr i (Some role)"

definition cancel_tpsl :: "cancel_config \<Rightarrow> string \<Rightarrow> string \<Rightarrow> string \<Rightarrow> json chain" where
  "cancel_tpsl K eff_id symb i = cancel_effect K eff_id None symb i None"

end
