(* ===== verification/Prod_Adapter.thy ===== *)
theory Prod_Adapter
  imports Prod_Cancel
begin

text \<open>
  \<^verbatim>\<open>kairos_execution/production_lifecycle_adapter.py\<close>: the mutations of the protected life cycle over the
  production chain, and its cancellations. Each call proves that its durable effect, its trade and its stored signing plan are
  the ones of the original decision, and then sends the plan's request once.
\<close>

record live_config =
  lc_chain :: chain_config
  lc_codec :: live_codec
  lc_cancel :: cancel_config

abbreviation refused_lifecycle :: "string \<Rightarrow> exn" where
  "refused_lifecycle m \<equiv> Exn (OtherError ''ProductionLifecycleRefused'') m"

definition live_environment :: "live_config \<Rightarrow> string" where
  "live_environment V = ''PROD:'' @ context_digest (ch_context (lc_chain V)) @ '':LIVE''"

definition live_namespace :: "live_config \<Rightarrow> string" where
  "live_namespace V = ''prod.v1:'' @ context_digest (ch_context (lc_chain V))"

section \<open>The stored plan\<close>

text \<open>What \<^verbatim>\<open>_binding\<close> asks for, before the stored plan adds its digest, expiry and risk identity.\<close>

definition plan_query_of :: "order_role \<Rightarrow> string \<Rightarrow> string option \<Rightarrow> string option \<Rightarrow> f64 option \<Rightarrow> lifecycle_plan \<Rightarrow> plan_query" where
  "plan_query_of role eff_id cid parent close_quantity p = \<lparr> pq_role = role, pq_effect_id = eff_id,
     pq_client_order_id = cid, pq_manual_sha256 = sq_manual_request_sha256 (lp_request p),
     pq_expires_at = sq_expires_at (lp_request p), pq_parent = parent, pq_close_quantity = close_quantity,
     pq_risk_decision_id = Some (lp_risk_decision_id p) \<rparr>"

definition stored_plan ::
  "live_config \<Rightarrow> risk_decision \<Rightarrow> string \<Rightarrow> order_role \<Rightarrow> string option \<Rightarrow> string option \<Rightarrow> f64 option \<Rightarrow> lifecycle_plan chain" where
  "stored_plan V d eff_id role cid parent close_quantity = (let H = lc_chain V in (bindp (get_plan eff_id) (\<lambda>row.
     bindp ((case row of None \<Rightarrow> Fail (refused_lifecycle ''independent persisted lifecycle signing plan is absent'')
         | Some p \<Rightarrow> Ret p)) (\<lambda>p.
     bindp (liftp (validate_plan p)) (\<lambda>_.
     bindp (read_wall) (\<lambda>t.
     bindp (liftp (build_plan (lc_codec V) d (ch_context H) (ch_binding H)
       (plan_query_of role eff_id cid parent close_quantity p) t)) (\<lambda>rebuilt.
     bindp (checkp [(p = rebuilt, refused_lifecycle ''persisted signing plan differs from exact durable lifecycle'')]) (\<lambda>_.
     Ret p))))))))"

definition inspect_entry :: "live_config \<Rightarrow> risk_decision \<Rightarrow> string \<Rightarrow> lifecycle_plan chain" where
  "inspect_entry V d0 eff_id = (bindp (liftp (lv_revalidate (lc_codec V) d0)) (\<lambda>d.
     bindp (checkp [(eff_id = sha256_hex (live_namespace V @ '':'' @ trade_id_text d @ '':ENTRY:place''),
       refused_lifecycle ''entry effect differs from the PROD lifecycle namespace'')]) (\<lambda>_.
     bindp (liftp (client_id (trade_id_text d) ENTRY (rd_decided_at_ms d))) (\<lambda>cid.
     bindp (stored_plan V d eff_id ENTRY (Some cid) None None) (\<lambda>p.
     bindp (inspect_request (ch_auth (lc_chain V)) (lp_request p) (ch_binding (lc_chain V))) (\<lambda>e.
     bindp (liftp (compare_entry_risk (lc_codec V) d p e)) (\<lambda>_.
     Ret p)))))))"

section \<open>The durable effect\<close>

definition lineage_ok :: "live_config \<Rightarrow> string \<Rightarrow> live_effect \<Rightarrow> live_trade \<Rightarrow> bool" where
  "lineage_ok V symb e tr \<longleftrightarrow> lt_trading_mode tr = ''LIVE'' \<and> lt_profile tr = ''PROD''
     \<and> tw_environment tr = live_environment V \<and> ef_environment e = live_environment V
     \<and> tw_account_id tr = px_remote_account_id (ch_context (lc_chain V)) \<and> ef_account_id e = tw_account_id tr
     \<and> le_exchange e = ''evedex'' \<and> lt_exchange tr = ''evedex'' \<and> ef_symbol e = symb \<and> tw_symbol tr = symb
     \<and> ef_trade_id e = Some (tw_trade_id tr)"

definition prepared_effect ::
  "live_config \<Rightarrow> string \<Rightarrow> effect_type set \<Rightarrow> string \<Rightarrow> (live_effect \<times> live_trade \<times> risk_decision) chain" where
  "prepared_effect V eff_id types symb = (let bad = refused_lifecycle ''durable PROD trade/effect lineage is invalid'' in (bindp (get_effect eff_id) (\<lambda>row.
     bindp ((case row of
         None \<Rightarrow> Fail (refused_lifecycle ''exact PREPARED lifecycle effect is absent'')
       | Some e \<Rightarrow> if ef_status e = EFF_PREPARED \<and> ef_type e \<in> types then Ret e
           else Fail (refused_lifecycle ''exact PREPARED lifecycle effect is absent''))) (\<lambda>e.
     bindp (get_trade (ef_trade_id e)) (\<lambda>trade.
     bindp ((case trade of None \<Rightarrow> Fail bad | Some tr \<Rightarrow> Ret tr)) (\<lambda>tr.
     bindp (checkp [(lineage_ok V symb e tr, bad)]) (\<lambda>_.
     bindp (flag_of (Verify_Effect_Chain eff_id)) (\<lambda>chained.
     bindp (checkp [(chained, bad)]) (\<lambda>_.
     bindp (flag_of (Verify_Trade_Chain (tw_trade_id tr))) (\<lambda>linked.
     bindp (checkp [(linked, bad)]) (\<lambda>_.
     bindp (liftp (lv_decision (lc_codec V) (tw_payload tr))) (\<lambda>d.
     bindp (checkp [(\<not> (rd_trade_id d \<noteq> Some (tw_trade_id tr) \<or> rd_decision_id d \<noteq> Some (tw_decision_id tr)),
       refused_lifecycle ''trade does not contain the original canonical Risk decision'')]) (\<lambda>_.
     Ret (e, tr, d))))))))))))))"

definition send_plan :: "live_config \<Rightarrow> lifecycle_plan \<Rightarrow> json chain" where
  "send_plan V p = (bindp (dispatch_one_response (lc_chain V) (lp_request p)) (\<lambda>outcome.
     bindp (checkp [(\<not> (ro_effect_id (fst outcome) \<noteq> lp_signing_effect_id p \<or> ro_decision_id (fst outcome) \<noteq> lp_risk_decision_id p),
       refused_lifecycle ''managed dispatch receipt differs from persisted signing plan'')]) (\<lambda>_.
     Ret (snd outcome))))"

section \<open>The calls\<close>

definition order_side_of :: "string \<Rightarrow> v_side res" where
  "order_side_of s = (if s = ''BUY'' then Inr V_BUY else if s = ''SELL'' then Inr V_SELL
     else raise ValueError (repr_string s @ '' is not a valid OrderSide''))"

datatype live_call =
    Place_Limit string string string v_side f64 f64 f64 bool
  | Create_Tpsl string string v_side string f64 f64 string
  | Close_Live string string string f64 f64
  | Cancel_Order_Live string string string
  | Cancel_Tpsl_Live string string string

definition place_limit ::
  "live_config \<Rightarrow> string \<Rightarrow> string \<Rightarrow> string \<Rightarrow> v_side \<Rightarrow> f64 \<Rightarrow> f64 \<Rightarrow> f64 \<Rightarrow> bool \<Rightarrow> json chain" where
  "place_limit V eff_id cid symb side quantity limit_price leverage post_only =
     (let changed = refused_lifecycle ''entry call changed the immutable Risk geometry'' in (bindp (prepared_effect V eff_id {PLACE_ORDER} symb) (\<lambda>row.
     (case row of (e, tr, d) \<Rightarrow> (bindp (checkp [(\<not> post_only \<and> feq leverage fone \<and> ef_order_role e = Some ''ENTRY'' \<and> ef_client_order_id e = Some cid
         \<and> tw_entry_client_order_id tr = cid \<and> feq quantity (rd_quantity d) \<and> feq limit_price (rd_worst_entry_price d), changed)]) (\<lambda>_.
     bindp (liftp (order_side_of (tw_side tr))) (\<lambda>own.
     bindp (checkp [(side = own, changed)]) (\<lambda>_.
     bindp (inspect_entry V d eff_id) (\<lambda>p.
     send_plan V p)))))))))"

definition create_tpsl ::
  "live_config \<Rightarrow> string \<Rightarrow> string \<Rightarrow> v_side \<Rightarrow> string \<Rightarrow> f64 \<Rightarrow> f64 \<Rightarrow> string \<Rightarrow> json chain" where
  "create_tpsl V eff_id symb side tpsl_type quantity price parent =
     (let changed = refused_lifecycle ''protection call changed the original exit plan/parent'' in (bindp (prepared_effect V eff_id {PROTECTIVE_STOP, TAKE_PROFIT_EFFECT} symb) (\<lambda>row.
     (case row of (e, tr, d) \<Rightarrow>
     let role = (if ef_type e = PROTECTIVE_STOP then STOP_LOSS else TAKE_PROFIT);
       expected = (if role = STOP_LOSS then rd_stop_price d else rd_target_price d) in (bindp (checkp [(tpsl_type = role_text role \<and> ef_order_role e = Some (role_text role) \<and> feq quantity fzero
         \<and> feq price expected, changed)]) (\<lambda>_.
     bindp (liftp (order_side_of (tw_side tr))) (\<lambda>own.
     bindp (checkp [(side = own \<and> parent = tw_entry_client_order_id tr, changed)]) (\<lambda>_.
     bindp (stored_plan V d eff_id role (ef_client_order_id e) (Some parent) None) (\<lambda>p.
     send_plan V p)))))))))"

definition close_position_live :: "live_config \<Rightarrow> string \<Rightarrow> string \<Rightarrow> string \<Rightarrow> f64 \<Rightarrow> f64 \<Rightarrow> json chain" where
  "close_position_live V eff_id cid symb quantity leverage =
     (let changed = refused_lifecycle ''close call differs from the exact prepared reduce-only exit'' in (bindp (prepared_effect V eff_id {TIMEOUT_CLOSE, EMERGENCY_CLOSE_EFFECT, CLOSE_POSITION} symb) (\<lambda>row.
     (case row of (e, tr, d) \<Rightarrow> (bindp (checkp [(ef_order_role e \<in> {Some ''TIMEOUT_EXIT'', Some ''EMERGENCY_EXIT''} \<and> feq leverage fone
         \<and> ef_client_order_id e = Some cid \<and> flt fzero quantity \<and> fle quantity (rd_quantity d), changed)]) (\<lambda>_.
     bindp (liftp (case map_of (ef_request e) ''quantity_hex'' of
         None \<Rightarrow> raise KeyError ''quantity_hex''
       | Some (JStr s) \<Rightarrow> float_fromhex s
       | Some _ \<Rightarrow> raise TypeError ''bad argument type for built-in operation'')) (\<lambda>stored.
     bindp (checkp [(feq stored quantity, changed)]) (\<lambda>_.
     bindp (stored_plan V d eff_id (if ef_order_role e = Some ''TIMEOUT_EXIT'' then TIMEOUT_EXIT else EMERGENCY_EXIT)
       (Some cid) None (Some quantity)) (\<lambda>p.
     send_plan V p)))))))))"

definition cancel_order_live :: "live_config \<Rightarrow> string \<Rightarrow> string \<Rightarrow> string \<Rightarrow> json chain" where
  "cancel_order_live V eff_id symb cid = (bindp (prepared_effect V eff_id {CANCEL_ORDER} symb) (\<lambda>row.
     (case row of (e, tr, d) \<Rightarrow> cancel_entry (lc_cancel V) eff_id (lt_venue_symbol tr) cid)))"

definition cancel_tpsl_live :: "live_config \<Rightarrow> string \<Rightarrow> string \<Rightarrow> string \<Rightarrow> json chain" where
  "cancel_tpsl_live V eff_id symb i = (bindp (prepared_effect V eff_id {CANCEL_TPSL_EFFECT} symb) (\<lambda>row.
     (case row of (e, tr, d) \<Rightarrow> cancel_tpsl (lc_cancel V) eff_id (lt_venue_symbol tr) i)))"

fun live_mutation :: "live_config \<Rightarrow> live_call \<Rightarrow> json chain" where
  "live_mutation V (Place_Limit i cid symb side q price lev post) = place_limit V i cid symb side q price lev post"
| "live_mutation V (Create_Tpsl i symb side kind q price parent) = create_tpsl V i symb side kind q price parent"
| "live_mutation V (Close_Live i cid symb q lev) = close_position_live V i cid symb q lev"
| "live_mutation V (Cancel_Order_Live i symb cid) = cancel_order_live V i symb cid"
| "live_mutation V (Cancel_Tpsl_Live i symb x) = cancel_tpsl_live V i symb x"

end
