(* ===== verification/Prod_Cancel_Rules.thy ===== *)
theory Prod_Cancel_Rules
  imports Prod_Cancel Prod_Session
begin

text \<open>
  What a cancellation leaves in the history: a granted one-use claim, then one complete proof of ownership
  and of fresh venue facts, then the one request; and what those facts say of the exposure that remains.
\<close>

section \<open>What protects an exposure\<close>

text \<open>The stop of an entry, live for at least the whole position; and a reduce-only exit of that size.\<close>

definition covering_stop :: "string \<Rightarrow> string \<Rightarrow> venue_snapshot \<Rightarrow> protection_fact \<Rightarrow> bool" where
  "covering_stop entry_id instr s f \<longleftrightarrow> vp_protection_type f = ''STOP_LOSS'' \<and> vp_status f = ''ACTIVE'' \<and> vp_instrument f = instr
     \<and> vp_parent_order_id f = entry_id \<and> vs_position_quantity s \<le> vp_covered_quantity f"

definition covering_exit :: "string \<Rightarrow> string \<Rightarrow> venue_snapshot \<Rightarrow> order_fact \<Rightarrow> bool" where
  "covering_exit entry_id instr s f \<longleftrightarrow> vo_role f = ''EXIT'' \<and> vo_instrument f = instr \<and> vo_reduce_only f
     \<and> vs_position_side s \<noteq> Some (vo_side f) \<and> vo_parent_order_id f = Some entry_id
     \<and> vs_position_quantity s \<le> vo_remaining_quantity f"

definition exposure_covered :: "string \<Rightarrow> string \<Rightarrow> venue_snapshot \<Rightarrow> bool" where
  "exposure_covered entry_id instr s \<longleftrightarrow> vs_position_quantity s = 0
     \<or> (\<exists>f \<in> set (vs_protections s). covering_stop entry_id instr s f)
     \<or> (\<exists>f \<in> set (vs_orders s). covering_exit entry_id instr s f)"

text \<open>The facts of the venue once the target is gone: an order for an entry, otherwise a protection.\<close>

definition without_target :: "bool \<Rightarrow> string \<Rightarrow> venue_snapshot \<Rightarrow> venue_snapshot" where
  "without_target entry target s = (if entry then s \<lparr> vs_orders := filter (\<lambda>f. vo_order_id f \<noteq> target) (vs_orders s) \<rparr>
     else s \<lparr> vs_protections := filter (\<lambda>f. vp_protection_id f \<noteq> target) (vs_protections s) \<rparr>)"

section \<open>The rule of cancellations\<close>

text \<open>The rows, the owner's arm and the facts of one proof; its last event is a reading of the clock.\<close>

definition proof_rows :: "cancel_config \<Rightarrow> order_role \<Rightarrow> string \<Rightarrow> string \<Rightarrow> string \<Rightarrow> live_trade \<Rightarrow> chain_trace \<Rightarrow> bool" where
  "proof_rows K role i instr target tr u \<longleftrightarrow> (\<exists>e. (Get_Trade (Some (tw_trade_id tr)), Inr (Trade_Row (Some tr))) \<in> set u
     \<and> (Get_Effect i, Inr (Effect_Row (Some e))) \<in> set u
     \<and> (Verify_Trade_Chain (tw_trade_id tr), Inr (Flag True)) \<in> set u \<and> (Verify_Effect_Chain i, Inr (Flag True)) \<in> set u
     \<and> validate_trade K tr (tw_trade_id tr) = Inr () \<and> validate_cancel_effect K e tr i instr target role = Inr ())"

definition proof_origin :: "cancel_config \<Rightarrow> order_role \<Rightarrow> string \<Rightarrow> live_trade \<Rightarrow> chain_trace \<Rightarrow> bool" where
  "proof_origin K role target tr u \<longleftrightarrow> (\<exists>o1. (Get_Effect (origin_effect_key K tr role), Inr (Effect_Row (Some o1))) \<in> set u
     \<and> (Verify_Effect_Chain (origin_effect_key K tr role), Inr (Flag True)) \<in> set u
     \<and> validate_origin K o1 tr (origin_effect_key K tr role) role target = Inr ())"

definition proof_owner :: "cancel_config \<Rightarrow> chain_trace \<Rightarrow> bool" where
  "proof_owner K u \<longleftrightarrow> (\<exists>sha arm c now. (Owner_Lineage sha, Inr (Lineage arm c)) \<in> set u
     \<and> verify_owner_lineage K arm c sha now = Inr ())"

definition proof_venue :: "cancel_config \<Rightarrow> order_role \<Rightarrow> string \<Rightarrow> string \<Rightarrow> live_trade \<Rightarrow> venue_snapshot \<Rightarrow> instant \<Rightarrow> chain_trace \<Rightarrow> bool" where
  "proof_venue K role instr target tr s now u \<longleftrightarrow> (\<exists>source raw. (Check_Venue source raw (cn_context K)
       (px_remote_account_id (cn_context K)) instr, Inr (Venue_Facts s)) \<in> set u
     \<and> validate_snapshot s = Inr () \<and> validate_venue s tr instr target role source now = Inr ())"

definition cancel_proof :: "cancel_config \<Rightarrow> order_role \<Rightarrow> string \<Rightarrow> string \<Rightarrow> string \<Rightarrow> chain_trace \<Rightarrow> bool" where
  "cancel_proof K role i instr target v \<longleftrightarrow> (\<exists>tr s now u. v = u @ [(Read_Wall, Inr (Wall (utc now)))]
     \<and> proof_rows K role i instr target tr u \<and> proof_origin K role target tr u \<and> proof_owner K u
     \<and> proof_venue K role instr target tr s now u)"

text \<open>The last proof is of a plan with the digest of the claimed one: of the same instrument, unless SHA-256
  collides on two plans.\<close>

definition plan_collision :: "cancel_config \<Rightarrow> string \<Rightarrow> string \<Rightarrow> bool" where
  "plan_collision K instr instr' \<longleftrightarrow> instr \<noteq> instr' \<and> (\<exists>p p' s s'. cp_instrument p = instr \<and> cp_instrument p' = instr'
     \<and> digest_of (plan_record K p s) = digest_of (plan_record K p' s'))"

definition same_plan :: "cancel_config \<Rightarrow> string \<Rightarrow> string \<Rightarrow> bool" where
  "same_plan K instr instr' \<longleftrightarrow> instr = instr' \<or> plan_collision K instr instr'"

definition may_cancel :: "cancel_config \<Rightarrow> chain_trace \<Rightarrow> order_role \<Rightarrow> string \<Rightarrow> string \<Rightarrow> string \<Rightarrow> bool" where
  "may_cancel K h role i instr target \<longleftrightarrow> (\<exists>sha u v instr'. h = u @ granted ''WIRE_DISPATCH'' (cancel_namespace K) i sha # v
     \<and> all_asks silent v \<and> cancel_proof K role i instr' target v \<and> same_plan K instr instr')"

definition answered_cancel :: "chain_trace \<Rightarrow> string \<Rightarrow> obj \<Rightarrow> bool" where
  "answered_cancel h target m \<longleftrightarrow> acknowledged target (JObj m) = Inr m
     \<and> (\<exists>i instr r. r \<in> {Cancel_Entry i instr target, Cancel_Protection i instr target} \<and> (r, Inr (Answer (JObj m))) \<in> set h)"

fun cancel_rule :: "cancel_config \<Rightarrow> chain_trace \<Rightarrow> chain_request \<Rightarrow> bool" where
  "cancel_rule K h (Cancel_Entry i instr x) \<longleftrightarrow> may_cancel K h ENTRY i instr x"
| "cancel_rule K h (Cancel_Protection i instr x) \<longleftrightarrow> (\<exists>role. role \<noteq> ENTRY \<and> may_cancel K h role i instr x)"
| "cancel_rule K h (Confirm_Effect i x m) \<longleftrightarrow> answered_cancel h x m"
| "cancel_rule K h (Store (Finish_Wire ns i sha status (Some d))) \<longleftrightarrow>
     (\<exists>x m. answered_cancel h x m \<and> response_digest (JObj m) = Inr d)"
| "cancel_rule K h _ \<longleftrightarrow> False"

section \<open>Proving a cancellation\<close>

definition digested :: "cancel_config \<Rightarrow> cancel_plan \<Rightarrow> bool" where
  "digested K p \<longleftrightarrow> (\<exists>p0 s. cp_instrument p0 = cp_instrument p \<and> cp_request_sha256 p = digest_of (plan_record K p0 s))"

lemma digestedI: "cp_instrument p0 = i \<Longrightarrow> digested K \<lparr> cp_trade_id = x1, cp_decision_id = x2, cp_effect_id = x3, cp_role = x4,
    cp_instrument = i, cp_target_id = x6, cp_origin_effect_id = x7, cp_manual_request_sha256 = x8,
    cp_request_sha256 = digest_of (plan_record K p0 s) \<rparr>"
  unfolding digested_def by (rule exI [of _ p0], rule exI [of _ s]) simp

lemma digested_same: "digested K p \<Longrightarrow> digested K p' \<Longrightarrow> cp_request_sha256 p' = cp_request_sha256 p
    \<Longrightarrow> same_plan K (cp_instrument p) (cp_instrument p')"
  unfolding digested_def same_plan_def plan_collision_def by metis

lemma does_row_await:
  "G t (Get_Plan i) \<Longrightarrow> (\<And>x. P x (t @ [(Get_Plan i, Inr (Plan_Row x))])) \<Longrightarrow> does G (get_plan i) t P"
  "G t (Get_Effect i) \<Longrightarrow> (\<And>x. P' x (t @ [(Get_Effect i, Inr (Effect_Row x))])) \<Longrightarrow> does G (get_effect i) t P'"
  "G t (Get_Trade j) \<Longrightarrow> (\<And>x. P'' x (t @ [(Get_Trade j, Inr (Trade_Row x))])) \<Longrightarrow> does G (get_trade j) t P''"
  "G t q \<Longrightarrow> (\<And>b. R b (t @ [(q, Inr (Flag b))])) \<Longrightarrow> does G (flag_of q) t R"
  "G t (Owner_Lineage sha) \<Longrightarrow> (\<And>a c. R' (a, c) (t @ [(Owner_Lineage sha, Inr (Lineage a c))])) \<Longrightarrow> does G (owner_lineage sha) t R'"
  "G t (Entry_Reservation i sha x d) \<Longrightarrow> (\<And>r. S r (t @ [(Entry_Reservation i sha x d, Inr (Reservation r))]))
    \<Longrightarrow> does G (entry_reservation_row i sha x d) t S"
  "G t q \<Longrightarrow> (\<And>s. S' s (t @ [(q, Inr (Venue_Facts s))])) \<Longrightarrow> does G (venue_facts q) t S'"
  "G t q \<Longrightarrow> S'' () (t @ [(q, Inr Acted)]) \<Longrightarrow> does G (act q) t S''"
  by (auto simp: get_plan_def get_effect_def get_trade_def flag_of_def owner_lineage_def entry_reservation_row_def venue_facts_def
      act_def intro!: does_await split: chain_response.splits)

lemma does_present: "(\<And>v. x = Some v \<Longrightarrow> P v t) \<Longrightarrow> does G (present x e) t P"
  unfolding present_def by (cases x) (auto intro: does_Fail does_Ret)

lemmas cancel_steps = chain_steps does_row_await does_present

lemma does_cancel_now:
  assumes "\<And>now. P now (t @ [(Read_Wall, Inr (Wall (utc now)))])"
  shows "does (chain_guard H Q C) cancel_now t P"
proof -
  have "x = utc (dt_wall_us x)" if "dt_offset_us x = Some 0" for x using that by (cases x) (simp add: utc_def)
  then show ?thesis
    unfolding cancel_now_def by (intro cancel_steps) (auto simp: ensure_ok_iff, metis assms)
qed

lemma does_chained_effect:
  assumes "\<And>o1 u. all_asks silent u \<Longrightarrow> (Get_Effect key, Inr (Effect_Row (Some o1))) \<in> set u
     \<Longrightarrow> (Verify_Effect_Chain key, Inr (Flag True)) \<in> set u \<Longrightarrow> P o1 (t @ u)"
  shows "does (chain_guard H Q C) (chained_effect key e) t P"
  unfolding chained_effect_def by (intro cancel_steps) (auto simp: ensure_ok_iff intro!: assms)

lemma does_completed_origin_claims:
  assumes "\<And>x u. all_asks silent u \<Longrightarrow> P x (t @ u)"
  shows "does (chain_guard H Q C) (completed_origin_claims K plan) t P"
  unfolding completed_origin_claims_def Let_def
  by (cases plan) (auto intro!: cancel_steps assms split: option.splits)

lemma does_signed_origin:
  assumes "\<And>x u. all_asks silent u \<Longrightarrow> P x (t @ u)"
  shows "does (chain_guard H Q C) (signed_origin K tr o1 key role) t P"
  unfolding signed_origin_def
  by (intro cancel_steps does_completed_origin_claims) (auto intro!: assms)

lemma does_entry_lineage:
  assumes "\<And>x u. all_asks silent u \<Longrightarrow> P x (t @ u)"
  shows "does (chain_guard H Q C) (entry_lineage K tr role own) t P"
  unfolding entry_lineage_def Let_def using assms [of "[]" own]
  by (cases "role = ENTRY") (auto intro!: cancel_steps does_chained_effect does_signed_origin assms)

lemma does_prove_reservation:
  assumes "\<And>u. all_asks silent u \<Longrightarrow> proof_owner K u \<Longrightarrow> P () (t @ u)"
  shows "does (chain_guard H Q C) (prove_reservation K tr sha entry now) t P"
  unfolding prove_reservation_def
  by (intro cancel_steps) (auto simp: proof_owner_def intro!: assms)

lemma does_read_venue:
  assumes "\<And>source s u. all_asks silent u \<Longrightarrow> validate_snapshot s = Inr () \<Longrightarrow>
      (\<exists>raw. (Check_Venue source raw (cn_context K) (px_remote_account_id (cn_context K)) instr, Inr (Venue_Facts s)) \<in> set u)
      \<Longrightarrow> P (source, s) (t @ u)"
  shows "does (chain_guard H Q C) (read_venue K instr now) t P"
proof (cases "cn_sources K")
  case (Cons source rest)
  then show ?thesis
    unfolding read_venue_def
    by (cases rest) (auto intro!: cancel_steps does_under_deadline does_cancel_now assms intro: does_Fail)
qed (simp add: read_venue_def does_Fail)

lemma cancel_proofI:
  assumes "validate_trade K tr (ca_trade_id a) = Inr ()"
    "validate_cancel_effect K e tr (ca_effect_id a) (lt_venue_symbol tr) (ca_target_id a) (ca_role a) = Inr ()"
    "(Get_Effect (origin_effect_key K tr (ca_role a)), Inr (Effect_Row (Some o1))) \<in> set u"
    "(Verify_Effect_Chain (origin_effect_key K tr (ca_role a)), Inr (Flag True)) \<in> set u"
    "validate_origin K o1 tr (origin_effect_key K tr (ca_role a)) (ca_role a) (ca_target_id a) = Inr ()"
    "proof_owner K uc" "validate_snapshot s = Inr ()"
    "(Check_Venue source raw (cn_context K) (px_remote_account_id (cn_context K)) (lt_venue_symbol tr), Inr (Venue_Facts s)) \<in> set ud"
    "validate_venue s tr (lt_venue_symbol tr) (ca_target_id a) (ca_role a) source now = Inr ()"
  shows "cancel_proof K (ca_role a) (ef_key e) (lt_venue_symbol tr) (ca_target_id a)
      ((Read_Wall, Inr (Wall (utc now0))) # (Get_Trade (Some (ca_trade_id a)), Inr (Trade_Row (Some tr)))
       # (Get_Effect (ca_effect_id a), Inr (Effect_Row (Some e))) # (Verify_Trade_Chain (ca_trade_id a), Inr (Flag True))
       # (Verify_Effect_Chain (ca_effect_id a), Inr (Flag True)) # u @ ua @ ub @ uc @ ud @ [(Read_Wall, Inr (Wall (utc now)))])"
    "ef_key e = ca_effect_id a"
proof -
  show key: "ef_key e = ca_effect_id a" using assms(2) by (simp add: validate_cancel_effect_def ensure_ok_iff)
  have tid: "tw_trade_id tr = ca_trade_id a" using assms(1) by (simp add: validate_trade_def ensure_ok_iff)
  let ?w = "(Read_Wall, Inr (Wall (utc now0))) # (Get_Trade (Some (ca_trade_id a)), Inr (Trade_Row (Some tr)))
       # (Get_Effect (ca_effect_id a), Inr (Effect_Row (Some e))) # (Verify_Trade_Chain (ca_trade_id a), Inr (Flag True))
       # (Verify_Effect_Chain (ca_effect_id a), Inr (Flag True)) # u @ ua @ ub @ uc @ ud"
  have "proof_rows K (ca_role a) (ef_key e) (lt_venue_symbol tr) (ca_target_id a) tr ?w"
    unfolding proof_rows_def key tid using assms(1,2) by (intro exI [of _ e]) simp
  moreover have "proof_origin K (ca_role a) (ca_target_id a) tr ?w"
    unfolding proof_origin_def using assms(3-5) by (intro exI [of _ o1]) simp
  moreover have "proof_owner K ?w" using assms(6) unfolding proof_owner_def by fastforce
  moreover have "proof_venue K (ca_role a) (lt_venue_symbol tr) (ca_target_id a) tr s now ?w"
    unfolding proof_venue_def using assms(7-9) by (intro exI [of _ source] exI [of _ raw]) simp
  ultimately show "cancel_proof K (ca_role a) (ef_key e) (lt_venue_symbol tr) (ca_target_id a)
      ((Read_Wall, Inr (Wall (utc now0))) # (Get_Trade (Some (ca_trade_id a)), Inr (Trade_Row (Some tr)))
       # (Get_Effect (ca_effect_id a), Inr (Effect_Row (Some e))) # (Verify_Trade_Chain (ca_trade_id a), Inr (Flag True))
       # (Verify_Effect_Chain (ca_effect_id a), Inr (Flag True)) # u @ ua @ ub @ uc @ ud @ [(Read_Wall, Inr (Wall (utc now)))])"
    unfolding cancel_proof_def by (intro exI [of _ tr] exI [of _ s] exI [of _ now] exI [of _ ?w]) simp
qed

lemma does_prove_cancel:
  assumes "\<And>p e u. all_asks silent u \<Longrightarrow> cancel_proof K (ca_role a) (cp_effect_id p) (cp_instrument p) (ca_target_id a) u
     \<Longrightarrow> cp_target_id p = ca_target_id a \<Longrightarrow> cp_role p = ca_role a \<Longrightarrow> cp_effect_id p = ca_effect_id a
     \<Longrightarrow> digested K p \<Longrightarrow> P (p, e) (t @ u)"
  shows "does (chain_guard H Q C) (prove_cancel K a) t P"
  unfolding prove_cancel_def Let_def
  by (intro cancel_steps does_cancel_now does_chained_effect does_signed_origin does_entry_lineage does_prove_reservation
      does_read_venue) (auto simp: ensure_ok_iff intro!: assms cancel_proofI digestedI)

section \<open>The calls\<close>

lemma cancel_not_wire: "cancel_namespace K \<noteq> wire_namespace H"
  by (simp add: cancel_namespace_def wire_namespace_def)

lemma does_cancel_unresolved:
  "does (chain_guard H Q C) (cancel_finish K p ''UNRESOLVED'' None) t (\<lambda>_ _. True)"
  unfolding cancel_finish_def by (intro cancel_steps does_under_deadline) auto

lemma does_or_cancel_unresolved:
  "does (chain_guard H Q C) body t P \<Longrightarrow> does (chain_guard H Q C) (or_cancel_unresolved K p e' body) t P"
  unfolding or_cancel_unresolved_def
  by (intro does_catchp does_bindp does_conseq [OF does_cancel_unresolved]) (auto intro: does_Fail)

lemma does_cancel_completed:
  assumes "answered_cancel t x m" "response_digest (JObj m) = Inr d" "\<And>u. P () (t @ u)"
  shows "does (chain_guard H Q (cancel_rule K)) (cancel_finish K p ''COMPLETED'' (Some d)) t P"
  unfolding cancel_finish_def
  by (intro cancel_steps does_under_deadline) (use assms cancel_not_wire in auto)

lemma answered_mono: "answered_cancel h x m \<Longrightarrow> answered_cancel (h @ u) x m"
  unfolding answered_cancel_def by auto

lemma acknowledgedD: "acknowledged x r = Inr m \<Longrightarrow> r = JObj m"
  by (cases r) (auto simp: acknowledged_def split: if_splits)

lemma cancel_requested:
  assumes "may_cancel K h (cp_role p) (cp_effect_id p) (cp_instrument p) (cp_target_id p)"
  shows "chain_guard H Q (cancel_rule K) h (cancel_request p)"
  using assms by (cases "cp_role p = ENTRY") (auto simp: cancel_request_def)

lemma answered_request:
  assumes "acknowledged (cp_target_id p) r = Inr m" "(cancel_request p, Inr (Answer r)) \<in> set h"
  shows "answered_cancel h (cp_target_id p) m"
proof -
  have "r = JObj m" using assms(1) by (rule acknowledgedD)
  then show ?thesis
    using assms unfolding answered_cancel_def cancel_request_def by (auto split: if_splits)
qed

lemma keeps_cancel_claimed:
  assumes "t = u @ [granted ''WIRE_DISPATCH'' (cancel_namespace K) (cp_effect_id p) sha]" "digested K p"
    "cp_target_id p = ca_target_id a" "cp_role p = ca_role a"
  shows "does (chain_guard H Q (cancel_rule K)) (cancel_claimed K a p) t (\<lambda>_ _. True)"
proof -
  have may: "may_cancel K (t @ v) (cp_role p) (cp_effect_id p) (cp_instrument p) (cp_target_id p)"
    if "all_asks silent v" "cancel_proof K (ca_role a) (cp_effect_id p) (cp_instrument p') (ca_target_id a) v" "digested K p'"
      "cp_request_sha256 p' = cp_request_sha256 p" for p' v
    unfolding may_cancel_def using assms that digested_same [OF assms(2) that(3,4)]
    by (intro exI [of _ sha] exI [of _ u] exI [of _ v] exI [of _ "cp_instrument p'"]) auto
  have does_completed: "does (chain_guard H Q (cancel_rule K)) (cancel_finish K p ''COMPLETED'' (Some d)) h P"
    if "acknowledged (cp_target_id p) r = Inr m" "(cancel_request p, Inr (Answer r)) \<in> set h" "response_digest r = Inr d"
      "\<And>u. P () (h @ u)" for h r m d P
    using that acknowledgedD [OF that(1)] answered_request [OF that(1,2)] by (intro does_cancel_completed) auto
  show ?thesis
    unfolding cancel_claimed_def
    by (intro cancel_steps does_or_cancel_unresolved does_prove_cancel does_under_deadline does_completed)
      (auto simp: ensure_ok_iff assms(4) intro!: cancel_requested may [unfolded assms(4)] intro: answered_request)
qed

lemma keeps_cancel_effect:
  "does (chain_guard H Q (cancel_rule K)) (cancel_effect K i trade instr target role) t (\<lambda>_ _. True)"
  unfolding cancel_effect_def Let_def
  by (intro cancel_steps does_prove_cancel)
    (auto simp: ensure_ok_iff granted_def intro!: keeps_cancel_claimed)

section \<open>What remains after a cancellation\<close>

lemma live_stop_covers:
  assumes "live_protection s tr instr ''STOP_LOSS'' i" "vs_protections s' = filter R (vs_protections s)"
    "vs_position_quantity s' = vs_position_quantity s" "\<And>f. f \<in> set (vs_protections s) \<Longrightarrow> vp_protection_type f = ''STOP_LOSS'' \<Longrightarrow> R f"
  shows "exposure_covered (tw_entry_client_order_id tr) instr s'"
proof -
  obtain f where "f \<in> set (vs_protections s)" "vp_protection_type f = ''STOP_LOSS''"
      "covering_stop (tw_entry_client_order_id tr) instr s' f"
    using assms(1,3) by (auto simp: live_protection_def list_ex_iff covering_stop_def)
  then show ?thesis using assms(2,4) unfolding exposure_covered_def by auto
qed

lemma competing_exit_covers:
  assumes "competing_exit s tr instr" "vs_orders s' = vs_orders s" "vs_position_side s' = vs_position_side s"
    "vs_position_quantity s' = vs_position_quantity s"
  shows "exposure_covered (tw_entry_client_order_id tr) instr s'"
proof -
  obtain f where "f \<in> set (vs_orders s)" "covering_exit (tw_entry_client_order_id tr) instr s' f"
    using assms(1,3,4) by (auto simp: competing_exit_def Let_def list_ex_iff covering_exit_def split: if_splits)
  then show ?thesis using assms(2) unfolding exposure_covered_def by auto
qed

lemma found_protection:
  assumes "find (\<lambda>f. vp_protection_id f = target) fs = Some f" "distinct (map vp_protection_id fs)" "g \<in> set fs"
    "vp_protection_id g = target"
  shows "g = f"
  using assms by (induction fs) (auto split: if_splits dest: image_eqI [of _ vp_protection_id])

lemma venue_covered:
  assumes "validate_snapshot s = Inr ()" "validate_venue s tr instr target role source now = Inr ()"
  shows "exposure_covered (tw_entry_client_order_id tr) instr (without_target (role = ENTRY) target s)"
proof -
  have snap: "0 \<le> vs_position_quantity s" "distinct (map vp_protection_id (vs_protections s))"
    using assms(1) by (auto simp: validate_snapshot_def valid_when_def rbind_eq_Inr split: if_splits)
  consider (flat) "vs_position_quantity s = 0" | (entry) "role = ENTRY" "live_protection s tr instr ''STOP_LOSS'' (tw_stop_exchange_order_id tr)"
    | (stop) "role \<noteq> ENTRY" "competing_exit s tr instr"
    | (target) f where "role \<noteq> ENTRY" "role \<noteq> STOP_LOSS" "live_protection s tr instr ''STOP_LOSS'' (tw_stop_exchange_order_id tr)"
        "find (\<lambda>f. vp_protection_id f = target) (vs_protections s) = Some f" "vp_protection_type f = role_text role"
    using assms(2) snap(1) unfolding validate_venue_def
    by (auto simp: rbind_eq_Inr ensure_ok_iff split: if_splits option.splits)
  then show ?thesis
  proof cases
    case flat
    then show ?thesis by (simp add: exposure_covered_def without_target_def)
  next
    case entry
    show ?thesis by (rule live_stop_covers [OF entry(2), where R = "\<lambda>_. True"]) (simp_all add: without_target_def entry(1))
  next
    case stop
    show ?thesis by (rule competing_exit_covers [OF stop(2)]) (simp_all add: without_target_def stop(1))
  next
    case target
    have "vp_protection_id g \<noteq> target" if "g \<in> set (vs_protections s)" "vp_protection_type g = ''STOP_LOSS''" for g
      using found_protection [OF target(4) snap(2) that(1)] that(2) target(2,5)
      by (cases role) (auto simp: role_text_def)
    then show ?thesis
      by (intro live_stop_covers [OF target(3), where R = "\<lambda>f. vp_protection_id f \<noteq> target"]) (simp_all add: without_target_def target(1))
  qed
qed

end
