(* ===== verification/Prod_Orders.thy ===== *)
theory Prod_Orders
  imports Prod_Adapter Prod_Cancel_Rules Prod_Wire
begin

text \<open>
  The life cycle's calls over the production chain: what the history proves of the decision behind each
  signing request, and that every call signs and sends only such requests.
\<close>

section \<open>The decision behind a request\<close>

text \<open>The rows an effect was prepared with, as the history read them.\<close>

definition decided :: "live_config \<Rightarrow> chain_trace \<Rightarrow> string \<Rightarrow> live_effect \<Rightarrow> live_trade \<Rightarrow> risk_decision \<Rightarrow> bool" where
  "decided V h i e tr d0 \<longleftrightarrow> (Get_Effect i, Inr (Effect_Row (Some e))) \<in> set h \<and> ef_status e = EFF_PREPARED
     \<and> (Get_Trade (ef_trade_id e), Inr (Trade_Row (Some tr))) \<in> set h \<and> lineage_ok V (ef_symbol e) e tr
     \<and> (Verify_Effect_Chain i, Inr (Flag True)) \<in> set h
     \<and> (Verify_Trade_Chain (tw_trade_id tr), Inr (Flag True)) \<in> set h
     \<and> lv_decision (lc_codec V) (tw_payload tr) = Inr d0
     \<and> rd_trade_id d0 = Some (tw_trade_id tr) \<and> rd_decision_id d0 = Some (tw_decision_id tr)"

text \<open>The role of the effect, and what the call may add to the decision.\<close>

definition call_agrees :: "live_effect \<Rightarrow> live_trade \<Rightarrow> risk_decision \<Rightarrow> order_role \<Rightarrow> string option \<Rightarrow> f64 option \<Rightarrow> bool" where
  "call_agrees e tr d0 role parent close_quantity \<longleftrightarrow> ef_order_role e = Some (role_text role)
     \<and> (role \<in> {STOP_LOSS, TAKE_PROFIT} \<longrightarrow> parent = Some (tw_entry_client_order_id tr))
     \<and> (role \<in> {TIMEOUT_EXIT, EMERGENCY_EXIT} \<longrightarrow>
          (\<exists>x. close_quantity = Some x \<and> flt fzero x \<and> fle x (rd_quantity d0)))"

text \<open>The entry is rebuilt from the decision validated twice, the other effects from the decision validated once.\<close>

definition revalidated :: "live_config \<Rightarrow> risk_decision \<Rightarrow> risk_decision \<Rightarrow> bool" where
  "revalidated V d0 d \<longleftrightarrow> lv_revalidate (lc_codec V) d0 = Inr d
     \<or> (\<exists>d1. lv_revalidate (lc_codec V) d0 = Inr d1 \<and> lv_revalidate (lc_codec V) d1 = Inr d)"

definition live_decision :: "live_config \<Rightarrow> risk_decision \<Rightarrow> bool" where
  "live_decision V d \<longleftrightarrow> (let H = lc_chain V in rd_approved d \<and> rd_trading_mode d = ''LIVE'' \<and> rd_profile d = ''PROD''
     \<and> rd_account_id d = px_remote_account_id (ch_context H) \<and> ti_strategy_id (rd_intent d) = px_adaptive_system_id (ch_context H)
     \<and> rd_venue_symbol d \<in> set (cb_approved_instruments (ch_binding H)) \<and> feq (rd_leverage d) fone
     \<and> ti_side (rd_intent d) \<in> {LONG_SIDE, SHORT_SIDE})"

definition request_of :: "live_config \<Rightarrow> risk_decision \<Rightarrow> order_role \<Rightarrow> string option \<Rightarrow> f64 option \<Rightarrow> signing_request \<Rightarrow> bool" where
  "request_of V d role parent close_quantity q \<longleftrightarrow> (\<exists>cid quantity m chain_id.
     exact_evedex_integer (rd_quantity d) ''decision quantity'' = Inr quantity
   \<and> lifecycle_message d role cid parent close_quantity quantity chain_id = Inr m
   \<and> sq_message_json q = compact_text (JObj m) \<and> sq_operation q = role_operation role)"

definition planned :: "live_config \<Rightarrow> chain_trace \<Rightarrow> signing_request \<Rightarrow> bool" where
  "planned V h q \<longleftrightarrow> (\<exists>i e tr d0 d role parent close_quantity p. decided V h i e tr d0
     \<and> call_agrees e tr d0 role parent close_quantity \<and> revalidated V d0 d \<and> live_decision V d
     \<and> request_of V d role parent close_quantity q
     \<and> (Get_Plan i, Inr (Plan_Row (Some p))) \<in> set h \<and> q = lp_request p)"

lemma decided_mono: "decided V h i e tr d0 \<Longrightarrow> decided V (h @ u) i e tr d0"
  by (simp add: decided_def)

interpretation live: request_history "planned V" for V
proof
  show "planned V h q \<Longrightarrow> planned V (h @ u) q" for h q u
    unfolding planned_def using decided_mono by (simp add: Un_iff) blast
qed

section \<open>A rebuilt plan\<close>

lemma build_planD:
  assumes "build_plan L d0 cx b r t = Inr p"
  obtains d quantity cid m where "validate_inputs L d0 cx b = Inr d" "ti_side (rd_intent d) \<in> {LONG_SIDE, SHORT_SIDE}"
    "exact_evedex_integer (rd_quantity d) ''decision quantity'' = Inr quantity"
    "lifecycle_message d (pq_role r) cid (pq_parent r) (pq_close_quantity r) quantity (cb_chain_id b) = Inr m"
    "sq_message_json (lp_request p) = compact_text (JObj m)" "sq_operation (lp_request p) = role_operation (pq_role r)"
  using assms unfolding build_plan_def Let_def rbind_eq_Inr sum.inject
  by (elim exE conjE, hypsubst, intro that) (assumption, simp_all add: ensure_ok_iff)

lemma validate_inputsD:
  "validate_inputs (lc_codec V) d0 (ch_context (lc_chain V)) (ch_binding (lc_chain V)) = Inr d \<Longrightarrow>
     ti_side (rd_intent d) \<in> {LONG_SIDE, SHORT_SIDE} \<Longrightarrow> lv_revalidate (lc_codec V) d0 = Inr d \<and> live_decision V d"
  unfolding validate_inputs_def rbind_eq_Inr sum.inject
  by (elim exE conjE, hypsubst)
    (simp only: ensure_ok_iff list.set ball_simps fst_conv de_Morgan_disj not_not live_decision_def Let_def)

lemma does_stored_plan:
  assumes "\<And>p d u. (Get_Plan i, Inr (Plan_Row (Some p))) \<in> set u \<Longrightarrow> lv_revalidate (lc_codec V) d0 = Inr d \<Longrightarrow>
      live_decision V d \<Longrightarrow> request_of V d role parent cq (lp_request p) \<Longrightarrow> P p (t @ u)"
    "\<And>h. G h (Get_Plan i)" "\<And>h. G h Read_Wall"
  shows "does G (stored_plan V d0 i role cid parent cq) t P"
proof -
  have built: "P p (t @ [(Get_Plan i, Inr (Plan_Row (Some p))), (Read_Wall, x)])"
    if "build_plan (lc_codec V) d0 (ch_context (lc_chain V)) (ch_binding (lc_chain V)) (plan_query_of role i cid parent cq p) n = Inr p"
    for p n x
    using that
  proof (rule build_planD)
    fix d quantity cid' m
    assume *: "validate_inputs (lc_codec V) d0 (ch_context (lc_chain V)) (ch_binding (lc_chain V)) = Inr d"
      "ti_side (rd_intent d) \<in> {LONG_SIDE, SHORT_SIDE}"
      "exact_evedex_integer (rd_quantity d) ''decision quantity'' = Inr quantity"
      "lifecycle_message d (pq_role (plan_query_of role i cid parent cq p)) cid'
         (pq_parent (plan_query_of role i cid parent cq p)) (pq_close_quantity (plan_query_of role i cid parent cq p)) quantity
         (cb_chain_id (ch_binding (lc_chain V))) = Inr m"
      "sq_message_json (lp_request p) = compact_text (JObj m)"
      "sq_operation (lp_request p) = role_operation (pq_role (plan_query_of role i cid parent cq p))"
    have "request_of V d role parent cq (lp_request p)"
      unfolding request_of_def using *(3-6) by (auto simp: plan_query_of_def)
    then show ?thesis using validate_inputsD [OF *(1,2)] by (intro assms(1)) auto
  qed
  show ?thesis
    unfolding stored_plan_def Let_def get_plan_def
    by (intro does_rules does_chain_await does_await assms(2,3))
      (auto simp: ensure_ok_iff intro: built split: chain_response.splits)
qed

section \<open>The calls\<close>

abbreviation live_guard :: "live_config \<Rightarrow> chain_trace \<Rightarrow> chain_request \<Rightarrow> bool" where
  "live_guard V \<equiv> chain_guard (lc_chain V) (planned V) (cancel_rule (lc_cancel V))"

lemma does_prepared_effect:
  assumes "\<And>e tr d u. decided V (t @ u) i e tr d \<Longrightarrow> ef_type e \<in> types \<Longrightarrow> P (e, tr, d) (t @ u)"
  shows "does (live_guard V) (prepared_effect V i types symb) t P"
  unfolding prepared_effect_def Let_def
  by (intro does_rules does_row_await)
    (auto simp: decided_def lineage_ok_def ensure_ok_iff intro!: assms split: chain_response.splits)

lemma does_send_plan:
  assumes "planned V t (lp_request p)"
  shows "does (live_guard V) (send_plan V p) t (\<lambda>_ _. True)"
  unfolding send_plan_def
  by (intro does_rules does_conseq [OF live.keeps_dispatch_one_response] assms) auto

lemma plannedI:
  assumes "decided V h i e tr d0" "call_agrees e tr d0 role parent cq" "revalidated V d0 d" "live_decision V d"
    "request_of V d role parent cq (lp_request p)" "(Get_Plan i, Inr (Plan_Row (Some p))) \<in> set u"
  shows "planned V (h @ u) (lp_request p)"
proof -
  have "decided V (h @ u) i e tr d0" using assms(1) by (rule decided_mono)
  moreover have "(Get_Plan i, Inr (Plan_Row (Some p))) \<in> set (h @ u)" using assms(6) by simp
  ultimately show ?thesis unfolding planned_def using assms(2-5) by blast
qed

lemma keeps_stored_send:
  assumes "decided V h i e tr d0" "call_agrees e tr d0 role parent cq"
  shows "does (live_guard V) (stored_plan V d0 i role cid parent cq) h (\<lambda>p h'. does (live_guard V) (send_plan V p) h' (\<lambda>_ _. True))"
  by (intro does_stored_plan does_send_plan)
    (auto intro!: plannedI [OF assms] simp: revalidated_def)

lemma keeps_entry_send:
  assumes "decided V h i e tr d0" "call_agrees e tr d0 ENTRY None None"
  shows "does (live_guard V) (inspect_entry V d0 i) h (\<lambda>p h'. does (live_guard V) (send_plan V p) h' (\<lambda>_ _. True))"
  unfolding inspect_entry_def
proof (intro does_rules does_stored_plan does_inspect_request does_send_plan, simp_all only: append_assoc)
  fix d1 p d and u v :: chain_trace
  assume *: "lv_revalidate (lc_codec V) d0 = Inr d1" "(Get_Plan i, Inr (Plan_Row (Some p))) \<in> set u"
    "lv_revalidate (lc_codec V) d1 = Inr d" "live_decision V d" "request_of V d ENTRY None None (lp_request p)"
  show "planned V (h @ u @ v) (lp_request p)"
    by (rule plannedI [OF assms]) (use * in \<open>auto simp: revalidated_def\<close>)
qed simp_all

lemma prepared_role:
  "ef_order_role e = Some (role_text role) \<Longrightarrow> role \<in> {STOP_LOSS, TAKE_PROFIT} \<Longrightarrow> parent = tw_entry_client_order_id tr
     \<Longrightarrow> call_agrees e tr d0 role (Some parent) None"
  "ef_order_role e = Some (role_text role) \<Longrightarrow> role \<in> {TIMEOUT_EXIT, EMERGENCY_EXIT} \<Longrightarrow> flt fzero x \<Longrightarrow> fle x (rd_quantity d0)
     \<Longrightarrow> call_agrees e tr d0 role None (Some x)"
  "ef_order_role e = Some ''ENTRY'' \<Longrightarrow> call_agrees e tr d0 ENTRY None None"
  by (auto simp: call_agrees_def role_text_def)

lemma keeps_place_limit: "does (live_guard V) (place_limit V i cid symb side q price lev post) t (\<lambda>_ _. True)"
  unfolding place_limit_def Let_def
  by (intro does_rules does_prepared_effect)
    (auto simp: ensure_ok_iff intro!: keeps_entry_send prepared_role(3))

lemma keeps_create_tpsl: "does (live_guard V) (create_tpsl V i symb side kind q price parent) t (\<lambda>_ _. True)"
  unfolding create_tpsl_def Let_def
  by (intro does_rules does_prepared_effect)
    (auto simp: ensure_ok_iff intro!: keeps_stored_send prepared_role(1))

lemma keeps_close_position: "does (live_guard V) (close_position_live V i cid symb q lev) t (\<lambda>_ _. True)"
  unfolding close_position_live_def Let_def
  by (intro does_rules does_prepared_effect)
    (auto simp: ensure_ok_iff role_text_def intro!: keeps_stored_send prepared_role(2))

lemma keeps_cancel_order: "does (live_guard V) (cancel_order_live V i symb cid) t (\<lambda>_ _. True)"
  unfolding cancel_order_live_def cancel_entry_def
  by (intro does_rules does_prepared_effect) (auto intro: keeps_cancel_effect)

lemma keeps_cancel_tpsl: "does (live_guard V) (cancel_tpsl_live V i symb x) t (\<lambda>_ _. True)"
  unfolding cancel_tpsl_live_def cancel_tpsl_def
  by (intro does_rules does_prepared_effect) (auto intro: keeps_cancel_effect)

definition live_session :: "live_config \<Rightarrow> live_call list \<Rightarrow> json res list chain" where
  "live_session V calls = mapp (\<lambda>c. attempt (live_mutation V c)) calls"

definition live_history ::
  "(chain_trace \<Rightarrow> chain_request \<Rightarrow> chain_response res) \<Rightarrow> live_config \<Rightarrow> live_call list \<Rightarrow> chain_trace" where
  "live_history env V calls = fst (snd (run env (live_session V calls) () []))"

lemma keeps_live_mutation: "does (live_guard V) (live_mutation V c) t (\<lambda>_ _. True)"
  by (cases c) (simp_all add: keeps_place_limit keeps_create_tpsl keeps_close_position keeps_cancel_order keeps_cancel_tpsl)

lemma live_guarded: "guarded (live_guard V) (live_history env V calls)"
  unfolding live_history_def live_session_def
  by (rule keeps_run) (auto intro!: keepsI keeps_mapp does_attempt_chain keeps_live_mutation)

end
