(* ===== verification/Prod_Order_Theorems.thy ===== *)
theory Prod_Order_Theorems
  imports Prod_Orders Prod_Theorems
begin

text \<open>
  What the venue is sent by the calls of the protected life cycle, against the approved decision.
\<close>

section \<open>Exact amounts\<close>

lemma exact_evedex_integer_value:
  assumes "exact_evedex_integer x name = Inr n" "wf64 x"
  shows "float_decimal x = Inr (of_int n / 10 ^ 8)" "0 < n"
proof -
  obtain d where d: "float_decimal x = Inr d" "0 < d" "dmul 28 d (10 ^ 8) = of_int n"
    using assms(1) by (auto simp: exact_evedex_integer_def Let_def split: sum.splits if_splits)
  obtain v where v: "x = Fin v" "rep64 v" using d(1) assms(2) by (cases x) (auto simp: float_decimal_def)
  then have "frepr v = Some d" using d(1) frepr_total [OF v(2)] by (auto simp: float_decimal_def)
  then obtain m k where m: "d = of_int m * pw 10 k" "\<bar>m\<bar> \<le> 10 ^ 17" "- 1100 \<le> k"
    using frepr_digits v(2) by metis
  have eight: "pw 10 8 = (10::rat) ^ 8" by (simp add: pw_def)
  have "d * 10 ^ 8 = of_int m * pw 10 (k + 8)" unfolding m(1) eight [symmetric] by (simp add: pw_add)
  moreover have "dround 28 (of_int m * pw 10 (k + 8)) = of_int m * pw 10 (k + 8)" using m by (intro dround_short) auto
  ultimately have "d * 10 ^ 8 = of_int n" using d(3) by (simp only: dmul_def)
  then have *: "d = of_int n / 10 ^ 8" by simp
  then show "float_decimal x = Inr (of_int n / 10 ^ 8)" "0 < n" using d(1,2) by simp_all
qed

section \<open>The message of a plan\<close>

lemma reject_duplicate_keys_distinct: "distinct (map fst kvs) \<Longrightarrow> reject_duplicate_keys kvs = Some (JObj kvs)"
  by (simp add: reject_duplicate_keys_def)

lemma lifecycle_message_plain: "lifecycle_message d role cid parent cq quantity chain_id = Inr m \<Longrightarrow> plain_message m"
  by (auto simp: lifecycle_message_def rbind_eq_Inr plain_message_def plain_value_def split: if_splits option.splits)

lemma typed_lifecycle:
  assumes "plain_message m" "sq_message_json q = compact_text (JObj m)" "typed_message q b = Inr (schema, m')"
  shows "map_of m' name = map_of m name"
proof -
  have "json_loads reject_duplicate_keys (compact_text (JObj m)) = Some (JObj (sort_key fst m))"
    unfolding compact_text_def sorted_plain(1) [OF assms(1)]
    by (rule loads_written [OF reject_duplicate_keys_distinct sorted_plain(2) [OF assms(1)]])
  then have "m' = sort_key fst m" using typed_messageD(1) [OF assms(3)] assms(2) by simp
  then show ?thesis using assms(1) by (simp add: plain_message_def map_of_sorted)
qed

section \<open>The body of an order\<close>

text \<open>A text that reads exactly as the decimal of a float of the decision.\<close>

definition reads_float :: "obj \<Rightarrow> string \<Rightarrow> f64 \<Rightarrow> bool" where
  "reads_float body name x \<longleftrightarrow> (\<exists>t. map_of body name = Some (JStr t)
     \<and> (wf64 x \<longrightarrow> float_decimal x = Inr (read_decimal t) \<and> 0 < read_decimal t))"

definition reads_text :: "obj \<Rightarrow> string \<Rightarrow> string \<Rightarrow> bool" where
  "reads_text body name s \<longleftrightarrow> map_of body name = Some (JStr s)"

definition order_says :: "risk_decision \<Rightarrow> order_role \<Rightarrow> string option \<Rightarrow> f64 option \<Rightarrow> obj \<Rightarrow> bool" where
  "order_says d role parent close_quantity body \<longleftrightarrow> reads_text body ''instrument'' (rd_venue_symbol d)
     \<and> (case role of
          ENTRY \<Rightarrow> reads_text body ''side'' (position_side d) \<and> reads_float body ''quantity'' (rd_quantity d)
            \<and> reads_float body ''limitPrice'' (rd_worst_entry_price d) \<and> map_of body ''leverage'' = Some (JInt 1)
        | STOP_LOSS \<Rightarrow> reads_text body ''type'' ''stop-loss'' \<and> reads_text body ''side'' (position_side d)
            \<and> reads_float body ''price'' (rd_stop_price d) \<and> reads_text body ''order'' (the parent)
        | TAKE_PROFIT \<Rightarrow> reads_text body ''type'' ''take-profit'' \<and> reads_text body ''side'' (position_side d)
            \<and> reads_float body ''price'' (rd_target_price d) \<and> reads_text body ''order'' (the parent)
        | _ \<Rightarrow> reads_float body ''quantity'' (case close_quantity of None \<Rightarrow> rd_quantity d | Some x \<Rightarrow> x))"

lemma reads_number:
  assumes "says_exactly m' body s" "map_of m' name = Some (JInt n)" "name \<in> set wire_numbers"
    "exact_evedex_integer x what = Inr n"
  shows "reads_float body name x"
proof -
  obtain t where t: "map_of body name = Some (JStr t)" "read_decimal t = of_int n / 10 ^ 8"
    using assms(1-3) unfolding says_exactly_def by fastforce
  then show ?thesis using exact_evedex_integer_value [OF assms(4)] by (auto simp: reads_float_def)
qed

lemma reads_field:
  "says_exactly m' body s \<Longrightarrow> map_of m' name = Some x \<Longrightarrow> name \<notin> set wire_numbers \<Longrightarrow> name \<notin> {''signature'', ''timeInForce''}
     \<Longrightarrow> map_of body name = Some x"
  unfolding says_exactly_def by metis

lemma order_saysI:
  assumes "lifecycle_message d role cid parent cq quantity chain_id = Inr m"
    "exact_evedex_integer (rd_quantity d) what = Inr quantity"
    "\<And>name. map_of m' name = map_of m name" "says_exactly m' body s"
  shows "order_says d role parent cq body"
  using assms(1,2)
  by (cases role)
    (auto simp: order_says_def reads_text_def lifecycle_message_def rbind_eq_Inr wire_numbers_def assms(3)
      intro!: reads_field [OF assms(4)] reads_number [OF assms(4)] split: if_splits option.splits)

fun order_guard :: "live_config \<Rightarrow> chain_trace \<Rightarrow> chain_request \<Rightarrow> bool" where
  "order_guard V h (Send path body) \<longleftrightarrow> (\<exists>i e tr d0 d role parent close_quantity. decided V h i e tr d0
     \<and> call_agrees e tr d0 role parent close_quantity \<and> revalidated V d0 d \<and> live_decision V d
     \<and> order_says d role parent close_quantity body)"
| "order_guard V h _ \<longleftrightarrow> True"

text \<open>C8: Whatever the collaborators answer, every order that a life-cycle call sends to the production venue is an
  order of a stored, approved decision: its durable PREPARED effect, its trade and the decision in the
  trade's payload were read and their chains verified; the decision is LIVE, unleveraged, on the bound
  account, strategy and an approved instrument; the body names that instrument and the effect's side, its
  quantity and price read exactly as the decision's quantity, worst entry price, stop or target, a
  protection names the entry's client order id, and an exit asks for a positive quantity no larger
  than the decision's.\<close>

theorem orders_match_decision: "guarded (order_guard V) (live_history env V calls)"
proof (rule guarded_mono [OF live_guarded])
  fix h r
  assume g: "live_guard V h r"
  show "order_guard V h r"
  proof (cases r)
    case (Send path body)
    then obtain w m' u where w: "planned V h (wr_signing_request w)" "validate_effect (chain_codec (lc_chain V)) w = Inr m'"
        "sent_body w m' body" "signature_proven (lc_chain V) w m' u"
      using g by (fastforce simp: may_send_def)
    obtain i e tr d0 d role parent cq where p: "decided V h i e tr d0" "call_agrees e tr d0 role parent cq"
        "revalidated V d0 d" "live_decision V d" "request_of V d role parent cq (wr_signing_request w)"
      using w(1) unfolding planned_def by blast
    obtain cid quantity m chain_id where q: "exact_evedex_integer (rd_quantity d) ''decision quantity'' = Inr quantity"
        "lifecycle_message d role cid parent cq quantity chain_id = Inr m"
        "sq_message_json (wr_signing_request w) = compact_text (JObj m)"
      using p(5) unfolding request_of_def by blast
    obtain schema where "typed_message (wr_signing_request w) (wr_custody_binding w) = Inr (schema, m')"
      using w(4) by (auto simp: signature_proven_def Let_def)
    then have "order_says d role parent cq body"
      using order_saysI [OF q(2,1)] typed_lifecycle [OF lifecycle_message_plain [OF q(2)] q(3)] sent_body_says [OF w(3)] by blast
    then show ?thesis unfolding Send order_guard.simps using p(1-4) by blast
  qed simp_all
qed

section \<open>One-use claims\<close>

lemma cancel_claims_first: "claims_first (cancel_rule K)"
  unfolding claims_first_def
proof (intro allI impI)
  fix h q
  assume "cancel_rule K h q" "spends q"
  then show "\<exists>kind ns i sha u v. h = u @ granted kind ns i sha # v \<and> all_asks silent v"
    by (cases q) (auto simp: may_cancel_def, blast+)
qed

text \<open>C5: Against the claims database with its transactions, from any contents and with connections that fail
  before or after a commit: every signature, every send and every cancellation is preceded by a granted
  one-use claim, and no two of them use the same claim; in every session of signing requests and in
  every session of life-cycle calls.\<close>

theorem claims_are_used_once:
  "None \<notin> set (used_claims (chain_history (with_store faults cx db env) H qs))
   \<and> distinct (used_claims (chain_history (with_store faults cx db env) H qs))
   \<and> None \<notin> set (used_claims (live_history (with_store faults cx db env) V calls))
   \<and> distinct (used_claims (live_history (with_store faults cx db env) V calls))"
proof -
  let ?env = "with_store faults cx db env"
  have "follows (chain_history ?env H qs) ?env" "follows (live_history ?env V calls) ?env"
    by (simp_all add: chain_history_def live_history_def run_follows)
  then show ?thesis
    using used_once [OF chain_guarded _ claims_first_False] used_once [OF live_guarded _ cancel_claims_first] by blast
qed

lemma live_history_limits: "guarded (limits_guard (lc_chain V)) (live_history env V calls)"
  by (rule guarded_mono [OF live_guarded]) (rule limits_of_guard)

section \<open>Cancellations\<close>

text \<open>The owner's signed arm behind the history.\<close>

definition owner_signed :: "cancel_config \<Rightarrow> chain_trace \<Rightarrow> bool" where
  "owner_signed K u \<longleftrightarrow> (\<exists>sha arm c. (Owner_Lineage sha, Inr (Lineage arm c)) \<in> set u
     \<and> arm_signature_ok (cn_codec K) (cn_owner_key K) arm \<and> sha = digest_of (arm_payload (cn_codec K) (sa_request arm))
     \<and> ma_context (sa_request arm) = cn_context K \<and> an_request_sha256 c = sha)"

definition trade_owns :: "cancel_config \<Rightarrow> order_role \<Rightarrow> string \<Rightarrow> live_trade \<Rightarrow> bool" where
  "trade_owns K role target tr \<longleftrightarrow> lt_trading_mode tr = ''LIVE'' \<and> tw_account_id tr = px_remote_account_id (cn_context K)
     \<and> (if role = ENTRY then tw_entry_client_order_id tr = target else role_exchange_id tr role = Some target)"

definition fresh_facts :: "venue_snapshot \<Rightarrow> instant \<Rightarrow> bool" where
  "fresh_facts s now \<longleftrightarrow> vs_observed_at s \<le> now \<and> now - vs_observed_at s \<le> seconds 5 \<and> now < vs_valid_until s"

definition cancel_justified :: "cancel_config \<Rightarrow> chain_trace \<Rightarrow> order_role \<Rightarrow> string \<Rightarrow> string \<Rightarrow> string \<Rightarrow> bool" where
  "cancel_justified K h role i instr target \<longleftrightarrow> (\<exists>u sha w now tr s instr' source raw.
     h = u @ granted ''WIRE_DISPATCH'' (cancel_namespace K) i sha # w @ [(Read_Wall, Inr (Wall (utc now)))]
     \<and> all_asks silent w \<and> same_plan K instr instr' \<and> owner_signed K w
     \<and> (Get_Trade (Some (tw_trade_id tr)), Inr (Trade_Row (Some tr))) \<in> set w \<and> trade_owns K role target tr
     \<and> (Check_Venue source raw (cn_context K) (px_remote_account_id (cn_context K)) instr', Inr (Venue_Facts s)) \<in> set w
     \<and> fresh_facts s now
     \<and> exposure_covered (tw_entry_client_order_id tr) instr' (without_target (role = ENTRY) target s))"

fun cancel_safe :: "live_config \<Rightarrow> chain_trace \<Rightarrow> chain_request \<Rightarrow> bool" where
  "cancel_safe V h (Cancel_Entry i instr x) \<longleftrightarrow> cancel_justified (lc_cancel V) h ENTRY i instr x"
| "cancel_safe V h (Cancel_Protection i instr x) \<longleftrightarrow> (\<exists>role. role \<noteq> ENTRY \<and> cancel_justified (lc_cancel V) h role i instr x)"
| "cancel_safe V h (Confirm_Effect i x m) \<longleftrightarrow> answered_cancel h x m"
| "cancel_safe V h _ \<longleftrightarrow> True"

lemma proof_owner_signed:
  assumes "proof_owner K u"
  shows "owner_signed K u"
proof -
  obtain sha arm c now where c: "(Owner_Lineage sha, Inr (Lineage arm c)) \<in> set u" "verify_owner_lineage K arm c sha now = Inr ()"
    using assms unfolding proof_owner_def by blast
  obtain a digest where a: "verify_owner_signed_arm (cn_codec K) arm (cn_preconditions K) (cn_owner_key K) (cn_owner_key_sha256 K)
      (cn_owner K) (an_claimed_at c) (cn_arm_lifetime K) = Inr (a, digest)"
    using c(2) by (auto simp: verify_owner_lineage_def split: sum.splits)
  then have "digest = sha" "ma_context a = cn_context K" "an_request_sha256 c = sha"
    using c(2) by (simp_all add: verify_owner_lineage_def ensure_ok_iff)
  then show ?thesis using c(1) owner_armD [OF a] unfolding owner_signed_def by metis
qed

lemma proof_owns:
  assumes "proof_rows K role i instr target tr u" "proof_origin K role target tr u'"
  shows "trade_owns K role target tr"
proof -
  have "validate_trade K tr (tw_trade_id tr) = Inr ()" using assms(1) by (auto simp: proof_rows_def)
  moreover obtain o1 key where "own_origin o1 tr key role target"
    using assms(2) by (auto simp: proof_origin_def validate_origin_def rbind_eq_Inr ensure_ok_iff)
  ultimately show ?thesis
    by (auto simp: trade_owns_def validate_trade_def own_origin_def role_client_id_def ensure_ok_iff)
qed

lemma proof_fresh:
  "validate_venue s tr instr target role source now = Inr () \<Longrightarrow> fresh_facts s now"
  by (auto simp: validate_venue_def fresh_facts_def rbind_eq_Inr ensure_ok_iff snapshot_max_age_def)

lemma may_cancel_justified:
  assumes "may_cancel K h role i instr target"
  shows "cancel_justified K h role i instr target"
proof -
  obtain sha u v instr' where h: "h = u @ granted ''WIRE_DISPATCH'' (cancel_namespace K) i sha # v" "all_asks silent v"
      "cancel_proof K role i instr' target v" "same_plan K instr instr'"
    using assms unfolding may_cancel_def by blast
  obtain tr s now w where w: "v = w @ [(Read_Wall, Inr (Wall (utc now)))]" "proof_rows K role i instr' target tr w"
      "proof_origin K role target tr w" "proof_owner K w" "proof_venue K role instr' target tr s now w"
    using h(3) unfolding cancel_proof_def by blast
  obtain source raw source' where s: "(Check_Venue source raw (cn_context K) (px_remote_account_id (cn_context K)) instr', Inr (Venue_Facts s)) \<in> set w"
      "validate_snapshot s = Inr ()" "validate_venue s tr instr' target role source' now = Inr ()"
    using w(5) unfolding proof_venue_def by blast
  have row: "(Get_Trade (Some (tw_trade_id tr)), Inr (Trade_Row (Some tr))) \<in> set w" using w(2) by (auto simp: proof_rows_def)
  have "h = u @ granted ''WIRE_DISPATCH'' (cancel_namespace K) i sha # w @ [(Read_Wall, Inr (Wall (utc now)))]" "all_asks silent w"
    using h(1,2) w(1) by simp_all
  then show ?thesis
    unfolding cancel_justified_def
    using h(4) row s(1) proof_owner_signed [OF w(4)] proof_owns [OF w(2,3)] proof_fresh [OF s(3)] venue_covered [OF s(2,3)] by blast
qed

text \<open>C9: Whatever the collaborators answer, the venue is asked to cancel only after a one-use claim for that
  effect was granted, and after the claim everything was proved again: an arm signed by the owner's key,
  a LIVE trade of the account that owns the order or protection, and venue facts at most five seconds old
  by the last reading of the clock, in which the position stays covered once the target is gone: it is
  flat, or a stop of the trade or a reduce-only exit covers all of it. The journal is told that a
  cancellation happened only after the venue acknowledged that target as canceled.\<close>

theorem cancellations_are_safe: "guarded (cancel_safe V) (live_history env V calls)"
proof (rule guarded_mono [OF live_guarded])
  fix h r
  assume "live_guard V h r"
  then show "cancel_safe V h r"
    by (cases r) (auto intro: may_cancel_justified)
qed

end
