(* ===== verification/Spec2Isabelle.thy ===== *)
theory Spec2Isabelle
  imports Sim_Kernel_Theorems Sim_Controller_Theorems Trailing_Theorems Paper_Theorems Paper_Checks Paper_Audit
    Paper_Recursion Paper_Clock Exec_Theorems Prod_Theorems Prod_Order_Theorems
begin

text \<open>
  A verification library for the execution engine in \<^verbatim>\<open>kairos_execution/\<close>.

  The program receives risk-approved decisions and drives them through a venue. It has four execution
  paths that share one vocabulary of orders: the execution core (\<^verbatim>\<open>engine.py\<close>) over a journaled adapter
  (\<^verbatim>\<open>journaled_adapter.py\<close>), the PAPER engine (\<^verbatim>\<open>paper_engine.py\<close>) with a durable life cycle per trade, the
  deterministic market simulator (\<^verbatim>\<open>simulation/\<close>) that stands in for a venue, and the production path, a
  chain of one-use authorizations around the same life cycle.

  \<^bold>\<open>Foundations.\<close>
  \<^item> \<open>Prelude\<close>: exceptions as values (\<open>exn\<close>, \<open>res\<close>), ordered checks (\<open>ensure\<close>), insertion-ordered
    dictionaries, the lemma collections.
  \<^item> \<open>Rounding\<close>, \<open>Decimal\<close>, \<open>Float64\<close>: one rounding locale, interpreted for the 96-digit and the 28-digit
    decimal contexts and for binary64. A decimal or a finite float is its rational value; every operation
    rounds as the context does. \<open>frepr\<close>, Python's shortest \<^verbatim>\<open>repr\<close>, tries 1 to 17 digits, and \<open>frepr_total\<close>
    proves that 17 always suffice.
  \<^item> \<open>Json\<close>, \<open>Sha256\<close>, \<open>Py_Text\<close>: canonical JSON text, the hash of the fingerprints, and Python's text,
    number and date conversions, all executable.
  \<^item> \<open>Interaction\<close>, \<open>Interaction_Rules\<close>: programs that await a repository, a venue, a clock or a lock are
    trees of requests; the environment chooses every answer, an exception included, from the whole
    history, and attributes of \<^verbatim>\<open>self\<close> are the state. \<open>safe\<close>, \<open>wp\<close> and \<open>does\<close> prove properties of all
    histories by one rule per combinator (\<open>does_rules\<close>).

  \<^bold>\<open>The market simulator.\<close> \<open>Sim_Models\<close> (\<^verbatim>\<open>models.py\<close>), \<open>Sim_Kernel\<close> (\<^verbatim>\<open>fill_model.py\<close>), \<open>Sim_Bridge\<close>
  (\<^verbatim>\<open>bridge.py\<close>) and \<open>Sim_Controller\<close> (\<^verbatim>\<open>controller.py\<close>) translate the four modules. \<open>Sim_Kernel_Exact\<close> and
  \<open>Sim_Kernel_Total\<close> prove that on validated inputs no validation of the kernel fails and its step is the one of a
  reference walk over exact rationals, where only the average price is rounded; \<open>Sim_Kernel_Props\<close> and
  \<open>Sim_Kernel_Theorems\<close> derive causality, conservation, prices, non-replenishment and the record a session
  keeps, and replay. \<open>Sim_Controller_Proofs\<close> and \<open>Sim_Controller_Theorems\<close> prove the controller's write
  discipline against every repository, and that an evaluation starts from the state it answered.

  \<^bold>\<open>Orders and the execution core.\<close> \<open>Orders\<close> (\<^verbatim>\<open>state_machine.py\<close>) has the order automaton and the venue's
  client identifiers; \<open>Trailing\<close> (\<^verbatim>\<open>trailing.py\<close>, \<^verbatim>\<open>ratelimit.py\<close>) and \<open>Trailing_Theorems\<close> the ratchet and the
  token bucket in binary64. \<open>Exec_Types\<close> (\<^verbatim>\<open>reason_router.py\<close>, the calls of \<^verbatim>\<open>adapters/base.py\<close>),
  \<open>Exec_Engine\<close> (\<^verbatim>\<open>engine.py\<close>) and \<open>Exec_Journal\<close> (\<^verbatim>\<open>journaled_adapter.py\<close>) translate the core; the engine
  over the adapter is the composition \<open>handled (journaled J) (handle_order C order)\<close>. \<open>Exec_Rules\<close>
  has the rows of the mutations (\<open>call_row\<close>), what may be sent, confirmed and reconciled (\<open>may_send\<close>,
  \<open>may_confirm\<close>, \<open>may_reconcile\<close>), and proves every operation of the adapter against it; \<open>Exec_Lifecycle\<close>
  does so for the engine, and \<open>Exec_Theorems\<close> states the properties.

  \<^bold>\<open>The PAPER engine\<close> (\<^verbatim>\<open>paper_engine.py\<close>, \<^verbatim>\<open>lifecycle_scope.py\<close>). \<open>Paper_Types\<close> has the contracts' fields,
  requests and responses; \<open>Paper_Venue\<close> reads untyped venue JSON; \<open>Paper_Policy\<close> is admission and geometry;
  \<open>Paper_Account\<close> the account-wide audit; \<open>Paper_Effects\<close> the write-ahead effects, entry, protection and
  closing; \<open>Paper_Engine\<close> the public operations. \<open>Paper_Guards\<close> has the guards as the locales
  \<open>lifecycle_guard\<close> and \<open>entry_guard\<close>; \<open>Paper_Lifecycle\<close> proves every operation against every guard of the
  interface once, and \<open>Paper_Theorems\<close> interprets it for six guards. \<open>Paper_Evidence\<close> and \<open>Paper_Checks\<close>
  say what the pure checks establish, \<open>Paper_Audit\<close> refines the audit to its specification \<open>account_clean\<close>,
  \<open>Paper_Recursion\<close> shows that reconciliation recurs once, \<open>Paper_Clock\<close> that millisecond instants survive.

  \<^bold>\<open>The production chain.\<close> \<open>Prod_Records\<close> (\<^verbatim>\<open>production_readiness.py\<close>), \<open>Prod_Messages\<close> (\<^verbatim>\<open>crypto.py\<close>, the
  messages of \<^verbatim>\<open>managed_signer.py\<close> and the REST body of \<^verbatim>\<open>production_dispatch.py\<close>), \<open>Prod_Authorization\<close>
  (\<^verbatim>\<open>signing_authorization.py\<close>), \<open>Prod_Claims\<close> (\<^verbatim>\<open>production_claims.py\<close>) and \<open>Prod_Chain\<close> (signer,
  dispatcher, \<^verbatim>\<open>production_runtime.py\<close>) take one signing request to the venue; messages are read by the
  JSON scanner of \<open>Json_Parse\<close>. The claims store is a transaction per call over its tables, and meets the
  interface \<open>one_use_store\<close>: over any calls and lost connections a key is granted once. \<open>Prod_Rules\<close> and
  \<open>Prod_Session\<close> prove the guard of the chain for every environment and, in the locale \<open>request_history\<close>,
  for every account of where its signing requests come from; \<open>Prod_Wire\<close> shows that the body sent reads
  back as the signed integers, \<open>Prod_Limits\<close> that the rounded comparisons of the policy bound the exact
  amounts, and \<open>Prod_Theorems\<close> states the properties for the listed requests of a session.

  \<^bold>\<open>The production life cycle.\<close> \<open>Prod_Binding\<close> (\<^verbatim>\<open>production_lifecycle_binding.py\<close>) rebuilds the one signing
  request of an effect from the approved decision; \<open>Prod_Venue\<close> and \<open>Prod_Cancel\<close>
  (\<^verbatim>\<open>production_cancellation.py\<close>) prove the ownership of an order or protection on durable lineage and fresh
  venue facts, claim its cancellation once and prove it again; \<open>Prod_Adapter\<close>
  (\<^verbatim>\<open>production_lifecycle_adapter.py\<close>) has the calls that place an entry, its protections and its exit, and
  that cancel them. \<open>Prod_Cancel_Rules\<close> proves the rule of cancellations and that a position stays covered
  once the target is gone; \<open>Prod_Orders\<close> interprets \<open>request_history\<close> with \<open>planned\<close>: a request is the stored
  plan of a prepared effect, rebuilt from the decision that the history read. \<open>Prod_Order_Theorems\<close> joins
  both ends: what the venue is sent says what the decision says, claims are used once over signatures,
  sends and cancellations, and cancellations are safe.

  \<^bold>\<open>Bounds.\<close> The settlement of an effect has the program's own number of attempts; \<open>reconcile_trade\<close> has
  depth 2, which \<open>reconciliation_recurs_once\<close> shows is never reached; \<open>frac_digits\<close> uses 120 places, above
  the 96 of the largest context; all other recursion is structural.

  \<^bold>\<open>What is outside and how it enters.\<close> The contracts of \<^verbatim>\<open>kairos_core\<close>, the repositories, the venue and
  its SDK, the clocks and the event loop are not in the source tree. Constructors and payload functions of
  contracts are fields of a configuration record about which nothing is assumed; repositories, venues,
  clocks and locks are the environment. The theorems about histories have no hypotheses on them.

  \<^bold>\<open>Not modelled.\<close> The venue clients of \<^verbatim>\<open>adapters/\<close> and the sidecar (HTTP, WebSocket and process I/O), the
  services and command lines (process wiring), the custody process and Ed25519/EIP-712 cryptography
  (third-party), and of the production path the capture, assembly and database reading, the verification
  of readiness evidence, the provisioning and inspection of the claims database, the synchronous variants
  of signer and policy, the forwarded reads of the adapter, and the object-identity
  checks of constructors. Logging, metrics and sleeping are
  omitted everywhere. Cancellation of a task at an await is an exception answered by the environment.
\<close>

end
